(* ===== verification/Prelude.thy ===== *)
theory Prelude
  imports Complex_Main "HOL-Library.Multiset"
begin

text \<open>
  Vocabulary shared by every theory of the development: results of code that may raise,
  traversals that stop at the first error, insertion-ordered dictionaries, the stable descending
  sort of Python, and the generic locale of machines that keep an invariant.

  A Python function that returns an \<open>'a\<close> or raises is modelled by a value of
  \<open>'e + 'a\<close>: \<open>Inl e\<close> is the raise and \<open>Inr a\<close> the return.
\<close>

named_theorems raise_simps \<open>when a computation raises or returns\<close>
named_theorems yields_rules \<open>taking a computation apart\<close>
named_theorems dict_simps \<open>lookups after updates of ordered dictionaries\<close>

section \<open>Computations that may raise\<close>

type_synonym ('e, 'a) outcome = "'e + 'a"

definition bindE :: "('e, 'a) outcome \<Rightarrow> ('a \<Rightarrow> ('e, 'b) outcome) \<Rightarrow> ('e, 'b) outcome" where
  "bindE m f = (case m of Inl e \<Rightarrow> Inl e | Inr a \<Rightarrow> f a)"

lemma bindE_simps [simp]:
  "bindE (Inl e) f = Inl e"
  "bindE (Inr a) f = f a"
  by (simp_all add: bindE_def)

lemma bindE_Inr [raise_simps]: "bindE m f = Inr b \<longleftrightarrow> (\<exists>a. m = Inr a \<and> f a = Inr b)"
  by (cases m) auto

lemma bindE_elim: "bindE m f = Inr b \<Longrightarrow> (\<And>a. m = Inr a \<Longrightarrow> f a = Inr b \<Longrightarrow> P) \<Longrightarrow> P"
  by (auto simp: bindE_Inr)

lemma bindE_Inl [raise_simps]:
  "bindE m f = Inl e \<longleftrightarrow> m = Inl e \<or> (\<exists>a. m = Inr a \<and> f a = Inl e)"
  by (cases m) auto

text \<open>\<open>if not b: raise e\<close>\<close>

definition require :: "bool \<Rightarrow> 'e \<Rightarrow> ('e, unit) outcome" where
  "require b e = (if b then Inr () else Inl e)"

lemma require_Inr [raise_simps]: "require b e = Inr u \<longleftrightarrow> b"
  by (simp add: require_def)

lemma require_Inl [raise_simps]: "require b e = Inl e' \<longleftrightarrow> \<not> b \<and> e' = e"
  by (auto simp: require_def)

lemma require_True [simp]: "require True e = Inr ()"
  by (simp add: require_def)

lemma require_False [simp]: "require False e = Inl e"
  by (simp add: require_def)

text \<open>\<open>if x is None: raise e\<close>\<close>

definition some_or :: "'a option \<Rightarrow> 'e \<Rightarrow> ('e, 'a) outcome" where
  "some_or x e = (case x of None \<Rightarrow> Inl e | Some a \<Rightarrow> Inr a)"

lemma some_or_simps [simp]:
  "some_or None e = Inl e"
  "some_or (Some a) e = Inr a"
  by (simp_all add: some_or_def)

lemma some_or_Inr [raise_simps]: "some_or x e = Inr a \<longleftrightarrow> x = Some a"
  by (cases x) auto

lemma some_or_Inl [raise_simps]: "some_or x e = Inl e' \<longleftrightarrow> x = None \<and> e' = e"
  by (cases x) auto

text \<open>A list comprehension whose element expression may raise.\<close>

fun mapE :: "('a \<Rightarrow> ('e, 'b) outcome) \<Rightarrow> 'a list \<Rightarrow> ('e, 'b list) outcome" where
  "mapE f [] = Inr []"
| "mapE f (x # xs) = bindE (f x) (\<lambda>y. bindE (mapE f xs) (\<lambda>ys. Inr (y # ys)))"

lemma mapE_Inr: "mapE f xs = Inr ys \<longleftrightarrow> list_all2 (\<lambda>x y. f x = Inr y) xs ys"
proof (induction xs arbitrary: ys)
  case Nil
  then show ?case by auto
next
  case (Cons x xs)
  then show ?case by (cases ys) (auto simp: raise_simps)
qed

lemma mapE_length: "mapE f xs = Inr ys \<Longrightarrow> length ys = length xs"
  by (simp add: mapE_Inr list_all2_lengthD)

lemma mapE_in: "mapE f xs = Inr ys \<Longrightarrow> x \<in> set xs \<Longrightarrow> \<exists>y \<in> set ys. f x = Inr y"
  by (induction xs arbitrary: ys) (auto simp: raise_simps)

lemma mapE_out: "mapE f xs = Inr ys \<Longrightarrow> y \<in> set ys \<Longrightarrow> \<exists>x \<in> set xs. f x = Inr y"
  by (induction xs arbitrary: ys) (auto simp: raise_simps)

lemma mapE_total: "(\<And>x. x \<in> set xs \<Longrightarrow> f x = Inr (g x)) \<Longrightarrow> mapE f xs = Inr (map g xs)"
  by (induction xs) auto

text \<open>A \<open>for\<close> loop over a state whose body may raise.\<close>

fun foldE :: "('a \<Rightarrow> 's \<Rightarrow> ('e, 's) outcome) \<Rightarrow> 'a list \<Rightarrow> 's \<Rightarrow> ('e, 's) outcome" where
  "foldE f [] s = Inr s"
| "foldE f (x # xs) s = bindE (f x s) (foldE f xs)"

lemma foldE_keeps:
  "foldE f xs s = Inr s' \<Longrightarrow> P s \<Longrightarrow> (\<And>x s s'. x \<in> set xs \<Longrightarrow> f x s = Inr s' \<Longrightarrow> P s \<Longrightarrow> P s') \<Longrightarrow> P s'"
proof (induction xs arbitrary: s)
  case Nil
  then show ?case by simp
next
  case (Cons x xs)
  then obtain t where t: "f x s = Inr t" "foldE f xs t = Inr s'" by (auto simp: raise_simps)
  have "P t" by (rule Cons.prems(3) [OF _ t(1) Cons.prems(2)]) simp
  then show ?case by (rule Cons.IH [OF t(2)]) (use Cons.prems(3) in auto)
qed

text \<open>An exception of a callee surfaces unchanged: \<open>lift_error\<close> only records its origin.\<close>

definition lift_error :: "('e \<Rightarrow> 'f) \<Rightarrow> ('e, 'a) outcome \<Rightarrow> ('f, 'a) outcome" where
  "lift_error h m = (case m of Inl e \<Rightarrow> Inl (h e) | Inr a \<Rightarrow> Inr a)"

lemma lift_error_iff [raise_simps]:
  "lift_error h m = Inr a \<longleftrightarrow> m = Inr a"
  "lift_error h m = Inl f \<longleftrightarrow> (\<exists>e. m = Inl e \<and> f = h e)"
  by (cases m; auto simp: lift_error_def)+

lemma lift_error_simps [simp]: "lift_error h (Inr a) = Inr a" "lift_error h (Inl e) = Inl (h e)"
  by (simp_all add: lift_error_def)

text \<open>
  What holds of everything a computation can return. The rules take a computation apart along its code,
  so that a goal is left for every way it returns, with what each step on the way has returned.
\<close>

definition yields :: "('a \<Rightarrow> bool) \<Rightarrow> ('e, 'a) outcome \<Rightarrow> bool" where
  "yields Q m \<longleftrightarrow> (\<forall>a. m = Inr a \<longrightarrow> Q a)"

lemma yieldsD: "yields Q m \<Longrightarrow> m = Inr a \<Longrightarrow> Q a"
  by (simp add: yields_def)

lemma yields_bind [yields_rules]: "(\<And>a. m = Inr a \<Longrightarrow> yields Q (f a)) \<Longrightarrow> yields Q (bindE m f)"
  by (auto simp: yields_def raise_simps)

lemma yields_Inr [yields_rules]: "Q a \<Longrightarrow> yields Q (Inr a)"
  by (simp add: yields_def)

lemma yields_Inl [yields_rules]: "yields Q (Inl e)"
  by (simp add: yields_def)

lemma yields_if [yields_rules]:
  "(b \<Longrightarrow> yields Q m) \<Longrightarrow> (\<not> b \<Longrightarrow> yields Q m') \<Longrightarrow> yields Q (if b then m else m')"
  by simp

lemma yields_option [yields_rules]:
  "(v = None \<Longrightarrow> yields Q m) \<Longrightarrow> (\<And>x. v = Some x \<Longrightarrow> yields Q (f x)) \<Longrightarrow> yields Q (case v of None \<Rightarrow> m | Some x \<Rightarrow> f x)"
  by (cases v) simp_all

lemma yields_pair [yields_rules]:
  "(\<And>x y. p = (x, y) \<Longrightarrow> yields Q (f x y)) \<Longrightarrow> yields Q (case p of (x, y) \<Rightarrow> f x y)"
  by (cases p) simp

lemma yields_let [yields_rules]: "yields Q (f v) \<Longrightarrow> yields Q (let x = v in f x)"
  by simp

section \<open>Searching a list\<close>

lemma find_SomeD: "find P xs = Some x \<Longrightarrow> P x \<and> x \<in> set xs"
  by (induction xs) (auto split: if_splits)

section \<open>Dictionaries that remember insertion order\<close>

text \<open>
  A Python \<open>dict\<close> iterates in the order its keys were first inserted; storing under a key that
  is present replaces the value in place.
\<close>

type_synonym ('k, 'v) dict = "('k \<times> 'v) list"

fun dict_put :: "'k \<Rightarrow> 'v \<Rightarrow> ('k, 'v) dict \<Rightarrow> ('k, 'v) dict" where
  "dict_put k v [] = [(k, v)]"
| "dict_put k v ((k', v') # d) = (if k' = k then (k, v) # d else (k', v') # dict_put k v d)"

definition dict_keys :: "('k, 'v) dict \<Rightarrow> 'k list" where
  "dict_keys d = map fst d"

definition dict_of :: "('k \<times> 'v) list \<Rightarrow> ('k, 'v) dict" where
  "dict_of kvs = fold (\<lambda>(k, v). dict_put k v) kvs []"

lemma dict_put_lookup [dict_simps]: "map_of (dict_put k v d) = (map_of d)(k \<mapsto> v)"
  by (induction d) (auto simp: fun_eq_iff)

lemma dict_put_keys: "set (dict_keys (dict_put k v d)) = insert k (set (dict_keys d))"
proof -
  have "fst ` set (dict_put k v d) = insert k (fst ` set d)"
    by (induction k v d rule: dict_put.induct) (simp_all add: insert_commute)
  then show ?thesis by (simp add: dict_keys_def)
qed

lemma dict_put_distinct: "distinct (dict_keys d) \<Longrightarrow> distinct (dict_keys (dict_put k v d))"
proof (induction d)
  case Nil
  then show ?case by (simp add: dict_keys_def)
next
  case (Cons a d)
  then show ?case
    using dict_put_keys [of k v d] by (cases a) (auto simp: dict_keys_def)
qed

lemma fold_dict_put_distinct:
  "distinct (dict_keys d) \<Longrightarrow> distinct (dict_keys (fold (\<lambda>(k, v). dict_put k v) kvs d))"
  by (induction kvs arbitrary: d) (auto simp: dict_put_distinct)

lemma dict_of_distinct: "distinct (dict_keys (dict_of kvs))"
  unfolding dict_of_def by (rule fold_dict_put_distinct) (simp add: dict_keys_def)

lemma fold_dict_put_lookup:
  "map_of (fold (\<lambda>(k, v). dict_put k v) kvs d) = map_of d ++ map_of (rev kvs)"
proof (induction kvs arbitrary: d)
  case Nil
  then show ?case by simp
next
  case (Cons a kvs)
  then show ?case by (cases a) (simp add: dict_simps map_add_def fun_eq_iff split: option.split)
qed

text \<open>Building a dictionary from pairs keeps the last value stored under each key.\<close>

lemma dict_of_lookup [dict_simps]: "map_of (dict_of kvs) = map_of (rev kvs)"
  by (simp add: dict_of_def fold_dict_put_lookup)

section \<open>Stable sorting\<close>

text \<open>
  \<open>sorted(xs, key=f, reverse=True)\<close> sorts in descending order of \<open>f\<close> and keeps the
  original order of elements with equal keys.
\<close>

definition sorted_desc :: "('a \<Rightarrow> rat) \<Rightarrow> 'a list \<Rightarrow> 'a list" where
  "sorted_desc f xs = sort_key (\<lambda>x. - f x) xs"

lemma set_sorted_desc [simp]: "set (sorted_desc f xs) = set xs"
  by (simp add: sorted_desc_def)

lemma length_sorted_desc [simp]: "length (sorted_desc f xs) = length xs"
  by (simp add: sorted_desc_def)

lemma mset_sorted_desc [simp]: "mset (sorted_desc f xs) = mset xs"
  by (simp add: sorted_desc_def)

lemma sorted_desc_Nil [simp]: "sorted_desc f [] = []"
  by (simp add: sorted_desc_def)

lemma sorted_desc_eq_Nil [simp]: "sorted_desc f xs = [] \<longleftrightarrow> xs = []"
  by (metis length_0_conv length_sorted_desc)

lemma sorted_desc_sorted: "sorted_wrt (\<lambda>x y. f y \<le> f x) (sorted_desc f xs)"
proof -
  have "sorted (map (\<lambda>x. - f x) (sorted_desc f xs))"
    unfolding sorted_desc_def by (rule sorted_sort_key)
  then show ?thesis
    by (simp add: sorted_wrt_map)
qed

lemma sorted_desc_stable: "filter (\<lambda>x. f x = k) (sorted_desc f xs) = filter (\<lambda>x. f x = k) xs"
proof -
  have "filter (\<lambda>x. - f x = - k) (sort_key (\<lambda>x. - f x) xs) = filter (\<lambda>x. - f x = - k) xs"
    by (rule sort_key_stable)
  then show ?thesis by (simp add: sorted_desc_def)
qed

lemma sorted_desc_head_max: "sorted_desc f xs = t # ts \<Longrightarrow> x \<in> set xs \<Longrightarrow> f x \<le> f t"
proof -
  assume eq: "sorted_desc f xs = t # ts" and x: "x \<in> set xs"
  have "sorted_wrt (\<lambda>x y. f y \<le> f x) (t # ts)"
    using sorted_desc_sorted [of f xs] eq by simp
  moreover have "x \<in> set (t # ts)"
    using x eq by (metis set_sorted_desc)
  ultimately show ?thesis by auto
qed

section \<open>Machines that keep an invariant\<close>

text \<open>
  Several components are a state and a step function driven by a sequence of requests. What every
  step keeps, every run keeps; and what holds at the start holds in every reachable state.
\<close>

locale machine =
  fixes step :: "'s \<Rightarrow> 'e \<Rightarrow> 's"
    and inv :: "'s \<Rightarrow> bool"
  assumes step_inv: "inv s \<Longrightarrow> inv (step s e)"
begin

lemma run_inv: "inv s \<Longrightarrow> inv (fold (\<lambda>e s. step s e) es s)"
  by (induction es arbitrary: s) (auto intro: step_inv)

end

text \<open>A machine some of whose states are final for a fact: once it holds it stays.\<close>

locale absorbing_machine = machine +
  fixes final :: "'s \<Rightarrow> bool"
  assumes step_final: "inv s \<Longrightarrow> final s \<Longrightarrow> final (step s e)"
begin

lemma run_final: "inv s \<Longrightarrow> final s \<Longrightarrow> final (fold (\<lambda>e s. step s e) es s)"
  by (induction es arbitrary: s) (auto intro: step_inv step_final)

end

end
