(* ===== verification/Py_Text.thy ===== *)
theory Py_Text
  imports Prelude "HOL-Library.Sublist"
begin

text \<open>
  Python's \<open>str\<close> and the methods of it that the source calls. A \<open>str\<close> is a sequence of
  Unicode code points, so it is modelled as a list of naturals; \<open>lit ''abc''\<close> is the string
  literal whose characters are all ASCII. \<open>casefold\<close>, \<open>isdecimal\<close> and \<open>strip\<close> are given by
  the Unicode 15.0 data that CPython 3.12 ships: the tables below list every code point that
  \<open>str.casefold\<close> changes, every decimal-digit zero, and the whitespace test is the complete
  list of \<open>str.isspace\<close> code points.
\<close>

type_synonym str = "nat list"

definition lit :: "string \<Rightarrow> str" where
  "lit s = map of_char s"

lemma lit_eq_iff [simp]: "lit a = lit b \<longleftrightarrow> a = b"
  by (simp add: lit_def inj_map_eq_map inj_def)

lemma lit_Nil [simp]: "lit [] = []"
  by (simp add: lit_def)

lemma lit_eq_Nil [simp]: "lit s = [] \<longleftrightarrow> s = []" "[] = lit s \<longleftrightarrow> s = []"
  by (auto simp: lit_def)

section \<open>Whitespace\<close>

definition is_space :: "nat \<Rightarrow> bool" where
  "is_space c \<longleftrightarrow> (9 \<le> c \<and> c \<le> 13) \<or> (28 \<le> c \<and> c \<le> 32) \<or> c = 133 \<or> c = 160 \<or> c = 5760 \<or>
     (8192 \<le> c \<and> c \<le> 8202) \<or> c = 8232 \<or> c = 8233 \<or> c = 8239 \<or> c = 8287 \<or> c = 12288"

definition lstrip :: "str \<Rightarrow> str" where
  "lstrip s = dropWhile is_space s"

definition rstrip :: "str \<Rightarrow> str" where
  "rstrip s = rev (dropWhile is_space (rev s))"

definition strip :: "str \<Rightarrow> str" where
  "strip s = rstrip (lstrip s)"

text \<open>\<open>not s.strip()\<close>: the string is blank.\<close>

definition blank :: "str \<Rightarrow> bool" where
  "blank s \<longleftrightarrow> strip s = []"

lemma strip_Nil [simp]: "strip [] = []"
  by (simp add: strip_def lstrip_def rstrip_def)

lemma blank_iff: "blank s \<longleftrightarrow> list_all is_space s"
proof -
  have "strip s = [] \<longleftrightarrow> (\<forall>c \<in> set (dropWhile is_space s). is_space c)"
    by (simp add: strip_def rstrip_def lstrip_def dropWhile_eq_Nil_conv)
  also have "\<dots> \<longleftrightarrow> dropWhile is_space s = []"
    by (metis dropWhile_eq_Nil_conv hd_dropWhile hd_in_set set_dropWhileD)
  finally show ?thesis
    by (simp add: blank_def dropWhile_eq_Nil_conv list_all_iff)
qed

lemma hd_strip: "strip s \<noteq> [] \<Longrightarrow> \<not> is_space (hd (strip s))"
proof -
  assume ne: "strip s \<noteq> []"
  let ?t = "lstrip s"
  have pre: "prefix (strip s) ?t"
    unfolding strip_def rstrip_def
    by (metis prefix_def rev_append rev_rev_ident takeWhile_dropWhile_id)
  with ne have "hd (strip s) = hd ?t"
    by (metis hd_append2 prefix_def)
  moreover have "?t \<noteq> []"
    using pre ne by auto
  then have "\<not> is_space (hd ?t)"
    unfolding lstrip_def by (rule hd_dropWhile)
  ultimately show ?thesis by simp
qed

lemma last_rstrip: "rstrip s \<noteq> [] \<Longrightarrow> \<not> is_space (last (rstrip s))"
  unfolding rstrip_def by (simp add: last_rev hd_dropWhile)

lemma strip_fixed: "s \<noteq> [] \<Longrightarrow> \<not> is_space (hd s) \<Longrightarrow> \<not> is_space (last s) \<Longrightarrow> strip s = s"
proof -
  assume ne: "s \<noteq> []" and h: "\<not> is_space (hd s)" and l: "\<not> is_space (last s)"
  from ne h have "lstrip s = s"
    by (cases s) (simp_all add: lstrip_def)
  moreover from ne l have "dropWhile is_space (rev s) = rev s"
    by (metis hd_rev dropWhile_eq_self_iff)
  ultimately show ?thesis by (simp add: strip_def rstrip_def)
qed

text \<open>Stripping twice is stripping once.\<close>

lemma strip_idem [simp]: "strip (strip s) = strip s"
proof (cases "strip s = []")
  case True
  then show ?thesis by simp
next
  case False
  then show ?thesis
    using strip_fixed [OF False hd_strip [OF False]] last_rstrip
    unfolding strip_def by blast
qed

section \<open>Case folding\<close>

text \<open>
  The single-character case folds outside ASCII, as runs \<open>(first, last, step, image of first)\<close>,
  and the folds to several characters.
\<close>

definition casefold_runs :: "(nat \<times> nat \<times> nat \<times> nat) list" where
  "casefold_runs = [
   (181, 181, 1, 956), (192, 214, 1, 224), (216, 222, 1, 248), (256, 302, 2, 257),
    (306, 310, 2, 307), (313, 327, 2, 314), (330, 374, 2, 331), (376, 376, 1, 255),
    (377, 381, 2, 378), (383, 383, 1, 115), (385, 385, 1, 595), (386, 388, 2, 387),
    (390, 390, 1, 596), (391, 391, 1, 392), (393, 394, 1, 598), (395, 395, 1, 396),
    (398, 398, 1, 477), (399, 399, 1, 601), (400, 400, 1, 603), (401, 401, 1, 402),
    (403, 403, 1, 608), (404, 404, 1, 611), (406, 406, 1, 617), (407, 407, 1, 616),
    (408, 408, 1, 409), (412, 412, 1, 623), (413, 413, 1, 626), (415, 415, 1, 629),
    (416, 420, 2, 417), (422, 422, 1, 640), (423, 423, 1, 424), (425, 425, 1, 643),
    (428, 428, 1, 429), (430, 430, 1, 648), (431, 431, 1, 432), (433, 434, 1, 650),
    (435, 437, 2, 436), (439, 439, 1, 658), (440, 440, 1, 441), (444, 444, 1, 445),
    (452, 452, 1, 454), (453, 453, 1, 454), (455, 455, 1, 457), (456, 456, 1, 457),
    (458, 458, 1, 460), (459, 475, 2, 460), (478, 494, 2, 479), (497, 497, 1, 499),
    (498, 500, 2, 499), (502, 502, 1, 405), (503, 503, 1, 447), (504, 542, 2, 505),
    (544, 544, 1, 414), (546, 562, 2, 547), (570, 570, 1, 11365), (571, 571, 1, 572),
    (573, 573, 1, 410), (574, 574, 1, 11366), (577, 577, 1, 578), (579, 579, 1, 384),
    (580, 580, 1, 649), (581, 581, 1, 652), (582, 590, 2, 583), (837, 837, 1, 953),
    (880, 882, 2, 881), (886, 886, 1, 887), (895, 895, 1, 1011), (902, 902, 1, 940),
    (904, 906, 1, 941), (908, 908, 1, 972), (910, 911, 1, 973), (913, 929, 1, 945),
    (931, 939, 1, 963), (962, 962, 1, 963), (975, 975, 1, 983), (976, 976, 1, 946),
    (977, 977, 1, 952), (981, 981, 1, 966), (982, 982, 1, 960), (984, 1006, 2, 985),
    (1008, 1008, 1, 954), (1009, 1009, 1, 961), (1012, 1012, 1, 952), (1013, 1013, 1, 949),
    (1015, 1015, 1, 1016), (1017, 1017, 1, 1010), (1018, 1018, 1, 1019), (1021, 1023, 1, 891),
    (1024, 1039, 1, 1104), (1040, 1071, 1, 1072), (1120, 1152, 2, 1121), (1162, 1214, 2, 1163),
    (1216, 1216, 1, 1231), (1217, 1229, 2, 1218), (1232, 1326, 2, 1233), (1329, 1366, 1, 1377),
    (4256, 4293, 1, 11520), (4295, 4295, 1, 11559), (4301, 4301, 1, 11565),
    (5112, 5117, 1, 5104), (7296, 7296, 1, 1074), (7297, 7297, 1, 1076), (7298, 7298, 1, 1086),
    (7299, 7300, 1, 1089), (7301, 7301, 1, 1090), (7302, 7302, 1, 1098), (7303, 7303, 1, 1123),
    (7304, 7304, 1, 42571), (7312, 7354, 1, 4304), (7357, 7359, 1, 4349),
    (7680, 7828, 2, 7681), (7835, 7835, 1, 7777), (7840, 7934, 2, 7841), (7944, 7951, 1, 7936),
    (7960, 7965, 1, 7952), (7976, 7983, 1, 7968), (7992, 7999, 1, 7984), (8008, 8013, 1, 8000),
    (8025, 8031, 2, 8017), (8040, 8047, 1, 8032), (8120, 8121, 1, 8112), (8122, 8123, 1, 8048),
    (8126, 8126, 1, 953), (8136, 8139, 1, 8050), (8152, 8153, 1, 8144), (8154, 8155, 1, 8054),
    (8168, 8169, 1, 8160), (8170, 8171, 1, 8058), (8172, 8172, 1, 8165), (8184, 8185, 1, 8056),
    (8186, 8187, 1, 8060), (8486, 8486, 1, 969), (8490, 8490, 1, 107), (8491, 8491, 1, 229),
    (8498, 8498, 1, 8526), (8544, 8559, 1, 8560), (8579, 8579, 1, 8580), (9398, 9423, 1, 9424),
    (11264, 11311, 1, 11312), (11360, 11360, 1, 11361), (11362, 11362, 1, 619),
    (11363, 11363, 1, 7549), (11364, 11364, 1, 637), (11367, 11371, 2, 11368),
    (11373, 11373, 1, 593), (11374, 11374, 1, 625), (11375, 11375, 1, 592),
    (11376, 11376, 1, 594), (11378, 11378, 1, 11379), (11381, 11381, 1, 11382),
    (11390, 11391, 1, 575), (11392, 11490, 2, 11393), (11499, 11501, 2, 11500),
    (11506, 11506, 1, 11507), (42560, 42604, 2, 42561), (42624, 42650, 2, 42625),
    (42786, 42798, 2, 42787), (42802, 42862, 2, 42803), (42873, 42875, 2, 42874),
    (42877, 42877, 1, 7545), (42878, 42886, 2, 42879), (42891, 42891, 1, 42892),
    (42893, 42893, 1, 613), (42896, 42898, 2, 42897), (42902, 42920, 2, 42903),
    (42922, 42922, 1, 614), (42923, 42923, 1, 604), (42924, 42924, 1, 609),
    (42925, 42925, 1, 620), (42926, 42926, 1, 618), (42928, 42928, 1, 670),
    (42929, 42929, 1, 647), (42930, 42930, 1, 669), (42931, 42931, 1, 43859),
    (42932, 42946, 2, 42933), (42948, 42948, 1, 42900), (42949, 42949, 1, 642),
    (42950, 42950, 1, 7566), (42951, 42953, 2, 42952), (42960, 42960, 1, 42961),
    (42966, 42968, 2, 42967), (42997, 42997, 1, 42998), (43888, 43967, 1, 5024),
    (65313, 65338, 1, 65345), (66560, 66599, 1, 66600), (66736, 66771, 1, 66776),
    (66928, 66938, 1, 66967), (66940, 66954, 1, 66979), (66956, 66962, 1, 66995),
    (66964, 66965, 1, 67003), (68736, 68786, 1, 68800), (71840, 71871, 1, 71872),
    (93760, 93791, 1, 93792), (125184, 125217, 1, 125218)]"

definition casefold_multi :: "(nat \<times> nat list) list" where
  "casefold_multi = [
   (223, [115, 115]), (304, [105, 775]), (329, [700, 110]), (496, [106, 780]),
    (912, [953, 776, 769]), (944, [965, 776, 769]), (1415, [1381, 1410]), (7830, [104, 817]),
    (7831, [116, 776]), (7832, [119, 778]), (7833, [121, 778]), (7834, [97, 702]),
    (7838, [115, 115]), (8016, [965, 787]), (8018, [965, 787, 768]), (8020, [965, 787, 769]),
    (8022, [965, 787, 834]), (8064, [7936, 953]), (8065, [7937, 953]), (8066, [7938, 953]),
    (8067, [7939, 953]), (8068, [7940, 953]), (8069, [7941, 953]), (8070, [7942, 953]),
    (8071, [7943, 953]), (8072, [7936, 953]), (8073, [7937, 953]), (8074, [7938, 953]),
    (8075, [7939, 953]), (8076, [7940, 953]), (8077, [7941, 953]), (8078, [7942, 953]),
    (8079, [7943, 953]), (8080, [7968, 953]), (8081, [7969, 953]), (8082, [7970, 953]),
    (8083, [7971, 953]), (8084, [7972, 953]), (8085, [7973, 953]), (8086, [7974, 953]),
    (8087, [7975, 953]), (8088, [7968, 953]), (8089, [7969, 953]), (8090, [7970, 953]),
    (8091, [7971, 953]), (8092, [7972, 953]), (8093, [7973, 953]), (8094, [7974, 953]),
    (8095, [7975, 953]), (8096, [8032, 953]), (8097, [8033, 953]), (8098, [8034, 953]),
    (8099, [8035, 953]), (8100, [8036, 953]), (8101, [8037, 953]), (8102, [8038, 953]),
    (8103, [8039, 953]), (8104, [8032, 953]), (8105, [8033, 953]), (8106, [8034, 953]),
    (8107, [8035, 953]), (8108, [8036, 953]), (8109, [8037, 953]), (8110, [8038, 953]),
    (8111, [8039, 953]), (8114, [8048, 953]), (8115, [945, 953]), (8116, [940, 953]),
    (8118, [945, 834]), (8119, [945, 834, 953]), (8124, [945, 953]), (8130, [8052, 953]),
    (8131, [951, 953]), (8132, [942, 953]), (8134, [951, 834]), (8135, [951, 834, 953]),
    (8140, [951, 953]), (8146, [953, 776, 768]), (8147, [953, 776, 769]), (8150, [953, 834]),
    (8151, [953, 776, 834]), (8162, [965, 776, 768]), (8163, [965, 776, 769]),
    (8164, [961, 787]), (8166, [965, 834]), (8167, [965, 776, 834]), (8178, [8060, 953]),
    (8179, [969, 953]), (8180, [974, 953]), (8182, [969, 834]), (8183, [969, 834, 953]),
    (8188, [969, 953]), (64256, [102, 102]), (64257, [102, 105]), (64258, [102, 108]),
    (64259, [102, 102, 105]), (64260, [102, 102, 108]), (64261, [115, 116]),
    (64262, [115, 116]), (64275, [1396, 1398]), (64276, [1396, 1381]), (64277, [1396, 1387]),
    (64278, [1406, 1398]), (64279, [1396, 1389])]"

definition casefold_char :: "nat \<Rightarrow> nat list" where
  "casefold_char c =
     (if c < 128 then [if 65 \<le> c \<and> c \<le> 90 then c + 32 else c]
      else case find (\<lambda>(lo, hi, st, t). lo \<le> c \<and> c \<le> hi \<and> (c - lo) mod st = 0) casefold_runs of
        Some (lo, hi, st, t) \<Rightarrow> [t + (c - lo)]
      | None \<Rightarrow> (case map_of casefold_multi c of Some t \<Rightarrow> t | None \<Rightarrow> [c]))"

definition casefold :: "str \<Rightarrow> str" where
  "casefold s = concat (map casefold_char s)"

lemma casefold_simps [simp]:
  "casefold [] = []"
  "casefold (c # s) = casefold_char c @ casefold s"
  by (simp_all add: casefold_def)

lemma casefold_append [simp]: "casefold (s @ t) = casefold s @ casefold t"
  by (simp add: casefold_def)

lemma casefold_char_ascii [simp]:
  "c < 128 \<Longrightarrow> casefold_char c = [if 65 \<le> c \<and> c \<le> 90 then c + 32 else c]"
  by (simp add: casefold_char_def)

text \<open>Hangul syllables have no case.\<close>

lemma casefold_char_hangul [simp]:
  assumes "44032 \<le> c" and "c \<le> 55203"
  shows "casefold_char c = [c]"
proof -
  have "find (\<lambda>(lo, hi, st, t). lo \<le> c \<and> c \<le> hi \<and> (c - lo) mod st = 0) casefold_runs = None"
    using assms by (simp add: casefold_runs_def)
  moreover have "map_of casefold_multi c = None"
    using assms by (auto simp: casefold_multi_def)
  ultimately show ?thesis using assms by (simp add: casefold_char_def)
qed

section \<open>Substrings, prefixes, splitting\<close>

text \<open>\<open>needle in hay\<close>\<close>

abbreviation py_in :: "str \<Rightarrow> str \<Rightarrow> bool" where
  "py_in needle hay \<equiv> sublist needle hay"

lemma casefold_py_in: "py_in s t \<Longrightarrow> py_in (casefold s) (casefold t)"
  unfolding sublist_def by (metis casefold_append)

text \<open>ASCII upper-casing of a text does not change its case fold.\<close>

definition ascii_upper :: "str \<Rightarrow> str" where
  "ascii_upper s = map (\<lambda>c. if 97 \<le> c \<and> c \<le> 122 then c - 32 else c) s"

lemma casefold_ascii_upper [simp]: "casefold (ascii_upper s) = casefold s"
  by (induction s) (auto simp: ascii_upper_def)

fun split_on :: "nat \<Rightarrow> str \<Rightarrow> str list" where
  "split_on d [] = [[]]"
| "split_on d (c # cs) =
     (if c = d then [] # split_on d cs
      else (case split_on d cs of [] \<Rightarrow> [[c]] | w # ws \<Rightarrow> (c # w) # ws))"

fun join_with :: "str \<Rightarrow> str list \<Rightarrow> str" where
  "join_with sep [] = []"
| "join_with sep [w] = w"
| "join_with sep (w # v # ws) = w @ sep @ join_with sep (v # ws)"

lemma split_on_not_Nil [simp]: "split_on d s \<noteq> []"
  by (induction s) (auto split: list.splits)

lemma join_with_Cons_Cons: "ws \<noteq> [] \<Longrightarrow> join_with sep ((c # w) # ws) = c # join_with sep (w # ws)"
  by (cases ws) auto

lemma join_split: "join_with [d] (split_on d s) = s"
proof (induction s)
  case Nil
  then show ?case by simp
next
  case (Cons c s)
  obtain w ws where w: "split_on d s = w # ws"
    by (cases "split_on d s") auto
  with Cons show ?case by (cases ws) auto
qed

text \<open>\<open>s.partition(d)\<close>: what is before the first \<open>d\<close>, whether \<open>d\<close> occurs, what is after it.\<close>

definition partition_on :: "nat \<Rightarrow> str \<Rightarrow> str \<times> bool \<times> str" where
  "partition_on d s = (takeWhile (\<lambda>c. c \<noteq> d) s, d \<in> set s, drop 1 (dropWhile (\<lambda>c. c \<noteq> d) s))"

text \<open>\<open>s.rpartition(d)\<close>: the separator found last, and what follows it.\<close>

definition rpartition_found :: "nat \<Rightarrow> str \<Rightarrow> bool" where
  "rpartition_found d s \<longleftrightarrow> d \<in> set s"

definition rpartition_suffix :: "nat \<Rightarrow> str \<Rightarrow> str" where
  "rpartition_suffix d s = rev (takeWhile (\<lambda>c. c \<noteq> d) (rev s))"

lemma rpartition_suffix_append [simp]:
  "d \<notin> set t \<Longrightarrow> rpartition_suffix d (s @ d # t) = t"
  by (simp add: rpartition_suffix_def takeWhile_append)

section \<open>Decimal digits and numbers\<close>

definition decimal_zeros :: "nat list" where
  "decimal_zeros = [
   48, 1632, 1776, 1984, 2406, 2534, 2662, 2790, 2918, 3046, 3174, 3302, 3430, 3558, 3664,
    3792, 3872, 4160, 4240, 6112, 6160, 6470, 6608, 6784, 6800, 6992, 7088, 7232, 7248, 42528,
    43216, 43264, 43472, 43504, 43600, 44016, 65296, 66720, 68912, 69734, 69872, 69942, 70096,
    70384, 70736, 70864, 71248, 71360, 71472, 71904, 72016, 72784, 73040, 73120, 73552, 92768,
    92864, 93008, 120782, 120792, 120802, 120812, 120822, 123200, 123632, 124144, 125264, 130032]"

definition digit_of :: "nat \<Rightarrow> nat option" where
  "digit_of c =
     (if c < 128 then (if 48 \<le> c \<and> c \<le> 57 then Some (c - 48) else None)
      else case find (\<lambda>z. z \<le> c \<and> c \<le> z + 9) decimal_zeros of
        Some z \<Rightarrow> Some (c - z) | None \<Rightarrow> None)"

definition is_decimal :: "nat \<Rightarrow> bool" where
  "is_decimal c \<longleftrightarrow> digit_of c \<noteq> None"

text \<open>\<open>s.isdecimal()\<close> and \<open>int(s)\<close> on a string for which it holds.\<close>

definition isdecimal :: "str \<Rightarrow> bool" where
  "isdecimal s \<longleftrightarrow> s \<noteq> [] \<and> list_all is_decimal s"

definition int_of_decimal :: "str \<Rightarrow> nat" where
  "int_of_decimal s = foldl (\<lambda>a c. 10 * a + (case digit_of c of Some v \<Rightarrow> v | None \<Rightarrow> 0)) 0 s"

fun dec :: "nat \<Rightarrow> str" where
  "dec n = (if n < 10 then [48 + n] else dec (n div 10) @ [48 + n mod 10])"

declare dec.simps [simp del]

text \<open>The format \<open>f"{n:0wd}"\<close> for a natural number.\<close>

definition zero_pad :: "nat \<Rightarrow> nat \<Rightarrow> str" where
  "zero_pad w n = replicate (w - length (dec n)) 48 @ dec n"

lemma digit_of_dec [simp]: "v < 10 \<Longrightarrow> digit_of (48 + v) = Some v"
  by (simp add: digit_of_def)

lemma dec_digits: "c \<in> set (dec n) \<Longrightarrow> 48 \<le> c \<and> c \<le> 57"
proof (induction n rule: dec.induct)
  case (1 n)
  then show ?case
    by (subst (asm) (2) dec.simps) (auto split: if_splits)
qed

lemma dec_not_Nil [simp]: "dec n \<noteq> []"
  by (subst dec.simps) simp

lemma int_of_decimal_snoc:
  "int_of_decimal (s @ [c]) = 10 * int_of_decimal s + (case digit_of c of Some v \<Rightarrow> v | None \<Rightarrow> 0)"
  by (simp add: int_of_decimal_def)

text \<open>Reading back a printed number gives the number.\<close>

lemma int_of_decimal_dec [simp]: "int_of_decimal (dec n) = n"
proof (induction n rule: dec.induct)
  case (1 n)
  show ?case
  proof (cases "n < 10")
    case True
    then show ?thesis by (subst dec.simps) (simp add: int_of_decimal_def)
  next
    case False
    with 1 have "int_of_decimal (dec (n div 10)) = n div 10" by simp
    with False show ?thesis by (subst dec.simps) (simp add: int_of_decimal_snoc)
  qed
qed

lemma int_of_decimal_zeros: "int_of_decimal (replicate k 48 @ s) = int_of_decimal s"
proof -
  have "foldl (\<lambda>a c. 10 * a + (case digit_of c of Some v \<Rightarrow> v | None \<Rightarrow> 0)) 0 (replicate k 48) = 0"
    by (induction k) (simp_all add: digit_of_def)
  then show ?thesis by (simp add: int_of_decimal_def)
qed

lemma int_of_decimal_zero_pad [simp]: "int_of_decimal (zero_pad w n) = n"
  by (simp add: zero_pad_def int_of_decimal_zeros)

lemma zero_pad_digits: "c \<in> set (zero_pad w n) \<Longrightarrow> 48 \<le> c \<and> c \<le> 57"
  by (auto simp: zero_pad_def dest: dec_digits split: if_splits)

lemma isdecimal_zero_pad [simp]: "isdecimal (zero_pad w n)"
proof -
  have "list_all is_decimal (zero_pad w n)"
    using zero_pad_digits [of _ w n]
    by (fastforce simp: list_all_iff is_decimal_def digit_of_def)
  moreover have "zero_pad w n \<noteq> []" by (simp add: zero_pad_def)
  ultimately show ?thesis by (simp add: isdecimal_def)
qed

lemma zero_pad_no_dash: "45 \<notin> set (zero_pad w n)"
  using zero_pad_digits by fastforce

section \<open>Defaults\<close>

text \<open>\<open>s or default\<close> for an optional string: \<open>None\<close> and the empty string are falsy.\<close>

definition or_default :: "str option \<Rightarrow> str \<Rightarrow> str" where
  "or_default s d = (case s of Some t \<Rightarrow> if t = [] then d else t | None \<Rightarrow> d)"

end
