(* ===== verification/Float64.thy ===== *)
theory Float64
  imports Prelude "HOL-Library.Log_Nat"
begin

text \<open>
  Python's \<open>float\<close>: IEEE 754 binary64 with rounding to nearest, ties to even. A finite float is
  the rational it denotes; \<open>fl x\<close> is the float nearest to the rational \<open>x\<close>, and each
  arithmetic operation of the code is the exact operation followed by \<open>fl\<close>. NaN and the
  infinities are outside the model: scores, rates and thresholds of the program are finite (they
  come from stored decimals, ratios of counts and cosine similarities) and their sums and products
  stay far below the overflow threshold.
\<close>

type_synonym float64 = rat

section \<open>Rounding to an integer\<close>

definition round_half_even :: "rat \<Rightarrow> int" where
  "round_half_even r =
     (let f = \<lfloor>r\<rfloor>; d = r - of_int f in
      if d < 1 / 2 then f else if 1 / 2 < d then f + 1 else if even f then f else f + 1)"

lemma round_half_even_bounds: "\<lfloor>r\<rfloor> \<le> round_half_even r" "round_half_even r \<le> \<lfloor>r\<rfloor> + 1"
  by (auto simp: round_half_even_def Let_def)

lemma round_half_even_of_int [simp]: "round_half_even (of_int n) = n"
  by (simp add: round_half_even_def)

lemma round_half_even_error: "\<bar>of_int (round_half_even r) - r\<bar> \<le> 1 / 2"
proof -
  define d where "d = r - of_int \<lfloor>r\<rfloor>"
  have d: "0 \<le> d" "d < 1" and r: "r = of_int \<lfloor>r\<rfloor> + d"
    unfolding d_def by linarith+
  have "of_int (round_half_even r) - r = - d \<and> d \<le> 1 / 2
      \<or> of_int (round_half_even r) - r = 1 - d \<and> 1 / 2 \<le> d"
    unfolding round_half_even_def Let_def d_def by auto
  with d show ?thesis by auto
qed

lemma round_half_even_mono: "r \<le> s \<Longrightarrow> round_half_even r \<le> round_half_even s"
proof -
  assume le: "r \<le> s"
  then have fl: "\<lfloor>r\<rfloor> \<le> \<lfloor>s\<rfloor>" by (rule floor_mono)
  show ?thesis
  proof (cases "\<lfloor>r\<rfloor> = \<lfloor>s\<rfloor>")
    case True
    with le show ?thesis by (auto simp: round_half_even_def Let_def)
  next
    case False
    with fl have "\<lfloor>r\<rfloor> + 1 \<le> \<lfloor>s\<rfloor>" by simp
    with round_half_even_bounds(2) [of r] round_half_even_bounds(1) [of s]
    show ?thesis by linarith
  qed
qed

lemma round_half_even_le: "r \<le> of_int n \<Longrightarrow> round_half_even r \<le> n"
  using round_half_even_mono [of r "of_int n"] by simp

lemma round_half_even_ge: "of_int n \<le> r \<Longrightarrow> n \<le> round_half_even r"
  using round_half_even_mono [of "of_int n" r] by simp

section \<open>The binary exponent\<close>

definition exponent_of :: "rat \<Rightarrow> int" where
  "exponent_of x =
     (let (n, d) = quotient_of x; e = bitlen n - bitlen d in if 2 powi e \<le> x then e else e - 1)"

lemma bitlen_powi: "0 < n \<Longrightarrow> (2::rat) powi (bitlen n - 1) \<le> of_int n \<and> of_int n < (2::rat) powi bitlen n"
proof -
  assume n: "0 < n"
  from bitlen_bounds [OF n] have lo: "2 ^ nat (bitlen n - 1) \<le> n" and hi: "n < 2 ^ nat (bitlen n)"
    by simp_all
  from n have b: "1 \<le> bitlen n" by (simp add: bitlen_ge_iff_power)
  from lo have "(of_int (2 ^ nat (bitlen n - 1)) :: rat) \<le> of_int n"
    by (simp only: of_int_le_iff)
  moreover from hi have "(of_int n :: rat) < of_int (2 ^ nat (bitlen n))"
    by (simp only: of_int_less_iff)
  ultimately show ?thesis using b by (simp add: power_int_def)
qed

lemma powi_pos [simp]: "0 < (2::rat) powi e"
  by (simp add: zero_less_power_int)

lemma powi_mono: "a \<le> b \<Longrightarrow> (2::rat) powi a \<le> 2 powi b"
  by (simp add: power_int_increasing)

lemma powi_less_iff: "(2::rat) powi a < 2 powi b \<longleftrightarrow> a < b"
  by (metis not_less powi_mono power_int_strict_increasing one_less_numeral_iff semiring_norm(76))

lemma powi_step: "(2::rat) powi (a + 1) = 2 * 2 powi a"
  by (simp add: power_int_add)

lemma exponent_of_bounds:
  assumes "0 < x"
  shows "2 powi exponent_of x \<le> x \<and> x < 2 powi (exponent_of x + 1)"
proof -
  obtain n d where q: "quotient_of x = (n, d)" by (cases "quotient_of x")
  have d: "0 < d" using q by (rule quotient_of_denom_pos)
  have x: "x = of_int n / of_int d" using q by (rule quotient_of_div)
  with assms d have n: "0 < n" by (simp add: zero_less_divide_iff)
  let ?e = "bitlen n - bitlen d"
  from bitlen_powi [OF n] bitlen_powi [OF d]
  have n1: "(2::rat) powi (bitlen n - 1) \<le> of_int n" and n2: "(of_int n :: rat) < 2 powi bitlen n"
    and d1: "(2::rat) powi (bitlen d - 1) \<le> of_int d" and d2: "(of_int d :: rat) < 2 powi bitlen d"
    by simp_all
  have dp: "(0::rat) < of_int d" using d by simp
  have "x * of_int d = of_int n" using dp x by simp
  have lo: "2 powi (?e - 1) < x"
  proof -
    have "2 powi (?e - 1) * of_int d < 2 powi (?e - 1) * (2::rat) powi bitlen d"
      using d2 by simp
    also have "\<dots> = 2 powi (bitlen n - 1)"
      by (simp flip: power_int_add)
    also have "\<dots> \<le> of_int n" by (rule n1)
    finally show ?thesis using dp x by (simp add: pos_less_divide_eq)
  qed
  have hi: "x < 2 powi (?e + 1)"
  proof -
    have "of_int n < (2::rat) powi bitlen n" by (rule n2)
    also have "\<dots> = 2 powi (?e + 1) * 2 powi (bitlen d - 1)"
      by (simp flip: power_int_add)
    also have "\<dots> \<le> 2 powi (?e + 1) * of_int d"
      using d1 by simp
    finally show ?thesis using dp x by (simp add: pos_divide_less_eq)
  qed
  show ?thesis using lo hi q by (auto simp: exponent_of_def Let_def)
qed

lemma exponent_of_mono: "0 < x \<Longrightarrow> x \<le> y \<Longrightarrow> exponent_of x \<le> exponent_of y"
proof -
  assume "0 < x" and "x \<le> y"
  with exponent_of_bounds [of x] exponent_of_bounds [of y]
  have "2 powi exponent_of x < (2::rat) powi (exponent_of y + 1)" by auto
  then show ?thesis by (simp add: powi_less_iff)
qed

lemma exponent_of_le: "0 < x \<Longrightarrow> x < 2 powi (k + 1) \<Longrightarrow> exponent_of x \<le> k"
proof -
  assume "0 < x" and "x < 2 powi (k + 1)"
  with exponent_of_bounds [of x] have "(2::rat) powi exponent_of x < 2 powi (k + 1)" by auto
  then show ?thesis by (simp add: powi_less_iff)
qed

section \<open>Rounding to a float\<close>

definition quantum :: "rat \<Rightarrow> int" where
  "quantum x = max (exponent_of x - 52) (- 1074)"

definition fl :: "rat \<Rightarrow> float64" where
  "fl x =
     (if x = 0 then 0
      else let q = quantum \<bar>x\<bar> in sgn x * (of_int (round_half_even (\<bar>x\<bar> / 2 powi q)) * 2 powi q))"

lemma fl_0 [simp]: "fl 0 = 0"
  by (simp add: fl_def)

lemma fl_minus [simp]: "fl (- x) = - fl x"
  by (simp add: fl_def Let_def sgn_minus)

lemma fl_pos: "0 < x \<Longrightarrow> fl x = of_int (round_half_even (x / 2 powi quantum x)) * 2 powi quantum x"
  by (simp add: fl_def Let_def)

lemma fl_nonneg: "0 \<le> x \<Longrightarrow> 0 \<le> fl x"
proof (cases "x = 0")
  case False
  assume "0 \<le> x"
  with False have x: "0 < x" by simp
  then have "0 \<le> round_half_even (x / 2 powi quantum x)"
    by (intro round_half_even_ge) simp
  with x show ?thesis by (simp add: fl_pos)
qed simp

lemma fl_mono_pos:
  assumes "0 < x" and "x \<le> y"
  shows "fl x \<le> fl y"
proof (cases "quantum x = quantum y")
  case True
  with assms show ?thesis
    by (simp add: fl_pos round_half_even_mono divide_right_mono)
next
  case False
  let ?qx = "quantum x" and ?qy = "quantum y" and ?ey = "exponent_of y"
  have y: "0 < y" using assms by simp
  have "exponent_of x \<le> ?ey" using assms by (rule exponent_of_mono)
  with False have qy: "?qy = ?ey - 52" and q: "?qx < ?qy" and e: "exponent_of x + 1 \<le> ?ey"
    by (auto simp: quantum_def)
  have "fl x \<le> 2 powi ?ey"
  proof -
    define k where "k = nat (?ey - ?qx)"
    from q qy have k: "?ey = int k + ?qx" by (simp add: k_def)
    have "x \<le> 2 powi ?ey"
      using exponent_of_bounds [OF assms(1)] powi_mono [OF e] by linarith
    then have "x / 2 powi ?qx \<le> of_int (2 ^ k)"
      by (simp add: pos_divide_le_eq k power_int_add)
    then have "round_half_even (x / 2 powi ?qx) \<le> 2 ^ k"
      by (rule round_half_even_le)
    then have "(of_int (round_half_even (x / 2 powi ?qx)) :: rat) \<le> of_int (2 ^ k)"
      by (simp only: of_int_le_iff)
    then show ?thesis using assms(1) by (simp add: fl_pos k power_int_add)
  qed
  also have "2 powi ?ey \<le> fl y"
  proof -
    have eq: "2 powi ?ey = of_int (2 ^ 52) * (2::rat) powi ?qy"
      using power_int_add [of "2::rat" 52 ?qy] qy by simp
    have "2 powi ?ey \<le> y" using exponent_of_bounds [OF y] by simp
    then have "of_int (2 ^ 52) \<le> y / 2 powi ?qy"
      by (simp add: pos_le_divide_eq eq)
    then have "2 ^ 52 \<le> round_half_even (y / 2 powi ?qy)"
      by (rule round_half_even_ge)
    then have "(of_int (2 ^ 52) :: rat) \<le> of_int (round_half_even (y / 2 powi ?qy))"
      by (simp only: of_int_le_iff)
    then show ?thesis using y by (simp add: fl_pos eq)
  qed
  finally show ?thesis .
qed

text \<open>Rounding is monotone: no comparison of exact values is reversed by rounding.\<close>

lemma fl_mono: "x \<le> y \<Longrightarrow> fl x \<le> fl y"
proof -
  assume le: "x \<le> y"
  consider "0 < x" | "x \<le> 0" "0 \<le> y" | "y < 0" using le by linarith
  then show ?thesis
  proof cases
    case 1
    with le show ?thesis by (simp add: fl_mono_pos)
  next
    case 2
    then have "fl x \<le> 0" using fl_nonneg [of "- x"] by simp
    with 2 fl_nonneg [of y] show ?thesis by linarith
  next
    case 3
    with le fl_mono_pos [of "- y" "- x"] show ?thesis by simp
  qed
qed

text \<open>Below one, the rounding error is at most half a unit in the 53rd binary place.\<close>

lemma fl_error:
  assumes "0 < x" and "x < 1"
  shows "\<bar>fl x - x\<bar> \<le> 2 powi (- 54)"
proof -
  let ?q = "quantum x"
  have "exponent_of x \<le> - 1" using assms by (intro exponent_of_le) simp_all
  then have q: "?q \<le> - 53" by (simp add: quantum_def)
  have "fl x - x = (of_int (round_half_even (x / 2 powi ?q)) - x / 2 powi ?q) * 2 powi ?q"
    using assms(1) by (simp add: fl_pos left_diff_distrib)
  then have "\<bar>fl x - x\<bar> = \<bar>of_int (round_half_even (x / 2 powi ?q)) - x / 2 powi ?q\<bar> * 2 powi ?q"
    by (simp add: abs_mult)
  also have "\<dots> \<le> 1 / 2 * 2 powi ?q"
    by (intro mult_right_mono round_half_even_error) simp
  also have "\<dots> \<le> 1 / 2 * 2 powi (- 53)"
    using powi_mono [OF q] by simp
  also have "\<dots> = (2::rat) powi (- 54)"
    using powi_step [of "- 54"] by simp
  finally show ?thesis .
qed

lemma fl_1 [simp]: "fl 1 = 1"
  by code_simp

lemma fl_le_1: "x \<le> 1 \<Longrightarrow> fl x \<le> 1"
  using fl_mono [of x 1] by simp

section \<open>The arithmetic of the code\<close>

definition fadd :: "float64 \<Rightarrow> float64 \<Rightarrow> float64" where
  "fadd a b = fl (a + b)"

definition fsub :: "float64 \<Rightarrow> float64 \<Rightarrow> float64" where
  "fsub a b = fl (a - b)"

definition fmul :: "float64 \<Rightarrow> float64 \<Rightarrow> float64" where
  "fmul a b = fl (a * b)"

text \<open>The float literal \<open>m * 10 ** -k\<close>: \<open>decimal 8 2\<close> is \<open>0.08\<close>.\<close>

definition decimal :: "int \<Rightarrow> nat \<Rightarrow> float64" where
  "decimal m k = fl (of_int m / 10 ^ k)"

lemma decimal_nonneg [simp]: "0 \<le> m \<Longrightarrow> 0 \<le> decimal m k"
  by (simp add: decimal_def fl_nonneg)

lemma fl_of_nat_nonneg [simp]: "0 \<le> fl (of_nat n)"
  by (simp add: fl_nonneg)

text \<open>\<open>a / b\<close> on integers, for a divisor that is not zero.\<close>

definition int_ratio :: "int \<Rightarrow> int \<Rightarrow> float64" where
  "int_ratio a b = fl (of_int a / of_int b)"

text \<open>\<open>max(xs, default=d)\<close>\<close>

fun max_default :: "float64 \<Rightarrow> float64 list \<Rightarrow> float64" where
  "max_default d [] = d"
| "max_default d (x # xs) = fold max xs x"

lemma fold_max_ge: "(m::rat) \<le> fold max xs m" "x \<in> set xs \<Longrightarrow> x \<le> fold max xs m"
proof -
  show ge: "(m::rat) \<le> fold max xs m" for m xs
    by (induction xs arbitrary: m) (simp_all, metis max.bounded_iff)
  show "x \<in> set xs \<Longrightarrow> x \<le> fold max xs m"
    using ge by (induction xs arbitrary: m) (auto, metis ge max.bounded_iff)
qed

lemma fold_max_in: "fold max xs (m::rat) \<in> insert m (set xs)"
  by (induction xs arbitrary: m) (auto simp: max_def)

lemma max_default_ge: "x \<in> set xs \<Longrightarrow> x \<le> max_default d xs"
  by (cases xs) (auto simp: fold_max_ge)

lemma max_default_in: "xs \<noteq> [] \<Longrightarrow> max_default d xs \<in> set xs"
  by (cases xs) (use fold_max_in in auto)

end
