(* ===== verification/Json.thy ===== *)
theory Json
  imports Py_Text Float64
begin

text \<open>
  JSON values as the program holds them after \<open>json.loads\<close> or in a JSONB column: objects are
  dictionaries in insertion order, and the \<open>isinstance\<close> tests of the source are case distinctions.
\<close>

datatype json = JNull | JBool bool | JInt int | JFloat float64 | JStr str | JArr "json list"
  | JObj "(str \<times> json) list"

text \<open>\<open>d.get(k)\<close>\<close>

definition get :: "(str \<times> json) list \<Rightarrow> str \<Rightarrow> json" where
  "get d k = (case map_of d k of Some v \<Rightarrow> v | None \<Rightarrow> JNull)"

text \<open>\<open>d.get(k, default)\<close>\<close>

definition get_default :: "(str \<times> json) list \<Rightarrow> str \<Rightarrow> json \<Rightarrow> json" where
  "get_default d k v = (case map_of d k of Some w \<Rightarrow> w | None \<Rightarrow> v)"

text \<open>\<open>bool(v)\<close>\<close>

fun truthy :: "json \<Rightarrow> bool" where
  "truthy JNull = False"
| "truthy (JBool b) = b"
| "truthy (JInt i) = (i \<noteq> 0)"
| "truthy (JFloat x) = (x \<noteq> 0)"
| "truthy (JStr s) = (s \<noteq> [])"
| "truthy (JArr xs) = (xs \<noteq> [])"
| "truthy (JObj d) = (d \<noteq> [])"

fun as_str :: "json \<Rightarrow> str option" where
  "as_str (JStr s) = Some s"
| "as_str _ = None"

text \<open>The strings of an iterable that is not itself a string; iterating an object yields its keys.\<close>

fun string_list :: "json \<Rightarrow> str list" where
  "string_list (JArr xs) = List.map_filter as_str xs"
| "string_list (JObj d) = map fst d"
| "string_list _ = []"

lemma string_list_in: "s \<in> set (string_list (JArr xs)) \<longleftrightarrow> JStr s \<in> set xs"
proof -
  have "s \<in> set (List.map_filter as_str xs) \<longleftrightarrow> JStr s \<in> set xs" for xs
  proof (induction xs)
    case Nil
    then show ?case by (simp add: List.map_filter_def)
  next
    case (Cons x xs)
    then show ?case by (cases x) (auto simp: List.map_filter_def)
  qed
  then show ?thesis by simp
qed

end
