(* ===== verification/Models.thy ===== *)
theory Models
  imports Json
begin

text \<open>
  The tables of \<open>src/intent_routing/db/models.py\<close>, one record per table with its columns, and the
  constraints the schema declares on them. A table is a list of rows. Times are integers
  (microseconds), numeric columns hold the value of the float they were written from, binary columns
  are lists of bytes, identifiers are strings. The ORM relationships carry no state of their own and
  are left out.
\<close>

type_synonym timestamp = int
type_synonym bytes = "nat list"

section \<open>Encrypted text\<close>

text \<open>The eight columns of an encrypted text, and their nullable form.\<close>

record encrypted_text =
  et_ciphertext :: bytes
  et_encrypted_dek :: bytes
  et_encrypted_dek_iv :: bytes
  et_encrypted_dek_auth_tag :: bytes
  et_key_id :: str
  et_iv :: bytes
  et_auth_tag :: bytes
  et_algorithm :: str

record nullable_encrypted_text =
  nt_ciphertext :: "bytes option"
  nt_encrypted_dek :: "bytes option"
  nt_encrypted_dek_iv :: "bytes option"
  nt_encrypted_dek_auth_tag :: "bytes option"
  nt_key_id :: "str option"
  nt_iv :: "bytes option"
  nt_auth_tag :: "bytes option"
  nt_algorithm :: "str option"

definition null_text :: nullable_encrypted_text where
  "null_text = \<lparr>nt_ciphertext = None, nt_encrypted_dek = None, nt_encrypted_dek_iv = None,
     nt_encrypted_dek_auth_tag = None, nt_key_id = None, nt_iv = None, nt_auth_tag = None,
     nt_algorithm = None\<rparr>"

definition stored_text :: "encrypted_text \<Rightarrow> nullable_encrypted_text" where
  "stored_text e = \<lparr>nt_ciphertext = Some (et_ciphertext e), nt_encrypted_dek = Some (et_encrypted_dek e),
     nt_encrypted_dek_iv = Some (et_encrypted_dek_iv e),
     nt_encrypted_dek_auth_tag = Some (et_encrypted_dek_auth_tag e), nt_key_id = Some (et_key_id e),
     nt_iv = Some (et_iv e), nt_auth_tag = Some (et_auth_tag e), nt_algorithm = Some (et_algorithm e)\<rparr>"

section \<open>Services and their keys\<close>

record service =
  sv_service_id :: str
  sv_display_name :: str
  sv_max_input_tokens :: nat
  sv_status :: str
  sv_created_by :: str
  sv_created_at :: timestamp
  sv_updated_at :: timestamp

record api_key =
  ak_key_id :: str
  ak_key_hash :: str
  ak_key_fingerprint :: str
  ak_environment :: str
  ak_app_id :: str
  ak_service_id :: str
  ak_allowed_intents :: "str list"
  ak_allowed_route_keys :: "str list"
  ak_status :: str
  ak_expires_at :: "timestamp option"
  ak_revoked_at :: "timestamp option"
  ak_created_by :: str
  ak_created_at :: timestamp
  ak_secret :: nullable_encrypted_text

section \<open>Organization and administrators\<close>

record department =
  dp_id :: str
  dp_dept_number :: str
  dp_name :: str
  dp_use_yn :: str
  dp_created_by :: str
  dp_updated_by :: str
  dp_created_at :: timestamp
  dp_updated_at :: timestamp

record organization_user =
  ou_id :: str
  ou_user_number :: str
  ou_name :: str
  ou_department_id :: str
  ou_use_yn :: str
  ou_created_by :: str
  ou_updated_by :: str
  ou_created_at :: timestamp
  ou_updated_at :: timestamp

record admin_user =
  au_user_id :: str
  au_email :: str
  au_email_normalized :: str
  au_display_name :: str
  au_password_hash :: str
  au_admin_access_reason :: str
  au_status :: str
  au_created_at :: timestamp
  au_updated_at :: timestamp
  au_last_login_at :: "timestamp option"
  au_organization_user_id :: "str option"

record admin_session =
  as_session_id :: str
  as_user_id :: str
  as_token_hash :: str
  as_created_at :: timestamp
  as_expires_at :: timestamp
  as_revoked_at :: "timestamp option"
  as_last_seen_at :: "timestamp option"

record admin_user_role =
  ar_user_id :: str
  ar_role :: str
  ar_assigned_by :: str
  ar_assigned_at :: timestamp

text \<open>The partial unique index: at most one row holds the role \<open>system_admin\<close>.\<close>

definition single_system_admin :: "admin_user_role list \<Rightarrow> bool" where
  "single_system_admin roles \<longleftrightarrow> length (filter (\<lambda>r. ar_role r = lit ''system_admin'') roles) \<le> 1"

record admin_access_request =
  aa_request_id :: str
  aa_user_number :: str
  aa_name :: str
  aa_department_id :: str
  aa_email :: str
  aa_email_normalized :: str
  aa_password_hash :: "str option"
  aa_access_reason :: str
  aa_status :: str
  aa_requested_at :: timestamp
  aa_decided_at :: "timestamp option"
  aa_decided_by :: "str option"
  aa_decision_reason :: "str option"
  aa_created_user_id :: "str option"
  aa_created_admin_user_id :: "str option"

text \<open>The check constraints: a known status, and a password hash exactly while it is pending.\<close>

definition access_request_row_ok :: "admin_access_request \<Rightarrow> bool" where
  "access_request_row_ok r \<longleftrightarrow>
     aa_status r \<in> {lit ''pending'', lit ''approved'', lit ''rejected''}
     \<and> (aa_status r = lit ''pending'' \<longleftrightarrow> aa_password_hash r \<noteq> None)"

record user_service_role =
  ur_user_id :: str
  ur_service_id :: str
  ur_role :: str
  ur_assigned_by :: str
  ur_assigned_at :: timestamp

section \<open>Governed actions\<close>

record governed_action_request =
  ga_request_id :: str
  ga_service_id :: str
  ga_resource_type :: str
  ga_resource_id :: str
  ga_action :: str
  ga_status :: str
  ga_requested_by :: str
  ga_requested_at :: timestamp
  ga_decided_by :: "str option"
  ga_decided_at :: "timestamp option"
  ga_reason :: str
  ga_decision_reason :: "str option"

definition governed_action_row_ok :: "governed_action_request \<Rightarrow> bool" where
  "governed_action_row_ok r \<longleftrightarrow>
     ga_resource_type r \<in> {lit ''intent'', lit ''example'', lit ''release'', lit ''runtime_log'',
       lit ''raw_query'', lit ''export''}
     \<and> ga_action r \<in> {lit ''request'', lit ''approve'', lit ''reject'', lit ''activate'',
       lit ''rollback'', lit ''decrypt'', lit ''export''}
     \<and> ga_status r \<in> {lit ''pending'', lit ''approved'', lit ''rejected'', lit ''activated'',
       lit ''rolled_back'', lit ''token_issued'', lit ''viewed'', lit ''expired'', lit ''completed''}"

record raw_query_view_token =
  vt_token_id :: str
  vt_request_id :: str
  vt_service_id :: str
  vt_trace_id :: str
  vt_token_hash :: str
  vt_expires_at :: timestamp
  vt_issued_by :: str
  vt_issued_at :: timestamp
  vt_viewed_at :: "timestamp option"
  vt_expired_at :: "timestamp option"

section \<open>Intents, catalogs and policies\<close>

record intent =
  in_id :: str
  in_service_id :: str
  in_intent_id :: str
  in_domain :: str
  in_display_name :: str
  in_description :: str
  in_route_key :: str
  in_status :: str
  in_include_keywords :: "str list"
  in_exclude_keywords :: "str list"
  in_created_by :: str
  in_updated_by :: str
  in_created_at :: timestamp
  in_updated_at :: timestamp

record intent_example =
  ie_example_id :: str
  ie_service_id :: str
  ie_intent_id :: str
  ie_example_type :: str
  ie_text_raw :: encrypted_text
  ie_text_masked :: str
  ie_embedding :: "float64 list option"
  ie_source :: str
  ie_test_case_id :: "str option"
  ie_approved :: bool
  ie_created_by :: str
  ie_created_at :: timestamp

record policy_version =
  pv_policy_version :: str
  pv_service_id :: str
  pv_threshold_preset :: str
  pv_threshold_value :: float64
  pv_clarify_margin :: float64
  pv_min_candidate_score :: float64
  pv_fallback_score :: float64
  pv_risk_policy :: "(str \<times> json) list"
  pv_off_topic_policy :: "(str \<times> json) list"
  pv_created_by :: str
  pv_created_at :: timestamp

record intent_catalog_version =
  cv_intent_catalog_version :: str
  cv_service_id :: str
  cv_display_version :: "str option"
  cv_description :: "str option"
  cv_status :: str
  cv_reproducibility_status :: str
  cv_source_catalog_version :: "str option"
  cv_snapshot :: json
  cv_created_by :: str
  cv_created_at :: timestamp
  cv_activated_at :: "timestamp option"
  cv_deactivated_at :: "timestamp option"

record vector_index_version =
  vi_vector_index_version :: str
  vi_service_id :: str
  vi_intent_catalog_version :: str
  vi_model_version :: str
  vi_status :: str
  vi_created_at :: timestamp

record catalog_example_embedding =
  ce_id :: str
  ce_intent_catalog_version :: str
  ce_service_id :: str
  ce_model_version :: str
  ce_vector_index_version :: str
  ce_intent_id :: str
  ce_example_id :: "str option"
  ce_example_type :: str
  ce_text_raw :: encrypted_text
  ce_text_masked :: str
  ce_embedding :: "float64 list option"
  ce_embedding_status :: str
  ce_created_at :: timestamp
  ce_deactivated_at :: "timestamp option"

section \<open>Tests and releases\<close>

record test_dataset =
  td_test_dataset_version :: str
  td_service_id :: str
  td_source_filename :: str
  td_content_sha256 :: str
  td_created_by :: str
  td_created_at :: timestamp

record test_case_row =
  tcr_test_dataset_version :: str
  tcr_case_id :: str
  tcr_query :: str
  tcr_expected_intent :: "str option"
  tcr_case_type :: str
  tcr_memo :: str

record test_run =
  tr_test_run_id :: str
  tr_service_id :: str
  tr_test_dataset_version :: str
  tr_policy_version :: str
  tr_intent_catalog_version :: str
  tr_model_version :: "str option"
  tr_vector_index_version :: "str option"
  tr_threshold_preset :: str
  tr_threshold_value :: float64
  tr_pass_rate :: float64
  tr_review_rate :: float64
  tr_risk_pass_rate :: float64
  tr_gate_passed :: bool
  tr_created_by :: str
  tr_created_at :: timestamp

record test_result =
  ts_case_id :: str
  ts_query_masked :: str
  ts_case_type :: str
  ts_expected_decision :: str
  ts_expected_intent :: "str option"
  ts_actual_decision :: str
  ts_actual_intent :: "str option"
  ts_actual_route_key :: "str option"
  ts_confidence :: "float64 option"
  ts_result :: str
  ts_reason :: str

record release =
  rel_release_version :: str
  rel_service_id :: str
  rel_environment :: str
  rel_policy_version :: str
  rel_intent_catalog_version :: str
  rel_model_version :: str
  rel_vector_index_version :: str
  rel_test_dataset_version :: str
  rel_test_run_id :: str
  rel_pass_rate :: float64
  rel_risk_pass_rate :: float64
  rel_active :: bool
  rel_released_by :: str
  rel_released_at :: timestamp
  rel_rollback_target :: "str option"

section \<open>Logs\<close>

record audit_log =
  al_audit_id :: str
  al_event_type :: str
  al_actor_id :: str
  al_service_id :: "str option"
  al_trace_id :: "str option"
  al_target_type :: str
  al_target_id :: str
  al_view_reason :: "str option"
  al_source_ip :: "str option"
  al_before_state :: "(str \<times> json) list option"
  al_after_state :: "(str \<times> json) list option"
  al_created_at :: timestamp

text \<open>The versions a runtime log is pinned to and the decision it records, as groups of columns.\<close>

record log_versions =
  lv_release_version :: "str option"
  lv_policy_version :: "str option"
  lv_intent_catalog_version :: "str option"
  lv_model_version :: "str option"
  lv_vector_index_version :: "str option"
  lv_test_run_id :: "str option"
  lv_threshold_preset :: "str option"
  lv_threshold_value :: "float64 option"

record log_decision =
  ld_decision :: "str option"
  ld_intent_id :: "str option"
  ld_confidence :: "float64 option"
  ld_margin :: "float64 option"
  ld_route_key :: "str option"
  ld_decision_state :: "(str \<times> json) list option"

record log_error =
  le_error_code :: "str option"
  le_error_category :: "str option"
  le_error_layer :: "str option"
  le_http_status :: "nat option"
  le_retryable :: "bool option"

record runtime_log =
  rl_trace_id :: str
  rl_request_id :: "str option"
  rl_app_id :: "str option"
  rl_service_id :: "str option"
  rl_environment :: "str option"
  rl_versions :: log_versions
  rl_decision :: log_decision
  rl_error :: log_error
  rl_latency_ms :: nat
  rl_query_raw :: nullable_encrypted_text
  rl_query_masked :: "str option"
  rl_raw_query_deleted_at :: "timestamp option"
  rl_raw_query_deleted_by :: "str option"
  rl_raw_query_delete_reason :: "str option"
  rl_created_at :: timestamp

end
