(* ===== verification/Repository.thy ===== *)
theory Repository
  imports Models "HOL-Library.Product_Lexorder" "HOL-Library.List_Lexorder"
begin

text \<open>
  The state and the vocabulary of \<open>src/intent_routing/db/repositories.py\<close>: a database is a record of
  tables, a query is a filter, an order and a limit on a table, an insertion checks the primary key and
  the unique constraints of the table, and a change of an ORM object replaces the row with its key. An
  operation that raises leaves no new state: the callers roll the transaction back. Foreign keys and
  row locks are not modelled. The order of text columns is the database's collation, a parameter
  \<open>collate\<close> that maps a text to its rank.
\<close>

record db =
  db_services :: "service list"
  db_api_keys :: "api_key list"
  db_departments :: "department list"
  db_organization_users :: "organization_user list"
  db_admin_users :: "admin_user list"
  db_admin_sessions :: "admin_session list"
  db_admin_user_roles :: "admin_user_role list"
  db_access_requests :: "admin_access_request list"
  db_user_service_roles :: "user_service_role list"
  db_governed_requests :: "governed_action_request list"
  db_view_tokens :: "raw_query_view_token list"
  db_intents :: "intent list"
  db_intent_examples :: "intent_example list"
  db_policy_versions :: "policy_version list"
  db_catalog_versions :: "intent_catalog_version list"
  db_vector_indexes :: "vector_index_version list"
  db_example_embeddings :: "catalog_example_embedding list"
  db_test_datasets :: "test_dataset list"
  db_test_cases :: "test_case_row list"
  db_test_runs :: "test_run list"
  db_test_results :: "(str \<times> test_result) list"
  db_releases :: "release list"
  db_runtime_logs :: "runtime_log list"
  db_audit_logs :: "audit_log list"

text \<open>A freshly migrated database.\<close>

definition empty_db :: db where
  "empty_db = \<lparr>db_services = [], db_api_keys = [], db_departments = [], db_organization_users = [],
     db_admin_users = [], db_admin_sessions = [], db_admin_user_roles = [], db_access_requests = [],
     db_user_service_roles = [], db_governed_requests = [], db_view_tokens = [], db_intents = [],
     db_intent_examples = [], db_policy_versions = [], db_catalog_versions = [], db_vector_indexes = [],
     db_example_embeddings = [], db_test_datasets = [], db_test_cases = [], db_test_runs = [],
     db_test_results = [], db_releases = [], db_runtime_logs = [], db_audit_logs = []\<rparr>"

text \<open>
  What the repository raises: the violation of a constraint of the database, and one constructor per
  \<open>ValueError\<close> of the code.
\<close>

datatype repo_error =
    Integrity_Error
  | Not_Allowed str
  | Must_Not_Be_Blank str
  | Email_Blank
  | Access_Request_Not_Pending
  | Governed_Request_Not_Pending
  | Author_Cannot_Approve
  | Author_Cannot_Reject
  | Token_Requires_Decrypt_Request
  | Token_Requires_Approval
  | Token_Expiry_Not_After_Issue
  | System_Admin_Exists
  | Release_Scope_Mismatch
  | Case_Dataset_Mismatch
  | Password_Hash_Blank
  | Data_Error

text \<open>The database after a transaction: what a call that raises has changed is rolled back.\<close>

definition committed :: "db \<Rightarrow> ('e, db \<times> 'a) outcome \<Rightarrow> db" where
  "committed d m = (case m of Inl _ \<Rightarrow> d | Inr (d', _) \<Rightarrow> d')"

lemma committed_cases:
  obtains "committed d m = d" | d' x where "m = Inr (d', x)" "committed d m = d'"
  by (cases m) (auto simp: committed_def split: prod.splits)

section \<open>Queries and updates on a table\<close>

definition first_row :: "('a \<Rightarrow> bool) \<Rightarrow> 'a list \<Rightarrow> 'a option" where
  "first_row P rows = find P rows"

definition order_by :: "('a \<Rightarrow> 'k :: linorder) \<Rightarrow> 'a list \<Rightarrow> 'a list" where
  "order_by key rows = sort_key key rows"

definition insert_row :: "('a \<Rightarrow> 'k) \<Rightarrow> 'a \<Rightarrow> 'a list \<Rightarrow> (repo_error, 'a list) outcome" where
  "insert_row key row rows =
     (if key row \<in> key ` set rows then Inl Integrity_Error else Inr (rows @ [row]))"

definition update_where :: "('a \<Rightarrow> bool) \<Rightarrow> ('a \<Rightarrow> 'a) \<Rightarrow> 'a list \<Rightarrow> 'a list" where
  "update_where P f rows = map (\<lambda>r. if P r then f r else r) rows"

text \<open>The flush of a changed object: the row with its key is replaced.\<close>

definition put_row :: "('a \<Rightarrow> 'k) \<Rightarrow> 'a \<Rightarrow> 'a list \<Rightarrow> 'a list" where
  "put_row key row rows = update_where (\<lambda>r. key r = key row) (\<lambda>_. row) rows"

definition optional_filter :: "'v option \<Rightarrow> ('v \<Rightarrow> 'a \<Rightarrow> bool) \<Rightarrow> 'a list \<Rightarrow> 'a list" where
  "optional_filter v P rows = (case v of None \<Rightarrow> rows | Some x \<Rightarrow> filter (P x) rows)"

definition require_allowed_value :: "str \<Rightarrow> str \<Rightarrow> str list \<Rightarrow> (repo_error, str) outcome" where
  "require_allowed_value v field_name allowed =
     (if v \<in> set allowed then Inr v else Inl (Not_Allowed field_name))"

definition require_nonblank_string :: "str \<Rightarrow> str \<Rightarrow> (repo_error, str) outcome" where
  "require_nonblank_string v field_name =
     (if blank v then Inl (Must_Not_Be_Blank field_name) else Inr v)"

section \<open>Laws of the tables\<close>

named_theorems table_simps \<open>how queries see updated tables\<close>

lemma first_row_Some: "first_row P rows = Some r \<Longrightarrow> r \<in> set rows \<and> P r"
  unfolding first_row_def by (drule find_SomeD) simp

lemma first_row_None [table_simps]: "first_row P rows = None \<longleftrightarrow> (\<forall>r \<in> set rows. \<not> P r)"
  by (auto simp: first_row_def find_None_iff)

lemma set_order_by [simp]: "set (order_by key rows) = set rows"
  by (simp add: order_by_def)

lemma insert_row_Inr [raise_simps]:
  "insert_row key row rows = Inr rows' \<longleftrightarrow> key row \<notin> key ` set rows \<and> rows' = rows @ [row]"
  by (auto simp: insert_row_def)

lemma insert_row_distinct:
  "insert_row key row rows = Inr rows' \<Longrightarrow> distinct (map key rows) \<Longrightarrow> distinct (map key rows')"
  by (auto simp: insert_row_def split: if_splits)

lemma update_where_keys:
  "(\<And>r. r \<in> set rows \<Longrightarrow> P r \<Longrightarrow> key (f r) = key r) \<Longrightarrow> map key (update_where P f rows) = map key rows"
  by (induction rows) (auto simp: update_where_def)

lemma put_row_keys [simp]: "map key (put_row key row rows) = map key rows"
  unfolding put_row_def by (rule update_where_keys) simp

lemma put_row_in: "r \<in> set (put_row key row rows) \<Longrightarrow> r = row \<or> (r \<in> set rows \<and> key r \<noteq> key row)"
  by (auto simp: put_row_def update_where_def split: if_splits)

lemma put_row_mem: "row' \<in> set rows \<Longrightarrow> key row' = key row \<Longrightarrow> row \<in> set (put_row key row rows)"
  by (induction rows) (auto simp: put_row_def update_where_def)

lemma put_row_other: "r \<in> set rows \<Longrightarrow> key r \<noteq> key row \<Longrightarrow> r \<in> set (put_row key row rows)"
  by (induction rows) (auto simp: put_row_def update_where_def)

lemma distinct_key: "distinct (map key rows) \<Longrightarrow> r \<in> set rows \<Longrightarrow> r' \<in> set rows \<Longrightarrow> key r = key r' \<Longrightarrow> r = r'"
  by (auto simp: distinct_map inj_on_def)

lemma list_all_put_row:
  assumes "r \<in> set (put_row key row rows)" and "\<And>r. r \<in> set rows \<Longrightarrow> P r" and "P row"
  shows "P r"
  using put_row_in [OF assms(1)] assms(2,3) by auto

lemma update_where_in:
  "r \<in> set (update_where P f rows) \<longleftrightarrow> (\<exists>q \<in> set rows. r = (if P q then f q else q))"
  by (auto simp: update_where_def)

lemma require_allowed_value_Inr [raise_simps]:
  "require_allowed_value v n allowed = Inr w \<longleftrightarrow> v \<in> set allowed \<and> w = v"
  by (auto simp: require_allowed_value_def)

lemma require_nonblank_string_Inr [raise_simps]:
  "require_nonblank_string v n = Inr w \<longleftrightarrow> \<not> blank v \<and> w = v"
  by (auto simp: require_nonblank_string_def)

end
