(* ===== verification/Access_Store.thy ===== *)
theory Access_Store
  imports Repository Py_Lower
begin

text \<open>
  The part of \<open>db/repositories.py\<close> that keeps the organization, the administrators and their rights:
  departments, organization users, admin users, access requests, sessions, global and service roles.
  The database test \<open>lower(column) LIKE pattern\<close> is the parameter \<open>lower_like column pattern\<close>, the
  order of text columns the parameter \<open>collate\<close>. A join follows a key to the row that has it; an outer
  join to a missing row yields no columns.
\<close>

definition admin_user_statuses :: "str list" where
  "admin_user_statuses = [lit ''active'', lit ''disabled'']"

definition admin_access_request_statuses :: "str list" where
  "admin_access_request_statuses = [lit ''pending'', lit ''approved'', lit ''rejected'']"

definition global_admin_roles :: "str list" where
  "global_admin_roles = [lit ''system_admin'', lit ''application_admin'']"

definition admin_login_roles :: "str list" where
  "admin_login_roles = [lit ''system_admin'', lit ''application_admin'']"

definition service_admin_roles :: "str list" where
  "service_admin_roles = [lit ''service_owner'', lit ''service_developer'', lit ''service_operator'', lit ''auditor'']"

definition normalize_admin_email :: "str \<Rightarrow> (repo_error, str) outcome" where
  "normalize_admin_email email =
     (let normalized = lower (strip email) in if normalized = [] then Inl Email_Blank else Inr normalized)"

section \<open>Rows with constraints\<close>

text \<open>
  The flush of a new row and of a changed row: a check constraint \<open>ok\<close> and the keys and unique
  constraints of the table, which two different rows violate when they are in \<open>conflict\<close>.
\<close>

definition add_row ::
  "('a \<Rightarrow> bool) \<Rightarrow> ('a \<Rightarrow> 'a \<Rightarrow> bool) \<Rightarrow> 'a \<Rightarrow> 'a list \<Rightarrow> (repo_error, 'a list) outcome" where
  "add_row ok conflict row rows =
     (if ok row \<and> \<not> list_ex (conflict row) rows then Inr (rows @ [row]) else Inl Integrity_Error)"

definition change_row ::
  "('a \<Rightarrow> bool) \<Rightarrow> ('a \<Rightarrow> 'a \<Rightarrow> bool) \<Rightarrow> ('a \<Rightarrow> 'k) \<Rightarrow> 'a \<Rightarrow> 'a list \<Rightarrow> (repo_error, 'a list) outcome" where
  "change_row ok conflict key row rows =
     (if ok row \<and> \<not> list_ex (\<lambda>q. key q \<noteq> key row \<and> conflict row q) rows
      then Inr (put_row key row rows) else Inl Integrity_Error)"

text \<open>The clamp \<open>max(1, min(limit, hi))\<close>, and the search box of the list operations.\<close>

definition clamp_limit :: "int \<Rightarrow> int \<Rightarrow> nat" where
  "clamp_limit hi limit = nat (max 1 (min limit hi))"

definition search_pattern :: "str \<Rightarrow> str" where
  "search_pattern query = lit ''%'' @ lower (strip query) @ lit ''%''"

definition search_rows ::
  "(str \<Rightarrow> str \<Rightarrow> bool) \<Rightarrow> str option \<Rightarrow> ('a \<Rightarrow> str list) \<Rightarrow> 'a list \<Rightarrow> 'a list" where
  "search_rows lower_like query columns rows =
     (case query of None \<Rightarrow> rows
      | Some q \<Rightarrow> if blank q then rows
          else filter (\<lambda>r. list_ex (\<lambda>c. lower_like c (search_pattern q)) (columns r)) rows)"

section \<open>Departments\<close>

definition department_ok :: "department \<Rightarrow> bool" where
  "department_ok r \<longleftrightarrow> dp_use_yn r \<in> {lit ''Y'', lit ''N''}"

definition department_conflict :: "department \<Rightarrow> department \<Rightarrow> bool" where
  "department_conflict a b \<longleftrightarrow> dp_id a = dp_id b \<or> dp_dept_number a = dp_dept_number b"

definition create_department_row :: "db \<Rightarrow> department \<Rightarrow> (repo_error, db \<times> department) outcome" where
  "create_department_row d r = bindE (add_row department_ok department_conflict r (db_departments d)) (\<lambda>rows.
     Inr (d\<lparr>db_departments := rows\<rparr>, r))"

definition get_department :: "db \<Rightarrow> str \<Rightarrow> department option" where
  "get_department d i = first_row (\<lambda>r. dp_id r = i) (db_departments d)"

definition list_departments ::
  "(str \<Rightarrow> nat) \<Rightarrow> (str \<Rightarrow> str \<Rightarrow> bool) \<Rightarrow> db \<Rightarrow> str option \<Rightarrow> str option \<Rightarrow> int \<Rightarrow> department list" where
  "list_departments collate lower_like d query use_yn limit =
     take (clamp_limit 100 limit) (order_by (\<lambda>r. collate (dp_dept_number r))
       (optional_filter use_yn (\<lambda>y r. dp_use_yn r = y)
       (search_rows lower_like query (\<lambda>r. [dp_dept_number r, dp_name r]) (db_departments d))))"

text \<open>\<open>set_values\<close> is the assignment of the keyword arguments to the columns they name.\<close>

definition update_department ::
  "db \<Rightarrow> department \<Rightarrow> (department \<Rightarrow> department) \<Rightarrow> (repo_error, db \<times> department) outcome" where
  "update_department d r set_values =
     bindE (change_row department_ok department_conflict dp_id (set_values r) (db_departments d)) (\<lambda>rows.
     Inr (d\<lparr>db_departments := rows\<rparr>, set_values r))"

definition deactivate_department_row :: "db \<Rightarrow> department \<Rightarrow> str \<Rightarrow> timestamp \<Rightarrow> db \<times> department" where
  "deactivate_department_row d r updated_by updated_at =
     (let r' = r\<lparr>dp_use_yn := lit ''N'', dp_updated_by := updated_by, dp_updated_at := updated_at\<rparr> in
      (d\<lparr>db_departments := put_row dp_id r' (db_departments d)\<rparr>, r'))"

section \<open>Organization users\<close>

definition organization_user_ok :: "organization_user \<Rightarrow> bool" where
  "organization_user_ok r \<longleftrightarrow> ou_use_yn r \<in> {lit ''Y'', lit ''N''}"

definition organization_user_conflict :: "organization_user \<Rightarrow> organization_user \<Rightarrow> bool" where
  "organization_user_conflict a b \<longleftrightarrow> ou_id a = ou_id b \<or> ou_user_number a = ou_user_number b"

definition create_organization_user_row ::
  "db \<Rightarrow> organization_user \<Rightarrow> (repo_error, db \<times> organization_user) outcome" where
  "create_organization_user_row d r =
     bindE (add_row organization_user_ok organization_user_conflict r (db_organization_users d)) (\<lambda>rows.
     Inr (d\<lparr>db_organization_users := rows\<rparr>, r))"

definition get_organization_user :: "db \<Rightarrow> str \<Rightarrow> organization_user option" where
  "get_organization_user d i = first_row (\<lambda>r. ou_id r = i) (db_organization_users d)"

definition get_organization_user_by_user_number ::
  "db \<Rightarrow> str \<Rightarrow> (repo_error, organization_user option) outcome" where
  "get_organization_user_by_user_number d user_number =
     bindE (require_nonblank_string user_number (lit ''organization user user_number'')) (\<lambda>n.
     Inr (first_row (\<lambda>r. ou_user_number r = strip n) (db_organization_users d)))"

definition list_organization_users ::
  "(str \<Rightarrow> nat) \<Rightarrow> (str \<Rightarrow> str \<Rightarrow> bool) \<Rightarrow> db \<Rightarrow> str option \<Rightarrow> str option \<Rightarrow> str option \<Rightarrow> int
    \<Rightarrow> organization_user list" where
  "list_organization_users collate lower_like d query department_id use_yn limit =
     (let joined = concat (map (\<lambda>u. map (\<lambda>p. (u, p)) (filter (\<lambda>p. dp_id p = ou_department_id u) (db_departments d)))
            (db_organization_users d));
          searched = search_rows lower_like query
            (\<lambda>(u, p). [ou_user_number u, ou_name u, dp_dept_number p, dp_name p]) joined;
          kept = optional_filter use_yn (\<lambda>y (u, p). ou_use_yn u = y)
            (optional_filter department_id (\<lambda>i (u, p). ou_department_id u = i) searched)
      in take (clamp_limit 100 limit) (map fst
           (order_by (\<lambda>(u, p). (collate (dp_dept_number p), collate (ou_user_number u))) kept)))"

definition update_organization_user ::
  "db \<Rightarrow> organization_user \<Rightarrow> (organization_user \<Rightarrow> organization_user)
    \<Rightarrow> (repo_error, db \<times> organization_user) outcome" where
  "update_organization_user d r set_values =
     bindE (change_row organization_user_ok organization_user_conflict ou_id (set_values r)
       (db_organization_users d)) (\<lambda>rows.
     Inr (d\<lparr>db_organization_users := rows\<rparr>, set_values r))"

definition deactivate_organization_user_row ::
  "db \<Rightarrow> organization_user \<Rightarrow> str \<Rightarrow> timestamp \<Rightarrow> db \<times> organization_user" where
  "deactivate_organization_user_row d r updated_by updated_at =
     (let r' = r\<lparr>ou_use_yn := lit ''N'', ou_updated_by := updated_by, ou_updated_at := updated_at\<rparr> in
      (d\<lparr>db_organization_users := put_row ou_id r' (db_organization_users d)\<rparr>, r'))"

section \<open>Admin users\<close>

definition admin_user_ok :: "admin_user \<Rightarrow> bool" where
  "admin_user_ok r \<longleftrightarrow> au_status r \<in> set admin_user_statuses"

definition admin_user_conflict :: "admin_user \<Rightarrow> admin_user \<Rightarrow> bool" where
  "admin_user_conflict a b \<longleftrightarrow> au_user_id a = au_user_id b \<or> au_email a = au_email b
     \<or> au_email_normalized a = au_email_normalized b
     \<or> (au_organization_user_id a \<noteq> None \<and> au_organization_user_id a = au_organization_user_id b)"

text \<open>The caller passes the columns with the email, the reason and the status as given.\<close>

definition create_admin_user :: "db \<Rightarrow> admin_user \<Rightarrow> (repo_error, db \<times> admin_user) outcome" where
  "create_admin_user d r =
     bindE (normalize_admin_email (au_email r)) (\<lambda>normalized.
     bindE (require_nonblank_string (au_admin_access_reason r) (lit ''admin_access_reason'')) (\<lambda>reason.
     bindE (require_allowed_value (au_status r) (lit ''admin user status'') admin_user_statuses) (\<lambda>status.
     let r' = r\<lparr>au_email := strip (au_email r), au_email_normalized := normalized,
       au_admin_access_reason := strip reason, au_status := status\<rparr> in
     bindE (add_row admin_user_ok admin_user_conflict r' (db_admin_users d)) (\<lambda>rows.
     Inr (d\<lparr>db_admin_users := rows\<rparr>, r')))))"

definition get_admin_user :: "db \<Rightarrow> str \<Rightarrow> admin_user option" where
  "get_admin_user d i = first_row (\<lambda>r. au_user_id r = i) (db_admin_users d)"

definition get_admin_user_by_email :: "db \<Rightarrow> str \<Rightarrow> (repo_error, admin_user option) outcome" where
  "get_admin_user_by_email d email =
     bindE (normalize_admin_email email) (\<lambda>normalized.
     Inr (first_row (\<lambda>r. au_email_normalized r = normalized) (db_admin_users d)))"

definition get_admin_user_by_organization_user_id :: "db \<Rightarrow> str \<Rightarrow> admin_user option" where
  "get_admin_user_by_organization_user_id d i =
     first_row (\<lambda>r. au_organization_user_id r = Some i) (db_admin_users d)"

text \<open>The outer join to the organization user, and the test on its state.\<close>

definition linked_organization_user :: "db \<Rightarrow> admin_user \<Rightarrow> organization_user option" where
  "linked_organization_user d u =
     (case au_organization_user_id u of None \<Rightarrow> None | Some i \<Rightarrow> get_organization_user d i)"

definition link_usable :: "db \<Rightarrow> admin_user \<Rightarrow> bool" where
  "link_usable d u \<longleftrightarrow> au_organization_user_id u = None
     \<or> map_option ou_use_yn (linked_organization_user d u) = Some (lit ''Y'')"

definition get_login_eligible_admin_user_by_email :: "db \<Rightarrow> str \<Rightarrow> (repo_error, admin_user option) outcome" where
  "get_login_eligible_admin_user_by_email d email =
     bindE (normalize_admin_email email) (\<lambda>normalized.
     Inr (first_row (\<lambda>u. au_email_normalized u = normalized \<and> au_status u = lit ''active''
       \<and> list_ex (\<lambda>r. ar_user_id r = au_user_id u \<and> ar_role r \<in> set admin_login_roles) (db_admin_user_roles d)
       \<and> link_usable d u) (db_admin_users d)))"

definition admin_user_columns :: "admin_user \<Rightarrow> str list" where
  "admin_user_columns u = [au_email_normalized u, au_email u, au_display_name u, au_user_id u]"

definition list_admin_users ::
  "(str \<Rightarrow> nat) \<Rightarrow> (str \<Rightarrow> str \<Rightarrow> bool) \<Rightarrow> db \<Rightarrow> str option \<Rightarrow> int \<Rightarrow> admin_user list" where
  "list_admin_users collate lower_like d query limit =
     take (clamp_limit 25 limit) (order_by (\<lambda>u. (collate (au_email_normalized u), collate (au_user_id u)))
       (search_rows lower_like query admin_user_columns (db_admin_users d)))"

definition list_managed_admin_users ::
  "(str \<Rightarrow> nat) \<Rightarrow> (str \<Rightarrow> str \<Rightarrow> bool) \<Rightarrow> db \<Rightarrow> str option \<Rightarrow> str option \<Rightarrow> int \<Rightarrow> admin_user list" where
  "list_managed_admin_users collate lower_like d organization_user_id query limit =
     take (clamp_limit 25 limit) (order_by (\<lambda>u. (collate (au_email_normalized u), collate (au_user_id u)))
       (search_rows lower_like query admin_user_columns
         (optional_filter organization_user_id (\<lambda>i u. au_organization_user_id u = Some i) (db_admin_users d))))"

record admin_user_changes =
  ch_email :: "str option"
  ch_display_name :: "str option"
  ch_status :: "str option"
  ch_updated_at :: "timestamp option"

definition put_admin_user :: "db \<Rightarrow> admin_user \<Rightarrow> (repo_error, db \<times> admin_user) outcome" where
  "put_admin_user d r =
     bindE (change_row admin_user_ok admin_user_conflict au_user_id r (db_admin_users d)) (\<lambda>rows.
     Inr (d\<lparr>db_admin_users := rows\<rparr>, r))"

definition update_admin_user ::
  "db \<Rightarrow> admin_user \<Rightarrow> admin_user_changes \<Rightarrow> (repo_error, db \<times> admin_user) outcome" where
  "update_admin_user d r ch =
     bindE (case ch_email ch of None \<Rightarrow> Inr r
       | Some email \<Rightarrow> bindE (normalize_admin_email email) (\<lambda>normalized.
           Inr (r\<lparr>au_email := strip email, au_email_normalized := normalized\<rparr>))) (\<lambda>r1.
     bindE (case ch_display_name ch of None \<Rightarrow> Inr r1
       | Some name \<Rightarrow> bindE (require_nonblank_string name (lit ''admin user display_name'')) (\<lambda>n.
           Inr (r1\<lparr>au_display_name := strip n\<rparr>))) (\<lambda>r2.
     bindE (case ch_status ch of None \<Rightarrow> Inr r2
       | Some status \<Rightarrow> bindE (require_allowed_value status (lit ''admin user status'') admin_user_statuses) (\<lambda>s.
           Inr (r2\<lparr>au_status := s\<rparr>))) (\<lambda>r3.
     put_admin_user d (case ch_updated_at ch of None \<Rightarrow> r3 | Some t \<Rightarrow> r3\<lparr>au_updated_at := t\<rparr>))))"

definition update_admin_user_login :: "db \<Rightarrow> admin_user \<Rightarrow> timestamp \<Rightarrow> (repo_error, db \<times> admin_user) outcome" where
  "update_admin_user_login d r last_login_at =
     put_admin_user d (r\<lparr>au_last_login_at := Some last_login_at, au_updated_at := last_login_at\<rparr>)"

definition update_admin_user_password ::
  "db \<Rightarrow> admin_user \<Rightarrow> str \<Rightarrow> timestamp \<Rightarrow> (repo_error, db \<times> admin_user) outcome" where
  "update_admin_user_password d r password_hash updated_at =
     bindE (require (\<not> blank password_hash) Password_Hash_Blank) (\<lambda>_.
     put_admin_user d (r\<lparr>au_password_hash := password_hash, au_updated_at := updated_at\<rparr>))"

section \<open>Access requests\<close>

definition access_request_conflict :: "admin_access_request \<Rightarrow> admin_access_request \<Rightarrow> bool" where
  "access_request_conflict a b \<longleftrightarrow> aa_request_id a = aa_request_id b
     \<or> (aa_status a = lit ''pending'' \<and> aa_status b = lit ''pending''
        \<and> (aa_email_normalized a = aa_email_normalized b \<or> aa_user_number a = aa_user_number b))"

definition create_admin_access_request_row ::
  "db \<Rightarrow> admin_access_request \<Rightarrow> (repo_error, db \<times> admin_access_request) outcome" where
  "create_admin_access_request_row d r =
     bindE (require_nonblank_string (aa_email r) (lit ''email'')) (\<lambda>email.
     bindE (normalize_admin_email email) (\<lambda>normalized.
     bindE (require_allowed_value (aa_status r) (lit ''admin access request status'')
       admin_access_request_statuses) (\<lambda>status.
     let r' = r\<lparr>aa_email := strip email, aa_email_normalized := normalized, aa_status := status\<rparr> in
     bindE (add_row access_request_row_ok access_request_conflict r' (db_access_requests d)) (\<lambda>rows.
     Inr (d\<lparr>db_access_requests := rows\<rparr>, r')))))"

definition list_admin_access_requests ::
  "db \<Rightarrow> str option \<Rightarrow> int \<Rightarrow> (repo_error, admin_access_request list) outcome" where
  "list_admin_access_requests d status limit =
     bindE (case status of None \<Rightarrow> Inr None
       | Some s \<Rightarrow> bindE (require_allowed_value s (lit ''admin access request status'')
           admin_access_request_statuses) (\<lambda>s. Inr (Some s))) (\<lambda>status.
     Inr (take (clamp_limit 200 limit)
       (rev (order_by (\<lambda>r. (aa_requested_at r, aa_request_id r))
         (optional_filter status (\<lambda>s r. aa_status r = s) (db_access_requests d))))))"

definition get_admin_access_request :: "db \<Rightarrow> str \<Rightarrow> admin_access_request option" where
  "get_admin_access_request d i = first_row (\<lambda>r. aa_request_id r = i) (db_access_requests d)"

definition require_pending_admin_access_request :: "admin_access_request \<Rightarrow> (repo_error, unit) outcome" where
  "require_pending_admin_access_request r = require (aa_status r = lit ''pending'') Access_Request_Not_Pending"

definition put_access_request ::
  "db \<Rightarrow> admin_access_request \<Rightarrow> (repo_error, db \<times> admin_access_request) outcome" where
  "put_access_request d r =
     bindE (change_row access_request_row_ok access_request_conflict aa_request_id r (db_access_requests d)) (\<lambda>rows.
     Inr (d\<lparr>db_access_requests := rows\<rparr>, r))"

definition approve_admin_access_request_row ::
  "db \<Rightarrow> admin_access_request \<Rightarrow> str \<Rightarrow> timestamp \<Rightarrow> str option \<Rightarrow> str \<Rightarrow> str
    \<Rightarrow> (repo_error, db \<times> admin_access_request) outcome" where
  "approve_admin_access_request_row d r decided_by decided_at reason created_user_id created_admin_user_id =
     bindE (require_pending_admin_access_request r) (\<lambda>_.
     bindE (require_nonblank_string decided_by (lit ''admin access request decision actor'')) (\<lambda>_.
     put_access_request d (r\<lparr>aa_status := lit ''approved'', aa_decided_by := Some decided_by,
       aa_decided_at := Some decided_at, aa_decision_reason := reason, aa_created_user_id := Some created_user_id,
       aa_created_admin_user_id := Some created_admin_user_id, aa_password_hash := None\<rparr>)))"

definition reject_admin_access_request_row ::
  "db \<Rightarrow> admin_access_request \<Rightarrow> str \<Rightarrow> timestamp \<Rightarrow> str
    \<Rightarrow> (repo_error, db \<times> admin_access_request) outcome" where
  "reject_admin_access_request_row d r decided_by decided_at reason =
     bindE (require_pending_admin_access_request r) (\<lambda>_.
     bindE (require_nonblank_string decided_by (lit ''admin access request decision actor'')) (\<lambda>_.
     bindE (require_nonblank_string reason (lit ''admin access request rejection reason'')) (\<lambda>_.
     put_access_request d (r\<lparr>aa_status := lit ''rejected'', aa_decided_by := Some decided_by,
       aa_decided_at := Some decided_at, aa_decision_reason := Some reason, aa_password_hash := None\<rparr>))))"

section \<open>Global roles\<close>

definition admin_user_role_ok :: "admin_user_role \<Rightarrow> bool" where
  "admin_user_role_ok r \<longleftrightarrow> ar_role r \<in> set global_admin_roles"

text \<open>The primary key, and the unique index on the rows of the role \<open>system_admin\<close>.\<close>

definition admin_user_role_conflict :: "admin_user_role \<Rightarrow> admin_user_role \<Rightarrow> bool" where
  "admin_user_role_conflict a b \<longleftrightarrow> (ar_user_id a = ar_user_id b \<and> ar_role a = ar_role b)
     \<or> (ar_role a = lit ''system_admin'' \<and> ar_role b = lit ''system_admin'')"

definition system_admin_user_id :: "db \<Rightarrow> str option" where
  "system_admin_user_id d =
     map_option ar_user_id (first_row (\<lambda>r. ar_role r = lit ''system_admin'') (db_admin_user_roles d))"

definition assert_can_assign_system_admin :: "db \<Rightarrow> str \<Rightarrow> (repo_error, unit) outcome" where
  "assert_can_assign_system_admin d user_id =
     (case system_admin_user_id d of None \<Rightarrow> Inr ()
      | Some existing \<Rightarrow> require (existing = user_id) System_Admin_Exists)"

definition assign_admin_user_role ::
  "db \<Rightarrow> admin_user_role \<Rightarrow> (repo_error, db \<times> admin_user_role) outcome" where
  "assign_admin_user_role d r =
     bindE (require_allowed_value (ar_role r) (lit ''admin user role'') global_admin_roles) (\<lambda>_.
     bindE (if ar_role r = lit ''system_admin''
       then bindE (require_nonblank_string (ar_user_id r) (lit ''admin user role user_id'')) (\<lambda>user_id.
         assert_can_assign_system_admin d user_id)
       else Inr ()) (\<lambda>_.
     bindE (add_row admin_user_role_ok admin_user_role_conflict r (db_admin_user_roles d)) (\<lambda>rows.
     Inr (d\<lparr>db_admin_user_roles := rows\<rparr>, r))))"

definition get_admin_user_role :: "db \<Rightarrow> str \<Rightarrow> str \<Rightarrow> admin_user_role option" where
  "get_admin_user_role d user_id role =
     first_row (\<lambda>r. ar_user_id r = user_id \<and> ar_role r = role) (db_admin_user_roles d)"

definition ensure_admin_user_role ::
  "db \<Rightarrow> admin_user_role \<Rightarrow> (repo_error, db \<times> admin_user_role) outcome" where
  "ensure_admin_user_role d r =
     bindE (require_allowed_value (ar_role r) (lit ''admin user role'') global_admin_roles) (\<lambda>role.
     bindE (require (\<not> blank (ar_user_id r)) (Must_Not_Be_Blank (lit ''admin user role user_id''))) (\<lambda>_.
     case get_admin_user_role d (ar_user_id r) role of
       Some existing \<Rightarrow> Inr (d, existing)
     | None \<Rightarrow> assign_admin_user_role d r))"

definition admin_user_role_exists :: "db \<Rightarrow> str \<Rightarrow> (repo_error, bool) outcome" where
  "admin_user_role_exists d role =
     bindE (require_allowed_value role (lit ''admin user role'') global_admin_roles) (\<lambda>role.
     Inr (first_row (\<lambda>r. ar_role r = role) (db_admin_user_roles d) \<noteq> None))"

definition list_admin_user_roles :: "(str \<Rightarrow> nat) \<Rightarrow> db \<Rightarrow> str \<Rightarrow> admin_user_role list" where
  "list_admin_user_roles collate d user_id =
     order_by (\<lambda>r. collate (ar_role r)) (filter (\<lambda>r. ar_user_id r = user_id) (db_admin_user_roles d))"

definition delete_admin_user_role_by_key ::
  "db \<Rightarrow> str \<Rightarrow> str \<Rightarrow> (repo_error, db \<times> admin_user_role option) outcome" where
  "delete_admin_user_role_by_key d user_id role =
     bindE (require_allowed_value role (lit ''admin user role'') global_admin_roles) (\<lambda>role.
     case get_admin_user_role d user_id role of
       None \<Rightarrow> Inr (d, None)
     | Some r \<Rightarrow> Inr (d\<lparr>db_admin_user_roles :=
         filter (\<lambda>q. \<not> (ar_user_id q = ar_user_id r \<and> ar_role q = ar_role r)) (db_admin_user_roles d)\<rparr>, Some r))"

definition count_login_eligible_admin_users_with_role :: "db \<Rightarrow> str \<Rightarrow> (repo_error, nat) outcome" where
  "count_login_eligible_admin_users_with_role d role =
     bindE (require_allowed_value role (lit ''admin user role'') global_admin_roles) (\<lambda>role.
     Inr (length (filter (\<lambda>r. ar_role r = role \<and>
       list_ex (\<lambda>u. au_user_id u = ar_user_id r \<and> au_status u = lit ''active'' \<and> link_usable d u) (db_admin_users d))
       (db_admin_user_roles d))))"

section \<open>Service roles\<close>

definition user_service_role_conflict :: "user_service_role \<Rightarrow> user_service_role \<Rightarrow> bool" where
  "user_service_role_conflict a b \<longleftrightarrow>
     ur_user_id a = ur_user_id b \<and> ur_service_id a = ur_service_id b \<and> ur_role a = ur_role b"

definition user_service_role_ok :: "user_service_role \<Rightarrow> bool" where
  "user_service_role_ok r \<longleftrightarrow> ur_role r \<in> set service_admin_roles"

definition assign_user_service_role ::
  "db \<Rightarrow> user_service_role \<Rightarrow> (repo_error, db \<times> user_service_role) outcome" where
  "assign_user_service_role d r =
     bindE (require_allowed_value (ur_role r) (lit ''user service role'') service_admin_roles) (\<lambda>_.
     bindE (add_row user_service_role_ok user_service_role_conflict r (db_user_service_roles d)) (\<lambda>rows.
     Inr (d\<lparr>db_user_service_roles := rows\<rparr>, r)))"

definition get_user_service_role :: "db \<Rightarrow> str \<Rightarrow> str \<Rightarrow> str \<Rightarrow> (repo_error, user_service_role option) outcome" where
  "get_user_service_role d user_id service_id role =
     bindE (require_allowed_value role (lit ''user service role'') service_admin_roles) (\<lambda>role.
     Inr (first_row (\<lambda>r. ur_user_id r = user_id \<and> ur_service_id r = service_id \<and> ur_role r = role)
       (db_user_service_roles d)))"

text \<open>A failed insertion is rolled back to its savepoint and the row looked up again.\<close>

definition ensure_user_service_role_with_created ::
  "db \<Rightarrow> user_service_role \<Rightarrow> (repo_error, db \<times> user_service_role \<times> bool) outcome" where
  "ensure_user_service_role_with_created d r =
     bindE (require_nonblank_string (ur_user_id r) (lit ''user service role user_id'')) (\<lambda>user_id.
     bindE (require_nonblank_string (ur_service_id r) (lit ''user service role service_id'')) (\<lambda>service_id.
     bindE (require_allowed_value (ur_role r) (lit ''user service role'') service_admin_roles) (\<lambda>role.
     bindE (get_user_service_role d user_id service_id role) (\<lambda>existing.
     case existing of
       Some e \<Rightarrow> Inr (d, e, False)
     | None \<Rightarrow>
         (case assign_user_service_role d r of
            Inr (d', r') \<Rightarrow> Inr (d', r', True)
          | Inl Integrity_Error \<Rightarrow> bindE (get_user_service_role d user_id service_id role) (\<lambda>again.
              case again of None \<Rightarrow> Inl Integrity_Error | Some e \<Rightarrow> Inr (d, e, False))
          | Inl e \<Rightarrow> Inl e)))))"

definition ensure_user_service_role ::
  "db \<Rightarrow> user_service_role \<Rightarrow> (repo_error, db \<times> user_service_role) outcome" where
  "ensure_user_service_role d r =
     bindE (ensure_user_service_role_with_created d r) (\<lambda>(d', r', _). Inr (d', r'))"

definition delete_user_service_role :: "db \<Rightarrow> user_service_role \<Rightarrow> db" where
  "delete_user_service_role d r = d\<lparr>db_user_service_roles :=
     filter (\<lambda>q. \<not> user_service_role_conflict q r) (db_user_service_roles d)\<rparr>"

definition delete_user_service_role_by_key ::
  "db \<Rightarrow> str \<Rightarrow> str \<Rightarrow> str \<Rightarrow> (repo_error, db \<times> user_service_role option) outcome" where
  "delete_user_service_role_by_key d user_id service_id role =
     bindE (get_user_service_role d user_id service_id role) (\<lambda>found.
     case found of None \<Rightarrow> Inr (d, None) | Some r \<Rightarrow> Inr (delete_user_service_role d r, Some r))"

definition list_user_service_roles :: "(str \<Rightarrow> nat) \<Rightarrow> db \<Rightarrow> str \<Rightarrow> str \<Rightarrow> user_service_role list" where
  "list_user_service_roles collate d user_id service_id =
     order_by (\<lambda>r. collate (ur_role r))
       (filter (\<lambda>r. ur_user_id r = user_id \<and> ur_service_id r = service_id) (db_user_service_roles d))"

definition list_service_member_roles :: "(str \<Rightarrow> nat) \<Rightarrow> db \<Rightarrow> str \<Rightarrow> user_service_role list" where
  "list_service_member_roles collate d service_id =
     map fst (order_by (\<lambda>(r, u). (collate (au_email_normalized u), collate (ur_role r), collate (ur_user_id r)))
       (concat (map (\<lambda>r. map (\<lambda>u. (r, u)) (filter (\<lambda>u. au_user_id u = ur_user_id r) (db_admin_users d)))
         (filter (\<lambda>r. ur_service_id r = service_id) (db_user_service_roles d)))))"

definition list_service_roles_for_user :: "(str \<Rightarrow> nat) \<Rightarrow> db \<Rightarrow> str \<Rightarrow> user_service_role list" where
  "list_service_roles_for_user collate d user_id =
     order_by (\<lambda>r. (collate (ur_service_id r), collate (ur_role r)))
       (filter (\<lambda>r. ur_user_id r = user_id) (db_user_service_roles d))"

section \<open>Sessions\<close>

record admin_session_context =
  sc_user :: admin_user
  sc_admin_session :: admin_session
  sc_global_roles :: "str set"
  sc_service_roles :: "user_service_role list"

definition admin_session_conflict :: "admin_session \<Rightarrow> admin_session \<Rightarrow> bool" where
  "admin_session_conflict a b \<longleftrightarrow> as_session_id a = as_session_id b \<or> as_token_hash a = as_token_hash b"

definition create_admin_session :: "db \<Rightarrow> admin_session \<Rightarrow> (repo_error, db \<times> admin_session) outcome" where
  "create_admin_session d r =
     bindE (add_row (\<lambda>_. True) admin_session_conflict r (db_admin_sessions d)) (\<lambda>rows.
     Inr (d\<lparr>db_admin_sessions := rows\<rparr>, r))"

definition get_admin_session_by_token_hash :: "db \<Rightarrow> str \<Rightarrow> admin_session option" where
  "get_admin_session_by_token_hash d token_hash =
     first_row (\<lambda>r. as_token_hash r = token_hash) (db_admin_sessions d)"

definition session_usable :: "db \<Rightarrow> str \<Rightarrow> timestamp \<Rightarrow> admin_session \<Rightarrow> bool" where
  "session_usable d token_hash now s \<longleftrightarrow>
     as_token_hash s = token_hash \<and> as_revoked_at s = None \<and> now < as_expires_at s
     \<and> (case get_admin_user d (as_user_id s) of None \<Rightarrow> False
        | Some u \<Rightarrow> au_status u = lit ''active'' \<and> link_usable d u)"

definition get_active_admin_session_context ::
  "(str \<Rightarrow> nat) \<Rightarrow> db \<Rightarrow> str \<Rightarrow> timestamp \<Rightarrow> db \<times> admin_session_context option" where
  "get_active_admin_session_context collate d token_hash now =
     (if blank token_hash then (d, None)
      else case first_row (session_usable d token_hash now) (db_admin_sessions d) of
        None \<Rightarrow> (d, None)
      | Some s \<Rightarrow>
          let global_roles = set (map ar_role (list_admin_user_roles collate d (as_user_id s))) in
          if \<not> list_ex (\<lambda>r. r \<in> global_roles) admin_login_roles then (d, None)
          else let s' = s\<lparr>as_last_seen_at := Some now\<rparr>;
                   d' = d\<lparr>db_admin_sessions := put_row as_session_id s' (db_admin_sessions d)\<rparr>
               in (d', Some \<lparr>sc_user = the (get_admin_user d (as_user_id s)), sc_admin_session = s',
                    sc_global_roles = global_roles,
                    sc_service_roles = list_service_roles_for_user collate d (as_user_id s)\<rparr>))"

definition revoke_admin_session :: "db \<Rightarrow> admin_session \<Rightarrow> timestamp \<Rightarrow> db \<times> admin_session" where
  "revoke_admin_session d s revoked_at =
     (let s' = s\<lparr>as_revoked_at := Some revoked_at\<rparr> in
      (d\<lparr>db_admin_sessions := put_row as_session_id s' (db_admin_sessions d)\<rparr>, s'))"

end
