(* ===== verification/Log_Store.thy ===== *)
theory Log_Store
  imports Access_Store
begin

text \<open>
  The log tables of \<open>db/repositories.py\<close>: audit logs, runtime logs with their masked view, the redaction
  of raw queries and the inventory of the keys that raw texts are encrypted with.
\<close>

section \<open>Audit logs\<close>

definition insert_audit_log :: "db \<Rightarrow> audit_log \<Rightarrow> (repo_error, db \<times> audit_log) outcome" where
  "insert_audit_log d r = bindE (insert_row al_audit_id r (db_audit_logs d)) (\<lambda>rows.
     Inr (d\<lparr>db_audit_logs := rows\<rparr>, r))"

definition list_audit_logs :: "db \<Rightarrow> str \<Rightarrow> nat \<Rightarrow> str option \<Rightarrow> str option \<Rightarrow> audit_log list" where
  "list_audit_logs d service_id limit event_type trace_id =
     take limit (order_by (\<lambda>r. (- al_created_at r, al_audit_id r))
       (optional_filter trace_id (\<lambda>t r. al_trace_id r = Some t)
       (optional_filter event_type (\<lambda>e r. al_event_type r = e)
       (filter (\<lambda>r. al_service_id r = Some service_id) (db_audit_logs d)))))"

definition permission_admin_user_audit_event_types :: "str list" where
  "permission_admin_user_audit_event_types = [lit ''admin_user.created'', lit ''admin_user.updated'',
     lit ''admin_user.activated'', lit ''admin_user.disabled'', lit ''admin_user.global_role_granted'',
     lit ''admin_user.global_role_revoked'', lit ''admin_user.system_admin_transferred'',
     lit ''admin_access_request.created'', lit ''admin_access_request.approved'',
     lit ''admin_access_request.rejected'']"

definition permission_service_membership_audit_event_types :: "str list" where
  "permission_service_membership_audit_event_types =
     [lit ''service_membership.role_granted'', lit ''service_membership.role_revoked'']"

definition permission_audit_event_types :: "str list" where
  "permission_audit_event_types =
     permission_admin_user_audit_event_types @ permission_service_membership_audit_event_types"

text \<open>A filter value that was given must not be blank, and is compared without surrounding spaces.\<close>

definition nonblank_filter :: "str option \<Rightarrow> str \<Rightarrow> (repo_error, str option) outcome" where
  "nonblank_filter v field_name =
     (case v of None \<Rightarrow> Inr None
      | Some s \<Rightarrow> bindE (require_nonblank_string s field_name) (\<lambda>s. Inr (Some (strip s))))"

definition list_permission_audit_logs ::
  "db \<Rightarrow> str \<Rightarrow> str option \<Rightarrow> str option \<Rightarrow> str option \<Rightarrow> str option \<Rightarrow> int
    \<Rightarrow> (repo_error, audit_log list) outcome" where
  "list_permission_audit_logs d event_group event_type actor_id target_id service_id limit =
     bindE (require_allowed_value event_group (lit ''permission audit event group'')
       [lit ''admin_user'', lit ''service_membership'', lit ''all'']) (\<lambda>event_group.
     let allowed_event_types =
       (if event_group = lit ''admin_user'' then permission_admin_user_audit_event_types
        else if event_group = lit ''service_membership'' then permission_service_membership_audit_event_types
        else permission_audit_event_types) in
     bindE (nonblank_filter event_type (lit ''permission audit event_type'')) (\<lambda>event_type.
     bindE (nonblank_filter actor_id (lit ''permission audit actor_id'')) (\<lambda>actor_id.
     bindE (nonblank_filter target_id (lit ''permission audit target_id'')) (\<lambda>target_id.
     bindE (nonblank_filter service_id (lit ''permission audit service_id'')) (\<lambda>service_id.
     Inr (take (clamp_limit 500 limit) (order_by (\<lambda>r. (- al_created_at r, al_audit_id r))
       (optional_filter service_id (\<lambda>s r. al_service_id r = Some s)
       (optional_filter target_id (\<lambda>t r. al_target_id r = t)
       (optional_filter actor_id (\<lambda>a r. al_actor_id r = a)
       (optional_filter event_type (\<lambda>e r. al_event_type r = e)
       (filter (\<lambda>r. al_event_type r \<in> set allowed_event_types) (db_audit_logs d)))))))))))))"

section \<open>Runtime logs\<close>

text \<open>
  A text column takes every text but those with NUL or a surrogate, which the driver or the database refuses; and so does
  a JSONB column with the texts in it.
\<close>

definition storable :: "str \<Rightarrow> bool" where
  "storable s \<longleftrightarrow> list_all (\<lambda>c. 0 < c \<and> c < 1114112 \<and> \<not> (55296 \<le> c \<and> c < 57344)) s"

definition storable_option :: "str option \<Rightarrow> bool" where
  "storable_option v \<longleftrightarrow> (case v of None \<Rightarrow> True | Some s \<Rightarrow> storable s)"

fun storable_json :: "json \<Rightarrow> bool" where
  "storable_json (JStr s) = storable s"
| "storable_json (JArr vs) = list_all storable_json vs"
| "storable_json (JObj d) = list_all (\<lambda>p. storable (fst p) \<and> storable_json (snd p)) d"
| "storable_json _ = True"

definition storable_runtime_log :: "runtime_log \<Rightarrow> bool" where
  "storable_runtime_log r \<longleftrightarrow>
     (let v = rl_versions r; dc = rl_decision r; e = rl_error r; q = rl_query_raw r in
      storable (rl_trace_id r)
      \<and> list_all storable_option
          [rl_request_id r, rl_app_id r, rl_service_id r, rl_environment r, lv_release_version v, lv_policy_version v,
           lv_intent_catalog_version v, lv_model_version v, lv_vector_index_version v, lv_test_run_id v,
           lv_threshold_preset v, ld_decision dc, ld_intent_id dc, ld_route_key dc, le_error_code e, le_error_category e,
           le_error_layer e, nt_key_id q, nt_algorithm q, rl_query_masked r, rl_raw_query_deleted_by r,
           rl_raw_query_delete_reason r]
      \<and> (case ld_decision_state dc of None \<Rightarrow> True | Some s \<Rightarrow> storable_json (JObj s)))"

definition insert_runtime_log :: "db \<Rightarrow> runtime_log \<Rightarrow> (repo_error, db \<times> runtime_log) outcome" where
  "insert_runtime_log d r =
     bindE (require (storable_runtime_log r) Data_Error) (\<lambda>_.
     bindE (insert_row rl_trace_id r (db_runtime_logs d)) (\<lambda>rows.
     Inr (d\<lparr>db_runtime_logs := rows\<rparr>, r)))"

text \<open>The columns a log may be shown with: none of them holds the raw query.\<close>

record masked_runtime_log =
  ml_trace_id :: str
  ml_request_id :: "str option"
  ml_app_id :: "str option"
  ml_service_id :: "str option"
  ml_environment :: "str option"
  ml_release_version :: "str option"
  ml_policy_version :: "str option"
  ml_intent_catalog_version :: "str option"
  ml_decision :: "str option"
  ml_intent_id :: "str option"
  ml_confidence :: "float64 option"
  ml_margin :: "float64 option"
  ml_threshold_preset :: "str option"
  ml_threshold_value :: "float64 option"
  ml_route_key :: "str option"
  ml_error :: log_error
  ml_latency_ms :: nat
  ml_query_masked :: "str option"
  ml_created_at :: timestamp

definition masked_runtime_log_columns :: "runtime_log \<Rightarrow> masked_runtime_log" where
  "masked_runtime_log_columns r =
     \<lparr>ml_trace_id = rl_trace_id r, ml_request_id = rl_request_id r, ml_app_id = rl_app_id r,
      ml_service_id = rl_service_id r, ml_environment = rl_environment r,
      ml_release_version = lv_release_version (rl_versions r), ml_policy_version = lv_policy_version (rl_versions r),
      ml_intent_catalog_version = lv_intent_catalog_version (rl_versions r),
      ml_decision = ld_decision (rl_decision r), ml_intent_id = ld_intent_id (rl_decision r),
      ml_confidence = ld_confidence (rl_decision r), ml_margin = ld_margin (rl_decision r),
      ml_threshold_preset = lv_threshold_preset (rl_versions r),
      ml_threshold_value = lv_threshold_value (rl_versions r), ml_route_key = ld_route_key (rl_decision r),
      ml_error = rl_error r, ml_latency_ms = rl_latency_ms r, ml_query_masked = rl_query_masked r,
      ml_created_at = rl_created_at r\<rparr>"

text \<open>Newest first; logs of the same moment by their trace identifier.\<close>

definition newest_runtime_logs :: "(str \<Rightarrow> nat) \<Rightarrow> runtime_log list \<Rightarrow> runtime_log list" where
  "newest_runtime_logs collate rows = order_by (\<lambda>r. (- rl_created_at r, collate (rl_trace_id r))) rows"

definition list_masked_runtime_logs ::
  "(str \<Rightarrow> nat) \<Rightarrow> db \<Rightarrow> str \<Rightarrow> str option \<Rightarrow> nat \<Rightarrow> masked_runtime_log list" where
  "list_masked_runtime_logs collate d service_id environment limit =
     map masked_runtime_log_columns (take limit (newest_runtime_logs collate
       (optional_filter environment (\<lambda>e r. rl_environment r = Some e)
       (filter (\<lambda>r. rl_service_id r = Some service_id) (db_runtime_logs d)))))"

definition list_masked_runtime_logs_for_export ::
  "(str \<Rightarrow> nat) \<Rightarrow> db \<Rightarrow> str \<Rightarrow> str option \<Rightarrow> str option \<Rightarrow> nat \<Rightarrow> masked_runtime_log list" where
  "list_masked_runtime_logs_for_export collate d service_id trace_id environment limit =
     map masked_runtime_log_columns (take limit (newest_runtime_logs collate
       (optional_filter environment (\<lambda>e r. rl_environment r = Some e)
       (optional_filter trace_id (\<lambda>t r. rl_trace_id r = t)
       (filter (\<lambda>r. rl_service_id r = Some service_id) (db_runtime_logs d))))))"

definition get_runtime_log_for_decrypt :: "db \<Rightarrow> str \<Rightarrow> str \<Rightarrow> runtime_log option" where
  "get_runtime_log_for_decrypt d service_id trace_id =
     first_row (\<lambda>r. rl_service_id r = Some service_id \<and> rl_trace_id r = trace_id) (db_runtime_logs d)"

definition get_masked_runtime_log :: "db \<Rightarrow> str \<Rightarrow> str \<Rightarrow> masked_runtime_log option" where
  "get_masked_runtime_log d service_id trace_id =
     map_option masked_runtime_log_columns
       (first_row (\<lambda>r. rl_service_id r = Some service_id \<and> rl_trace_id r = trace_id) (db_runtime_logs d))"

section \<open>Redaction\<close>

text \<open>Some of the eight columns of the raw query holds a value; all of them do.\<close>

definition has_raw_query :: "runtime_log \<Rightarrow> bool" where
  "has_raw_query r \<longleftrightarrow> rl_query_raw r \<noteq> null_text"

definition complete_text :: "nullable_encrypted_text \<Rightarrow> encrypted_text option" where
  "complete_text n =
     (case (nt_ciphertext n, nt_encrypted_dek n, nt_encrypted_dek_iv n, nt_encrypted_dek_auth_tag n) of
        (Some c, Some k, Some ki, Some kt) \<Rightarrow>
          (case (nt_key_id n, nt_iv n, nt_auth_tag n, nt_algorithm n) of
             (Some i, Some iv, Some t, Some a) \<Rightarrow>
               Some \<lparr>et_ciphertext = c, et_encrypted_dek = k, et_encrypted_dek_iv = ki, et_encrypted_dek_auth_tag = kt,
                 et_key_id = i, et_iv = iv, et_auth_tag = t, et_algorithm = a\<rparr>
           | _ \<Rightarrow> None)
      | _ \<Rightarrow> None)"

lemma complete_stored [simp]: "complete_text (stored_text e) = Some e"
  by (simp add: complete_text_def stored_text_def)

lemma complete_null [simp]: "complete_text null_text = None"
  by (simp add: complete_text_def null_text_def)

definition redactable :: "str \<Rightarrow> str list \<Rightarrow> runtime_log \<Rightarrow> bool" where
  "redactable service_id trace_ids r \<longleftrightarrow> rl_service_id r = Some service_id \<and> rl_trace_id r \<in> set trace_ids
     \<and> rl_raw_query_deleted_at r = None \<and> has_raw_query r"

definition redact_runtime_raw_query_trace_ids ::
  "db \<Rightarrow> str \<Rightarrow> str list \<Rightarrow> str \<Rightarrow> str \<Rightarrow> timestamp \<Rightarrow> db \<times> str list" where
  "redact_runtime_raw_query_trace_ids d service_id trace_ids actor_id reason deleted_at =
     (if trace_ids = [] then (d, [])
      else (d\<lparr>db_runtime_logs := update_where (redactable service_id trace_ids)
              (\<lambda>r. r\<lparr>rl_query_raw := null_text, rl_raw_query_deleted_at := Some deleted_at,
                 rl_raw_query_deleted_by := Some actor_id, rl_raw_query_delete_reason := Some reason\<rparr>)
              (db_runtime_logs d)\<rparr>,
            map rl_trace_id (filter (redactable service_id trace_ids) (db_runtime_logs d))))"

definition redact_runtime_raw_queries ::
  "db \<Rightarrow> str \<Rightarrow> str list \<Rightarrow> str \<Rightarrow> str \<Rightarrow> timestamp \<Rightarrow> db \<times> nat" where
  "redact_runtime_raw_queries d service_id trace_ids actor_id reason deleted_at =
     (let (d', ids) = redact_runtime_raw_query_trace_ids d service_id trace_ids actor_id reason deleted_at
      in (d', length ids))"

section \<open>Keys of the raw texts\<close>

definition list_intent_examples_for_rewrap ::
  "db \<Rightarrow> str \<Rightarrow> str list option \<Rightarrow> nat option \<Rightarrow> intent_example list" where
  "list_intent_examples_for_rewrap d service_id key_ids limit =
     (if key_ids = Some [] then []
      else (case limit of None \<Rightarrow> id | Some n \<Rightarrow> take n) (order_by (\<lambda>r. (ie_created_at r, ie_example_id r))
        (optional_filter key_ids (\<lambda>ks r. et_key_id (ie_text_raw r) \<in> set ks)
          (filter (\<lambda>r. ie_service_id r = service_id) (db_intent_examples d)))))"

definition list_runtime_logs_for_rewrap ::
  "(str \<Rightarrow> nat) \<Rightarrow> db \<Rightarrow> str \<Rightarrow> str list option \<Rightarrow> nat option \<Rightarrow> runtime_log list" where
  "list_runtime_logs_for_rewrap collate d service_id key_ids limit =
     (if key_ids = Some [] then []
      else (case limit of None \<Rightarrow> id | Some n \<Rightarrow> take n) (order_by (\<lambda>r. (rl_created_at r, collate (rl_trace_id r)))
        (optional_filter key_ids (\<lambda>ks r. list_ex (\<lambda>k. nt_key_id (rl_query_raw r) = Some k) ks)
          (filter (\<lambda>r. rl_service_id r = Some service_id \<and> complete_text (rl_query_raw r) \<noteq> None)
            (db_runtime_logs d)))))"

text \<open>\<open>GROUP BY\<close> a key: each key with the number of its rows.\<close>

definition group_counts :: "'k list \<Rightarrow> ('k \<times> nat) list" where
  "group_counts ks = map (\<lambda>k. (k, length (filter (\<lambda>k'. k' = k) ks))) (remdups ks)"

record raw_text_key_counts =
  kc_intent_examples :: "(str \<times> nat) list"
  kc_runtime_logs :: "(str \<times> nat) list"
  kc_runtime_logs_redacted :: nat
  kc_runtime_logs_incomplete :: "nat option"

definition example_key_counts :: "db \<Rightarrow> str \<Rightarrow> (str \<times> nat) list" where
  "example_key_counts d service_id = group_counts (map (\<lambda>r. et_key_id (ie_text_raw r))
     (filter (\<lambda>r. ie_service_id r = service_id) (db_intent_examples d)))"

definition redacted_count :: "db \<Rightarrow> str \<Rightarrow> nat" where
  "redacted_count d service_id = length (filter (\<lambda>r. rl_service_id r = Some service_id
     \<and> rl_raw_query_deleted_at r \<noteq> None) (db_runtime_logs d))"

definition count_raw_text_key_ids :: "db \<Rightarrow> str \<Rightarrow> raw_text_key_counts" where
  "count_raw_text_key_ids d service_id =
     \<lparr>kc_intent_examples = example_key_counts d service_id,
      kc_runtime_logs = group_counts (List.map_filter (\<lambda>r. map_option et_key_id (complete_text (rl_query_raw r)))
        (filter (\<lambda>r. rl_service_id r = Some service_id \<and> rl_raw_query_deleted_at r = None) (db_runtime_logs d))),
      kc_runtime_logs_redacted = redacted_count d service_id,
      kc_runtime_logs_incomplete = None\<rparr>"

definition count_raw_text_key_inventory :: "db \<Rightarrow> str \<Rightarrow> raw_text_key_counts" where
  "count_raw_text_key_inventory d service_id =
     \<lparr>kc_intent_examples = example_key_counts d service_id,
      kc_runtime_logs = group_counts (List.map_filter (\<lambda>r. nt_key_id (rl_query_raw r))
        (filter (\<lambda>r. rl_service_id r = Some service_id) (db_runtime_logs d))),
      kc_runtime_logs_redacted = redacted_count d service_id,
      kc_runtime_logs_incomplete = Some (length (filter (\<lambda>r. rl_service_id r = Some service_id
        \<and> rl_raw_query_deleted_at r = None \<and> nt_key_id (rl_query_raw r) = None \<and> has_raw_query r)
        (db_runtime_logs d)))\<rparr>"

end
