(* ===== verification/Clock.thy ===== *)
theory Clock
  imports Models
begin

text \<open>
  Calendar dates of UTC times: a time is the number of microseconds since 1970-01-01 (\<open>timestamp\<close>), and
  the source formats it as \<open>%Y%m%d\<close> and with \<open>isoformat\<close>. The date of a day number is found by counting
  days in the 400-year cycle of the Gregorian calendar, whose years start in March.
\<close>

definition microseconds_per_second :: int where
  "microseconds_per_second = 1000000"

definition microseconds_per_day :: int where
  "microseconds_per_day = 86400 * microseconds_per_second"

definition minutes :: "int \<Rightarrow> int" where
  "minutes n = n * 60 * microseconds_per_second"

definition days :: "int \<Rightarrow> int" where
  "days n = n * microseconds_per_day"

record civil_date =
  year :: int
  month :: int
  day :: int

definition civil_of_day :: "int \<Rightarrow> civil_date" where
  "civil_of_day n =
     (let z = n + 719468;
          doe = z mod 146097;
          yoe = (doe - doe div 1460 + doe div 36524 - doe div 146096) div 365;
          doy = doe - (365 * yoe + yoe div 4 - yoe div 100);
          mp = (5 * doy + 2) div 153;
          m = (if mp < 10 then mp + 3 else mp - 9)
      in \<lparr>year = yoe + 400 * (z div 146097) + (if m \<le> 2 then 1 else 0), month = m,
          day = doy - (153 * mp + 2) div 5 + 1\<rparr>)"

definition civil_of :: "timestamp \<Rightarrow> civil_date" where
  "civil_of t = civil_of_day (t div microseconds_per_day)"

definition pad_int :: "nat \<Rightarrow> int \<Rightarrow> str" where
  "pad_int w n = zero_pad w (nat n)"

text \<open>\<open>f"{now:%Y%m%d}"\<close>\<close>

definition compact_date :: "timestamp \<Rightarrow> str" where
  "compact_date t = (let c = civil_of t in pad_int 4 (year c) @ pad_int 2 (month c) @ pad_int 2 (day c))"

text \<open>\<open>t.isoformat()\<close> of a UTC time: the microseconds are left out when they are zero.\<close>

definition isoformat :: "timestamp \<Rightarrow> str" where
  "isoformat t =
     (let c = civil_of t; us = t mod microseconds_per_day; s = us div microseconds_per_second;
          frac = us mod microseconds_per_second
      in pad_int 4 (year c) @ lit ''-'' @ pad_int 2 (month c) @ lit ''-'' @ pad_int 2 (day c) @ lit ''T''
         @ pad_int 2 (s div 3600) @ lit '':'' @ pad_int 2 (s div 60 mod 60) @ lit '':'' @ pad_int 2 (s mod 60)
         @ (if frac = 0 then [] else lit ''.'' @ pad_int 6 frac) @ lit ''+00:00'')"

lemma compact_date_digits: "c \<in> set (compact_date t) \<Longrightarrow> 48 \<le> c \<and> c \<le> 57"
  by (auto simp: compact_date_def pad_int_def Let_def dest: zero_pad_digits)

lemma compact_date_no_dash [simp]: "45 \<notin> set (compact_date t)"
  using compact_date_digits [of 45 t] by auto

lemma compact_date_example: "compact_date (days 20454) = lit ''20260101''"
  by code_simp

end
