(* ===== verification/Domain_Schemas.thy ===== *)
theory Domain_Schemas
  imports Py_Text Float64 Json
begin

text \<open>
  The vocabulary of \<open>src/intent_routing/domain\<close>: the enumerations of \<open>enums.py\<close>, the payload
  records of \<open>schemas.py\<close> and the validation of route keys. A \<open>StrEnum\<close> is a datatype with the
  source's members in their order, and \<open>..._value\<close> gives the string of a member.
\<close>

section \<open>Enumerations\<close>

datatype decision = Confident | Clarify | Fallback | Off_Topic | Risk | Unauthorized

fun decision_value :: "decision \<Rightarrow> str" where
  "decision_value Confident = lit ''confident''"
| "decision_value Clarify = lit ''clarify''"
| "decision_value Fallback = lit ''fallback''"
| "decision_value Off_Topic = lit ''off_topic''"
| "decision_value Risk = lit ''risk''"
| "decision_value Unauthorized = lit ''unauthorized''"

lemma decision_value_inject [simp]: "decision_value a = decision_value b \<longleftrightarrow> a = b"
  by (cases a; cases b) simp_all

datatype risk_type = Abuse | Dangerous_Command | Sensitive_Data | Credential_Secret
  | Unauthorized_Access | Prompt_Injection | Fraud_Or_Illegal

fun risk_type_value :: "risk_type \<Rightarrow> str" where
  "risk_type_value Abuse = lit ''abuse''"
| "risk_type_value Dangerous_Command = lit ''dangerous_command''"
| "risk_type_value Sensitive_Data = lit ''sensitive_data''"
| "risk_type_value Credential_Secret = lit ''credential_secret''"
| "risk_type_value Unauthorized_Access = lit ''unauthorized_access''"
| "risk_type_value Prompt_Injection = lit ''prompt_injection''"
| "risk_type_value Fraud_Or_Illegal = lit ''fraud_or_illegal''"

text \<open>Iterating over the enumeration, as \<open>for risk_type in RiskType\<close> does.\<close>

instantiation risk_type :: enum
begin

definition "enum_risk_type = [Abuse, Dangerous_Command, Sensitive_Data, Credential_Secret,
  Unauthorized_Access, Prompt_Injection, Fraud_Or_Illegal]"

definition "enum_all_risk_type P \<longleftrightarrow> list_all P (enum_class.enum :: risk_type list)"

definition "enum_ex_risk_type P \<longleftrightarrow> list_ex P (enum_class.enum :: risk_type list)"

instance
proof
  show univ: "UNIV = set (enum_class.enum :: risk_type list)"
    unfolding enum_risk_type_def using risk_type.exhaust by auto
  show "distinct (enum_class.enum :: risk_type list)"
    by (simp add: enum_risk_type_def)
  show "enum_class.enum_all P \<longleftrightarrow> Ball UNIV P" for P :: "risk_type \<Rightarrow> bool"
    by (simp add: enum_all_risk_type_def list_all_iff univ)
  show "enum_class.enum_ex P \<longleftrightarrow> Bex UNIV P" for P :: "risk_type \<Rightarrow> bool"
    by (simp add: enum_ex_risk_type_def list_ex_iff univ)
qed

end

definition risk_types :: "risk_type list" where
  "risk_types = enum_class.enum"

lemma risk_types_all [simp]: "t \<in> set risk_types"
  using UNIV_enum [where 'a = risk_type] by (auto simp: risk_types_def)

datatype threshold_preset = Strict | Balanced | Exploratory

fun preset_value :: "threshold_preset \<Rightarrow> str" where
  "preset_value Strict = lit ''strict''"
| "preset_value Balanced = lit ''balanced''"
| "preset_value Exploratory = lit ''exploratory''"

fun preset_threshold :: "threshold_preset \<Rightarrow> float64" where
  "preset_threshold Strict = decimal 100 2"
| "preset_threshold Balanced = decimal 80 2"
| "preset_threshold Exploratory = decimal 60 2"

text \<open>\<open>ThresholdPreset(s)\<close> raises \<open>ValueError\<close> for a string that is no member.\<close>

definition parse_preset :: "str \<Rightarrow> threshold_preset option" where
  "parse_preset s =
     (if s = lit ''strict'' then Some Strict
      else if s = lit ''balanced'' then Some Balanced
      else if s = lit ''exploratory'' then Some Exploratory else None)"

lemma parse_preset_value [simp]: "parse_preset (preset_value p) = Some p"
  by (cases p) (simp_all add: parse_preset_def)

lemma parse_preset_None: "parse_preset s = None \<longleftrightarrow> s \<notin> range preset_value"
proof
  assume "parse_preset s = None"
  then have "s \<noteq> preset_value p" for p
    by (auto simp: parse_preset_value)
  then show "s \<notin> range preset_value" by blast
next
  assume "s \<notin> range preset_value"
  then have "s \<noteq> preset_value Strict" "s \<noteq> preset_value Balanced" "s \<noteq> preset_value Exploratory"
    by blast+
  then show "parse_preset s = None"
    by (simp add: parse_preset_def)
qed

datatype error_code = INVALID_REQUEST | AUTHENTICATION_FAILED | SERVICE_SCOPE_DENIED
  | ACTIVE_RELEASE_NOT_FOUND | ROUTING_TIMEOUT | RATE_LIMITED | INTERNAL_ERROR
  | EMBEDDING_MODEL_UNAVAILABLE | VECTOR_STORE_UNAVAILABLE | POLICY_LOAD_FAILED
  | RAW_QUERY_UNAVAILABLE

section \<open>Route keys\<close>

text \<open>
  \<open>ROUTE_KEY_PATTERN\<close> is three or four segments joined by dots, each a lower-case letter followed
  by lower-case letters, digits and underscores.
\<close>

definition is_lower_az :: "nat \<Rightarrow> bool" where
  "is_lower_az c \<longleftrightarrow> 97 \<le> c \<and> c \<le> 122"

definition is_segment_char :: "nat \<Rightarrow> bool" where
  "is_segment_char c \<longleftrightarrow> is_lower_az c \<or> (48 \<le> c \<and> c \<le> 57) \<or> c = 95"

fun is_route_segment :: "str \<Rightarrow> bool" where
  "is_route_segment [] \<longleftrightarrow> False"
| "is_route_segment (c # cs) \<longleftrightarrow> is_lower_az c \<and> list_all is_segment_char cs"

definition matches_route_key_pattern :: "str \<Rightarrow> bool" where
  "matches_route_key_pattern s \<longleftrightarrow>
     (let segments = split_on 46 s in
      (length segments = 3 \<or> length segments = 4) \<and> list_all is_route_segment segments)"

definition environment_route_key_segments :: "str list" where
  "environment_route_key_segments = [lit ''dev'', lit ''staging'', lit ''prod'', lit ''production'']"

datatype route_key_error = Bad_Segments | Environment_Segment

definition validate_route_key :: "str \<Rightarrow> (route_key_error, str) outcome" where
  "validate_route_key route_key =
     (if \<not> matches_route_key_pattern route_key then Inl Bad_Segments
      else if list_ex (\<lambda>s. s \<in> set environment_route_key_segments) (split_on 46 route_key)
        then Inl Environment_Segment
      else Inr route_key)"

lemma split_on_word: "d \<notin> set w \<Longrightarrow> split_on d w = [w]"
  by (induction w) auto

lemma split_on_word_sep: "d \<notin> set w \<Longrightarrow> split_on d (w @ d # s) = w # split_on d s"
  by (induction w) auto

lemma split_join: "ws \<noteq> [] \<Longrightarrow> \<forall>w \<in> set ws. d \<notin> set w \<Longrightarrow> split_on d (join_with [d] ws) = ws"
proof (induction "[d]" ws rule: join_with.induct)
  case 1
  then show ?case by simp
next
  case (2 w)
  then show ?case by (simp add: split_on_word)
next
  case (3 w v ws)
  then show ?case by (simp add: split_on_word_sep)
qed

lemma route_segment_no_dot: "is_route_segment w \<Longrightarrow> 46 \<notin> set w"
  by (cases w) (auto simp: is_lower_az_def is_segment_char_def list_all_iff)

text \<open>
  The accepted route keys are exactly the dot-joins of three or four segments, each a lower-case
  letter followed by lower-case letters, digits or underscores, none of which is an environment name;
  an accepted key is returned unchanged.
\<close>

theorem validate_route_key_language:
  "validate_route_key s = Inr r \<longleftrightarrow>
     r = s \<and> (\<exists>segments. s = join_with [46] segments \<and> (length segments = 3 \<or> length segments = 4) \<and>
       (\<forall>w \<in> set segments. is_route_segment w \<and> w \<notin> set environment_route_key_segments))"
proof
  assume "validate_route_key s = Inr r"
  then show "r = s \<and> (\<exists>segments. s = join_with [46] segments \<and>
      (length segments = 3 \<or> length segments = 4) \<and>
      (\<forall>w \<in> set segments. is_route_segment w \<and> w \<notin> set environment_route_key_segments))"
    using join_split [of 46 s]
    by (auto simp: validate_route_key_def matches_route_key_pattern_def Let_def list_all_iff
        list_ex_iff split: if_splits intro!: exI [of _ "split_on 46 s"])
next
  assume "r = s \<and> (\<exists>segments. s = join_with [46] segments \<and>
      (length segments = 3 \<or> length segments = 4) \<and>
      (\<forall>w \<in> set segments. is_route_segment w \<and> w \<notin> set environment_route_key_segments))"
  then obtain ws where s: "s = join_with [46] ws" "r = s" and n: "length ws = 3 \<or> length ws = 4"
    and ok: "\<forall>w \<in> set ws. is_route_segment w \<and> w \<notin> set environment_route_key_segments"
    by blast
  have "split_on 46 s = ws"
    unfolding s by (rule split_join) (use n ok route_segment_no_dot in auto)
  then show "validate_route_key s = Inr r"
    using n ok s
    by (auto simp: validate_route_key_def matches_route_key_pattern_def list_all_iff list_ex_iff)
qed

theorem validate_route_key_language_witness:
  "validate_route_key (lit ''pay.card.lost_2'') = Inr (lit ''pay.card.lost_2'')"
  unfolding validate_route_key_language
  by (intro conjI exI [of _ "[lit ''pay'', lit ''card'', lit ''lost_2'']"])
    (simp_all add: lit_def is_lower_az_def is_segment_char_def environment_route_key_segments_def)

section \<open>Payloads\<close>

record fallback_policy =
  fp_type :: str
  fp_retryable :: "bool option"
  fp_recommended_action :: "str option"
  fp_message :: "str option"

record clarify_candidate =
  cc_intent_id :: str
  cc_display_name :: str
  cc_route_key :: str
  cc_confidence :: float64

record clarify_payload =
  cp_reason :: str
  cp_message :: str
  cp_candidates :: "clarify_candidate list"

record risk_payload =
  rp_risk_type :: risk_type
  rp_action :: str
  rp_message :: str

text \<open>The body of a runtime request: pydantic bounds the length of the query.\<close>

record runtime_request =
  rq_query :: str
  rq_channel :: "str option"
  rq_user_context :: "(str \<times> json) list"

definition valid_runtime_request :: "runtime_request \<Rightarrow> bool" where
  "valid_runtime_request r \<longleftrightarrow> 1 \<le> length (rq_query r) \<and> length (rq_query r) \<le> 4096"

record runtime_response =
  rr_trace_id :: str
  rr_decision :: decision
  rr_request_id :: "str option"
  rr_domain :: "str option"
  rr_intent_id :: "str option"
  rr_confidence :: "float64 option"
  rr_route_key :: "str option"
  rr_clarify_question :: "str option"
  rr_fallback_policy :: "fallback_policy option"
  rr_clarify :: "clarify_payload option"
  rr_risk :: "risk_payload option"
  rr_release_version :: "str option"

record error_info =
  ei_code :: error_code
  ei_message :: str
  ei_retryable :: bool
  ei_category :: "str option"
  ei_layer :: "str option"
  ei_support_message :: "str option"
  ei_safe_detail :: "str option"
  ei_fallback_policy :: "fallback_policy option"

record error_envelope =
  ee_trace_id :: str
  ee_error :: error_info
  ee_request_id :: "str option"
  ee_release_version :: "str option"

end
