(* ===== verification/Admin_Auth.thy ===== *)
theory Admin_Auth
  imports Log_Store Clock Domain_Schemas
begin

text \<open>
  Who is calling: \<open>security/admin_auth.py\<close>, \<open>security/admin_sessions.py\<close>, \<open>api/admin_dependencies.py\<close>,
  \<open>api/admin_auth.py\<close> and the access guards of \<open>api/admin.py\<close>. A request runs in one transaction that is
  committed when the handler returns and rolled back when it raises. What the process reads from outside is
  the record \<open>admin_env\<close>: its environment variables, the readings of the clock, random identifiers, the
  SHA-256 digest and the password functions, the order of the database's texts and pydantic's rendering of
  times.
\<close>

section \<open>Errors\<close>

text \<open>
  An \<open>HTTPException\<close> with its status, its error code and its message; or an exception that no handler
  catches, which the server answers with status 500.
\<close>

datatype http_error = Http_Error (he_status: nat) (he_code: error_code) (he_message: str)
  | Unhandled repo_error | Unhandled_Value_Error str

definition raise_not_found :: "string \<Rightarrow> http_error" where
  "raise_not_found message = Http_Error 404 INVALID_REQUEST (lit message)"

definition raise_conflict :: "string \<Rightarrow> http_error" where
  "raise_conflict message = Http_Error 409 INVALID_REQUEST (lit message)"

definition raise_bad_request :: "string \<Rightarrow> http_error" where
  "raise_bad_request message = Http_Error 400 INVALID_REQUEST (lit message)"

definition raise_validation_failed :: "string \<Rightarrow> http_error" where
  "raise_validation_failed message = Http_Error 422 INVALID_REQUEST (lit message)"

definition raise_internal_error :: "string \<Rightarrow> http_error" where
  "raise_internal_error message = Http_Error 500 INTERNAL_ERROR (lit message)"

definition raise_raw_query_unavailable :: http_error where
  "raise_raw_query_unavailable = Http_Error 410 RAW_QUERY_UNAVAILABLE (lit ''Runtime log raw query is unavailable.'')"

definition raise_admin_forbidden :: "string \<Rightarrow> http_error" where
  "raise_admin_forbidden message = Http_Error 403 SERVICE_SCOPE_DENIED (lit message)"

definition raise_authentication_failed :: http_error where
  "raise_authentication_failed = Http_Error 401 AUTHENTICATION_FAILED (lit ''Admin authentication failed.'')"

text \<open>\<open>except IntegrityError\<close> and \<open>except (IntegrityError, ValueError)\<close> around repository calls.\<close>

definition except_integrity :: "http_error \<Rightarrow> (repo_error, 'a) outcome \<Rightarrow> (http_error, 'a) outcome" where
  "except_integrity h m = lift_error (\<lambda>e. if e = Integrity_Error then h else Unhandled e) m"

definition except_errors :: "http_error \<Rightarrow> http_error \<Rightarrow> (repo_error, 'a) outcome \<Rightarrow> (http_error, 'a) outcome" where
  "except_errors h_integrity h_value m = lift_error (\<lambda>e. if e = Integrity_Error then h_integrity else h_value) m"

definition unhandled :: "(repo_error, 'a) outcome \<Rightarrow> (http_error, 'a) outcome" where
  "unhandled m = lift_error Unhandled m"

section \<open>The environment\<close>

record admin_env =
  en_collate :: "str \<Rightarrow> nat"
  en_lower_like :: "str \<Rightarrow> str \<Rightarrow> bool"
  en_clock :: "nat \<Rightarrow> timestamp"
  en_uuid :: "nat \<Rightarrow> str"
  en_uuid_hex :: "nat \<Rightarrow> str"
  en_token :: str
  en_digest :: "str \<Rightarrow> str"
  en_hash_password :: "str \<Rightarrow> str"
  en_verify_password :: "str \<Rightarrow> str \<Rightarrow> bool"
  en_dump_time :: "timestamp \<Rightarrow> str"
  en_source_ip :: "str option"
  en_variable :: "str \<Rightarrow> str option"

section \<open>Sessions\<close>

definition token_digest :: "admin_env \<Rightarrow> str \<Rightarrow> str" where
  "token_digest en token = lit ''sha256:'' @ en_digest en token"

definition hash_admin_session_token :: "admin_env \<Rightarrow> str \<Rightarrow> (http_error, str) outcome" where
  "hash_admin_session_token en token =
     (if blank token then Inl (Unhandled_Value_Error (lit ''admin session token must not be blank''))
      else Inr (token_digest en token))"

definition verify_admin_session_token :: "admin_env \<Rightarrow> str \<Rightarrow> str \<Rightarrow> bool" where
  "verify_admin_session_token en token token_hash \<longleftrightarrow>
     \<not> blank token \<and> prefix (lit ''sha256:'') token_hash \<and> hash_admin_session_token en token = Inr token_hash"

definition admin_session_expires_at :: "timestamp \<Rightarrow> int \<Rightarrow> int \<Rightarrow> (http_error, timestamp) outcome" where
  "admin_session_expires_at now hours n_days =
     (if hours \<le> 0 \<and> n_days \<le> 0
      then Inl (Unhandled_Value_Error (lit ''admin session expiry duration must be positive''))
      else Inr (now + minutes (60 * hours) + days n_days))"

definition admin_session_cookie_max_age_seconds :: nat where
  "admin_session_cookie_max_age_seconds = 60 * 60 * 24"

definition admin_session_cookie_secure :: "admin_env \<Rightarrow> bool" where
  "admin_session_cookie_secure en =
     (case en_variable en (lit ''ADMIN_SESSION_COOKIE_SECURE'') of
        Some configured \<Rightarrow> lower (strip configured) \<in> {lit ''1'', lit ''true'', lit ''yes'', lit ''on''}
      | None \<Rightarrow>
          let environment = (case en_variable en (lit ''INTENT_ROUTING_ENVIRONMENT'') of Some e \<Rightarrow> e | None \<Rightarrow> lit ''local'')
          in lower (strip environment) \<in> {lit ''pilot'', lit ''prod'', lit ''production''})"

section \<open>The context of a caller\<close>

record admin_context =
  cx_actor_id :: str
  cx_roles :: "str set"
  cx_service_scope :: "str set"
  cx_all_service_scopes :: bool
  cx_service_roles :: "(str, str set) dict"

definition has_role :: "admin_context \<Rightarrow> str \<Rightarrow> bool" where
  "has_role cx role \<longleftrightarrow> role \<in> cx_roles cx"

definition can_access_service :: "admin_context \<Rightarrow> str \<Rightarrow> bool" where
  "can_access_service cx service_id \<longleftrightarrow> cx_all_service_scopes cx \<or> service_id \<in> cx_service_scope cx"

text \<open>\<open>service_roles.get(service_id, frozenset())\<close>\<close>

definition roles_for :: "(str, str set) dict \<Rightarrow> str \<Rightarrow> str set" where
  "roles_for m service_id = (case map_of m service_id of None \<Rightarrow> {} | Some rs \<Rightarrow> rs)"

definition has_service_role :: "admin_context \<Rightarrow> str \<Rightarrow> str \<Rightarrow> bool" where
  "has_service_role cx service_id role \<longleftrightarrow>
     has_role cx (lit ''system_admin'') \<or> role \<in> roles_for (cx_service_roles cx) service_id"

definition has_any_service_role :: "admin_context \<Rightarrow> str \<Rightarrow> str set \<Rightarrow> bool" where
  "has_any_service_role cx service_id roles \<longleftrightarrow>
     has_role cx (lit ''system_admin'') \<or> roles_for (cx_service_roles cx) service_id \<inter> roles \<noteq> {}"

definition parse_csv_header :: "str \<Rightarrow> str set" where
  "parse_csv_header value = set (filter (\<lambda>i. i \<noteq> []) (map strip (split_on 44 value)))"

text \<open>The four trusted headers; \<open>frozenset\<close>s are iterated in some order, here the order of texts.\<close>

definition require_trusted_header_admin_context ::
  "admin_env \<Rightarrow> str option \<Rightarrow> str option \<Rightarrow> str option \<Rightarrow> str option \<Rightarrow> (http_error, admin_context) outcome" where
  "require_trusted_header_admin_context en admin_token actor_id actor_roles service_scope =
     bindE (some_or (en_variable en (lit ''ADMIN_BOOTSTRAP_TOKEN'')) raise_authentication_failed) (\<lambda>expected.
     bindE (require (\<not> blank expected \<and> admin_token = Some expected) raise_authentication_failed) (\<lambda>_.
     bindE (some_or actor_id raise_authentication_failed) (\<lambda>actor.
     bindE (some_or actor_roles raise_authentication_failed) (\<lambda>header.
     let parsed_roles = parse_csv_header header in
     bindE (require (parsed_roles \<noteq> {}) raise_authentication_failed) (\<lambda>_.
     let services = parse_csv_header (case service_scope of None \<Rightarrow> [] | Some s \<Rightarrow> s);
         global_roles = Set.filter (\<lambda>r. r = lit ''system_admin'') parsed_roles;
         scoped_roles = parsed_roles - global_roles in
     Inr \<lparr>cx_actor_id = actor, cx_roles = global_roles, cx_service_scope = services,
          cx_all_service_scopes = lit ''system_admin'' \<in> global_roles,
          cx_service_roles = (if scoped_roles = {} then []
            else map (\<lambda>s. (s, scoped_roles)) (sorted_list_of_set services))\<rparr>)))))"

definition add_service_role :: "user_service_role \<Rightarrow> (str, str set) dict \<Rightarrow> (str, str set) dict" where
  "add_service_role r m = dict_put (ur_service_id r) (insert (ur_role r) (roles_for m (ur_service_id r))) m"

definition admin_context_from_session_record :: "admin_session_context \<Rightarrow> admin_context" where
  "admin_context_from_session_record sc =
     (let service_roles = fold add_service_role (sc_service_roles sc) [] in
      \<lparr>cx_actor_id = au_user_id (sc_user sc), cx_roles = sc_global_roles sc,
       cx_service_scope = set (dict_keys service_roles),
       cx_all_service_scopes = lit ''system_admin'' \<in> sc_global_roles sc,
       cx_service_roles = service_roles\<rparr>)"

text \<open>
  The dependency of the handlers that need a session: it commits the time the session was last seen,
  whatever the handler does afterwards.
\<close>

definition session_context ::
  "admin_env \<Rightarrow> db \<Rightarrow> str \<Rightarrow> db \<times> (http_error, admin_session_context) outcome" where
  "session_context en d token =
     (case hash_admin_session_token en token of
        Inl e \<Rightarrow> (d, Inl e)
      | Inr token_hash \<Rightarrow>
          (case get_active_admin_session_context (en_collate en) d token_hash (en_clock en 0) of
             (d', None) \<Rightarrow> (d, Inl raise_authentication_failed)
           | (d', Some sc) \<Rightarrow> (d', Inr sc)))"

definition require_admin_session_context ::
  "admin_env \<Rightarrow> db \<Rightarrow> str option \<Rightarrow> db \<times> (http_error, admin_session_context) outcome" where
  "require_admin_session_context en d cookie =
     (case cookie of None \<Rightarrow> (d, Inl raise_authentication_failed)
      | Some token \<Rightarrow> if blank token then (d, Inl raise_authentication_failed) else session_context en d token)"

definition require_admin_context ::
  "admin_env \<Rightarrow> db \<Rightarrow> str option \<Rightarrow> str option \<Rightarrow> str option \<Rightarrow> str option \<Rightarrow> str option
    \<Rightarrow> db \<times> (http_error, admin_context) outcome" where
  "require_admin_context en d cookie admin_token actor_id actor_roles service_scope =
     (let token = or_default cookie [] in
      if \<not> blank token
      then (case session_context en d token of (d', Inl e) \<Rightarrow> (d', Inl e)
            | (d', Inr sc) \<Rightarrow> (d', Inr (admin_context_from_session_record sc)))
      else if map_option strip (en_variable en (lit ''ADMIN_AUTH_MODE'')) = Some (lit ''trusted_headers'')
      then (d, require_trusted_header_admin_context en admin_token actor_id actor_roles service_scope)
      else (d, Inl raise_authentication_failed))"

text \<open>A handler behind the session dependency.\<close>

definition with_session ::
  "admin_env \<Rightarrow> db \<Rightarrow> str option \<Rightarrow> (admin_session_context \<Rightarrow> db \<Rightarrow> (http_error, db \<times> 'r) outcome)
    \<Rightarrow> db \<times> (http_error, 'r) outcome" where
  "with_session en d cookie handler =
     (case require_admin_session_context en d cookie of
        (d1, Inl e) \<Rightarrow> (d1, Inl e)
      | (d1, Inr sc) \<Rightarrow> (case handler sc d1 of Inl e \<Rightarrow> (d1, Inl e) | Inr (d2, r) \<Rightarrow> (d2, Inr r)))"

section \<open>Guards\<close>

definition require_system_admin :: "admin_context \<Rightarrow> (http_error, unit) outcome" where
  "require_system_admin cx =
     require (has_role cx (lit ''system_admin'')) (raise_admin_forbidden ''system_admin role is required for this action.'')"

text \<open>The common shape of the guards of a service: a platform administrator, or one of some service roles.\<close>

definition service_guard :: "str set \<Rightarrow> string \<Rightarrow> admin_context \<Rightarrow> str \<Rightarrow> (http_error, unit) outcome" where
  "service_guard roles message cx service_id =
     require (has_role cx (lit ''system_admin'') \<or> has_any_service_role cx service_id roles)
       (raise_admin_forbidden message)"

definition service_catalog_write_roles :: "str set" where
  "service_catalog_write_roles = {lit ''service_owner'', lit ''service_developer''}"

definition service_release_write_roles :: "str set" where
  "service_release_write_roles = {lit ''service_owner''}"

definition service_api_key_write_roles :: "str set" where
  "service_api_key_write_roles = {lit ''service_owner''}"

definition service_log_read_roles :: "str set" where
  "service_log_read_roles = {lit ''service_owner'', lit ''service_developer'', lit ''service_operator'', lit ''auditor''}"

definition service_metrics_read_roles :: "str set" where
  "service_metrics_read_roles = {lit ''service_owner'', lit ''service_developer'', lit ''service_operator''}"

definition service_audit_log_read_roles :: "str set" where
  "service_audit_log_read_roles = {lit ''service_operator'', lit ''auditor''}"

definition require_service_catalog_access :: "admin_context \<Rightarrow> str \<Rightarrow> (http_error, unit) outcome" where
  "require_service_catalog_access =
     service_guard service_catalog_write_roles ''Service catalog scope is required for this action.''"

definition require_api_key_management_access :: "admin_context \<Rightarrow> str \<Rightarrow> (http_error, unit) outcome" where
  "require_api_key_management_access =
     service_guard service_api_key_write_roles ''API key management scope is required for this action.''"

definition require_release_management_access :: "admin_context \<Rightarrow> str \<Rightarrow> (http_error, unit) outcome" where
  "require_release_management_access =
     service_guard service_release_write_roles ''Release management scope is required for this action.''"

definition require_release_review_access :: "admin_context \<Rightarrow> str \<Rightarrow> (http_error, unit) outcome" where
  "require_release_review_access =
     service_guard {lit ''service_developer'', lit ''service_owner'', lit ''auditor''}
       ''Release review scope is required for this action.''"

definition require_service_membership_management_access ::
  "admin_context \<Rightarrow> str \<Rightarrow> (http_error, unit) outcome" where
  "require_service_membership_management_access cx service_id =
     require (has_role cx (lit ''system_admin'') \<or> has_service_role cx service_id (lit ''service_owner''))
       (raise_admin_forbidden ''Service owner scope is required for membership management.'')"

definition require_publish_request_access :: "admin_context \<Rightarrow> str \<Rightarrow> (http_error, unit) outcome" where
  "require_publish_request_access cx service_id = require_release_management_access cx service_id"

definition require_publish_decision_access :: "admin_context \<Rightarrow> str \<Rightarrow> (http_error, unit) outcome" where
  "require_publish_decision_access cx service_id =
     require (has_role cx (lit ''system_admin'') \<or> has_service_role cx service_id (lit ''service_owner''))
       (raise_admin_forbidden ''Publish approval scope is required for this action.'')"

definition require_publish_activation_access :: "admin_context \<Rightarrow> str \<Rightarrow> (http_error, unit) outcome" where
  "require_publish_activation_access cx service_id = require_release_management_access cx service_id"

definition require_runtime_log_access :: "admin_context \<Rightarrow> str \<Rightarrow> (http_error, unit) outcome" where
  "require_runtime_log_access =
     service_guard service_log_read_roles ''Runtime log scope is required for this action.''"

definition require_runtime_metrics_access :: "admin_context \<Rightarrow> str \<Rightarrow> (http_error, unit) outcome" where
  "require_runtime_metrics_access =
     service_guard service_metrics_read_roles ''Runtime metrics scope is required for this action.''"

definition require_service_audit_log_access :: "admin_context \<Rightarrow> str \<Rightarrow> (http_error, unit) outcome" where
  "require_service_audit_log_access =
     service_guard service_audit_log_read_roles ''Audit log scope is required for this action.''"

definition require_security_lifecycle_read_access :: "admin_context \<Rightarrow> str \<Rightarrow> (http_error, unit) outcome" where
  "require_security_lifecycle_read_access cx service_id =
     require (has_role cx (lit ''system_admin'') \<or> has_service_role cx service_id (lit ''auditor''))
       (raise_admin_forbidden ''Security lifecycle audit scope is required for this action.'')"

definition require_raw_query_request_access :: "admin_context \<Rightarrow> str \<Rightarrow> (http_error, unit) outcome" where
  "require_raw_query_request_access =
     service_guard {lit ''service_operator'', lit ''auditor'', lit ''service_owner''}
       ''Raw query request scope is required for this action.''"

definition require_raw_query_decision_access :: "admin_context \<Rightarrow> str \<Rightarrow> (http_error, unit) outcome" where
  "require_raw_query_decision_access =
     service_guard {lit ''auditor'', lit ''service_owner''} ''Raw query approval scope is required for this action.''"

definition require_export_access :: "admin_context \<Rightarrow> str \<Rightarrow> (http_error, unit) outcome" where
  "require_export_access =
     service_guard {lit ''auditor'', lit ''service_owner''} ''Export scope is required for this action.''"

definition require_raw_query_token_requester ::
  "admin_context \<Rightarrow> governed_action_request \<Rightarrow> (http_error, unit) outcome" where
  "require_raw_query_token_requester cx r =
     require (has_role cx (lit ''system_admin'')
         \<or> (cx_actor_id cx = ga_requested_by r \<and> can_access_service cx (ga_service_id r)))
       (raise_admin_forbidden ''Raw query token requester scope is required for this action.'')"

end
