(* ===== verification/Admin_Login.thy ===== *)
theory Admin_Login
  imports Admin_Auth
begin

text \<open>
  The session endpoints of \<open>api/admin_auth.py\<close> and the provisioning of the first administrator,
  \<open>security/admin_provisioning.py\<close>.
\<close>

section \<open>Responses\<close>

record current_user_response =
  cu_user_id :: str
  cu_email :: str
  cu_display_name :: str
  cu_status :: str
  cu_created_at :: timestamp
  cu_updated_at :: timestamp
  cu_last_login_at :: "timestamp option"
  cu_global_roles :: "str list"
  cu_service_roles :: "(str \<times> str) list"

definition current_user_response_of :: "admin_user \<Rightarrow> str set \<Rightarrow> user_service_role list \<Rightarrow> current_user_response" where
  "current_user_response_of u global_roles service_roles =
     \<lparr>cu_user_id = au_user_id u, cu_email = au_email u, cu_display_name = au_display_name u, cu_status = au_status u,
      cu_created_at = au_created_at u, cu_updated_at = au_updated_at u, cu_last_login_at = au_last_login_at u,
      cu_global_roles = sorted_list_of_set global_roles,
      cu_service_roles = map (\<lambda>r. (ur_service_id r, ur_role r)) service_roles\<rparr>"

text \<open>What the response does to the session cookie; the flag says whether it is sent over HTTPS only.\<close>

datatype cookie_action = Set_Session_Cookie str nat bool | Clear_Session_Cookie bool

section \<open>Endpoints\<close>

definition require_bootstrap_token :: "admin_env \<Rightarrow> str option \<Rightarrow> (http_error, unit) outcome" where
  "require_bootstrap_token en admin_token =
     (case en_variable en (lit ''ADMIN_BOOTSTRAP_TOKEN'') of
        None \<Rightarrow> Inl raise_authentication_failed
      | Some expected \<Rightarrow> require (\<not> blank expected \<and> admin_token = Some expected) raise_authentication_failed)"

record bootstrap_request =
  bq_user_id :: "str option"
  bq_email :: str
  bq_display_name :: str
  bq_password :: str

definition bootstrap_admin ::
  "admin_env \<Rightarrow> db \<Rightarrow> bootstrap_request \<Rightarrow> str option \<Rightarrow> (http_error, db \<times> current_user_response) outcome" where
  "bootstrap_admin en d request admin_token =
     bindE (require_bootstrap_token en admin_token) (\<lambda>_.
     let now = en_clock en 0 in
     bindE (unhandled (admin_user_role_exists d (lit ''system_admin''))) (\<lambda>exists.
     bindE (require (\<not> exists) (raise_conflict ''Initial system admin already exists.'')) (\<lambda>_.
     bindE (unhandled (get_admin_user_by_email d (bq_email request))) (\<lambda>found.
     bindE (require (found = None) (raise_conflict ''Admin user already exists.'')) (\<lambda>_.
     bindE (except_integrity (raise_conflict ''Admin user already exists.'')
       (bindE (create_admin_user d \<lparr>au_user_id = or_default (bq_user_id request) (lit ''admin_'' @ en_uuid_hex en 0),
            au_email = bq_email request, au_email_normalized = [], au_display_name = bq_display_name request,
            au_password_hash = en_hash_password en (bq_password request),
            au_admin_access_reason = lit ''bootstrap system admin'', au_status = lit ''active'',
            au_created_at = now, au_updated_at = now, au_last_login_at = None, au_organization_user_id = None\<rparr>)
          (\<lambda>(d1, user). bindE (assign_admin_user_role d1 \<lparr>ar_user_id = au_user_id user,
             ar_role = lit ''system_admin'', ar_assigned_by = lit ''bootstrap'', ar_assigned_at = now\<rparr>)
          (\<lambda>(d2, _). Inr (d2, user))))) (\<lambda>(d2, user).
     Inr (d2, current_user_response_of user {lit ''system_admin''} [])))))))"

definition login ::
  "admin_env \<Rightarrow> db \<Rightarrow> str \<Rightarrow> str \<Rightarrow> (http_error, db \<times> current_user_response \<times> cookie_action) outcome" where
  "login en d email password =
     bindE (unhandled (get_login_eligible_admin_user_by_email d email)) (\<lambda>found.
     bindE (some_or found raise_authentication_failed) (\<lambda>user.
     bindE (require (en_verify_password en password (au_password_hash user)) raise_authentication_failed) (\<lambda>_.
     let now = en_clock en 0; raw_token = en_token en in
     bindE (hash_admin_session_token en raw_token) (\<lambda>token_hash.
     bindE (admin_session_expires_at (en_clock en 1) 0 1) (\<lambda>expires_at.
     bindE (unhandled (create_admin_session d \<lparr>as_session_id = lit ''ads_'' @ en_uuid_hex en 0,
       as_user_id = au_user_id user, as_token_hash = token_hash, as_created_at = now,
       as_expires_at = expires_at, as_revoked_at = None, as_last_seen_at = None\<rparr>)) (\<lambda>(d1, _).
     bindE (unhandled (update_admin_user_login d1 user now)) (\<lambda>(d2, user').
     Inr (d2,
       current_user_response_of user' (set (map ar_role (list_admin_user_roles (en_collate en) d2 (au_user_id user'))))
         (list_service_roles_for_user (en_collate en) d2 (au_user_id user')),
       Set_Session_Cookie raw_token admin_session_cookie_max_age_seconds (admin_session_cookie_secure en)))))))))"

definition logout :: "admin_env \<Rightarrow> db \<Rightarrow> str option \<Rightarrow> (http_error, db \<times> cookie_action) outcome" where
  "logout en d cookie =
     (let token = or_default cookie [] in
      bindE (if blank token then Inr d
        else bindE (hash_admin_session_token en token) (\<lambda>token_hash.
          case get_admin_session_by_token_hash d token_hash of
            Some s \<Rightarrow> Inr (if as_revoked_at s = None then fst (revoke_admin_session d s (en_clock en 0)) else d)
          | None \<Rightarrow> Inr d)) (\<lambda>d'.
      Inr (d', Clear_Session_Cookie (admin_session_cookie_secure en))))"

definition me :: "admin_session_context \<Rightarrow> db \<Rightarrow> (http_error, db \<times> current_user_response) outcome" where
  "me sc d = Inr (d, current_user_response_of (sc_user sc) (sc_global_roles sc) (sc_service_roles sc))"

section \<open>Provisioning at startup\<close>

record admin_provisioning_config =
  pc_email :: str
  pc_password :: str
  pc_display_name :: str

definition min_startup_admin_password_length :: nat where
  "min_startup_admin_password_length = 8"

definition load_admin_provisioning_config ::
  "(str \<Rightarrow> str option) \<Rightarrow> (http_error, admin_provisioning_config option) outcome" where
  "load_admin_provisioning_config variable =
     (let email = strip (or_default (variable (lit ''ADMIN_SYSTEM_ADMIN_EMAIL'')) []);
          password = or_default (variable (lit ''ADMIN_SYSTEM_ADMIN_PASSWORD'')) [];
          has_password = (\<not> blank password);
          display_name = strip (or_default (variable (lit ''ADMIN_SYSTEM_ADMIN_DISPLAY_NAME'')) []) in
      if email = [] \<and> \<not> has_password then Inr None
      else bindE (require (email \<noteq> [] \<and> has_password) (Unhandled_Value_Error
        (lit ''both ADMIN_SYSTEM_ADMIN_EMAIL and ADMIN_SYSTEM_ADMIN_PASSWORD must be set''))) (\<lambda>_.
      bindE (require (min_startup_admin_password_length \<le> length password) (Unhandled_Value_Error
        (lit ''ADMIN_SYSTEM_ADMIN_PASSWORD must be at least 8 characters''))) (\<lambda>_.
      Inr (Some \<lparr>pc_email = email, pc_password = password,
        pc_display_name = (if display_name = [] then hd (split_on 64 email) else display_name)\<rparr>))))"

definition startup_role :: "admin_user \<Rightarrow> timestamp \<Rightarrow> admin_user_role" where
  "startup_role user now = \<lparr>ar_user_id = au_user_id user, ar_role = lit ''system_admin'',
     ar_assigned_by = lit ''startup-provisioning'', ar_assigned_at = now\<rparr>"

definition owner_mismatch :: http_error where
  "owner_mismatch = Unhandled_Value_Error (lit ''Configured startup system_admin email does not match existing owner'')"

definition configure_startup_system_admin :: "admin_env \<Rightarrow> db \<Rightarrow> (http_error, db \<times> str) outcome" where
  "configure_startup_system_admin en d =
     bindE (load_admin_provisioning_config (en_variable en)) (\<lambda>config.
     case config of None \<Rightarrow> Inr (d, lit ''skipped'')
     | Some c \<Rightarrow>
       let now = en_clock en 0; existing = system_admin_user_id d in
       bindE (unhandled (get_admin_user_by_email d (pc_email c))) (\<lambda>found.
       case found of
         None \<Rightarrow>
           bindE (require (existing = None) owner_mismatch) (\<lambda>_.
           bindE (unhandled (create_admin_user d \<lparr>au_user_id = lit ''admin_'' @ en_uuid_hex en 0, au_email = pc_email c,
             au_email_normalized = [], au_display_name = pc_display_name c,
             au_password_hash = en_hash_password en (pc_password c),
             au_admin_access_reason = lit ''startup system admin provisioning'', au_status = lit ''active'',
             au_created_at = now, au_updated_at = now, au_last_login_at = None, au_organization_user_id = None\<rparr>))
             (\<lambda>(d1, user).
           bindE (unhandled (ensure_admin_user_role d1 (startup_role user now))) (\<lambda>(d2, _).
           Inr (d2, lit ''created''))))
       | Some user \<Rightarrow>
           bindE (require (existing = None \<or> existing = Some (au_user_id user)) owner_mismatch) (\<lambda>_.
           let matching = en_verify_password en (pc_password c) (au_password_hash user);
               roles_before = set (map ar_role (list_admin_user_roles (en_collate en) d (au_user_id user))) in
           bindE (if matching then Inr (d, user)
             else unhandled (update_admin_user_password d user (en_hash_password en (pc_password c)) now)) (\<lambda>(d1, user1).
           bindE (unhandled (ensure_admin_user_role d1 (startup_role user now))) (\<lambda>(d2, _).
           Inr (d2, if \<not> matching then lit ''updated''
             else if lit ''system_admin'' \<notin> roles_before then lit ''role_assigned'' else lit ''unchanged''))))))"

end
