(* ===== verification/Access_Admin.thy ===== *)
theory Access_Admin
  imports Admin_Login
begin

text \<open>
  The handlers of \<open>api/admin.py\<close> that administer the organization, the administrators and their rights.
  Each takes the session context and the database of the session dependency; request bodies are the
  validated ones. A handler returns the changed database and its response, or the error it answers.
\<close>

section \<open>Validation of request bodies\<close>

text \<open>
  The field validators that run before the type checks: a text is stripped and must not be blank; then
  pydantic checks the least length. Any failure is answered with status 422.
\<close>

definition text_field :: "str \<Rightarrow> nat \<Rightarrow> str option" where
  "text_field value min_length =
     (let stripped = strip value in if stripped = [] \<or> length stripped < min_length then None else Some stripped)"

record access_request_body =
  ab_user_number :: str
  ab_name :: str
  ab_department_id :: str
  ab_email :: str
  ab_password :: str
  ab_access_reason :: str

definition parse_access_request_body :: "access_request_body \<Rightarrow> access_request_body option" where
  "parse_access_request_body b =
     (case (text_field (ab_user_number b) 1, text_field (ab_name b) 1, text_field (ab_email b) 3,
            text_field (ab_password b) 8, text_field (ab_access_reason b) 10) of
        (Some n, Some name, Some email, Some password, Some reason) \<Rightarrow>
          Some \<lparr>ab_user_number = n, ab_name = name, ab_department_id = ab_department_id b, ab_email = email,
            ab_password = password, ab_access_reason = reason\<rparr>
      | _ \<Rightarrow> None)"

section \<open>Lookups and checks\<close>

definition department_or_404 :: "db \<Rightarrow> str \<Rightarrow> (http_error, department) outcome" where
  "department_or_404 d i = some_or (get_department d i) (raise_not_found ''Department does not exist.'')"

definition require_active_department :: "db \<Rightarrow> str \<Rightarrow> (http_error, department) outcome" where
  "require_active_department d i =
     bindE (department_or_404 d i) (\<lambda>p.
     bindE (require (dp_use_yn p = lit ''Y'') (raise_conflict ''Department must be active.'')) (\<lambda>_. Inr p))"

definition organization_user_or_404 :: "db \<Rightarrow> str \<Rightarrow> (http_error, organization_user) outcome" where
  "organization_user_or_404 d i =
     some_or (get_organization_user d i) (raise_not_found ''Organization user does not exist.'')"

definition require_active_organization_user_for_admin_access ::
  "db \<Rightarrow> str \<Rightarrow> (http_error, organization_user) outcome" where
  "require_active_organization_user_for_admin_access d i =
     bindE (organization_user_or_404 d i) (\<lambda>u.
     bindE (require (ou_use_yn u = lit ''Y'') (raise_conflict ''Organization user must be active.'')) (\<lambda>_. Inr u))"

definition require_active_linked_organization_user_for_admin_status ::
  "db \<Rightarrow> admin_user \<Rightarrow> (http_error, unit) outcome" where
  "require_active_linked_organization_user_for_admin_status d u =
     (case au_organization_user_id u of None \<Rightarrow> Inr ()
      | Some i \<Rightarrow> bindE (require_active_organization_user_for_admin_access d i) (\<lambda>_. Inr ()))"

definition is_login_eligible_system_admin :: "db \<Rightarrow> admin_user \<Rightarrow> str set \<Rightarrow> bool" where
  "is_login_eligible_system_admin d u roles \<longleftrightarrow>
     lit ''system_admin'' \<in> roles \<and> au_status u = lit ''active'' \<and> link_usable d u"

definition is_last_active_system_admin :: "db \<Rightarrow> admin_user \<Rightarrow> str set \<Rightarrow> (http_error, bool) outcome" where
  "is_last_active_system_admin d u roles =
     (if \<not> is_login_eligible_system_admin d u roles then Inr False
      else bindE (unhandled (count_login_eligible_admin_users_with_role d (lit ''system_admin''))) (\<lambda>n. Inr (n = 1)))"

definition require_not_self_last_system_admin ::
  "db \<Rightarrow> str \<Rightarrow> admin_user \<Rightarrow> str set \<Rightarrow> (http_error, unit) outcome" where
  "require_not_self_last_system_admin d actor_id u roles =
     (if au_user_id u \<noteq> actor_id \<or> lit ''system_admin'' \<notin> roles then Inr ()
      else bindE (unhandled (count_login_eligible_admin_users_with_role d (lit ''system_admin''))) (\<lambda>n.
        require (1 < n) (raise_conflict ''Cannot remove or disable the last active system_admin.'')))"

definition department_has_active_organization_users :: "db \<Rightarrow> str \<Rightarrow> bool" where
  "department_has_active_organization_users d i \<longleftrightarrow>
     first_row (\<lambda>u. ou_department_id u = i \<and> ou_use_yn u = lit ''Y'') (db_organization_users d) \<noteq> None"

definition roles_of :: "admin_env \<Rightarrow> db \<Rightarrow> str \<Rightarrow> str set" where
  "roles_of en d user_id = set (map ar_role (list_admin_user_roles (en_collate en) d user_id))"

section \<open>Responses and audit logs\<close>

record managed_admin_user_response =
  mu_user_id :: str
  mu_email :: str
  mu_display_name :: str
  mu_status :: str
  mu_organization_user_id :: "str option"
  mu_global_roles :: "str list"
  mu_is_last_active_system_admin :: bool
  mu_created_at :: timestamp
  mu_updated_at :: timestamp
  mu_last_login_at :: "timestamp option"

definition managed_admin_user_response_of ::
  "admin_env \<Rightarrow> db \<Rightarrow> admin_user \<Rightarrow> (http_error, managed_admin_user_response) outcome" where
  "managed_admin_user_response_of en d u =
     (let roles = roles_of en d (au_user_id u) in
      bindE (is_last_active_system_admin d u roles) (\<lambda>last_one.
      Inr \<lparr>mu_user_id = au_user_id u, mu_email = au_email u, mu_display_name = au_display_name u,
        mu_status = au_status u, mu_organization_user_id = au_organization_user_id u,
        mu_global_roles = sorted_list_of_set roles, mu_is_last_active_system_admin = last_one,
        mu_created_at = au_created_at u, mu_updated_at = au_updated_at u, mu_last_login_at = au_last_login_at u\<rparr>))"

definition json_str_option :: "str option \<Rightarrow> json" where
  "json_str_option v = (case v of None \<Rightarrow> JNull | Some s \<Rightarrow> JStr s)"

definition json_time_option :: "admin_env \<Rightarrow> timestamp option \<Rightarrow> json" where
  "json_time_option en v = json_str_option (map_option (en_dump_time en) v)"

text \<open>\<open>model_dump(mode="json")\<close>: the fields in the order of the model.\<close>

definition managed_admin_user_audit_state :: "admin_env \<Rightarrow> managed_admin_user_response \<Rightarrow> (str \<times> json) list" where
  "managed_admin_user_audit_state en m =
     [(lit ''user_id'', JStr (mu_user_id m)), (lit ''email'', JStr (mu_email m)),
      (lit ''display_name'', JStr (mu_display_name m)), (lit ''status'', JStr (mu_status m)),
      (lit ''organization_user_id'', json_str_option (mu_organization_user_id m)),
      (lit ''global_roles'', JArr (map JStr (mu_global_roles m))),
      (lit ''is_last_active_system_admin'', JBool (mu_is_last_active_system_admin m)),
      (lit ''created_at'', JStr (en_dump_time en (mu_created_at m))),
      (lit ''updated_at'', JStr (en_dump_time en (mu_updated_at m))),
      (lit ''last_login_at'', json_time_option en (mu_last_login_at m))]"

record admin_access_request_response =
  rp_request_id :: str
  rp_user_number :: str
  rp_name :: str
  rp_department_id :: str
  rp_department :: "department option"
  rp_email :: str
  rp_access_reason :: str
  rp_status :: str
  rp_requested_at :: timestamp
  rp_decided_at :: "timestamp option"
  rp_decided_by :: "str option"
  rp_decision_reason :: "str option"
  rp_created_user_id :: "str option"
  rp_created_admin_user_id :: "str option"

definition admin_access_request_response_of :: "db \<Rightarrow> admin_access_request \<Rightarrow> admin_access_request_response" where
  "admin_access_request_response_of d r =
     \<lparr>rp_request_id = aa_request_id r,
      rp_user_number = aa_user_number r,
      rp_name = aa_name r,
      rp_department_id = aa_department_id r,
      rp_department = get_department d (aa_department_id r),
      rp_email = aa_email r,
      rp_access_reason = aa_access_reason r,
      rp_status = aa_status r,
      rp_requested_at = aa_requested_at r,
      rp_decided_at = aa_decided_at r,
      rp_decided_by = aa_decided_by r,
      rp_decision_reason = aa_decision_reason r,
      rp_created_user_id = aa_created_user_id r,
      rp_created_admin_user_id = aa_created_admin_user_id r\<rparr>"

definition admin_access_request_audit_state ::
  "admin_env \<Rightarrow> admin_access_request_response \<Rightarrow> (str \<times> json) list" where
  "admin_access_request_audit_state en a =
     [(lit ''request_id'', JStr (rp_request_id a)),
      (lit ''user_number'', JStr (rp_user_number a)),
      (lit ''name'', JStr (rp_name a)),
      (lit ''department_id'', JStr (rp_department_id a)),
      (lit ''department'', case rp_department a of None \<Rightarrow> JNull | Some p \<Rightarrow>
         JObj [(lit ''id'', JStr (dp_id p)), (lit ''dept_number'', JStr (dp_dept_number p)), (lit ''name'', JStr (dp_name p)),
           (lit ''use_yn'', JStr (dp_use_yn p))]),
      (lit ''email'', JStr (rp_email a)),
      (lit ''access_reason'', JStr (rp_access_reason a)),
      (lit ''status'', JStr (rp_status a)),
      (lit ''requested_at'', JStr (en_dump_time en (rp_requested_at a))),
      (lit ''decided_at'', json_time_option en (rp_decided_at a)),
      (lit ''decided_by'', json_str_option (rp_decided_by a)),
      (lit ''decision_reason'', json_str_option (rp_decision_reason a)),
      (lit ''created_user_id'', json_str_option (rp_created_user_id a)),
      (lit ''created_admin_user_id'', json_str_option (rp_created_admin_user_id a))]"

text \<open>An audit log of a change of rights; the \<open>k\<close>-th one of the request has the \<open>k\<close>-th random identifier.\<close>

definition audit ::
  "admin_env \<Rightarrow> nat \<Rightarrow> string \<Rightarrow> str \<Rightarrow> str option \<Rightarrow> string \<Rightarrow> str \<Rightarrow> (str \<times> json) list option
    \<Rightarrow> (str \<times> json) list option \<Rightarrow> timestamp \<Rightarrow> db \<Rightarrow> (http_error, db) outcome" where
  "audit en k event_type actor_id service_id target_type target_id before_state after_state now d =
     bindE (unhandled (insert_audit_log d \<lparr>al_audit_id = en_uuid en k, al_event_type = lit event_type,
       al_actor_id = actor_id, al_service_id = service_id, al_trace_id = None, al_target_type = lit target_type,
       al_target_id = target_id, al_view_reason = None, al_source_ip = en_source_ip en,
       al_before_state = before_state, al_after_state = after_state, al_created_at = now\<rparr>)) (\<lambda>(d', _). Inr d')"

definition role_state :: "str \<Rightarrow> str \<Rightarrow> (str \<times> json) list" where
  "role_state user_id role = [(lit ''user_id'', JStr user_id), (lit ''role'', JStr role)]"

end
