(* ===== verification/Store.thy ===== *)
theory Store
  imports Repository
begin

text \<open>
  The reads and writes of \<open>db/repositories.py\<close> on services, API keys, intents, examples, policies,
  catalog versions, vector indexes, test runs and releases. UUIDs are compared as their canonical
  lowercase text, which orders them like the database does; other text columns are ordered by the
  collation \<open>collate\<close>. The distance operator of the vector extension is a parameter.
\<close>

section \<open>Services and API keys\<close>

definition create_service :: "db \<Rightarrow> service \<Rightarrow> (repo_error, db \<times> service) outcome" where
  "create_service d r = bindE (insert_row sv_service_id r (db_services d)) (\<lambda>rows.
     Inr (d\<lparr>db_services := rows\<rparr>, r))"

definition get_service :: "db \<Rightarrow> str \<Rightarrow> service option" where
  "get_service d service_id = first_row (\<lambda>r. sv_service_id r = service_id) (db_services d)"

definition list_services :: "(str \<Rightarrow> nat) \<Rightarrow> db \<Rightarrow> service list" where
  "list_services collate d =
     order_by (\<lambda>r. (collate (sv_service_id r), collate (sv_display_name r))) (db_services d)"

definition list_services_for_user :: "(str \<Rightarrow> nat) \<Rightarrow> db \<Rightarrow> str \<Rightarrow> service list" where
  "list_services_for_user collate d user_id =
     order_by (\<lambda>r. (collate (sv_service_id r), collate (sv_display_name r)))
       (filter (\<lambda>r. \<exists>q \<in> set (db_user_service_roles d). ur_service_id q = sv_service_id r \<and> ur_user_id q = user_id)
         (db_services d))"

definition create_api_key_row :: "db \<Rightarrow> api_key \<Rightarrow> (repo_error, db \<times> api_key) outcome" where
  "create_api_key_row d r = bindE (insert_row ak_key_id r (db_api_keys d)) (\<lambda>rows.
     Inr (d\<lparr>db_api_keys := rows\<rparr>, r))"

definition get_api_key_by_id :: "db \<Rightarrow> str \<Rightarrow> api_key option" where
  "get_api_key_by_id d key_id = first_row (\<lambda>r. ak_key_id r = key_id) (db_api_keys d)"

definition list_api_keys ::
  "(str \<Rightarrow> nat) \<Rightarrow> db \<Rightarrow> str option \<Rightarrow> str option \<Rightarrow> str option \<Rightarrow> nat \<Rightarrow> api_key list" where
  "list_api_keys collate d service_id environment status limit =
     take limit (order_by (\<lambda>r. (- ak_created_at r, collate (ak_key_id r)))
       (optional_filter status (\<lambda>s r. ak_status r = s)
       (optional_filter environment (\<lambda>e r. ak_environment r = e)
       (optional_filter service_id (\<lambda>s r. ak_service_id r = s) (db_api_keys d)))))"

definition revoke_api_key :: "db \<Rightarrow> api_key \<Rightarrow> timestamp \<Rightarrow> db \<times> api_key" where
  "revoke_api_key d r revoked_at =
     (let r' = r\<lparr>ak_status := lit ''revoked'', ak_revoked_at := Some revoked_at\<rparr> in
      (d\<lparr>db_api_keys := put_row ak_key_id r' (db_api_keys d)\<rparr>, r'))"

section \<open>Intents\<close>

text \<open>The table has the primary key \<open>id\<close> and two unique constraints.\<close>

definition intent_conflict :: "intent \<Rightarrow> intent \<Rightarrow> bool" where
  "intent_conflict a b \<longleftrightarrow> in_id a = in_id b
     \<or> (in_service_id a = in_service_id b \<and> (in_intent_id a = in_intent_id b \<or> in_route_key a = in_route_key b))"

definition create_intent :: "db \<Rightarrow> intent \<Rightarrow> (repo_error, db \<times> intent) outcome" where
  "create_intent d r =
     (if \<exists>q \<in> set (db_intents d). intent_conflict r q then Inl Integrity_Error
      else Inr (d\<lparr>db_intents := db_intents d @ [r]\<rparr>, r))"

definition get_intent :: "db \<Rightarrow> str \<Rightarrow> str \<Rightarrow> intent option" where
  "get_intent d service_id intent_id =
     first_row (\<lambda>r. in_service_id r = service_id \<and> in_intent_id r = intent_id) (db_intents d)"

definition list_intents :: "(str \<Rightarrow> nat) \<Rightarrow> db \<Rightarrow> str \<Rightarrow> intent list" where
  "list_intents collate d service_id =
     order_by (\<lambda>r. collate (in_intent_id r)) (filter (\<lambda>r. in_service_id r = service_id) (db_intents d))"

definition list_active_intents :: "(str \<Rightarrow> nat) \<Rightarrow> db \<Rightarrow> str \<Rightarrow> intent list" where
  "list_active_intents collate d service_id =
     order_by (\<lambda>r. collate (in_intent_id r))
       (filter (\<lambda>r. in_service_id r = service_id \<and> in_status r = lit ''active'') (db_intents d))"

text \<open>\<open>set_values\<close> is the assignment of the keyword arguments to the columns they name.\<close>

definition update_intent :: "db \<Rightarrow> intent \<Rightarrow> (intent \<Rightarrow> intent) \<Rightarrow> (repo_error, db \<times> intent) outcome" where
  "update_intent d r set_values =
     (let r' = set_values r in
      if \<exists>q \<in> set (db_intents d). in_id q \<noteq> in_id r \<and> intent_conflict r' q then Inl Integrity_Error
      else Inr (d\<lparr>db_intents := update_where (\<lambda>q. in_id q = in_id r) (\<lambda>_. r') (db_intents d)\<rparr>, r'))"

definition delete_intent :: "db \<Rightarrow> intent \<Rightarrow> db" where
  "delete_intent d r = d\<lparr>db_intents := filter (\<lambda>q. in_id q \<noteq> in_id r) (db_intents d)\<rparr>"

section \<open>Examples\<close>

definition create_example :: "db \<Rightarrow> intent_example \<Rightarrow> (repo_error, db \<times> intent_example) outcome" where
  "create_example d r = bindE (insert_row ie_example_id r (db_intent_examples d)) (\<lambda>rows.
     Inr (d\<lparr>db_intent_examples := rows\<rparr>, r))"

definition get_example :: "db \<Rightarrow> str \<Rightarrow> str \<Rightarrow> intent_example option" where
  "get_example d service_id example_id =
     first_row (\<lambda>r. ie_service_id r = service_id \<and> ie_example_id r = example_id) (db_intent_examples d)"

definition examples_where :: "db \<Rightarrow> (intent_example \<Rightarrow> bool) \<Rightarrow> intent_example list" where
  "examples_where d P = order_by (\<lambda>r. (ie_created_at r, ie_example_id r)) (filter P (db_intent_examples d))"

definition list_examples :: "db \<Rightarrow> str \<Rightarrow> str \<Rightarrow> intent_example list" where
  "list_examples d service_id intent_id =
     examples_where d (\<lambda>r. ie_service_id r = service_id \<and> ie_intent_id r = intent_id)"

definition list_examples_for_service :: "db \<Rightarrow> str \<Rightarrow> intent_example list" where
  "list_examples_for_service d service_id = examples_where d (\<lambda>r. ie_service_id r = service_id)"

definition list_approved_examples :: "db \<Rightarrow> str \<Rightarrow> str \<Rightarrow> intent_example list" where
  "list_approved_examples d service_id intent_id =
     examples_where d (\<lambda>r. ie_service_id r = service_id \<and> ie_intent_id r = intent_id \<and> ie_approved r)"

definition update_example :: "db \<Rightarrow> intent_example \<Rightarrow> (intent_example \<Rightarrow> intent_example) \<Rightarrow> db \<times> intent_example" where
  "update_example d r set_values =
     (d\<lparr>db_intent_examples := update_where (\<lambda>q. ie_example_id q = ie_example_id r) (\<lambda>_. set_values r)
         (db_intent_examples d)\<rparr>, set_values r)"

definition approve_example :: "db \<Rightarrow> intent_example \<Rightarrow> float64 list option \<Rightarrow> db \<times> intent_example" where
  "approve_example d r embedding =
     (let r1 = r\<lparr>ie_approved := True\<rparr>;
          r2 = (case embedding of None \<Rightarrow> r1 | Some e \<Rightarrow> r1\<lparr>ie_embedding := Some e\<rparr>)
      in (d\<lparr>db_intent_examples := put_row ie_example_id r2 (db_intent_examples d)\<rparr>, r2))"

definition delete_example :: "db \<Rightarrow> intent_example \<Rightarrow> db" where
  "delete_example d r =
     d\<lparr>db_intent_examples := filter (\<lambda>q. ie_example_id q \<noteq> ie_example_id r) (db_intent_examples d)\<rparr>"

record example_search_result =
  sr_example_id :: "str option"
  sr_intent_id :: str
  sr_example_type :: str
  sr_similarity :: float64

datatype search_error = Bad_Dimension | Bad_Limit

definition check_search :: "float64 list \<Rightarrow> int \<Rightarrow> (search_error, unit) outcome" where
  "check_search query_embedding limit =
     bindE (require (length query_embedding = 1024) Bad_Dimension) (\<lambda>_. require (1 \<le> limit) Bad_Limit)"

definition search_approved_examples_by_embedding ::
  "(float64 list \<Rightarrow> float64 list \<Rightarrow> float64) \<Rightarrow> db \<Rightarrow> str \<Rightarrow> float64 list \<Rightarrow> int
    \<Rightarrow> (search_error, example_search_result list) outcome" where
  "search_approved_examples_by_embedding distance d service_id query_embedding limit =
     bindE (check_search query_embedding limit) (\<lambda>_.
     Inr (map (\<lambda>r. \<lparr>sr_example_id = Some (ie_example_id r), sr_intent_id = ie_intent_id r,
            sr_example_type = ie_example_type r,
            sr_similarity = fsub 1 (distance (the (ie_embedding r)) query_embedding)\<rparr>)
       (take (nat limit) (order_by (\<lambda>r. distance (the (ie_embedding r)) query_embedding)
         (filter (\<lambda>r. ie_service_id r = service_id \<and> ie_approved r \<and> ie_embedding r \<noteq> None)
           (db_intent_examples d))))))"

section \<open>Policies\<close>

definition create_policy_version :: "db \<Rightarrow> policy_version \<Rightarrow> (repo_error, db \<times> policy_version) outcome" where
  "create_policy_version d r = bindE (insert_row pv_policy_version r (db_policy_versions d)) (\<lambda>rows.
     Inr (d\<lparr>db_policy_versions := rows\<rparr>, r))"

definition get_policy_version :: "db \<Rightarrow> str \<Rightarrow> str \<Rightarrow> policy_version option" where
  "get_policy_version d service_id version =
     first_row (\<lambda>r. pv_service_id r = service_id \<and> pv_policy_version r = version) (db_policy_versions d)"

definition list_policy_versions :: "(str \<Rightarrow> nat) \<Rightarrow> db \<Rightarrow> str \<Rightarrow> nat \<Rightarrow> policy_version list" where
  "list_policy_versions collate d service_id limit =
     take limit (order_by (\<lambda>r. (- pv_created_at r, collate (pv_policy_version r)))
       (filter (\<lambda>r. pv_service_id r = service_id) (db_policy_versions d)))"

section \<open>Catalog versions and vector indexes\<close>

text \<open>The primary key and the unique (service, display version); null display versions do not clash.\<close>

definition catalog_conflict :: "intent_catalog_version \<Rightarrow> intent_catalog_version \<Rightarrow> bool" where
  "catalog_conflict a b \<longleftrightarrow> cv_intent_catalog_version a = cv_intent_catalog_version b
     \<or> (cv_service_id a = cv_service_id b \<and> cv_display_version a = cv_display_version b
        \<and> cv_display_version a \<noteq> None)"

definition insert_catalog_version ::
  "db \<Rightarrow> intent_catalog_version \<Rightarrow> (repo_error, db \<times> intent_catalog_version) outcome" where
  "insert_catalog_version d r =
     (if \<exists>q \<in> set (db_catalog_versions d). catalog_conflict r q then Inl Integrity_Error
      else Inr (d\<lparr>db_catalog_versions := db_catalog_versions d @ [r]\<rparr>, r))"

definition list_catalog_display_versions :: "db \<Rightarrow> str \<Rightarrow> str list" where
  "list_catalog_display_versions d service_id =
     List.map_filter cv_display_version (order_by cv_created_at
       (filter (\<lambda>r. cv_service_id r = service_id \<and> cv_display_version r \<noteq> None) (db_catalog_versions d)))"

definition list_active_catalog_versions :: "db \<Rightarrow> str \<Rightarrow> nat \<Rightarrow> intent_catalog_version list" where
  "list_active_catalog_versions d service_id limit =
     take limit (order_by (\<lambda>r. - cv_created_at r)
       (filter (\<lambda>r. cv_service_id r = service_id \<and> cv_status r = lit ''active'') (db_catalog_versions d)))"

definition get_catalog_version :: "db \<Rightarrow> str \<Rightarrow> str \<Rightarrow> intent_catalog_version option" where
  "get_catalog_version d service_id version =
     first_row (\<lambda>r. cv_service_id r = service_id \<and> cv_intent_catalog_version r = version)
       (db_catalog_versions d)"

definition list_catalog_versions ::
  "(str \<Rightarrow> nat) \<Rightarrow> db \<Rightarrow> str \<Rightarrow> str option \<Rightarrow> nat \<Rightarrow> intent_catalog_version list" where
  "list_catalog_versions collate d service_id status limit =
     take limit (order_by (\<lambda>r. (- cv_created_at r, collate (cv_intent_catalog_version r)))
       (optional_filter status (\<lambda>s r. cv_status r = s)
       (filter (\<lambda>r. cv_service_id r = service_id) (db_catalog_versions d))))"

definition catalog_version_has_release_reference :: "db \<Rightarrow> str \<Rightarrow> str \<Rightarrow> bool" where
  "catalog_version_has_release_reference d service_id version \<longleftrightarrow>
     first_row (\<lambda>r. rel_service_id r = service_id \<and> rel_intent_catalog_version r = version) (db_releases d) \<noteq> None"

definition catalog_version_release_count :: "db \<Rightarrow> str \<Rightarrow> str \<Rightarrow> nat" where
  "catalog_version_release_count d service_id version =
     length (filter (\<lambda>r. rel_service_id r = service_id \<and> rel_intent_catalog_version r = version) (db_releases d))"

definition ready_index :: "str \<Rightarrow> str \<Rightarrow> str option \<Rightarrow> vector_index_version \<Rightarrow> bool" where
  "ready_index service_id catalog model r \<longleftrightarrow>
     vi_service_id r = service_id \<and> vi_intent_catalog_version r = catalog \<and> vi_status r = lit ''ready''
     \<and> (case model of None \<Rightarrow> True | Some m \<Rightarrow> vi_model_version r = m)"

definition get_ready_vector_index_version ::
  "(str \<Rightarrow> nat) \<Rightarrow> db \<Rightarrow> str \<Rightarrow> str \<Rightarrow> str option \<Rightarrow> vector_index_version option" where
  "get_ready_vector_index_version collate d service_id catalog model =
     first_row (\<lambda>_. True) (order_by (\<lambda>r. (- vi_created_at r, - int (collate (vi_vector_index_version r))))
       (filter (ready_index service_id catalog model) (db_vector_indexes d)))"

definition deactivate_catalog_version ::
  "db \<Rightarrow> str \<Rightarrow> str \<Rightarrow> timestamp \<Rightarrow> db \<times> intent_catalog_version option" where
  "deactivate_catalog_version d service_id version deactivated_at =
     (case get_catalog_version d service_id version of
        None \<Rightarrow> (d, None)
      | Some r \<Rightarrow>
         (let r' = r\<lparr>cv_status := lit ''inactive'', cv_deactivated_at := Some deactivated_at\<rparr> in
          (d\<lparr>db_catalog_versions := put_row cv_intent_catalog_version r' (db_catalog_versions d)\<rparr>, Some r')))"

definition deactivate_catalog_version_embeddings :: "db \<Rightarrow> str \<Rightarrow> timestamp \<Rightarrow> db" where
  "deactivate_catalog_version_embeddings d version deactivated_at =
     d\<lparr>db_example_embeddings := update_where
         (\<lambda>r. ce_intent_catalog_version r = version \<and> ce_embedding_status r = lit ''active'')
         (\<lambda>r. r\<lparr>ce_embedding_status := lit ''inactive'', ce_embedding := None,
                ce_deactivated_at := Some deactivated_at\<rparr>)
         (db_example_embeddings d)\<rparr>"

definition create_catalog_version_example_embedding ::
  "db \<Rightarrow> catalog_example_embedding \<Rightarrow> (repo_error, db \<times> catalog_example_embedding) outcome" where
  "create_catalog_version_example_embedding d r =
     bindE (insert_row ce_id r (db_example_embeddings d)) (\<lambda>rows. Inr (d\<lparr>db_example_embeddings := rows\<rparr>, r))"

definition list_catalog_version_example_embeddings :: "db \<Rightarrow> str \<Rightarrow> catalog_example_embedding list" where
  "list_catalog_version_example_embeddings d version =
     order_by ce_created_at (filter (\<lambda>r. ce_intent_catalog_version r = version) (db_example_embeddings d))"

definition count_active_catalog_version_embeddings :: "db \<Rightarrow> str \<Rightarrow> nat" where
  "count_active_catalog_version_embeddings d version =
     length (filter (\<lambda>r. ce_intent_catalog_version r = version \<and> ce_embedding_status r = lit ''active'')
       (db_example_embeddings d))"

definition search_catalog_version_examples_by_embedding ::
  "(float64 list \<Rightarrow> float64 list \<Rightarrow> float64) \<Rightarrow> db \<Rightarrow> str \<Rightarrow> str \<Rightarrow> float64 list \<Rightarrow> int
    \<Rightarrow> (search_error, example_search_result list) outcome" where
  "search_catalog_version_examples_by_embedding distance d version model_version query_embedding limit =
     bindE (check_search query_embedding limit) (\<lambda>_.
     Inr (map (\<lambda>r. \<lparr>sr_example_id = ce_example_id r, sr_intent_id = ce_intent_id r,
            sr_example_type = ce_example_type r,
            sr_similarity = fsub 1 (distance (the (ce_embedding r)) query_embedding)\<rparr>)
       (take (nat limit) (order_by (\<lambda>r. distance (the (ce_embedding r)) query_embedding)
         (filter (\<lambda>r. ce_intent_catalog_version r = version \<and> ce_model_version r = model_version
             \<and> ce_embedding_status r = lit ''active'' \<and> ce_embedding r \<noteq> None)
           (db_example_embeddings d))))))"

definition create_vector_index_version ::
  "db \<Rightarrow> vector_index_version \<Rightarrow> (repo_error, db \<times> vector_index_version) outcome" where
  "create_vector_index_version d r =
     bindE (insert_row vi_vector_index_version r (db_vector_indexes d)) (\<lambda>rows.
     Inr (d\<lparr>db_vector_indexes := rows\<rparr>, r))"

definition list_vector_index_versions_by_prefix :: "(str \<Rightarrow> nat) \<Rightarrow> db \<Rightarrow> str \<Rightarrow> str list" where
  "list_vector_index_versions_by_prefix collate d p =
     map vi_vector_index_version (order_by (\<lambda>r. collate (vi_vector_index_version r))
       (filter (\<lambda>r. prefix p (vi_vector_index_version r)) (db_vector_indexes d)))"

record catalog_diagnostic_record =
  cd_intent_catalog_version :: str
  cd_display_version :: "str option"
  cd_status :: str
  cd_reproducibility_status :: str
  cd_intent_count :: nat
  cd_example_count :: nat
  cd_embedding_count :: nat
  cd_test_run_model_version :: "str option"
  cd_test_run_vector_index_version :: "str option"
  cd_ready_vector_index_version :: "str option"
  cd_ready_vector_index_model_version :: "str option"
  cd_test_run_vector_index_ready :: "bool option"
  cd_test_run_vector_index_status :: "str option"

fun json_list :: "json \<Rightarrow> json list" where
  "json_list (JArr xs) = xs"
| "json_list _ = []"

fun json_dict :: "json \<Rightarrow> (str \<times> json) list" where
  "json_dict (JObj d) = d"
| "json_dict _ = []"

definition matches_version :: "str option \<Rightarrow> str \<Rightarrow> bool" where
  "matches_version wanted actual \<longleftrightarrow> (case wanted of None \<Rightarrow> True | Some v \<Rightarrow> actual = v)"

definition get_catalog_version_diagnostic_record ::
  "(str \<Rightarrow> nat) \<Rightarrow> db \<Rightarrow> str \<Rightarrow> str \<Rightarrow> str option \<Rightarrow> str option \<Rightarrow> catalog_diagnostic_record option" where
  "get_catalog_version_diagnostic_record collate d service_id version model_version vector_index_version =
     (case get_catalog_version d service_id version of None \<Rightarrow> None | Some catalog \<Rightarrow>
       let intents = json_list (get (json_dict (cv_snapshot catalog)) (lit ''intents''));
           example_count = sum_list (map (\<lambda>i. length (json_list (get (json_dict i) (lit ''examples'')))) intents);
           ready = get_ready_vector_index_version collate d service_id version model_version;
           selected = (case vector_index_version of None \<Rightarrow> None | Some v \<Rightarrow>
             first_row (\<lambda>r. vi_service_id r = service_id \<and> vi_intent_catalog_version r = version
                 \<and> vi_vector_index_version r = v \<and> matches_version model_version (vi_model_version r))
               (db_vector_indexes d));
           embedding_count = length (filter (\<lambda>r. ce_service_id r = service_id
               \<and> ce_intent_catalog_version r = version \<and> ce_embedding_status r = lit ''active''
               \<and> ce_embedding r \<noteq> None \<and> matches_version model_version (ce_model_version r)
               \<and> matches_version vector_index_version (ce_vector_index_version r)) (db_example_embeddings d))
       in Some \<lparr>cd_intent_catalog_version = cv_intent_catalog_version catalog,
            cd_display_version = cv_display_version catalog, cd_status = cv_status catalog,
            cd_reproducibility_status = cv_reproducibility_status catalog,
            cd_intent_count = length intents, cd_example_count = example_count,
            cd_embedding_count = embedding_count, cd_test_run_model_version = model_version,
            cd_test_run_vector_index_version = vector_index_version,
            cd_ready_vector_index_version = map_option vi_vector_index_version ready,
            cd_ready_vector_index_model_version = map_option vi_model_version ready,
            cd_test_run_vector_index_ready = (case selected of
                Some s \<Rightarrow> Some (vi_status s = lit ''ready'')
              | None \<Rightarrow> if vector_index_version \<noteq> None then Some False else None),
            cd_test_run_vector_index_status = map_option vi_status selected\<rparr>)"

section \<open>Tests\<close>

text \<open>
  A case names its dataset or leaves it to the default; \<open>(dataset, case_id)\<close> is unique. A test result
  is stored with the identifier of its run.
\<close>

fun add_test_cases ::
  "str \<Rightarrow> (str option \<times> test_case_row) list \<Rightarrow> test_case_row list \<Rightarrow> (repo_error, test_case_row list) outcome" where
  "add_test_cases dataset [] rows = Inr rows"
| "add_test_cases dataset ((version, c) # cs) rows =
     bindE (require (case version of None \<Rightarrow> True | Some v \<Rightarrow> v = dataset) Case_Dataset_Mismatch) (\<lambda>_.
     bindE (insert_row (\<lambda>r. (tcr_test_dataset_version r, tcr_case_id r))
       (c\<lparr>tcr_test_dataset_version := dataset\<rparr>) rows) (\<lambda>rows'.
     add_test_cases dataset cs rows'))"

definition create_test_dataset ::
  "db \<Rightarrow> test_dataset \<Rightarrow> (str option \<times> test_case_row) list \<Rightarrow> (repo_error, db \<times> test_dataset) outcome" where
  "create_test_dataset d r cases =
     bindE (insert_row td_test_dataset_version r (db_test_datasets d)) (\<lambda>rows.
     bindE (add_test_cases (td_test_dataset_version r) cases (db_test_cases d)) (\<lambda>case_rows.
     Inr (d\<lparr>db_test_datasets := rows, db_test_cases := case_rows\<rparr>, r)))"

definition create_test_run_with_results ::
  "db \<Rightarrow> test_run \<Rightarrow> test_result list \<Rightarrow> (repo_error, db \<times> test_run) outcome" where
  "create_test_run_with_results d r results =
     bindE (insert_row tr_test_run_id r (db_test_runs d)) (\<lambda>rows.
     Inr (d\<lparr>db_test_runs := rows,
            db_test_results := db_test_results d @ map (\<lambda>q. (tr_test_run_id r, q)) results\<rparr>, r))"

definition get_test_run :: "db \<Rightarrow> str \<Rightarrow> test_run option" where
  "get_test_run d test_run_id = first_row (\<lambda>r. tr_test_run_id r = test_run_id) (db_test_runs d)"

definition list_test_runs ::
  "(str \<Rightarrow> nat) \<Rightarrow> db \<Rightarrow> str \<Rightarrow> bool option \<Rightarrow> bool option \<Rightarrow> nat \<Rightarrow> (test_run \<times> test_dataset) list" where
  "list_test_runs collate d service_id gate_passed risk_passed limit =
     take limit (order_by (\<lambda>(r, _). (- tr_created_at r, collate (tr_test_run_id r)))
       (optional_filter risk_passed (\<lambda>b (r, _). (tr_risk_pass_rate r = 1) = b)
       (optional_filter gate_passed (\<lambda>b (r, _). tr_gate_passed r = b)
       (List.map_filter (\<lambda>r. map_option (Pair r)
           (first_row (\<lambda>t. td_test_dataset_version t = tr_test_dataset_version r) (db_test_datasets d)))
         (filter (\<lambda>r. tr_service_id r = service_id) (db_test_runs d))))))"

definition list_test_results :: "(str \<Rightarrow> nat) \<Rightarrow> db \<Rightarrow> str \<Rightarrow> test_result list" where
  "list_test_results collate d test_run_id =
     order_by (\<lambda>r. collate (ts_case_id r))
       (map snd (filter (\<lambda>(run, _). run = test_run_id) (db_test_results d)))"

section \<open>Releases\<close>

definition release_conflict :: "release \<Rightarrow> release \<Rightarrow> bool" where
  "release_conflict a b \<longleftrightarrow> rel_release_version a = rel_release_version b
     \<or> (rel_service_id a = rel_service_id b \<and> rel_environment a = rel_environment b
        \<and> rel_test_run_id a = rel_test_run_id b)"

definition insert_release :: "db \<Rightarrow> release \<Rightarrow> (repo_error, db \<times> release) outcome" where
  "insert_release d r =
     (if \<exists>q \<in> set (db_releases d). release_conflict r q then Inl Integrity_Error
      else Inr (d\<lparr>db_releases := db_releases d @ [r]\<rparr>, r))"

definition get_release :: "db \<Rightarrow> str \<Rightarrow> str \<Rightarrow> release option" where
  "get_release d service_id version =
     first_row (\<lambda>r. rel_service_id r = service_id \<and> rel_release_version r = version) (db_releases d)"

definition get_release_for_test_run_environment :: "db \<Rightarrow> str \<Rightarrow> str \<Rightarrow> str \<Rightarrow> release option" where
  "get_release_for_test_run_environment d service_id environment test_run_id =
     first_row (\<lambda>r. rel_service_id r = service_id \<and> rel_environment r = environment
       \<and> rel_test_run_id r = test_run_id) (db_releases d)"

definition list_releases :: "(str \<Rightarrow> nat) \<Rightarrow> db \<Rightarrow> str \<Rightarrow> str option \<Rightarrow> release list" where
  "list_releases collate d service_id environment =
     order_by (\<lambda>r. (- rel_released_at r, collate (rel_release_version r)))
       (optional_filter environment (\<lambda>e r. rel_environment r = e)
       (filter (\<lambda>r. rel_service_id r = service_id) (db_releases d)))"

definition list_release_versions_by_prefix :: "(str \<Rightarrow> nat) \<Rightarrow> db \<Rightarrow> str \<Rightarrow> str \<Rightarrow> str list" where
  "list_release_versions_by_prefix collate d service_id p =
     map rel_release_version (order_by (\<lambda>r. collate (rel_release_version r))
       (filter (\<lambda>r. rel_service_id r = service_id \<and> prefix p (rel_release_version r)) (db_releases d)))"

definition get_active_release :: "db \<Rightarrow> str \<Rightarrow> str \<Rightarrow> release option" where
  "get_active_release d service_id environment =
     first_row (\<lambda>_. True) (order_by (\<lambda>r. - rel_released_at r)
       (filter (\<lambda>r. rel_service_id r = service_id \<and> rel_environment r = environment \<and> rel_active r)
         (db_releases d)))"

text \<open>All releases of the environment are switched off, then the target is switched on.\<close>

definition set_active_release :: "db \<Rightarrow> str \<Rightarrow> str \<Rightarrow> str \<Rightarrow> (repo_error, db) outcome" where
  "set_active_release d service_id environment version =
     bindE (some_or (first_row (\<lambda>r. rel_service_id r = service_id \<and> rel_environment r = environment
         \<and> rel_release_version r = version) (db_releases d)) Release_Scope_Mismatch) (\<lambda>target.
     let off = update_where (\<lambda>r. rel_service_id r = service_id \<and> rel_environment r = environment)
           (\<lambda>r. r\<lparr>rel_active := False\<rparr>) (db_releases d)
     in Inr (d\<lparr>db_releases := update_where (\<lambda>r. rel_release_version r = rel_release_version target)
           (\<lambda>r. r\<lparr>rel_active := True\<rparr>) off\<rparr>))"

end
