(* ===== verification/Access_Handlers.thy ===== *)
theory Access_Handlers
  imports Access_Admin Store
begin

text \<open>
  The endpoints that change the organization, the access requests, the administrators and the members of
  services, as functions of the session context and the database.
\<close>

definition acting :: "admin_session_context \<Rightarrow> str" where
  "acting sc = cx_actor_id (admin_context_from_session_record sc)"

definition as_system_admin :: "admin_session_context \<Rightarrow> (http_error, unit) outcome" where
  "as_system_admin sc = require_system_admin (admin_context_from_session_record sc)"

section \<open>Departments\<close>

definition create_department ::
  "admin_env \<Rightarrow> str \<Rightarrow> str \<Rightarrow> admin_session_context \<Rightarrow> db \<Rightarrow> (http_error, db \<times> department) outcome" where
  "create_department en dept_number name sc d =
     bindE (as_system_admin sc) (\<lambda>_.
     let now = en_clock en 1 in
     except_integrity (raise_conflict ''Department already exists.'')
       (create_department_row d \<lparr>dp_id = en_uuid en 0, dp_dept_number = strip dept_number, dp_name = strip name,
          dp_use_yn = lit ''Y'', dp_created_by = acting sc, dp_updated_by = acting sc, dp_created_at = now,
          dp_updated_at = now\<rparr>))"

record department_patch =
  pd_dept_number :: "str option"
  pd_name :: "str option"
  pd_use_yn :: "str option"

text \<open>The assignment of the fields that were given.\<close>

definition set_if :: "'v option \<Rightarrow> ('v \<Rightarrow> 'r \<Rightarrow> 'r) \<Rightarrow> 'r \<Rightarrow> 'r" where
  "set_if v f r = (case v of None \<Rightarrow> r | Some x \<Rightarrow> f x r)"

definition patch_department ::
  "admin_env \<Rightarrow> str \<Rightarrow> department_patch \<Rightarrow> admin_session_context \<Rightarrow> db \<Rightarrow> (http_error, db \<times> department) outcome" where
  "patch_department en department_id request sc d =
     bindE (as_system_admin sc) (\<lambda>_.
     bindE (department_or_404 d department_id) (\<lambda>p.
     bindE (require (\<not> (pd_use_yn request = Some (lit ''N'') \<and> department_has_active_organization_users d department_id))
       (raise_conflict ''Department has active organization users.'')) (\<lambda>_.
     except_integrity (raise_conflict ''Department already exists.'')
       (update_department d p (\<lambda>r.
          (set_if (pd_use_yn request) (\<lambda>y r. r\<lparr>dp_use_yn := y\<rparr>)
          (set_if (pd_name request) (\<lambda>n r. r\<lparr>dp_name := strip n\<rparr>)
          (set_if (pd_dept_number request) (\<lambda>n r. r\<lparr>dp_dept_number := strip n\<rparr>) r)))
            \<lparr>dp_updated_by := acting sc, dp_updated_at := en_clock en 1\<rparr>)))))"

definition deactivate_department ::
  "admin_env \<Rightarrow> str \<Rightarrow> admin_session_context \<Rightarrow> db \<Rightarrow> (http_error, db \<times> department) outcome" where
  "deactivate_department en department_id sc d =
     bindE (as_system_admin sc) (\<lambda>_.
     bindE (department_or_404 d department_id) (\<lambda>p.
     bindE (require (\<not> department_has_active_organization_users d department_id)
       (raise_conflict ''Department has active organization users.'')) (\<lambda>_.
     Inr (deactivate_department_row d p (acting sc) (en_clock en 1)))))"

section \<open>Organization users\<close>

definition create_organization_user ::
  "admin_env \<Rightarrow> str \<Rightarrow> str \<Rightarrow> str \<Rightarrow> admin_session_context \<Rightarrow> db \<Rightarrow> (http_error, db \<times> organization_user) outcome" where
  "create_organization_user en user_number name department_id sc d =
     bindE (as_system_admin sc) (\<lambda>_.
     bindE (require_active_department d department_id) (\<lambda>p.
     let now = en_clock en 1 in
     except_integrity (raise_conflict ''Organization user already exists.'')
       (create_organization_user_row d \<lparr>ou_id = en_uuid en 0, ou_user_number = strip user_number, ou_name = strip name,
          ou_department_id = dp_id p, ou_use_yn = lit ''Y'', ou_created_by = acting sc, ou_updated_by = acting sc,
          ou_created_at = now, ou_updated_at = now\<rparr>)))"

record organization_user_patch =
  po_user_number :: "str option"
  po_name :: "str option"
  po_department_id :: "str option"
  po_use_yn :: "str option"

definition patch_organization_user ::
  "admin_env \<Rightarrow> str \<Rightarrow> organization_user_patch \<Rightarrow> admin_session_context \<Rightarrow> db
    \<Rightarrow> (http_error, db \<times> organization_user) outcome" where
  "patch_organization_user en organization_user_id request sc d =
     bindE (as_system_admin sc) (\<lambda>_.
     bindE (organization_user_or_404 d organization_user_id) (\<lambda>u.
     bindE (case po_department_id request of None \<Rightarrow> Inr ()
       | Some i \<Rightarrow> bindE (require_active_department d i) (\<lambda>_. Inr ())) (\<lambda>_.
     bindE (if po_use_yn request = Some (lit ''Y'')
       then bindE (require_active_department d
         (case po_department_id request of Some i \<Rightarrow> i | None \<Rightarrow> ou_department_id u)) (\<lambda>_. Inr ())
       else Inr ()) (\<lambda>_.
     except_integrity (raise_conflict ''Organization user already exists.'')
       (update_organization_user d u (\<lambda>r.
          (set_if (po_use_yn request) (\<lambda>y r. r\<lparr>ou_use_yn := y\<rparr>)
          (set_if (po_department_id request) (\<lambda>i r. r\<lparr>ou_department_id := i\<rparr>)
          (set_if (po_name request) (\<lambda>n r. r\<lparr>ou_name := strip n\<rparr>)
          (set_if (po_user_number request) (\<lambda>n r. r\<lparr>ou_user_number := strip n\<rparr>) r))))
            \<lparr>ou_updated_by := acting sc, ou_updated_at := en_clock en 1\<rparr>))))))"

definition deactivate_organization_user ::
  "admin_env \<Rightarrow> str \<Rightarrow> admin_session_context \<Rightarrow> db \<Rightarrow> (http_error, db \<times> organization_user) outcome" where
  "deactivate_organization_user en organization_user_id sc d =
     bindE (as_system_admin sc) (\<lambda>_.
     bindE (organization_user_or_404 d organization_user_id) (\<lambda>u.
     Inr (deactivate_organization_user_row d u (acting sc) (en_clock en 1))))"

section \<open>Access requests\<close>

text \<open>The public form: no session is needed.\<close>

definition create_admin_access_request ::
  "admin_env \<Rightarrow> access_request_body \<Rightarrow> db \<Rightarrow> (http_error, db \<times> admin_access_request_response) outcome" where
  "create_admin_access_request en request d =
     bindE (require_active_department d (ab_department_id request)) (\<lambda>p.
     bindE (unhandled (get_organization_user_by_user_number d (ab_user_number request))) (\<lambda>ou.
     bindE (require (ou = None) (raise_conflict ''Organization user already exists.'')) (\<lambda>_.
     bindE (unhandled (get_admin_user_by_email d (ab_email request))) (\<lambda>au.
     bindE (require (au = None) (raise_conflict ''Admin user already exists.'')) (\<lambda>_.
     let now = en_clock en 0 in
     bindE (except_integrity (raise_conflict ''A pending admin access request already exists.'')
       (create_admin_access_request_row d \<lparr>aa_request_id = en_uuid en 0, aa_user_number = ab_user_number request,
          aa_name = ab_name request, aa_department_id = dp_id p, aa_email = ab_email request, aa_email_normalized = [],
          aa_password_hash = Some (en_hash_password en (ab_password request)), aa_access_reason = ab_access_reason request,
          aa_status = lit ''pending'', aa_requested_at = now, aa_decided_at = None, aa_decided_by = None,
          aa_decision_reason = None, aa_created_user_id = None, aa_created_admin_user_id = None\<rparr>)) (\<lambda>(d1, r).
     let response = admin_access_request_response_of d1 r in
     bindE (audit en 1 ''admin_access_request.created'' (aa_email_normalized r) None ''admin_access_request''
       (aa_request_id r) None (Some (admin_access_request_audit_state en response)) now d1) (\<lambda>d2.
     Inr (d2, response))))))))"

definition approve_admin_access_request ::
  "admin_env \<Rightarrow> str \<Rightarrow> str \<Rightarrow> admin_session_context \<Rightarrow> db
    \<Rightarrow> (http_error, db \<times> admin_access_request_response) outcome" where
  "approve_admin_access_request en request_id decision_reason sc d =
     bindE (as_system_admin sc) (\<lambda>_.
     bindE (some_or (get_admin_access_request d request_id)
       (raise_not_found ''Admin access request does not exist.'')) (\<lambda>r.
     bindE (require (aa_status r = lit ''pending'')
       (raise_conflict ''Admin access request has already been decided.'')) (\<lambda>_.
     bindE (some_or (aa_password_hash r)
       (raise_conflict ''Pending admin access request is missing a password hash.'')) (\<lambda>password_hash.
     bindE (require_active_department d (aa_department_id r)) (\<lambda>p.
     bindE (unhandled (get_organization_user_by_user_number d (aa_user_number r))) (\<lambda>ou.
     bindE (require (ou = None) (raise_conflict ''Organization user already exists.'')) (\<lambda>_.
     bindE (unhandled (get_admin_user_by_email d (aa_email r))) (\<lambda>au.
     bindE (require (au = None) (raise_conflict ''Admin user already exists.'')) (\<lambda>_.
     let now = en_clock en 1 in
     bindE (except_errors (raise_conflict ''Admin access request conflicts with existing records.'')
         (raise_conflict ''Admin access request has already been decided.'')
       (bindE (create_organization_user_row d \<lparr>ou_id = en_uuid en 0, ou_user_number = aa_user_number r,
            ou_name = aa_name r, ou_department_id = dp_id p, ou_use_yn = lit ''Y'', ou_created_by = acting sc,
            ou_updated_by = acting sc, ou_created_at = now, ou_updated_at = now\<rparr>) (\<lambda>(d1, org).
        bindE (create_admin_user d1 \<lparr>au_user_id = lit ''admin_'' @ en_uuid_hex en 0, au_email = aa_email r,
            au_email_normalized = [], au_display_name = aa_name r, au_password_hash = password_hash,
            au_admin_access_reason = aa_access_reason r, au_status = lit ''active'', au_created_at = now,
            au_updated_at = now, au_last_login_at = None, au_organization_user_id = Some (ou_id org)\<rparr>) (\<lambda>(d2, user).
        bindE (assign_admin_user_role d2 \<lparr>ar_user_id = au_user_id user, ar_role = lit ''application_admin'',
            ar_assigned_by = acting sc, ar_assigned_at = now\<rparr>) (\<lambda>(d3, _).
        bindE (approve_admin_access_request_row d3 r (acting sc) now (Some decision_reason) (ou_id org)
            (au_user_id user)) (\<lambda>(d4, r'). Inr (d4, user, r'))))))) (\<lambda>(d4, user, r').
     let response = admin_access_request_response_of d4 r' in
     bindE (audit en 1 ''admin_access_request.approved'' (acting sc) None ''admin_access_request'' (aa_request_id r')
       None (Some (admin_access_request_audit_state en response)) now d4) (\<lambda>d5.
     bindE (audit en 2 ''admin_user.global_role_granted'' (acting sc) None ''admin_user'' (au_user_id user)
       None (Some (role_state (au_user_id user) (lit ''application_admin''))) now d5) (\<lambda>d6.
     Inr (d6, response)))))))))))))"

definition reject_admin_access_request ::
  "admin_env \<Rightarrow> str \<Rightarrow> str \<Rightarrow> admin_session_context \<Rightarrow> db
    \<Rightarrow> (http_error, db \<times> admin_access_request_response) outcome" where
  "reject_admin_access_request en request_id decision_reason sc d =
     bindE (as_system_admin sc) (\<lambda>_.
     bindE (some_or (get_admin_access_request d request_id)
       (raise_not_found ''Admin access request does not exist.'')) (\<lambda>r.
     let now = en_clock en 1 in
     bindE (lift_error (\<lambda>e. if e = Integrity_Error then Unhandled e
         else raise_conflict ''Admin access request has already been decided.'')
       (reject_admin_access_request_row d r (acting sc) now decision_reason)) (\<lambda>(d1, r').
     let response = admin_access_request_response_of d1 r' in
     bindE (audit en 1 ''admin_access_request.rejected'' (acting sc) None ''admin_access_request'' (aa_request_id r')
       None (Some (admin_access_request_audit_state en response)) now d1) (\<lambda>d2.
     Inr (d2, response)))))"

section \<open>Administrators\<close>

definition grant_roles :: "admin_session_context \<Rightarrow> str \<Rightarrow> timestamp \<Rightarrow> str list \<Rightarrow> db \<Rightarrow> (repo_error, db) outcome" where
  "grant_roles sc user_id now roles d =
     foldE (\<lambda>role d. bindE (ensure_admin_user_role d \<lparr>ar_user_id = user_id, ar_role = role,
       ar_assigned_by = acting sc, ar_assigned_at = now\<rparr>) (\<lambda>(d', _). Inr d')) roles d"

definition revoke_roles :: "str \<Rightarrow> str list \<Rightarrow> db \<Rightarrow> (repo_error, db) outcome" where
  "revoke_roles user_id roles d =
     foldE (\<lambda>role d. bindE (delete_admin_user_role_by_key d user_id role) (\<lambda>(d', _). Inr d')) roles d"

text \<open>One audit log per role, with consecutive identifiers from \<open>k\<close> on.\<close>

definition audit_roles ::
  "admin_env \<Rightarrow> nat \<Rightarrow> string \<Rightarrow> str \<Rightarrow> str \<Rightarrow> (str \<Rightarrow> (str \<times> json) list option) \<Rightarrow> (str \<Rightarrow> (str \<times> json) list option)
    \<Rightarrow> timestamp \<Rightarrow> str list \<Rightarrow> db \<Rightarrow> (http_error, db) outcome" where
  "audit_roles en k event_type actor_id user_id before_state after_state now roles d =
     foldE (\<lambda>(i, role). audit en (k + i) event_type actor_id None ''admin_user'' user_id (before_state role)
       (after_state role) now) (enumerate 0 roles) d"

definition disabled_admin_password_hash :: str where
  "disabled_admin_password_hash = lit ''disabled-password:not-set''"

record managed_admin_user_create =
  mc_user_id :: "str option"
  mc_organization_user_id :: str
  mc_email :: str
  mc_display_name :: str
  mc_status :: str
  mc_global_roles :: "str list"

definition create_managed_admin_user ::
  "admin_env \<Rightarrow> managed_admin_user_create \<Rightarrow> admin_session_context \<Rightarrow> db
    \<Rightarrow> (http_error, db \<times> managed_admin_user_response) outcome" where
  "create_managed_admin_user en request sc d =
     bindE (as_system_admin sc) (\<lambda>_.
     bindE (require_active_organization_user_for_admin_access d (mc_organization_user_id request)) (\<lambda>org.
     bindE (require (get_admin_user_by_organization_user_id d (ou_id org) = None)
       (raise_conflict ''Organization user already has an Admin account.'')) (\<lambda>_.
     bindE (unhandled (get_admin_user_by_email d (mc_email request))) (\<lambda>found.
     bindE (require (found = None) (raise_conflict ''Admin user already exists.'')) (\<lambda>_.
     let now = en_clock en 1; desired = sorted_list_of_set (set (mc_global_roles request)) in
     bindE (except_integrity (raise_conflict ''Admin user already exists.'')
       (bindE (create_admin_user d \<lparr>au_user_id = or_default (mc_user_id request) (lit ''admin_'' @ en_uuid_hex en 0),
            au_email = mc_email request, au_email_normalized = [], au_display_name = mc_display_name request,
            au_password_hash = disabled_admin_password_hash,
            au_admin_access_reason = lit ''Granted managed Admin UI access by system administrator.'',
            au_status = mc_status request, au_created_at = now, au_updated_at = now, au_last_login_at = None,
            au_organization_user_id = Some (ou_id org)\<rparr>) (\<lambda>(d1, user).
        bindE (grant_roles sc (au_user_id user) now desired d1) (\<lambda>d2. Inr (d2, user))))) (\<lambda>(d2, user).
     bindE (managed_admin_user_response_of en d2 user) (\<lambda>response.
     bindE (audit en 0 ''admin_user.created'' (acting sc) None ''admin_user'' (au_user_id user) None
       (Some (managed_admin_user_audit_state en response)) now d2) (\<lambda>d3.
     bindE (audit_roles en 1 ''admin_user.global_role_granted'' (acting sc) (au_user_id user) (\<lambda>_. None)
       (\<lambda>role. Some (role_state (au_user_id user) role)) now desired d3) (\<lambda>d4.
     Inr (d4, response))))))))))"

record managed_admin_user_patch =
  mp_email :: "str option"
  mp_display_name :: "str option"
  mp_status :: "str option"
  mp_global_roles :: "str list option"

text \<open>The holder of the role \<open>system_admin\<close> that the join with the users finds.\<close>

definition joined_system_admin_user_id :: "db \<Rightarrow> str option" where
  "joined_system_admin_user_id d = map_option ar_user_id
     (first_row (\<lambda>r. ar_role r = lit ''system_admin'' \<and> get_admin_user d (ar_user_id r) \<noteq> None) (db_admin_user_roles d))"

definition patch_checks ::
  "db \<Rightarrow> str \<Rightarrow> managed_admin_user_patch \<Rightarrow> admin_user \<Rightarrow> str set \<Rightarrow> str set \<Rightarrow> str set \<Rightarrow> (http_error, unit) outcome" where
  "patch_checks d actor_id request u current_roles roles_to_grant roles_to_revoke =
     bindE (if mp_status request = Some (lit ''active'')
       then require_active_linked_organization_user_for_admin_status d u else Inr ()) (\<lambda>_.
     bindE (if mp_status request = Some (lit ''disabled'') \<and> au_status u = lit ''active''
       then require_not_self_last_system_admin d actor_id u current_roles else Inr ()) (\<lambda>_.
     bindE (if lit ''system_admin'' \<in> roles_to_grant \<and> lit ''system_admin'' \<notin> current_roles
       then require (joined_system_admin_user_id d = None \<or> joined_system_admin_user_id d = Some (au_user_id u))
         (raise_conflict ''system_admin already exists. Use system_admin transfer.'')
       else Inr ()) (\<lambda>_.
     if lit ''system_admin'' \<in> roles_to_revoke
     then require_not_self_last_system_admin d actor_id u current_roles else Inr ())))"

definition patch_audits ::
  "admin_env \<Rightarrow> str \<Rightarrow> managed_admin_user_response \<Rightarrow> managed_admin_user_response \<Rightarrow> str list \<Rightarrow> str list
    \<Rightarrow> timestamp \<Rightarrow> db \<Rightarrow> (http_error, db) outcome" where
  "patch_audits en actor_id old new granted revoked now d =
     (let user_id = mu_user_id new;
          old_state = Some (managed_admin_user_audit_state en old);
          new_state = Some (managed_admin_user_audit_state en new) in
      bindE (if mu_status old \<noteq> mu_status new
        then audit en 0 (if mu_status new = lit ''active'' then ''admin_user.activated'' else ''admin_user.disabled'')
          actor_id None ''admin_user'' user_id old_state new_state now d
        else Inr d) (\<lambda>d1.
      bindE (if mu_email old \<noteq> mu_email new \<or> mu_display_name old \<noteq> mu_display_name new
        then audit en 1 ''admin_user.updated'' actor_id None ''admin_user'' user_id old_state new_state now d1
        else Inr d1) (\<lambda>d2.
      bindE (audit_roles en 2 ''admin_user.global_role_granted'' actor_id user_id (\<lambda>role. Some (role_state user_id role))
        (\<lambda>role. Some (role_state user_id role)) now granted d2) (\<lambda>d3.
      audit_roles en (2 + length granted) ''admin_user.global_role_revoked'' actor_id user_id
        (\<lambda>role. Some (role_state user_id role)) (\<lambda>_. None) now revoked d3))))"

definition patch_managed_admin_user ::
  "admin_env \<Rightarrow> str \<Rightarrow> managed_admin_user_patch \<Rightarrow> admin_session_context \<Rightarrow> db
    \<Rightarrow> (http_error, db \<times> managed_admin_user_response) outcome" where
  "patch_managed_admin_user en user_id request sc d =
     bindE (as_system_admin sc) (\<lambda>_.
     bindE (some_or (get_admin_user d user_id) (raise_not_found ''Admin user does not exist.'')) (\<lambda>u.
     let current_roles = roles_of en d (au_user_id u); now = en_clock en 1;
         roles_to_grant = (case mp_global_roles request of None \<Rightarrow> {} | Some rs \<Rightarrow> set rs - current_roles);
         roles_to_revoke = (case mp_global_roles request of None \<Rightarrow> {} | Some rs \<Rightarrow> current_roles - set rs) in
     bindE (managed_admin_user_response_of en d u) (\<lambda>old.
     bindE (patch_checks d (acting sc) request u current_roles roles_to_grant roles_to_revoke) (\<lambda>_.
     bindE (if mp_email request = None \<and> mp_display_name request = None \<and> mp_status request = None then Inr (d, u)
       else except_integrity (raise_conflict ''Admin user already exists.'')
         (update_admin_user d u \<lparr>ch_email = mp_email request, ch_display_name = mp_display_name request,
            ch_status = mp_status request, ch_updated_at = Some now\<rparr>)) (\<lambda>(d1, u1).
     bindE (unhandled (grant_roles sc (au_user_id u1) now (sorted_list_of_set roles_to_grant) d1)) (\<lambda>d2.
     bindE (unhandled (revoke_roles (au_user_id u1) (sorted_list_of_set roles_to_revoke) d2)) (\<lambda>d3.
     bindE (managed_admin_user_response_of en d3 u1) (\<lambda>new.
     bindE (patch_audits en (acting sc) old new (sorted_list_of_set roles_to_grant)
       (sorted_list_of_set roles_to_revoke) now d3) (\<lambda>d4.
     Inr (d4, new))))))))))"

definition transfer_system_admin ::
  "admin_env \<Rightarrow> str \<Rightarrow> str \<Rightarrow> str \<Rightarrow> admin_session_context \<Rightarrow> db
    \<Rightarrow> (http_error, db \<times> managed_admin_user_response) outcome" where
  "transfer_system_admin en from_id to_id reason sc d =
     bindE (as_system_admin sc) (\<lambda>_.
     bindE (require (acting sc = from_id) (raise_conflict ''Only the current system_admin can transfer ownership.'')) (\<lambda>_.
     bindE (require (from_id \<noteq> to_id)
       (raise_conflict ''system_admin transfer requires different source and target users.'')) (\<lambda>_.
     bindE (some_or (get_admin_user d from_id) (raise_not_found ''Source Admin user does not exist.'')) (\<lambda>source.
     bindE (some_or (get_admin_user d to_id) (raise_not_found ''Target Admin user does not exist.'')) (\<lambda>target.
     bindE (require (au_status target = lit ''active'') (raise_conflict ''Target Admin user must be active.'')) (\<lambda>_.
     bindE (require_active_linked_organization_user_for_admin_status d target) (\<lambda>_.
     bindE (require (lit ''system_admin'' \<in> roles_of en d (au_user_id source))
       (raise_conflict ''Source Admin user must have system_admin.'')) (\<lambda>_.
     bindE (require (lit ''application_admin'' \<in> roles_of en d (au_user_id target))
       (raise_conflict ''Target Admin user must have application_admin.'')) (\<lambda>_.
     bindE (managed_admin_user_response_of en d source) (\<lambda>source_before.
     bindE (managed_admin_user_response_of en d target) (\<lambda>target_before.
     let now = en_clock en 1 in
     bindE (unhandled (revoke_roles (au_user_id source) [lit ''system_admin''] d)) (\<lambda>d1.
     bindE (unhandled (grant_roles sc (au_user_id source) now [lit ''application_admin''] d1)) (\<lambda>d2.
     bindE (unhandled (grant_roles sc (au_user_id target) now [lit ''system_admin''] d2)) (\<lambda>d3.
     bindE (unhandled (revoke_roles (au_user_id target) [lit ''application_admin''] d3)) (\<lambda>d4.
     bindE (managed_admin_user_response_of en d4 source) (\<lambda>source_after.
     bindE (managed_admin_user_response_of en d4 target) (\<lambda>target_after.
     bindE (audit en 0 ''admin_user.system_admin_transferred'' (acting sc) None ''admin_user'' (au_user_id target)
       (Some [(lit ''from_admin_user'', JObj (managed_admin_user_audit_state en source_before)),
              (lit ''to_admin_user'', JObj (managed_admin_user_audit_state en target_before))])
       (Some [(lit ''from_admin_user'', JObj (managed_admin_user_audit_state en source_after)),
              (lit ''to_admin_user'', JObj (managed_admin_user_audit_state en target_after)),
              (lit ''reason'', JStr reason)]) now d4) (\<lambda>d5.
     Inr (d5, target_after)))))))))))))))))))"

section \<open>Members of a service\<close>

record service_role_response =
  vr_service :: str
  vr_user :: str
  vr_role :: str
  vr_by :: str
  vr_when :: timestamp

definition service_role_grant_response :: "user_service_role \<Rightarrow> service_role_response" where
  "service_role_grant_response r = \<lparr>vr_service = ur_service_id r, vr_user = ur_user_id r, vr_role = ur_role r,
     vr_by = ur_assigned_by r, vr_when = ur_assigned_at r\<rparr>"

definition service_role_revoke_response :: "user_service_role \<Rightarrow> str \<Rightarrow> timestamp \<Rightarrow> service_role_response" where
  "service_role_revoke_response r revoked_by revoked_at = \<lparr>vr_service = ur_service_id r, vr_user = ur_user_id r,
     vr_role = ur_role r, vr_by = revoked_by, vr_when = revoked_at\<rparr>"

definition service_role_state :: "admin_env \<Rightarrow> string \<Rightarrow> string \<Rightarrow> service_role_response \<Rightarrow> (str \<times> json) list" where
  "service_role_state en by_name at_name r =
     [(lit ''service_id'', JStr (vr_service r)), (lit ''user_id'', JStr (vr_user r)), (lit ''role'', JStr (vr_role r)),
      (lit by_name, JStr (vr_by r)), (lit at_name, JStr (en_dump_time en (vr_when r)))]"

definition member_target :: "str \<Rightarrow> str \<Rightarrow> str \<Rightarrow> str" where
  "member_target service_id user_id role = service_id @ lit '':'' @ user_id @ lit '':'' @ role"

definition grant_service_member_role ::
  "admin_env \<Rightarrow> str \<Rightarrow> str \<Rightarrow> str \<Rightarrow> admin_session_context \<Rightarrow> db \<Rightarrow> (http_error, db \<times> service_role_response) outcome" where
  "grant_service_member_role en service_id user_id role sc d =
     bindE (require_service_membership_management_access (admin_context_from_session_record sc) service_id) (\<lambda>_.
     bindE (require (get_service d service_id \<noteq> None) (raise_not_found ''Service does not exist.'')) (\<lambda>_.
     bindE (some_or (get_admin_user d user_id) (raise_not_found ''Admin user does not exist.'')) (\<lambda>u.
     bindE (require (au_status u = lit ''active'') (raise_bad_request ''Admin user is not active.'')) (\<lambda>_.
     let now = en_clock en 1 in
     bindE (unhandled (ensure_user_service_role_with_created d \<lparr>ur_user_id = user_id, ur_service_id = service_id,
       ur_role = role, ur_assigned_by = acting sc, ur_assigned_at = now\<rparr>)) (\<lambda>(d1, row, created).
     let response = service_role_grant_response row in
     bindE (if created
       then audit en 0 ''service_membership.role_granted'' (acting sc) (Some service_id) ''user_service_role''
         (member_target service_id user_id role) None
         (Some (service_role_state en ''assigned_by'' ''assigned_at'' response)) now d1
       else Inr d1) (\<lambda>d2.
     Inr (d2, response)))))))"

definition revoke_service_member_role ::
  "admin_env \<Rightarrow> str \<Rightarrow> str \<Rightarrow> str \<Rightarrow> admin_session_context \<Rightarrow> db \<Rightarrow> (http_error, db \<times> service_role_response) outcome" where
  "revoke_service_member_role en service_id user_id role sc d =
     bindE (require_service_membership_management_access (admin_context_from_session_record sc) service_id) (\<lambda>_.
     bindE (require (get_service d service_id \<noteq> None) (raise_not_found ''Service does not exist.'')) (\<lambda>_.
     bindE (unhandled (delete_user_service_role_by_key d user_id service_id role)) (\<lambda>(d1, found).
     bindE (some_or found (raise_not_found ''Service role does not exist.'')) (\<lambda>row.
     let now = en_clock en 1; response = service_role_revoke_response row (acting sc) now in
     bindE (audit en 0 ''service_membership.role_revoked'' (acting sc) (Some service_id) ''user_service_role''
       (member_target service_id user_id role)
       (Some (service_role_state en ''assigned_by'' ''assigned_at'' (service_role_grant_response row)))
       (Some (service_role_state en ''revoked_by'' ''revoked_at'' response)) now d1) (\<lambda>d2.
     Inr (d2, response))))))"

end
