(* ===== verification/Access_Control.thy ===== *)
theory Access_Control
  imports Access_Handlers
begin

text \<open>
  The administration of access as a machine: requests to the endpoints, each with what the process reads
  from outside, change the database. Its invariant says that administrators, sessions and requests are
  identified by their keys, that at most one role \<open>system_admin\<close> exists and that it belongs to an
  administrator; and that a decided access request has a decider and no password hash.
\<close>

section \<open>The machine\<close>

datatype access_command =
    Create_Department str str
  | Patch_Department str department_patch
  | Deactivate_Department str
  | Create_Organization_User str str str
  | Patch_Organization_User str organization_user_patch
  | Deactivate_Organization_User str
  | Approve_Access str str
  | Reject_Access str str
  | Create_Managed managed_admin_user_create
  | Patch_Managed str managed_admin_user_patch
  | Transfer str str str
  | Grant_Member str str str
  | Revoke_Member str str str
  | Me

definition drop_response :: "('e, db \<times> 'r) outcome \<Rightarrow> ('e, db \<times> unit) outcome" where
  "drop_response m = bindE m (\<lambda>(d, _). Inr (d, ()))"

fun command_handler ::
  "admin_env \<Rightarrow> access_command \<Rightarrow> admin_session_context \<Rightarrow> db \<Rightarrow> (http_error, db \<times> unit) outcome" where
  "command_handler en (Create_Department n name) sc d = drop_response (create_department en n name sc d)"
| "command_handler en (Patch_Department i p) sc d = drop_response (patch_department en i p sc d)"
| "command_handler en (Deactivate_Department i) sc d = drop_response (deactivate_department en i sc d)"
| "command_handler en (Create_Organization_User n name p) sc d = drop_response (create_organization_user en n name p sc d)"
| "command_handler en (Patch_Organization_User i p) sc d = drop_response (patch_organization_user en i p sc d)"
| "command_handler en (Deactivate_Organization_User i) sc d = drop_response (deactivate_organization_user en i sc d)"
| "command_handler en (Approve_Access i why) sc d = drop_response (approve_admin_access_request en i why sc d)"
| "command_handler en (Reject_Access i why) sc d = drop_response (reject_admin_access_request en i why sc d)"
| "command_handler en (Create_Managed b) sc d = drop_response (create_managed_admin_user en b sc d)"
| "command_handler en (Patch_Managed i p) sc d = drop_response (patch_managed_admin_user en i p sc d)"
| "command_handler en (Transfer a b why) sc d = drop_response (transfer_system_admin en a b why sc d)"
| "command_handler en (Grant_Member s u r) sc d = drop_response (grant_service_member_role en s u r sc d)"
| "command_handler en (Revoke_Member s u r) sc d = drop_response (revoke_service_member_role en s u r sc d)"
| "command_handler en Me sc d = drop_response (me sc d)"

datatype access_event =
    Startup
  | Bootstrap bootstrap_request "str option"
  | Login str str
  | Logout "str option"
  | Request_Access access_request_body
  | Command "str option" access_command

fun access_step :: "db \<Rightarrow> admin_env \<times> access_event \<Rightarrow> db" where
  "access_step d (en, Startup) = committed d (configure_startup_system_admin en d)"
| "access_step d (en, Bootstrap b token) = committed d (bootstrap_admin en d b token)"
| "access_step d (en, Login email password) = committed d (login en d email password)"
| "access_step d (en, Logout cookie) = committed d (logout en d cookie)"
| "access_step d (en, Request_Access b) = committed d (create_admin_access_request en b d)"
| "access_step d (en, Command cookie c) = fst (with_session en d cookie (command_handler en c))"

section \<open>The invariant\<close>

definition is_system_admin_role :: "admin_user_role \<Rightarrow> bool" where
  "is_system_admin_role r \<longleftrightarrow> ar_role r = lit ''system_admin''"

text \<open>Who holds the role.\<close>

definition system_admins :: "db \<Rightarrow> str list" where
  "system_admins d = map ar_user_id (filter is_system_admin_role (db_admin_user_roles d))"

definition decided_request_ok :: "admin_access_request \<Rightarrow> bool" where
  "decided_request_ok r \<longleftrightarrow> access_request_row_ok r \<and> (aa_status r \<noteq> lit ''pending'' \<longrightarrow> aa_decided_by r \<noteq> None)"

definition access_inv :: "db \<Rightarrow> bool" where
  "access_inv d \<longleftrightarrow>
     distinct (map au_user_id (db_admin_users d))
     \<and> length (system_admins d) \<le> 1 \<and> set (system_admins d) \<subseteq> au_user_id ` set (db_admin_users d)
     \<and> distinct (map aa_request_id (db_access_requests d)) \<and> list_all decided_request_ok (db_access_requests d)"

lemma access_invD:
  assumes "access_inv d"
  shows "distinct (map au_user_id (db_admin_users d))"
    and "length (system_admins d) \<le> 1" and "set (system_admins d) \<subseteq> au_user_id ` set (db_admin_users d)"
    and "distinct (map aa_request_id (db_access_requests d))" and "list_all decided_request_ok (db_access_requests d)"
  using assms by (simp_all add: access_inv_def)

text \<open>It looks at three tables only.\<close>

lemma access_inv_cong:
  "db_admin_users d' = db_admin_users d \<Longrightarrow> db_admin_user_roles d' = db_admin_user_roles d
    \<Longrightarrow> db_access_requests d' = db_access_requests d \<Longrightarrow> access_inv d' = access_inv d"
  by (simp add: access_inv_def system_admins_def)

section \<open>What the operations of the repository change\<close>

named_theorems access_ops \<open>operations of the repository when they return\<close>

lemma add_row_Inr [raise_simps]:
  "add_row ok conflict row rows = Inr rows' \<longleftrightarrow> ok row \<and> (\<forall>q \<in> set rows. \<not> conflict row q) \<and> rows' = rows @ [row]"
  by (auto simp: add_row_def list_ex_iff)

lemma change_row_Inr [raise_simps]:
  "change_row ok conflict key row rows = Inr rows' \<longleftrightarrow>
     ok row \<and> (\<forall>q \<in> set rows. key q = key row \<or> \<not> conflict row q) \<and> rows' = put_row key row rows"
  by (auto simp: change_row_def list_ex_iff)

lemma except_Inr [raise_simps]:
  "except_integrity h m = Inr a \<longleftrightarrow> m = Inr a"
  "except_errors h h' m = Inr a \<longleftrightarrow> m = Inr a"
  "unhandled m = Inr a \<longleftrightarrow> m = Inr a"
  by (simp_all add: except_integrity_def except_errors_def unhandled_def raise_simps)

lemma create_admin_user_Inr [access_ops]:
  "create_admin_user d r = Inr (d', r') \<Longrightarrow> d' = d\<lparr>db_admin_users := db_admin_users d @ [r']\<rparr>
    \<and> au_user_id r' = au_user_id r \<and> au_user_id r \<notin> au_user_id ` set (db_admin_users d)
    \<and> au_status r' = au_status r \<and> au_organization_user_id r' = au_organization_user_id r"
  by (auto simp: create_admin_user_def raise_simps Let_def admin_user_conflict_def)

lemma put_admin_user_Inr [access_ops]:
  "put_admin_user d r = Inr (d', r') \<Longrightarrow> d' = d\<lparr>db_admin_users := put_row au_user_id r (db_admin_users d)\<rparr> \<and> r' = r"
  by (auto simp: put_admin_user_def raise_simps)

lemma update_admin_user_Inr [access_ops]:
  "update_admin_user d r ch = Inr (d', r') \<Longrightarrow> d' = d\<lparr>db_admin_users := put_row au_user_id r' (db_admin_users d)\<rparr>
    \<and> au_user_id r' = au_user_id r \<and> au_organization_user_id r' = au_organization_user_id r
    \<and> au_status r' = (case ch_status ch of None \<Rightarrow> au_status r | Some s \<Rightarrow> s)"
  by (auto simp: update_admin_user_def raise_simps dest!: put_admin_user_Inr split: option.splits)

lemma update_admin_user_login_Inr [access_ops]:
  "update_admin_user_login d r t = Inr (d', r') \<Longrightarrow> d' = d\<lparr>db_admin_users := put_row au_user_id r' (db_admin_users d)\<rparr>
    \<and> au_user_id r' = au_user_id r \<and> au_organization_user_id r' = au_organization_user_id r \<and> au_status r' = au_status r"
  unfolding update_admin_user_login_def by (drule put_admin_user_Inr) simp

lemma update_admin_user_password_Inr [access_ops]:
  "update_admin_user_password d r h t = Inr (d', r') \<Longrightarrow> d' = d\<lparr>db_admin_users := put_row au_user_id r' (db_admin_users d)\<rparr>
    \<and> au_user_id r' = au_user_id r \<and> au_organization_user_id r' = au_organization_user_id r \<and> au_status r' = au_status r"
  by (auto simp: update_admin_user_password_def raise_simps dest!: put_admin_user_Inr)

lemma assign_admin_user_role_Inr [access_ops]:
  "assign_admin_user_role d r = Inr (d', r') \<Longrightarrow> d' = d\<lparr>db_admin_user_roles := db_admin_user_roles d @ [r]\<rparr>
    \<and> (is_system_admin_role r \<longrightarrow> system_admins d = [])"
  by (auto simp: assign_admin_user_role_def raise_simps admin_user_role_conflict_def is_system_admin_role_def
      system_admins_def filter_empty_conv)

lemma ensure_admin_user_role_Inr [access_ops]:
  "ensure_admin_user_role d r = Inr (d', r') \<Longrightarrow>
    (d' = d \<and> (\<exists>q \<in> set (db_admin_user_roles d). ar_user_id q = ar_user_id r \<and> ar_role q = ar_role r))
    \<or> (d' = d\<lparr>db_admin_user_roles := db_admin_user_roles d @ [r]\<rparr> \<and> (is_system_admin_role r \<longrightarrow> system_admins d = []))"
  by (auto simp: ensure_admin_user_role_def raise_simps get_admin_user_role_def split: option.splits
      dest!: assign_admin_user_role_Inr first_row_Some)

lemma delete_admin_user_role_Inr [access_ops]:
  "delete_admin_user_role_by_key d u role = Inr (d', x) \<Longrightarrow> d' = d\<lparr>db_admin_user_roles :=
     filter (\<lambda>q. \<not> (ar_user_id q = u \<and> ar_role q = role)) (db_admin_user_roles d)\<rparr>"
proof (cases "get_admin_user_role d u role")
  case None
  then have "filter (\<lambda>q. \<not> (ar_user_id q = u \<and> ar_role q = role)) (db_admin_user_roles d) = db_admin_user_roles d"
    by (simp add: get_admin_user_role_def first_row_None)
  then show "delete_admin_user_role_by_key d u role = Inr (d', x) \<Longrightarrow> ?thesis"
    using None by (simp add: delete_admin_user_role_by_key_def raise_simps)
next
  case (Some r)
  then have "ar_user_id r = u \<and> ar_role r = role"
    unfolding get_admin_user_role_def using first_row_Some by fast
  then show "delete_admin_user_role_by_key d u role = Inr (d', x) \<Longrightarrow> ?thesis"
    using Some by (simp add: delete_admin_user_role_by_key_def raise_simps)
qed

lemma organization_ops [access_ops]:
  "create_department_row d p = Inr (d', p') \<Longrightarrow> \<exists>x. d' = d\<lparr>db_departments := x\<rparr>"
  "update_department d p f = Inr (d', p') \<Longrightarrow> \<exists>x. d' = d\<lparr>db_departments := x\<rparr>"
  "create_organization_user_row d ou = Inr (d', ou') \<Longrightarrow>
     d' = d\<lparr>db_organization_users := db_organization_users d @ [ou]\<rparr> \<and> ou' = ou"
  "update_organization_user d ou g = Inr (d', ou') \<Longrightarrow> \<exists>x. d' = d\<lparr>db_organization_users := x\<rparr>"
  by (auto simp: create_department_row_def update_department_def create_organization_user_row_def
      update_organization_user_def raise_simps)

lemma service_role_ops [access_ops]:
  "ensure_user_service_role_with_created d r = Inr (d', r', c) \<Longrightarrow> \<exists>x. d' = d\<lparr>db_user_service_roles := x\<rparr>"
  "delete_user_service_role_by_key d u s role = Inr (d', q) \<Longrightarrow> \<exists>x. d' = d\<lparr>db_user_service_roles := x\<rparr>"
proof -
  have same: "\<exists>x. d = d\<lparr>db_user_service_roles := x\<rparr>" by (rule exI [of _ "db_user_service_roles d"]) simp
  show "ensure_user_service_role_with_created d r = Inr (d', r', c) \<Longrightarrow> \<exists>x. d' = d\<lparr>db_user_service_roles := x\<rparr>"
    using same by (auto simp: ensure_user_service_role_with_created_def assign_user_service_role_def raise_simps
        split: option.splits sum.splits repo_error.splits)
  show "delete_user_service_role_by_key d u s role = Inr (d', q) \<Longrightarrow> \<exists>x. d' = d\<lparr>db_user_service_roles := x\<rparr>"
    using same by (auto simp: delete_user_service_role_by_key_def delete_user_service_role_def raise_simps
        split: option.splits)
qed

lemma request_ops [access_ops]:
  "create_admin_access_request_row d r = Inr (d', r') \<Longrightarrow> d' = d\<lparr>db_access_requests := db_access_requests d @ [r']\<rparr>
    \<and> aa_request_id r' = aa_request_id r \<and> aa_status r' = aa_status r \<and> access_request_row_ok r'
    \<and> aa_request_id r \<notin> aa_request_id ` set (db_access_requests d)"
  "approve_admin_access_request_row d r who now why u a = Inr (d', r') \<Longrightarrow>
    d' = d\<lparr>db_access_requests := put_row aa_request_id r' (db_access_requests d)\<rparr> \<and> aa_request_id r' = aa_request_id r
    \<and> aa_status r = lit ''pending'' \<and> decided_request_ok r'"
  "reject_admin_access_request_row d r who now reason = Inr (d', r') \<Longrightarrow>
    d' = d\<lparr>db_access_requests := put_row aa_request_id r' (db_access_requests d)\<rparr> \<and> aa_request_id r' = aa_request_id r
    \<and> aa_status r = lit ''pending'' \<and> decided_request_ok r'"
  by (auto simp: create_admin_access_request_row_def approve_admin_access_request_row_def decided_request_ok_def
      reject_admin_access_request_row_def put_access_request_def require_pending_admin_access_request_def
      access_request_conflict_def raise_simps Let_def)

lemma audit_Inr [access_ops]:
  "audit en k e a s tt ti b aft now d = Inr d' \<Longrightarrow> \<exists>x. d' = d\<lparr>db_audit_logs := x\<rparr>"
  by (auto simp: audit_def insert_audit_log_def raise_simps)

lemma session_ops [access_ops]:
  "create_admin_session d s = Inr (d', s') \<Longrightarrow> \<exists>x. d' = d\<lparr>db_admin_sessions := x\<rparr>"
  by (auto simp: create_admin_session_def raise_simps)

section \<open>Frames\<close>

text \<open>The tables of the invariant, and the organization, are unchanged.\<close>

definition same_access :: "db \<Rightarrow> db \<Rightarrow> bool" where
  "same_access d d' \<longleftrightarrow> db_admin_users d' = db_admin_users d \<and> db_admin_user_roles d' = db_admin_user_roles d
     \<and> db_access_requests d' = db_access_requests d"

definition same_people :: "db \<Rightarrow> db \<Rightarrow> bool" where
  "same_people d d' \<longleftrightarrow> db_admin_users d' = db_admin_users d \<and> db_organization_users d' = db_organization_users d
     \<and> db_access_requests d' = db_access_requests d"

lemma same_refl [simp]: "same_access d d" "same_people d d"
  by (simp_all add: same_access_def same_people_def)

lemma same_trans [trans]:
  "same_access d d1 \<Longrightarrow> same_access d1 d2 \<Longrightarrow> same_access d d2"
  "same_people d d1 \<Longrightarrow> same_people d1 d2 \<Longrightarrow> same_people d d2"
  by (simp_all add: same_access_def same_people_def)

lemma same_access_inv: "same_access d d' \<Longrightarrow> access_inv d' = access_inv d \<and> system_admins d' = system_admins d"
  by (simp add: same_access_def access_inv_def system_admins_def)

text \<open>A right added or taken away: what happens to the platform administrators.\<close>

definition admins_after :: "str \<Rightarrow> str list \<Rightarrow> str list \<Rightarrow> bool" where
  "admins_after u a b \<longleftrightarrow> b = a \<or> (a = [] \<and> b = [u])"

lemma ensure_role_effect:
  assumes "ensure_admin_user_role d r = Inr (d', r')"
  shows "same_people d d' \<and> admins_after (ar_user_id r) (system_admins d) (system_admins d')
    \<and> (ar_role r = lit ''system_admin'' \<longrightarrow> system_admins d' \<noteq> [])"
  using ensure_admin_user_role_Inr [OF assms]
  by (auto simp: same_people_def admins_after_def system_admins_def is_system_admin_role_def filter_empty_conv
      split: if_splits)

lemma grant_roles_effect:
  assumes "grant_roles sc u now rs d = Inr d'"
  shows "same_people d d' \<and> admins_after u (system_admins d) (system_admins d')
    \<and> (lit ''system_admin'' \<notin> set rs \<longrightarrow> system_admins d' = system_admins d)"
  using assms unfolding grant_roles_def
proof (rule foldE_keeps)
  fix x s s'
  assume x: "x \<in> set rs" and step: "bindE (ensure_admin_user_role s \<lparr>ar_user_id = u, ar_role = x, ar_assigned_by = acting sc,
      ar_assigned_at = now\<rparr>) (\<lambda>(d', _). Inr d') = Inr s'"
    and P: "same_people d s \<and> admins_after u (system_admins d) (system_admins s)
      \<and> (lit ''system_admin'' \<notin> set rs \<longrightarrow> system_admins s = system_admins d)"
  obtain r' where e: "ensure_admin_user_role s \<lparr>ar_user_id = u, ar_role = x, ar_assigned_by = acting sc, ar_assigned_at = now\<rparr>
      = Inr (s', r')" using step by (auto simp: raise_simps)
  have "x \<noteq> lit ''system_admin'' \<longrightarrow> system_admins s' = system_admins s"
    using ensure_admin_user_role_Inr [OF e] by (auto simp: system_admins_def is_system_admin_role_def)
  then show "same_people d s' \<and> admins_after u (system_admins d) (system_admins s')
      \<and> (lit ''system_admin'' \<notin> set rs \<longrightarrow> system_admins s' = system_admins d)"
    using ensure_role_effect [OF e] P x by (auto simp: admins_after_def intro: same_trans)
qed (simp add: admins_after_def)

lemma revoke_roles_effect:
  assumes "revoke_roles u rs d = Inr d'"
  shows "same_people d d'
    \<and> system_admins d' = (if lit ''system_admin'' \<in> set rs then filter (\<lambda>x. x \<noteq> u) (system_admins d) else system_admins d)"
  using assms unfolding revoke_roles_def
proof (induction rs arbitrary: d)
  case Nil
  then show ?case by simp
next
  case (Cons role rs)
  then obtain d1 x where d1: "delete_admin_user_role_by_key d u role = Inr (d1, x)"
    and rest: "foldE (\<lambda>role d. bindE (delete_admin_user_role_by_key d u role) (\<lambda>(d', _). Inr d')) rs d1 = Inr d'"
    by (auto simp: raise_simps)
  have "same_people d d1" and "system_admins d1 =
      (if role = lit ''system_admin'' then filter (\<lambda>x. x \<noteq> u) (system_admins d) else system_admins d)"
    using delete_admin_user_role_Inr [OF d1]
    by (auto simp: same_people_def system_admins_def is_system_admin_role_def filter_map comp_def conj_commute
        intro!: arg_cong [where f = "map ar_user_id"] filter_cong)
  then show ?case using Cons.IH [OF rest] by (auto intro: same_trans)
qed

lemma audit_same:
  "audit en k e a s tt ti b aft now d = Inr d' \<Longrightarrow> same_access d d' \<and> same_people d d'"
  by (auto simp: same_access_def same_people_def dest!: audit_Inr)

lemma audit_roles_same:
  "audit_roles en k e a u b aft now rs d = Inr d' \<Longrightarrow> same_access d d' \<and> same_people d d'"
  unfolding audit_roles_def
  by (rule foldE_keeps [where P = "\<lambda>x. same_access d x \<and> same_people d x"])
    (auto dest!: audit_same intro: same_trans split: prod.splits)

lemma patch_audits_same:
  "patch_audits en a old new g r now d = Inr d' \<Longrightarrow> same_access d d' \<and> same_people d d'"
  by (auto simp: patch_audits_def Let_def raise_simps dest!: audit_same audit_roles_same intro: same_trans split: if_splits)

text \<open>The invariant across a change of rights of a known administrator.\<close>

lemma access_inv_rights:
  assumes "access_inv d" and "same_people d d'" and "admins_after u (system_admins d) (system_admins d')"
    and "u \<in> au_user_id ` set (db_admin_users d)"
  shows "access_inv d'"
  using assms by (auto simp: access_inv_def same_people_def admins_after_def)

lemma put_row_key_set: "key ` set (put_row key row rows) = key ` set rows"
  using put_row_keys [of key row rows] by (metis list.set_map)

lemma access_inv_put_user:
  assumes "access_inv d"
  shows "access_inv (d\<lparr>db_admin_users := put_row au_user_id u (db_admin_users d)\<rparr>)"
  using assms by (simp add: access_inv_def system_admins_def put_row_key_set [of au_user_id])

lemma access_inv_add_user:
  assumes "access_inv d" and "create_admin_user d u = Inr (d', u')"
  shows "access_inv d' \<and> au_user_id u' \<in> au_user_id ` set (db_admin_users d') \<and> system_admins d' = system_admins d"
  using assms create_admin_user_Inr [OF assms(2)] by (auto simp: access_inv_def system_admins_def)

lemma access_inv_put_request:
  assumes "access_inv d" and "decided_request_ok r"
  shows "access_inv (d\<lparr>db_access_requests := put_row aa_request_id r (db_access_requests d)\<rparr>)"
  using assms list_all_put_row [of _ aa_request_id r "db_access_requests d" decided_request_ok]
  by (auto simp: access_inv_def system_admins_def list_all_iff)

section \<open>Sessions\<close>

text \<open>A context that describes an administrator of the database who may work now.\<close>

definition session_of :: "db \<Rightarrow> admin_session_context \<Rightarrow> bool" where
  "session_of d sc \<longleftrightarrow> get_admin_user d (au_user_id (sc_user sc)) = Some (sc_user sc)
     \<and> au_status (sc_user sc) = lit ''active'' \<and> link_usable d (sc_user sc)
     \<and> sc_global_roles sc = ar_role ` {r \<in> set (db_admin_user_roles d). ar_user_id r = au_user_id (sc_user sc)}
     \<and> set (sc_service_roles sc) = {r \<in> set (db_user_service_roles d). ur_user_id r = au_user_id (sc_user sc)}"

lemma link_usable_cong:
  "db_organization_users d' = db_organization_users d \<Longrightarrow> link_usable d' u = link_usable d u"
  by (simp add: link_usable_def linked_organization_user_def get_organization_user_def split: option.split)

lemma get_admin_user_in: "get_admin_user d i = Some u \<Longrightarrow> u \<in> set (db_admin_users d) \<and> au_user_id u = i"
  unfolding get_admin_user_def by (rule first_row_Some)

lemma session_context_Inr:
  assumes "session_context en d token = (d1, Inr sc)"
  shows "same_access d d1 \<and> same_people d d1 \<and> session_of d1 sc \<and> d1 = d\<lparr>db_admin_sessions := db_admin_sessions d1\<rparr>
    \<and> (\<exists>s \<in> set (db_admin_sessions d). as_token_hash s = token_digest en token \<and> as_revoked_at s = None
         \<and> en_clock en 0 < as_expires_at s \<and> as_user_id s = au_user_id (sc_user sc))
    \<and> sc_global_roles sc \<inter> set admin_login_roles \<noteq> {}"
proof -
  let ?h = "token_digest en token" and ?now = "en_clock en 0"
  obtain s where s: "first_row (session_usable d ?h ?now) (db_admin_sessions d) = Some s"
    and roles: "list_ex (\<lambda>r. r \<in> set (map ar_role (list_admin_user_roles (en_collate en) d (as_user_id s)))) admin_login_roles"
    and d1: "d1 = d\<lparr>db_admin_sessions := put_row as_session_id (s\<lparr>as_last_seen_at := Some ?now\<rparr>) (db_admin_sessions d)\<rparr>"
    and sc: "sc = \<lparr>sc_user = the (get_admin_user d (as_user_id s)), sc_admin_session = s\<lparr>as_last_seen_at := Some ?now\<rparr>,
      sc_global_roles = set (map ar_role (list_admin_user_roles (en_collate en) d (as_user_id s))),
      sc_service_roles = list_service_roles_for_user (en_collate en) d (as_user_id s)\<rparr>"
    using assms
    by (auto simp: session_context_def hash_admin_session_token_def get_active_admin_session_context_def Let_def
        split: if_splits option.splits)
  have mem: "s \<in> set (db_admin_sessions d)" and ok: "session_usable d ?h ?now s" using first_row_Some [OF s] by auto
  obtain u where u: "get_admin_user d (as_user_id s) = Some u" "au_status u = lit ''active''" "link_usable d u"
    using ok by (auto simp: session_usable_def split: option.splits)
  have id: "au_user_id u = as_user_id s" using get_admin_user_in [OF u(1)] by simp
  have same: "same_access d d1 \<and> same_people d d1" by (simp add: d1 same_access_def same_people_def)
  have "session_of d1 sc" unfolding session_of_def using u id
    by (auto simp: d1 sc get_admin_user_def list_admin_user_roles_def list_service_roles_for_user_def
        link_usable_def linked_organization_user_def get_organization_user_def)
  moreover have "sc_global_roles sc \<inter> set admin_login_roles \<noteq> {}" using roles by (auto simp: sc list_ex_iff)
  moreover have "as_user_id s = au_user_id (sc_user sc)" using u(1) id by (simp add: sc)
  ultimately show ?thesis using mem ok same by (auto simp: session_usable_def d1)
qed

lemma session_context_Inl: "session_context en d token = (d1, Inl e) \<Longrightarrow> d1 = d"
  by (auto simp: session_context_def hash_admin_session_token_def Let_def split: if_splits option.splits prod.splits)

lemma require_session_Inr:
  "require_admin_session_context en d cookie = (d1, Inr sc) \<Longrightarrow>
    \<exists>token. cookie = Some token \<and> \<not> blank token \<and> session_context en d token = (d1, Inr sc)"
  by (auto simp: require_admin_session_context_def split: option.splits if_splits)

lemma require_session_Inl: "require_admin_session_context en d cookie = (d1, Inl e) \<Longrightarrow> d1 = d"
  by (auto simp: require_admin_session_context_def split: option.splits if_splits dest: session_context_Inl)

text \<open>What a session gives: every step of a command starts from such a context.\<close>

lemma with_session_cases:
  obtains (refused) "fst (with_session en d cookie h) = d"
  | (failed) d1 sc where "same_access d d1" "same_people d d1" "session_of d1 sc"
      "fst (with_session en d cookie h) = d1"
  | (returned) d1 sc d2 r where "same_access d d1" "same_people d d1" "session_of d1 sc" "h sc d1 = Inr (d2, r)"
      "fst (with_session en d cookie h) = d2"
proof (cases "require_admin_session_context en d cookie")
  case (Pair d1 m)
  show ?thesis
  proof (cases m)
    case (Inl e)
    then show ?thesis using require_session_Inl Pair refused by (auto simp: with_session_def)
  next
    case (Inr sc)
    obtain token where t: "session_context en d token = (d1, Inr sc)"
      using require_session_Inr Pair Inr by blast
    show ?thesis
    proof (cases "h sc d1")
      case (Inl e)
      then show ?thesis using session_context_Inr [OF t] Pair Inr failed [of d1 sc] by (simp add: with_session_def)
    next
      case ret: (Inr p)
      then show ?thesis using session_context_Inr [OF t] Pair Inr returned [of d1 sc] by (cases p) (simp add: with_session_def)
    qed
  qed
qed

lemma acting_user [simp]: "acting sc = au_user_id (sc_user sc)"
  by (simp add: acting_def admin_context_from_session_record_def Let_def)

lemma as_system_admin_iff: "as_system_admin sc = Inr u \<longleftrightarrow> lit ''system_admin'' \<in> sc_global_roles sc"
  by (simp add: as_system_admin_def require_system_admin_def has_role_def admin_context_from_session_record_def
      Let_def raise_simps)

lemma system_admins_in: "x \<in> set (system_admins d) \<longleftrightarrow>
  (\<exists>r \<in> set (db_admin_user_roles d). ar_user_id r = x \<and> ar_role r = lit ''system_admin'')"
  by (auto simp: system_admins_def is_system_admin_role_def)

lemma roles_of_system_admin: "lit ''system_admin'' \<in> roles_of en d u \<longleftrightarrow> u \<in> set (system_admins d)"
  by (force simp: roles_of_def list_admin_user_roles_def system_admins_in)

text \<open>The platform administrator is alone.\<close>

lemma single_admin: "access_inv d \<Longrightarrow> x \<in> set (system_admins d) \<Longrightarrow> system_admins d = [x]"
  using access_invD(2) [of d] by (cases "system_admins d") auto

lemma acting_system_admin:
  assumes "access_inv d" and "session_of d sc" and "as_system_admin sc = Inr u"
  shows "system_admins d = [acting sc]"
proof -
  have "acting sc \<in> set (system_admins d)"
    using assms(2,3) by (force simp: session_of_def as_system_admin_iff system_admins_in)
  then show ?thesis by (rule single_admin [OF assms(1)])
qed

lemma eligible_at_most_one:
  assumes "access_inv d" and "count_login_eligible_admin_users_with_role d (lit ''system_admin'') = Inr n"
  shows "n \<le> 1"
proof -
  have "is_system_admin_role = (\<lambda>r. ar_role r = lit ''system_admin'')"
    by (simp add: fun_eq_iff is_system_admin_role_def)
  then have "n \<le> length (filter is_system_admin_role (db_admin_user_roles d))"
    using assms(2) by (auto simp: count_login_eligible_admin_users_with_role_def raise_simps
        simp flip: filter_filter)
  then show ?thesis using access_invD(2) [OF assms(1)] by (simp add: system_admins_def)
qed

lemma require_not_self_Inr:
  "access_inv d \<Longrightarrow> require_not_self_last_system_admin d actor u roles = Inr x
    \<Longrightarrow> au_user_id u \<noteq> actor \<or> lit ''system_admin'' \<notin> roles"
  using eligible_at_most_one [of d] by (auto simp: require_not_self_last_system_admin_def raise_simps split: if_splits)

section \<open>What the endpoints keep\<close>

text \<open>
  The invariant; a platform administrator, once there is one; and the decided access requests.
\<close>

definition keeps_access :: "db \<Rightarrow> db \<Rightarrow> bool" where
  "keeps_access d d' \<longleftrightarrow> access_inv d' \<and> (system_admins d \<noteq> [] \<longrightarrow> system_admins d' \<noteq> [])
     \<and> (\<forall>r \<in> set (db_access_requests d). aa_status r \<noteq> lit ''pending'' \<longrightarrow> r \<in> set (db_access_requests d'))"

lemma keeps_same: "access_inv d \<Longrightarrow> same_access d d' \<Longrightarrow> keeps_access d d'"
  using same_access_inv [of d d'] by (simp add: keeps_access_def same_access_def)

lemma keeps_trans: "keeps_access d d1 \<Longrightarrow> keeps_access d1 d2 \<Longrightarrow> keeps_access d d2"
  by (auto simp: keeps_access_def)

lemma keeps_rights:
  assumes "access_inv d" and "same_people d d'" and "admins_after u (system_admins d) (system_admins d')"
    and "u \<in> au_user_id ` set (db_admin_users d)"
  shows "keeps_access d d'"
  using assms access_inv_rights [OF assms] by (auto simp: keeps_access_def same_people_def admins_after_def)

lemma keeps_add_user:
  assumes "access_inv d" and "create_admin_user d u = Inr (d', u')"
  shows "keeps_access d d' \<and> au_user_id u' \<in> au_user_id ` set (db_admin_users d')"
  using access_inv_add_user [OF assms] create_admin_user_Inr [OF assms(2)] by (auto simp: keeps_access_def)

lemma keeps_put_user:
  "access_inv d \<Longrightarrow> d' = d\<lparr>db_admin_users := put_row au_user_id u (db_admin_users d)\<rparr> \<Longrightarrow> keeps_access d d'"
  using access_inv_put_user [of d u] by (simp add: keeps_access_def system_admins_def)

lemma keeps_put_request:
  assumes inv: "access_inv d" and r: "r \<in> set (db_access_requests d)" "aa_status r = lit ''pending''"
    and r': "decided_request_ok r'" "aa_request_id r' = aa_request_id r"
  shows "keeps_access d (d\<lparr>db_access_requests := put_row aa_request_id r' (db_access_requests d)\<rparr>)"
proof -
  have "q \<in> set (put_row aa_request_id r' (db_access_requests d))"
    if q: "q \<in> set (db_access_requests d)" "aa_status q \<noteq> lit ''pending''" for q
  proof (rule put_row_other [OF q(1)])
    show "aa_request_id q \<noteq> aa_request_id r'"
      using distinct_key [OF access_invD(4) [OF inv] q(1) r(1)] q(2) r(2) r'(2) by auto
  qed
  then show ?thesis
    using access_inv_put_request [OF inv r'(1)] by (simp add: keeps_access_def system_admins_def)
qed

lemma organization_keeps:
  "create_department en n name sc d = Inr (d', p) \<Longrightarrow> same_access d d'"
  "patch_department en i pd sc d = Inr (d', p) \<Longrightarrow> same_access d d'"
  "deactivate_department en i sc d = Inr (d', p) \<Longrightarrow> same_access d d'"
  "create_organization_user en n name j sc d = Inr (d', u) \<Longrightarrow> same_access d d'"
  "patch_organization_user en i po sc d = Inr (d', u) \<Longrightarrow> same_access d d'"
  "deactivate_organization_user en i sc d = Inr (d', u) \<Longrightarrow> same_access d d'"
  by (auto simp: create_department_def patch_department_def deactivate_department_def create_organization_user_def
      patch_organization_user_def deactivate_organization_user_def deactivate_department_row_def
      deactivate_organization_user_row_def raise_simps Let_def same_access_def dest!: organization_ops)

lemma membership_keeps:
  "grant_service_member_role en s u role sc d = Inr (d', x) \<Longrightarrow> same_access d d' \<and> same_people d d'"
  "revoke_service_member_role en s u role sc d = Inr (d', x) \<Longrightarrow> same_access d d' \<and> same_people d d'"
  "me sc d = Inr (d', y) \<Longrightarrow> same_access d d' \<and> same_people d d'"
  by (auto simp: grant_service_member_role_def revoke_service_member_role_def me_def raise_simps Let_def
      same_access_def same_people_def dest!: service_role_ops audit_Inr split: if_splits)

lemma request_access_keeps:
  assumes "access_inv d" and "create_admin_access_request en b d = Inr (d', x)"
  shows "keeps_access d d' \<and> db_admin_users d' = db_admin_users d \<and> db_admin_user_roles d' = db_admin_user_roles d
    \<and> db_organization_users d' = db_organization_users d"
proof -
  obtain q d1 r where d1: "create_admin_access_request_row d q = Inr (d1, r)" and q: "aa_status q = lit ''pending''"
    and d': "same_access d1 d'" "same_people d1 d'"
    using assms(2) by (auto simp: create_admin_access_request_def raise_simps Let_def dest!: audit_same)
  note r = request_ops(1) [OF d1]
  have "decided_request_ok r" using r q by (simp add: decided_request_ok_def)
  then have "keeps_access d d1"
    using assms(1) r by (simp add: keeps_access_def access_inv_def system_admins_def)
  then show ?thesis
    using keeps_trans keeps_same [OF _ d'(1)] d' r by (auto simp: keeps_access_def same_access_def same_people_def)
qed

lemma approve_keeps:
  assumes inv: "access_inv d" and ok: "approve_admin_access_request en i why sc d = Inr (d', x)"
  shows "keeps_access d d'"
proof -
  obtain r q d1 org uc d2 user d3 ro who now d4 r' d5 where r: "get_admin_access_request d i = Some r" "aa_status r = lit ''pending''"
    and d1: "create_organization_user_row d q = Inr (d1, org)"
    and d2: "create_admin_user d1 uc = Inr (d2, user)"
    and d3: "assign_admin_user_role d2 \<lparr>ar_user_id = au_user_id user, ar_role = lit ''application_admin'',
        ar_assigned_by = who, ar_assigned_at = now\<rparr> = Inr (d3, ro)"
    and d4: "approve_admin_access_request_row d3 r who now (Some why) (ou_id org) (au_user_id user) = Inr (d4, r')"
    and d5: "same_access d4 d5" "same_access d5 d'"
    using ok by (auto simp: approve_admin_access_request_def raise_simps Let_def dest!: audit_same)
  have d': "same_access d4 d'" using d5 by (rule same_trans)
  have s1: "keeps_access d d1" "access_inv d1" "db_access_requests d1 = db_access_requests d"
    using keeps_same [OF inv, of d1] organization_ops(3) [OF d1] same_access_inv [of d d1] inv
    by (auto simp: same_access_def)
  have s2: "keeps_access d1 d2" "access_inv d2" "db_access_requests d2 = db_access_requests d"
    "au_user_id user \<in> au_user_id ` set (db_admin_users d2)"
    using keeps_add_user [OF s1(2) d2] create_admin_user_Inr [OF d2] s1(3) by (auto simp: keeps_access_def)
  have "same_people d2 d3" "admins_after (au_user_id user) (system_admins d2) (system_admins d3)"
    using assign_admin_user_role_Inr [OF d3]
    by (auto simp: same_people_def admins_after_def system_admins_def is_system_admin_role_def)
  then have s3: "keeps_access d2 d3" "access_inv d3" "db_access_requests d3 = db_access_requests d"
    using keeps_rights [OF s2(2) _ _ s2(4)] s2(3) by (auto simp: keeps_access_def same_people_def)
  have "r \<in> set (db_access_requests d3)"
    using first_row_Some [OF r(1) [unfolded get_admin_access_request_def]] s3(3) by simp
  then have s4: "keeps_access d3 d4"
    using keeps_put_request [OF s3(2) _ r(2)] request_ops(2) [OF d4] by auto
  then have "keeps_access d4 d'" using keeps_same [OF _ d'] by (simp add: keeps_access_def)
  then show ?thesis using s1(1) s2(1) s3(1) s4 keeps_trans by blast
qed

lemma reject_keeps:
  assumes inv: "access_inv d" and ok: "reject_admin_access_request en i why sc d = Inr (d', x)"
  shows "keeps_access d d'"
proof -
  obtain r who now d1 r' where r: "get_admin_access_request d i = Some r"
    and d1: "reject_admin_access_request_row d r who now why = Inr (d1, r')" and d': "same_access d1 d'"
    using ok by (auto simp: reject_admin_access_request_def raise_simps Let_def dest!: audit_same)
  have "r \<in> set (db_access_requests d)" using first_row_Some [OF r [unfolded get_admin_access_request_def]] by simp
  then have "keeps_access d d1" using keeps_put_request [OF inv] request_ops(3) [OF d1] by auto
  then show ?thesis using keeps_same [OF _ d'] keeps_trans by (auto simp: keeps_access_def)
qed

lemma managed_response_user: "managed_admin_user_response_of en d u = Inr m \<Longrightarrow> mu_user_id m = au_user_id u"
  by (auto simp: managed_admin_user_response_of_def raise_simps Let_def)

lemma create_managed_keeps:
  assumes inv: "access_inv d" and ok: "create_managed_admin_user en b sc d = Inr (d', x)"
  shows "keeps_access d d'"
proof -
  obtain q d1 user now rs d2 d3 where d1: "create_admin_user d q = Inr (d1, user)"
    and d2: "grant_roles sc (au_user_id user) now rs d1 = Inr d2"
    and d3: "same_access d2 d3" "same_access d3 d'"
    using ok by (auto simp: create_managed_admin_user_def raise_simps Let_def dest!: audit_same audit_roles_same)
  have s1: "keeps_access d d1" "access_inv d1" "au_user_id user \<in> au_user_id ` set (db_admin_users d1)"
    using keeps_add_user [OF inv d1] by (auto simp: keeps_access_def)
  have s2: "keeps_access d1 d2" using keeps_rights [OF s1(2) _ _ s1(3)] grant_roles_effect [OF d2] by blast
  have "keeps_access d2 d'"
    using keeps_same [OF _ same_trans(1) [OF d3]] s2 by (simp add: keeps_access_def)
  then show ?thesis using s1(1) s2 keeps_trans by blast
qed

text \<open>A patch never takes the role \<open>system_admin\<close> from its holder.\<close>

lemma patch_checks_revoke:
  assumes inv: "access_inv d" and who: "system_admins d = [actor]"
    and ok: "patch_checks d actor request u (roles_of en d (au_user_id u)) grant revoke = Inr x"
    and sub: "revoke \<subseteq> roles_of en d (au_user_id u)"
  shows "lit ''system_admin'' \<notin> revoke"
proof
  assume r: "lit ''system_admin'' \<in> revoke"
  then have "au_user_id u = actor" using sub roles_of_system_admin [of en d "au_user_id u"] who by auto
  moreover have "require_not_self_last_system_admin d actor u (roles_of en d (au_user_id u)) = Inr x"
    using ok r by (auto simp: patch_checks_def raise_simps)
  ultimately show False using require_not_self_Inr [OF inv] r sub by blast
qed

lemma patch_parts:
  assumes inv: "access_inv d" and sc: "session_of d sc"
    and ok: "patch_managed_admin_user en i req sc d = Inr (d', x)"
  obtains u d1 u1 d2 d3 now grant revoke where "as_system_admin sc = Inr ()" "get_admin_user d i = Some u"
    "patch_checks d (acting sc) req u (roles_of en d (au_user_id u)) (set grant) (set revoke) = Inr ()"
    "d1 = d\<lparr>db_admin_users := put_row au_user_id u1 (db_admin_users d)\<rparr> \<or> d1 = d \<and> u1 = u"
    "au_user_id u1 = au_user_id u" "au_organization_user_id u1 = au_organization_user_id u"
    "au_status u1 = (case mp_status req of None \<Rightarrow> au_status u | Some s \<Rightarrow> s)"
    "grant_roles sc (au_user_id u) now grant d1 = Inr d2" "revoke_roles (au_user_id u) revoke d2 = Inr d3"
    "same_access d3 d'" "same_people d3 d'" "lit ''system_admin'' \<notin> set revoke"
proof -
  let ?current = "\<lambda>u. roles_of en d (au_user_id u)"
  obtain u d1 u1 d2 d3 new old where p: "as_system_admin sc = Inr ()" "get_admin_user d i = Some u"
    "patch_checks d (acting sc) req u (?current u)
       (case mp_global_roles req of None \<Rightarrow> {} | Some rs \<Rightarrow> set rs - ?current u)
       (case mp_global_roles req of None \<Rightarrow> {} | Some rs \<Rightarrow> ?current u - set rs) = Inr ()"
    and upd: "(if mp_email req = None \<and> mp_display_name req = None \<and> mp_status req = None then Inr (d, u)
       else except_integrity (raise_conflict ''Admin user already exists.'')
         (update_admin_user d u \<lparr>ch_email = mp_email req, ch_display_name = mp_display_name req,
            ch_status = mp_status req, ch_updated_at = Some (en_clock en 1)\<rparr>)) = Inr (d1, u1)"
    and g: "grant_roles sc (au_user_id u1) (en_clock en 1) (sorted_list_of_set
         (case mp_global_roles req of None \<Rightarrow> {} | Some rs \<Rightarrow> set rs - ?current u)) d1 = Inr d2"
    and r: "revoke_roles (au_user_id u1) (sorted_list_of_set
         (case mp_global_roles req of None \<Rightarrow> {} | Some rs \<Rightarrow> ?current u - set rs)) d2 = Inr d3"
    and a: "same_access d3 d'" "same_people d3 d'"
    using ok by (auto simp: patch_managed_admin_user_def raise_simps Let_def simp del: One_nat_def dest!: patch_audits_same)
  let ?grant = "sorted_list_of_set (case mp_global_roles req of None \<Rightarrow> {} | Some rs \<Rightarrow> set rs - ?current u)"
  let ?revoke = "sorted_list_of_set (case mp_global_roles req of None \<Rightarrow> {} | Some rs \<Rightarrow> ?current u - set rs)"
  have fin: "finite (?current u)" by (simp add: roles_of_def)
  have sets: "set ?grant = (case mp_global_roles req of None \<Rightarrow> {} | Some rs \<Rightarrow> set rs - ?current u)"
    "set ?revoke = (case mp_global_roles req of None \<Rightarrow> {} | Some rs \<Rightarrow> ?current u - set rs)"
    using fin by (auto split: option.split)
  have upd': "d1 = d\<lparr>db_admin_users := put_row au_user_id u1 (db_admin_users d)\<rparr> \<or> d1 = d \<and> u1 = u"
    "au_user_id u1 = au_user_id u" "au_organization_user_id u1 = au_organization_user_id u"
    "au_status u1 = (case mp_status req of None \<Rightarrow> au_status u | Some s \<Rightarrow> s)"
    using upd by (auto simp: raise_simps dest!: update_admin_user_Inr split: if_splits)
  have checks: "patch_checks d (acting sc) req u (?current u) (set ?grant) (set ?revoke) = Inr ()"
    using p(3) sets by simp
  have "lit ''system_admin'' \<notin> set ?revoke"
    by (rule patch_checks_revoke [OF inv acting_system_admin [OF inv sc p(1)] checks])
      (auto simp: sets split: option.split)
  then show thesis using that [OF p(1,2) checks upd'] g r a upd'(2) by simp
qed

lemma patch_keeps:
  assumes inv: "access_inv d" and sc: "session_of d sc"
    and ok: "patch_managed_admin_user en i req sc d = Inr (d', x)"
  shows "keeps_access d d'"
proof -
  obtain u d1 u1 d2 d3 now grant revoke where p: "as_system_admin sc = Inr ()" "get_admin_user d i = Some u"
    "patch_checks d (acting sc) req u (roles_of en d (au_user_id u)) (set grant) (set revoke) = Inr ()"
    "d1 = d\<lparr>db_admin_users := put_row au_user_id u1 (db_admin_users d)\<rparr> \<or> d1 = d \<and> u1 = u"
    "au_user_id u1 = au_user_id u" "au_organization_user_id u1 = au_organization_user_id u"
    "au_status u1 = (case mp_status req of None \<Rightarrow> au_status u | Some s \<Rightarrow> s)"
    "grant_roles sc (au_user_id u) now grant d1 = Inr d2" "revoke_roles (au_user_id u) revoke d2 = Inr d3"
    "same_access d3 d'" "same_people d3 d'" "lit ''system_admin'' \<notin> set revoke"
    by (rule patch_parts [OF inv sc ok])
  have keep1: "keeps_access d d1" using p(4)
  proof
    assume "d1 = d\<lparr>db_admin_users := put_row au_user_id u1 (db_admin_users d)\<rparr>"
    then show ?thesis by (rule keeps_put_user [OF inv])
  next
    assume "d1 = d \<and> u1 = u"
    then show ?thesis using keeps_same [OF inv same_refl(1)] by simp
  qed
  then have s1: "keeps_access d d1" "access_inv d1" by (simp_all add: keeps_access_def)
  have "au_user_id ` set (db_admin_users d1) = au_user_id ` set (db_admin_users d)"
    using p(4) put_row_key_set [of au_user_id u1 "db_admin_users d"] by (elim disjE) simp_all
  then have mem: "au_user_id u \<in> au_user_id ` set (db_admin_users d1)" using get_admin_user_in [OF p(2)] by blast
  have s2: "keeps_access d1 d2" using keeps_rights [OF s1(2) _ _ mem] grant_roles_effect [OF p(8)] by blast
  have "same_people d2 d3" "system_admins d3 = system_admins d2" using revoke_roles_effect [OF p(9)] p(12) by auto
  then have "keeps_access d2 d3" using s2 by (simp add: keeps_access_def access_inv_def same_people_def)
  then have "keeps_access d2 d'" using keeps_same [OF _ p(10)] keeps_trans by (auto simp: keeps_access_def)
  then show ?thesis using s1(1) s2 keeps_trans by blast
qed

lemma transfer_core:
  assumes inv: "access_inv d" and sc: "session_of d sc" and p: "as_system_admin sc = Inr ()" "acting sc = f"
    "get_admin_user d f = Some s" "get_admin_user d t = Some t'"
    and d1: "revoke_roles (au_user_id s) [lit ''system_admin''] d = Inr d1"
    and d2: "grant_roles sc (au_user_id s) now [lit ''application_admin''] d1 = Inr d2"
    and d3: "grant_roles sc (au_user_id t') now [lit ''system_admin''] d2 = Inr d3"
    and d4: "revoke_roles (au_user_id t') [lit ''application_admin''] d3 = Inr d4"
    and d5: "audit en k e a sv tt ti b aft now d4 = Inr d'"
  shows "keeps_access d d' \<and> system_admins d = [f] \<and> system_admins d' = [t] \<and> same_people d d'"
proof -
  have ids: "au_user_id s = f" "au_user_id t' = t" using get_admin_user_in [OF p(3)] get_admin_user_in [OF p(4)] by auto
  have old: "system_admins d = [f]" using acting_system_admin [OF inv sc p(1)] p(2) by simp
  have "system_admins d1 = []" using revoke_roles_effect [OF d1] ids old by simp
  then have e2: "system_admins d2 = []" using grant_roles_effect [OF d2] by simp
  obtain r where e: "ensure_admin_user_role d2 \<lparr>ar_user_id = t, ar_role = lit ''system_admin'', ar_assigned_by = acting sc,
      ar_assigned_at = now\<rparr> = Inr (d3, r)"
    using d3 ids by (auto simp: grant_roles_def raise_simps)
  have "system_admins d3 = [t]" using ensure_role_effect [OF e] e2 by (auto simp: admins_after_def)
  then have new: "system_admins d' = [t]"
    using revoke_roles_effect [OF d4] same_access_inv [of d4 d'] audit_same [OF d5] by simp
  have people: "same_people d d'"
    using revoke_roles_effect [OF d1] grant_roles_effect [OF d2] grant_roles_effect [OF d3] revoke_roles_effect [OF d4]
      audit_same [OF d5] by (auto simp: same_people_def)
  have "t \<in> au_user_id ` set (db_admin_users d)" using get_admin_user_in [OF p(4)] by blast
  then show ?thesis using inv new old people by (auto simp: keeps_access_def access_inv_def same_people_def)
qed

lemma transfer_effect:
  assumes inv: "access_inv d" and sc: "session_of d sc" and ok: "transfer_system_admin en f t why sc d = Inr (d', x)"
  shows "keeps_access d d' \<and> system_admins d = [f] \<and> system_admins d' = [t] \<and> same_people d d'"
  using ok unfolding transfer_system_admin_def Let_def
  by (elim bindE_elim)
    (simp only: require_Inr some_or_Inr except_Inr sum.inject prod.inject, rule transfer_core [OF inv sc]; simp)

lemma login_effect:
  assumes "login en d email password = Inr (d', x)"
  obtains u u' ss where "u \<in> set (db_admin_users d)" "au_user_id u' = au_user_id u" "au_status u' = au_status u"
    "au_organization_user_id u' = au_organization_user_id u" "get_login_eligible_admin_user_by_email d email = Inr (Some u)"
    "d' = d\<lparr>db_admin_users := put_row au_user_id u' (db_admin_users d), db_admin_sessions := ss\<rparr>"
proof -
  obtain u now s d1 s' u' where l: "get_login_eligible_admin_user_by_email d email = Inr (Some u)"
    "create_admin_session d s = Inr (d1, s')" "update_admin_user_login d1 u now = Inr (d', u')"
    using assms by (auto simp: login_def raise_simps Let_def)
  have "u \<in> set (db_admin_users d)"
    using l(1) by (auto simp: get_login_eligible_admin_user_by_email_def raise_simps dest: first_row_Some)
  moreover obtain ss where "d1 = d\<lparr>db_admin_sessions := ss\<rparr>" using session_ops [OF l(2)] by blast
  ultimately show thesis using update_admin_user_login_Inr [OF l(3)] l(1) that [of u u' ss] by simp
qed

lemma logout_same: "logout en d cookie = Inr (d', x) \<Longrightarrow> same_access d d' \<and> same_people d d'"
  by (auto simp: logout_def revoke_admin_session_def raise_simps Let_def same_access_def same_people_def
      split: if_splits option.splits)

lemma bootstrap_keeps:
  assumes inv: "access_inv d" and ok: "bootstrap_admin en d b token = Inr (d', x)"
  shows "keeps_access d d' \<and> system_admins d = []"
proof -
  obtain q d1 u r now who where c: "create_admin_user d q = Inr (d1, u)"
    and a: "assign_admin_user_role d1 \<lparr>ar_user_id = au_user_id u, ar_role = lit ''system_admin'', ar_assigned_by = who,
      ar_assigned_at = now\<rparr> = Inr (d', r)"
    using ok by (auto simp: bootstrap_admin_def raise_simps Let_def)
  have u: "keeps_access d d1" "access_inv d1" "au_user_id u \<in> au_user_id ` set (db_admin_users d1)"
    "system_admins d1 = system_admins d"
    using keeps_add_user [OF inv c] access_inv_add_user [OF inv c] by (auto simp: keeps_access_def)
  have "same_people d1 d'" "admins_after (au_user_id u) (system_admins d1) (system_admins d')" "system_admins d1 = []"
    using assign_admin_user_role_Inr [OF a]
    by (auto simp: same_people_def admins_after_def system_admins_def is_system_admin_role_def)
  then show ?thesis using keeps_rights [OF u(2) _ _ u(3)] keeps_trans u(1,4) by metis
qed

lemma startup_cases [consumes 1, case_names skipped created updated]:
  assumes ok: "configure_startup_system_admin en d = Inr (d', x)"
  obtains "d' = d"
    | q d1 u now r where "system_admin_user_id d = None" "create_admin_user d q = Inr (d1, u)"
        "ensure_admin_user_role d1 (startup_role u now) = Inr (d', r)"
    | u h now d1 u1 r where "u \<in> set (db_admin_users d)"
        "d1 = d \<and> u1 = u \<or> update_admin_user_password d u h now = Inr (d1, u1)"
        "ensure_admin_user_role d1 (startup_role u now) = Inr (d', r)"
proof (cases "load_admin_provisioning_config (en_variable en)")
  case (Inl e)
  then show ?thesis using ok by (simp add: configure_startup_system_admin_def)
next
  case (Inr config)
  show ?thesis
  proof (cases config)
    case None
    then show ?thesis using ok Inr that(1) by (simp add: configure_startup_system_admin_def)
  next
    case (Some c)
    obtain found where found: "get_admin_user_by_email d (pc_email c) = Inr found"
      using ok Inr Some by (auto simp: configure_startup_system_admin_def raise_simps Let_def)
    show ?thesis
    proof (cases found)
      case None
      then show ?thesis using ok Inr Some found that(2)
        by (auto simp: configure_startup_system_admin_def raise_simps Let_def)
    next
      case user: (Some u)
      have u: "u \<in> set (db_admin_users d)"
        using found user by (auto simp: get_admin_user_by_email_def raise_simps dest: first_row_Some)
      obtain d1 u1 r where "(if en_verify_password en (pc_password c) (au_password_hash u) then Inr (d, u)
          else unhandled (update_admin_user_password d u (en_hash_password en (pc_password c)) (en_clock en 0))) = Inr (d1, u1)"
        "ensure_admin_user_role d1 (startup_role u (en_clock en 0)) = Inr (d', r)"
        using ok Inr Some found user by (auto simp: configure_startup_system_admin_def raise_simps Let_def)
      then show ?thesis
        using that(3) [OF u, of d1 u1 "en_hash_password en (pc_password c)" "en_clock en 0" r]
        by (simp add: raise_simps split: if_splits)
    qed
  qed
qed

lemma startup_effect:
  assumes inv: "access_inv d" and ok: "configure_startup_system_admin en d = Inr (d', x)"
  shows "keeps_access d d' \<and> (system_admins d \<noteq> [] \<longrightarrow> system_admins d' = system_admins d \<and>
    (db_admin_users d' = db_admin_users d \<or> (\<exists>u \<in> set (db_admin_users d). \<exists>u'. au_user_id u' = au_user_id u
       \<and> au_status u' = au_status u \<and> au_organization_user_id u' = au_organization_user_id u
       \<and> db_admin_users d' = put_row au_user_id u' (db_admin_users d)))
    \<and> db_organization_users d' = db_organization_users d)"
  using ok
proof (cases rule: startup_cases)
  case skipped
  then show ?thesis using keeps_same [OF inv] by simp
next
  case (created q d1 u now r)
  have "\<not> is_system_admin_role r" if "r \<in> set (db_admin_user_roles d)" for r
    using created(1) that by (auto simp: system_admin_user_id_def is_system_admin_role_def first_row_None)
  then have none: "system_admins d = []" by (simp add: system_admins_def filter_empty_conv)
  have u: "keeps_access d d1" "access_inv d1" "au_user_id u \<in> au_user_id ` set (db_admin_users d1)"
    using keeps_add_user [OF inv created(2)] by (auto simp: keeps_access_def)
  have "keeps_access d1 d'"
    using keeps_rights [OF u(2) _ _ u(3)] ensure_role_effect [OF created(3)] by (auto simp: startup_role_def)
  then show ?thesis using u(1) keeps_trans none by blast
next
  case (updated u h now d1 u1 r)
  obtain d1us where d1: "d1 = d\<lparr>db_admin_users := d1us\<rparr>" and us: "d1us = db_admin_users d \<or> (d1us = put_row au_user_id u1 (db_admin_users d)
      \<and> au_user_id u1 = au_user_id u \<and> au_status u1 = au_status u \<and> au_organization_user_id u1 = au_organization_user_id u)"
    using updated(2)
  proof
    assume "d1 = d \<and> u1 = u"
    then show thesis using that [of "db_admin_users d"] by simp
  next
    assume "update_admin_user_password d u h now = Inr (d1, u1)"
    from update_admin_user_password_Inr [OF this] show thesis
      using that [of "put_row au_user_id u1 (db_admin_users d)"] by simp
  qed
  have k1: "keeps_access d d1" using us
  proof
    assume "d1us = db_admin_users d"
    then show ?thesis using keeps_same [OF inv same_refl(1)] d1 by simp
  next
    assume "d1us = put_row au_user_id u1 (db_admin_users d) \<and> au_user_id u1 = au_user_id u \<and> au_status u1 = au_status u
      \<and> au_organization_user_id u1 = au_organization_user_id u"
    then show ?thesis using keeps_put_user [OF inv, of d1 u1] d1 by simp
  qed
  then have inv1: "access_inv d1" by (simp add: keeps_access_def)
  have mem: "au_user_id u \<in> au_user_id ` set (db_admin_users d1)"
    using us updated(1) put_row_key_set [of au_user_id u1 "db_admin_users d"] d1 by (elim disjE) simp_all
  note e = ensure_role_effect [OF updated(3)]
  have "keeps_access d1 d'" using keeps_rights [OF inv1 _ _ mem] e by (auto simp: startup_role_def)
  moreover have "system_admins d \<noteq> [] \<longrightarrow> system_admins d' = system_admins d"
    using e d1 by (auto simp: admins_after_def system_admins_def)
  ultimately show ?thesis using k1 keeps_trans e us updated(1) d1 by (auto simp: same_people_def)
qed

lemma command_keeps:
  assumes inv: "access_inv d" and sc: "session_of d sc" and ok: "command_handler en c sc d = Inr (d', u)"
  shows "keeps_access d d'"
proof (cases c)
  case (Approve_Access i why)
  then show ?thesis using ok approve_keeps [OF inv] by (auto simp: drop_response_def raise_simps)
next
  case (Reject_Access i why)
  then show ?thesis using ok reject_keeps [OF inv] by (auto simp: drop_response_def raise_simps)
next
  case (Create_Managed b)
  then show ?thesis using ok create_managed_keeps [OF inv] by (auto simp: drop_response_def raise_simps)
next
  case (Patch_Managed i p)
  then show ?thesis using ok patch_keeps [OF inv sc] by (auto simp: drop_response_def raise_simps)
next
  case (Transfer f t why)
  then show ?thesis using ok transfer_effect [OF inv sc] by (auto simp: drop_response_def raise_simps)
qed (use ok in \<open>auto simp: drop_response_def raise_simps
    dest!: organization_keeps membership_keeps intro: keeps_same [OF inv]\<close>)

lemma access_step_keeps:
  assumes inv: "access_inv d"
  shows "keeps_access d (access_step d (en, ev))"
proof (cases ev)
  case Startup
  then show ?thesis using keeps_same [OF inv same_refl(1)] startup_effect [OF inv]
    by (cases rule: committed_cases [of d "configure_startup_system_admin en d"]) auto
next
  case (Bootstrap b token)
  then show ?thesis using keeps_same [OF inv same_refl(1)] bootstrap_keeps [OF inv]
    by (cases rule: committed_cases [of d "bootstrap_admin en d b token"]) auto
next
  case (Login email password)
  show ?thesis
  proof (cases rule: committed_cases [of d "login en d email password"])
    case 1
    then show ?thesis using keeps_same [OF inv same_refl(1)] Login by simp
  next
    case (2 d' x)
    obtain u' ss where "d' = d\<lparr>db_admin_users := put_row au_user_id u' (db_admin_users d), db_admin_sessions := ss\<rparr>"
      using login_effect [OF 2(1)] by metis
    then have "same_access (d\<lparr>db_admin_users := put_row au_user_id u' (db_admin_users d)\<rparr>) d'"
      by (simp add: same_access_def)
    moreover have "keeps_access d (d\<lparr>db_admin_users := put_row au_user_id u' (db_admin_users d)\<rparr>)"
      by (rule keeps_put_user [OF inv refl])
    ultimately have "keeps_access d d'" using keeps_same keeps_trans keeps_access_def by metis
    then show ?thesis using 2 Login by simp
  qed
next
  case (Logout cookie)
  then show ?thesis using keeps_same [OF inv] logout_same [of en d cookie]
    by (cases rule: committed_cases [of d "logout en d cookie"]) auto
next
  case (Request_Access b)
  then show ?thesis using keeps_same [OF inv same_refl(1)] request_access_keeps [OF inv]
    by (cases rule: committed_cases [of d "create_admin_access_request en b d"]) auto
next
  case (Command cookie c)
  then have step: "access_step d (en, ev) = fst (with_session en d cookie (command_handler en c))" by simp
  show ?thesis
  proof (cases rule: with_session_cases [of en d cookie "command_handler en c"])
    case refused
    then show ?thesis using keeps_same [OF inv same_refl(1)] step by simp
  next
    case (failed d1 sc)
    then show ?thesis using keeps_same [OF inv failed(1)] step by simp
  next
    case (returned d1 sc d2 r)
    have k: "keeps_access d d1" by (rule keeps_same [OF inv returned(1)])
    then have "access_inv d1" by (simp add: keeps_access_def)
    then have "keeps_access d1 d2" using command_keeps [OF _ returned(3,4)] by simp
    then show ?thesis using keeps_trans [OF k] returned(5) step by simp
  qed
qed

section \<open>Runs\<close>

lemma access_inv_empty [simp]: "access_inv empty_db" "system_admins empty_db = []"
  by (simp_all add: access_inv_def empty_db_def system_admins_def)

interpretation access: absorbing_machine access_step access_inv "\<lambda>d. system_admins d \<noteq> []"
proof
  fix d e
  assume "access_inv d"
  then have k: "keeps_access d (access_step d e)" using access_step_keeps by (cases e) simp
  then show "access_inv (access_step d e)" by (simp add: keeps_access_def)
  show "system_admins d \<noteq> [] \<Longrightarrow> system_admins (access_step d e) \<noteq> []" using k by (simp add: keeps_access_def)
qed

text \<open>One decided request, followed through a run.\<close>

definition decided_in :: "admin_access_request \<Rightarrow> db \<Rightarrow> bool" where
  "decided_in r d \<longleftrightarrow> r \<in> set (db_access_requests d) \<and> aa_status r \<noteq> lit ''pending''"

interpretation decided: absorbing_machine access_step access_inv "decided_in r" for r
proof
  fix d e
  assume inv: "access_inv d" and "decided_in r d"
  then show "decided_in r (access_step d e)"
    using access_step_keeps [OF inv] by (cases e) (auto simp: keeps_access_def decided_in_def)
qed

section \<open>Who decides\<close>

text \<open>The decisions on access requests that are in the second database and not in the first: none.\<close>

definition no_decision :: "db \<Rightarrow> db \<Rightarrow> bool" where
  "no_decision d d' \<longleftrightarrow>
     (\<forall>r \<in> set (db_access_requests d'). aa_status r \<noteq> lit ''pending'' \<longrightarrow> r \<in> set (db_access_requests d))"

lemma no_decision_same: "db_access_requests d' = db_access_requests d \<Longrightarrow> no_decision d d'"
  by (simp add: no_decision_def)

text \<open>A decision of a session: its command, and what the row of the request says of it.\<close>

definition decided_under :: "admin_session_context \<Rightarrow> access_command \<Rightarrow> db \<Rightarrow> admin_access_request \<Rightarrow> bool" where
  "decided_under sc c d r \<longleftrightarrow> lit ''system_admin'' \<in> sc_global_roles sc \<and> aa_decided_by r = Some (acting sc)
     \<and> (\<exists>why. aa_decision_reason r = Some why
         \<and> (c = Approve_Access (aa_request_id r) why \<and> aa_status r = lit ''approved''
            \<or> c = Reject_Access (aa_request_id r) why \<and> aa_status r = lit ''rejected''))
     \<and> (\<exists>q \<in> set (db_access_requests d). aa_request_id q = aa_request_id r \<and> aa_status q = lit ''pending'')"

lemma request_found: "get_admin_access_request d i = Some r \<Longrightarrow> r \<in> set (db_access_requests d) \<and> aa_request_id r = i"
  unfolding get_admin_access_request_def by (rule first_row_Some)

lemma approve_decides:
  assumes ok: "approve_admin_access_request en i why sc d = Inr (d', x)"
    and r: "r \<in> set (db_access_requests d')" "r \<notin> set (db_access_requests d)"
  shows "decided_under sc (Approve_Access i why) d r"
proof -
  obtain q oc d1 org uc d2 user d3 ro rr now d4 r' d5 where admin: "as_system_admin sc = Inr ()"
    and q: "get_admin_access_request d i = Some q" "aa_status q = lit ''pending''"
    and d1: "create_organization_user_row d oc = Inr (d1, org)" and d2: "create_admin_user d1 uc = Inr (d2, user)"
    and d3: "assign_admin_user_role d2 ro = Inr (d3, rr)"
    and d4: "approve_admin_access_request_row d3 q (acting sc) now (Some why) (ou_id org) (au_user_id user) = Inr (d4, r')"
    and d5: "same_access d4 d5" "same_access d5 d'"
    using ok by (auto simp: approve_admin_access_request_def raise_simps Let_def dest!: audit_same)
  have "db_access_requests d3 = db_access_requests d"
    using organization_ops(3) [OF d1] create_admin_user_Inr [OF d2] assign_admin_user_role_Inr [OF d3] by simp
  then have "r = r' \<or> r \<in> set (db_access_requests d)"
    using request_ops(2) [OF d4] d5 r(1) put_row_in [of r aa_request_id r'] by (auto simp: same_access_def)
  then have "r = r'" using r(2) by blast
  then have "aa_decided_by r = Some (acting sc)" "aa_decision_reason r = Some why" "aa_status r = lit ''approved''"
    "aa_request_id r = aa_request_id q"
    using d4 by (auto simp: approve_admin_access_request_row_def put_access_request_def raise_simps)
  then show ?thesis using request_found [OF q(1)] q(2) admin as_system_admin_iff by (auto simp: decided_under_def)
qed

lemma reject_decides:
  assumes ok: "reject_admin_access_request en i why sc d = Inr (d', x)"
    and r: "r \<in> set (db_access_requests d')" "r \<notin> set (db_access_requests d)"
  shows "decided_under sc (Reject_Access i why) d r"
proof -
  obtain q now d1 r' where admin: "as_system_admin sc = Inr ()" and q: "get_admin_access_request d i = Some q"
    and d1: "reject_admin_access_request_row d q (acting sc) now why = Inr (d1, r')" and d': "same_access d1 d'"
    using ok by (auto simp: reject_admin_access_request_def raise_simps Let_def dest!: audit_same)
  have "r = r' \<or> r \<in> set (db_access_requests d)"
    using request_ops(3) [OF d1] d' r(1) put_row_in [of r aa_request_id r'] by (auto simp: same_access_def)
  then have "r = r'" using r(2) by blast
  then have "aa_decided_by r = Some (acting sc)" "aa_decision_reason r = Some why" "aa_status r = lit ''rejected''"
    "aa_request_id r = aa_request_id q" "aa_status q = lit ''pending''"
    using d1 by (auto simp: reject_admin_access_request_row_def put_access_request_def
        require_pending_admin_access_request_def raise_simps)
  then show ?thesis using request_found [OF q] admin as_system_admin_iff by (auto simp: decided_under_def)
qed

text \<open>Nothing else writes the table, but for a new request, which is pending.\<close>

lemma create_managed_requests:
  "create_managed_admin_user en b sc d = Inr (d', x) \<Longrightarrow> db_access_requests d' = db_access_requests d"
  by (auto simp: create_managed_admin_user_def raise_simps Let_def same_access_def same_people_def
      dest!: audit_same audit_roles_same grant_roles_effect create_admin_user_Inr)

lemma startup_requests:
  assumes "configure_startup_system_admin en d = Inr (d', x)"
  shows "db_access_requests d' = db_access_requests d"
  using assms
  by (cases rule: startup_cases)
    (auto simp: same_people_def dest!: create_admin_user_Inr ensure_role_effect update_admin_user_password_Inr)

lemma bootstrap_requests:
  "bootstrap_admin en d b token = Inr (d', x) \<Longrightarrow> db_access_requests d' = db_access_requests d"
  by (auto simp: bootstrap_admin_def raise_simps Let_def dest!: create_admin_user_Inr assign_admin_user_role_Inr)

lemma request_access_pending:
  assumes "create_admin_access_request en b d = Inr (d', x)"
  shows "no_decision d d'"
proof -
  obtain q d1 r where d1: "create_admin_access_request_row d q = Inr (d1, r)" and q: "aa_status q = lit ''pending''"
    and d': "same_access d1 d'"
    using assms by (auto simp: create_admin_access_request_def raise_simps Let_def dest!: audit_same)
  show ?thesis using request_ops(1) [OF d1] q d' by (simp add: no_decision_def same_access_def)
qed

lemma command_decides:
  assumes inv: "access_inv d" and sc: "session_of d sc" and ok: "command_handler en c sc d = Inr (d', u)"
    and r: "r \<in> set (db_access_requests d')" "r \<notin> set (db_access_requests d)"
  shows "decided_under sc c d r"
proof (cases c)
  case (Approve_Access i why)
  then show ?thesis using ok approve_decides r by (auto simp: drop_response_def raise_simps)
next
  case (Reject_Access i why)
  then show ?thesis using ok reject_decides r by (auto simp: drop_response_def raise_simps)
next
  case (Create_Managed b)
  then show ?thesis using ok create_managed_requests r by (auto simp: drop_response_def raise_simps)
next
  case (Patch_Managed i p)
  then obtain x where x: "patch_managed_admin_user en i p sc d = Inr (d', x)" using ok by (auto simp: drop_response_def raise_simps)
  have False
    by (rule patch_parts [OF inv sc x])
      (use r in \<open>auto simp: same_people_def dest!: grant_roles_effect revoke_roles_effect\<close>)
  then show ?thesis ..
next
  case (Transfer f t why)
  then show ?thesis using ok transfer_effect [OF inv sc] r by (auto simp: drop_response_def raise_simps same_people_def)
qed (use ok r in \<open>auto simp: drop_response_def raise_simps same_access_def dest!: organization_keeps membership_keeps\<close>)

text \<open>Each new decision of a step is made by the platform administrator, in a session, on a pending request.\<close>

lemma access_step_decides:
  assumes inv: "access_inv d" and r: "r \<in> set (db_access_requests (access_step d (en, ev)))" "r \<notin> set (db_access_requests d)"
    and decided: "aa_status r \<noteq> lit ''pending''"
  shows "\<exists>cookie c d1 sc. ev = Command cookie c \<and> require_admin_session_context en d cookie = (d1, Inr sc)
    \<and> system_admins d = [acting sc] \<and> decided_under sc c d r"
proof (cases ev)
  case (Command cookie c)
  obtain d1 m where s: "require_admin_session_context en d cookie = (d1, m)" by fastforce
  show ?thesis
  proof (cases m)
    case (Inl e)
    then show ?thesis using r s require_session_Inl [of en d cookie d1 e] Command by (simp add: with_session_def)
  next
    case (Inr sc)
    obtain token where "session_context en d token = (d1, Inr sc)" using require_session_Inr s Inr by blast
    note sc = session_context_Inr [OF this]
    then have same: "db_access_requests d1 = db_access_requests d" "access_inv d1" "system_admins d1 = system_admins d"
      using inv same_access_inv [of d d1] by (simp_all add: same_access_def)
    show ?thesis
    proof (cases "command_handler en c sc d1")
      case (Inl e)
      then show ?thesis using r s same(1) Inr Command by (simp add: with_session_def)
    next
      case ret: (Inr p)
      then obtain d2 u where p: "command_handler en c sc d1 = Inr (d2, u)" by (cases p) simp
      have "r \<in> set (db_access_requests d2)" using r(1) s Inr p Command by (simp add: with_session_def)
      from command_decides [OF same(2) _ p this] sc r(2) same(1) have u: "decided_under sc c d1 r" by simp
      then have "as_system_admin sc = Inr ()" by (simp add: decided_under_def as_system_admin_iff)
      then have "system_admins d = [acting sc]" using acting_system_admin [OF same(2)] sc same(3) by simp
      moreover have "decided_under sc c d r" using u same(1) by (simp add: decided_under_def)
      ultimately show ?thesis using Command s Inr by blast
    qed
  qed
next
  case (Login email password)
  then show ?thesis using r by (auto simp: committed_def split: sum.splits elim!: login_effect)
qed (use r decided in \<open>auto simp: committed_def no_decision_def same_access_def split: sum.splits
    dest!: startup_requests bootstrap_requests logout_same request_access_pending\<close>)

section \<open>A platform administrator who cannot sign in\<close>

definition locked_out :: "db \<Rightarrow> bool" where
  "locked_out d \<longleftrightarrow> (\<exists>a u. system_admins d = [a] \<and> get_admin_user d a = Some u
     \<and> \<not> (au_status u = lit ''active'' \<and> link_usable d u))"

text \<open>Nobody's state, link or platform role has changed.\<close>

definition unmoved :: "db \<Rightarrow> db \<Rightarrow> bool" where
  "unmoved d d' \<longleftrightarrow> db_organization_users d' = db_organization_users d \<and> system_admins d' = system_admins d
     \<and> (\<forall>i. map_option (\<lambda>u. (au_status u, au_organization_user_id u)) (get_admin_user d' i)
          = map_option (\<lambda>u. (au_status u, au_organization_user_id u)) (get_admin_user d i))"

lemma unmoved_locked: "unmoved d d' \<Longrightarrow> locked_out d \<Longrightarrow> locked_out d'"
proof -
  assume u: "unmoved d d'" and "locked_out d"
  then obtain a v where v: "system_admins d = [a]" "get_admin_user d a = Some v"
    "\<not> (au_status v = lit ''active'' \<and> link_usable d v)" by (auto simp: locked_out_def)
  have "map_option (\<lambda>u. (au_status u, au_organization_user_id u)) (get_admin_user d' a) = Some (au_status v, au_organization_user_id v)"
    using u v(2) by (simp add: unmoved_def)
  then obtain w where w: "get_admin_user d' a = Some w" "au_status w = au_status v"
    "au_organization_user_id w = au_organization_user_id v" by auto
  have "link_usable d' w = link_usable d v"
    using u w(3) by (simp add: unmoved_def link_usable_def linked_organization_user_def get_organization_user_def
        split: option.split)
  then show ?thesis using u v w by (auto simp: locked_out_def unmoved_def)
qed

lemma same_unmoved: "same_access d d' \<Longrightarrow> same_people d d' \<Longrightarrow> unmoved d d'"
  using same_access_inv [of d d'] by (simp add: unmoved_def same_people_def get_admin_user_def)

lemma first_row_put: "first_row (\<lambda>r. key r = i) (put_row key row rows) =
  (if key row = i then map_option (\<lambda>_. row) (first_row (\<lambda>r. key r = i) rows) else first_row (\<lambda>r. key r = i) rows)"
  by (induction rows) (auto simp: first_row_def put_row_def update_where_def)

lemma put_user_unmoved:
  assumes inv: "access_inv d" and u: "u \<in> set (db_admin_users d)" and same: "au_user_id u' = au_user_id u"
    "au_status u' = au_status u" "au_organization_user_id u' = au_organization_user_id u"
    and d': "db_admin_users d' = put_row au_user_id u' (db_admin_users d)" "system_admins d' = system_admins d"
      "db_organization_users d' = db_organization_users d"
  shows "unmoved d d'"
proof -
  have "map_option (\<lambda>u. (au_status u, au_organization_user_id u)) (get_admin_user d' i)
      = map_option (\<lambda>u. (au_status u, au_organization_user_id u)) (get_admin_user d i)" for i
  proof (cases "get_admin_user d i")
    case None
    then show ?thesis by (simp add: get_admin_user_def d'(1) first_row_put)
  next
    case (Some v)
    show ?thesis
    proof (cases "au_user_id u' = i")
      case True
      have "v = u"
        by (rule distinct_key [OF access_invD(1) [OF inv] _ u]) (use get_admin_user_in [OF Some] True same(1) in simp_all)
      then show ?thesis using Some True same(2,3) by (simp add: get_admin_user_def d'(1) first_row_put)
    next
      case False
      then show ?thesis by (simp add: get_admin_user_def d'(1) first_row_put)
    qed
  qed
  then show ?thesis using d' by (simp add: unmoved_def)
qed

lemma command_needs_admin:
  assumes "command_handler en c sc d = Inr (d', u)"
  shows "as_system_admin sc = Inr () \<or> same_access d d' \<and> same_people d d'"
  using assms
  by (cases c) (auto simp: drop_response_def raise_simps create_department_def patch_department_def deactivate_department_def
      create_organization_user_def patch_organization_user_def deactivate_organization_user_def
      approve_admin_access_request_def reject_admin_access_request_def create_managed_admin_user_def
      patch_managed_admin_user_def transfer_system_admin_def dest!: membership_keeps)

text \<open>A session of a platform administrator shows that nobody is locked out.\<close>

lemma admin_session_not_locked:
  assumes "access_inv d" and "session_of d sc" and "as_system_admin sc = Inr u"
  shows "\<not> locked_out d"
  using assms(2) acting_system_admin [OF assms] by (auto simp: locked_out_def session_of_def)

lemma locked_step:
  assumes inv: "access_inv d" and locked: "locked_out d"
  shows "locked_out (access_step d (en, ev))"
proof (cases ev)
  case Startup
  have some: "system_admins d \<noteq> []" using locked by (auto simp: locked_out_def)
  show ?thesis
  proof (cases rule: committed_cases [of d "configure_startup_system_admin en d"])
    case 1
    then show ?thesis using locked Startup by simp
  next
    case (2 d' x)
    have s: "system_admins d' = system_admins d" "db_organization_users d' = db_organization_users d"
      and u: "db_admin_users d' = db_admin_users d \<or> (\<exists>u \<in> set (db_admin_users d). \<exists>u'. au_user_id u' = au_user_id u
       \<and> au_status u' = au_status u \<and> au_organization_user_id u' = au_organization_user_id u
       \<and> db_admin_users d' = put_row au_user_id u' (db_admin_users d))"
      using startup_effect [OF inv 2(1)] some by blast+
    have "unmoved d d'" using u
    proof
      assume "db_admin_users d' = db_admin_users d"
      then show ?thesis using s by (simp add: unmoved_def get_admin_user_def)
    qed (use put_user_unmoved [OF inv] s in blast)
    then show ?thesis using unmoved_locked [OF _ locked] 2 Startup by simp
  qed
next
  case (Bootstrap b token)
  then show ?thesis using bootstrap_keeps [OF inv] locked
    by (cases rule: committed_cases [of d "bootstrap_admin en d b token"]) (auto simp: locked_out_def)
next
  case (Login email password)
  show ?thesis
  proof (cases rule: committed_cases [of d "login en d email password"])
    case 1
    then show ?thesis using locked Login by simp
  next
    case (2 d' x)
    obtain u u' ss where u: "u \<in> set (db_admin_users d)" "au_user_id u' = au_user_id u" "au_status u' = au_status u"
      "au_organization_user_id u' = au_organization_user_id u"
      and d': "d' = d\<lparr>db_admin_users := put_row au_user_id u' (db_admin_users d), db_admin_sessions := ss\<rparr>"
      using login_effect [OF 2(1)] by metis
    have "unmoved d d'" by (rule put_user_unmoved [OF inv u]) (simp_all add: d' system_admins_def)
    then show ?thesis using unmoved_locked [OF _ locked] 2 Login by simp
  qed
next
  case (Logout cookie)
  then show ?thesis using logout_same [of en d cookie] same_unmoved unmoved_locked locked
    by (cases rule: committed_cases [of d "logout en d cookie"]) auto
next
  case (Request_Access b)
  show ?thesis
  proof (cases rule: committed_cases [of d "create_admin_access_request en b d"])
    case 1
    then show ?thesis using locked Request_Access by simp
  next
    case (2 d' x)
    have "unmoved d d'" using request_access_keeps [OF inv 2(1)]
      by (simp add: unmoved_def system_admins_def get_admin_user_def)
    then show ?thesis using unmoved_locked [OF _ locked] 2 Request_Access by simp
  qed
next
  case (Command cookie c)
  then have step: "access_step d (en, ev) = fst (with_session en d cookie (command_handler en c))" by simp
  show ?thesis
  proof (cases rule: with_session_cases [of en d cookie "command_handler en c"])
    case refused
    then show ?thesis using locked step by simp
  next
    case (failed d1 sc)
    then show ?thesis using unmoved_locked [OF same_unmoved locked] step by simp
  next
    case (returned d1 sc d2 r)
    have l1: "locked_out d1" by (rule unmoved_locked [OF same_unmoved locked]) (rule returned)+
    have "access_inv d1" using same_access_inv [OF returned(1)] inv by simp
    then have "as_system_admin sc \<noteq> Inr ()" using admin_session_not_locked [OF _ returned(3)] l1 by blast
    then have "same_access d1 d2 \<and> same_people d1 d2" using command_needs_admin [of en c sc d1 d2] returned(4) by auto
    then show ?thesis using unmoved_locked [OF same_unmoved l1] returned(5) step by simp
  qed
qed

interpretation lockout: absorbing_machine access_step access_inv locked_out
proof
  fix d e
  assume "access_inv d" and "locked_out d"
  then show "locked_out (access_step d e)" using locked_step by (cases e) simp
qed

end
