(* ===== verification/Access_Safety.thy ===== *)
theory Access_Safety
  imports Access_Control
begin

text \<open>
  What the administration of access guarantees, with the invariant of \<open>Access_Control\<close>: one platform
  administrator who never goes missing, decisions on access requests that stay, rights that are exactly
  those stored for the signed-in administrator; and one way to lose the platform: the platform
  administrator can switch off the organization user of the own account, after which no sequence of
  requests brings a platform administrator back.
\<close>

section \<open>A sample platform\<close>

definition sample_env :: admin_env where
  "sample_env = \<lparr>en_collate = (\<lambda>_. 0), en_lower_like = (\<lambda>_ _. False), en_clock = (\<lambda>n. int n), en_uuid = dec,
     en_uuid_hex = dec, en_token = lit ''t'', en_digest = id, en_hash_password = id,
     en_verify_password = (\<lambda>p h. p = h), en_dump_time = (\<lambda>_. []), en_source_ip = None,
     en_variable = (\<lambda>v. if v = lit ''ADMIN_BOOTSTRAP_TOKEN'' then Some (lit ''b'') else None)\<rparr>"

definition sample_admin :: admin_user where
  "sample_admin = \<lparr>au_user_id = lit ''a'', au_email = lit ''a@b'', au_email_normalized = lit ''a@b'',
     au_display_name = lit ''A'', au_password_hash = lit ''h'', au_admin_access_reason = lit ''r'',
     au_status = lit ''active'', au_created_at = 0, au_updated_at = 0, au_last_login_at = None,
     au_organization_user_id = Some (lit ''o'')\<rparr>"

definition sample_request :: admin_access_request where
  "sample_request = \<lparr>aa_request_id = lit ''q'', aa_user_number = lit ''n'', aa_name = lit ''N'',
     aa_department_id = lit ''d'', aa_email = lit ''n@b'', aa_email_normalized = lit ''n@b'', aa_password_hash = None,
     aa_access_reason = lit ''why'', aa_status = lit ''rejected'', aa_requested_at = 0, aa_decided_at = Some 1,
     aa_decided_by = Some (lit ''a''), aa_decision_reason = Some (lit ''no''), aa_created_user_id = None,
     aa_created_admin_user_id = None\<rparr>"

definition sample_platform :: db where
  "sample_platform = empty_db\<lparr>db_admin_users := [sample_admin],
     db_admin_user_roles := [\<lparr>ar_user_id = lit ''a'', ar_role = lit ''system_admin'', ar_assigned_by = lit ''x'', ar_assigned_at = 0\<rparr>],
     db_organization_users := [\<lparr>ou_id = lit ''o'', ou_user_number = lit ''1'', ou_name = lit ''A'',
       ou_department_id = lit ''d'', ou_use_yn = lit ''Y'', ou_created_by = [], ou_updated_by = [],
       ou_created_at = 0, ou_updated_at = 0\<rparr>],
     db_user_service_roles := [\<lparr>ur_user_id = lit ''a'', ur_service_id = lit ''s'', ur_role = lit ''auditor'',
       ur_assigned_by = lit ''x'', ur_assigned_at = 0\<rparr>],
     db_admin_sessions := [\<lparr>as_session_id = lit ''1'', as_user_id = lit ''a'', as_token_hash = lit ''sha256:t'',
       as_created_at = 0, as_expires_at = 9, as_revoked_at = None, as_last_seen_at = None\<rparr>],
     db_access_requests := [sample_request]\<rparr>"

lemma sample_platform_inv: "access_inv sample_platform" "system_admins sample_platform = [lit ''a'']"
  by (simp_all add: access_inv_def sample_platform_def system_admins_def is_system_admin_role_def sample_admin_def
      sample_request_def decided_request_ok_def access_request_row_ok_def empty_db_def)

lemma sample_user: "get_admin_user sample_platform (lit ''a'') = Some sample_admin"
  by (simp add: get_admin_user_def first_row_def sample_platform_def sample_admin_def empty_db_def)

lemma not_blank_lit: "\<not> is_space (of_char c) \<Longrightarrow> \<not> blank (lit (c # cs))"
  by (simp add: blank_iff lit_def)

definition sample_session_platform :: db where
  "sample_session_platform = sample_platform\<lparr>db_admin_sessions := [\<lparr>as_session_id = lit ''1'', as_user_id = lit ''a'',
     as_token_hash = lit ''sha256:t'', as_created_at = 0, as_expires_at = 9, as_revoked_at = None,
     as_last_seen_at = Some 0\<rparr>]\<rparr>"

definition sample_context :: admin_session_context where
  "sample_context = \<lparr>sc_user = sample_admin, sc_admin_session = hd (db_admin_sessions sample_session_platform),
     sc_global_roles = {lit ''system_admin''}, sc_service_roles = db_user_service_roles sample_platform\<rparr>"

lemma sample_session:
  "require_admin_session_context sample_env sample_platform (Some (lit ''t'')) = (sample_session_platform, Inr sample_context)"
proof -
  have usable: "first_row (session_usable sample_platform (lit ''sha256:t'') 0) (db_admin_sessions sample_platform)
      = Some (hd (db_admin_sessions sample_platform))"
    using sample_user
    by (simp add: first_row_def session_usable_def sample_platform_def empty_db_def sample_admin_def link_usable_def
        linked_organization_user_def get_organization_user_def get_admin_user_def)
  have digest: "token_digest sample_env (lit ''t'') = lit ''sha256:t''"
    by (simp add: token_digest_def sample_env_def lit_def)
  have nb: "\<not> blank (lit ''t'')" "\<not> blank (lit ''sha256:t'')" by (simp_all add: not_blank_lit is_space_def)
  have id: "as_user_id (hd (db_admin_sessions sample_platform)) = lit ''a''"
    by (simp add: sample_platform_def)
  have roles: "set (map ar_role (list_admin_user_roles (\<lambda>_. 0) sample_platform (lit ''a''))) = {lit ''system_admin''}"
    by (simp add: list_admin_user_roles_def sample_platform_def empty_db_def order_by_def)
  have services: "list_service_roles_for_user (\<lambda>_. 0) sample_platform (lit ''a'') = db_user_service_roles sample_platform"
    by (simp add: list_service_roles_for_user_def sample_platform_def empty_db_def order_by_def)
  show ?thesis
    using usable digest nb id roles services sample_user
    by (simp add: require_admin_session_context_def session_context_def hash_admin_session_token_def
        get_active_admin_session_context_def Let_def sample_context_def admin_login_roles_def sample_env_def
        sample_session_platform_def put_row_def update_where_def)
      (simp add: sample_platform_def)
qed

section \<open>Guarantees\<close>

text \<open>
  There is never more than one platform administrator, and once there is one, whatever requests
  arrive, there is always exactly one: no patch, transfer, approval, bootstrap or startup takes the role
  away without giving it to somebody, or gives it to a second person.
\<close>

theorem platform_admin_kept:
  assumes d: "d = fold (\<lambda>e s. access_step s e) es empty_db" and some: "system_admins d \<noteq> []"
  shows "length (system_admins d) = 1 \<and> length (system_admins (fold (\<lambda>e s. access_step s e) fs d)) = 1"
proof -
  have inv: "access_inv d" unfolding d by (rule access.run_inv) simp
  have one: "length (system_admins s) = 1" if "access_inv s" "system_admins s \<noteq> []" for s
    using access_invD(2) [OF that(1)] that(2) by (cases "system_admins s") auto
  show ?thesis
    using one [OF inv some] one [OF access.run_inv [OF inv] access.run_final [OF inv some]] by blast
qed

definition sample_bootstrap :: access_event where
  "sample_bootstrap = Bootstrap \<lparr>bq_user_id = Some (lit ''a''), bq_email = lit ''a@b'', bq_display_name = lit ''A'',
     bq_password = lit ''password''\<rparr> (Some (lit ''b''))"

lemma sample_email: "normalize_admin_email (lit ''a@b'') = Inr (lit ''a@b'')"
  by (simp add: normalize_admin_email_def lit_def lower_ascii strip_def lstrip_def rstrip_def is_space_def)

lemma sample_bootstrapped: "system_admins (access_step empty_db (sample_env, sample_bootstrap)) = [lit ''a'']"
proof -
  have token: "require_bootstrap_token sample_env (Some (lit ''b'')) = Inr ()"
    by (simp add: require_bootstrap_token_def sample_env_def require_def not_blank_lit is_space_def)
  show ?thesis
    by (simp add: sample_bootstrap_def bootstrap_admin_def get_admin_user_by_email_def create_admin_user_def sample_email
      Let_def token admin_user_role_exists_def empty_db_def raise_simps unhandled_def require_nonblank_string_def
      not_blank_lit is_space_def require_allowed_value_def admin_user_statuses_def add_row_def
      assign_admin_user_role_def global_admin_roles_def assert_can_assign_system_admin_def system_admin_user_id_def
      first_row_def system_admins_def is_system_admin_role_def committed_def except_integrity_def or_default_def
      admin_user_ok_def admin_user_role_ok_def)
qed

lemma sample_bootstrap_run:
  "access_step empty_db (sample_env, sample_bootstrap)
   = fold (\<lambda>e s. access_step s e) [(sample_env, sample_bootstrap)] empty_db"
  by (simp only: fold.simps comp_apply id_apply)

theorem platform_admin_kept_witness:
  "length (system_admins (fold (\<lambda>e s. access_step s e) [(sample_env, Startup)]
     (access_step empty_db (sample_env, sample_bootstrap)))) = 1"
proof -
  have "system_admins (access_step empty_db (sample_env, sample_bootstrap)) \<noteq> []"
    by (simp only: sample_bootstrapped list.distinct not_False_eq_True)
  from platform_admin_kept [OF sample_bootstrap_run this] show ?thesis by (rule conjunct2)
qed

text \<open>
  C2: When the platform administrator switches off the organization user that the own account is linked
  to (an ordinary request that no check refuses), the platform has lost its administration for good:
  whatever requests, sign-ins and restarts follow, no session has the role \<open>system_admin\<close> any more, which
  every endpoint that could undo the change demands, and a new administrator cannot be bootstrapped.
\<close>

theorem platform_admin_locked_out:
  fixes fs :: "(admin_env \<times> access_event) list"
  assumes inv: "access_inv d" and owner: "system_admins d = [a]" "get_admin_user d a = Some u"
      "au_organization_user_id u = Some i"
    and off: "with_session en d cookie (deactivate_organization_user en i) = (d', Inr r)"
  defines "later \<equiv> fold (\<lambda>e s. access_step s e) fs d'"
  shows "(case snd (require_admin_session_context en' later cookie') of Inl e \<Rightarrow> True
      | Inr sc \<Rightarrow> \<not> has_role (admin_context_from_session_record sc) (lit ''system_admin''))
    \<and> (\<exists>e. bootstrap_admin en' later b token = Inl e)"
proof -
  obtain d1 sc where sc: "same_access d d1" "same_people d d1" "deactivate_organization_user en i sc d1 = Inr (d', r)"
    using off session_context_Inr require_session_Inr
    by (auto simp: with_session_def split: prod.splits sum.splits) metis
  have same: "same_access d1 d'" using organization_keeps(6) [OF sc(3)] .
  have inv': "access_inv d'" and owner': "system_admins d' = [a]"
    using same_access_inv [OF sc(1)] same_access_inv [OF same] inv owner(1) by simp_all
  have u': "get_admin_user d' a = Some u"
    using owner(2) sc(1) same by (simp add: get_admin_user_def same_access_def)
  obtain v where v: "get_organization_user d1 i = Some v" "db_organization_users d' = put_row ou_id
      (v\<lparr>ou_use_yn := lit ''N'', ou_updated_by := acting sc, ou_updated_at := en_clock en 1\<rparr>) (db_organization_users d1)"
    using sc(3)
    by (auto simp: deactivate_organization_user_def deactivate_organization_user_row_def organization_user_or_404_def
        raise_simps Let_def split: option.splits)
  then have "get_organization_user d' i = Some (v\<lparr>ou_use_yn := lit ''N'', ou_updated_by := acting sc, ou_updated_at := en_clock en 1\<rparr>)"
    using first_row_Some [of "\<lambda>r. ou_id r = i" "db_organization_users d1" v]
    by (simp add: get_organization_user_def first_row_put)
  then have "\<not> link_usable d' u" using owner(3) by (simp add: link_usable_def linked_organization_user_def lit_def)
  then have "locked_out d'" using owner' u' by (auto simp: locked_out_def)
  then have locked: "locked_out later" and inv2: "access_inv later"
    using lockout.run_final [OF inv'] access.run_inv [OF inv'] by (simp_all add: later_def)
  have "\<not> has_role (admin_context_from_session_record q) (lit ''system_admin'')"
    if q: "require_admin_session_context en' later cookie' = (s, Inr q)" for s q
  proof -
    obtain tok where c: "session_context en' later tok = (s, Inr q)" using require_session_Inr [OF q] by blast
    have s: "same_access later s" "same_people later s" "session_of s q" using session_context_Inr [OF c] by simp_all
    have "locked_out s" by (rule unmoved_locked [OF same_unmoved [OF s(1,2)] locked])
    moreover have "access_inv s" using same_access_inv [OF s(1)] inv2 by simp
    ultimately have "as_system_admin q \<noteq> Inr ()" using admin_session_not_locked [OF _ s(3)] by blast
    then show ?thesis by (simp add: as_system_admin_iff has_role_def admin_context_from_session_record_def Let_def)
  qed
  moreover have "\<exists>e. bootstrap_admin en' later b token = Inl e"
    using bootstrap_keeps [OF inv2] locked
    by (cases "bootstrap_admin en' later b token") (auto simp: locked_out_def)
  ultimately show ?thesis by (cases "require_admin_session_context en' later cookie'") (auto split: sum.split)
qed

lemma sample_switched_off: "\<exists>d' r. with_session sample_env sample_platform (Some (lit ''t''))
  (deactivate_organization_user sample_env (lit ''o'')) = (d', Inr r)"
proof -
  have "as_system_admin sample_context = Inr ()" by (simp add: as_system_admin_iff sample_context_def)
  moreover have "get_organization_user sample_session_platform (lit ''o'') \<noteq> None"
    by (simp add: get_organization_user_def first_row_def sample_session_platform_def sample_platform_def)
  ultimately show ?thesis
    using sample_session
    by (auto simp: with_session_def deactivate_organization_user_def organization_user_or_404_def
        deactivate_organization_user_row_def Let_def)
qed

theorem platform_admin_locked_out_witness:
  "\<exists>d' r. with_session sample_env sample_platform (Some (lit ''t'')) (deactivate_organization_user sample_env (lit ''o''))
     = (d', Inr r) \<and> (\<exists>e. bootstrap_admin sample_env (fold (\<lambda>e s. access_step s e) [(sample_env, Startup)] d')
       \<lparr>bq_user_id = None, bq_email = [], bq_display_name = [], bq_password = []\<rparr> None = Inl e)"
  using sample_switched_off
    platform_admin_locked_out [OF sample_platform_inv sample_user, of "lit ''o''"]
  by (fastforce simp: sample_admin_def)

text \<open>
  C3: A session gives exactly the rights that are stored. Whoever is let in by a session cookie is an
  active administrator whose organization user, if any, is active, with a session of that token that is
  neither revoked nor expired; and for every service and set of roles the guard of a service opens
  exactly when the administrator has the role \<open>system_admin\<close> or one of these roles for that service.
\<close>

theorem session_rights:
  assumes "require_admin_session_context en d cookie = (d', Inr sc)"
  defines "cx \<equiv> admin_context_from_session_record sc"
  shows "(\<exists>u token s. cookie = Some token \<and> get_admin_user d (cx_actor_id cx) = Some u \<and> au_status u = lit ''active''
        \<and> link_usable d u \<and> s \<in> set (db_admin_sessions d) \<and> as_user_id s = cx_actor_id cx
        \<and> as_token_hash s = token_digest en token \<and> as_revoked_at s = None \<and> en_clock en 0 < as_expires_at s)
    \<and> (service_guard roles message cx service_id = Inr () \<longleftrightarrow>
        cx_actor_id cx \<in> set (system_admins d)
        \<or> (\<exists>r \<in> set (db_user_service_roles d). ur_user_id r = cx_actor_id cx \<and> ur_service_id r = service_id \<and> ur_role r \<in> roles))"
proof -
  obtain token where t: "cookie = Some token" "session_context en d token = (d', Inr sc)"
    using require_session_Inr [OF assms(1)] by blast
  have s: "same_access d d'" "same_people d d'" "session_of d' sc"
    and used: "\<exists>s \<in> set (db_admin_sessions d). as_token_hash s = token_digest en token \<and> as_revoked_at s = None
      \<and> en_clock en 0 < as_expires_at s \<and> as_user_id s = au_user_id (sc_user sc)"
    and d': "d' = d\<lparr>db_admin_sessions := db_admin_sessions d'\<rparr>"
    using session_context_Inr [OF t(2)] by blast+
  have "db_user_service_roles (d\<lparr>db_admin_sessions := x\<rparr>) = db_user_service_roles d" for x by simp
  then have same: "db_user_service_roles d' = db_user_service_roles d" using d' by metis
  have actor: "cx_actor_id cx = au_user_id (sc_user sc)"
    by (simp add: cx_def admin_context_from_session_record_def Let_def)
  have roles: "roles_for (fold add_service_role rows m) x = roles_for m x \<union> ur_role ` {r \<in> set rows. ur_service_id r = x}"
    for rows m x
    by (induction rows arbitrary: m) (auto simp: add_service_role_def roles_for_def dict_simps split: option.splits)
  have guard: "service_guard roles message cx service_id = Inr () \<longleftrightarrow> lit ''system_admin'' \<in> sc_global_roles sc
      \<or> (\<exists>r \<in> set (sc_service_roles sc). ur_service_id r = service_id \<and> ur_role r \<in> roles)"
    using roles [of "sc_service_roles sc" "[]" service_id]
    by (auto simp: service_guard_def raise_simps has_role_def has_any_service_role_def cx_def
        admin_context_from_session_record_def Let_def roles_for_def)
  have "lit ''system_admin'' \<in> sc_global_roles sc \<longleftrightarrow> cx_actor_id cx \<in> set (system_admins d)"
  proof -
    have rows: "db_admin_user_roles d' = db_admin_user_roles d" using s(1) by (simp add: same_access_def)
    have "sc_global_roles sc = ar_role ` {r \<in> set (db_admin_user_roles d). ar_user_id r = cx_actor_id cx}"
      using s(3) by (simp add: session_of_def actor rows)
    then show ?thesis by (auto simp: system_admins_in image_iff)
  qed
  moreover have "set (sc_service_roles sc) = {r \<in> set (db_user_service_roles d). ur_user_id r = cx_actor_id cx}"
    using s same by (simp add: session_of_def actor)
  moreover have user: "get_admin_user d (cx_actor_id cx) = Some (sc_user sc)" "link_usable d (sc_user sc)"
    "au_status (sc_user sc) = lit ''active''"
    using s link_usable_cong [of d' d "sc_user sc"]
    by (simp_all add: session_of_def same_access_def same_people_def get_admin_user_def actor)
  ultimately have rights: "service_guard roles message cx service_id = Inr () \<longleftrightarrow> cx_actor_id cx \<in> set (system_admins d)
      \<or> (\<exists>r \<in> set (db_user_service_roles d). ur_user_id r = cx_actor_id cx \<and> ur_service_id r = service_id \<and> ur_role r \<in> roles)"
    using guard by blast
  obtain x where "x \<in> set (db_admin_sessions d)" "as_token_hash x = token_digest en token" "as_revoked_at x = None"
    "en_clock en 0 < as_expires_at x" "as_user_id x = cx_actor_id cx"
    using used actor by auto
  with user t(1) rights show ?thesis by blast
qed

theorem session_rights_witness:
  "service_guard {lit ''service_owner''} ''no'' (admin_context_from_session_record sample_context) (lit ''s'') = Inr ()"
  using session_rights [OF sample_session, of "{lit ''service_owner''}" "''no''" "lit ''s''"] sample_platform_inv(2)
  by (simp add: admin_context_from_session_record_def sample_context_def sample_admin_def Let_def)

text \<open>
  C17: On a platform that started without access requests, whatever requests arrived since: a decided request names who
  decided, keeps no password hash, and no later request changes any of it. Every decision was made by the command that
  approves or rejects this request, in a session of the platform administrator, whose account it names with the reason
  that was given, and on a request that was pending.
\<close>

theorem access_decision_final:
  assumes inv: "access_inv d0" and none: "db_access_requests d0 = []" and d: "d = fold (\<lambda>e s. access_step s e) es d0"
  shows "(\<forall>r \<in> set (db_access_requests d). aa_status r \<noteq> lit ''pending'' \<longrightarrow>
        aa_decided_by r \<noteq> None \<and> aa_password_hash r = None
        \<and> r \<in> set (db_access_requests (fold (\<lambda>e s. access_step s e) fs d)))
    \<and> (\<forall>r \<in> set (db_access_requests (access_step d (en, ev))). aa_status r \<noteq> lit ''pending'' \<longrightarrow>
        r \<in> set (db_access_requests d)
        \<or> (\<exists>cookie why d1 sc. require_admin_session_context en d cookie = (d1, Inr sc) \<and> system_admins d = [acting sc]
            \<and> (ev = Command cookie (Approve_Access (aa_request_id r) why) \<and> aa_status r = lit ''approved''
               \<or> ev = Command cookie (Reject_Access (aa_request_id r) why) \<and> aa_status r = lit ''rejected'')
            \<and> aa_decided_by r = Some (acting sc) \<and> aa_decision_reason r = Some why
            \<and> (\<exists>q \<in> set (db_access_requests d). aa_request_id q = aa_request_id r \<and> aa_status q = lit ''pending'')))"
proof (intro conjI ballI impI)
  have reached: "access_inv d" unfolding d by (rule access.run_inv [OF inv])
  show "aa_decided_by r \<noteq> None" "aa_password_hash r = None"
    "r \<in> set (db_access_requests (fold (\<lambda>e s. access_step s e) fs d))"
    if r: "r \<in> set (db_access_requests d)" "aa_status r \<noteq> lit ''pending''" for r
  proof -
    have "decided_request_ok r" using access_invD(5) [OF reached] r(1) by (simp add: list_all_iff)
    then show "aa_decided_by r \<noteq> None" "aa_password_hash r = None"
      using r(2) by (simp_all add: decided_request_ok_def access_request_row_ok_def)
    have "decided_in r (fold (\<lambda>e s. access_step s e) fs d)"
      by (rule decided.run_final [OF reached]) (simp add: decided_in_def r)
    then show "r \<in> set (db_access_requests (fold (\<lambda>e s. access_step s e) fs d))" by (simp add: decided_in_def)
  qed
  fix r
  assume r: "r \<in> set (db_access_requests (access_step d (en, ev)))" "aa_status r \<noteq> lit ''pending''"
  show "r \<in> set (db_access_requests d)
        \<or> (\<exists>cookie why d1 sc. require_admin_session_context en d cookie = (d1, Inr sc) \<and> system_admins d = [acting sc]
            \<and> (ev = Command cookie (Approve_Access (aa_request_id r) why) \<and> aa_status r = lit ''approved''
               \<or> ev = Command cookie (Reject_Access (aa_request_id r) why) \<and> aa_status r = lit ''rejected'')
            \<and> aa_decided_by r = Some (acting sc) \<and> aa_decision_reason r = Some why
            \<and> (\<exists>q \<in> set (db_access_requests d). aa_request_id q = aa_request_id r \<and> aa_status q = lit ''pending''))"
    using access_step_decides [OF reached r(1) _ r(2)] unfolding decided_under_def by blast
qed

text \<open>Somebody asks for access and is rejected.\<close>

definition asking_platform :: db where
  "asking_platform = sample_platform\<lparr>db_access_requests := [], db_departments := [\<lparr>dp_id = lit ''d'',
     dp_dept_number = lit ''1'', dp_name = lit ''D'', dp_use_yn = lit ''Y'', dp_created_by = [], dp_updated_by = [],
     dp_created_at = 0, dp_updated_at = 0\<rparr>]\<rparr>"

definition asking :: access_request_body where
  "asking = \<lparr>ab_user_number = lit ''n'', ab_name = lit ''N'', ab_department_id = lit ''d'', ab_email = lit ''n@b'',
     ab_password = lit ''password'', ab_access_reason = lit ''why''\<rparr>"

definition asked :: admin_access_request where
  "asked = sample_request\<lparr>aa_request_id := dec 0, aa_password_hash := Some (lit ''password''), aa_status := lit ''pending'',
     aa_decided_at := None, aa_decided_by := None, aa_decision_reason := None\<rparr>"

definition later_env :: admin_env where
  "later_env = sample_env\<lparr>en_uuid := (\<lambda>n. dec (n + 7))\<rparr>"

lemma asked_step: "\<exists>l. al_audit_id l = dec 1 \<and> access_step asking_platform (sample_env, Request_Access asking)
    = asking_platform\<lparr>db_access_requests := [asked], db_audit_logs := [l]\<rparr>"
proof -
  have email: "normalize_admin_email (lit ''n@b'') = Inr (lit ''n@b'')" "strip (lit ''n@b'') = lit ''n@b''"
    "strip (lit ''n'') = lit ''n''"
    by (simp_all add: normalize_admin_email_def lit_def lower_ascii strip_def lstrip_def rstrip_def is_space_def)
  show ?thesis
    by (simp add: create_admin_access_request_def require_active_department_def department_or_404_def get_department_def
        asking_platform_def asking_def first_row_def get_organization_user_by_user_number_def get_admin_user_by_email_def
        email require_nonblank_string_def not_blank_lit is_space_def unhandled_def sample_platform_def sample_admin_def
        empty_db_def sample_env_def create_admin_access_request_row_def require_allowed_value_def
        admin_access_request_statuses_def add_row_def access_request_row_ok_def except_integrity_def audit_def
        insert_audit_log_def insert_row_def committed_def asked_def sample_request_def Let_def)
qed

lemma asking_session:
  assumes "d = asking_platform\<lparr>db_access_requests := rs, db_audit_logs := ls\<rparr>"
  shows "\<exists>d1. require_admin_session_context later_env d (Some (lit ''t'')) = (d1, Inr sample_context)
    \<and> db_access_requests d1 = rs \<and> db_audit_logs d1 = ls"
proof -
  have user: "get_admin_user d (lit ''a'') = Some sample_admin"
    using sample_user by (simp add: assms asking_platform_def get_admin_user_def)
  have usable: "first_row (session_usable d (lit ''sha256:t'') 0) (db_admin_sessions sample_platform)
      = Some (hd (db_admin_sessions sample_platform))"
    using user by (simp add: first_row_def session_usable_def sample_platform_def sample_admin_def link_usable_def
        linked_organization_user_def get_organization_user_def assms asking_platform_def)
  have digest: "token_digest later_env (lit ''t'') = lit ''sha256:t''"
    by (simp add: token_digest_def later_env_def sample_env_def lit_def)
  have nb: "\<not> blank (lit ''t'')" "\<not> blank (lit ''sha256:t'')" by (simp_all add: not_blank_lit is_space_def)
  have id: "as_user_id (hd (db_admin_sessions sample_platform)) = lit ''a''" by (simp add: sample_platform_def)
  have roles: "set (map ar_role (list_admin_user_roles (\<lambda>_. 0) d (lit ''a''))) = {lit ''system_admin''}"
    by (simp add: list_admin_user_roles_def sample_platform_def order_by_def assms asking_platform_def)
  have services: "list_service_roles_for_user (\<lambda>_. 0) d (lit ''a'') = db_user_service_roles sample_platform"
    by (simp add: list_service_roles_for_user_def sample_platform_def order_by_def assms asking_platform_def)
  have sessions: "db_admin_sessions d = db_admin_sessions sample_platform" "db_access_requests d = rs" "db_audit_logs d = ls"
    by (simp_all add: assms asking_platform_def)
  show ?thesis
    using usable digest nb id roles services user sessions
    by (simp add: require_admin_session_context_def session_context_def hash_admin_session_token_def
        get_active_admin_session_context_def Let_def sample_context_def admin_login_roles_def later_env_def sample_env_def
        sample_session_platform_def)
      (simp add: sample_platform_def)
qed

theorem access_decision_final_witness:
  "\<exists>d' r. access_step (access_step asking_platform (sample_env, Request_Access asking))
      (later_env, Command (Some (lit ''t'')) (Reject_Access (dec 0) (lit ''no''))) = d'
    \<and> r \<in> set (db_access_requests d') \<and> aa_status r = lit ''rejected'' \<and> aa_decided_by r = Some (lit ''a'')"
proof -
  obtain l where l: "al_audit_id l = dec 1" and asked: "access_step asking_platform (sample_env, Request_Access asking)
    = asking_platform\<lparr>db_access_requests := [asked], db_audit_logs := [l]\<rparr>" using asked_step by blast
  let ?d = "asking_platform\<lparr>db_access_requests := [asked], db_audit_logs := [l]\<rparr>"
  let ?ev = "Command (Some (lit ''t'')) (Reject_Access (dec 0) (lit ''no''))"
  obtain d1 where s: "require_admin_session_context later_env ?d (Some (lit ''t'')) = (d1, Inr sample_context)"
    "db_access_requests d1 = [asked]" "db_audit_logs d1 = [l]" using asking_session [OF refl] by blast
  have "access_inv asking_platform"
    by (simp add: access_inv_def asking_platform_def sample_platform_def system_admins_def is_system_admin_role_def
        sample_admin_def)
  moreover have "db_access_requests asking_platform = []" by (simp add: asking_platform_def)
  moreover have "?d = fold (\<lambda>e s. access_step s e) [(sample_env, Request_Access asking)] asking_platform" using asked by simp
  moreover have "\<exists>r \<in> set (db_access_requests (access_step ?d (later_env, ?ev))). aa_status r = lit ''rejected''"
  proof -
    have admin: "as_system_admin sample_context = Inr ()" by (simp add: as_system_admin_iff sample_context_def)
    have acting: "au_user_id (sc_user sample_context) = lit ''a''" by (simp add: sample_context_def sample_admin_def)
    have "dec 8 \<noteq> dec 1" using int_of_decimal_dec [of 8] int_of_decimal_dec [of 1] by force
    then have fresh: "en_uuid later_env (Suc 0) \<noteq> al_audit_id l" by (simp add: later_env_def l)
    have "\<exists>d2 x. reject_admin_access_request later_env (dec 0) (lit ''no'') sample_context d1 = Inr (d2, x)
        \<and> (\<exists>r \<in> set (db_access_requests d2). aa_status r = lit ''rejected'')"
      by (simp add: reject_admin_access_request_def admin acting s get_admin_access_request_def first_row_def asked_def
          reject_admin_access_request_row_def require_pending_admin_access_request_def require_nonblank_string_def
          not_blank_lit is_space_def put_access_request_def change_row_def access_request_row_ok_def
          access_request_conflict_def put_row_def update_where_def audit_def insert_audit_log_def insert_row_def fresh
          unhandled_def Let_def sample_request_def)
    then show ?thesis by (auto simp: with_session_def s(1) drop_response_def)
  qed
  ultimately obtain r where "r \<in> set (db_access_requests (access_step ?d (later_env, ?ev)))" "aa_status r = lit ''rejected''"
    "r \<in> set (db_access_requests ?d) \<or> aa_decided_by r = Some (lit ''a'')"
    using access_decision_final [of asking_platform ?d "[(sample_env, Request_Access asking)]" "[]" later_env ?ev] s(1)
      acting_user [of sample_context] by (auto simp: sample_context_def sample_admin_def)
  then show ?thesis unfolding asked by (auto simp: asked_def)
qed

section \<open>Errors that no handler catches\<close>

text \<open>
  The sign-in form accepts an email of three or more blanks, whose normalization raises; and an
  administrator created with the role \<open>system_admin\<close> while somebody holds it makes the repository raise,
  where the patch of an administrator answers 409.
\<close>

lemma login_blank_email: "list_all is_space email \<Longrightarrow> login en d email password = Inl (Unhandled Email_Blank)"
  using blank_iff [of email]
  by (simp add: login_def get_login_eligible_admin_user_by_email_def normalize_admin_email_def blank_def unhandled_def Let_def)

lemma second_platform_admin_unhandled:
  assumes "x \<in> set (system_admins d)" and "system_admins d = [x]" and "user \<noteq> x" and "\<not> blank user"
  shows "grant_roles sc user now [lit ''system_admin''] d = Inl System_Admin_Exists"
proof -
  have "get_admin_user_role d user (lit ''system_admin'') = None"
    using assms(2,3) system_admins_in [of user d] by (auto simp: get_admin_user_role_def first_row_None)
  moreover have "system_admin_user_id d = Some x"
  proof -
    obtain r where r: "first_row (\<lambda>r. ar_role r = lit ''system_admin'') (db_admin_user_roles d) = Some r"
      using assms(1) by (cases "first_row (\<lambda>r. ar_role r = lit ''system_admin'') (db_admin_user_roles d)")
        (auto simp: first_row_None system_admins_in)
    then have "ar_user_id r \<in> set (system_admins d)" using first_row_Some [OF r] by (auto simp: system_admins_in)
    then show ?thesis using r assms(2) by (simp add: system_admin_user_id_def)
  qed
  ultimately show ?thesis
    using assms(3,4) by (simp add: grant_roles_def ensure_admin_user_role_def assign_admin_user_role_def
        require_allowed_value_def global_admin_roles_def require_nonblank_string_def assert_can_assign_system_admin_def)
qed

end
