(* ===== verification/Releases.thy ===== *)
theory Releases
  imports Store Clock
begin

text \<open>
  \<open>versions/releases.py\<close>: validation, creation, comparison, activation and rollback of releases. The two
  exception classes of the module are told apart by \<open>is_dependency_error\<close>; the handlers answer 404 to
  the first and 400 to the second. Advisory locks serialise the creations: an operation here is one
  transaction that runs alone.
\<close>

datatype release_error =
    Bad_Environment | Policy_Missing | Catalog_Missing | Catalog_Inactive | Test_Run_Missing
  | Gate_Not_Passed | No_Risk_Cases | Risk_Case_Failed | Policy_Mismatch | Catalog_Mismatch
  | Rollback_Target_Missing | Already_Released | No_Ready_Index | Model_Mismatch | Index_Mismatch
  | Release_Missing | Compare_Missing | No_Rollback_Target
  | Release_Store repo_error

fun is_dependency_error :: "release_error \<Rightarrow> bool" where
  "is_dependency_error Policy_Missing = True"
| "is_dependency_error Catalog_Missing = True"
| "is_dependency_error Test_Run_Missing = True"
| "is_dependency_error Rollback_Target_Missing = True"
| "is_dependency_error Release_Missing = True"
| "is_dependency_error Compare_Missing = True"
| "is_dependency_error _ = False"

definition supported_runtime_environments :: "str list" where
  "supported_runtime_environments = [lit ''dev'', lit ''qa'', lit ''prod'']"

section \<open>Identifiers\<close>

definition sequence_of :: "str \<Rightarrow> nat" where
  "sequence_of version =
     (let suffix = rpartition_suffix 45 version
      in if rpartition_found 45 version \<and> isdecimal suffix then int_of_decimal suffix else 0)"

definition next_sequence :: "str list \<Rightarrow> str" where
  "next_sequence existing = zero_pad 3 (fold (\<lambda>v m. max m (sequence_of v)) existing 0 + 1)"

definition release_prefix :: "str \<Rightarrow> timestamp \<Rightarrow> str" where
  "release_prefix service_id now = lit ''rel-'' @ service_id @ lit ''-'' @ compact_date now @ lit ''-''"

definition release_version_id :: "(str \<Rightarrow> nat) \<Rightarrow> db \<Rightarrow> str \<Rightarrow> timestamp \<Rightarrow> str" where
  "release_version_id collate d service_id now =
     release_prefix service_id now
     @ next_sequence (list_release_versions_by_prefix collate d service_id (release_prefix service_id now))"

section \<open>Validation and creation\<close>

record release_dependencies =
  dep_policy :: policy_version
  dep_catalog :: intent_catalog_version
  dep_test_run :: test_run

definition validate_release_inputs ::
  "(str \<Rightarrow> nat) \<Rightarrow> db \<Rightarrow> str \<Rightarrow> str \<Rightarrow> str \<Rightarrow> str \<Rightarrow> str \<Rightarrow> str option
    \<Rightarrow> (release_error, release_dependencies) outcome" where
  "validate_release_inputs collate d service_id environment policy_version catalog_version test_run_id
     rollback_target =
     bindE (require (environment \<in> set supported_runtime_environments) Bad_Environment) (\<lambda>_.
     bindE (some_or (get_policy_version d service_id policy_version) Policy_Missing) (\<lambda>policy.
     bindE (some_or (get_catalog_version d service_id catalog_version) Catalog_Missing) (\<lambda>catalog.
     bindE (require (cv_status catalog = lit ''active'') Catalog_Inactive) (\<lambda>_.
     bindE (some_or (get_test_run d test_run_id) Test_Run_Missing) (\<lambda>run.
     bindE (require (tr_service_id run = service_id) Test_Run_Missing) (\<lambda>_.
     bindE (require (tr_gate_passed run) Gate_Not_Passed) (\<lambda>_.
     let risk_results = filter (\<lambda>r. ts_case_type r = lit ''risk'') (list_test_results collate d test_run_id) in
     bindE (require (risk_results \<noteq> []) No_Risk_Cases) (\<lambda>_.
     bindE (require (\<not> list_ex (\<lambda>r. ts_result r \<noteq> lit ''PASS'') risk_results) Risk_Case_Failed) (\<lambda>_.
     bindE (require (tr_policy_version run = policy_version) Policy_Mismatch) (\<lambda>_.
     bindE (require (tr_intent_catalog_version run = catalog_version) Catalog_Mismatch) (\<lambda>_.
     bindE (case rollback_target of None \<Rightarrow> Inr () | Some t \<Rightarrow>
         bindE (some_or (get_release d service_id t) Rollback_Target_Missing) (\<lambda>target.
         require (rel_environment target = environment) Rollback_Target_Missing)) (\<lambda>_.
     Inr \<lparr>dep_policy = policy, dep_catalog = catalog, dep_test_run = run\<rparr>))))))))))))"

definition agrees :: "str option \<Rightarrow> str \<Rightarrow> bool" where
  "agrees recorded selected \<longleftrightarrow> recorded = None \<or> recorded = Some selected"

definition create_release ::
  "(str \<Rightarrow> nat) \<Rightarrow> db \<Rightarrow> str \<Rightarrow> str \<Rightarrow> str \<Rightarrow> str \<Rightarrow> str \<Rightarrow> str \<Rightarrow> str option \<Rightarrow> str \<Rightarrow> timestamp
    \<Rightarrow> (release_error, db \<times> release) outcome" where
  "create_release collate d service_id environment policy_version catalog_version model_version test_run_id
     rollback_target released_by now =
     bindE (validate_release_inputs collate d service_id environment policy_version catalog_version
       test_run_id rollback_target) (\<lambda>deps.
     bindE (require (get_release_for_test_run_environment d service_id environment test_run_id = None)
       Already_Released) (\<lambda>_.
     bindE (some_or (get_ready_vector_index_version collate d service_id catalog_version (Some model_version))
       No_Ready_Index) (\<lambda>index.
     let run = dep_test_run deps in
     bindE (require (agrees (tr_model_version run) (vi_model_version index)) Model_Mismatch) (\<lambda>_.
     bindE (require (agrees (tr_vector_index_version run) (vi_vector_index_version index)) Index_Mismatch) (\<lambda>_.
     lift_error Release_Store (insert_release d
       \<lparr>rel_release_version = release_version_id collate d service_id now, rel_service_id = service_id,
        rel_environment = environment, rel_policy_version = policy_version,
        rel_intent_catalog_version = catalog_version, rel_model_version = vi_model_version index,
        rel_vector_index_version = vi_vector_index_version index,
        rel_test_dataset_version = tr_test_dataset_version run, rel_test_run_id = test_run_id,
        rel_pass_rate = tr_pass_rate run, rel_risk_pass_rate = tr_risk_pass_rate run, rel_active = False,
        rel_released_by = released_by, rel_released_at = now, rel_rollback_target = rollback_target\<rparr>))))))"

section \<open>Comparison\<close>

record version_change =
  vc_from :: "str option"
  vc_to :: str
  vc_changed :: bool

record test_run_change =
  tc_from :: "str option"
  tc_to :: str
  tc_pass_rate :: float64
  tc_risk_pass_rate :: float64
  tc_gate_passed :: bool

record release_diff =
  rd_service_id :: str
  rd_release_version :: str
  rd_compare_to :: "str option"
  rd_policy :: version_change
  rd_catalog :: version_change
  rd_model :: version_change
  rd_test_run :: test_run_change
  rd_rollback_target :: "str option"

definition version_change_of :: "release option \<Rightarrow> release \<Rightarrow> (release \<Rightarrow> str) \<Rightarrow> version_change" where
  "version_change_of baseline candidate col =
     \<lparr>vc_from = map_option col baseline, vc_to = col candidate,
      vc_changed = (case baseline of None \<Rightarrow> True | Some b \<Rightarrow> col b \<noteq> col candidate)\<rparr>"

definition build_release_diff ::
  "db \<Rightarrow> str \<Rightarrow> str \<Rightarrow> str option \<Rightarrow> (release_error, release_diff) outcome" where
  "build_release_diff d service_id release_version compare_to =
     bindE (some_or (get_release d service_id release_version) Release_Missing) (\<lambda>candidate.
     let baseline = (case compare_to of Some v \<Rightarrow> get_release d service_id v
           | None \<Rightarrow> get_active_release d service_id (rel_environment candidate)) in
     bindE (require (\<not> (baseline = None \<and> compare_to \<noteq> None)) Compare_Missing) (\<lambda>_.
     Inr \<lparr>rd_service_id = service_id, rd_release_version = rel_release_version candidate,
          rd_compare_to = map_option rel_release_version baseline,
          rd_policy = version_change_of baseline candidate rel_policy_version,
          rd_catalog = version_change_of baseline candidate rel_intent_catalog_version,
          rd_model = version_change_of baseline candidate rel_model_version,
          rd_test_run = \<lparr>tc_from = map_option rel_test_run_id baseline, tc_to = rel_test_run_id candidate,
            tc_pass_rate = rel_pass_rate candidate, tc_risk_pass_rate = rel_risk_pass_rate candidate,
            tc_gate_passed = True\<rparr>,
          rd_rollback_target = rel_rollback_target candidate\<rparr>))"

section \<open>Activation and rollback\<close>

definition opt_json :: "str option \<Rightarrow> json" where
  "opt_json v = (case v of None \<Rightarrow> JNull | Some s \<Rightarrow> JStr s)"

definition release_after_state :: "release \<Rightarrow> (str \<times> json) list" where
  "release_after_state r =
     [(lit ''release_version'', JStr (rel_release_version r)), (lit ''service_id'', JStr (rel_service_id r)),
      (lit ''environment'', JStr (rel_environment r)), (lit ''policy_version'', JStr (rel_policy_version r)),
      (lit ''intent_catalog_version'', JStr (rel_intent_catalog_version r)),
      (lit ''model_version'', JStr (rel_model_version r)),
      (lit ''vector_index_version'', JStr (rel_vector_index_version r)),
      (lit ''test_dataset_version'', JStr (rel_test_dataset_version r)),
      (lit ''test_run_id'', JStr (rel_test_run_id r)), (lit ''pass_rate'', JFloat (rel_pass_rate r)),
      (lit ''risk_pass_rate'', JFloat (rel_risk_pass_rate r)), (lit ''active'', JBool (rel_active r)),
      (lit ''released_by'', JStr (rel_released_by r)),
      (lit ''released_at'', JStr (isoformat (rel_released_at r))),
      (lit ''rollback_target'', opt_json (rel_rollback_target r))]"

definition activate_release ::
  "db \<Rightarrow> str \<Rightarrow> str \<Rightarrow> (release_error, db \<times> (str \<times> json) list \<times> release) outcome" where
  "activate_release d service_id release_version =
     bindE (some_or (get_release d service_id release_version) Release_Missing) (\<lambda>r.
     bindE (lift_error Release_Store
       (set_active_release d service_id (rel_environment r) (rel_release_version r))) (\<lambda>d'.
     Inr (d', release_after_state r, r\<lparr>rel_active := True\<rparr>)))"

definition rollback_release ::
  "db \<Rightarrow> str \<Rightarrow> str \<Rightarrow> (release_error, db \<times> release \<times> (str \<times> json) list \<times> release) outcome" where
  "rollback_release d service_id release_version =
     bindE (some_or (get_release d service_id release_version) Release_Missing) (\<lambda>r.
     bindE (some_or (rel_rollback_target r) No_Rollback_Target) (\<lambda>target_version.
     bindE (some_or (get_release d service_id target_version) Rollback_Target_Missing) (\<lambda>target.
     bindE (require (rel_environment target = rel_environment r) Rollback_Target_Missing) (\<lambda>_.
     bindE (lift_error Release_Store
       (set_active_release d service_id (rel_environment target) (rel_release_version target))) (\<lambda>d'.
     Inr (d', r\<lparr>rel_active := (rel_release_version r = rel_release_version target)\<rparr>,
          release_after_state target, target\<lparr>rel_active := True\<rparr>))))))"

section \<open>Fresh identifiers\<close>

lemma last_dash_eq:
  assumes "(45::nat) \<notin> set a" and "45 \<notin> set b" and eq: "xs @ 45 # a = ys @ 45 # b"
  shows "xs = ys \<and> a = b"
proof -
  have "a = b"
    using rpartition_suffix_append [OF assms(1), of xs] rpartition_suffix_append [OF assms(2), of ys] eq by simp
  then show ?thesis using eq by simp
qed

lemma release_prefix_dash: "release_prefix s t @ x = (lit ''rel-'' @ s) @ 45 # compact_date t @ 45 # x"
  by (simp add: release_prefix_def lit_def)

text \<open>The service and the day of an identifier can be read back from it.\<close>

lemma release_version_inject:
  assumes "45 \<notin> set x" and "45 \<notin> set y" and "release_prefix s t @ x = release_prefix s' t' @ y"
  shows "s = s' \<and> compact_date t = compact_date t' \<and> x = y"
proof -
  have "((lit ''rel-'' @ s) @ 45 # compact_date t) @ 45 # x
      = ((lit ''rel-'' @ s') @ 45 # compact_date t') @ 45 # y"
    using assms(3) by (simp add: release_prefix_dash)
  then have "(lit ''rel-'' @ s) @ 45 # compact_date t = (lit ''rel-'' @ s') @ 45 # compact_date t'" "x = y"
    using last_dash_eq [OF assms(1,2)] by blast+
  then show ?thesis
    using last_dash_eq [OF compact_date_no_dash compact_date_no_dash] by fastforce
qed

lemma sequence_of_release [simp]: "sequence_of (release_prefix s t @ zero_pad 3 n) = n"
proof -
  have eq: "release_prefix s t @ zero_pad 3 n = (lit ''rel-'' @ s @ 45 # compact_date t) @ 45 # zero_pad 3 n"
    by (simp add: release_prefix_dash)
  have "rpartition_suffix 45 (release_prefix s t @ zero_pad 3 n) = zero_pad 3 n"
    unfolding eq by (rule rpartition_suffix_append [OF zero_pad_no_dash])
  moreover have "rpartition_found 45 (release_prefix s t @ zero_pad 3 n)"
    unfolding eq rpartition_found_def by simp
  ultimately show ?thesis by (simp add: sequence_of_def)
qed

lemma fold_max_sequence: "v \<in> set vs \<or> sequence_of v \<le> m \<Longrightarrow> sequence_of v \<le> fold (\<lambda>v m. max m (sequence_of v)) vs m"
proof (induction vs arbitrary: m)
  case Nil
  then show ?case by simp
next
  case (Cons a vs)
  have "sequence_of v \<le> fold (\<lambda>v m. max m (sequence_of v)) vs (max m (sequence_of a))"
    by (rule Cons.IH) (use Cons.prems in auto)
  then show ?case by simp
qed

lemma list_release_versions_by_prefix_set:
  "set (list_release_versions_by_prefix collate d s p)
     = {v. \<exists>r \<in> set (db_releases d). rel_service_id r = s \<and> prefix p (rel_release_version r) \<and> v = rel_release_version r}"
  by (auto simp: list_release_versions_by_prefix_def)

definition generated_id :: "release \<Rightarrow> bool" where
  "generated_id r \<longleftrightarrow> (\<exists>t n. rel_release_version r = release_prefix (rel_service_id r) t @ zero_pad 3 n)"

lemma release_version_id_shape:
  "\<exists>n. release_version_id collate d s t = release_prefix s t @ zero_pad 3 n
    \<and> (\<forall>r \<in> set (db_releases d). rel_service_id r = s \<and> prefix (release_prefix s t) (rel_release_version r)
         \<longrightarrow> sequence_of (rel_release_version r) < n)"
proof -
  let ?vs = "list_release_versions_by_prefix collate d s (release_prefix s t)"
  let ?m = "fold (\<lambda>v m. max m (sequence_of v)) ?vs 0"
  have "sequence_of (rel_release_version r) < ?m + 1"
    if "r \<in> set (db_releases d)" "rel_service_id r = s" "prefix (release_prefix s t) (rel_release_version r)" for r
  proof -
    have "rel_release_version r \<in> set ?vs"
      using that unfolding list_release_versions_by_prefix_set by blast
    then show ?thesis using fold_max_sequence [of "rel_release_version r" ?vs 0] by simp
  qed
  then show ?thesis unfolding release_version_id_def next_sequence_def by blast
qed

lemma release_version_id_fresh:
  assumes gen: "\<forall>r \<in> set (db_releases d). generated_id r"
  shows "release_version_id collate d s t \<notin> rel_release_version ` set (db_releases d)"
proof
  assume "release_version_id collate d s t \<in> rel_release_version ` set (db_releases d)"
  then obtain r where r: "r \<in> set (db_releases d)" "rel_release_version r = release_version_id collate d s t"
    by auto
  obtain n where n: "release_version_id collate d s t = release_prefix s t @ zero_pad 3 n"
      "\<forall>r \<in> set (db_releases d). rel_service_id r = s \<and> prefix (release_prefix s t) (rel_release_version r)
         \<longrightarrow> sequence_of (rel_release_version r) < n"
    using release_version_id_shape by blast
  obtain t' n' where r': "rel_release_version r = release_prefix (rel_service_id r) t' @ zero_pad 3 n'"
    using gen r(1) by (auto simp: generated_id_def)
  have "rel_service_id r = s"
    using release_version_inject [OF zero_pad_no_dash zero_pad_no_dash] r(2) r' n(1) by metis
  then show False using n r by fastforce
qed

section \<open>The invariant of releases\<close>

text \<open>The evidence of a release: its test run passed the gate on the same versions, and its risk cases passed.\<close>

definition release_evidence :: "db \<Rightarrow> release \<Rightarrow> bool" where
  "release_evidence d r \<longleftrightarrow>
     (\<exists>run \<in> set (db_test_runs d). tr_test_run_id run = rel_test_run_id r \<and> tr_service_id run = rel_service_id r
        \<and> tr_gate_passed run \<and> tr_policy_version run = rel_policy_version r
        \<and> tr_intent_catalog_version run = rel_intent_catalog_version r)
     \<and> (\<exists>q. (rel_test_run_id r, q) \<in> set (db_test_results d) \<and> ts_case_type q = lit ''risk'')
     \<and> (\<forall>q. (rel_test_run_id r, q) \<in> set (db_test_results d) \<longrightarrow> ts_case_type q = lit ''risk''
          \<longrightarrow> ts_result q = lit ''PASS'')"

definition release_scope :: "release \<Rightarrow> str \<times> str \<times> str" where
  "release_scope r = (rel_service_id r, rel_environment r, rel_test_run_id r)"

definition releases_inv :: "db \<Rightarrow> bool" where
  "releases_inv d \<longleftrightarrow>
     distinct (map rel_release_version (db_releases d)) \<and> distinct (map release_scope (db_releases d))
     \<and> (\<forall>r \<in> set (db_releases d). generated_id r \<and> release_evidence d r)
     \<and> (\<forall>r \<in> set (db_releases d). \<forall>q \<in> set (db_releases d). rel_active r \<longrightarrow> rel_active q
          \<longrightarrow> rel_service_id r = rel_service_id q \<longrightarrow> rel_environment r = rel_environment q \<longrightarrow> r = q)
     \<and> (\<forall>x \<in> set (db_test_results d). fst x \<in> tr_test_run_id ` set (db_test_runs d))
     \<and> distinct (map tr_test_run_id (db_test_runs d))"

lemma releases_invD:
  assumes "releases_inv d"
  shows "distinct (map rel_release_version (db_releases d))" "distinct (map release_scope (db_releases d))"
    "\<And>r. r \<in> set (db_releases d) \<Longrightarrow> generated_id r" "\<And>r. r \<in> set (db_releases d) \<Longrightarrow> release_evidence d r"
    "\<And>r q. r \<in> set (db_releases d) \<Longrightarrow> q \<in> set (db_releases d) \<Longrightarrow> rel_active r \<Longrightarrow> rel_active q
      \<Longrightarrow> rel_service_id r = rel_service_id q \<Longrightarrow> rel_environment r = rel_environment q \<Longrightarrow> r = q"
    "\<And>x. x \<in> set (db_test_results d) \<Longrightarrow> fst x \<in> tr_test_run_id ` set (db_test_runs d)"
    "distinct (map tr_test_run_id (db_test_runs d))"
  using assms by (auto simp: releases_inv_def)

lemma validate_release_inputs_Inr:
  assumes "validate_release_inputs collate d s e p c run target = Inr deps"
  shows "get_test_run d run = Some (dep_test_run deps)" "tr_service_id (dep_test_run deps) = s"
    "tr_gate_passed (dep_test_run deps)" "tr_policy_version (dep_test_run deps) = p"
    "tr_intent_catalog_version (dep_test_run deps) = c"
    "\<exists>q \<in> set (list_test_results collate d run). ts_case_type q = lit ''risk''"
    "\<And>q. q \<in> set (list_test_results collate d run) \<Longrightarrow> ts_case_type q = lit ''risk'' \<Longrightarrow> ts_result q = lit ''PASS''"
    "e \<in> set supported_runtime_environments"
  using assms
  by (auto simp: validate_release_inputs_def raise_simps Let_def filter_empty_conv list_ex_iff)

lemma list_test_results_set: "q \<in> set (list_test_results collate d run) \<longleftrightarrow> (run, q) \<in> set (db_test_results d)"
  by (force simp: list_test_results_def)

lemma insert_release_Inr [raise_simps]:
  "insert_release d x = Inr (d', r) \<longleftrightarrow> r = x \<and> d' = d\<lparr>db_releases := db_releases d @ [r]\<rparr>
     \<and> (\<forall>q \<in> set (db_releases d). \<not> release_conflict r q)"
  by (auto simp: insert_release_def)

lemma create_release_Inr:
  assumes "create_release collate d s e p c m run target by' now = Inr (d', r)"
  shows "d' = d\<lparr>db_releases := db_releases d @ [r]\<rparr>" "rel_release_version r = release_version_id collate d s now"
    "release_scope r = (s, e, run)" "\<not> rel_active r" "release_evidence d r"
    "(s, e, run) \<notin> release_scope ` set (db_releases d)"
    "rel_release_version r \<notin> rel_release_version ` set (db_releases d)"
proof -
  obtain deps and index :: vector_index_version where v: "validate_release_inputs collate d s e p c run target = Inr deps"
    and none: "get_release_for_test_run_environment d s e run = None"
    and ins: "d' = d\<lparr>db_releases := db_releases d @ [r]\<rparr>" "\<forall>q \<in> set (db_releases d). \<not> release_conflict r q"
    and r: "r = \<lparr>rel_release_version = release_version_id collate d s now, rel_service_id = s,
        rel_environment = e, rel_policy_version = p, rel_intent_catalog_version = c,
        rel_model_version = vi_model_version index, rel_vector_index_version = vi_vector_index_version index,
        rel_test_dataset_version = tr_test_dataset_version (dep_test_run deps), rel_test_run_id = run,
        rel_pass_rate = tr_pass_rate (dep_test_run deps), rel_risk_pass_rate = tr_risk_pass_rate (dep_test_run deps),
        rel_active = False, rel_released_by = by', rel_released_at = now, rel_rollback_target = target\<rparr>"
    using assms
    unfolding create_release_def Let_def bindE_Inr require_Inr some_or_Inr lift_error_iff insert_release_Inr
    by blast
  show "d' = d\<lparr>db_releases := db_releases d @ [r]\<rparr>" by (rule ins(1))
  show "rel_release_version r = release_version_id collate d s now" "release_scope r = (s, e, run)" "\<not> rel_active r"
    by (simp_all add: r release_scope_def)
  show "rel_release_version r \<notin> rel_release_version ` set (db_releases d)"
    using ins(2) by (auto simp: release_conflict_def)
  show "(s, e, run) \<notin> release_scope ` set (db_releases d)"
    using none by (auto simp: get_release_for_test_run_environment_def table_simps release_scope_def)
  have run: "dep_test_run deps \<in> set (db_test_runs d)" "tr_test_run_id (dep_test_run deps) = run"
    using validate_release_inputs_Inr(1) [OF v] by (auto simp: get_test_run_def table_simps dest: first_row_Some)
  show "release_evidence d r"
    using validate_release_inputs_Inr [OF v] run by (auto simp: release_evidence_def r list_test_results_set)
qed

text \<open>Switching a release on: its environment is switched off around it, nothing else changes.\<close>

definition switch_to :: "release \<Rightarrow> release \<Rightarrow> release" where
  "switch_to target r =
     (if rel_release_version r = rel_release_version target then r\<lparr>rel_active := True\<rparr>
      else if rel_service_id r = rel_service_id target \<and> rel_environment r = rel_environment target
      then r\<lparr>rel_active := False\<rparr> else r)"

lemma switch_to_simps [simp]:
  "rel_release_version (switch_to t r) = rel_release_version r"
  "rel_service_id (switch_to t r) = rel_service_id r"
  "rel_environment (switch_to t r) = rel_environment r"
  "rel_test_run_id (switch_to t r) = rel_test_run_id r"
  "release_scope (switch_to t r) = release_scope r"
  "generated_id (switch_to t r) = generated_id r"
  "release_evidence d (switch_to t r) = release_evidence d r"
  by (auto simp: switch_to_def release_scope_def generated_id_def release_evidence_def)

lemma set_active_release_target:
  assumes inv: "distinct (map rel_release_version (db_releases d))" and r: "r \<in> set (db_releases d)"
  shows "set_active_release d (rel_service_id r) (rel_environment r) (rel_release_version r)
    = Inr (d\<lparr>db_releases := map (switch_to r) (db_releases d)\<rparr>)"
proof -
  let ?P = "\<lambda>q. rel_service_id q = rel_service_id r \<and> rel_environment q = rel_environment r
    \<and> rel_release_version q = rel_release_version r"
  obtain q where q: "first_row ?P (db_releases d) = Some q"
    using r first_row_None [of ?P "db_releases d"] by (cases "first_row ?P (db_releases d)") auto
  have "q = r"
    using first_row_Some [OF q] distinct_key [OF inv _ r, of q] by blast
  then show ?thesis
    using q by (auto simp: set_active_release_def update_where_def switch_to_def Let_def)
qed

lemma get_release_in:
  "get_release d s v = Some r \<Longrightarrow> r \<in> set (db_releases d) \<and> rel_service_id r = s \<and> rel_release_version r = v"
  unfolding get_release_def by (rule first_row_Some)

lemma activate_release_Inr:
  assumes inv: "distinct (map rel_release_version (db_releases d))"
  shows "activate_release d s v = Inr (d', b, r') \<longleftrightarrow>
    (\<exists>r. get_release d s v = Some r \<and> d' = d\<lparr>db_releases := map (switch_to r) (db_releases d)\<rparr>
       \<and> b = release_after_state r \<and> r' = r\<lparr>rel_active := True\<rparr>)"
proof -
  have "activate_release d s v = Inr (d\<lparr>db_releases := map (switch_to r) (db_releases d)\<rparr>,
      release_after_state r, r\<lparr>rel_active := True\<rparr>)" if "get_release d s v = Some r" for r
    using that get_release_in [OF that] set_active_release_target [OF inv, of r]
    by (auto simp: activate_release_def)
  then show ?thesis by (cases "get_release d s v") (auto simp: activate_release_def)
qed

lemma rollback_release_Inr:
  assumes inv: "distinct (map rel_release_version (db_releases d))"
    and ok: "rollback_release d s v = Inr (d', r', b, t')"
  shows "\<exists>r tv t. get_release d s v = Some r \<and> rel_rollback_target r = Some tv \<and> get_release d s tv = Some t
    \<and> rel_environment t = rel_environment r \<and> d' = d\<lparr>db_releases := map (switch_to t) (db_releases d)\<rparr>
    \<and> t' = t\<lparr>rel_active := True\<rparr> \<and> rel_rollback_target r' = rel_rollback_target r
    \<and> rel_environment r' = rel_environment r"
proof -
  obtain r tv and t :: release where r: "get_release d s v = Some r" "rel_rollback_target r = Some tv" "get_release d s tv = Some t"
      "rel_environment t = rel_environment r" "t' = t\<lparr>rel_active := True\<rparr>"
      "r' = r\<lparr>rel_active := (rel_release_version r = rel_release_version t)\<rparr>"
      "set_active_release d s (rel_environment t) (rel_release_version t) = Inr d'"
    using ok unfolding rollback_release_def bindE_Inr require_Inr some_or_Inr lift_error_iff by blast
  then show ?thesis
    using get_release_in [OF r(3)] set_active_release_target [OF inv, of t] by fastforce
qed

lemma switch_inv:
  assumes inv: "releases_inv d" and t: "t \<in> set (db_releases d)"
  shows "releases_inv (d\<lparr>db_releases := map (switch_to t) (db_releases d)\<rparr>)"
proof -
  have only: "r = t" if "r \<in> set (db_releases d)" "rel_release_version r = rel_release_version t" for r
    using distinct_key [OF releases_invD(1) [OF inv] that(1) t that(2)] .
  have one: "switch_to t r = switch_to t q"
    if m: "r \<in> set (db_releases d)" "q \<in> set (db_releases d)" and sc: "rel_active (switch_to t r)" "rel_active (switch_to t q)"
      "rel_service_id r = rel_service_id q" "rel_environment r = rel_environment q" for r q
  proof -
    have "r = q"
    proof (cases "rel_release_version r = rel_release_version t \<or> rel_release_version q = rel_release_version t")
      case True
      then consider "r = t" | "q = t" using only m by blast
      then show ?thesis using m sc by cases (auto simp: switch_to_def split: if_splits intro: only only [symmetric])
    next
      case False
      then show ?thesis using sc releases_invD(5) [OF inv m]
        by (auto simp: switch_to_def split: if_splits)
    qed
    then show ?thesis by simp
  qed
  have "release_evidence (d\<lparr>db_releases := rs\<rparr>) r = release_evidence d r" for rs r
    by (simp add: release_evidence_def)
  moreover have "map rel_release_version (map (switch_to t) rs) = map rel_release_version rs"
      "map release_scope (map (switch_to t) rs) = map release_scope rs" for rs
    by simp_all
  ultimately show ?thesis
    using releases_invD [OF inv] one unfolding releases_inv_def by (simp add: comp_def)
qed

lemma create_release_inv:
  assumes inv: "releases_inv d" and ok: "create_release collate d s e p c m run target who now = Inr (d', r)"
  shows "releases_inv d'"
proof -
  note r = create_release_Inr [OF ok]
  obtain n where "release_version_id collate d s now = release_prefix s now @ zero_pad 3 n"
    using release_version_id_shape by blast
  moreover have "rel_service_id r = s" using r(3) by (simp add: release_scope_def)
  ultimately have gen: "generated_id r" using r(2) unfolding generated_id_def by metis
  have ev: "release_evidence (d\<lparr>db_releases := rs\<rparr>) q = release_evidence d q" for rs q
    by (simp add: release_evidence_def)
  show ?thesis
    using releases_invD [OF inv] r gen unfolding r(1) releases_inv_def
    by (auto simp: ev)
qed

lemma record_run_inv:
  assumes inv: "releases_inv d" and ok: "create_test_run_with_results d run qs = Inr (d', t)"
  shows "releases_inv d'"
proof -
  have new: "tr_test_run_id run \<notin> tr_test_run_id ` set (db_test_runs d)"
    and d': "d' = d\<lparr>db_test_runs := db_test_runs d @ [run],
      db_test_results := db_test_results d @ map (Pair (tr_test_run_id run)) qs\<rparr>"
    using ok by (auto simp: create_test_run_with_results_def raise_simps)
  have "release_evidence d' r" if r: "r \<in> set (db_releases d)" for r
  proof -
    have ev: "release_evidence d r" by (rule releases_invD(4) [OF inv r])
    then have "rel_test_run_id r \<noteq> tr_test_run_id run" using new by (metis imageI release_evidence_def)
    then show ?thesis using ev by (auto simp: release_evidence_def d')
  qed
  then show ?thesis
    using releases_invD [OF inv] new unfolding releases_inv_def by (fastforce simp: d')
qed

section \<open>The release history as a machine\<close>

datatype release_event =
    Test_Recorded test_run "test_result list"
  | Release_Created str str str str str str "str option" str timestamp
  | Release_Activated str str
  | Release_Rolled_Back str str

fun release_step :: "(str \<Rightarrow> nat) \<Rightarrow> db \<Rightarrow> release_event \<Rightarrow> db" where
  "release_step collate d (Test_Recorded run qs) =
     (case create_test_run_with_results d run qs of Inr (d', _) \<Rightarrow> d' | Inl _ \<Rightarrow> d)"
| "release_step collate d (Release_Created s e p c m run target who now) =
     (case create_release collate d s e p c m run target who now of Inr (d', _) \<Rightarrow> d' | Inl _ \<Rightarrow> d)"
| "release_step collate d (Release_Activated s v) =
     (case activate_release d s v of Inr (d', _) \<Rightarrow> d' | Inl _ \<Rightarrow> d)"
| "release_step collate d (Release_Rolled_Back s v) =
     (case rollback_release d s v of Inr (d', _) \<Rightarrow> d' | Inl _ \<Rightarrow> d)"

definition release_run :: "(str \<Rightarrow> nat) \<Rightarrow> db \<Rightarrow> release_event list \<Rightarrow> db" where
  "release_run collate d es = fold (\<lambda>e d. release_step collate d e) es d"

lemma activate_release_inv:
  "releases_inv d \<Longrightarrow> activate_release d s v = Inr (d', b, r) \<Longrightarrow> releases_inv d'"
  using activate_release_Inr [OF releases_invD(1)] switch_inv get_release_in by fastforce

lemma rollback_release_inv:
  assumes inv: "releases_inv d" and ok: "rollback_release d s v = Inr (d', r, b, t)"
  shows "releases_inv d'"
  using rollback_release_Inr [OF releases_invD(1) [OF inv] ok] switch_inv [OF inv] get_release_in by blast

lemma release_step_inv: "releases_inv d \<Longrightarrow> releases_inv (release_step collate d e)"
  by (cases e)
    (auto intro: record_run_inv create_release_inv activate_release_inv rollback_release_inv split: sum.split)

interpretation releases: machine "release_step collate" releases_inv for collate
  by unfold_locales (rule release_step_inv)

lemma release_run_inv: "releases_inv d \<Longrightarrow> releases_inv (release_run collate d es)"
  unfolding release_run_def by (rule releases.run_inv)

lemma releases_inv_empty: "db_releases d = [] \<Longrightarrow> db_test_runs d = [] \<Longrightarrow> db_test_results d = [] \<Longrightarrow> releases_inv d"
  by (simp add: releases_inv_def)

lemma get_active_release_Some:
  "get_active_release d s e = Some r
    \<Longrightarrow> r \<in> set (db_releases d) \<and> rel_service_id r = s \<and> rel_environment r = e \<and> rel_active r"
  unfolding get_active_release_def by (drule first_row_Some) auto

lemma get_active_release_None:
  "get_active_release d s e = None
    \<longleftrightarrow> (\<forall>r \<in> set (db_releases d). \<not> (rel_service_id r = s \<and> rel_environment r = e \<and> rel_active r))"
  by (auto simp: get_active_release_def first_row_None)

lemma get_active_release_eq:
  assumes inv: "releases_inv d" and r: "r \<in> set (db_releases d)" "rel_active r"
  shows "get_active_release d (rel_service_id r) (rel_environment r) = Some r"
proof (cases "get_active_release d (rel_service_id r) (rel_environment r)")
  case None
  then show ?thesis using r by (simp add: get_active_release_None)
next
  case (Some q)
  then show ?thesis using get_active_release_Some [OF Some] releases_invD(5) [OF inv _ r(1)] r(2) by auto
qed

lemma active_release_unique:
  assumes inv: "releases_inv d" and active: "get_active_release d s e = Some r"
    and q: "q \<in> set (db_releases d)" "rel_service_id q = s" "rel_environment q = e" "rel_active q"
  shows "q = r"
  by (rule releases_invD(5) [OF inv]) (use q get_active_release_Some [OF active] in simp_all)

text \<open>C18: the release that answers requests passed its gate and every one of its risk cases.\<close>

theorem active_release_vetted:
  assumes "db_releases d = []" and "db_test_runs d = []" and "db_test_results d = []"
    and active: "get_active_release (release_run collate d es) s e = Some r"
  shows "(\<exists>run \<in> set (db_test_runs (release_run collate d es)).
      tr_test_run_id run = rel_test_run_id r \<and> tr_service_id run = s \<and> tr_gate_passed run
      \<and> tr_policy_version run = rel_policy_version r
      \<and> tr_intent_catalog_version run = rel_intent_catalog_version r)
    \<and> (\<exists>q. (rel_test_run_id r, q) \<in> set (db_test_results (release_run collate d es)) \<and> ts_case_type q = lit ''risk'')
    \<and> (\<forall>q. (rel_test_run_id r, q) \<in> set (db_test_results (release_run collate d es))
         \<longrightarrow> ts_case_type q = lit ''risk'' \<longrightarrow> ts_result q = lit ''PASS'')
    \<and> (\<forall>q \<in> set (db_releases (release_run collate d es)).
         rel_service_id q = s \<and> rel_environment q = e \<and> rel_active q \<longrightarrow> q = r)"
proof -
  have inv: "releases_inv (release_run collate d es)"
    by (rule release_run_inv [OF releases_inv_empty [OF assms(1-3)]])
  note r = get_active_release_Some [OF active]
  have sid: "rel_service_id r = s" using r by blast
  have "release_evidence (release_run collate d es) r" using releases_invD(4) [OF inv] r by blast
  note ev = this [unfolded release_evidence_def sid]
  have uniq: "\<forall>q \<in> set (db_releases (release_run collate d es)).
         rel_service_id q = s \<and> rel_environment q = e \<and> rel_active q \<longrightarrow> q = r"
    using active_release_unique [OF inv active] by simp
  show ?thesis
    by (intro conjI; fact ev [THEN conjunct1] ev [THEN conjunct2, THEN conjunct1]
        ev [THEN conjunct2, THEN conjunct2] uniq)
qed

lemma validate_release_inputs_no_store:
  "validate_release_inputs collate d s e p c run target \<noteq> Inl (Release_Store err)"
  by (simp add: validate_release_inputs_def bindE_Inl require_Inl some_or_Inl Let_def split: option.split)

lemma create_release_store_error:
  assumes "create_release collate d s e p c m run target who now = Inl (Release_Store err)"
  obtains x where "insert_release d x = Inl err" "release_scope x = (s, e, run)"
    "rel_release_version x = release_version_id collate d s now"
    "get_release_for_test_run_environment d s e run = None"
proof -
  obtain x :: release where "insert_release d x = Inl err" "release_scope x = (s, e, run)"
      "rel_release_version x = release_version_id collate d s now"
      "get_release_for_test_run_environment d s e run = None"
    using assms
    by (simp add: create_release_def bindE_Inl require_Inl some_or_Inl require_Inr lift_error_iff Let_def
        validate_release_inputs_no_store) (auto simp: release_scope_def)
  then show thesis by (rule that)
qed

text \<open>C22: a creation fails only for the reasons it checks, never on a duplicate identifier.\<close>

theorem create_release_no_collision:
  assumes "db_releases d = []" and "db_test_runs d = []" and "db_test_results d = []"
  shows "create_release collate (release_run collate d es) s e p c m run target who now
    \<noteq> Inl (Release_Store err)"
proof
  let ?d = "release_run collate d es"
  assume fail: "create_release collate ?d s e p c m run target who now = Inl (Release_Store err)"
  have inv: "releases_inv ?d" by (rule release_run_inv [OF releases_inv_empty [OF assms]])
  have fresh: "release_version_id collate ?d s now \<noteq> rel_release_version q" if "q \<in> set (db_releases ?d)" for q
    using release_version_id_fresh [of ?d collate s now] releases_invD(3) [OF inv] that by force
  obtain x where x: "insert_release ?d x = Inl err" "release_scope x = (s, e, run)"
      "rel_release_version x = release_version_id collate ?d s now"
      "get_release_for_test_run_environment ?d s e run = None"
    by (rule create_release_store_error [OF fail])
  then obtain q where q: "q \<in> set (db_releases ?d)" "release_conflict x q"
    by (auto simp: insert_release_def split: if_splits)
  show False
    using x q fresh [OF q(1)] unfolding release_conflict_def release_scope_def
      get_release_for_test_run_environment_def first_row_None by auto
qed

lemma get_active_switch:
  assumes inv: "releases_inv d" and t: "t \<in> set (db_releases d)"
  shows "get_active_release (d\<lparr>db_releases := map (switch_to t) (db_releases d)\<rparr>) (rel_service_id t) (rel_environment t)
    = Some (t\<lparr>rel_active := True\<rparr>)"
  using get_active_release_eq [OF switch_inv [OF inv t], of "switch_to t t"] t by (simp add: switch_to_def)

lemma filter_map_fixed:
  "(\<And>r. r \<in> set rows \<Longrightarrow> P (f r) = P r) \<Longrightarrow> (\<And>r. r \<in> set rows \<Longrightarrow> P r \<Longrightarrow> f r = r)
    \<Longrightarrow> filter P (map f rows) = filter P rows"
  by (induction rows) auto

lemma get_active_switch_other:
  assumes inv: "releases_inv d" and t: "t \<in> set (db_releases d)"
    and other: "(s, e) \<noteq> (rel_service_id t, rel_environment t)"
  shows "get_active_release (d\<lparr>db_releases := map (switch_to t) (db_releases d)\<rparr>) s e = get_active_release d s e"
proof -
  let ?P = "\<lambda>r. rel_service_id r = s \<and> rel_environment r = e \<and> rel_active r"
  have fixed: "switch_to t r = r" if "r \<in> set (db_releases d)" "rel_service_id r = s" "rel_environment r = e" for r
    using distinct_key [OF releases_invD(1) [OF inv] that(1) t] that(2,3) other by (auto simp: switch_to_def)
  have "filter ?P (map (switch_to t) (db_releases d)) = filter ?P (db_releases d)"
    by (rule filter_map_fixed) (use fixed in force)+
  then show ?thesis unfolding get_active_release_def by simp
qed

text \<open>C23: after a rollback the rollback target answers, and no other environment or service notices.\<close>

theorem rollback_release_effect:
  assumes "db_releases d = []" and "db_test_runs d = []" and "db_test_results d = []"
    and ok: "rollback_release (release_run collate d es) s v = Inr (d', r, b, t)"
  shows "rel_rollback_target r = Some (rel_release_version t) \<and> rel_environment t = rel_environment r
    \<and> get_active_release d' s (rel_environment r) = Some t
    \<and> (\<forall>s' e'. (s', e') \<noteq> (s, rel_environment r) \<longrightarrow>
         get_active_release d' s' e' = get_active_release (release_run collate d es) s' e')"
proof -
  let ?d = "release_run collate d es"
  have inv: "releases_inv ?d" by (rule release_run_inv [OF releases_inv_empty [OF assms(1-3)]])
  obtain r0 tv t0 where x: "get_release ?d s v = Some r0" "rel_rollback_target r0 = Some tv"
      "get_release ?d s tv = Some t0" "rel_environment t0 = rel_environment r0"
      "d' = ?d\<lparr>db_releases := map (switch_to t0) (db_releases ?d)\<rparr>" "t = t0\<lparr>rel_active := True\<rparr>"
      "rel_rollback_target r = rel_rollback_target r0" "rel_environment r = rel_environment r0"
    using rollback_release_Inr [OF releases_invD(1) [OF inv] ok] by blast
  note t0 = get_release_in [OF x(3)]
  show ?thesis
    using x t0 get_active_switch [OF inv, of t0] get_active_switch_other [OF inv, of t0] by auto
qed

section \<open>A history\<close>

text \<open>One service with a policy, a catalog and an index; two test runs, two releases, a rollback.\<close>

definition sample_run :: "str \<Rightarrow> test_run" where
  "sample_run i = \<lparr>tr_test_run_id = i, tr_service_id = [2], tr_test_dataset_version = [6],
     tr_policy_version = [3], tr_intent_catalog_version = [4], tr_model_version = None,
     tr_vector_index_version = None, tr_threshold_preset = lit ''balanced'', tr_threshold_value = 0,
     tr_pass_rate = 1, tr_review_rate = 0, tr_risk_pass_rate = 1, tr_gate_passed = True, tr_created_by = [9],
     tr_created_at = 0\<rparr>"

definition sample_result :: test_result where
  "sample_result = \<lparr>ts_case_id = [7], ts_query_masked = [], ts_case_type = lit ''risk'',
     ts_expected_decision = lit ''risk'', ts_expected_intent = None, ts_actual_decision = lit ''risk'',
     ts_actual_intent = None, ts_actual_route_key = None, ts_confidence = None, ts_result = lit ''PASS'',
     ts_reason = []\<rparr>"

definition sample_db :: db where
  "sample_db = empty_db\<lparr>
     db_policy_versions := [\<lparr>pv_policy_version = [3], pv_service_id = [2], pv_threshold_preset = lit ''balanced'',
       pv_threshold_value = 0, pv_clarify_margin = 0, pv_min_candidate_score = 0, pv_fallback_score = 0,
       pv_risk_policy = [], pv_off_topic_policy = [], pv_created_by = [9], pv_created_at = 0\<rparr>],
     db_catalog_versions := [\<lparr>cv_intent_catalog_version = [4], cv_service_id = [2],
       cv_display_version = None, cv_description = None, cv_status = lit ''active'',
       cv_reproducibility_status = lit ''complete'', cv_source_catalog_version = None, cv_snapshot = JNull,
       cv_created_by = [9], cv_created_at = 0, cv_activated_at = None, cv_deactivated_at = None\<rparr>],
     db_vector_indexes := [\<lparr>vi_vector_index_version = [8], vi_service_id = [2],
       vi_intent_catalog_version = [4], vi_model_version = [5], vi_status = lit ''ready'', vi_created_at = 0\<rparr>]\<rparr>"

definition sample_version :: "nat \<Rightarrow> str" where
  "sample_version n = release_prefix [2] (days 20454) @ zero_pad 3 n"

lemma sample_version_eq [simp]: "sample_version n = sample_version m \<longleftrightarrow> n = m"
  using sequence_of_release [of "[2]" "days 20454"] unfolding sample_version_def by metis

definition sample_release :: "nat \<Rightarrow> str \<Rightarrow> str option \<Rightarrow> bool \<Rightarrow> release" where
  "sample_release n run target active =
     \<lparr>rel_release_version = sample_version n, rel_service_id = [2], rel_environment = lit ''dev'',
      rel_policy_version = [3], rel_intent_catalog_version = [4], rel_model_version = [5],
      rel_vector_index_version = [8], rel_test_dataset_version = [6], rel_test_run_id = run,
      rel_pass_rate = 1, rel_risk_pass_rate = 1, rel_active = active, rel_released_by = [9],
      rel_released_at = days 20454, rel_rollback_target = target\<rparr>"

definition sample_events :: "release_event list" where
  "sample_events =
     [Test_Recorded (sample_run [10]) [sample_result],
      Release_Created [2] (lit ''dev'') [3] [4] [5] [10] None [9] (days 20454),
      Test_Recorded (sample_run [11]) [sample_result],
      Release_Created [2] (lit ''dev'') [3] [4] [5] [11] (Some (sample_version 1)) [9] (days 20454),
      Release_Activated [2] (sample_version 2)]"

lemma sample_version_id:
  "list_release_versions_by_prefix collate d [2] (release_prefix [2] (days 20454)) = map sample_version ns
    \<Longrightarrow> release_version_id collate d [2] (days 20454) = sample_version (fold max ns 0 + 1)"
proof -
  have "fold (\<lambda>v m. max m (sequence_of v)) (map sample_version ns) k = fold max ns k" for k
    by (induction ns arbitrary: k) (simp_all add: sample_version_def max.commute)
  then show "list_release_versions_by_prefix collate d [2] (release_prefix [2] (days 20454)) = map sample_version ns
    \<Longrightarrow> release_version_id collate d [2] (days 20454) = sample_version (fold max ns 0 + 1)"
    by (simp add: release_version_id_def next_sequence_def) (simp add: sample_version_def)
qed

lemma sample_prefix [simp]: "prefix (release_prefix [2] (days 20454)) (sample_version n)"
  by (simp add: sample_version_def)

lemmas release_defs = create_release_def validate_release_inputs_def create_test_run_with_results_def
  get_policy_version_def get_catalog_version_def get_test_run_def list_test_results_def first_row_def
  get_release_def get_release_for_test_run_environment_def get_ready_vector_index_version_def ready_index_def
  agrees_def insert_release_def insert_row_def release_conflict_def order_by_def activate_release_def
  rollback_release_def set_active_release_def update_where_def supported_runtime_environments_def
  get_active_release_def Let_def

lemma sample_db_empty: "db_releases sample_db = []" "db_test_runs sample_db = []" "db_test_results sample_db = []"
  by (simp_all add: sample_db_def empty_db_def)

lemma sample_lookups:
  "get_policy_version (sample_db\<lparr>db_test_runs := a, db_test_results := b, db_releases := c\<rparr>) [2] [3] \<noteq> None"
  "map_option cv_status (get_catalog_version (sample_db\<lparr>db_test_runs := a, db_test_results := b, db_releases := c\<rparr>)
     [2] [4]) = Some (lit ''active'')"
  "map_option (\<lambda>i. (vi_model_version i, vi_vector_index_version i)) (get_ready_vector_index_version length
     (sample_db\<lparr>db_test_runs := a, db_test_results := b, db_releases := c\<rparr>) [2] [4] (Some [5])) = Some ([5], [8])"
  by (simp_all add: release_defs sample_db_def)

lemma create_release_by_parts:
  assumes p: "get_policy_version d s p \<noteq> None"
    and c: "map_option cv_status (get_catalog_version d s c) = Some (lit ''active'')"
    and i: "map_option (\<lambda>i. (vi_model_version i, vi_vector_index_version i))
      (get_ready_vector_index_version collate d s c (Some m)) = Some (m', ix)"
    and r: "get_test_run d run = Some t" "tr_service_id t = s" "tr_gate_passed t" "tr_policy_version t = p"
      "tr_intent_catalog_version t = c" "tr_model_version t = None" "tr_vector_index_version t = None"
    and q: "list_test_results collate d run = [x]" "ts_case_type x = lit ''risk''" "ts_result x = lit ''PASS''"
    and e: "e \<in> set supported_runtime_environments"
    and tgt: "\<And>v. target = Some v \<Longrightarrow> map_option rel_environment (get_release d s v) = Some e"
    and none: "get_release_for_test_run_environment d s e run = None"
  shows "create_release collate d s e p c m run target who now = lift_error Release_Store (insert_release d
       \<lparr>rel_release_version = release_version_id collate d s now, rel_service_id = s,
        rel_environment = e, rel_policy_version = p,
        rel_intent_catalog_version = c, rel_model_version = m',
        rel_vector_index_version = ix,
        rel_test_dataset_version = tr_test_dataset_version t, rel_test_run_id = run,
        rel_pass_rate = tr_pass_rate t, rel_risk_pass_rate = tr_risk_pass_rate t, rel_active = False,
        rel_released_by = who, rel_released_at = now, rel_rollback_target = target\<rparr>)"
proof -
  obtain pol cat where "get_policy_version d s p = Some pol" "get_catalog_version d s c = Some cat"
      "cv_status cat = lit ''active''"
    using p c by auto
  moreover obtain index :: vector_index_version where
      "get_ready_vector_index_version collate d s c (Some m) = Some index"
      "vi_model_version index = m'" "vi_vector_index_version index = ix"
    using i by auto
  moreover have "(case target of None \<Rightarrow> Inr () | Some t \<Rightarrow>
         bindE (some_or (get_release d s t) Rollback_Target_Missing) (\<lambda>target.
         require (rel_environment target = e) Rollback_Target_Missing)) = Inr ()"
    using tgt by (cases target) auto
  ultimately show ?thesis
    using r q e none by (simp add: create_release_def validate_release_inputs_def agrees_def)
qed

lemma release_sample_fields [simp]:
  "tr_test_run_id (sample_run i) = i" "tr_service_id (sample_run i) = [2]"
  "tr_test_dataset_version (sample_run i) = [6]" "tr_policy_version (sample_run i) = [3]"
  "tr_intent_catalog_version (sample_run i) = [4]" "tr_model_version (sample_run i) = None"
  "tr_vector_index_version (sample_run i) = None" "tr_pass_rate (sample_run i) = 1"
  "tr_risk_pass_rate (sample_run i) = 1" "tr_gate_passed (sample_run i)"
  "ts_case_id sample_result = [7]" "ts_case_type sample_result = lit ''risk''"
  "ts_result sample_result = lit ''PASS''"
  "rel_release_version (sample_release n r t a) = sample_version n" "rel_service_id (sample_release n r t a) = [2]"
  "rel_environment (sample_release n r t a) = lit ''dev''" "rel_test_run_id (sample_release n r t a) = r"
  "rel_rollback_target (sample_release n r t a) = t" "rel_active (sample_release n r t a) = a"
  "rel_released_at (sample_release n r t a) = days 20454"
  "sample_release n r t a\<lparr>rel_active := b\<rparr> = sample_release n r t b"
  by (simp_all add: sample_run_def sample_result_def sample_release_def)

lemma sample_release_fold:
  "\<lparr>rel_release_version = sample_version n, rel_service_id = [2], rel_environment = lit ''dev'',
      rel_policy_version = [3], rel_intent_catalog_version = [4], rel_model_version = [5],
      rel_vector_index_version = [8], rel_test_dataset_version = [6], rel_test_run_id = run,
      rel_pass_rate = 1, rel_risk_pass_rate = 1, rel_active = active, rel_released_by = [9],
      rel_released_at = days 20454, rel_rollback_target = target\<rparr> = sample_release n run target active"
  by (simp add: sample_release_def)

lemma sample_history:
  "release_run length sample_db sample_events
    = sample_db\<lparr>db_test_runs := [sample_run [10], sample_run [11]],
        db_test_results := [([10], sample_result), ([11], sample_result)],
        db_releases := [sample_release 1 [10] None False,
          sample_release 2 [11] (Some (sample_version 1)) True]\<rparr>"
proof -
  let ?D = "\<lambda>runs qs rs. sample_db\<lparr>db_test_runs := runs, db_test_results := qs, db_releases := rs\<rparr>"
  let ?qs = "[([10], sample_result), ([11], sample_result)]"
  let ?r1 = "sample_release 1 [10] None False"
  let ?r2 = "sample_release 2 [11] (Some (sample_version 1))"
  let ?d1 = "?D [sample_run [10]] [([10], sample_result)] []"
  let ?d2 = "?D [sample_run [10]] [([10], sample_result)] [?r1]"
  let ?d3 = "?D [sample_run [10], sample_run [11]] ?qs [?r1]"
  let ?d4 = "?D [sample_run [10], sample_run [11]] ?qs [?r1, ?r2 False]"
  have v1: "release_version_id length ?d1 [2] (days 20454) = sample_version 1"
    using sample_version_id [of length ?d1 "[]"]
    by (simp add: list_release_versions_by_prefix_def sample_db_def empty_db_def order_by_def)
  have v2: "release_version_id length ?d3 [2] (days 20454) = sample_version 2"
    using sample_version_id [of length ?d3 "[1]"]
    by (simp add: list_release_versions_by_prefix_def order_by_def)
  have "release_step length sample_db (Test_Recorded (sample_run [10]) [sample_result]) = ?d1"
    by (simp add: release_defs sample_db_def empty_db_def sample_run_def)
  moreover have "release_step length ?d1 (Release_Created [2] (lit ''dev'') [3] [4] [5] [10] None [9] (days 20454)) = ?d2"
    unfolding release_step.simps
    by (subst create_release_by_parts [OF sample_lookups, where t = "sample_run [10]" and x = sample_result])
      (simp_all del: One_nat_def add: release_defs v1 sample_release_fold sample_db_empty)
  moreover have "release_step length ?d2 (Test_Recorded (sample_run [11]) [sample_result]) = ?d3"
    by (simp add: release_defs sample_db_def empty_db_def sample_run_def)
  moreover have "release_step length ?d3 (Release_Created [2] (lit ''dev'') [3] [4] [5] [11] (Some (sample_version 1)) [9] (days 20454)) = ?d4"
    unfolding release_step.simps
    by (subst create_release_by_parts [OF sample_lookups, where t = "sample_run [11]" and x = sample_result])
      (simp_all del: One_nat_def add: release_defs v2 sample_release_fold)
  moreover have "release_step length ?d4 (Release_Activated [2] (sample_version 2))
      = ?D [sample_run [10], sample_run [11]] ?qs [?r1, ?r2 True]"
    by (simp add: release_defs)
  ultimately show ?thesis
    unfolding release_run_def sample_events_def fold_simps by (simp del: release_step.simps One_nat_def)
qed

lemma sample_active:
  "get_active_release (release_run length sample_db sample_events) [2] (lit ''dev'')
    = Some (sample_release 2 [11] (Some (sample_version 1)) True)"
  unfolding sample_history by (simp add: release_defs)

lemma sample_rollback:
  "\<exists>d' b. rollback_release (release_run length sample_db sample_events) [2] (sample_version 2)
    = Inr (d', sample_release 2 [11] (Some (sample_version 1)) False, b, sample_release 1 [10] None True)"
  unfolding sample_history by (simp add: release_defs)

theorem active_release_vetted_witness:
  "(\<exists>run \<in> set (db_test_runs (release_run length sample_db sample_events)).
      tr_test_run_id run = [11] \<and> tr_gate_passed run)
    \<and> (\<exists>q. ([11], q) \<in> set (db_test_results (release_run length sample_db sample_events)) \<and> ts_case_type q = lit ''risk'')"
  using active_release_vetted [OF sample_db_empty sample_active] by auto

theorem create_release_no_collision_witness:
  "create_release length (release_run length sample_db sample_events) [2] (lit ''qa'') [3] [4] [5] [11] None [9]
     (days 20454) \<noteq> Inl (Release_Store Integrity_Error)"
  by (rule create_release_no_collision [OF sample_db_empty])

theorem rollback_release_effect_witness:
  "\<exists>d' r b. rollback_release (release_run length sample_db sample_events) [2] (sample_version 2) = Inr (d', r, b, sample_release 1 [10] None True)
    \<and> get_active_release d' [2] (lit ''dev'') = Some (sample_release 1 [10] None True)"
proof -
  obtain d' b where ok: "rollback_release (release_run length sample_db sample_events) [2] (sample_version 2)
      = Inr (d', sample_release 2 [11] (Some (sample_version 1)) False, b, sample_release 1 [10] None True)"
    using sample_rollback by blast
  show ?thesis
    using rollback_release_effect [OF sample_db_empty ok] ok by auto
qed

end
