(* ===== verification/Release_Spec.thy ===== *)
theory Release_Spec
  imports Releases
begin

text \<open>
  What releases are for their clients, without their tables: a set of published versions and, for every service and
  environment, at most one version that answers requests. The repository and \<open>versions/releases.py\<close> implement it.
\<close>

section \<open>The abstract releases\<close>

record release_card =
  rd_owner :: str
  rd_stage :: str
  rd_previous :: "str option"

record release_board =
  rb_published :: "str \<Rightarrow> release_card option"
  rb_active :: "str \<times> str \<Rightarrow> str option"

definition spec_publish :: "release_board \<Rightarrow> str \<Rightarrow> release_card \<Rightarrow> release_board option" where
  "spec_publish b v c = (if rb_published b v \<noteq> None then None else Some (b\<lparr>rb_published := (rb_published b)(v \<mapsto> c)\<rparr>))"

definition spec_card :: "release_board \<Rightarrow> str \<Rightarrow> str \<Rightarrow> release_card option" where
  "spec_card b s v = (case rb_published b v of Some c \<Rightarrow> if rd_owner c = s then Some c else None | None \<Rightarrow> None)"

definition spec_activate :: "release_board \<Rightarrow> str \<Rightarrow> str \<Rightarrow> release_board option" where
  "spec_activate b s v =
     Option.bind (spec_card b s v) (\<lambda>c. Some (b\<lparr>rb_active := (rb_active b)((s, rd_stage c) \<mapsto> v)\<rparr>))"

definition spec_rollback :: "release_board \<Rightarrow> str \<Rightarrow> str \<Rightarrow> release_board option" where
  "spec_rollback b s v =
     Option.bind (spec_card b s v) (\<lambda>c.
     Option.bind (rd_previous c) (\<lambda>v'.
     Option.bind (spec_card b s v') (\<lambda>c'.
     if rd_stage c' \<noteq> rd_stage c then None else spec_activate b s v')))"

section \<open>The abstraction\<close>

definition release_card_of :: "release \<Rightarrow> release_card" where
  "release_card_of r = \<lparr>rd_owner = rel_service_id r, rd_stage = rel_environment r, rd_previous = rel_rollback_target r\<rparr>"

definition board_of :: "db \<Rightarrow> release_board" where
  "board_of d = \<lparr>rb_published = (\<lambda>v. map_option release_card_of (first_row (\<lambda>r. rel_release_version r = v) (db_releases d))),
     rb_active = (\<lambda>(s, e). map_option rel_release_version (get_active_release d s e))\<rparr>"

definition board_result :: "(release_error, db \<times> 'a) outcome \<Rightarrow> release_board option" where
  "board_result m = (case m of Inl _ \<Rightarrow> None | Inr (d, _) \<Rightarrow> Some (board_of d))"

lemma published_row:
  assumes "distinct (map rel_release_version (db_releases d))"
  shows "first_row (\<lambda>r. rel_release_version r = v) (db_releases d) = Some r
    \<longleftrightarrow> r \<in> set (db_releases d) \<and> rel_release_version r = v"
proof
  assume r: "r \<in> set (db_releases d) \<and> rel_release_version r = v"
  then obtain q where q: "first_row (\<lambda>r. rel_release_version r = v) (db_releases d) = Some q"
    using first_row_None [of "\<lambda>r. rel_release_version r = v" "db_releases d"] by fastforce
  then show "first_row (\<lambda>r. rel_release_version r = v) (db_releases d) = Some r"
    using r first_row_Some [OF q] distinct_key [OF assms, of q r] by simp
qed (auto dest: first_row_Some)

lemma get_release_row:
  assumes "distinct (map rel_release_version (db_releases d))"
  shows "get_release d s v = Some r \<longleftrightarrow> r \<in> set (db_releases d) \<and> rel_release_version r = v \<and> rel_service_id r = s"
proof
  assume r: "r \<in> set (db_releases d) \<and> rel_release_version r = v \<and> rel_service_id r = s"
  then have "get_release d s v \<noteq> None" by (auto simp: get_release_def first_row_None)
  then obtain q where q: "get_release d s v = Some q" by blast
  then show "get_release d s v = Some r" using r get_release_in [OF q] distinct_key [OF assms, of q r] by simp
qed (use get_release_in in auto)

lemma spec_card_of:
  assumes "distinct (map rel_release_version (db_releases d))"
  shows "spec_card (board_of d) s v = map_option release_card_of (get_release d s v)"
proof (cases "get_release d s v")
  case None
  then have "\<not> (\<exists>r \<in> set (db_releases d). rel_release_version r = v \<and> rel_service_id r = s)"
    using get_release_row [OF assms, of s v] by auto
  then show ?thesis using None published_row [OF assms, of v]
    by (auto simp: spec_card_def board_of_def release_card_of_def split: option.split)
next
  case (Some r)
  then have "first_row (\<lambda>r. rel_release_version r = v) (db_releases d) = Some r" "rel_service_id r = s"
    using get_release_row [OF assms] published_row [OF assms] by auto
  then show ?thesis using Some by (simp add: spec_card_def board_of_def release_card_of_def)
qed

lemma switch_card [simp]: "release_card_of (switch_to t r) = release_card_of r"
  by (simp add: release_card_of_def switch_to_def)

text \<open>Switching a release on updates the board at one place.\<close>

lemma first_row_switch:
  "first_row (\<lambda>r. rel_release_version r = v) (map (switch_to t) rs)
     = map_option (switch_to t) (first_row (\<lambda>r. rel_release_version r = v) rs)"
  by (induction rs) (auto simp: first_row_def)

lemma board_switch:
  assumes inv: "releases_inv d" and t: "t \<in> set (db_releases d)"
  shows "board_of (d\<lparr>db_releases := map (switch_to t) (db_releases d)\<rparr>)
    = (board_of d)\<lparr>rb_active := (rb_active (board_of d))((rel_service_id t, rel_environment t) \<mapsto> rel_release_version t)\<rparr>"
    (is "board_of ?d = _")
proof -
  have inv': "releases_inv ?d" by (rule switch_inv [OF inv t])
  have mem: "switch_to t r \<in> set (db_releases ?d)" if "r \<in> set (db_releases d)" for r using that by simp
  have on: "get_active_release ?d (rel_service_id t) (rel_environment t) = Some (switch_to t t)"
    using get_active_release_eq [OF inv' mem [OF t]] by (simp add: switch_to_def)
  have off: "map_option rel_release_version (get_active_release ?d s e)
      = map_option rel_release_version (get_active_release d s e)" if ne: "(s, e) \<noteq> (rel_service_id t, rel_environment t)" for s e
  proof (cases "get_active_release d s e")
    case (Some r)
    then have r: "r \<in> set (db_releases d)" "rel_service_id r = s" "rel_environment r = e" "rel_active r"
      using get_active_release_Some by blast+
    then have "rel_release_version r \<noteq> rel_release_version t"
      using ne distinct_key [OF releases_invD(1) [OF inv] r(1) t] by auto
    then have "switch_to t r = r" using ne r(2,3) by (auto simp: switch_to_def)
    then show ?thesis using get_active_release_eq [OF inv' mem [OF r(1)]] r Some by simp
  next
    case None
    have "\<not> (rel_service_id q = s \<and> rel_environment q = e \<and> rel_active (switch_to t q))"
      if q: "q \<in> set (db_releases d)" for q
    proof (cases "rel_release_version q = rel_release_version t")
      case True
      then have "q = t" using distinct_key [OF releases_invD(1) [OF inv] q t] by blast
      then show ?thesis using ne by auto
    next
      case False
      then show ?thesis using None q by (auto simp: get_active_release_None switch_to_def)
    qed
    then have "get_active_release ?d s e = None" by (auto simp: get_active_release_None)
    then show ?thesis using None by simp
  qed
  have "rb_active (board_of ?d) = (rb_active (board_of d))((rel_service_id t, rel_environment t) \<mapsto> rel_release_version t)"
    using on off by (auto simp: board_of_def fun_eq_iff)
  moreover have "rb_published (board_of ?d) = rb_published (board_of d)"
    by (auto simp: board_of_def first_row_switch option.map_comp comp_def)
  ultimately show ?thesis by simp
qed

section \<open>The refinement\<close>

lemma activate_refines:
  assumes inv: "releases_inv d"
  shows "board_result (activate_release d s v) = spec_activate (board_of d) s v"
proof (cases "get_release d s v")
  case None
  then show ?thesis
    by (simp add: activate_release_def board_result_def spec_activate_def spec_card_of [OF releases_invD(1) [OF inv]])
next
  case (Some r)
  note r = get_release_in [OF Some]
  have "activate_release d s v = Inr (d\<lparr>db_releases := map (switch_to r) (db_releases d)\<rparr>, release_after_state r,
      r\<lparr>rel_active := True\<rparr>)"
    using activate_release_Inr [OF releases_invD(1) [OF inv]] Some by blast
  then show ?thesis using board_switch [OF inv, of r] r Some
    by (simp add: board_result_def spec_activate_def spec_card_of [OF releases_invD(1) [OF inv]] release_card_of_def)
qed

lemma rollback_refines:
  assumes inv: "releases_inv d"
  shows "board_result (rollback_release d s v) = spec_rollback (board_of d) s v"
proof -
  note card = spec_card_of [OF releases_invD(1) [OF inv]]
  show ?thesis
  proof (cases "get_release d s v")
    case None
    then show ?thesis by (simp add: rollback_release_def board_result_def spec_rollback_def card)
  next
    case r: (Some r)
    show ?thesis
    proof (cases "Option.bind (rel_rollback_target r) (get_release d s)")
      case None
      then show ?thesis using r
        by (cases "rel_rollback_target r")
          (simp_all add: rollback_release_def board_result_def spec_rollback_def card release_card_of_def)
    next
      case (Some t)
      then obtain v' where t: "rel_rollback_target r = Some v'" "get_release d s v' = Some t" by (auto simp: bind_eq_Some_conv)
      note in_t = get_release_in [OF t(2)]
      show ?thesis
      proof (cases "rel_environment t = rel_environment r")
        case True
        have "set_active_release d s (rel_environment t) (rel_release_version t)
            = Inr (d\<lparr>db_releases := map (switch_to t) (db_releases d)\<rparr>)"
          using set_active_release_target [OF releases_invD(1) [OF inv], of t] in_t by simp
        then show ?thesis using board_switch [OF inv, of t] in_t True r t
          by (simp add: rollback_release_def board_result_def spec_rollback_def spec_activate_def card release_card_of_def)
      next
        case False
        then show ?thesis using r t
          by (simp add: rollback_release_def board_result_def spec_rollback_def card release_card_of_def)
      qed
    qed
  qed
qed

lemma create_refines:
  assumes "releases_inv d" and "create_release collate d s e p c m run target who now = Inr (d', r)"
  shows "spec_publish (board_of d) (rel_release_version r) (release_card_of r) = Some (board_of d')"
proof -
  note r = create_release_Inr [OF assms(2)]
  have none: "first_row (\<lambda>q. rel_release_version q = rel_release_version r) (db_releases d) = None"
    using r(7) by (auto simp: first_row_None image_iff)
  have "first_row P (rs @ [r]) = (case first_row P rs of Some q \<Rightarrow> Some q | None \<Rightarrow> if P r then Some r else None)" for P and rs :: "release list"
    by (induction rs) (auto simp: first_row_def)
  note app = this
  have "rb_published (board_of d') = (rb_published (board_of d))(rel_release_version r \<mapsto> release_card_of r)"
    using none by (auto simp: board_of_def r(1) app fun_eq_iff split: option.split)
  moreover have "get_active_release d' s e = get_active_release d s e" for s e
    using r(4) by (simp add: get_active_release_def r(1))
  then have "rb_active (board_of d') = rb_active (board_of d)" by (simp add: board_of_def)
  ultimately show ?thesis using none by (simp add: spec_publish_def) (simp add: board_of_def)
qed

text \<open>
  C5: over databases the operations can reach, activation and rollback do on the tables exactly what they do on the
  abstract board, failures included; a creation publishes its version, which was not published before, and
  recording a test run changes nothing.
\<close>

theorem releases_refine_board:
  assumes "db_releases d = []" and "db_test_runs d = []" and "db_test_results d = []"
    and "d1 = release_run collate d es"
  shows "board_result (activate_release d1 s v) = spec_activate (board_of d1) s v
    \<and> board_result (rollback_release d1 s v) = spec_rollback (board_of d1) s v
    \<and> (\<forall>d2 r. create_release collate d1 s e p c m run target who now = Inr (d2, r)
         \<longrightarrow> spec_publish (board_of d1) (rel_release_version r) (release_card_of r) = Some (board_of d2))
    \<and> (\<forall>d2 t'. create_test_run_with_results d1 t qs = Inr (d2, t') \<longrightarrow> board_of d2 = board_of d1)"
proof (intro conjI allI impI)
  have inv: "releases_inv d1" unfolding assms(4) by (rule release_run_inv [OF releases_inv_empty [OF assms(1-3)]])
  show "board_result (activate_release d1 s v) = spec_activate (board_of d1) s v" by (rule activate_refines [OF inv])
  show "board_result (rollback_release d1 s v) = spec_rollback (board_of d1) s v" by (rule rollback_refines [OF inv])
  show "spec_publish (board_of d1) (rel_release_version r) (release_card_of r) = Some (board_of d2)"
    if "create_release collate d1 s e p c m run target who now = Inr (d2, r)" for d2 r
    by (rule create_refines [OF inv that])
  show "board_of d2 = board_of d1" if "create_test_run_with_results d1 t qs = Inr (d2, t')" for d2 t'
    using that by (auto simp: create_test_run_with_results_def raise_simps board_of_def get_active_release_def)
qed

theorem releases_refine_board_witness:
  "\<exists>b. board_result (rollback_release (release_run length sample_db sample_events) [2] (sample_version 2)) = Some b
    \<and> rb_active b ([2], lit ''dev'') = Some (sample_version 1)"
proof -
  let ?d = "release_run length sample_db sample_events"
  have rows: "get_release ?d [2] (sample_version 2) = Some (sample_release 2 [11] (Some (sample_version 1)) True)"
    "get_release ?d [2] (sample_version 1) = Some (sample_release 1 [10] None False)"
    unfolding sample_history by (simp_all add: get_release_def first_row_def)
  have inv: "distinct (map rel_release_version (db_releases ?d))" unfolding sample_history by simp
  show ?thesis
    using releases_refine_board [OF sample_db_empty refl, of length sample_events "[2]" "sample_version 2"]
    by (simp add: spec_rollback_def spec_activate_def spec_card_of [OF inv] rows release_card_of_def del: One_nat_def)
qed

end
