(* ===== verification/Py_Codec.thy ===== *)
theory Py_Codec
  imports Models "HOL-Library.List_Lexorder"
begin

text \<open>
  The codecs of the Python standard library that the cryptographic modules use: UTF-8 (strict in both
  directions), base64 as \<open>binascii\<close> reads and writes it, and the integer constructor on text.
\<close>

section \<open>UTF-8\<close>

definition utf8_char :: "nat \<Rightarrow> bytes option" where
  "utf8_char c =
     (if c < 128 then Some [c]
      else if c < 2048 then Some [192 + c div 64, 128 + c mod 64]
      else if 55296 \<le> c \<and> c < 57344 then None
      else if c < 65536 then Some [224 + c div 4096, 128 + c div 64 mod 64, 128 + c mod 64]
      else if c < 1114112 then
        Some [240 + c div 262144, 128 + c div 4096 mod 64, 128 + c div 64 mod 64, 128 + c mod 64]
      else None)"

text \<open>\<open>s.encode("utf-8")\<close>; surrogates raise.\<close>

fun utf8_encode :: "str \<Rightarrow> bytes option" where
  "utf8_encode [] = Some []"
| "utf8_encode (c # s) =
     (case (utf8_char c, utf8_encode s) of (Some b, Some r) \<Rightarrow> Some (b @ r) | _ \<Rightarrow> None)"

definition continuation :: "nat \<Rightarrow> bool" where
  "continuation b \<longleftrightarrow> 128 \<le> b \<and> b < 192"

text \<open>The code point at the head of a byte string, in its shortest form and not a surrogate.\<close>

fun utf8_head :: "bytes \<Rightarrow> (nat \<times> bytes) option" where
  "utf8_head (b # r) =
     (if b < 128 then Some (b, r)
      else case r of
        b1 # r1 \<Rightarrow>
          if \<not> continuation b1 then None
          else if 194 \<le> b \<and> b < 224 then Some ((b - 192) * 64 + (b1 - 128), r1)
          else (case r1 of
            b2 # r2 \<Rightarrow>
              if \<not> continuation b2 then None
              else if 224 \<le> b \<and> b < 240 then
                let c = (b - 224) * 4096 + (b1 - 128) * 64 + (b2 - 128)
                in if c < 2048 \<or> (55296 \<le> c \<and> c < 57344) then None else Some (c, r2)
              else (case r2 of
                b3 # r3 \<Rightarrow>
                  if 240 \<le> b \<and> b < 245 \<and> continuation b3 then
                    let c = (b - 240) * 262144 + (b1 - 128) * 4096 + (b2 - 128) * 64 + (b3 - 128)
                    in if c < 65536 \<or> 1114112 \<le> c then None else Some (c, r3)
                  else None
              | [] \<Rightarrow> None)
          | [] \<Rightarrow> None)
      | [] \<Rightarrow> None)"
| "utf8_head [] = None"

lemma utf8_head_shorter: "utf8_head b = Some (c, r) \<Longrightarrow> length r < length b"
  by (cases b rule: utf8_head.cases) (auto simp: Let_def split: if_splits list.splits)

text \<open>\<open>b.decode("utf-8")\<close>\<close>

function utf8_decode :: "bytes \<Rightarrow> str option" where
  "utf8_decode b =
     (if b = [] then Some []
      else case utf8_head b of None \<Rightarrow> None
        | Some (c, r) \<Rightarrow> map_option ((#) c) (utf8_decode r))"
  by pat_completeness auto
termination by (relation "measure length") (auto dest: utf8_head_shorter)

declare utf8_decode.simps [simp del]

lemma utf8_decode_Nil [simp]: "utf8_decode [] = Some []"
  by (simp add: utf8_decode.simps)

lemma utf8_head_bytes:
  "z < 64 \<Longrightarrow> 2 \<le> y \<Longrightarrow> y < 32 \<Longrightarrow> utf8_head ([192 + y, 128 + z] @ r) = Some (y * 64 + z, r)"
  "z < 64 \<Longrightarrow> y < 64 \<Longrightarrow> x < 16 \<Longrightarrow> c = x * 4096 + y * 64 + z \<Longrightarrow> 2048 \<le> c \<Longrightarrow> \<not> (55296 \<le> c \<and> c < 57344) \<Longrightarrow>
     utf8_head ([224 + x, 128 + y, 128 + z] @ r) = Some (c, r)"
  "z < 64 \<Longrightarrow> y < 64 \<Longrightarrow> x < 64 \<Longrightarrow> w < 5 \<Longrightarrow> c = w * 262144 + x * 4096 + y * 64 + z \<Longrightarrow> 65536 \<le> c \<Longrightarrow> c < 1114112 \<Longrightarrow>
     utf8_head ([240 + w, 128 + x, 128 + y, 128 + z] @ r) = Some (c, r)"
  by (simp_all add: continuation_def Let_def)

lemma six_bits:
  fixes c :: nat
  shows "c = c div 64 * 64 + c mod 64" "c = c div 4096 * 4096 + c div 64 mod 64 * 64 + c mod 64"
    "c = c div 262144 * 262144 + c div 4096 mod 64 * 4096 + c div 64 mod 64 * 64 + c mod 64"
proof -
  have d: "c div 4096 = c div 64 div 64" "c div 262144 = c div 4096 div 64" by (simp_all flip: div_mult2_eq)
  show 1: "c = c div 64 * 64 + c mod 64" by simp
  have "c div 64 = c div 4096 * 64 + c div 64 mod 64" by (simp add: d)
  then show 2: "c = c div 4096 * 4096 + c div 64 mod 64 * 64 + c mod 64" using 1 by linarith
  have "c div 4096 = c div 262144 * 64 + c div 4096 mod 64" by (simp add: d)
  then show "c = c div 262144 * 262144 + c div 4096 mod 64 * 4096 + c div 64 mod 64 * 64 + c mod 64" using 2 by linarith
qed

lemma utf8_head_char:
  assumes "utf8_char c = Some b"
  shows "utf8_head (b @ r) = Some (c, r)"
proof -
  consider "c < 128" | "128 \<le> c" "c < 2048" | "2048 \<le> c" "c < 65536" | "65536 \<le> c"
    by linarith
  then show ?thesis
  proof cases
    case 1
    then show ?thesis using assms by (auto simp: utf8_char_def)
  next
    case 2
    then have "2 \<le> c div 64" "c div 64 < 32" using div_le_mono [of 128 c 64] by (simp_all add: less_mult_imp_div_less)
    then show ?thesis using assms 2 utf8_head_bytes(1) [of "c mod 64" "c div 64" r] by (simp add: utf8_char_def)
  next
    case 3
    then have b: "b = [224 + c div 4096, 128 + c div 64 mod 64, 128 + c mod 64]" "\<not> (55296 \<le> c \<and> c < 57344)"
      using assms by (simp_all add: utf8_char_def split: if_splits)
    show ?thesis unfolding b(1) by (rule utf8_head_bytes(2)) (use 3 b(2) six_bits(2) [of c] in \<open>simp_all add: less_mult_imp_div_less\<close>)
  next
    case 4
    then have b: "b = [240 + c div 262144, 128 + c div 4096 mod 64, 128 + c div 64 mod 64, 128 + c mod 64]"
      "c < 1114112" using assms by (simp_all add: utf8_char_def split: if_splits)
    show ?thesis unfolding b(1) by (rule utf8_head_bytes(3)) (use 4 b(2) six_bits(3) [of c] in \<open>simp_all add: less_mult_imp_div_less\<close>)
  qed
qed

lemma utf8_char_not_Nil: "utf8_char c = Some b \<Longrightarrow> b \<noteq> []"
  by (auto simp: utf8_char_def split: if_splits)

lemma utf8_decode_encode: "utf8_encode s = Some b \<Longrightarrow> utf8_decode b = Some s"
proof (induction s arbitrary: b)
  case Nil
  then show ?case by simp
next
  case (Cons c s)
  obtain x r where x: "utf8_char c = Some x" "utf8_encode s = Some r" "b = x @ r"
    using Cons.prems by (auto split: option.splits)
  then show ?case
    using Cons.IH [OF x(2)] utf8_head_char [OF x(1), of r] utf8_char_not_Nil [OF x(1)]
    by (subst utf8_decode.simps) simp
qed

lemma utf8_encode_inject: "utf8_encode s = Some b \<Longrightarrow> utf8_encode t = Some b \<Longrightarrow> s = t"
  by (metis utf8_decode_encode option.inject)

lemma utf8_encode_append:
  "utf8_encode (s @ t) = (case (utf8_encode s, utf8_encode t) of (Some a, Some b) \<Rightarrow> Some (a @ b) | _ \<Rightarrow> None)"
  by (induction s) (auto split: option.splits)

definition ascii :: "str \<Rightarrow> bool" where
  "ascii s \<longleftrightarrow> list_all (\<lambda>c. c < 128) s"

lemma utf8_encode_ascii [simp]: "ascii s \<Longrightarrow> utf8_encode s = Some s"
  by (induction s) (auto simp: ascii_def utf8_char_def)

section \<open>Base64\<close>

definition b64_char :: "nat \<Rightarrow> nat" where
  "b64_char v =
     (if v < 26 then 65 + v else if v < 52 then 71 + v else if v < 62 then v - 4 else if v = 62 then 43 else 47)"

definition b64_value :: "nat \<Rightarrow> nat option" where
  "b64_value c =
     (if 65 \<le> c \<and> c \<le> 90 then Some (c - 65)
      else if 97 \<le> c \<and> c \<le> 122 then Some (c - 71)
      else if 48 \<le> c \<and> c \<le> 57 then Some (c + 4)
      else if c = 43 then Some 62 else if c = 47 then Some 63 else None)"

text \<open>\<open>base64.b64encode\<close>, with its padding.\<close>

fun b64encode :: "bytes \<Rightarrow> str" where
  "b64encode [] = []"
| "b64encode [a] = [b64_char (a div 4), b64_char (a mod 4 * 16), 61, 61]"
| "b64encode [a, b] = [b64_char (a div 4), b64_char (a mod 4 * 16 + b div 16), b64_char (b mod 16 * 4), 61]"
| "b64encode (a # b # c # r) = [b64_char (a div 4), b64_char (a mod 4 * 16 + b div 16),
     b64_char (b mod 16 * 4 + c div 64), b64_char (c mod 64)] @ b64encode r"

text \<open>
  \<open>binascii.a2b_base64\<close> after the check of its first character: \<open>quad\<close> counts the characters of the
  current group, \<open>left\<close> holds its unread bits, \<open>pads\<close> the padding seen since the last character. Other
  characters are skipped, or refused in strict mode.
\<close>

fun a2b :: "bool \<Rightarrow> nat \<Rightarrow> nat \<Rightarrow> nat \<Rightarrow> bool \<Rightarrow> str \<Rightarrow> bytes option" where
  "a2b strict quad left pads started [] = (if quad = 0 then Some [] else None)"
| "a2b strict quad left pads started (c # s) =
     (if c = 61 then
        (if 2 \<le> quad \<and> 4 \<le> quad + (pads + 1) then if strict \<and> s \<noteq> [] then None else Some []
         else a2b strict quad left (if 2 \<le> quad then pads + 1 else pads) True s)
      else case b64_value c of
        None \<Rightarrow> if strict then None else a2b strict quad left pads started s
      | Some v \<Rightarrow>
          if strict \<and> started then None
          else if quad = 0 then a2b strict 1 v 0 started s
          else if quad = 1 then map_option ((#) (left * 4 + v div 16)) (a2b strict 2 (v mod 16) 0 started s)
          else if quad = 2 then map_option ((#) (left * 16 + v div 4)) (a2b strict 3 (v mod 4) 0 started s)
          else map_option ((#) (left * 64 + v)) (a2b strict 0 0 0 started s))"

text \<open>\<open>base64.b64decode(s, validate=strict)\<close> of a text: \<open>None\<close> is a \<open>ValueError\<close> (\<open>binascii.Error\<close> is one).\<close>

definition b64decode :: "bool \<Rightarrow> str \<Rightarrow> bytes option" where
  "b64decode strict s =
     (if \<not> list_all (\<lambda>c. c < 128) s \<or> (strict \<and> s \<noteq> [] \<and> hd s = 61) then None else a2b strict 0 0 0 False s)"

definition urlsafe_b64encode :: "bytes \<Rightarrow> str" where
  "urlsafe_b64encode b = map (\<lambda>c. if c = 43 then 45 else if c = 47 then 95 else c) (b64encode b)"

definition urlsafe_b64decode :: "str \<Rightarrow> bytes option" where
  "urlsafe_b64decode s = b64decode False (map (\<lambda>c. if c = 45 then 43 else if c = 95 then 47 else c) s)"

definition byte_list :: "bytes \<Rightarrow> bool" where
  "byte_list b \<longleftrightarrow> list_all (\<lambda>v. v < 256) b"

lemma byte_list_simps [simp]: "byte_list []" "byte_list (v # b) \<longleftrightarrow> v < 256 \<and> byte_list b"
  "byte_list (b @ c) \<longleftrightarrow> byte_list b \<and> byte_list c"
  by (simp_all add: byte_list_def)

lemma b64_value_char [simp]: "v < 64 \<Longrightarrow> b64_value (b64_char v) = Some v"
  by (auto simp: b64_value_def b64_char_def)

lemma b64_char_not_pad [simp]: "v < 64 \<Longrightarrow> b64_char v \<noteq> 61" "v < 64 \<Longrightarrow> 61 \<noteq> b64_char v"
  by (auto simp: b64_char_def)

lemma a2b_b64encode:
  assumes "byte_list b"
  shows "a2b strict 0 0 0 False (b64encode b) = Some b"
  using assms
proof (induction b rule: b64encode.induct)
  case (2 a)
  then have "a div 4 < 64" by auto
  then show ?case by simp
next
  case (3 a b)
  then have "a div 4 < 64" "a mod 4 * 16 + b div 16 < 64" "b mod 16 * 4 < 64"
    "(a mod 4 * 16 + b div 16) div 16 = a mod 4" "(a mod 4 * 16 + b div 16) mod 16 = b div 16"
    by (auto; presburger)+
  then show ?case by simp
next
  case (4 a b c r)
  then have "a div 4 < 64" "a mod 4 * 16 + b div 16 < 64" "b mod 16 * 4 + c div 64 < 64"
    "(a mod 4 * 16 + b div 16) div 16 = a mod 4" "(a mod 4 * 16 + b div 16) mod 16 = b div 16"
    "(b mod 16 * 4 + c div 64) div 4 = b mod 16" "(b mod 16 * 4 + c div 64) mod 4 = c div 64"
    by (auto; presburger)+
  then show ?case using 4 by simp
qed simp

lemma b64_value_ascii: "b64_value c \<noteq> None \<Longrightarrow> c < 128"
  by (auto simp: b64_value_def split: if_splits)

lemma b64encode_chars: "byte_list b \<Longrightarrow> c \<in> set (b64encode b) \<Longrightarrow> c = 61 \<or> b64_value c \<noteq> None"
proof (induction b rule: b64encode.induct)
  case (2 a)
  then have "a div 4 < 64" "a mod 4 * 16 < 64" by auto
  then show ?case using 2 by auto
next
  case (3 a b)
  then have "a div 4 < 64" "a mod 4 * 16 + b div 16 < 64" by (auto; presburger)+
  then show ?case using 3 by auto
next
  case (4 a b c' r)
  then have "a div 4 < 64" "a mod 4 * 16 + b div 16 < 64" "b mod 16 * 4 + c' div 64 < 64" by (auto; presburger)+
  then show ?case using 4 by auto
qed simp

lemma b64encode_hd: "byte_list b \<Longrightarrow> b \<noteq> [] \<Longrightarrow> hd (b64encode b) \<noteq> 61"
  by (cases b rule: b64encode.cases) auto

text \<open>Written bytes read back.\<close>

lemma b64decode_b64encode: "byte_list b \<Longrightarrow> b64decode strict (b64encode b) = Some b"
proof -
  assume b: "byte_list b"
  then have "list_all (\<lambda>c. c < 128) (b64encode b)" using b64encode_chars b64_value_ascii by (fastforce simp: list_all_iff)
  moreover have "\<not> (b64encode b \<noteq> [] \<and> hd (b64encode b) = 61)" using b b64encode_hd [of b] by (cases b) auto
  ultimately show ?thesis using a2b_b64encode [OF b] by (auto simp: b64decode_def)
qed

lemma urlsafe_b64_roundtrip: "byte_list b \<Longrightarrow> urlsafe_b64decode (urlsafe_b64encode b) = Some b"
proof -
  assume b: "byte_list b"
  have "(\<lambda>c. if c = 45 then 43 else if c = 95 then 47 else c) (if c = 43 then 45 else if c = 47 then 95 else c) = c"
    if "c \<in> set (b64encode b)" for c
    using b64encode_chars [OF b that] by (auto simp: b64_value_def)
  then have "map ((\<lambda>c. if c = 45 then 43 else if c = 95 then 47 else c) \<circ> (\<lambda>c. if c = 43 then 45 else if c = 47 then 95 else c))
      (b64encode b) = b64encode b"
    by (intro map_idI) simp
  then show ?thesis using b64decode_b64encode [OF b] by (simp add: urlsafe_b64decode_def urlsafe_b64encode_def)
qed

section \<open>Integers\<close>

text \<open>
  \<open>int(s)\<close>: surrounding spaces (not the separators 28 to 31), a sign, groups of decimal digits of any
  script joined by single underscores, at most 4300 digits. \<open>None\<close> is a \<open>ValueError\<close>.
\<close>

definition int_space :: "nat \<Rightarrow> bool" where
  "int_space c \<longleftrightarrow> is_space c \<and> \<not> (28 \<le> c \<and> c \<le> 31)"

definition py_int :: "str \<Rightarrow> int option" where
  "py_int s =
     (let t = rev (dropWhile int_space (rev (dropWhile int_space s)));
          u = (case t of c # r \<Rightarrow> if c = 43 \<or> c = 45 then r else t | [] \<Rightarrow> []);
          digits = filter (\<lambda>c. c \<noteq> 95) u
      in if list_all isdecimal (split_on 95 u) \<and> length digits \<le> 4300
         then Some (if t \<noteq> [] \<and> hd t = 45 then - int (int_of_decimal digits) else int (int_of_decimal digits))
         else None)"

end
