(* ===== verification/Json_Text.thy ===== *)
theory Json_Text
  imports Py_Codec
begin

text \<open>
  The \<open>json\<close> module of the Python standard library on texts, as far as the program uses it: \<open>json.loads\<close> up to
  the numbers, which stay as their text, and \<open>json.dumps\<close> of an object of strings. The two are inverse
  on texts without surrogates, so different objects are written differently.
\<close>

section \<open>Reading\<close>

datatype json_text =
    T_Null | T_Bool bool | T_Number str | T_Str str | T_Arr "json_text list" | T_Obj "(str \<times> json_text) list"

text \<open>
  \<open>Int_Limit\<close> is the \<open>ValueError\<close> of an integer of more than 4300 digits, \<open>Recursion_Limit\<close> the \<open>RecursionError\<close> of
  too many nested objects and arrays; neither is a \<open>JSONDecodeError\<close>.
\<close>

datatype json_error = Decode_Error | Int_Limit | Recursion_Limit | Out_Of_Fuel

definition hex_value :: "nat \<Rightarrow> nat option" where
  "hex_value c =
     (if 48 \<le> c \<and> c \<le> 57 then Some (c - 48)
      else if 97 \<le> c \<and> c \<le> 102 then Some (c - 87)
      else if 65 \<le> c \<and> c \<le> 70 then Some (c - 55) else None)"

definition hex4_value :: "nat \<Rightarrow> nat \<Rightarrow> nat \<Rightarrow> nat \<Rightarrow> nat option" where
  "hex4_value a b c d =
     (case (hex_value a, hex_value b, hex_value c, hex_value d) of
        (Some w, Some x, Some y, Some z) \<Rightarrow> Some (((w * 16 + x) * 16 + y) * 16 + z) | _ \<Rightarrow> None)"

definition short_escape :: "nat \<Rightarrow> nat option" where
  "short_escape e = map_of [(34, 34), (92, 92), (47, 47), (98, 8), (102, 12), (110, 10), (114, 13), (116, 9)] e"

definition high_surrogate :: "nat \<Rightarrow> bool" where
  "high_surrogate c \<longleftrightarrow> 55296 \<le> c \<and> c < 56320"

definition low_surrogate :: "nat \<Rightarrow> bool" where
  "low_surrogate c \<longleftrightarrow> 56320 \<le> c \<and> c < 57344"

text \<open>A lower surrogate escape at the head of the text, which a high one joins.\<close>

fun low_escape :: "str \<Rightarrow> (nat \<times> str) option" where
  "low_escape (x # u # a # b # c # d # r) =
     (if x = 92 \<and> u = 117 then
        (case hex4_value a b c d of
           Some v \<Rightarrow> if low_surrogate v then Some (v, r) else None
         | None \<Rightarrow> None)
      else None)"
| "low_escape _ = None"

lemma low_escape_shorter: "low_escape s = Some (v, r) \<Longrightarrow> length r < length s"
  by (cases s rule: low_escape.cases) (auto split: if_splits option.splits)

text \<open>The character that an escape stands for, after its backslash.\<close>

fun escape_at :: "str \<Rightarrow> (nat \<times> str) option" where
  "escape_at [] = None"
| "escape_at (u # s) =
     (if u \<noteq> 117 then map_option (\<lambda>e. (e, s)) (short_escape u)
      else case s of
        a # b # c # d # r \<Rightarrow>
          (case hex4_value a b c d of
             None \<Rightarrow> None
           | Some v \<Rightarrow>
               (case (if high_surrogate v then low_escape r else None) of
                  Some (w, r') \<Rightarrow> Some (65536 + (v - 55296) * 1024 + (w - 56320), r')
                | None \<Rightarrow> Some (v, r)))
      | _ \<Rightarrow> None)"

definition char_at :: "str \<Rightarrow> (nat \<times> str) option" where
  "char_at s =
     (case s of [] \<Rightarrow> None
      | c # r \<Rightarrow> if c = 92 then escape_at r else if c < 32 then None else Some (c, r))"

lemma escape_at_shorter: "escape_at s = Some (v, r) \<Longrightarrow> length r < length s"
  by (cases s rule: escape_at.cases) (auto split: if_splits option.splits list.splits dest!: low_escape_shorter)

lemma char_at_shorter: "char_at s = Some (c, r) \<Longrightarrow> length r < length s"
  by (auto simp: char_at_def split: list.splits if_splits dest!: escape_at_shorter)

text \<open>The characters of a string after its opening quote, and the text after the closing one.\<close>

function parse_chars :: "str \<Rightarrow> (str \<times> str) option" where
  "parse_chars s =
     (if s \<noteq> [] \<and> hd s = 34 then Some ([], tl s)
      else case char_at s of None \<Rightarrow> None
        | Some (c, r) \<Rightarrow> map_option (apfst ((#) c)) (parse_chars r))"
  by pat_completeness auto
termination
  by (relation "measure length") (auto dest: char_at_shorter)

declare parse_chars.simps [simp del]

lemma parse_chars_quote [simp]: "parse_chars (34 # s) = Some ([], s)"
  by (simp add: parse_chars.simps)

definition json_space :: "nat \<Rightarrow> bool" where
  "json_space c \<longleftrightarrow> c = 32 \<or> c = 9 \<or> c = 10 \<or> c = 13"

definition skip_space :: "str \<Rightarrow> str" where
  "skip_space s = dropWhile json_space s"

definition ascii_digit :: "nat \<Rightarrow> bool" where
  "ascii_digit c \<longleftrightarrow> 48 \<le> c \<and> c \<le> 57"

text \<open>The longest number at the head of a text: an integer part, then maybe a fraction, then maybe an exponent.\<close>

definition int_part :: "str \<Rightarrow> str option" where
  "int_part s =
     (case s of [] \<Rightarrow> None
      | c # r \<Rightarrow> if c = 48 then Some [48] else if ascii_digit c then Some (takeWhile ascii_digit s) else None)"

definition fraction_part :: "str \<Rightarrow> str" where
  "fraction_part s =
     (case s of c # r \<Rightarrow> if c = 46 \<and> takeWhile ascii_digit r \<noteq> [] then 46 # takeWhile ascii_digit r else []
      | [] \<Rightarrow> [])"

definition exponent_part :: "str \<Rightarrow> str" where
  "exponent_part s =
     (case s of
        e # r \<Rightarrow>
          let sign = (case r of c # _ \<Rightarrow> if c = 43 \<or> c = 45 then [c] else [] | [] \<Rightarrow> []);
              digits = takeWhile ascii_digit (drop (length sign) r)
          in if (e = 101 \<or> e = 69) \<and> digits \<noteq> [] then e # sign @ digits else []
      | [] \<Rightarrow> [])"

definition minus_sign :: "str \<Rightarrow> str" where
  "minus_sign s = (case s of c # _ \<Rightarrow> if c = 45 then [c] else [] | [] \<Rightarrow> [])"

definition parse_number :: "str \<Rightarrow> (json_error, json_text \<times> str) outcome" where
  "parse_number s =
     (let sign = minus_sign s in
      case int_part (drop (length sign) s) of
        None \<Rightarrow> Inl Decode_Error
      | Some digits \<Rightarrow>
          let r = drop (length sign + length digits) s;
              fraction = fraction_part r;
              exponent = exponent_part (drop (length fraction) r);
              number = sign @ digits @ fraction @ exponent
          in if fraction = [] \<and> exponent = [] \<and> 4300 < length digits then Inl Int_Limit
             else Inr (T_Number number, drop (length number) s))"

definition literals :: "(str \<times> json_text) list" where
  "literals = [(lit ''null'', T_Null), (lit ''true'', T_Bool True), (lit ''false'', T_Bool False),
     (lit ''NaN'', T_Number (lit ''NaN'')), (lit ''Infinity'', T_Number (lit ''Infinity'')),
     (lit ''-Infinity'', T_Number (lit ''-Infinity''))]"

definition parse_scalar :: "str \<Rightarrow> (json_error, json_text \<times> str) outcome" where
  "parse_scalar s =
     (case find (\<lambda>(w, v). take (length w) s = w) literals of
        Some (w, v) \<Rightarrow> Inr (v, drop (length w) s)
      | None \<Rightarrow> parse_number s)"

text \<open>A string, the next token after spaces, and what follows an item: whether a comma, or the closing token.\<close>

definition parse_string :: "str \<Rightarrow> (json_error, str \<times> str) outcome" where
  "parse_string s = (if s \<noteq> [] \<and> hd s = 34 then some_or (parse_chars (tl s)) Decode_Error else Inl Decode_Error)"

definition next_is :: "nat \<Rightarrow> str \<Rightarrow> bool" where
  "next_is c s \<longleftrightarrow> skip_space s \<noteq> [] \<and> hd (skip_space s) = c"

definition expect :: "nat \<Rightarrow> str \<Rightarrow> (json_error, str) outcome" where
  "expect c s = (if next_is c s then Inr (tl (skip_space s)) else Inl Decode_Error)"

definition next_item :: "nat \<Rightarrow> str \<Rightarrow> (json_error, bool \<times> str) outcome" where
  "next_item close s =
     (if next_is close s then Inr (False, tl (skip_space s))
      else if next_is 44 s then Inr (True, skip_space (tl (skip_space s))) else Inl Decode_Error)"

text \<open>
  A value, the members of an object after its opening brace (at the quote of a key) and the elements of an array. The
  first argument is the number of objects and arrays that may still be entered before the recursion limit of the
  interpreter, which the parser checks at each opening brace or bracket. The fuel bounds the depth of the calls of the
  model; \<open>json_loads\<close> gives enough.
\<close>

fun parse_value :: "nat \<Rightarrow> nat \<Rightarrow> str \<Rightarrow> (json_error, json_text \<times> str) outcome"
  and parse_members :: "nat \<Rightarrow> nat \<Rightarrow> str \<Rightarrow> (json_error, (str \<times> json_text) list \<times> str) outcome"
  and parse_elements :: "nat \<Rightarrow> nat \<Rightarrow> str \<Rightarrow> (json_error, json_text list \<times> str) outcome" where
  "parse_value k 0 s = Inl Out_Of_Fuel"
| "parse_value k (Suc n) s =
     (if s = [] then Inl Decode_Error
      else if hd s = 34 then bindE (parse_string s) (\<lambda>(t, r). Inr (T_Str t, r))
      else if hd s = 123 then
        (if k = 0 then Inl Recursion_Limit
         else if next_is 125 (tl s) then Inr (T_Obj [], tl (skip_space (tl s)))
         else bindE (parse_members (k - 1) n (skip_space (tl s))) (\<lambda>(ms, r). Inr (T_Obj (dict_of ms), r)))
      else if hd s = 91 then
        (if k = 0 then Inl Recursion_Limit
         else if next_is 93 (tl s) then Inr (T_Arr [], tl (skip_space (tl s)))
         else bindE (parse_elements (k - 1) n (skip_space (tl s))) (\<lambda>(vs, r). Inr (T_Arr vs, r)))
      else parse_scalar s)"
| "parse_members k 0 s = Inl Out_Of_Fuel"
| "parse_members k (Suc n) s =
     bindE (parse_string s) (\<lambda>(key, r1).
     bindE (expect 58 r1) (\<lambda>r2.
     bindE (parse_value k n (skip_space r2)) (\<lambda>(v, r3).
     bindE (next_item 125 r3) (\<lambda>(again, r4).
     if again then bindE (parse_members k n r4) (\<lambda>(ms, r5). Inr ((key, v) # ms, r5)) else Inr ([(key, v)], r4)))))"
| "parse_elements k 0 s = Inl Out_Of_Fuel"
| "parse_elements k (Suc n) s =
     bindE (parse_value k n s) (\<lambda>(v, r1).
     bindE (next_item 93 r1) (\<lambda>(again, r2).
     if again then bindE (parse_elements k n r2) (\<lambda>(vs, r3). Inr (v # vs, r3)) else Inr ([v], r2)))"

definition json_loads :: "nat \<Rightarrow> str \<Rightarrow> (json_error, json_text) outcome" where
  "json_loads k s =
     bindE (parse_value k (2 * length s + 2) (skip_space s)) (\<lambda>(v, r).
       if skip_space r = [] then Inr v else Inl Decode_Error)"

section \<open>The fuel is enough\<close>

lemma parse_chars_shorter: "parse_chars s = Some (t, r) \<Longrightarrow> length r < length s"
proof (induction s arbitrary: t rule: parse_chars.induct)
  case (1 s)
  show ?case
  proof (cases "s \<noteq> [] \<and> hd s = 34")
    case True
    then show ?thesis using 1(2) by (cases s) auto
  next
    case False
    then obtain c q t' where q: "char_at s = Some (c, q)" "parse_chars q = Some (t', r)"
      using 1(2) by (subst (asm) parse_chars.simps) (auto split: if_splits option.splits)
    then show ?thesis using 1(1) [OF False q(1) refl q(2)] char_at_shorter [OF q(1)] by simp
  qed
qed

lemma skip_space_le: "length (skip_space s) \<le> length s"
  by (simp add: skip_space_def length_dropWhile_le)

lemma next_is_shorter: "next_is c s \<Longrightarrow> length (tl (skip_space s)) < length s"
  using skip_space_le [of s] by (cases "skip_space s") (auto simp: next_is_def)

lemma token_shorter:
  "parse_string s = Inr (t, r) \<Longrightarrow> length r < length s"
  "expect c s = Inr r \<Longrightarrow> length r < length s"
  "next_item c s = Inr (again, r) \<Longrightarrow> length r < length s"
proof -
  show "length r < length s" if "parse_string s = Inr (t, r)"
    using that by (cases s) (auto simp: parse_string_def raise_simps split: if_splits dest: parse_chars_shorter)
  show "length r < length s" if "expect c s = Inr r"
    using that next_is_shorter [of c s] by (auto simp: expect_def simp del: length_tl split: if_splits)
  show "length r < length s" if "next_item c s = Inr (again, r)"
    using that next_is_shorter [of c s] next_is_shorter [of 44 s] skip_space_le [of "tl (skip_space s)"]
    by (auto simp: next_item_def simp del: length_tl split: if_splits)
qed

lemma token_fuel [simp]: "parse_string s \<noteq> Inl Out_Of_Fuel" "expect c s \<noteq> Inl Out_Of_Fuel" "next_item c s \<noteq> Inl Out_Of_Fuel"
  by (auto simp: parse_string_def expect_def next_item_def raise_simps)

lemma int_part_not_Nil: "int_part s = Some d \<Longrightarrow> d \<noteq> []"
  by (cases s) (auto simp: int_part_def split: if_splits)

lemma parse_number_shorter: "s \<noteq> [] \<Longrightarrow> parse_number s = Inr (v, r) \<Longrightarrow> length r < length s"
  by (auto simp: parse_number_def Let_def split: option.splits if_splits dest: int_part_not_Nil)

lemma literals_not_Nil: "(w, v) \<in> set literals \<Longrightarrow> w \<noteq> []"
proof -
  have "lit s = [] \<longleftrightarrow> s = []" for s by (simp add: lit_def)
  then show "(w, v) \<in> set literals \<Longrightarrow> w \<noteq> []" by (auto simp: literals_def)
qed

lemma find_in: "find P xs = Some x \<Longrightarrow> x \<in> set xs"
  by (induction xs) (auto split: if_splits)

lemma parse_scalar_shorter:
  assumes "s \<noteq> []" and "parse_scalar s = Inr (v, r)"
  shows "length r < length s"
proof (cases "find (\<lambda>(w, v). take (length w) s = w) literals")
  case None
  then show ?thesis using assms parse_number_shorter by (simp add: parse_scalar_def)
next
  case (Some p)
  then have "p \<in> set literals" by (rule find_in)
  then have "fst p \<noteq> []" using literals_not_Nil [of "fst p" "snd p"] by simp
  then show ?thesis using assms Some by (cases p) (auto simp: parse_scalar_def)
qed

lemma parse_scalar_fuel: "parse_scalar s \<noteq> Inl Out_Of_Fuel"
  by (auto simp: parse_scalar_def parse_number_def Let_def split: option.splits)

lemma parse_shorter:
  "parse_value k n s = Inr (v, r) \<Longrightarrow> length r < length s"
  "parse_members k n s = Inr (ms, r) \<Longrightarrow> length r < length s"
  "parse_elements k n s = Inr (vs, r) \<Longrightarrow> length r < length s"
proof (induction k n s and k n s and k n s arbitrary: v r and ms r and vs r
    rule: parse_value_parse_members_parse_elements.induct)
  case val: (2 k n s)
  consider "hd s = 34" | "hd s = 123" | "hd s = 91" | "hd s \<notin> {34, 123, 91}" by blast
  then show ?case
  proof cases
    case 1
    then show ?thesis using val(3) token_shorter(1) [of s] by (auto simp: raise_simps split: if_splits)
  next
    case 2
    then show ?thesis using val skip_space_le [of "tl s"] next_is_shorter [of 125 "tl s"]
      by (fastforce simp: raise_simps split: if_splits)
  next
    case 3
    then show ?thesis using val skip_space_le [of "tl s"] next_is_shorter [of 93 "tl s"]
      by (fastforce simp: raise_simps split: if_splits)
  next
    case 4
    then show ?thesis using val(3) parse_scalar_shorter [of s v r] by (auto split: if_splits)
  qed
next
  case members: (4 k n s)
  obtain key r1 where 1: "parse_string s = Inr (key, r1)" using members.prems by (cases "parse_string s") auto
  obtain r2 where 2: "expect 58 r1 = Inr r2" using members.prems 1 by (cases "expect 58 r1") auto
  obtain w r3 where 3: "parse_value k n (skip_space r2) = Inr (w, r3)"
    using members.prems 1 2 by (cases "parse_value k n (skip_space r2)") auto
  obtain again r4 where 4: "next_item 125 r3 = Inr (again, r4)"
    using members.prems 1 2 3 by (cases "next_item 125 r3") auto
  note r = 1 2 3 4
  have "length r4 < length s"
    using token_shorter(1) [OF r(1)] token_shorter(2) [OF r(2)] token_shorter(3) [OF r(4)]
      members(1) [OF 3] skip_space_le [of r2] by simp
  moreover have "length r < length r4" if again
    using members(2) [of True r4] members.prems that by (cases "parse_members k n r4") (auto simp: r)
  moreover have "r = r4" if "\<not> again" using members.prems that by (simp add: r)
  ultimately show ?case by force
next
  case elements: (6 k n s)
  obtain w r1 where 1: "parse_value k n s = Inr (w, r1)" using elements.prems by (cases "parse_value k n s") auto
  obtain again r2 where 2: "next_item 93 r1 = Inr (again, r2)"
    using elements.prems 1 by (cases "next_item 93 r1") auto
  note r = 1 2
  have "length r2 < length s" using elements(1) [OF r(1)] token_shorter(3) [OF r(2)] by simp
  moreover have "length r < length r2" if again
    using elements(2) [of True r2] elements.prems that by (cases "parse_elements k n r2") (auto simp: r)
  moreover have "r = r2" if "\<not> again" using elements.prems that by (simp add: r)
  ultimately show ?case by force
qed simp_all

lemma parse_fuel:
  "2 * length s + 1 \<le> n \<Longrightarrow> parse_value k n s \<noteq> Inl Out_Of_Fuel"
  "2 * length s + 2 \<le> n \<Longrightarrow> parse_members k n s \<noteq> Inl Out_Of_Fuel"
  "2 * length s + 2 \<le> n \<Longrightarrow> parse_elements k n s \<noteq> Inl Out_Of_Fuel"
proof (induction k n s and k n s and k n s rule: parse_value_parse_members_parse_elements.induct)
  case val: (2 k n s)
  have "2 * length (skip_space (tl s)) + 2 \<le> n" if "s \<noteq> []"
    using val.prems that skip_space_le [of "tl s"] by (cases s) auto
  then show ?case using val(1,2) parse_scalar_fuel [of s] by (auto simp: raise_simps)
next
  case members: (4 k n s)
  have v: "parse_value k n (skip_space r2) \<noteq> Inl Out_Of_Fuel"
    if "parse_string s = Inr (key, r1)" "expect 58 r1 = Inr r2" for key r1 r2
    using members.prems members(1) [of r2] token_shorter(1) [OF that(1)] token_shorter(2) [OF that(2)]
      skip_space_le [of r2] by simp
  have m: "parse_members k n r4 \<noteq> Inl Out_Of_Fuel"
    if "parse_string s = Inr (key, r1)" "expect 58 r1 = Inr r2" "parse_value k n (skip_space r2) = Inr (w, r3)"
      "next_item 125 r3 = Inr (True, r4)" for key r1 r2 w r3 r4
    using members.prems members(2) [of True r4] token_shorter(1) [OF that(1)]
      token_shorter(2) [OF that(2)] token_shorter(3) [OF that(4)] parse_shorter(1) [OF that(3)] skip_space_le [of r2] by simp
  show ?case using v m by (auto simp: raise_simps split: if_splits)
next
  case elements: (6 k n s)
  have e: "parse_elements k n r2 \<noteq> Inl Out_Of_Fuel"
    if "parse_value k n s = Inr (w, r1)" "next_item 93 r1 = Inr (True, r2)" for w r1 r2
    using elements.prems elements(2) [of True r2] parse_shorter(1) [OF that(1)]
      token_shorter(3) [OF that(2)] by simp
  show ?case using elements e by (auto simp: raise_simps split: if_splits)
qed simp_all

text \<open>More fuel changes nothing.\<close>

lemma parse_more_fuel:
  "parse_value k n s \<noteq> Inl Out_Of_Fuel \<Longrightarrow> parse_value k (n + m) s = parse_value k n s"
  "parse_members k n s \<noteq> Inl Out_Of_Fuel \<Longrightarrow> parse_members k (n + m) s = parse_members k n s"
  "parse_elements k n s \<noteq> Inl Out_Of_Fuel \<Longrightarrow> parse_elements k (n + m) s = parse_elements k n s"
proof (induction k n s and k n s and k n s rule: parse_value_parse_members_parse_elements.induct)
  case val: (2 k n s)
  then show ?case by (auto simp: raise_simps)
next
  case members: (4 k n s)
  show ?case
  proof (cases "parse_string s")
    case (Inr kr)
    obtain key r1 where 1: "parse_string s = Inr (key, r1)" using Inr by (cases kr) auto
    show ?thesis
    proof (cases "expect 58 r1")
      case e: (Inr r2)
      have v: "parse_value k n (skip_space r2) \<noteq> Inl Out_Of_Fuel" using members.prems by (auto simp: 1 e)
      note v' = members(1) [OF v]
      show ?thesis
      proof (cases "parse_value k n (skip_space r2)")
        case Inl
        then show ?thesis using v' by (simp add: 1 e)
      next
        case (Inr wr)
        obtain w r3 where 3: "parse_value k n (skip_space r2) = Inr (w, r3)" using Inr by (cases wr) auto
        then have w3: "parse_value k (n + m) (skip_space r2) = Inr (w, r3)" using v' by simp
        show ?thesis
        proof (cases "next_item 125 r3")
          case (Inr ar)
          obtain again r4 where 4: "next_item 125 r3 = Inr (again, r4)" using Inr by (cases ar) auto
          show ?thesis
          proof (cases again)
            case True
            have "parse_members k n r4 \<noteq> Inl Out_Of_Fuel" using members.prems by (auto simp: 1 e 3 4 True)
            from members(2) [OF True this] show ?thesis by (simp add: 1 e 3 w3 4)
          qed (simp add: 1 e 3 w3 4)
        qed (simp add: 1 e 3 w3)
      qed
    qed (simp add: 1)
  qed simp
next
  case elements: (6 k n s)
  have v: "parse_value k n s \<noteq> Inl Out_Of_Fuel" using elements.prems by auto
  note v' = elements(1) [OF v]
  show ?case
  proof (cases "parse_value k n s")
    case Inl
    then show ?thesis using v' by simp
  next
    case (Inr wr)
    obtain w r1 where 1: "parse_value k n s = Inr (w, r1)" using Inr by (cases wr) auto
    then have w1: "parse_value k (n + m) s = Inr (w, r1)" using v' by simp
    show ?thesis
    proof (cases "next_item 93 r1")
      case (Inr ar)
      obtain again r2 where 2: "next_item 93 r1 = Inr (again, r2)" using Inr by (cases ar) auto
      show ?thesis
      proof (cases again)
        case True
        have "parse_elements k n r2 \<noteq> Inl Out_Of_Fuel" using elements.prems by (auto simp: 1 2 True)
        from elements(2) [OF True this] show ?thesis by (simp add: 1 w1 2)
      qed (simp add: 1 w1 2)
    qed (simp add: 1 w1)
  qed
qed simp_all

text \<open>Reading always ends with a value or an error of the text.\<close>

lemma json_loads_fuel: "json_loads k s \<noteq> Inl Out_Of_Fuel"
  using parse_fuel(1) [of "skip_space s" "2 * length s + 2"] skip_space_le [of s]
  by (auto simp: json_loads_def raise_simps split: if_splits)

lemma json_loads_any_fuel:
  assumes "2 * length s + 2 \<le> n"
  shows "bindE (parse_value k n (skip_space s)) (\<lambda>(v, r). if skip_space r = [] then Inr v else Inl Decode_Error) = json_loads k s"
proof -
  have "parse_value k (2 * length s + 2) (skip_space s) \<noteq> Inl Out_Of_Fuel"
    by (rule parse_fuel(1)) (use skip_space_le [of s] in simp)
  moreover have "2 * length s + 2 + (n - (2 * length s + 2)) = n" using assms by simp
  ultimately have "parse_value k n (skip_space s) = parse_value k (2 * length s + 2) (skip_space s)"
    using parse_more_fuel(1) by metis
  then show ?thesis by (simp only: json_loads_def)
qed

section \<open>Writing an object of strings\<close>

definition hex_digit :: "nat \<Rightarrow> nat" where
  "hex_digit v = (if v < 10 then 48 + v else 87 + v)"

definition unicode_escape :: "nat \<Rightarrow> str" where
  "unicode_escape c = [92, 117, hex_digit (c div 4096), hex_digit (c div 256 mod 16), hex_digit (c div 16 mod 16),
     hex_digit (c mod 16)]"

text \<open>\<open>py_encode_basestring_ascii\<close>\<close>

definition escape_char :: "nat \<Rightarrow> str" where
  "escape_char c =
     (case map_of [(34, 34), (92, 92), (10, 110), (13, 114), (9, 116), (12, 102), (8, 98)] c of
        Some e \<Rightarrow> [92, e]
      | None \<Rightarrow>
          if 32 \<le> c \<and> c \<le> 126 then [c]
          else if c < 65536 then unicode_escape c
          else unicode_escape (55296 + (c - 65536) div 1024) @ unicode_escape (56320 + (c - 65536) mod 1024))"

definition json_string :: "str \<Rightarrow> str" where
  "json_string s = [34] @ concat (map escape_char s) @ [34]"

text \<open>\<open>json.dumps(d, ensure_ascii=True, separators=(",", ":"), sort_keys=True)\<close>\<close>

definition dumps_strings :: "(str, str) dict \<Rightarrow> str" where
  "dumps_strings d =
     [123] @ join_with [44] (map (\<lambda>(k, v). json_string k @ [58] @ json_string v) (sort_key fst d)) @ [125]"

definition scalar_text :: "str \<Rightarrow> bool" where
  "scalar_text s \<longleftrightarrow> list_all (\<lambda>c. c < 1114112 \<and> \<not> (55296 \<le> c \<and> c < 57344)) s"

lemma scalar_text_simps [simp]: "scalar_text []"
  "scalar_text (c # s) \<longleftrightarrow> c < 1114112 \<and> \<not> (55296 \<le> c \<and> c < 57344) \<and> scalar_text s"
  by (simp_all add: scalar_text_def)

lemma hex_value_digit [simp]: "v < 16 \<Longrightarrow> hex_value (hex_digit v) = Some v"
  by (auto simp: hex_value_def hex_digit_def)

lemma hex4_value_digits:
  "c < 65536 \<Longrightarrow> hex4_value (hex_digit (c div 4096)) (hex_digit (c div 256 mod 16)) (hex_digit (c div 16 mod 16))
     (hex_digit (c mod 16)) = Some c"
proof -
  assume "c < 65536"
  then have "c div 4096 < 16" by (simp add: less_mult_imp_div_less)
  moreover have "((c div 4096 * 16 + c div 256 mod 16) * 16 + c div 16 mod 16) * 16 + c mod 16 = c"
  proof -
    have d: "c div 4096 = c div 16 div 16 div 16" "c div 256 = c div 16 div 16" by (simp_all flip: div_mult2_eq)
    show ?thesis unfolding d by (simp only: div_mult_mod_eq)
  qed
  ultimately show ?thesis by (simp add: hex4_value_def)
qed

lemma char_at_unicode:
  "v < 65536 \<Longrightarrow> char_at (unicode_escape v @ r) =
     (case (if high_surrogate v then low_escape r else None) of
        Some (w, r') \<Rightarrow> Some (65536 + (v - 55296) * 1024 + (w - 56320), r')
      | None \<Rightarrow> Some (v, r))"
  using hex4_value_digits [of v] by (simp add: char_at_def unicode_escape_def)

lemma low_escape_unicode: "w < 65536 \<Longrightarrow> low_surrogate w \<Longrightarrow> low_escape (unicode_escape w @ r) = Some (w, r)"
  using hex4_value_digits [of w] by (simp add: unicode_escape_def)

lemma char_at_escape:
  assumes "c < 1114112" and "\<not> (55296 \<le> c \<and> c < 57344)"
  shows "char_at (escape_char c @ r) = Some (c, r)"
proof (cases "c < 65536")
  case True
  then show ?thesis using assms(2) char_at_unicode [OF True]
    by (auto simp: escape_char_def char_at_def short_escape_def high_surrogate_def)
next
  case False
  define v where "v = 55296 + (c - 65536) div 1024"
  define w where "w = 56320 + (c - 65536) mod 1024"
  have "(c - 65536) div 1024 < 1024" using assms(1) by (simp add: less_mult_imp_div_less)
  moreover have "(c - 65536) mod 1024 < 1024" by simp
  ultimately have s: "high_surrogate v" "low_surrogate w" "v < 65536" "w < 65536"
    unfolding high_surrogate_def low_surrogate_def v_def w_def by linarith+
  have "65536 + (v - 55296) * 1024 + (w - 56320) = c" using False by (simp add: v_def w_def)
  moreover have "escape_char c = unicode_escape v @ unicode_escape w"
    using False by (simp add: escape_char_def v_def w_def)
  ultimately show ?thesis using char_at_unicode [OF s(3)] low_escape_unicode [OF s(4,2)] s(1) by simp
qed

lemma escape_char_hd: "escape_char c \<noteq> [] \<and> hd (escape_char c) \<noteq> 34"
  by (auto simp: escape_char_def unicode_escape_def split: option.splits if_splits)

lemma parse_chars_escaped:
  "scalar_text s \<Longrightarrow> parse_chars (concat (map escape_char s) @ 34 # r) = Some (s, r)"
proof (induction s)
  case (Cons c s)
  then show ?case using escape_char_hd [of c] char_at_escape [of c "concat (map escape_char s) @ 34 # r"]
    by (subst parse_chars.simps) simp
qed simp

lemma parse_json_string: "scalar_text s \<Longrightarrow> parse_string (json_string s @ r) = Inr (s, r)"
  by (simp add: parse_string_def json_string_def parse_chars_escaped)

section \<open>Reading back what was written\<close>

lemma skip_space_Nil [simp]: "skip_space [] = []"
  by (simp add: skip_space_def)

lemma skip_space_token [simp]: "\<not> json_space c \<Longrightarrow> skip_space (c # s) = c # s"
  by (simp add: skip_space_def)

lemma json_space_tokens [simp]: "\<not> json_space 34" "\<not> json_space 44" "\<not> json_space 58" "\<not> json_space 123" "\<not> json_space 125"
  by (simp_all add: json_space_def)

lemma next_is_token [simp]: "\<not> json_space c \<Longrightarrow> next_is x (c # s) \<longleftrightarrow> c = x"
  by (simp add: next_is_def)

lemma skip_space_json_string [simp]: "skip_space (json_string s @ r) = json_string s @ r"
  by (simp add: json_string_def)

lemma next_is_json_string [simp]: "next_is x (json_string s @ r) \<longleftrightarrow> x = 34"
  by (auto simp: json_string_def)

lemma parse_value_json_string: "scalar_text s \<Longrightarrow> parse_value z (Suc n) (json_string s @ r) = Inr (T_Str s, r)"
  by (simp add: parse_json_string) (simp add: json_string_def)

abbreviation dump_pair :: "str \<times> str \<Rightarrow> str" where
  "dump_pair \<equiv> \<lambda>(k, v). json_string k @ [58] @ json_string v"

lemma parse_pair:
  assumes "scalar_text k" and "scalar_text v"
  shows "parse_members z (Suc (Suc n)) (dump_pair (k, v) @ 125 # r) = Inr ([(k, T_Str v)], r)"
    and "skip_space u = u \<Longrightarrow> parse_members z (Suc (Suc n)) (dump_pair (k, v) @ 44 # u)
      = bindE (parse_members z (Suc n) u) (\<lambda>(ms, r). Inr ((k, T_Str v) # ms, r))"
  using assms
  by (simp_all add: parse_json_string expect_def next_item_def parse_value_json_string del: parse_value.simps)

lemma parse_members_dumped:
  assumes "list_all (\<lambda>(k, v). scalar_text k \<and> scalar_text v) kvs" and "kvs \<noteq> []" and "length kvs < n"
  shows "parse_members z n (join_with [44] (map dump_pair kvs) @ 125 # r) = Inr (map (apsnd T_Str) kvs, r)"
  using assms
proof (induction kvs arbitrary: n rule: induct_list012)
  case (2 p)
  then obtain m where "n = Suc (Suc m)" by (cases n; cases "n - 1") auto
  then show ?case using 2 parse_pair(1) [of "fst p" "snd p" z m r] by (cases p) (simp del: parse_members.simps)
next
  case (3 p q kvs)
  obtain m where m: "n = Suc (Suc m)" "length (q # kvs) < Suc m"
    using 3(5) by (cases n; cases "n - 1") auto
  let ?u = "join_with [44] (map dump_pair (q # kvs)) @ 125 # r"
  have ih: "parse_members z (Suc m) ?u = Inr (map (apsnd T_Str) (q # kvs), r)"
    by (rule 3(2)) (use 3(3) m(2) in auto)
  have "skip_space ?u = ?u" by (cases q; cases kvs) auto
  moreover have "join_with [44] (map dump_pair (p # q # kvs)) @ 125 # r = dump_pair p @ 44 # ?u" by simp
  ultimately show ?case
    using 3(3) parse_pair(2) [of "fst p" "snd p" ?u z m] ih by (cases p) (simp only: m(1), simp del: parse_members.simps)
qed simp

lemma join_with_length: "(\<And>w. w \<in> set ws \<Longrightarrow> w \<noteq> []) \<Longrightarrow> length ws \<le> length (join_with sep ws)"
proof (induction ws rule: induct_list012)
  case (3 x y zs)
  then have "x \<noteq> []" "length (y # zs) \<le> length (join_with sep (y # zs))" by auto
  then show ?case by (cases x) auto
qed (auto simp: Suc_le_eq)

lemma dict_of_fixed: "distinct (map fst kvs) \<Longrightarrow> dict_of kvs = kvs"
proof (induction kvs rule: rev_induct)
  case (snoc x xs)
  have new: "k \<notin> fst ` set d \<Longrightarrow> dict_put k v d = d @ [(k, v)]" for k v and d :: "('c \<times> 'd) list"
    by (induction d) auto
  show ?case using snoc by (cases x) (simp add: dict_of_def new)
qed (simp add: dict_of_def)

text \<open>What \<open>json.loads\<close> makes of a dumped object: its members in the order of their keys.\<close>

lemma json_loads_dumps:
  assumes "list_all (\<lambda>(k, v). scalar_text k \<and> scalar_text v) d" and "distinct (dict_keys d)" and "0 < z"
  shows "json_loads z (dumps_strings d) = Inr (T_Obj (map (apsnd T_Str) (sort_key fst d)))"
proof (cases "d = []")
  case True
  have "parse_value z 6 [123, 125] = Inr (T_Obj [], [])" using parse_value.simps(2) [of z 5 "[123, 125]"] assms(3) by simp
  then show ?thesis using True by (simp add: json_loads_def dumps_strings_def)
next
  case False
  let ?k = "sort_key fst d"
  have k: "list_all (\<lambda>(k, v). scalar_text k \<and> scalar_text v) ?k" "?k \<noteq> []" "distinct (map fst ?k)"
    using assms set_empty [of ?k] False by (simp_all add: list_all_iff dict_keys_def distinct_map)
  let ?t = "join_with [44] (map dump_pair ?k)"
  have s: "dumps_strings d = 123 # ?t @ [125]" by (simp add: dumps_strings_def)
  have "length ?k \<le> length ?t"     using join_with_length [of "map dump_pair ?k" "[44]"] by (fastforce simp: json_string_def)
  then have "length ?k < 2 * length (dumps_strings d) + 1" by (simp add: s)
  from parse_members_dumped [OF k(1,2) this, of "z - 1" "[]"]
  have ms: "parse_members (z - 1) (2 * length (dumps_strings d) + 1) (?t @ [125]) = Inr (map (apsnd T_Str) ?k, [])" by simp
  obtain a b where "?t @ [125] = json_string a @ b" using k(2) by (cases ?k; cases "tl ?k") auto
  then have t: "skip_space (?t @ [125]) = ?t @ [125]" "\<not> next_is 125 (?t @ [125])" by simp_all
  have "dict_of (map (apsnd T_Str) ?k) = map (apsnd T_Str) ?k"
    by (rule dict_of_fixed) (use k(3) in \<open>simp add: comp_def\<close>)
  then have "parse_value z (Suc (2 * length (dumps_strings d) + 1)) (dumps_strings d) = Inr (T_Obj (map (apsnd T_Str) ?k), [])"
    unfolding parse_value.simps using ms t assms(3) by (simp add: s)
  then show ?thesis by (simp add: json_loads_def s)
qed

lemma dumps_strings_inject:
  assumes "list_all (\<lambda>(k, v). scalar_text k \<and> scalar_text v) d" and "distinct (dict_keys d)"
    and "list_all (\<lambda>(k, v). scalar_text k \<and> scalar_text v) e" and "distinct (dict_keys e)"
    and "dumps_strings d = dumps_strings e"
  shows "sort_key fst d = sort_key fst e"
proof -
  have "map (apsnd T_Str) (sort_key fst d) = map (apsnd T_Str) (sort_key fst e)"
    using json_loads_dumps [OF assms(1,2) zero_less_one] json_loads_dumps [OF assms(3,4) zero_less_one] assms(5) by simp
  then show ?thesis by (rule map_injective) (auto simp: inj_def)
qed

end
