(* ===== verification/Encryption.thy ===== *)
theory Encryption
  imports Json_Text
begin

text \<open>
  \<open>security/encryption.py\<close> and \<open>security/keyring.py\<close> with the configuration they load from \<open>config.py\<close>: envelope
  encryption of a text under a data key that is itself encrypted under a key-encryption key, and the
  ring of key-encryption keys. AES-GCM and the random bytes are parameters; what the theorems assume
  of AES-GCM is its documented behaviour, gathered in \<open>aead_ok\<close>.
\<close>

section \<open>Parameters\<close>

text \<open>\<open>AESGCM(key).encrypt(iv, data, associated_data)\<close> and \<open>decrypt\<close>, which may raise \<open>InvalidTag\<close>.\<close>

record aead =
  ae_encrypt :: "bytes \<Rightarrow> bytes \<Rightarrow> bytes \<Rightarrow> bytes \<Rightarrow> bytes"
  ae_decrypt :: "bytes \<Rightarrow> bytes \<Rightarrow> bytes \<Rightarrow> bytes \<Rightarrow> bytes option"

definition aead_ok :: "aead \<Rightarrow> bool" where
  "aead_ok A \<longleftrightarrow>
     (\<forall>k iv p ad. ae_decrypt A k iv (ae_encrypt A k iv p ad) ad = Some p
        \<and> length (ae_encrypt A k iv p ad) = length p + 16)
     \<and> (\<forall>k iv p ad ad' q. ae_decrypt A k iv (ae_encrypt A k iv p ad) ad' = Some q \<longrightarrow> ad' = ad)"

text \<open>The three draws of \<open>os.urandom\<close> that an encryption makes.\<close>

record nonces =
  nc_dek :: bytes
  nc_text_iv :: bytes
  nc_dek_iv :: bytes

definition nonces_ok :: "nonces \<Rightarrow> bool" where
  "nonces_ok n \<longleftrightarrow> length (nc_dek n) = 32 \<and> length (nc_text_iv n) = 12 \<and> length (nc_dek_iv n) = 12"

text \<open>
  The exceptions: \<open>ValueError\<close> with its message, the encoding errors (which are \<open>ValueError\<close>s), the
  \<open>InvalidTag\<close> of AES-GCM (which is not), and the two \<open>ValueError\<close>s of a key that is not configured.
\<close>

datatype crypto_error = Crypto_Value_Error str | Unicode_Error | Invalid_Tag | Missing_Kek str

section \<open>Envelopes\<close>

definition algorithm :: str where
  "algorithm = lit ''AES-256-GCM''"

record envelope_encryptor =
  ee_kek_id :: str
  ee_kek :: bytes

definition decode_kek :: "str \<Rightarrow> (crypto_error, bytes) outcome" where
  "decode_kek kek_base64 =
     (case b64decode True kek_base64 of
        None \<Rightarrow> Inl (Crypto_Value_Error (lit ''kek_base64 must be valid base64''))
      | Some kek \<Rightarrow>
          if length kek = 32 then Inr kek
          else Inl (Crypto_Value_Error (lit ''kek_base64 must decode to 32 bytes'')))"

definition make_encryptor :: "str \<Rightarrow> str \<Rightarrow> (crypto_error, envelope_encryptor) outcome" where
  "make_encryptor kek_id kek_base64 =
     bindE (decode_kek kek_base64) (\<lambda>kek. Inr \<lparr>ee_kek_id = kek_id, ee_kek = kek\<rparr>)"

definition encode :: "str \<Rightarrow> (crypto_error, bytes) outcome" where
  "encode s = some_or (utf8_encode s) Unicode_Error"

definition associated_data :: "str \<Rightarrow> str \<Rightarrow> (str, str) dict option \<Rightarrow> (crypto_error, bytes) outcome" where
  "associated_data key_id alg context =
     (let base = lit ''key_id='' @ key_id @ lit '';algorithm='' @ alg in
      case context of
        None \<Rightarrow> encode base
      | Some c \<Rightarrow> encode (base @ lit '';context='' @ dumps_strings c))"

definition split_ciphertext_and_tag :: "bytes \<Rightarrow> bytes \<times> bytes" where
  "split_ciphertext_and_tag b = (take (length b - 16) b, drop (length b - 16) b)"

definition encrypt_text ::
  "aead \<Rightarrow> envelope_encryptor \<Rightarrow> nonces \<Rightarrow> str \<Rightarrow> (str, str) dict option \<Rightarrow> (crypto_error, encrypted_text) outcome" where
  "encrypt_text A e n plaintext context =
     bindE (associated_data (ee_kek_id e) algorithm context) (\<lambda>ad.
     bindE (encode plaintext) (\<lambda>plain.
     let (ciphertext, auth_tag) = split_ciphertext_and_tag (ae_encrypt A (nc_dek n) (nc_text_iv n) plain ad);
         (encrypted_dek, dek_tag) = split_ciphertext_and_tag (ae_encrypt A (ee_kek e) (nc_dek_iv n) (nc_dek n) ad)
     in Inr \<lparr>et_ciphertext = ciphertext, et_encrypted_dek = encrypted_dek, et_encrypted_dek_iv = nc_dek_iv n,
          et_encrypted_dek_auth_tag = dek_tag, et_key_id = ee_kek_id e, et_iv = nc_text_iv n,
          et_auth_tag = auth_tag, et_algorithm = algorithm\<rparr>))"

definition validate_envelope :: "encrypted_text \<Rightarrow> (crypto_error, unit) outcome" where
  "validate_envelope e =
     bindE (require (length (et_iv e) = 12) (Crypto_Value_Error (lit ''encrypted text iv must be 12 bytes''))) (\<lambda>_.
     bindE (require (length (et_encrypted_dek_iv e) = 12)
       (Crypto_Value_Error (lit ''encrypted DEK iv must be 12 bytes''))) (\<lambda>_.
     bindE (require (length (et_auth_tag e) = 16)
       (Crypto_Value_Error (lit ''encrypted text auth_tag must be 16 bytes''))) (\<lambda>_.
     bindE (require (length (et_encrypted_dek_auth_tag e) = 16)
       (Crypto_Value_Error (lit ''encrypted DEK auth_tag must be 16 bytes''))) (\<lambda>_.
     require (length (et_encrypted_dek e) = 32)
       (Crypto_Value_Error (lit ''encrypted DEK ciphertext must be 32 bytes''))))))"

definition decrypt_text ::
  "aead \<Rightarrow> envelope_encryptor \<Rightarrow> encrypted_text \<Rightarrow> (str, str) dict option \<Rightarrow> (crypto_error, str) outcome" where
  "decrypt_text A k e context =
     bindE (require (et_algorithm e = algorithm) (Crypto_Value_Error (lit ''encrypted text algorithm mismatch''))) (\<lambda>_.
     bindE (require (et_key_id e = ee_kek_id k) (Crypto_Value_Error (lit ''encrypted text key_id mismatch''))) (\<lambda>_.
     bindE (validate_envelope e) (\<lambda>_.
     bindE (associated_data (et_key_id e) (et_algorithm e) context) (\<lambda>ad.
     bindE (some_or (ae_decrypt A (ee_kek k) (et_encrypted_dek_iv e)
       (et_encrypted_dek e @ et_encrypted_dek_auth_tag e) ad) Invalid_Tag) (\<lambda>dek.
     bindE (some_or (ae_decrypt A dek (et_iv e) (et_ciphertext e @ et_auth_tag e) ad) Invalid_Tag) (\<lambda>plain.
     some_or (utf8_decode plain) Unicode_Error))))))"

section \<open>The ring of keys\<close>

record raw_text_keyring =
  kr_active_key_id :: str
  kr_encryptors :: "(str, envelope_encryptor) dict"

definition value_error :: "string \<Rightarrow> crypto_error" where
  "value_error message = Crypto_Value_Error (lit message)"

text \<open>The loop over the legacy keys of \<open>RawTextKeyring.from_values\<close>.\<close>

definition add_legacy ::
  "str \<times> str \<Rightarrow> (str, envelope_encryptor) dict \<Rightarrow> (crypto_error, (str, envelope_encryptor) dict) outcome" where
  "add_legacy = (\<lambda>(raw_key_id, kek_base64) encryptors.
     let key_id = strip raw_key_id in
     bindE (require (key_id \<noteq> []) (value_error ''legacy key_id must not be blank'')) (\<lambda>_.
     bindE (require (key_id \<notin> set (dict_keys encryptors))
       (value_error ''active key_id must not appear in legacy_keks'')) (\<lambda>_.
     bindE (make_encryptor key_id kek_base64) (\<lambda>e. Inr (dict_put key_id e encryptors)))))"

definition keyring_from_values :: "str \<Rightarrow> str \<Rightarrow> (str, str) dict \<Rightarrow> (crypto_error, raw_text_keyring) outcome" where
  "keyring_from_values active_key_id active_kek_base64 legacy_keks =
     (let active = strip active_key_id in
      bindE (require (active \<noteq> []) (value_error ''active_key_id must not be blank'')) (\<lambda>_.
      bindE (require (active \<notin> set (dict_keys legacy_keks))
        (value_error ''active key_id must not appear in legacy_keks'')) (\<lambda>_.
      bindE (make_encryptor active active_kek_base64) (\<lambda>e.
      bindE (foldE add_legacy legacy_keks [(active, e)]) (\<lambda>encryptors.
      Inr \<lparr>kr_active_key_id = active, kr_encryptors = encryptors\<rparr>)))))"

definition keyring_encrypt ::
  "aead \<Rightarrow> raw_text_keyring \<Rightarrow> nonces \<Rightarrow> str \<Rightarrow> (str, str) dict option \<Rightarrow> (crypto_error, encrypted_text) outcome" where
  "keyring_encrypt A r n plaintext context =
     bindE (some_or (map_of (kr_encryptors r) (kr_active_key_id r)) (value_error ''KeyError'')) (\<lambda>e.
     encrypt_text A e n plaintext context)"

definition keyring_decrypt ::
  "aead \<Rightarrow> raw_text_keyring \<Rightarrow> encrypted_text \<Rightarrow> (str, str) dict option \<Rightarrow> (crypto_error, str) outcome" where
  "keyring_decrypt A r e context =
     bindE (some_or (map_of (kr_encryptors r) (et_key_id e))
       (value_error ''No KEK configured for encrypted text key_id'')) (\<lambda>k.
     decrypt_text A k e context)"

section \<open>Configuration\<close>

text \<open>The loop of \<open>_parse_legacy_keks\<close>; the keys of a parsed object are always strings.\<close>

definition add_legacy_kek ::
  "string \<Rightarrow> str \<times> json_text \<Rightarrow> (str, str) dict \<Rightarrow> (crypto_error, (str, str) dict) outcome" where
  "add_legacy_kek environment_key = (\<lambda>(raw_key_id, kek) legacy_keks.
     case kek of
       T_Str kek_base64 \<Rightarrow>
         let key_id = strip raw_key_id in
         bindE (require (key_id \<noteq> []) (value_error ''legacy key_id must not be blank'')) (\<lambda>_.
         bindE (require (key_id \<notin> set (dict_keys legacy_keks))
           (value_error (''duplicate legacy key_id in '' @ environment_key))) (\<lambda>_.
         Inr (dict_put key_id kek_base64 legacy_keks)))
     | _ \<Rightarrow> Inl (value_error (environment_key @ '' must map key ID strings to base64 strings'')))"

text \<open>
  The nesting of a configured value, which is at most its length, is taken to be within the recursion limit.
\<close>

definition parse_legacy_keks :: "str \<Rightarrow> string \<Rightarrow> (crypto_error, (str, str) dict) outcome" where
  "parse_legacy_keks legacy_json environment_key =
     (case json_loads (length legacy_json) legacy_json of
        Inl Int_Limit \<Rightarrow> Inl (value_error ''Exceeds the limit for integer string conversion'')
      | Inl e \<Rightarrow> Inl (value_error (environment_key @ '' must be valid JSON''))
      | Inr (T_Obj items) \<Rightarrow> foldE (add_legacy_kek environment_key) items []
      | Inr v \<Rightarrow> Inl (value_error (environment_key @ '' must be a JSON object'')))"

definition load_keyring ::
  "string \<Rightarrow> string \<Rightarrow> string \<Rightarrow> string \<Rightarrow> (str \<Rightarrow> str option) \<Rightarrow> (crypto_error, raw_text_keyring) outcome" where
  "load_keyring id_variable default_id kek_variable legacy_variable env =
     (let active = strip (case env (lit id_variable) of None \<Rightarrow> lit default_id | Some v \<Rightarrow> v) in
      bindE (require (active \<noteq> []) (value_error (id_variable @ '' must not be blank''))) (\<lambda>_.
      bindE (case env (lit kek_variable) of None \<Rightarrow> Inl (Missing_Kek (lit kek_variable))
        | Some k \<Rightarrow> if blank k then Inl (Missing_Kek (lit kek_variable)) else Inr k) (\<lambda>kek.
      bindE (parse_legacy_keks (case env (lit legacy_variable) of None \<Rightarrow> lit ''{}'' | Some v \<Rightarrow> v) legacy_variable)
        (\<lambda>legacy.
      bindE (require (active \<notin> set (dict_keys legacy))
        (value_error (''active key_id must not appear in '' @ legacy_variable))) (\<lambda>_.
      keyring_from_values active kek legacy)))))"

definition load_raw_text_keyring :: "(str \<Rightarrow> str option) \<Rightarrow> (crypto_error, raw_text_keyring) outcome" where
  "load_raw_text_keyring =
     load_keyring ''RAW_TEXT_KEK_ID'' ''local-kek-001'' ''RAW_TEXT_KEK_BASE64'' ''RAW_TEXT_LEGACY_KEKS_JSON''"

definition load_api_key_secret_keyring :: "(str \<Rightarrow> str option) \<Rightarrow> (crypto_error, raw_text_keyring) outcome" where
  "load_api_key_secret_keyring =
     load_keyring ''API_KEY_SECRET_KEK_ID'' ''local-api-key-secret-kek-001'' ''API_KEY_SECRET_KEK_BASE64''
       ''API_KEY_SECRET_LEGACY_KEKS_JSON''"

section \<open>Reading back an encrypted text\<close>

lemma aead_okD:
  assumes "aead_ok A"
  shows "ae_decrypt A k iv (ae_encrypt A k iv p ad) ad = Some p" "length (ae_encrypt A k iv p ad) = length p + 16"
    "ae_decrypt A k iv (ae_encrypt A k iv p ad) ad' = Some q \<Longrightarrow> ad' = ad"
  using assms unfolding aead_ok_def by blast+

lemma split_tag: "split_ciphertext_and_tag b = (c, t) \<Longrightarrow> 16 \<le> length b \<Longrightarrow> c @ t = b \<and> length t = 16 \<and> length c = length b - 16"
  by (auto simp: split_ciphertext_and_tag_def)

text \<open>What an encryption stores: the two halves join to what AES-GCM returned, in their fixed lengths.\<close>

lemma encrypt_textE:
  assumes "encrypt_text A k n p context = Inr e" and "aead_ok A" and "nonces_ok n"
  obtains ad plain where "associated_data (ee_kek_id k) algorithm context = Inr ad" "utf8_encode p = Some plain"
    "et_ciphertext e @ et_auth_tag e = ae_encrypt A (nc_dek n) (nc_text_iv n) plain ad"
    "et_encrypted_dek e @ et_encrypted_dek_auth_tag e = ae_encrypt A (ee_kek k) (nc_dek_iv n) (nc_dek n) ad"
    "validate_envelope e = Inr ()" "et_algorithm e = algorithm" "et_key_id e = ee_kek_id k"
    "et_iv e = nc_text_iv n" "et_encrypted_dek_iv e = nc_dek_iv n"
proof -
  obtain ad plain where ad: "associated_data (ee_kek_id k) algorithm context = Inr ad" and plain: "utf8_encode p = Some plain"
    using assms(1) by (auto simp: encrypt_text_def encode_def raise_simps)
  let ?t = "ae_encrypt A (nc_dek n) (nc_text_iv n) plain ad" and ?d = "ae_encrypt A (ee_kek k) (nc_dek_iv n) (nc_dek n) ad"
  obtain c t where t: "split_ciphertext_and_tag ?t = (c, t)" by fastforce
  obtain ed et where d: "split_ciphertext_and_tag ?d = (ed, et)" by fastforce
  have e: "et_ciphertext e = c" "et_auth_tag e = t" "et_encrypted_dek e = ed" "et_encrypted_dek_auth_tag e = et"
    "et_key_id e = ee_kek_id k" "et_algorithm e = algorithm" "et_iv e = nc_text_iv n" "et_encrypted_dek_iv e = nc_dek_iv n"
    using assms(1) ad plain t d by (auto simp: encrypt_text_def encode_def)
  have "c @ t = ?t" "length t = 16" "ed @ et = ?d" "length et = 16" "length ed = 32"
    using split_tag [OF t] split_tag [OF d] aead_okD(2) [OF assms(2)] assms(3) by (simp_all add: nonces_ok_def)
  then show ?thesis using that [OF ad plain] e assms(3) by (simp add: validate_envelope_def nonces_ok_def)
qed

lemma decrypt_encrypt_text:
  assumes "encrypt_text A k n p context = Inr e" and "aead_ok A" and "nonces_ok n"
  shows "decrypt_text A k e context = Inr p"
proof (rule encrypt_textE [OF assms])
  fix ad plain
  assume ad: "associated_data (ee_kek_id k) algorithm context = Inr ad" and plain: "utf8_encode p = Some plain"
    and e: "et_ciphertext e @ et_auth_tag e = ae_encrypt A (nc_dek n) (nc_text_iv n) plain ad"
    "et_encrypted_dek e @ et_encrypted_dek_auth_tag e = ae_encrypt A (ee_kek k) (nc_dek_iv n) (nc_dek n) ad"
    "validate_envelope e = Inr ()" "et_algorithm e = algorithm" "et_key_id e = ee_kek_id k"
    "et_iv e = nc_text_iv n" "et_encrypted_dek_iv e = nc_dek_iv n"
  show ?thesis using utf8_decode_encode [OF plain] by (simp add: decrypt_text_def e ad aead_okD(1) [OF assms(2)])
qed

text \<open>A text that is decrypted in another context was encrypted with the same associated data, and is unchanged.\<close>

lemma decrypt_other_context:
  assumes "encrypt_text A k n p context = Inr e" and "aead_ok A" and "nonces_ok n"
    and "decrypt_text A k' e context' = Inr q" and "ee_kek k' = ee_kek k"
  shows "associated_data (ee_kek_id k) algorithm context' = associated_data (ee_kek_id k) algorithm context \<and> q = p"
proof (rule encrypt_textE [OF assms(1-3)])
  fix ad plain
  assume ad: "associated_data (ee_kek_id k) algorithm context = Inr ad" and plain: "utf8_encode p = Some plain"
    and e: "et_ciphertext e @ et_auth_tag e = ae_encrypt A (nc_dek n) (nc_text_iv n) plain ad"
    "et_encrypted_dek e @ et_encrypted_dek_auth_tag e = ae_encrypt A (ee_kek k) (nc_dek_iv n) (nc_dek n) ad"
    "validate_envelope e = Inr ()" "et_algorithm e = algorithm" "et_key_id e = ee_kek_id k"
    "et_iv e = nc_text_iv n" "et_encrypted_dek_iv e = nc_dek_iv n"
  obtain ad' dek where ad': "associated_data (ee_kek_id k) algorithm context' = Inr ad'"
    and dek: "ae_decrypt A (ee_kek k) (nc_dek_iv n) (ae_encrypt A (ee_kek k) (nc_dek_iv n) (nc_dek n) ad) ad' = Some dek"
    using assms(4) by (auto simp: decrypt_text_def e raise_simps assms(5))
  have "ad' = ad" by (rule aead_okD(3) [OF assms(2) dek])
  then show ?thesis
    using assms(4) ad ad' utf8_decode_encode [OF plain]
    by (simp add: decrypt_text_def e aead_okD(1) [OF assms(2)] assms(5) raise_simps)
qed

section \<open>Well-formed rings\<close>

text \<open>Every key of a ring stands under its own identifier with 32 bytes, and the active one is there.\<close>

definition keyring_ok :: "raw_text_keyring \<Rightarrow> bool" where
  "keyring_ok r \<longleftrightarrow> distinct (dict_keys (kr_encryptors r)) \<and> kr_active_key_id r \<in> set (dict_keys (kr_encryptors r))
     \<and> (\<forall>(k, e) \<in> set (kr_encryptors r). ee_kek_id e = k \<and> length (ee_kek e) = 32 \<and> k \<noteq> [] \<and> strip k = k)"

lemma make_encryptor_Inr: "make_encryptor i b = Inr e \<longleftrightarrow> b64decode True b = Some (ee_kek e) \<and> length (ee_kek e) = 32 \<and> ee_kek_id e = i"
  by (cases e) (auto simp: make_encryptor_def decode_kek_def raise_simps split: option.splits if_splits)

lemma set_dict_put: "x \<in> set (dict_put k v d) \<Longrightarrow> x = (k, v) \<or> x \<in> set d"
  by (induction k v d rule: dict_put.induct) (auto split: if_splits)

lemma add_legacy_keyring_ok:
  assumes "foldE add_legacy legacy d = Inr d'" and "keyring_ok \<lparr>kr_active_key_id = a, kr_encryptors = d\<rparr>"
  shows "keyring_ok \<lparr>kr_active_key_id = a, kr_encryptors = d'\<rparr> \<and> map_of d \<subseteq>\<^sub>m map_of d'"
  using assms
proof (induction legacy arbitrary: d)
  case (Cons x legacy)
  obtain e where e: "strip (fst x) \<noteq> []" "strip (fst x) \<notin> set (dict_keys d)" "make_encryptor (strip (fst x)) (snd x) = Inr e"
    "foldE add_legacy legacy (dict_put (strip (fst x)) e d) = Inr d'"
    using Cons.prems(1) by (cases x) (auto simp: add_legacy_def Let_def raise_simps)
  have "keyring_ok \<lparr>kr_active_key_id = a, kr_encryptors = dict_put (strip (fst x)) e d\<rparr>"
    using Cons.prems(2) e(1,3) dict_put_distinct [of d "strip (fst x)" e] dict_put_keys [of "strip (fst x)" e d]
    by (auto simp: keyring_ok_def make_encryptor_Inr dest!: set_dict_put)
  moreover have "map_of d \<subseteq>\<^sub>m map_of (dict_put (strip (fst x)) e d)"
    using e(2) by (auto simp: dict_simps map_le_def dict_keys_def dest: map_of_SomeD) (force dest: map_of_SomeD)
  ultimately show ?case using Cons.IH [OF e(4)] by (auto intro: map_le_trans)
qed (simp add: keyring_ok_def)

lemma keyring_from_values_ok:
  assumes "keyring_from_values a b legacy = Inr r"
  shows "keyring_ok r \<and> kr_active_key_id r = strip a
    \<and> (\<exists>e. map_of (kr_encryptors r) (strip a) = Some e \<and> b64decode True b = Some (ee_kek e))"
proof -
  obtain e d where e: "strip a \<noteq> []" "make_encryptor (strip a) b = Inr e" "foldE add_legacy legacy [(strip a, e)] = Inr d"
    "r = \<lparr>kr_active_key_id = strip a, kr_encryptors = d\<rparr>"
    using assms by (auto simp: keyring_from_values_def Let_def raise_simps)
  have "keyring_ok \<lparr>kr_active_key_id = strip a, kr_encryptors = [(strip a, e)]\<rparr>"
    using e(1,2) by (simp add: keyring_ok_def make_encryptor_Inr dict_keys_def)
  from add_legacy_keyring_ok [OF e(3) this] have k: "keyring_ok r" "map_of d (strip a) = Some e"
    by (auto simp: map_le_def e(4))
  then show ?thesis using e(2,4) by (simp add: make_encryptor_Inr)
qed

lemma load_keyring_ok: "load_keyring i dflt k l env = Inr r \<Longrightarrow> keyring_ok r"
  by (auto simp: load_keyring_def Let_def raise_simps dest: keyring_from_values_ok)

lemma keyring_okD:
  assumes "keyring_ok r"
  shows "\<exists>e. map_of (kr_encryptors r) (kr_active_key_id r) = Some e"
    and "map_of (kr_encryptors r) k = Some e \<Longrightarrow> ee_kek_id e = k \<and> length (ee_kek e) = 32"
proof -
  show "\<exists>e. map_of (kr_encryptors r) (kr_active_key_id r) = Some e"
    using assms by (auto simp: keyring_ok_def dict_keys_def map_of_eq_None_iff simp flip: not_None_eq)
  show "map_of (kr_encryptors r) k = Some e \<Longrightarrow> ee_kek_id e = k \<and> length (ee_kek e) = 32"
    using assms by (auto simp: keyring_ok_def dest!: map_of_SomeD)
qed

text \<open>Whatever ring still knows the key of the writer reads the text back: keys can be rotated.\<close>

lemma keyring_decrypt_encrypt:
  assumes "keyring_encrypt A r n p context = Inr e" and "aead_ok A" and "nonces_ok n" and "keyring_ok r"
    and "map_of (kr_encryptors r') (kr_active_key_id r) = map_of (kr_encryptors r) (kr_active_key_id r)"
  shows "keyring_decrypt A r' e context = Inr p" and "et_key_id e = kr_active_key_id r"
proof -
  obtain k where k: "map_of (kr_encryptors r) (kr_active_key_id r) = Some k" "encrypt_text A k n p context = Inr e"
    using assms(1) by (auto simp: keyring_encrypt_def raise_simps)
  have id: "et_key_id e = ee_kek_id k" using encrypt_textE [OF k(2) assms(2,3)] by blast
  then show "et_key_id e = kr_active_key_id r" using keyring_okD(2) [OF assms(4) k(1)] by simp
  then show "keyring_decrypt A r' e context = Inr p"
    using assms(5) k decrypt_encrypt_text [OF k(2) assms(2,3)] by (simp add: keyring_decrypt_def)
qed

lemma keyring_encrypt_total:
  assumes "keyring_ok r" and "utf8_encode p = Some b" and "associated_data (kr_active_key_id r) algorithm context = Inr ad"
  shows "\<exists>e. keyring_encrypt A r n p context = Inr e"
proof -
  obtain k where k: "map_of (kr_encryptors r) (kr_active_key_id r) = Some k" using keyring_okD(1) [OF assms(1)] by blast
  then show ?thesis using keyring_okD(2) [OF assms(1) k] assms(2,3)
    by (auto simp: keyring_encrypt_def encrypt_text_def encode_def split: prod.split)
qed

end
