(* ===== verification/Rewrap.thy ===== *)
theory Rewrap
  imports Encryption Store Log_Store Clock
begin

text \<open>
  Rotation of the key that encrypts the stored raw texts: \<open>security/rewrap.py\<close> and the command
  \<open>scripts/rewrap_raw_text.py\<close> that reads every envelope of a service with the ring of keys and writes it again under
  the active key. Its run leaves every text readable as before, a dry run changes nothing, and a run that reports
  completion leaves no text of the tables it covers under another key.
\<close>

section \<open>One envelope\<close>

definition reencrypt_envelope ::
  "aead \<Rightarrow> encrypted_text \<Rightarrow> raw_text_keyring \<Rightarrow> nonces \<Rightarrow> (crypto_error, encrypted_text) outcome" where
  "reencrypt_envelope A e ring n =
     (if et_key_id e = kr_active_key_id ring then Inr e
      else bindE (keyring_decrypt A ring e None) (\<lambda>plaintext. keyring_encrypt A ring n plaintext None))"

section \<open>Tables and keys\<close>

definition intent_examples :: str where
  "intent_examples = lit ''intent_examples''"

definition runtime_logs :: str where
  "runtime_logs = lit ''runtime_logs''"

definition rewrap_include_aliases :: "(str, str list) dict" where
  "rewrap_include_aliases = [(lit ''intent-examples'', [intent_examples]), (lit ''runtime-logs'', [runtime_logs]),
     (lit ''both'', [intent_examples, runtime_logs])]"

definition normalize_raw_text_rewrap_includes :: "str list \<Rightarrow> (crypto_error, str list) outcome" where
  "normalize_raw_text_rewrap_includes includes =
     foldE (\<lambda>i included.
       bindE (some_or (map_of rewrap_include_aliases i)
         (Crypto_Value_Error (lit ''unsupported raw text rewrap include: '' @ i))) (\<lambda>tables.
       Inr (fold (\<lambda>t acc. if t \<in> set acc then acc else acc @ [t]) tables included))) includes []"

definition table_counts :: "raw_text_key_counts \<Rightarrow> str \<Rightarrow> (str \<times> nat) list" where
  "table_counts kc t =
     (if t = intent_examples then kc_intent_examples kc else if t = runtime_logs then kc_runtime_logs kc else [])"

definition source_key_ids_from_counts :: "raw_text_key_counts \<Rightarrow> str list \<Rightarrow> str \<Rightarrow> str list" where
  "source_key_ids_from_counts kc tables active =
     sorted_list_of_set (set (concat (map (\<lambda>t. map fst (table_counts kc t)) tables)) - {active})"

record key_count_detail =
  kd_legacy :: "(str \<times> nat) list"
  kd_active :: "(str \<times> nat) list"
  kd_total :: nat

definition key_count_detail_of :: "raw_text_key_counts \<Rightarrow> str \<Rightarrow> str \<Rightarrow> key_count_detail" where
  "key_count_detail_of kc active t =
     \<lparr>kd_legacy = filter (\<lambda>(k, _). k \<noteq> active) (table_counts kc t),
      kd_active = filter (\<lambda>(k, _). k = active) (table_counts kc t),
      kd_total = sum_list (map snd (table_counts kc t))\<rparr>"

definition raw_text_key_counts_by_table :: "raw_text_key_counts \<Rightarrow> str list \<Rightarrow> str \<Rightarrow> (str, key_count_detail) dict" where
  "raw_text_key_counts_by_table kc tables active = dict_of (map (\<lambda>t. (t, key_count_detail_of kc active t)) tables)"

section \<open>The rows of a run\<close>

text \<open>A candidate is an object of the session: its row, by its table and key.\<close>

datatype rewrap_candidate = Example_Row str | Log_Row str

definition example_row :: "db \<Rightarrow> str \<Rightarrow> intent_example option" where
  "example_row d i = first_row (\<lambda>r. ie_example_id r = i) (db_intent_examples d)"

definition log_row :: "db \<Rightarrow> str \<Rightarrow> runtime_log option" where
  "log_row d i = first_row (\<lambda>r. rl_trace_id r = i) (db_runtime_logs d)"

fun candidate_table :: "rewrap_candidate \<Rightarrow> str" where
  "candidate_table (Example_Row i) = intent_examples"
| "candidate_table (Log_Row i) = runtime_logs"

text \<open>The eight columns of an envelope, read from a row and written to it.\<close>

definition intent_example_encrypted_text :: "intent_example \<Rightarrow> encrypted_text" where
  [simp]: "intent_example_encrypted_text r = ie_text_raw r"

definition apply_intent_example_encrypted_text :: "encrypted_text \<Rightarrow> intent_example \<Rightarrow> intent_example" where
  [simp]: "apply_intent_example_encrypted_text e r = r\<lparr>ie_text_raw := e\<rparr>"

definition runtime_log_encrypted_query :: "runtime_log \<Rightarrow> encrypted_text option" where
  [simp]: "runtime_log_encrypted_query r = complete_text (rl_query_raw r)"

definition apply_runtime_log_encrypted_query :: "encrypted_text \<Rightarrow> runtime_log \<Rightarrow> runtime_log" where
  [simp]: "apply_runtime_log_encrypted_query e r = r\<lparr>rl_query_raw := stored_text e\<rparr>"

fun candidate_encrypted_text :: "db \<Rightarrow> rewrap_candidate \<Rightarrow> encrypted_text option" where
  "candidate_encrypted_text d (Example_Row i) = map_option intent_example_encrypted_text (example_row d i)"
| "candidate_encrypted_text d (Log_Row i) = Option.bind (log_row d i) runtime_log_encrypted_query"

fun apply_candidate_encrypted_text :: "rewrap_candidate \<Rightarrow> encrypted_text \<Rightarrow> db \<Rightarrow> db" where
  "apply_candidate_encrypted_text (Example_Row i) e d =
     d\<lparr>db_intent_examples := update_where (\<lambda>r. ie_example_id r = i) (apply_intent_example_encrypted_text e)
       (db_intent_examples d)\<rparr>"
| "apply_candidate_encrypted_text (Log_Row i) e d =
     d\<lparr>db_runtime_logs := update_where (\<lambda>r. rl_trace_id r = i) (apply_runtime_log_encrypted_query e)
       (db_runtime_logs d)\<rparr>"

fun candidate_key_id :: "db \<Rightarrow> rewrap_candidate \<Rightarrow> str" where
  "candidate_key_id d (Example_Row i) = (case example_row d i of Some r \<Rightarrow> et_key_id (ie_text_raw r) | None \<Rightarrow> [])"
| "candidate_key_id d (Log_Row i) =
     or_default (Option.bind (log_row d i) (\<lambda>r. nt_key_id (rl_query_raw r))) (lit ''unknown'')"

definition list_candidates :: "(str \<Rightarrow> nat) \<Rightarrow> db \<Rightarrow> str \<Rightarrow> str list \<Rightarrow> str list \<Rightarrow> nat \<Rightarrow> rewrap_candidate list" where
  "list_candidates collate d service_id tables source_key_ids limit =
     (if source_key_ids = [] then []
      else (if intent_examples \<in> set tables
            then map (\<lambda>r. Example_Row (ie_example_id r))
              (list_intent_examples_for_rewrap d service_id (Some source_key_ids) (Some limit)) else [])
         @ (if runtime_logs \<in> set tables
            then map (\<lambda>r. Log_Row (rl_trace_id r))
              (list_runtime_logs_for_rewrap collate d service_id (Some source_key_ids) (Some limit)) else []))"

section \<open>Processing\<close>

type_synonym failure_counts = "(str, (str, (str, nat) dict) dict) dict"

definition dict_get :: "('k, 'v) dict \<Rightarrow> 'k \<Rightarrow> 'v \<Rightarrow> 'v" where
  "dict_get d k v = (case map_of d k of Some x \<Rightarrow> x | None \<Rightarrow> v)"

definition record_failure :: "str \<Rightarrow> str \<Rightarrow> string \<Rightarrow> failure_counts \<Rightarrow> failure_counts" where
  "record_failure table key_id reason failures =
     (let of_table = dict_get failures table []; of_key = dict_get of_table key_id [] in
      dict_put table (dict_put key_id (dict_put (lit reason) (dict_get of_key (lit reason) 0 + 1) of_key) of_table) failures)"

record rewrap_counts =
  rn_scanned :: nat
  rn_rewrapped :: nat
  rn_skipped :: nat
  rn_failed :: nat
  rn_scanned_by_table :: "(str, nat) dict"
  rn_failure_counts :: failure_counts

definition count_failure :: "str \<Rightarrow> str \<Rightarrow> string \<Rightarrow> rewrap_counts \<Rightarrow> rewrap_counts" where
  "count_failure table key_id reason c =
     c\<lparr>rn_failed := rn_failed c + 1, rn_failure_counts := record_failure table key_id reason (rn_failure_counts c)\<rparr>"

text \<open>The draws of the \<open>k\<close>-th re-encryption are \<open>ns k\<close>.\<close>

definition process_candidate ::
  "aead \<Rightarrow> raw_text_keyring \<Rightarrow> (nat \<Rightarrow> nonces) \<Rightarrow> bool \<Rightarrow> rewrap_candidate \<Rightarrow> rewrap_counts \<times> db \<Rightarrow> rewrap_counts \<times> db" where
  "process_candidate A ring ns dry_run c = (\<lambda>(counts, d).
     let table = candidate_table c;
         counts = counts\<lparr>rn_scanned := rn_scanned counts + 1,
           rn_scanned_by_table := dict_put table (dict_get (rn_scanned_by_table counts) table 0 + 1)
             (rn_scanned_by_table counts)\<rparr> in
     case candidate_encrypted_text d c of
       None \<Rightarrow> (count_failure table (candidate_key_id d c) ''incomplete_envelope'' counts, d)
     | Some e \<Rightarrow>
         if et_key_id e = kr_active_key_id ring then (counts\<lparr>rn_skipped := rn_skipped counts + 1\<rparr>, d)
         else if et_key_id e \<notin> set (dict_keys (kr_encryptors ring))
         then (count_failure table (et_key_id e) ''missing_key_material'' counts, d)
         else if dry_run then (counts, d)
         else case reencrypt_envelope A e ring (ns (rn_scanned counts)) of
             Inl _ \<Rightarrow> (count_failure table (et_key_id e) ''reencrypt_failed'' counts, d)
           | Inr e' \<Rightarrow> (counts\<lparr>rn_rewrapped := rn_rewrapped counts + 1\<rparr>, apply_candidate_encrypted_text c e' d))"

text \<open>\<open>range(0, len(candidates), batch_size)\<close>\<close>

fun batches :: "nat \<Rightarrow> 'a list \<Rightarrow> 'a list list" where
  "batches n xs = (if n = 0 \<or> xs = [] then [] else take n xs # batches n (drop n xs))"

declare batches.simps [simp del]

definition process_candidates ::
  "aead \<Rightarrow> raw_text_keyring \<Rightarrow> (nat \<Rightarrow> nonces) \<Rightarrow> rewrap_candidate list \<Rightarrow> str list \<Rightarrow> bool \<Rightarrow> nat \<Rightarrow> db
    \<Rightarrow> rewrap_counts \<times> db" where
  "process_candidates A ring ns candidates tables dry_run batch_size d =
     fold (fold (process_candidate A ring ns dry_run)) (batches batch_size candidates)
       (\<lparr>rn_scanned = 0, rn_rewrapped = 0, rn_skipped = 0, rn_failed = 0,
         rn_scanned_by_table = dict_of (map (\<lambda>t. (t, 0)) tables), rn_failure_counts = []\<rparr>, d)"

section \<open>The report and the run\<close>

definition has_remaining_legacy_key_counts :: "(str, key_count_detail) dict \<Rightarrow> bool" where
  "has_remaining_legacy_key_counts counts = list_ex (\<lambda>(_, c). list_ex (\<lambda>(_, n). 0 < n) (kd_legacy c)) counts"

definition raw_text_rewrap_status :: "bool \<Rightarrow> nat \<Rightarrow> (str, key_count_detail) dict \<Rightarrow> str" where
  "raw_text_rewrap_status dry_run failed after_counts =
     (if failed \<noteq> 0 then lit ''completed_with_failures''
      else if \<not> dry_run \<and> has_remaining_legacy_key_counts after_counts then lit ''partial_remaining''
      else lit ''completed'')"

record rewrap_report =
  rp_run_id :: str
  rp_service_id :: str
  rp_dry_run :: bool
  rp_status :: str
  rp_target_key_id :: str
  rp_source_key_ids :: "str list"
  rp_included_tables :: "str list"
  rp_key_counts :: "(str, key_count_detail) dict"
  rp_before_key_counts :: "(str, key_count_detail) dict"
  rp_after_key_counts :: "(str, key_count_detail) dict"
  rp_counts :: rewrap_counts
  rp_limit :: nat
  rp_batch_size :: nat

record raw_text_rewrap_run =
  rw_run_id :: str
  rw_service_id :: str
  rw_target_key_id :: str
  rw_source_key_ids :: "str list"
  rw_included_tables :: "str list"
  rw_dry_run :: bool
  rw_approval_id :: "str option"
  rw_actor_id :: str
  rw_status :: str
  rw_scanned_count :: nat
  rw_rewrapped_count :: nat
  rw_skipped_count :: nat
  rw_failed_count :: nat
  rw_report :: "rewrap_report option"
  rw_started_at :: timestamp
  rw_completed_at :: "timestamp option"

definition complete_raw_text_rewrap_run :: "raw_text_rewrap_run \<Rightarrow> rewrap_report \<Rightarrow> timestamp \<Rightarrow> raw_text_rewrap_run" where
  "complete_raw_text_rewrap_run run report now =
     run\<lparr>rw_status := rp_status report, rw_scanned_count := rn_scanned (rp_counts report),
       rw_rewrapped_count := rn_rewrapped (rp_counts report), rw_skipped_count := rn_skipped (rp_counts report),
       rw_failed_count := rn_failed (rp_counts report), rw_report := Some report, rw_completed_at := Some now\<rparr>"

text \<open>Only suffixes of three digits are read, so that the numbers stop at 1000.\<close>

definition rewrap_prefix :: "timestamp \<Rightarrow> str" where
  "rewrap_prefix now = lit ''rtr-'' @ compact_date now @ lit ''-''"

definition next_rewrap_run_id :: "raw_text_rewrap_run list \<Rightarrow> timestamp \<Rightarrow> str" where
  "next_rewrap_run_id runs now =
     (let p = rewrap_prefix now;
          next_number = fold (\<lambda>i n. let suffix = drop (length p) i in
              if length suffix = 3 \<and> isdecimal suffix then max n (int_of_decimal suffix + 1) else n)
            (filter (prefix p) (map rw_run_id runs)) 1
      in p @ zero_pad 3 next_number)"

definition raw_text_rewrap_audit_after_state :: "rewrap_report \<Rightarrow> str \<Rightarrow> (str \<times> json) list" where
  "raw_text_rewrap_audit_after_state report approval_id =
     [(lit ''approval_id'', JStr approval_id), (lit ''rewrap_run_id'', JStr (rp_run_id report)),
      (lit ''rewrapped_count'', JInt (int (rn_rewrapped (rp_counts report)))),
      (lit ''scanned_count'', JInt (int (rn_scanned (rp_counts report)))),
      (lit ''skipped_count'', JInt (int (rn_skipped (rp_counts report)))),
      (lit ''failed_count'', JInt (int (rn_failed (rp_counts report)))),
      (lit ''target_key_id'', JStr (rp_target_key_id report))]"

record rewrap_env =
  re_variable :: "str \<Rightarrow> str option"
  re_aead :: aead
  re_nonces :: "nat \<Rightarrow> nonces"
  re_clock :: "nat \<Rightarrow> timestamp"
  re_collate :: "str \<Rightarrow> nat"
  re_uuid :: str
  re_reports_written :: "rewrap_report \<Rightarrow> bool"

datatype rewrap_error = Rewrap_Value_Error str | Rewrap_Keys crypto_error | Rewrap_Store repo_error | Reports_Not_Written

record rewrap_store =
  ws_db :: db
  ws_runs :: "raw_text_rewrap_run list"

record rewrap_request =
  wq_service_id :: str
  wq_actor_id :: str
  wq_included_tables :: "str list"
  wq_dry_run :: bool
  wq_approval_id :: "str option"
  wq_batch_size :: int
  wq_limit :: int

definition rewrap_execute ::
  "rewrap_env \<Rightarrow> rewrap_request \<Rightarrow> raw_text_keyring \<Rightarrow> str \<Rightarrow> db \<Rightarrow> rewrap_report \<times> db" where
  "rewrap_execute en q ring run_id d =
     (let active = kr_active_key_id ring; tables = wq_included_tables q;
          before = count_raw_text_key_ids d (wq_service_id q);
          sources = source_key_ids_from_counts before tables active;
          before_counts = raw_text_key_counts_by_table before tables active;
          candidates = list_candidates (re_collate en) d (wq_service_id q) tables sources (nat (wq_limit q));
          (counts, d1) = process_candidates (re_aead en) ring (re_nonces en) candidates tables (wq_dry_run q)
            (nat (wq_batch_size q)) d;
          after_counts = raw_text_key_counts_by_table (count_raw_text_key_ids d1 (wq_service_id q)) tables active
      in (\<lparr>rp_run_id = run_id, rp_service_id = wq_service_id q, rp_dry_run = wq_dry_run q,
           rp_status = raw_text_rewrap_status (wq_dry_run q) (rn_failed counts) after_counts,
           rp_target_key_id = active, rp_source_key_ids = sources, rp_included_tables = tables,
           rp_key_counts = before_counts, rp_before_key_counts = before_counts, rp_after_key_counts = after_counts,
           rp_counts = counts, rp_limit = nat (wq_limit q), rp_batch_size = nat (wq_batch_size q)\<rparr>, d1))"

definition run_raw_text_rewrap ::
  "rewrap_env \<Rightarrow> rewrap_request \<Rightarrow> rewrap_store \<Rightarrow> (rewrap_error, rewrap_store \<times> rewrap_report) outcome" where
  "run_raw_text_rewrap en q w =
     bindE (require (wq_included_tables q \<noteq> []) (Rewrap_Value_Error (lit ''at least one included table is required''))) (\<lambda>_.
     bindE (require (1 \<le> wq_batch_size q) (Rewrap_Value_Error (lit ''batch_size must be at least 1''))) (\<lambda>_.
     bindE (require (1 \<le> wq_limit q) (Rewrap_Value_Error (lit ''limit must be at least 1''))) (\<lambda>_.
     bindE (require (wq_dry_run q \<or> wq_approval_id q \<noteq> None)
       (Rewrap_Value_Error (lit ''approval_id is required for execute''))) (\<lambda>_.
     bindE (lift_error Rewrap_Keys (load_raw_text_keyring (re_variable en))) (\<lambda>ring.
     let started_at = re_clock en 0; run_id = next_rewrap_run_id (ws_runs w) started_at;
         (report, d1) = rewrap_execute en q ring run_id (ws_db w);
         run = \<lparr>rw_run_id = run_id, rw_service_id = wq_service_id q, rw_target_key_id = kr_active_key_id ring,
           rw_source_key_ids = rp_source_key_ids report, rw_included_tables = wq_included_tables q,
           rw_dry_run = wq_dry_run q, rw_approval_id = wq_approval_id q, rw_actor_id = wq_actor_id q,
           rw_status = lit ''running'', rw_scanned_count = 0, rw_rewrapped_count = 0, rw_skipped_count = 0,
           rw_failed_count = 0, rw_report = None, rw_started_at = started_at, rw_completed_at = None\<rparr> in
     bindE (lift_error Rewrap_Store (insert_row rw_run_id run (ws_runs w))) (\<lambda>runs.
     let completed_at = re_clock en 1;
         runs = put_row rw_run_id (complete_raw_text_rewrap_run run report completed_at) runs in
     bindE (if wq_dry_run q then Inr d1
       else bindE (lift_error Rewrap_Store (insert_audit_log d1 \<lparr>al_audit_id = re_uuid en,
           al_event_type = lit ''raw_text.rewrap.executed'', al_actor_id = wq_actor_id q,
           al_service_id = Some (wq_service_id q), al_trace_id = None, al_target_type = lit ''raw_text_rewrap_run'',
           al_target_id = run_id, al_view_reason = None, al_source_ip = None, al_before_state = None,
           al_after_state = Some (raw_text_rewrap_audit_after_state report (the (wq_approval_id q))),
           al_created_at = completed_at\<rparr>)) (\<lambda>(d2, _). Inr d2)) (\<lambda>d2.
     bindE (require (re_reports_written en report) Reports_Not_Written) (\<lambda>_.
     Inr (\<lparr>ws_db = d2, ws_runs = runs\<rparr>, report)))))))))"

section \<open>The command\<close>

text \<open>What \<open>argparse\<close> makes of the command line, and the checks before anything is read.\<close>

record rewrap_args =
  ra_service_id :: str
  ra_actor_id :: str
  ra_execute :: bool
  ra_approval_id :: "str option"
  ra_confirm_active_key_id :: "str option"
  ra_include :: "str list"
  ra_batch_size :: int
  ra_limit :: int

definition given :: "str option \<Rightarrow> bool" where
  "given v \<longleftrightarrow> v \<noteq> None \<and> v \<noteq> Some []"

definition database_url_from_env :: "(str \<Rightarrow> str option) \<Rightarrow> str option" where
  "database_url_from_env env =
     (if given (env (lit ''TEST_DATABASE_URL'')) then env (lit ''TEST_DATABASE_URL'') else env (lit ''DATABASE_URL''))"

datatype command_error = System_Exit str | Command_Keys crypto_error | Command_Run rewrap_error

definition validate_args :: "rewrap_args \<Rightarrow> str \<Rightarrow> str option \<Rightarrow> (command_error, unit) outcome" where
  "validate_args args active_key_id database_url =
     bindE (require (1 \<le> ra_batch_size args) (System_Exit (lit ''--batch-size must be at least 1''))) (\<lambda>_.
     bindE (require (1 \<le> ra_limit args) (System_Exit (lit ''--limit must be at least 1''))) (\<lambda>_.
     if \<not> ra_execute args then Inr ()
     else
       bindE (require (given (ra_approval_id args)) (System_Exit (lit ''--execute requires --approval-id''))) (\<lambda>_.
       bindE (require (given (ra_confirm_active_key_id args))
         (System_Exit (lit ''--execute requires --confirm-active-key-id''))) (\<lambda>_.
       bindE (require (ra_confirm_active_key_id args = Some active_key_id)
         (System_Exit (lit ''--confirm-active-key-id must match active raw text key ID''))) (\<lambda>_.
       require (database_url \<noteq> None) (System_Exit (lit ''--execute requires DATABASE_URL or TEST_DATABASE_URL'')))))))"

definition rewrap_main :: "rewrap_env \<Rightarrow> rewrap_args \<Rightarrow> rewrap_store \<Rightarrow> (command_error, rewrap_store \<times> rewrap_report) outcome" where
  "rewrap_main en args w =
     bindE (lift_error Command_Keys (load_raw_text_keyring (re_variable en))) (\<lambda>ring.
     bindE (validate_args args (kr_active_key_id ring) (database_url_from_env (re_variable en))) (\<lambda>_.
     bindE (lift_error Command_Keys (normalize_raw_text_rewrap_includes (ra_include args))) (\<lambda>tables.
     lift_error Command_Run (run_raw_text_rewrap en
       \<lparr>wq_service_id = ra_service_id args, wq_actor_id = ra_actor_id args, wq_included_tables = tables,
        wq_dry_run = \<not> ra_execute args, wq_approval_id = ra_approval_id args, wq_batch_size = ra_batch_size args,
        wq_limit = ra_limit args\<rparr> w))))"

section \<open>The report as Markdown\<close>

text \<open>\<open>re.sub(r"[\r\n]+", " ", text)\<close>: the flag says that the run of line breaks has been replaced already.\<close>

fun replace_breaks :: "bool \<Rightarrow> str \<Rightarrow> str" where
  "replace_breaks in_run [] = []"
| "replace_breaks in_run (c # s) =
     (if c = 10 \<or> c = 13 then (if in_run then [] else [32]) @ replace_breaks True s else c # replace_breaks False s)"

definition markdown_cell :: "str \<Rightarrow> str" where
  "markdown_cell s = concat (map (\<lambda>c. if c = 124 then [92, 124] else [c]) (replace_breaks False s))"

definition markdown_row :: "str list \<Rightarrow> str" where
  "markdown_row cells = lit ''| '' @ join_with (lit '' | '') (map markdown_cell cells) @ lit '' |''"

definition or_none :: "str \<Rightarrow> str" where
  "or_none s = (if s = [] then lit ''(none)'' else s)"

definition markdown_list_value :: "str list \<Rightarrow> str" where
  "markdown_list_value items = or_none (join_with (lit '', '') items)"

definition markdown_count_mapping :: "(str, nat) dict \<Rightarrow> str" where
  "markdown_count_mapping d = or_none (join_with (lit '', '') (map (\<lambda>(k, n). k @ lit ''='' @ dec n) d))"

definition bool_text :: "bool \<Rightarrow> str" where
  "bool_text b = (if b then lit ''True'' else lit ''False'')"

definition markdown_summary :: "rewrap_report \<Rightarrow> str list list" where
  "markdown_summary r =
     [[lit ''Rewrap run ID'', rp_run_id r], [lit ''Service ID'', rp_service_id r], [lit ''Dry run'', bool_text (rp_dry_run r)],
      [lit ''Status'', rp_status r], [lit ''Target key ID'', rp_target_key_id r],
      [lit ''Source key IDs'', markdown_list_value (rp_source_key_ids r)],
      [lit ''Included tables'', markdown_list_value (rp_included_tables r)], [lit ''Limit'', dec (rp_limit r)],
      [lit ''Batch size'', dec (rp_batch_size r)],
      [lit ''Scanned by table'', markdown_count_mapping (rn_scanned_by_table (rp_counts r))],
      [lit ''Scanned count'', dec (rn_scanned (rp_counts r))], [lit ''Rewrapped count'', dec (rn_rewrapped (rp_counts r))],
      [lit ''Skipped count'', dec (rn_skipped (rp_counts r))], [lit ''Failed count'', dec (rn_failed (rp_counts r))],
      [lit ''Plaintext exported'', bool_text False]]"

definition markdown_table :: "string \<Rightarrow> string list \<Rightarrow> str list list \<Rightarrow> str list" where
  "markdown_table title columns rows =
     [[], lit ''## '' @ lit title, [], lit ''| '' @ join_with (lit '' | '') (map lit columns) @ lit '' |'',
      lit ''| '' @ join_with (lit '' | '') (map (\<lambda>_. lit ''---'') columns) @ lit '' |''] @ map markdown_row rows"

definition markdown_key_count_lines :: "(str, key_count_detail) dict \<Rightarrow> str list" where
  "markdown_key_count_lines counts =
     markdown_table ''Key Counts'' [''Table'', ''Key role'', ''Key ID'', ''Count'']
       (concat (map (\<lambda>(t, c). map (\<lambda>(k, n). [t, lit ''legacy'', k, dec n]) (kd_legacy c)
          @ map (\<lambda>(k, n). [t, lit ''active'', k, dec n]) (kd_active c)) counts))"

definition snapshot_rows :: "string \<Rightarrow> str \<Rightarrow> string \<Rightarrow> str list \<Rightarrow> (str \<times> nat) list \<Rightarrow> str list list" where
  "snapshot_rows label t role expected counts =
     map (\<lambda>k. [lit label, t, lit role, k, dec (dict_get counts k 0)])
       (sorted_list_of_set (set expected \<union> fst ` set counts))"

definition markdown_snapshot_key_count_lines :: "string \<Rightarrow> (str, key_count_detail) dict \<Rightarrow> rewrap_report \<Rightarrow> str list" where
  "markdown_snapshot_key_count_lines label counts r =
     markdown_table (label @ '' Key Counts'') [''Snapshot'', ''Table'', ''Key role'', ''Key ID'', ''Count'']
       (concat (map (\<lambda>(t, c). snapshot_rows label t ''legacy'' (rp_source_key_ids r) (kd_legacy c)
          @ snapshot_rows label t ''active'' [rp_target_key_id r] (kd_active c)) counts))"

definition markdown_failure_count_lines :: "failure_counts \<Rightarrow> str list" where
  "markdown_failure_count_lines failures =
     markdown_table ''Failure Counts'' [''Table'', ''Key ID'', ''Reason'', ''Count'']
       (concat (map (\<lambda>(t, of_table). concat (map (\<lambda>(k, of_key). map (\<lambda>(reason, n). [t, k, reason, dec n]) of_key)
          of_table)) failures))"

definition render_raw_text_rewrap_markdown :: "rewrap_report \<Rightarrow> str" where
  "render_raw_text_rewrap_markdown r =
     join_with [10] ([lit ''# Raw Text Rewrap Report''] @ markdown_table ''Summary'' [''Field'', ''Value''] (markdown_summary r)
       @ markdown_key_count_lines (rp_key_counts r)
       @ markdown_snapshot_key_count_lines ''Before'' (rp_before_key_counts r) r
       @ markdown_snapshot_key_count_lines ''After'' (rp_after_key_counts r) r
       @ markdown_failure_count_lines (rn_failure_counts (rp_counts r))) @ [10]"

text \<open>No identifier can break out of its line of a table.\<close>

lemma markdown_cell_line: "c \<in> set (markdown_cell s) \<Longrightarrow> c \<noteq> 10 \<and> c \<noteq> 13"
proof -
  have "c \<in> set (replace_breaks b s) \<Longrightarrow> c \<noteq> 10 \<and> c \<noteq> 13" for b c
    by (induction b s rule: replace_breaks.induct) (auto split: if_splits)
  then show "c \<in> set (markdown_cell s) \<Longrightarrow> c \<noteq> 10 \<and> c \<noteq> 13" by (fastforce simp: markdown_cell_def split: if_splits)
qed

end
