(* ===== verification/Api_Keys.thy ===== *)
theory Api_Keys
  imports Encryption Admin_Auth Releases
begin

text \<open>
  API keys: \<open>security/api_keys.py\<close>, \<open>security/api_key_secrets.py\<close> and the dependency \<open>require_api_key\<close> of
  \<open>api/dependencies.py\<close> that admits a runtime request, with the allowed environments of \<open>config.py\<close>. PBKDF2, the
  salt and the hexadecimal SHA-256 digest are parameters.
\<close>

section \<open>Secrets and their hashes\<close>

definition pbkdf2_algorithm :: str where
  "pbkdf2_algorithm = lit ''pbkdf2_sha256''"

definition pbkdf2_iterations :: nat where
  "pbkdf2_iterations = 210000"

text \<open>\<open>_b64encode\<close> strips the padding that \<open>_b64decode\<close> puts back.\<close>

definition b64encode_unpadded :: "bytes \<Rightarrow> str" where
  "b64encode_unpadded raw = rev (dropWhile (\<lambda>c. c = 61) (rev (urlsafe_b64encode raw)))"

definition b64decode_unpadded :: "str \<Rightarrow> bytes option" where
  "b64decode_unpadded encoded = urlsafe_b64decode (encoded @ replicate ((4 - length encoded mod 4) mod 4) 61)"

type_synonym pbkdf2 = "bytes \<Rightarrow> bytes \<Rightarrow> nat \<Rightarrow> bytes"

definition hash_secret :: "pbkdf2 \<Rightarrow> bytes \<Rightarrow> str \<Rightarrow> (crypto_error, str) outcome" where
  "hash_secret kdf salt secret =
     bindE (encode secret) (\<lambda>raw.
     Inr (join_with [36] [pbkdf2_algorithm, dec pbkdf2_iterations, b64encode_unpadded salt,
       b64encode_unpadded (kdf raw salt pbkdf2_iterations)]))"

text \<open>\<open>s.split("$", 3)\<close> unpacked into four parts; fewer parts raise.\<close>

definition split_hash :: "str \<Rightarrow> (str \<times> str \<times> str \<times> str) option" where
  "split_hash s =
     (case split_on 36 s of
        a # b # c # d # r \<Rightarrow> Some (a, b, c, join_with [36] (d # r))
      | _ \<Rightarrow> None)"

text \<open>Every exception of the parsing and the derivation is caught and answered with \<open>False\<close>.\<close>

definition verify_secret :: "pbkdf2 \<Rightarrow> str \<Rightarrow> str \<Rightarrow> bool" where
  "verify_secret kdf secret hashed \<longleftrightarrow>
     (case split_hash hashed of None \<Rightarrow> False
      | Some (alg, iterations_raw, salt_raw, digest_raw) \<Rightarrow>
          alg = pbkdf2_algorithm \<and> py_int iterations_raw = Some (int pbkdf2_iterations)
          \<and> (case (b64decode_unpadded salt_raw, b64decode_unpadded digest_raw, utf8_encode secret) of
               (Some salt, Some expected_digest, Some raw) \<Rightarrow> kdf raw salt pbkdf2_iterations = expected_digest
             | _ \<Rightarrow> False))"

definition fingerprint_secret :: "(bytes \<Rightarrow> str) \<Rightarrow> str \<Rightarrow> (crypto_error, str) outcome" where
  "fingerprint_secret hexdigest secret =
     bindE (encode secret) (\<lambda>raw.
     Inr (lit ''sha256:'' @ hexdigest raw @ lit '':'' @ drop (length secret - 4) secret))"

section \<open>Scope\<close>

definition check_scope :: "api_key \<Rightarrow> str \<Rightarrow> str \<Rightarrow> str option \<Rightarrow> str option \<Rightarrow> (error_code, unit) outcome" where
  "check_scope r app_id service_id route_key intent_id =
     (if ak_app_id r \<noteq> app_id \<or> ak_service_id r \<noteq> service_id then Inl SERVICE_SCOPE_DENIED
      else if (case route_key of None \<Rightarrow> False
               | Some k \<Rightarrow> ak_allowed_route_keys r \<noteq> [] \<and> k \<notin> set (ak_allowed_route_keys r)) then Inl SERVICE_SCOPE_DENIED
      else if (case intent_id of None \<Rightarrow> False
               | Some i \<Rightarrow> ak_allowed_intents r \<noteq> [] \<and> i \<notin> set (ak_allowed_intents r)) then Inl SERVICE_SCOPE_DENIED
      else Inr ())"

section \<open>The encrypted copy of a secret\<close>

definition api_key_secret_context :: "str \<Rightarrow> str \<Rightarrow> (str, str) dict" where
  "api_key_secret_context service_id key_id =
     [(lit ''purpose'', lit ''api_key_secret''), (lit ''service_id'', service_id), (lit ''key_id'', key_id)]"

definition encrypted_api_key_secret :: "api_key \<Rightarrow> encrypted_text option" where
  "encrypted_api_key_secret r = complete_text (ak_secret r)"

definition apply_encrypted_api_key_secret :: "api_key \<Rightarrow> encrypted_text \<Rightarrow> api_key" where
  "apply_encrypted_api_key_secret r e = r\<lparr>ak_secret := stored_text e\<rparr>"

section \<open>Admission of a runtime request\<close>

definition get_allowed_runtime_environments :: "(str \<Rightarrow> str option) \<Rightarrow> str set option" where
  "get_allowed_runtime_environments env =
     (let values = set (filter (\<lambda>v. v \<noteq> []) (map strip (split_on 44
        (case env (lit ''ALLOWED_RUNTIME_ENVIRONMENTS'') of None \<Rightarrow> lit ''dev,qa,prod'' | Some v \<Rightarrow> v))))
      in if \<not> values \<subseteq> set supported_runtime_environments \<or> values = {} then None else Some values)"

record auth_context =
  at_key_id :: str
  at_app_id :: str
  at_service_id :: str
  at_environment :: str
  at_request_id :: "str option"
  at_allowed_intents :: "str list"
  at_allowed_route_keys :: "str list"

record auth_headers =
  ah_authorization :: "str option"
  ah_app_id :: "str option"
  ah_service_id :: "str option"
  ah_key_id :: "str option"
  ah_request_id :: "str option"

definition raise_key_authentication_failed :: http_error where
  "raise_key_authentication_failed = Http_Error 401 AUTHENTICATION_FAILED (lit ''API key authentication failed.'')"

definition raise_scope_denied :: http_error where
  "raise_scope_denied =
     Http_Error 403 SERVICE_SCOPE_DENIED (lit ''API key is not allowed to access this service or route.'')"

definition bearer_secret :: "str option \<Rightarrow> str option" where
  "bearer_secret authorization =
     (case authorization of None \<Rightarrow> None
      | Some a \<Rightarrow>
          (case partition_on 32 a of
             (scheme, found, credentials) \<Rightarrow>
               if \<not> found \<or> lower scheme \<noteq> lit ''bearer'' \<or> credentials = [] then None else Some credentials))"

definition is_expired :: "api_key \<Rightarrow> timestamp \<Rightarrow> bool" where
  "is_expired r now = (case ak_expires_at r of None \<Rightarrow> False | Some t \<Rightarrow> t \<le> now)"

text \<open>A key that may be used now: active, neither revoked nor expired, for an environment that is allowed.\<close>

definition key_usable :: "(str \<Rightarrow> str option) \<Rightarrow> timestamp \<Rightarrow> api_key \<Rightarrow> bool" where
  "key_usable env now r \<longleftrightarrow> ak_status r = lit ''active'' \<and> ak_revoked_at r = None \<and> \<not> is_expired r now
     \<and> (case get_allowed_runtime_environments env of None \<Rightarrow> False | Some es \<Rightarrow> ak_environment r \<in> es)"

definition require_api_key ::
  "pbkdf2 \<Rightarrow> (str \<Rightarrow> str option) \<Rightarrow> timestamp \<Rightarrow> db \<Rightarrow> auth_headers \<Rightarrow> (http_error, auth_context) outcome" where
  "require_api_key kdf env now d h =
     bindE (some_or (bearer_secret (ah_authorization h)) raise_key_authentication_failed) (\<lambda>secret.
     bindE (some_or (ah_app_id h) raise_key_authentication_failed) (\<lambda>app_id.
     bindE (some_or (ah_service_id h) raise_key_authentication_failed) (\<lambda>service_id.
     bindE (some_or (ah_key_id h) raise_key_authentication_failed) (\<lambda>key_id.
     bindE (some_or (get_api_key_by_id d key_id) raise_key_authentication_failed) (\<lambda>r.
     bindE (require (verify_secret kdf secret (ak_key_hash r)) raise_key_authentication_failed) (\<lambda>_.
     bindE (require (key_usable env now r) raise_key_authentication_failed) (\<lambda>_.
     bindE (lift_error (\<lambda>_. raise_scope_denied) (check_scope r app_id service_id None None)) (\<lambda>_.
     Inr \<lparr>at_key_id = ak_key_id r, at_app_id = ak_app_id r, at_service_id = ak_service_id r,
       at_environment = ak_environment r, at_request_id = ah_request_id h,
       at_allowed_intents = ak_allowed_intents r, at_allowed_route_keys = ak_allowed_route_keys r\<rparr>))))))))"

section \<open>A hash verifies its own secret\<close>

lemma b64encode_shape:
  "byte_list b \<Longrightarrow> \<exists>u k. b64encode b = u @ replicate k 61 \<and> 61 \<notin> set u \<and> k \<le> 2 \<and> (length u + k) mod 4 = 0"
proof (induction b rule: b64encode.induct)
  case 1
  show ?case by (intro exI [of _ "[]"] exI [of _ 0]) simp
next
  case (2 a)
  then have "a div 4 < 64" "a mod 4 * 16 < 64" by auto
  then show ?case
    by (intro exI [of _ "[b64_char (a div 4), b64_char (a mod 4 * 16)]"] exI [of _ 2])
      (simp add: numeral_2_eq_2)
next
  case (3 a b)
  then have "a div 4 < 64" "a mod 4 * 16 + b div 16 < 64" "b mod 16 * 4 < 64" by (auto; presburger)+
  then show ?case
    by (intro exI [of _ "[b64_char (a div 4), b64_char (a mod 4 * 16 + b div 16), b64_char (b mod 16 * 4)]"] exI [of _ 1])
      simp
next
  case (4 a b c r)
  then obtain u k where u: "b64encode r = u @ replicate k 61" "61 \<notin> set u" "k \<le> 2" "(length u + k) mod 4 = 0" by auto
  let ?w = "[b64_char (a div 4), b64_char (a mod 4 * 16 + b div 16), b64_char (b mod 16 * 4 + c div 64), b64_char (c mod 64)]"
  have "a div 4 < 64" "a mod 4 * 16 + b div 16 < 64" "b mod 16 * 4 + c div 64 < 64" using 4 by (auto; presburger)+
  then have "61 \<notin> set (?w @ u)" using u(2) by simp
  moreover have "(length (?w @ u) + k) mod 4 = 0" using u(4) by (simp add: mod_Suc)
  ultimately show ?case using u(1,3) by (intro exI [of _ "?w @ u"] exI [of _ k]) simp
qed

lemma b64_unpadded_roundtrip: "byte_list b \<Longrightarrow> b64decode_unpadded (b64encode_unpadded b) = Some b"
proof -
  assume b: "byte_list b"
  obtain u k where u: "b64encode b = u @ replicate k 61" "61 \<notin> set u" "k \<le> 2" "(length u + k) mod 4 = 0"
    using b64encode_shape [OF b] by (elim exE conjE)
  let ?f = "\<lambda>c::nat. if c = 43 then 45 else if c = 47 then 95 else c"
  have enc: "urlsafe_b64encode b = map ?f u @ replicate k 61" by (simp add: urlsafe_b64encode_def u(1))
  have "dropWhile (\<lambda>c. c = 61) (rev (map ?f u)) = rev (map ?f u)"
  proof -
    have "dropWhile (\<lambda>c. c = 61) xs = xs" if "61 \<notin> set xs" for xs :: "nat list" using that by (cases xs) auto
    moreover have "61 \<notin> set (rev (map ?f u))" using u(2) by auto
    ultimately show ?thesis by blast
  qed
  then have "b64encode_unpadded b = map ?f u"
    by (simp add: b64encode_unpadded_def enc dropWhile_append)
  moreover have "(4 - length u mod 4) mod 4 = k"
  proof -
    have m: "(length u mod 4 + k) mod 4 = 0" using u(4) by (simp add: mod_add_left_eq)
    have "length u mod 4 < 4" by simp
    then have "length u mod 4 = 0 \<or> length u mod 4 = 1 \<or> length u mod 4 = 2 \<or> length u mod 4 = 3" by linarith
    moreover have "k = 0 \<or> k = 1 \<or> k = 2" using u(3) by linarith
    ultimately show ?thesis using m by (elim disjE) simp_all
  qed
  ultimately have "b64encode_unpadded b @ replicate ((4 - length (b64encode_unpadded b) mod 4) mod 4) 61 = urlsafe_b64encode b"
    by (simp add: enc)
  then show ?thesis using urlsafe_b64_roundtrip [OF b] by (simp add: b64decode_unpadded_def)
qed

lemma b64encode_unpadded_no_dollar: "byte_list b \<Longrightarrow> 36 \<notin> set (b64encode_unpadded b)"
proof -
  assume b: "byte_list b"
  have "b64_value 36 = None" by (simp add: b64_value_def)
  then have "36 \<notin> set (urlsafe_b64encode b)"
    using b64encode_chars [OF b, of 36] by (auto simp: urlsafe_b64encode_def split: if_splits)
  then show ?thesis using set_dropWhileD by (fastforce simp: b64encode_unpadded_def)
qed

text \<open>The first three dollar signs of a hash separate its parts.\<close>

lemma split_hash_join:
  assumes "36 \<notin> set a" "36 \<notin> set b" "36 \<notin> set c" "36 \<notin> set d"
  shows "split_hash (join_with [36] [a, b, c, d]) = Some (a, b, c, d)"
  using assms by (simp add: split_hash_def split_on_word_sep split_on_word)

lemma py_int_iterations: "py_int (dec pbkdf2_iterations) = Some (int pbkdf2_iterations)"
proof -
  have d: "dec pbkdf2_iterations = [50, 49, 48, 48, 48, 48]" by (simp add: pbkdf2_iterations_def dec.simps)
  show ?thesis
    unfolding d by (simp add: py_int_def int_space_def is_space_def isdecimal_def is_decimal_def digit_of_def int_of_decimal_def
        pbkdf2_iterations_def)
qed

lemma hash_secret_parts:
  assumes "hash_secret kdf salt secret = Inr h" and "byte_list salt" and "\<And>p s n. byte_list (kdf p s n)"
  shows "\<exists>raw. utf8_encode secret = Some raw
    \<and> split_hash h = Some (pbkdf2_algorithm, dec pbkdf2_iterations, b64encode_unpadded salt,
        b64encode_unpadded (kdf raw salt pbkdf2_iterations))"
proof -
  obtain raw where raw: "utf8_encode secret = Some raw" and h: "h = join_with [36] [pbkdf2_algorithm, dec pbkdf2_iterations,
      b64encode_unpadded salt, b64encode_unpadded (kdf raw salt pbkdf2_iterations)]"
    using assms(1) by (auto simp: hash_secret_def encode_def raise_simps)
  have "36 \<notin> set pbkdf2_algorithm" by (simp add: pbkdf2_algorithm_def lit_def)
  moreover have "36 \<notin> set (dec pbkdf2_iterations)" using dec_digits by fastforce
  ultimately have "split_hash h = Some (pbkdf2_algorithm, dec pbkdf2_iterations, b64encode_unpadded salt,
      b64encode_unpadded (kdf raw salt pbkdf2_iterations))"
    unfolding h using assms(2,3) b64encode_unpadded_no_dollar by (intro split_hash_join) auto
  then show ?thesis using raw by blast
qed

text \<open>A secret is verified exactly when it derives the same key as the one that was hashed.\<close>

lemma verify_hash_secret:
  assumes "hash_secret kdf salt secret = Inr h" and "byte_list salt" and "\<And>p s n. byte_list (kdf p s n)"
  shows "verify_secret kdf candidate h \<longleftrightarrow>
    (\<exists>raw c. utf8_encode secret = Some raw \<and> utf8_encode candidate = Some c
       \<and> kdf c salt pbkdf2_iterations = kdf raw salt pbkdf2_iterations)"
proof -
  obtain raw where raw: "utf8_encode secret = Some raw" "split_hash h = Some (pbkdf2_algorithm, dec pbkdf2_iterations,
      b64encode_unpadded salt, b64encode_unpadded (kdf raw salt pbkdf2_iterations))"
    using hash_secret_parts [OF assms] by blast
  then show ?thesis
    using b64_unpadded_roundtrip [OF assms(2)] b64_unpadded_roundtrip [OF assms(3)]
    by (simp add: verify_secret_def py_int_iterations split: option.split)
qed

section \<open>Who is admitted\<close>

lemma check_scope_any: "check_scope r app service None None = Inr u \<longleftrightarrow> ak_app_id r = app \<and> ak_service_id r = service"
  by (simp add: check_scope_def)

lemma require_api_key_Inr:
  "require_api_key kdf env now d h = Inr cx \<longleftrightarrow>
     (\<exists>secret r. bearer_secret (ah_authorization h) = Some secret \<and> ah_key_id h = Some (ak_key_id r)
        \<and> get_api_key_by_id d (ak_key_id r) = Some r \<and> verify_secret kdf secret (ak_key_hash r) \<and> key_usable env now r
        \<and> ah_app_id h = Some (ak_app_id r) \<and> ah_service_id h = Some (ak_service_id r)
        \<and> cx = \<lparr>at_key_id = ak_key_id r, at_app_id = ak_app_id r, at_service_id = ak_service_id r,
             at_environment = ak_environment r, at_request_id = ah_request_id h,
             at_allowed_intents = ak_allowed_intents r, at_allowed_route_keys = ak_allowed_route_keys r\<rparr>)"
  (is "?l \<longleftrightarrow> ?r")
proof
  assume ?l
  then obtain secret key_id r where *: "bearer_secret (ah_authorization h) = Some secret" "ah_key_id h = Some key_id"
    "get_api_key_by_id d key_id = Some r" "verify_secret kdf secret (ak_key_hash r)" "key_usable env now r"
    "ah_app_id h = Some (ak_app_id r)" "ah_service_id h = Some (ak_service_id r)"
    "cx = \<lparr>at_key_id = ak_key_id r, at_app_id = ak_app_id r, at_service_id = ak_service_id r,
             at_environment = ak_environment r, at_request_id = ah_request_id h,
             at_allowed_intents = ak_allowed_intents r, at_allowed_route_keys = ak_allowed_route_keys r\<rparr>"
    by (auto simp: require_api_key_def raise_simps check_scope_any)
  moreover have "ak_key_id r = key_id" using *(3) by (auto simp: get_api_key_by_id_def dest: first_row_Some)
  ultimately show ?r by blast
next
  assume ?r
  then show ?l by (auto simp: require_api_key_def raise_simps check_scope_any)
qed

end
