(* ===== verification/Scoring.thy ===== *)
theory Scoring
  imports Domain_Schemas
begin

text \<open>
  \<open>src/intent_routing/routing/scoring.py\<close>: the confidence of an intent from its example
  similarities and keyword hits, and the composer that turns the scored candidates of a query into a
  decision. All arithmetic is float arithmetic (theory Float64).
\<close>

section \<open>Confidence of one intent\<close>

definition clamp :: "float64 \<Rightarrow> float64 \<Rightarrow> float64 \<Rightarrow> float64" where
  "clamp value minimum maximum = max minimum (min maximum value)"

record score_breakdown =
  sb_positive_score :: float64
  sb_negative_score :: float64
  sb_keyword_boost :: float64
  sb_keyword_penalty :: float64
  sb_negative_penalty :: float64
  sb_confidence :: float64

definition compute_intent_confidence ::
  "float64 list \<Rightarrow> float64 list \<Rightarrow> nat \<Rightarrow> nat \<Rightarrow> score_breakdown" where
  "compute_intent_confidence positive_scores negative_scores include_count exclude_count =
     (let positive_score = max_default 0 positive_scores;
          negative_score = max_default 0 negative_scores;
          keyword_boost = min (decimal 8 2) (fmul (decimal 2 2) (fl (of_nat include_count)));
          keyword_penalty = min (decimal 12 2) (fmul (decimal 3 2) (fl (of_nat exclude_count)));
          negative_penalty = fmul (max 0 (fsub negative_score (decimal 55 2))) (decimal 50 2);
          confidence = clamp
            (fsub (fsub (fadd positive_score keyword_boost) keyword_penalty) negative_penalty) 0 1
      in \<lparr>sb_positive_score = positive_score, sb_negative_score = negative_score,
          sb_keyword_boost = keyword_boost, sb_keyword_penalty = keyword_penalty,
          sb_negative_penalty = negative_penalty, sb_confidence = confidence\<rparr>)"

lemma clamp_bounds: "0 \<le> clamp v 0 1" "clamp v 0 1 \<le> 1"
  by (simp_all add: clamp_def)

lemma clamp_mono: "v \<le> w \<Longrightarrow> clamp v lo hi \<le> clamp w lo hi"
  by (auto simp: clamp_def min_def max_def)

lemma fmul_mono: "0 \<le> a \<Longrightarrow> b \<le> c \<Longrightarrow> fmul a b \<le> fmul a c"
  unfolding fmul_def by (intro fl_mono mult_left_mono)

lemma fmul_mono_left: "0 \<le> c \<Longrightarrow> a \<le> b \<Longrightarrow> fmul a c \<le> fmul b c"
  unfolding fmul_def by (intro fl_mono mult_right_mono)

lemma fmul_nonneg: "0 \<le> a \<Longrightarrow> 0 \<le> b \<Longrightarrow> 0 \<le> fmul a b"
  by (simp add: fmul_def fl_nonneg)

lemma fmul_zero: "fmul 0 b = 0"
  by (simp add: fmul_def)

lemma max_fsub_zero: "a \<le> b \<Longrightarrow> max 0 (fsub a b) = 0"
  using fl_mono [of "a - b" 0] by (simp add: fsub_def)

lemma fadd_mono: "a \<le> a' \<Longrightarrow> b \<le> b' \<Longrightarrow> fadd a b \<le> fadd a' b'"
  unfolding fadd_def by (intro fl_mono add_mono)

lemma fsub_mono: "a \<le> a' \<Longrightarrow> b' \<le> b \<Longrightarrow> fsub a b \<le> fsub a' b'"
  unfolding fsub_def by (intro fl_mono diff_mono)

text \<open>
  The confidence lies in [0, 1], the keyword boost in [0, 0.08], the keyword penalty in
  [0, 0.12], and the negative penalty is nonnegative and vanishes while no negative example scores
  above 0.55.
\<close>

theorem confidence_bounds:
  defines "b \<equiv> \<lambda>ps ns i e. compute_intent_confidence ps ns i e"
  shows "0 \<le> sb_confidence (b ps ns i e) \<and> sb_confidence (b ps ns i e) \<le> 1
    \<and> 0 \<le> sb_keyword_boost (b ps ns i e) \<and> sb_keyword_boost (b ps ns i e) \<le> decimal 8 2
    \<and> 0 \<le> sb_keyword_penalty (b ps ns i e) \<and> sb_keyword_penalty (b ps ns i e) \<le> decimal 12 2
    \<and> 0 \<le> sb_negative_penalty (b ps ns i e)
    \<and> ((\<exists>n \<in> set ns. decimal 55 2 < n) \<or> sb_negative_penalty (b ps ns i e) = 0)"
proof -
  have "max_default 0 ns \<le> decimal 55 2" if "\<forall>n \<in> set ns. n \<le> decimal 55 2"
    using that max_default_in [of ns 0] by (cases "ns = []") auto
  then have zero: "fmul (max 0 (fsub (max_default 0 ns) (decimal 55 2))) (decimal 50 2) = 0"
    if "\<not> (\<exists>n \<in> set ns. decimal 55 2 < n)"
    using that max_fsub_zero [of "max_default 0 ns" "decimal 55 2"]
    by (simp add: not_less fmul_zero)
  have "0 \<le> fmul (max 0 x) (decimal 50 2)" for x
    by (simp add: fmul_nonneg)
  then show ?thesis
    using zero clamp_bounds
    by (auto simp: b_def compute_intent_confidence_def Let_def fmul_nonneg fmul_zero)
qed

lemma max_default_mono:
  assumes "\<forall>x \<in> set xs. 0 \<le> x" and "set xs \<subseteq> set ys" and "\<forall>y \<in> set ys. 0 \<le> y"
  shows "max_default 0 xs \<le> max_default 0 ys"
proof (cases "xs = []")
  case True
  then show ?thesis
    using assms(3) max_default_in [of ys 0] by (cases "ys = []") auto
next
  case False
  then have "max_default 0 xs \<in> set ys"
    using assms(2) max_default_in by blast
  then show ?thesis by (rule max_default_ge)
qed

text \<open>
  Evidence moves the confidence in the right direction: with similarities that are not negative,
  more positive examples and more include keywords never lower it, and more negative examples and
  more exclude keywords never raise it.
\<close>

theorem confidence_monotone:
  assumes "set ps \<subseteq> set ps'" and "set ns' \<subseteq> set ns"
    and "\<forall>x \<in> set ps'. 0 \<le> x" and "\<forall>x \<in> set ns. 0 \<le> x"
    and "i \<le> i'" and "e' \<le> e"
  shows "sb_confidence (compute_intent_confidence ps ns i e)
    \<le> sb_confidence (compute_intent_confidence ps' ns' i' e')"
proof -
  have p: "max_default 0 ps \<le> max_default 0 ps'"
    using assms(1,3) by (intro max_default_mono) auto
  have n: "max_default 0 ns' \<le> max_default 0 ns"
    using assms(2,4) by (intro max_default_mono) auto
  have boost: "min (decimal 8 2) (fmul (decimal 2 2) (fl (of_nat i)))
      \<le> min (decimal 8 2) (fmul (decimal 2 2) (fl (of_nat i')))"
    using assms(5) by (intro min.mono order_refl fmul_mono fl_mono) simp_all
  have penalty: "min (decimal 12 2) (fmul (decimal 3 2) (fl (of_nat e')))
      \<le> min (decimal 12 2) (fmul (decimal 3 2) (fl (of_nat e)))"
    using assms(6) by (intro min.mono order_refl fmul_mono fl_mono) simp_all
  have neg: "fmul (max 0 (fsub (max_default 0 ns') (decimal 55 2))) (decimal 50 2)
      \<le> fmul (max 0 (fsub (max_default 0 ns) (decimal 55 2))) (decimal 50 2)"
    by (intro fmul_mono_left max.mono order_refl fsub_mono n) simp
  show ?thesis
    unfolding compute_intent_confidence_def Let_def
    by simp (intro clamp_mono fsub_mono fadd_mono p boost penalty neg)
qed

theorem confidence_monotone_witness:
  "sb_confidence (compute_intent_confidence [decimal 70 2] [decimal 80 2] 0 2)
    \<le> sb_confidence (compute_intent_confidence [decimal 70 2, decimal 90 2] [] 1 1)"
  by (rule confidence_monotone) simp_all

section \<open>Scored candidates and thresholds\<close>

record candidate_score =
  cs_intent_id :: str
  cs_display_name :: str
  cs_domain :: str
  cs_route_key :: str
  cs_confidence :: float64
  cs_positive_score :: float64
  cs_negative_score :: float64
  cs_include_keyword_match_count :: nat
  cs_exclude_keyword_match_count :: nat
  cs_keyword_boost :: float64
  cs_keyword_penalty :: float64
  cs_negative_penalty :: float64

definition clarify_margin_default :: float64 where "clarify_margin_default = decimal 8 2"
definition min_candidate_score_default :: float64 where "min_candidate_score_default = decimal 55 2"
definition fallback_score_default :: float64 where "fallback_score_default = decimal 45 2"
definition max_clarify_candidates_default :: nat where "max_clarify_candidates_default = 3"

text \<open>The preset of a configuration is one of the enumeration's, or the word \<open>custom\<close>.\<close>

datatype preset_choice = Custom | Preset threshold_preset

record threshold_config =
  tc_preset :: preset_choice
  tc_threshold :: "float64 option"
  tc_clarify_margin :: float64
  tc_min_candidate_score :: float64
  tc_fallback_score :: float64
  tc_max_clarify_candidates :: nat

datatype threshold_error = Custom_Requires_Threshold | Unknown_Preset str

text \<open>The constructor with its \<open>__post_init__\<close>.\<close>

definition make_threshold_config ::
  "str \<Rightarrow> float64 option \<Rightarrow> float64 \<Rightarrow> float64 \<Rightarrow> float64 \<Rightarrow> nat
    \<Rightarrow> (threshold_error, threshold_config) outcome" where
  "make_threshold_config preset threshold margin min_score floor_score max_candidates =
     (if preset = lit ''custom'' then
        (case threshold of
           None \<Rightarrow> Inl Custom_Requires_Threshold
         | Some t \<Rightarrow> Inr \<lparr>tc_preset = Custom, tc_threshold = Some t, tc_clarify_margin = margin,
             tc_min_candidate_score = min_score, tc_fallback_score = floor_score,
             tc_max_clarify_candidates = max_candidates\<rparr>)
      else case parse_preset preset of
        None \<Rightarrow> Inl (Unknown_Preset preset)
      | Some p \<Rightarrow> Inr \<lparr>tc_preset = Preset p,
          tc_threshold = (case threshold of None \<Rightarrow> Some (preset_threshold p) | Some t \<Rightarrow> Some t),
          tc_clarify_margin = margin, tc_min_candidate_score = min_score,
          tc_fallback_score = floor_score, tc_max_clarify_candidates = max_candidates\<rparr>)"

text \<open>
  The property \<open>resolved_threshold\<close>. The preset branch is taken only when no threshold is stored;
  then the preset is a member of the enumeration, because a custom configuration stores one.
\<close>

definition resolved_threshold :: "threshold_config \<Rightarrow> float64" where
  "resolved_threshold c = (case tc_threshold c of
     Some t \<Rightarrow> t
   | None \<Rightarrow> (case tc_preset c of Preset p \<Rightarrow> preset_threshold p | Custom \<Rightarrow> 0))"

text \<open>
  Constructing a threshold configuration fails exactly for the word custom without a threshold
  and for an unknown preset; otherwise the resolved threshold is the explicit one when given and the
  preset's own otherwise, and every other setting is stored unchanged.
\<close>

theorem threshold_config_resolution:
  "case make_threshold_config preset threshold margin mn flo k of
     Inl err \<Rightarrow> preset = lit ''custom'' \<and> threshold = None
       \<or> preset \<noteq> lit ''custom'' \<and> preset \<notin> range preset_value
   | Inr c \<Rightarrow> (preset = lit ''custom'' \<and> threshold = Some (resolved_threshold c)
         \<or> (\<exists>p. preset = preset_value p \<and>
             resolved_threshold c = (case threshold of None \<Rightarrow> preset_threshold p | Some t \<Rightarrow> t)))
       \<and> tc_clarify_margin c = margin \<and> tc_min_candidate_score c = mn
       \<and> tc_fallback_score c = flo \<and> tc_max_clarify_candidates c = k"
proof -
  have parse: "parse_preset preset = Some p \<Longrightarrow> preset = preset_value p" for p
    by (cases p) (auto simp: parse_preset_def split: if_splits)
  have unknown: "parse_preset preset = None \<Longrightarrow> preset \<noteq> preset_value p" for p
    by (metis option.distinct(1) parse_preset_value)
  have custom: "preset_value p \<noteq> lit ''custom''" for p
    by (cases p) simp_all
  show ?thesis
    using parse unknown custom
    by (auto simp: make_threshold_config_def resolved_threshold_def image_iff split: option.splits)
qed

end
