(* ===== verification/Composer.thy ===== *)
theory Composer
  imports Scoring
begin

text \<open>
  \<open>DecisionComposer\<close> of \<open>routing/scoring.py\<close>: ranking, authorization, and the cascade of
  guards from the fallback floor to the clarification branches, with the recorded decision state.
\<close>

section \<open>Results\<close>

record threshold_state =
  ts_preset :: preset_choice
  ts_threshold :: float64
  ts_clarify_margin :: float64
  ts_min_candidate_score :: float64
  ts_fallback_score :: float64

text \<open>
  The \<open>decision_state\<close> dictionaries: those of a ranked decision (each ranking entry is a rank with
  the candidate's whole score), of a risk match and of an off-topic match.
\<close>

datatype decision_state =
  Ranked_State (state_reason: str) (selected_intent_id: "str option") (selected_route_key: "str option")
    (state_margin: "float64 option") (state_thresholds: threshold_state)
    (state_ranking: "(nat \<times> candidate_score) list")
| Risk_State risk_type str
| Off_Topic_State "str list"

record decision_result =
  dr_decision :: decision
  dr_domain :: "str option"
  dr_intent_id :: "str option"
  dr_confidence :: "float64 option"
  dr_margin :: "float64 option"
  dr_route_key :: "str option"
  dr_fallback_policy :: "fallback_policy option"
  dr_clarify_question :: "str option"
  dr_clarify :: "clarify_payload option"
  dr_risk :: "risk_payload option"
  dr_state :: "decision_state option"

record decision_composer =
  dc_threshold_config :: threshold_config
  dc_allowed_intents :: "str list option"
  dc_allowed_route_keys :: "str list option"

definition clarify_message :: str where
  "clarify_message = lit ''Which of these best matches your request?''"

section \<open>The composer\<close>

definition compose_state ::
  "decision_composer \<Rightarrow> candidate_score list \<Rightarrow> candidate_score option \<Rightarrow> float64 option \<Rightarrow> str
    \<Rightarrow> decision_state" where
  "compose_state dc ranked top_candidate margin reason =
     (let c = dc_threshold_config dc in
      Ranked_State reason (map_option cs_intent_id top_candidate) (map_option cs_route_key top_candidate) margin
        \<lparr>ts_preset = tc_preset c, ts_threshold = resolved_threshold c,
         ts_clarify_margin = tc_clarify_margin c,
         ts_min_candidate_score = tc_min_candidate_score c,
         ts_fallback_score = tc_fallback_score c\<rparr>
        (zip [1..<length ranked + 1] ranked))"

definition compose_fallback ::
  "decision_composer \<Rightarrow> candidate_score option \<Rightarrow> float64 option \<Rightarrow> candidate_score list \<Rightarrow> str
    \<Rightarrow> decision_result" where
  "compose_fallback dc top_candidate margin ranked reason =
     \<lparr>dr_decision = Fallback, dr_domain = map_option cs_domain top_candidate, dr_intent_id = None,
      dr_confidence = map_option cs_confidence top_candidate, dr_margin = margin, dr_route_key = None,
      dr_fallback_policy = Some \<lparr>fp_type = lit ''client_fallback'', fp_retryable = Some True,
        fp_recommended_action = Some (lit ''ask_for_rephrase''),
        fp_message = Some (lit ''No confident intent match found.'')\<rparr>,
      dr_clarify_question = None, dr_clarify = None, dr_risk = None,
      dr_state = Some (compose_state dc ranked top_candidate margin reason)\<rparr>"

definition compose_decision ::
  "decision_composer \<Rightarrow> decision \<Rightarrow> candidate_score \<Rightarrow> float64 \<Rightarrow> candidate_score list \<Rightarrow> str
    \<Rightarrow> decision_result" where
  "compose_decision dc d top_candidate margin ranked reason =
     \<lparr>dr_decision = d, dr_domain = Some (cs_domain top_candidate), dr_intent_id = Some (cs_intent_id top_candidate),
      dr_confidence = Some (cs_confidence top_candidate), dr_margin = Some margin,
      dr_route_key = Some (cs_route_key top_candidate), dr_fallback_policy = None,
      dr_clarify_question = None, dr_clarify = None, dr_risk = None,
      dr_state = Some (compose_state dc ranked (Some top_candidate) (Some margin) reason)\<rparr>"

definition clarify_entry :: "candidate_score \<Rightarrow> clarify_candidate" where
  "clarify_entry c = \<lparr>cc_intent_id = cs_intent_id c, cc_display_name = cs_display_name c,
     cc_route_key = cs_route_key c, cc_confidence = cs_confidence c\<rparr>"

definition compose_clarify ::
  "decision_composer \<Rightarrow> str \<Rightarrow> candidate_score \<Rightarrow> float64 \<Rightarrow> candidate_score list
    \<Rightarrow> candidate_score list \<Rightarrow> decision_result" where
  "compose_clarify dc reason top_candidate margin candidates ranked =
     \<lparr>dr_decision = Clarify, dr_domain = Some (cs_domain top_candidate), dr_intent_id = None,
      dr_confidence = Some (cs_confidence top_candidate), dr_margin = Some margin, dr_route_key = None,
      dr_fallback_policy = Some \<lparr>fp_type = lit ''client_fallback'', fp_retryable = Some True,
        fp_recommended_action = Some (lit ''ask_clarifying_question''), fp_message = None\<rparr>,
      dr_clarify_question = Some clarify_message,
      dr_clarify = Some \<lparr>cp_reason = reason, cp_message = clarify_message,
        cp_candidates = map clarify_entry
          (take (tc_max_clarify_candidates (dc_threshold_config dc)) candidates)\<rparr>,
      dr_risk = None,
      dr_state = Some (compose_state dc ranked (Some top_candidate) (Some margin) reason)\<rparr>"

definition compose_unauthorized ::
  "decision_composer \<Rightarrow> candidate_score \<Rightarrow> float64 \<Rightarrow> candidate_score list \<Rightarrow> decision_result" where
  "compose_unauthorized dc top_candidate margin ranked =
     \<lparr>dr_decision = Unauthorized, dr_domain = Some (cs_domain top_candidate), dr_intent_id = None,
      dr_confidence = Some (cs_confidence top_candidate), dr_margin = Some margin, dr_route_key = None,
      dr_fallback_policy = Some \<lparr>fp_type = lit ''client_fallback'', fp_retryable = Some False,
        fp_recommended_action = Some (lit ''deny_route''), fp_message = None\<rparr>,
      dr_clarify_question = None, dr_clarify = None, dr_risk = None,
      dr_state = Some (compose_state dc ranked (Some top_candidate) (Some margin) (lit ''outside_scope''))\<rparr>"

text \<open>
  \<open>_is_authorized\<close>: a scope argument that is \<open>None\<close> falls back to the composer's own, and an
  empty or absent scope allows everything.
\<close>

definition effective_scope :: "str list option \<Rightarrow> str list option \<Rightarrow> str list" where
  "effective_scope own given = (case given of
     Some s \<Rightarrow> s | None \<Rightarrow> (case own of Some s \<Rightarrow> s | None \<Rightarrow> []))"

definition in_scope :: "str list \<Rightarrow> str \<Rightarrow> bool" where
  "in_scope scope x \<longleftrightarrow> scope = [] \<or> x \<in> set scope"

definition is_authorized ::
  "decision_composer \<Rightarrow> candidate_score \<Rightarrow> str list option \<Rightarrow> str list option \<Rightarrow> bool" where
  "is_authorized dc c allowed_intents allowed_route_keys \<longleftrightarrow>
     in_scope (effective_scope (dc_allowed_intents dc) allowed_intents) (cs_intent_id c) \<and>
     in_scope (effective_scope (dc_allowed_route_keys dc) allowed_route_keys) (cs_route_key c)"

definition ranking_margin :: "candidate_score list \<Rightarrow> float64" where
  "ranking_margin ranked = (case ranked of
     [] \<Rightarrow> 0
   | [t] \<Rightarrow> cs_confidence t
   | t # u # _ \<Rightarrow> fsub (cs_confidence t) (cs_confidence u))"

definition viable :: "threshold_config \<Rightarrow> candidate_score list \<Rightarrow> candidate_score list" where
  "viable cfg ranked = filter (\<lambda>c. tc_min_candidate_score cfg \<le> cs_confidence c) ranked"

definition weak_ceiling :: "threshold_config \<Rightarrow> float64" where
  "weak_ceiling cfg =
     min (resolved_threshold cfg) (fadd (tc_min_candidate_score cfg) (tc_clarify_margin cfg))"

definition compose ::
  "decision_composer \<Rightarrow> candidate_score list \<Rightarrow> str list option \<Rightarrow> str list option
    \<Rightarrow> decision_result" where
  "compose dc candidates allowed_intents allowed_route_keys =
     (let ranked = sorted_desc cs_confidence candidates; cfg = dc_threshold_config dc in
      case ranked of
        [] \<Rightarrow> compose_fallback dc None None [] (lit ''no_candidates'')
      | top_candidate # _ \<Rightarrow>
        (let margin = ranking_margin ranked; conf = cs_confidence top_candidate; vs = viable cfg ranked in
         if conf < tc_fallback_score cfg then
           compose_fallback dc (Some top_candidate) (Some margin) ranked (lit ''below_fallback_floor'')
         else if \<not> is_authorized dc top_candidate allowed_intents allowed_route_keys then
           compose_unauthorized dc top_candidate margin ranked
         else if resolved_threshold cfg \<le> conf \<and> tc_clarify_margin cfg \<le> margin then
           compose_decision dc Confident top_candidate margin ranked (lit ''threshold_met'')
         else if conf < weak_ceiling cfg \<and> cs_include_keyword_match_count top_candidate = 0 then
           compose_fallback dc (Some top_candidate) (Some margin) ranked (lit ''outside_catalog_scope'')
         else if 2 \<le> length vs \<and> margin < tc_clarify_margin cfg then
           compose_clarify dc (lit ''top_candidates_close'') top_candidate margin vs ranked
         else if tc_min_candidate_score cfg \<le> conf \<and> conf < resolved_threshold cfg then
           compose_clarify dc (lit ''below_threshold'') top_candidate margin (if vs = [] then [top_candidate] else vs) ranked
         else compose_fallback dc (Some top_candidate) (Some margin) ranked (lit ''no_viable_candidates'')))"

lemmas compose_results = compose_fallback_def compose_decision_def compose_clarify_def
  compose_unauthorized_def compose_state_def

text \<open>What each kind of result discloses.\<close>

lemma compose_fields [simp]:
  "dr_decision (compose_fallback dc tc m ranked reason) = Fallback"
  "dr_intent_id (compose_fallback dc tc m ranked reason) = None"
  "dr_route_key (compose_fallback dc tc m ranked reason) = None"
  "dr_clarify (compose_fallback dc tc m ranked reason) = None"
  "dr_risk (compose_fallback dc tc m ranked reason) = None"
  "dr_decision (compose_decision dc d t m' ranked reason) = d"
  "dr_intent_id (compose_decision dc d t m' ranked reason) = Some (cs_intent_id t)"
  "dr_route_key (compose_decision dc d t m' ranked reason) = Some (cs_route_key t)"
  "dr_clarify (compose_decision dc d t m' ranked reason) = None"
  "dr_risk (compose_decision dc d t m' ranked reason) = None"
  "dr_decision (compose_clarify dc reason t m' vs ranked) = Clarify"
  "dr_intent_id (compose_clarify dc reason t m' vs ranked) = None"
  "dr_route_key (compose_clarify dc reason t m' vs ranked) = None"
  "dr_risk (compose_clarify dc reason t m' vs ranked) = None"
  "dr_decision (compose_unauthorized dc t m' ranked) = Unauthorized"
  "dr_intent_id (compose_unauthorized dc t m' ranked) = None"
  "dr_route_key (compose_unauthorized dc t m' ranked) = None"
  "dr_clarify (compose_unauthorized dc t m' ranked) = None"
  "dr_risk (compose_unauthorized dc t m' ranked) = None"
  by (simp_all add: compose_results)

lemma compose_clarify_payload [simp]:
  "dr_clarify (compose_clarify dc reason t m vs ranked) =
    Some \<lparr>cp_reason = reason, cp_message = clarify_message,
      cp_candidates = map clarify_entry (take (tc_max_clarify_candidates (dc_threshold_config dc)) vs)\<rparr>"
  by (simp add: compose_results)

lemma compose_reason [simp]:
  "map_option state_reason (dr_state (compose_fallback dc tc m ranked reason)) = Some reason"
  "map_option state_reason (dr_state (compose_decision dc d t m' ranked reason)) = Some reason"
  "map_option state_reason (dr_state (compose_clarify dc reason t m' vs ranked)) = Some reason"
  by (simp_all add: compose_results Let_def)

lemma viable_sorted:
  "sorted_wrt (\<lambda>x y. cs_confidence y \<le> cs_confidence x) (viable cfg (sorted_desc cs_confidence cs))"
  unfolding viable_def by (rule sorted_wrt_filter) (rule sorted_desc_sorted)

lemma viable_set: "set (viable cfg ranked) = {c \<in> set ranked. tc_min_candidate_score cfg \<le> cs_confidence c}"
  by (auto simp: viable_def)

lemma viable_two:
  assumes "sorted_desc cs_confidence cs = t # u # rest" and "\<not> 2 \<le> length (viable cfg (t # u # rest))"
    and "tc_min_candidate_score cfg \<le> cs_confidence t"
  shows "cs_confidence u < tc_min_candidate_score cfg"
proof (rule ccontr)
  assume "\<not> cs_confidence u < tc_min_candidate_score cfg"
  with assms(2,3) show False by (simp add: viable_def)
qed

section \<open>What a decision promises\<close>

text \<open>
  The candidate a decision is about: the first of the highest confidence, in the order the
  candidates were given.
\<close>

definition winner :: "candidate_score list \<Rightarrow> candidate_score option" where
  "winner candidates = (case sorted_desc cs_confidence candidates of [] \<Rightarrow> None | t # _ \<Rightarrow> Some t)"

lemma winner_in: "winner cs = Some t \<Longrightarrow> t \<in> set cs"
  by (auto simp: winner_def split: list.splits) (metis list.set_intros(1) set_sorted_desc)

lemma winner_max: "winner cs = Some t \<Longrightarrow> c \<in> set cs \<Longrightarrow> cs_confidence c \<le> cs_confidence t"
  by (auto simp: winner_def dest: sorted_desc_head_max split: list.splits)

lemma ranking_margin_others:
  assumes "sorted_desc cs_confidence cs = t # rest" and "c \<in> set rest"
  shows "ranking_margin (t # rest) \<le> fsub (cs_confidence t) (cs_confidence c)"
proof (cases rest)
  case Nil
  with assms show ?thesis by simp
next
  case (Cons u us)
  have "sorted_wrt (\<lambda>x y. cs_confidence y \<le> cs_confidence x) (t # u # us)"
    using sorted_desc_sorted [of cs_confidence cs] assms(1) Cons by simp
  then have "cs_confidence c \<le> cs_confidence u"
    using assms(2) Cons by auto
  then show ?thesis
    unfolding Cons ranking_margin_def by (simp add: fsub_def fl_mono)
qed

lemma compose_Nil: "compose dc [] ai ar = compose_fallback dc None None [] (lit ''no_candidates'')"
  by (simp add: compose_def)

lemma compose_cases:
  fixes dc :: decision_composer and cs rest :: "candidate_score list" and ai ar :: "str list option"
  assumes "sorted_desc cs_confidence cs = t # rest"
  defines "cfg \<equiv> dc_threshold_config dc" and "m \<equiv> ranking_margin (t # rest)"
  obtains
    (floor) "cs_confidence t < tc_fallback_score cfg"
      "compose dc cs ai ar = compose_fallback dc (Some t) (Some m) (t # rest) (lit ''below_fallback_floor'')"
  | (denied) "tc_fallback_score cfg \<le> cs_confidence t" "\<not> is_authorized dc t ai ar"
      "compose dc cs ai ar = compose_unauthorized dc t m (t # rest)"
  | (confident) "tc_fallback_score cfg \<le> cs_confidence t" "is_authorized dc t ai ar"
      "resolved_threshold cfg \<le> cs_confidence t" "tc_clarify_margin cfg \<le> m"
      "compose dc cs ai ar = compose_decision dc Confident t m (t # rest) (lit ''threshold_met'')"
  | (weak) "tc_fallback_score cfg \<le> cs_confidence t" "is_authorized dc t ai ar"
      "cs_confidence t < weak_ceiling cfg" "cs_include_keyword_match_count t = 0"
      "compose dc cs ai ar = compose_fallback dc (Some t) (Some m) (t # rest) (lit ''outside_catalog_scope'')"
  | (close) "tc_fallback_score cfg \<le> cs_confidence t" "is_authorized dc t ai ar"
      "2 \<le> length (viable cfg (t # rest))" "m < tc_clarify_margin cfg"
      "compose dc cs ai ar =
         compose_clarify dc (lit ''top_candidates_close'') t m (viable cfg (t # rest)) (t # rest)"
  | (below) "tc_fallback_score cfg \<le> cs_confidence t" "is_authorized dc t ai ar"
      "tc_min_candidate_score cfg \<le> cs_confidence t" "cs_confidence t < resolved_threshold cfg"
      "\<not> (2 \<le> length (viable cfg (t # rest)) \<and> m < tc_clarify_margin cfg)"
      "compose dc cs ai ar =
         compose_clarify dc (lit ''below_threshold'') t m (viable cfg (t # rest)) (t # rest)"
  | (stuck) "tc_fallback_score cfg \<le> cs_confidence t" "is_authorized dc t ai ar"
      "\<not> (resolved_threshold cfg \<le> cs_confidence t \<and> tc_clarify_margin cfg \<le> m)"
      "\<not> (2 \<le> length (viable cfg (t # rest)) \<and> m < tc_clarify_margin cfg)"
      "\<not> (tc_min_candidate_score cfg \<le> cs_confidence t \<and> cs_confidence t < resolved_threshold cfg)"
      "\<not> (cs_confidence t < weak_ceiling cfg \<and> cs_include_keyword_match_count t = 0)"
      "compose dc cs ai ar = compose_fallback dc (Some t) (Some m) (t # rest) (lit ''no_viable_candidates'')"
proof -
  have vs: "viable cfg (t # rest) \<noteq> []" if "tc_min_candidate_score cfg \<le> cs_confidence t"
    using that by (simp add: viable_def)
  have eq: "compose dc cs ai ar =
      (if cs_confidence t < tc_fallback_score cfg then
         compose_fallback dc (Some t) (Some m) (t # rest) (lit ''below_fallback_floor'')
       else if \<not> is_authorized dc t ai ar then compose_unauthorized dc t m (t # rest)
       else if resolved_threshold cfg \<le> cs_confidence t \<and> tc_clarify_margin cfg \<le> m then
         compose_decision dc Confident t m (t # rest) (lit ''threshold_met'')
       else if cs_confidence t < weak_ceiling cfg \<and> cs_include_keyword_match_count t = 0 then
         compose_fallback dc (Some t) (Some m) (t # rest) (lit ''outside_catalog_scope'')
       else if 2 \<le> length (viable cfg (t # rest)) \<and> m < tc_clarify_margin cfg then
         compose_clarify dc (lit ''top_candidates_close'') t m (viable cfg (t # rest)) (t # rest)
       else if tc_min_candidate_score cfg \<le> cs_confidence t \<and> cs_confidence t < resolved_threshold cfg then
         compose_clarify dc (lit ''below_threshold'') t m
           (if viable cfg (t # rest) = [] then [t] else viable cfg (t # rest)) (t # rest)
       else compose_fallback dc (Some t) (Some m) (t # rest) (lit ''no_viable_candidates''))"
    unfolding compose_def Let_def assms(1) cfg_def m_def by simp
  show thesis
  proof (cases "cs_confidence t < tc_fallback_score cfg")
    case True
    with eq floor show ?thesis by simp
  next
    case f: False
    show ?thesis
    proof (cases "is_authorized dc t ai ar")
      case False
      with f eq denied show ?thesis by simp
    next
      case a: True
      consider "resolved_threshold cfg \<le> cs_confidence t \<and> tc_clarify_margin cfg \<le> m"
        | "\<not> (resolved_threshold cfg \<le> cs_confidence t \<and> tc_clarify_margin cfg \<le> m)"
          "cs_confidence t < weak_ceiling cfg \<and> cs_include_keyword_match_count t = 0"
        | "\<not> (resolved_threshold cfg \<le> cs_confidence t \<and> tc_clarify_margin cfg \<le> m)"
          "\<not> (cs_confidence t < weak_ceiling cfg \<and> cs_include_keyword_match_count t = 0)"
        by blast
      then show ?thesis
      proof cases
        case 1
        with f a eq confident show ?thesis by simp
      next
        case 2
        with f a eq weak show ?thesis by (simp only: if_False if_True not_less) simp
      next
        case 3
        have eq3: "compose dc cs ai ar =
          (if 2 \<le> length (viable cfg (t # rest)) \<and> m < tc_clarify_margin cfg then
             compose_clarify dc (lit ''top_candidates_close'') t m (viable cfg (t # rest)) (t # rest)
           else if tc_min_candidate_score cfg \<le> cs_confidence t \<and> cs_confidence t < resolved_threshold cfg then
             compose_clarify dc (lit ''below_threshold'') t m
               (if viable cfg (t # rest) = [] then [t] else viable cfg (t # rest)) (t # rest)
           else compose_fallback dc (Some t) (Some m) (t # rest) (lit ''no_viable_candidates''))"
          unfolding eq using f a 3 by (simp only: if_False if_True not_True_eq_False)
        from f a 3 eq3 vs close below stuck show ?thesis
          by (simp only: not_less split: if_splits) auto
      qed
    qed
  qed
qed

lemma not_Nil_ranked: "cs \<noteq> [] \<Longrightarrow> \<exists>t rest. sorted_desc cs_confidence cs = t # rest"
  by (metis neq_Nil_conv sorted_desc_eq_Nil)

lemma winner_ranked: "winner cs = Some t \<longleftrightarrow> (\<exists>rest. sorted_desc cs_confidence cs = t # rest)"
  by (auto simp: winner_def split: list.splits)

lemma ranked_others: "sorted_desc cs_confidence cs = t # rest \<Longrightarrow> mset rest = mset (remove1 t cs)"
  using mset_sorted_desc [of cs_confidence cs] by (simp add: union_single_eq_diff)

lemma ranking_margin_ge:
  assumes "sorted_desc cs_confidence cs = t # rest"
  shows "d \<le> ranking_margin (t # rest) \<longleftrightarrow>
    (if rest = [] then d \<le> cs_confidence t
     else \<forall>c \<in> set rest. d \<le> fsub (cs_confidence t) (cs_confidence c))"
    (is "?l \<longleftrightarrow> ?r")
proof (cases rest)
  case Nil
  then show ?thesis by (simp add: ranking_margin_def)
next
  case (Cons u us)
  show ?thesis
  proof
    assume ?l
    have "d \<le> fsub (cs_confidence t) (cs_confidence c)" if "c \<in> set rest" for c
      using \<open>?l\<close> ranking_margin_others [OF assms that] by (rule order_trans)
    with Cons show ?r by simp
  next
    assume ?r
    with Cons have "d \<le> fsub (cs_confidence t) (cs_confidence u)" by simp
    with Cons show ?l by (simp add: ranking_margin_def)
  qed
qed

lemma weak_ceiling_below: "c < weak_ceiling cfg \<Longrightarrow> c < resolved_threshold cfg"
  by (simp add: weak_ceiling_def)

text \<open>
  C27: The composer is confident exactly when the candidate of the highest confidence (the first of
  them, in the given order) reaches the fallback floor and the resolved threshold, lies inside the
  caller's scope, and beats every other candidate by the clarification margin (alone, its own
  confidence must reach the margin).
\<close>

theorem compose_confident:
  "dr_decision (compose dc cs ai ar) = Confident \<longleftrightarrow>
    (\<exists>t. winner cs = Some t \<and> is_authorized dc t ai ar
      \<and> tc_fallback_score (dc_threshold_config dc) \<le> cs_confidence t
      \<and> resolved_threshold (dc_threshold_config dc) \<le> cs_confidence t
      \<and> (if remove1 t cs = [] then tc_clarify_margin (dc_threshold_config dc) \<le> cs_confidence t
         else \<forall>c \<in> set (remove1 t cs).
           tc_clarify_margin (dc_threshold_config dc) \<le> fsub (cs_confidence t) (cs_confidence c)))"
proof (cases "winner cs")
  case None
  then have "cs = []" by (simp add: winner_def split: list.splits)
  with None show ?thesis by (simp add: compose_Nil compose_results)
next
  case (Some t)
  then obtain rest where r: "sorted_desc cs_confidence cs = t # rest"
    using winner_ranked by blast
  note others = ranked_others [OF r]
  have others_set: "set rest = set (remove1 t cs)" "rest = [] \<longleftrightarrow> remove1 t cs = []"
    using others by (metis set_mset_mset) (metis others mset_zero_iff)
  have margin: "tc_clarify_margin (dc_threshold_config dc) \<le> ranking_margin (t # rest) \<longleftrightarrow>
      (if remove1 t cs = [] then tc_clarify_margin (dc_threshold_config dc) \<le> cs_confidence t
       else \<forall>c \<in> set (remove1 t cs).
         tc_clarify_margin (dc_threshold_config dc) \<le> fsub (cs_confidence t) (cs_confidence c))"
    unfolding ranking_margin_ge [OF r] others_set ..
  show ?thesis
    unfolding Some option.inject ex_simps simp_thms margin [symmetric]
    by (rule compose_cases [OF r, of dc ai ar]) (auto simp: not_le dest: weak_ceiling_below)
qed

text \<open>Concrete candidates and settings at which the properties are applied.\<close>

definition sample_score :: "str \<Rightarrow> float64 \<Rightarrow> nat \<Rightarrow> candidate_score" where
  "sample_score i conf k = \<lparr>cs_intent_id = i, cs_display_name = i, cs_domain = lit ''d'',
     cs_route_key = i, cs_confidence = conf, cs_positive_score = conf, cs_negative_score = 0,
     cs_include_keyword_match_count = k, cs_exclude_keyword_match_count = 0, cs_keyword_boost = 0,
     cs_keyword_penalty = 0, cs_negative_penalty = 0\<rparr>"

definition sample_composer :: "float64 \<Rightarrow> decision_composer" where
  "sample_composer threshold = \<lparr>dc_threshold_config = \<lparr>tc_preset = Custom, tc_threshold = Some threshold,
     tc_clarify_margin = clarify_margin_default, tc_min_candidate_score = min_candidate_score_default,
     tc_fallback_score = fallback_score_default,
     tc_max_clarify_candidates = max_clarify_candidates_default\<rparr>,
     dc_allowed_intents = None, dc_allowed_route_keys = None\<rparr>"

lemma sample_fields [simp]:
  "cs_confidence (sample_score i conf k) = conf"
  "cs_intent_id (sample_score i conf k) = i"
  "cs_route_key (sample_score i conf k) = i"
  "cs_include_keyword_match_count (sample_score i conf k) = k"
  "clarify_entry (sample_score i conf k) = \<lparr>cc_intent_id = i, cc_display_name = i, cc_route_key = i,
     cc_confidence = conf\<rparr>"
  "dc_allowed_intents (sample_composer th) = None"
  "dc_allowed_route_keys (sample_composer th) = None"
  "resolved_threshold (dc_threshold_config (sample_composer th)) = th"
  "tc_clarify_margin (dc_threshold_config (sample_composer th)) = decimal 8 2"
  "tc_min_candidate_score (dc_threshold_config (sample_composer th)) = decimal 55 2"
  "tc_fallback_score (dc_threshold_config (sample_composer th)) = decimal 45 2"
  "tc_max_clarify_candidates (dc_threshold_config (sample_composer th)) = 3"
  by (simp_all add: sample_score_def sample_composer_def clarify_entry_def resolved_threshold_def
    clarify_margin_default_def min_candidate_score_default_def fallback_score_default_def
    max_clarify_candidates_default_def)

lemmas sample_simps = winner_def sorted_desc_def sort_key_def is_authorized_def effective_scope_def
  in_scope_def ranking_margin_def weak_ceiling_def viable_def compose_def Let_def

text \<open>The few float comparisons the samples need, evaluated once.\<close>

lemma sample_floats:
  "decimal 45 2 < decimal 95 2"
  "decimal 45 2 < decimal 72 2"
  "decimal 45 2 < decimal 60 2"
  "decimal 55 2 < decimal 70 2"
  "decimal 55 2 < decimal 72 2"
  "decimal 55 2 < decimal 60 2"
  "decimal 54 2 < decimal 55 2"
  "decimal 54 2 < decimal 60 2"
  "decimal 58 2 < decimal 60 2"
  "decimal 72 2 < decimal 80 2"
  "decimal 70 2 < decimal 95 2"
  "decimal 70 2 < decimal 72 2"
  "decimal 80 2 < decimal 95 2"
  "fsub (decimal 72 2) (decimal 70 2) < decimal 8 2"
  "fsub (decimal 60 2) (decimal 54 2) < decimal 8 2"
  "decimal 8 2 < fsub (decimal 95 2) (decimal 70 2)"
  by code_simp+

lemma less_forms: "a < b \<Longrightarrow> a < b \<and> a \<le> b \<and> \<not> b < a \<and> \<not> b \<le> a \<and> a \<noteq> b" for a b :: rat
  by auto

lemmas sample_order [simp] = sample_floats [THEN less_forms]

definition sample_close :: "candidate_score list" where
  "sample_close = [sample_score (lit ''a'') (decimal 70 2) 1, sample_score (lit ''b'') (decimal 95 2) 1]"

theorem compose_confident_witness:
  "dr_decision (compose (sample_composer (decimal 80 2)) sample_close None (Some [lit ''b''])) = Confident"
  unfolding compose_confident
  by (rule exI [of _ "sample_score (lit ''b'') (decimal 95 2) 1"])
    (simp add: sample_close_def sample_simps)

text \<open>The consequences the callers of the composer use.\<close>

lemma compose_confidentD:
  assumes "dr_decision (compose dc cs ai ar) = Confident"
  shows "\<exists>t. winner cs = Some t \<and> is_authorized dc t ai ar
    \<and> resolved_threshold (dc_threshold_config dc) \<le> cs_confidence t
    \<and> (\<forall>c \<in> set (remove1 t cs).
        tc_clarify_margin (dc_threshold_config dc) \<le> fsub (cs_confidence t) (cs_confidence c))"
proof -
  have "cs \<noteq> []"
    using assms by (auto simp: compose_Nil)
  then obtain t rest where r: "sorted_desc cs_confidence cs = t # rest"
    using not_Nil_ranked by blast
  have others: "set (remove1 t cs) = set rest"
    using ranked_others [OF r] by (metis set_mset_mset)
  have "winner cs = Some t"
    using r by (simp add: winner_def)
  from r show ?thesis
  proof (rule compose_cases [of cs t rest dc ai ar])
    assume "is_authorized dc t ai ar" "resolved_threshold (dc_threshold_config dc) \<le> cs_confidence t"
      and m: "tc_clarify_margin (dc_threshold_config dc) \<le> ranking_margin (t # rest)"
    moreover have "tc_clarify_margin (dc_threshold_config dc) \<le> fsub (cs_confidence t) (cs_confidence c)"
      if "c \<in> set (remove1 t cs)" for c
      using m ranking_margin_others [OF r] that others by (blast intro: order_trans)
    ultimately show ?thesis
      using \<open>winner cs = Some t\<close> by blast
  qed (use assms in auto)
qed

lemma compose_single_confident:
  assumes "is_authorized dc t ai ar" and "tc_fallback_score (dc_threshold_config dc) \<le> cs_confidence t"
    and "resolved_threshold (dc_threshold_config dc) \<le> cs_confidence t"
    and "tc_clarify_margin (dc_threshold_config dc) \<le> cs_confidence t"
  shows "dr_decision (compose dc [t] ai ar) = Confident"
  using assms by (simp add: compose_def sorted_desc_def Let_def ranking_margin_def compose_decision_def)

lemma compose_confident_fields:
  assumes "winner cs = Some t" and "dr_decision (compose dc cs ai ar) = Confident"
  shows "dr_intent_id (compose dc cs ai ar) = Some (cs_intent_id t)"
    and "dr_route_key (compose dc cs ai ar) = Some (cs_route_key t)"
    and "dr_confidence (compose dc cs ai ar) = Some (cs_confidence t)"
proof -
  obtain rest where r: "sorted_desc cs_confidence cs = t # rest"
    using assms(1) winner_ranked by blast
  have "\<exists>m. compose dc cs ai ar = compose_decision dc Confident t m (t # rest) (lit ''threshold_met'')"
    using r assms(2) by (elim compose_cases [of cs t rest dc ai ar]) auto
  then show "dr_intent_id (compose dc cs ai ar) = Some (cs_intent_id t)"
    and "dr_route_key (compose dc cs ai ar) = Some (cs_route_key t)"
    and "dr_confidence (compose dc cs ai ar) = Some (cs_confidence t)"
    by (auto simp: compose_decision_def)
qed

lemma compose_kinds: "dr_decision (compose dc cs ai ar) \<in> {Confident, Clarify, Fallback, Unauthorized}"
proof (cases "cs = []")
  case True
  then show ?thesis by (simp add: compose_Nil)
next
  case False
  then obtain t rest where "sorted_desc cs_confidence cs = t # rest"
    using not_Nil_ranked by blast
  then show ?thesis by (rule compose_cases [of cs t rest dc ai ar]) auto
qed

text \<open>
  Only a confident decision names an intent and a route key, and it names those of the winner;
  only a clarification carries a payload, and the composer never emits a risk payload. It denies
  exactly when the winner reaches the fallback floor but lies outside the caller's scope, whatever
  the confidence and the margin are.
\<close>

theorem compose_discloses:
  "(dr_intent_id (compose dc cs ai ar), dr_route_key (compose dc cs ai ar)) =
     (if dr_decision (compose dc cs ai ar) = Confident
      then (map_option cs_intent_id (winner cs), map_option cs_route_key (winner cs)) else (None, None))
   \<and> (dr_clarify (compose dc cs ai ar) = None \<longleftrightarrow> dr_decision (compose dc cs ai ar) \<noteq> Clarify)
   \<and> dr_risk (compose dc cs ai ar) = None
   \<and> dr_decision (compose dc cs ai ar) \<in> {Confident, Clarify, Fallback, Unauthorized}
   \<and> (dr_decision (compose dc cs ai ar) = Unauthorized \<longleftrightarrow>
        (\<exists>t. winner cs = Some t \<and> tc_fallback_score (dc_threshold_config dc) \<le> cs_confidence t
          \<and> \<not> is_authorized dc t ai ar))"
proof (cases "winner cs")
  case None
  then have "cs = []" by (simp add: winner_def split: list.splits)
  with None show ?thesis by (simp add: compose_Nil)
next
  case (Some t)
  then obtain rest where r: "sorted_desc cs_confidence cs = t # rest"
    using winner_ranked by blast
  show ?thesis
    unfolding Some option.inject ex_simps simp_thms option.map
    by (rule compose_cases [OF r, of dc ai ar]) (auto simp: not_le)
qed

text \<open>
  A clarification lists the candidates that reach the minimum score, best first, cut to the
  configured number; the list is independent of the caller's scope, starts with the winner and, when
  the reason is that the top candidates are close, has at least two entries to choose from.
\<close>

theorem compose_clarify_payload_contents:
  assumes "dr_clarify (compose dc cs ai ar) = Some p"
    and "2 \<le> tc_max_clarify_candidates (dc_threshold_config dc)"
  shows "cp_candidates p = take (tc_max_clarify_candidates (dc_threshold_config dc))
      (map clarify_entry (filter (\<lambda>c. tc_min_candidate_score (dc_threshold_config dc) \<le> cs_confidence c)
        (sorted_desc cs_confidence cs)))
    \<and> (\<exists>t. winner cs = Some t \<and> hd (cp_candidates p) = clarify_entry t)
    \<and> cp_candidates p \<noteq> []
    \<and> sorted_wrt (\<lambda>x y. cc_confidence y \<le> cc_confidence x) (cp_candidates p)
    \<and> (cp_reason p = lit ''top_candidates_close'' \<longrightarrow> 2 \<le> length (cp_candidates p))"
proof -
  let ?cfg = "dc_threshold_config dc"
  let ?k = "tc_max_clarify_candidates ?cfg"
  have "cs \<noteq> []"
    using assms(1) by (auto simp: compose_Nil)
  then obtain t rest where r: "sorted_desc cs_confidence cs = t # rest"
    using not_Nil_ranked by blast
  have head: "viable ?cfg (t # rest) = t # viable ?cfg rest" if nonempty: "viable ?cfg (t # rest) \<noteq> []"
  proof -
    obtain c where "c \<in> set (viable ?cfg (t # rest))"
      using nonempty by (meson last_in_set)
    then have c: "c \<in> set (t # rest)" "tc_min_candidate_score ?cfg \<le> cs_confidence c"
      by (simp_all add: viable_set)
    have "cs_confidence c \<le> cs_confidence t"
      using sorted_desc_head_max [OF r] c(1) r by (metis set_sorted_desc)
    with c(2) show ?thesis by (simp add: viable_def)
  qed
  have "sorted_wrt (\<lambda>x y. cs_confidence y \<le> cs_confidence x) (take ?k (viable ?cfg (t # rest)))"
    using viable_sorted [of ?cfg cs] r by (simp add: sorted_wrt_take)
  then have sorted: "sorted_wrt (\<lambda>x y. cc_confidence y \<le> cc_confidence x)
      (map clarify_entry (take ?k (viable ?cfg (t # rest))))"
    by (simp add: sorted_wrt_map clarify_entry_def)
  have w: "viable ?cfg (t # rest) \<noteq> []" if "tc_min_candidate_score ?cfg \<le> cs_confidence t"
    using that by (simp add: viable_def)
  have payload: "viable ?cfg (t # rest) \<noteq> []
      \<and> cp_candidates p = map clarify_entry (take ?k (viable ?cfg (t # rest)))
      \<and> (cp_reason p = lit ''top_candidates_close'' \<longrightarrow> 2 \<le> length (viable ?cfg (t # rest)))"
    using r
  proof (rule compose_cases [of cs t rest dc ai ar])
    assume "2 \<le> length (viable ?cfg (t # rest))"
      and "compose dc cs ai ar = compose_clarify dc (lit ''top_candidates_close'') t
        (ranking_margin (t # rest)) (viable ?cfg (t # rest)) (t # rest)"
    with assms(1) show ?thesis by auto
  qed (use assms(1) w in \<open>auto simp: lit_def\<close>)
  have nonempty: "take ?k (viable ?cfg (t # rest)) = t # take (?k - 1) (viable ?cfg rest)"
    using head payload assms(2) by (cases ?k) auto
  have "cp_candidates p \<noteq> []" "hd (cp_candidates p) = clarify_entry t"
    using payload nonempty by simp_all
  moreover have "winner cs = Some t"
    using r by (simp add: winner_def)
  moreover have "cp_reason p = lit ''top_candidates_close'' \<longrightarrow> 2 \<le> length (cp_candidates p)"
    using payload assms(2) by simp
  moreover have "cp_candidates p = take ?k (map clarify_entry
      (filter (\<lambda>c. tc_min_candidate_score ?cfg \<le> cs_confidence c) (sorted_desc cs_confidence cs)))"
    using payload unfolding r viable_def take_map by blast
  ultimately show ?thesis
    using sorted payload by simp
qed

definition sample_tie :: "candidate_score list" where
  "sample_tie = [sample_score (lit ''a'') (decimal 70 2) 1, sample_score (lit ''b'') (decimal 72 2) 1]"

text \<open>At this point the caller may only use intent b; the clarification also names a.\<close>

lemma sample_tie_ranked: "sorted_desc cs_confidence sample_tie = rev sample_tie"
  by (simp add: sample_tie_def sorted_desc_def sort_key_def)

lemma sample_tie_winner: "winner sample_tie = Some (sample_score (lit ''b'') (decimal 72 2) 1)"
  by (simp add: winner_def sample_tie_ranked) (simp add: sample_tie_def)

lemma sample_tie_clarify:
  "dr_clarify (compose (sample_composer (decimal 80 2)) sample_tie (Some [lit ''b'']) None) =
    Some \<lparr>cp_reason = lit ''top_candidates_close'', cp_message = clarify_message,
      cp_candidates = map clarify_entry (rev sample_tie)\<rparr>"
proof -
  have "sorted_desc cs_confidence sample_tie = sample_score (lit ''b'') (decimal 72 2) 1 # [hd sample_tie]"
    by (simp add: sample_tie_ranked) (simp add: sample_tie_def)
  then show ?thesis
    by (rule compose_cases [of _ _ _ "sample_composer (decimal 80 2)" "Some [lit ''b'']" None])
      (simp_all add: sample_tie_def sample_simps(4-9))
qed

theorem compose_clarify_payload_contents_witness:
  "\<exists>p. dr_clarify (compose (sample_composer (decimal 80 2)) sample_tie (Some [lit ''b'']) None) = Some p
    \<and> map cc_intent_id (cp_candidates p) = [lit ''b'', lit ''a'']
    \<and> (\<exists>t. winner sample_tie = Some t \<and> hd (cp_candidates p) = clarify_entry t)"
proof -
  have "2 \<le> tc_max_clarify_candidates (dc_threshold_config (sample_composer (decimal 80 2)))"
    by simp
  note contents = compose_clarify_payload_contents [OF sample_tie_clarify this]
  have names: "map cc_intent_id (map clarify_entry (rev sample_tie)) = [lit ''b'', lit ''a'']"
    by (simp add: sample_tie_def)
  show ?thesis
  proof (intro exI conjI)
    show "dr_clarify (compose (sample_composer (decimal 80 2)) sample_tie (Some [lit ''b'']) None) =
        Some \<lparr>cp_reason = lit ''top_candidates_close'', cp_message = clarify_message,
          cp_candidates = map clarify_entry (rev sample_tie)\<rparr>"
      by (rule sample_tie_clarify)
  qed (use contents names in \<open>simp_all only: clarify_payload.simps sample_tie_winner\<close>, use contents sample_tie_winner in auto)
qed

text \<open>
  C36: When no two candidates have the same confidence, the decision does not depend on the order in
  which the candidates are given.
\<close>

theorem compose_order_independent:
  assumes "mset cs = mset cs'" and "distinct (map cs_confidence cs)"
  shows "compose dc cs ai ar = compose dc cs' ai ar"
proof -
  have "inj_on (\<lambda>c. - cs_confidence c) (set cs)"
    using assms(2) by (auto simp: distinct_map inj_on_def)
  then have "sorted_desc cs_confidence cs = sorted_desc cs_confidence cs'"
    unfolding sorted_desc_def using assms(1) by (intro sort_key_inj_key_eq) auto
  then show ?thesis by (simp add: compose_def)
qed

theorem compose_order_independent_witness:
  "compose (sample_composer 1) sample_tie None None = compose (sample_composer 1) (rev sample_tie) None None"
  by (rule compose_order_independent) (simp_all add: sample_tie_def)

text \<open>
  An authorized winner that reaches both the fallback floor and the threshold but beats the
  second candidate by less than the margin is not offered for clarification when it is the only
  candidate of the minimum score: the caller gets a fallback instead.
\<close>

theorem compose_close_runner_up_hidden:
  assumes "sorted_desc cs_confidence cs = t # u # rest"
    and "is_authorized dc t ai ar"
    and "tc_fallback_score (dc_threshold_config dc) \<le> cs_confidence t"
    and "resolved_threshold (dc_threshold_config dc) \<le> cs_confidence t"
    and "fsub (cs_confidence t) (cs_confidence u) < tc_clarify_margin (dc_threshold_config dc)"
    and "cs_confidence u < tc_min_candidate_score (dc_threshold_config dc)"
  shows "dr_decision (compose dc cs ai ar) = Fallback
    \<and> map_option state_reason (dr_state (compose dc cs ai ar)) = Some (lit ''no_viable_candidates'')"
proof -
  have "cs_confidence c < tc_min_candidate_score (dc_threshold_config dc)" if "c \<in> set (u # rest)" for c
    using that assms(1,6) sorted_desc_sorted [of cs_confidence cs] by (auto intro: le_less_trans)
  then have "viable (dc_threshold_config dc) (u # rest) = []"
    by (auto simp: viable_def filter_empty_conv simp flip: not_less)
  then have "length (viable (dc_threshold_config dc) (t # u # rest)) \<le> 1"
    by (simp add: viable_def)
  moreover have "ranking_margin (t # u # rest) = fsub (cs_confidence t) (cs_confidence u)"
    by (simp add: ranking_margin_def)
  ultimately show ?thesis
    using assms(2-5) weak_ceiling_below [of "cs_confidence t" "dc_threshold_config dc"]
    by (rule_tac compose_cases [OF assms(1), of dc ai ar]) auto
qed

definition sample_hidden :: "candidate_score list" where
  "sample_hidden = [sample_score (lit ''a'') (decimal 60 2) 1, sample_score (lit ''b'') (decimal 54 2) 1]"

theorem compose_close_runner_up_hidden_witness:
  "dr_decision (compose (sample_composer (decimal 58 2)) sample_hidden None None) = Fallback"
proof -
  let ?dc = "sample_composer (decimal 58 2)"
  have "dr_decision (compose ?dc sample_hidden None None) = Fallback
      \<and> map_option state_reason (dr_state (compose ?dc sample_hidden None None)) = Some (lit ''no_viable_candidates'')"
  proof (rule compose_close_runner_up_hidden)
    show "sorted_desc cs_confidence sample_hidden =
        [sample_score (lit ''a'') (decimal 60 2) 1, sample_score (lit ''b'') (decimal 54 2) 1]"
      by (simp add: sample_hidden_def sample_simps)
  qed (simp_all add: sample_hidden_def sample_simps)
  then show ?thesis ..
qed

end
