(* ===== verification/Policy.thy ===== *)
theory Policy
  imports Domain_Schemas
begin

text \<open>
  \<open>src/intent_routing/policy\<close>: the global risk policy (a fixed keyword table per risk type,
  searched in the order of the enumeration) and the off-topic policy of a service. Keywords that are
  not ASCII (they are Korean) are written as their code points.
\<close>

section \<open>Risk policy\<close>

record risk_evaluation =
  re_matched :: bool
  re_risk_type :: "risk_type option"
  re_action :: "str option"
  re_message :: "str option"

definition no_risk :: risk_evaluation where
  "no_risk = \<lparr>re_matched = False, re_risk_type = None, re_action = None, re_message = None\<rparr>"

record risk_policy =
  rpol_enabled :: bool

fun risk_patterns :: "risk_type \<Rightarrow> str list" where
  "risk_patterns Abuse = [
     [47693, 52397], [48148, 48372], [50837, 49444], [48708, 48169], [54801, 48149],
     [51453, 50668]]"
| "risk_patterns Dangerous_Command = [
     lit ''rm -rf'', lit ''drop table'', lit ''delete from'', lit ''truncate'',
     lit ''shutdown'', lit ''format'', [54028, 51068, 32, 49325, 51228]]"
| "risk_patterns Sensitive_Data = [
     [51452, 48124, 48264, 54840], [44228, 51340, 48264, 54840],
     [52852, 46300, 48264, 54840], [44060, 51064, 51221, 48372],
     [45236, 48512, 44592, 48128], [44256, 44061, 51221, 48372]]"
| "risk_patterns Credential_Secret = [
     [48708, 48128, 48264, 54840], lit ''password'', lit ''api key'', lit ''api_key'',
     lit ''token'', lit ''secret'', [51064, 51613, 49436], lit ''private key'']"
| "risk_patterns Unauthorized_Access = [
     [54644, 53433, 32, 48169, 48277], [44428, 54620, 32, 50630, 51060],
     [44288, 47532, 51088, 32, 44428, 54620, 32, 53448, 52712],
     [45796, 47480, 32, 44256, 44061], [50864, 54924, 32, 51217, 49549]]"
| "risk_patterns Prompt_Injection = [
     [51060, 51204, 32, 51648, 49884, 32, 47924, 49884], lit ''system prompt'',
     lit ''developer message'', [51221, 52293, 32, 50864, 54924],
     [54532, 47212, 54532, 53944, 32, 53448, 52712]]"
| "risk_patterns Fraud_Or_Illegal = [
     [54588, 49905], [49324, 44592], [48520, 48277], [44508, 51221, 32, 54924, 54588],
     [51064, 51613, 48264, 54840, 32, 53448, 52712]]"

definition risk_match :: "risk_type \<Rightarrow> risk_evaluation" where
  "risk_match t = \<lparr>re_matched = True, re_risk_type = Some t, re_action = Some (lit ''block''),
     re_message = Some (lit ''Blocked by risk policy: '' @ risk_type_value t)\<rparr>"

text \<open>The inner loop: does some pattern of the type occur in the folded query?\<close>

definition risk_type_hit :: "str \<Rightarrow> risk_type \<Rightarrow> bool" where
  "risk_type_hit normalized_query t \<longleftrightarrow>
     list_ex (\<lambda>p. py_in (casefold p) normalized_query) (risk_patterns t)"

definition risk_evaluate :: "risk_policy \<Rightarrow> str \<Rightarrow> risk_evaluation" where
  "risk_evaluate policy query =
     (if \<not> rpol_enabled policy then no_risk
      else case find (risk_type_hit (casefold query)) risk_types of
        Some t \<Rightarrow> risk_match t | None \<Rightarrow> no_risk)"

lemma risk_types_list: "risk_types = [Abuse, Dangerous_Command, Sensitive_Data, Credential_Secret,
    Unauthorized_Access, Prompt_Injection, Fraud_Or_Illegal]"
  by (simp add: risk_types_def enum_risk_type_def)

lemma find_app: "find P (xs @ ys) = (case find P xs of Some x \<Rightarrow> Some x | None \<Rightarrow> find P ys)"
  by (induction xs) auto

lemma risk_matched_iff:
  "re_matched (risk_evaluate policy query) \<longleftrightarrow>
     rpol_enabled policy \<and> (\<exists>t. risk_type_hit (casefold query) t)"
  by (auto simp: risk_evaluate_def no_risk_def risk_match_def find_Some_iff find_None_iff
      split: option.splits)

lemma no_risk_iff: "risk_evaluate policy query = no_risk \<longleftrightarrow> \<not> re_matched (risk_evaluate policy query)"
  by (simp add: risk_evaluate_def no_risk_def risk_match_def split: option.splits)

lemma risk_matched_fields:
  "re_matched (risk_evaluate policy query) \<Longrightarrow>
     \<exists>t. risk_evaluate policy query = risk_match t \<and> risk_type_hit (casefold query) t"
  by (auto simp: risk_evaluate_def no_risk_def dest: find_SomeD split: option.splits if_splits)

text \<open>
  An enabled risk policy reports the first risk type, in the order of the enumeration, one of
  whose patterns occurs in the query when both are case-folded, with the action block; it reports no
  match exactly when no pattern of any type occurs.
\<close>

theorem risk_evaluate_first_match:
  assumes "rpol_enabled policy"
  shows "(\<forall>t before after. risk_types = before @ t # after \<and>
            (\<exists>p \<in> set (risk_patterns t). py_in (casefold p) (casefold query)) \<and>
            (\<forall>u \<in> set before. \<forall>p \<in> set (risk_patterns u). \<not> py_in (casefold p) (casefold query)) \<longrightarrow>
              risk_evaluate policy query = risk_match t) \<and>
         ((\<forall>t. \<forall>p \<in> set (risk_patterns t). \<not> py_in (casefold p) (casefold query)) \<longleftrightarrow>
            risk_evaluate policy query = no_risk)"
proof (intro conjI allI impI)
  fix t before after
  assume h: "risk_types = before @ t # after \<and>
      (\<exists>p \<in> set (risk_patterns t). py_in (casefold p) (casefold query)) \<and>
      (\<forall>u \<in> set before. \<forall>p \<in> set (risk_patterns u). \<not> py_in (casefold p) (casefold query))"
  then have "find (risk_type_hit (casefold query)) before = None"
    by (auto simp: find_None_iff risk_type_hit_def list_ex_iff)
  moreover have "risk_type_hit (casefold query) t"
    using h by (auto simp: risk_type_hit_def list_ex_iff)
  ultimately have "find (risk_type_hit (casefold query)) (before @ t # after) = Some t"
    by (simp add: find_app)
  with h have "find (risk_type_hit (casefold query)) risk_types = Some t"
    by metis
  then show "risk_evaluate policy query = risk_match t"
    using assms by (simp add: risk_evaluate_def)
next
  show "(\<forall>t. \<forall>p \<in> set (risk_patterns t). \<not> py_in (casefold p) (casefold query)) \<longleftrightarrow>
      risk_evaluate policy query = no_risk"
    using assms risk_matched_iff [of policy query]
    by (auto simp: no_risk_iff risk_type_hit_def list_ex_iff)
qed

theorem risk_evaluate_first_match_witness:
  "risk_evaluate \<lparr>rpol_enabled = True\<rparr> (lit ''my PassWord and rm -rf'') = risk_match Dangerous_Command"
proof -
  let ?q = "lit ''my PassWord and rm -rf''"
  have on: "rpol_enabled \<lparr>rpol_enabled = True\<rparr>" by simp
  have types: "risk_types = [Abuse] @ Dangerous_Command # [Sensitive_Data, Credential_Secret,
      Unauthorized_Access, Prompt_Injection, Fraud_Or_Illegal]"
    by (simp add: risk_types_list)
  have folded: "casefold ?q = lit ''my password and rm -rf''"
    by (simp add: lit_def)
  have hit: "\<exists>p \<in> set (risk_patterns Dangerous_Command). py_in (casefold p) (casefold ?q)"
    unfolding folded by (simp add: lit_def sublist_Cons_right)
  have miss: "\<forall>u \<in> set [Abuse]. \<forall>p \<in> set (risk_patterns u). \<not> py_in (casefold p) (casefold ?q)"
    unfolding folded by (simp add: lit_def sublist_Cons_right)
  show ?thesis
    by (rule risk_evaluate_first_match [OF on, THEN conjunct1, rule_format, OF conjI [OF types conjI [OF hit]]])
      (use miss in blast)
qed

text \<open>
  Text around a forbidden phrase, and ASCII upper-casing, cannot hide it: a query that contains
  a query the policy blocks is blocked too, and upper-casing leaves the evaluation unchanged.
\<close>

theorem risk_evaluate_no_evasion:
  "(re_matched (risk_evaluate policy query) \<longrightarrow>
      re_matched (risk_evaluate policy (before @ query @ after))) \<and>
   risk_evaluate policy (ascii_upper query) = risk_evaluate policy query"
proof (intro conjI impI)
  assume "re_matched (risk_evaluate policy query)"
  then obtain t where "rpol_enabled policy" and "risk_type_hit (casefold query) t"
    by (auto simp: risk_matched_iff)
  moreover have "py_in (casefold query) (casefold (before @ query @ after))"
    by simp
  ultimately have "risk_type_hit (casefold (before @ query @ after)) t"
    by (auto simp: risk_type_hit_def list_ex_iff intro: sublist_order.order.trans)
  with \<open>rpol_enabled policy\<close> show "re_matched (risk_evaluate policy (before @ query @ after))"
    by (auto simp: risk_matched_iff)
next
  show "risk_evaluate policy (ascii_upper query) = risk_evaluate policy query"
    by (simp add: risk_evaluate_def)
qed

theorem risk_evaluate_no_evasion_witness:
  "re_matched (risk_evaluate \<lparr>rpol_enabled = True\<rparr> (lit ''please '' @ lit ''drop table'' @ lit '' now''))"
proof -
  have "risk_type_hit (casefold (lit ''drop table'')) Dangerous_Command"
    by (simp add: risk_type_hit_def lit_def sublist_Cons_right)
  then have "re_matched (risk_evaluate \<lparr>rpol_enabled = True\<rparr> (lit ''drop table''))"
    by (auto simp: risk_matched_iff)
  then show ?thesis using risk_evaluate_no_evasion by blast
qed

section \<open>Off-topic policy of a service\<close>

record off_topic_evaluation =
  oe_matched :: bool
  oe_message :: "str option"
  oe_fallback_policy :: "fallback_policy option"

definition no_off_topic :: off_topic_evaluation where
  "no_off_topic = \<lparr>oe_matched = False, oe_message = None, oe_fallback_policy = None\<rparr>"

record service_off_topic_policy =
  otp_enabled :: bool
  otp_keywords :: "str list"
  otp_message :: str
  otp_fallback_policy :: "fallback_policy option"

text \<open>A keyword counts when its stripped form is not empty and occurs in the folded query.\<close>

definition keyword_hit :: "str \<Rightarrow> str \<Rightarrow> bool" where
  "keyword_hit normalized_query keyword \<longleftrightarrow>
     strip keyword \<noteq> [] \<and> py_in (casefold (strip keyword)) normalized_query"

definition off_topic_evaluate :: "service_off_topic_policy \<Rightarrow> str \<Rightarrow> off_topic_evaluation" where
  "off_topic_evaluate policy query =
     (if \<not> otp_enabled policy then no_off_topic
      else if list_ex (keyword_hit (casefold query)) (otp_keywords policy)
        then \<lparr>oe_matched = True, oe_message = Some (otp_message policy),
               oe_fallback_policy = otp_fallback_policy policy\<rparr>
      else no_off_topic)"

lemma blank_keyword_never_hits [simp]: "blank k \<Longrightarrow> \<not> keyword_hit q k"
  by (simp add: keyword_hit_def blank_def)

lemma off_topic_matched_iff:
  "oe_matched (off_topic_evaluate policy query) \<longleftrightarrow>
     otp_enabled policy \<and> (\<exists>k \<in> set (otp_keywords policy). keyword_hit (casefold query) k)"
  by (auto simp: off_topic_evaluate_def no_off_topic_def list_ex_iff)

end
