(* ===== verification/Engine.thy ===== *)
theory Engine
  imports Composer Policy
begin

text \<open>
  \<open>src/intent_routing/routing/engine.py\<close> and \<open>release_context.py\<close>: the routing of one query
  (risk policy, candidate loading, semantic search, scoring, composition, off-topic policy) and the
  parts of an active release that are read back from stored JSON. The candidate loader and the
  semantic search are callables the engine is constructed with; they are function fields of the
  engine record and may raise.
\<close>

section \<open>Inputs\<close>

record active_release_context =
  ctx_release_version :: str
  ctx_service_id :: "str option"
  ctx_policy_version :: "str option"
  ctx_intent_catalog_version :: "str option"
  ctx_model_version :: "str option"
  ctx_vector_index_version :: "str option"
  ctx_test_run_id :: "str option"
  ctx_threshold_preset :: str
  ctx_threshold :: "float64 option"
  ctx_threshold_value :: "float64 option"
  ctx_clarify_margin :: float64
  ctx_min_candidate_score :: float64
  ctx_fallback_score :: float64
  ctx_policy :: "(str \<times> json) list"
  ctx_catalog_snapshot :: "(str \<times> json) list"
  ctx_max_input_tokens :: nat
  ctx_off_topic_policy :: "service_off_topic_policy option"

text \<open>\<open>__post_init__\<close>: the stored threshold value stands in for an absent threshold.\<close>

definition context_post_init :: "active_release_context \<Rightarrow> active_release_context" where
  "context_post_init c =
     (if ctx_threshold c = None \<and> ctx_threshold_value c \<noteq> None
      then c\<lparr>ctx_threshold := ctx_threshold_value c\<rparr> else c)"

record route_scope =
  sc_allowed_intents :: "str list"
  sc_allowed_route_keys :: "str list"

record route_input =
  ri_query :: str
  ri_service_id :: str
  ri_route_scope :: route_scope
  ri_release :: active_release_context

record intent_candidate =
  ic_intent_id :: str
  ic_display_name :: str
  ic_domain :: str
  ic_route_key :: str
  ic_include_keywords :: "str list"
  ic_exclude_keywords :: "str list"

record semantic_match =
  sm_positive_scores :: "float64 list"
  sm_negative_scores :: "float64 list"

text \<open>
  The engine's collaborators: the risk evaluator, the candidate loader, the semantic search (a
  mapping from intent ids to matches) and an optional composer. The loader and the search raise
  exceptions of a type \<open>'x\<close> the engine does not know.
\<close>

record 'x routing_engine =
  eng_risk_evaluate :: "str \<Rightarrow> risk_evaluation"
  eng_candidate_loader :: "str \<Rightarrow> active_release_context \<Rightarrow> ('x, intent_candidate list) outcome"
  eng_semantic_search ::
    "str \<Rightarrow> intent_candidate list \<Rightarrow> active_release_context \<Rightarrow> ('x, str \<Rightarrow> semantic_match option) outcome"
  eng_composer :: "decision_composer option"

datatype 'x route_error = Loader_Error 'x | Search_Error 'x | Threshold_Error threshold_error

section \<open>Scoring the candidates of a query\<close>

definition keyword_match_count :: "str \<Rightarrow> str list \<Rightarrow> nat" where
  "keyword_match_count normalized_query keywords = length (filter (keyword_hit normalized_query) keywords)"

definition score_candidate :: "str \<Rightarrow> intent_candidate \<Rightarrow> semantic_match option \<Rightarrow> candidate_score" where
  "score_candidate query c m =
     (let q = casefold query;
          include_count = keyword_match_count q (ic_include_keywords c);
          exclude_count = keyword_match_count q (ic_exclude_keywords c);
          b = compute_intent_confidence
            (case m of Some s \<Rightarrow> sm_positive_scores s | None \<Rightarrow> [])
            (case m of Some s \<Rightarrow> sm_negative_scores s | None \<Rightarrow> []) include_count exclude_count
      in \<lparr>cs_intent_id = ic_intent_id c, cs_display_name = ic_display_name c, cs_domain = ic_domain c,
          cs_route_key = ic_route_key c, cs_confidence = sb_confidence b,
          cs_positive_score = sb_positive_score b, cs_negative_score = sb_negative_score b,
          cs_include_keyword_match_count = include_count, cs_exclude_keyword_match_count = exclude_count,
          cs_keyword_boost = sb_keyword_boost b, cs_keyword_penalty = sb_keyword_penalty b,
          cs_negative_penalty = sb_negative_penalty b\<rparr>)"

section \<open>The off-topic decision\<close>

text \<open>
  The recorded keywords are searched as they are stored, without the stripping and the test for
  blank keywords that the evaluation itself performs.
\<close>

definition matched_keywords :: "service_off_topic_policy \<Rightarrow> str \<Rightarrow> str list" where
  "matched_keywords policy query = filter (\<lambda>k. py_in (casefold k) (casefold query)) (otp_keywords policy)"

definition off_topic_decision :: "route_input \<Rightarrow> decision_result option" where
  "off_topic_decision ri =
     (case ctx_off_topic_policy (ri_release ri) of
        None \<Rightarrow> None
      | Some policy \<Rightarrow>
          (let e = off_topic_evaluate policy (ri_query ri) in
           if \<not> oe_matched e then None
           else Some
             \<lparr>dr_decision = Off_Topic, dr_domain = None, dr_intent_id = None, dr_confidence = None,
              dr_margin = None, dr_route_key = None,
              dr_fallback_policy = Some (case oe_fallback_policy e of
                Some p \<Rightarrow> p
              | None \<Rightarrow> \<lparr>fp_type = lit ''client_fallback'', fp_retryable = Some False,
                  fp_recommended_action = Some (lit ''handoff_to_default_channel''),
                  fp_message = oe_message e\<rparr>),
              dr_clarify_question = None, dr_clarify = None, dr_risk = None,
              dr_state = Some (Off_Topic_State (matched_keywords policy (ri_query ri)))\<rparr>))"

section \<open>Routing\<close>

definition risk_decision :: "risk_evaluation \<Rightarrow> decision_result" where
  "risk_decision e =
     (let t = (case re_risk_type e of Some t \<Rightarrow> t | None \<Rightarrow> Abuse);
          action = or_default (re_action e) (lit ''block'') in
      \<lparr>dr_decision = Risk, dr_domain = None, dr_intent_id = None, dr_confidence = None,
       dr_margin = None, dr_route_key = None, dr_fallback_policy = None,
       dr_clarify_question = None, dr_clarify = None,
       dr_risk = Some \<lparr>rp_risk_type = t, rp_action = action,
         rp_message = or_default (re_message e) (lit ''Blocked by risk policy.'')\<rparr>,
       dr_state = Some (Risk_State t action)\<rparr>)"

definition release_composer :: "active_release_context \<Rightarrow> (threshold_error, decision_composer) outcome" where
  "release_composer r =
     bindE (make_threshold_config (ctx_threshold_preset r) (ctx_threshold r) (ctx_clarify_margin r)
              (ctx_min_candidate_score r) (ctx_fallback_score r) max_clarify_candidates_default)
       (\<lambda>cfg. Inr \<lparr>dc_threshold_config = cfg, dc_allowed_intents = None, dc_allowed_route_keys = None\<rparr>)"

text \<open>The part of \<open>route\<close> up to the composer's decision.\<close>

definition semantic_decision ::
  "'x routing_engine \<Rightarrow> route_input \<Rightarrow> ('x route_error, decision_result) outcome" where
  "semantic_decision eng ri =
     bindE (lift_error Loader_Error (eng_candidate_loader eng (ri_service_id ri) (ri_release ri))) (\<lambda>candidates.
     bindE (lift_error Search_Error (eng_semantic_search eng (ri_query ri) candidates (ri_release ri))) (\<lambda>matches.
     bindE (case eng_composer eng of
              Some dc \<Rightarrow> Inr dc
            | None \<Rightarrow> lift_error Threshold_Error (release_composer (ri_release ri))) (\<lambda>dc.
     Inr (compose dc
       (map (\<lambda>c. score_candidate (ri_query ri) c (matches (ic_intent_id c))) candidates)
       (Some (sc_allowed_intents (ri_route_scope ri)))
       (Some (sc_allowed_route_keys (ri_route_scope ri)))))))"

definition route :: "'x routing_engine \<Rightarrow> route_input \<Rightarrow> ('x route_error, decision_result) outcome" where
  "route eng ri =
     (let e = eng_risk_evaluate eng (ri_query ri) in
      if re_matched e then Inr (risk_decision e)
      else bindE (semantic_decision eng ri) (\<lambda>d.
        if dr_decision d = Confident then Inr d
        else case off_topic_decision ri of Some off \<Rightarrow> Inr off | None \<Rightarrow> Inr d))"

section \<open>Reading a release back (\<open>release_context.py\<close>)\<close>

datatype 'x context_error = Keywords_Not_Iterable | Fallback_Policy_Invalid 'x

text \<open>\<open>for value in v\<close>: arrays, strings (by character) and objects (by key) can be iterated.\<close>

fun json_iter :: "json \<Rightarrow> json list option" where
  "json_iter (JArr xs) = Some xs"
| "json_iter (JStr s) = Some (map (\<lambda>c. JStr [c]) s)"
| "json_iter (JObj d) = Some (map (\<lambda>kv. JStr (fst kv)) d)"
| "json_iter _ = None"

text \<open>
  The validation of a stored fallback policy is pydantic's and \<open>str(v)\<close> of a value that is not a
  string is Python's \<open>repr\<close>: both are parameters.
\<close>

definition off_topic_policy_from_config ::
  "((str \<times> json) list \<Rightarrow> ('x, fallback_policy) outcome) \<Rightarrow> (json \<Rightarrow> str) \<Rightarrow> (str \<times> json) list
    \<Rightarrow> ('x context_error, service_off_topic_policy) outcome" where
  "off_topic_policy_from_config model_validate py_str config =
     bindE (some_or (json_iter (get_default config (lit ''keywords'') (JArr []))) Keywords_Not_Iterable) (\<lambda>values.
     bindE (case get config (lit ''fallback_policy'') of
              JObj d \<Rightarrow> (case model_validate d of Inl x \<Rightarrow> Inl (Fallback_Policy_Invalid x) | Inr p \<Rightarrow> Inr (Some p))
            | _ \<Rightarrow> Inr None) (\<lambda>fallback.
     Inr \<lparr>otp_enabled = truthy (get config (lit ''enabled'')),
          otp_keywords = List.map_filter as_str values,
          otp_message = (case get_default config (lit ''message'')
              (JStr (lit ''Request is outside the service policy.'')) of
            JStr m \<Rightarrow> m | v \<Rightarrow> py_str v),
          otp_fallback_policy = fallback\<rparr>))"

text \<open>One item of the snapshot: skipped unless it is an object with the four required strings.\<close>

definition candidate_from_item :: "json \<Rightarrow> intent_candidate option" where
  "candidate_from_item item = (case item of
     JObj d \<Rightarrow>
       (case (as_str (get d (lit ''intent_id'')), as_str (get d (lit ''display_name'')),
              as_str (get d (lit ''domain'')), as_str (get d (lit ''route_key''))) of
          (Some i, Some n, Some dm, Some r) \<Rightarrow>
            Some \<lparr>ic_intent_id = i, ic_display_name = n, ic_domain = dm, ic_route_key = r,
              ic_include_keywords = string_list (get d (lit ''include_keywords'')),
              ic_exclude_keywords = string_list (get d (lit ''exclude_keywords''))\<rparr>
        | _ \<Rightarrow> None)
   | _ \<Rightarrow> None)"

definition candidates_from_snapshot :: "json \<Rightarrow> intent_candidate list" where
  "candidates_from_snapshot snapshot = (case snapshot of
     JArr items \<Rightarrow> List.map_filter candidate_from_item items
   | _ \<Rightarrow> [])"

text \<open>The JSON object of a candidate, with the keys the reader looks up.\<close>

definition candidate_to_item :: "intent_candidate \<Rightarrow> json" where
  "candidate_to_item c = JObj
     [(lit ''intent_id'', JStr (ic_intent_id c)), (lit ''display_name'', JStr (ic_display_name c)),
      (lit ''domain'', JStr (ic_domain c)), (lit ''route_key'', JStr (ic_route_key c)),
      (lit ''include_keywords'', JArr (map JStr (ic_include_keywords c))),
      (lit ''exclude_keywords'', JArr (map JStr (ic_exclude_keywords c)))]"

lemma map_filter_as_str: "List.map_filter as_str (map JStr ss) = ss"
  by (induction ss) (simp_all add: List.map_filter_def)

lemma candidate_item_roundtrip: "candidate_from_item (candidate_to_item c) = Some c"
  by (simp add: candidate_from_item_def candidate_to_item_def get_def lit_def map_filter_as_str)

lemma map_filter_roundtrip:
  "(\<And>x. x \<in> set xs \<Longrightarrow> f (g x) = Some x) \<Longrightarrow> List.map_filter f (map g xs) = xs"
  by (induction xs) (simp_all add: List.map_filter_def)

text \<open>
  Reading a release's candidate snapshot never fails: a snapshot written from candidates reads
  back as those candidates in order, items that are not such objects are skipped without affecting
  the others, and a value that is no array yields no candidates.
\<close>

theorem candidates_snapshot_roundtrip:
  "candidates_from_snapshot (JArr (map candidate_to_item cs)) = cs
   \<and> candidates_from_snapshot (JArr (xs @ junk # ys)) =
       candidates_from_snapshot (JArr xs)
         @ (case candidate_from_item junk of Some c \<Rightarrow> [c] | None \<Rightarrow> [])
         @ candidates_from_snapshot (JArr ys)
   \<and> ((\<exists>items. v = JArr items) \<or> candidates_from_snapshot v = [])"
proof (intro conjI)
  show "candidates_from_snapshot (JArr (map candidate_to_item cs)) = cs"
    by (simp add: candidates_from_snapshot_def map_filter_roundtrip candidate_item_roundtrip)
  show "candidates_from_snapshot (JArr (xs @ junk # ys)) =
      candidates_from_snapshot (JArr xs) @ (case candidate_from_item junk of Some c \<Rightarrow> [c] | None \<Rightarrow> [])
        @ candidates_from_snapshot (JArr ys)"
    by (simp add: candidates_from_snapshot_def List.map_filter_def split: option.split)
  show "(\<exists>items. v = JArr items) \<or> candidates_from_snapshot v = []"
    by (cases v) (simp_all add: candidates_from_snapshot_def)
qed

section \<open>What routing guarantees\<close>

text \<open>
  The engine only knows its risk evaluator by its interface. The law the program's evaluator
  promises: a match names its type, its action and a message.
\<close>

locale risk_evaluator =
  fixes evaluate :: "str \<Rightarrow> risk_evaluation"
  assumes match_fields: "re_matched (evaluate q) \<Longrightarrow>
    \<exists>t m. evaluate q = \<lparr>re_matched = True, re_risk_type = Some t, re_action = Some (lit ''block''),
      re_message = Some m\<rparr> \<and> m \<noteq> []"
begin

lemma risk_payload:
  assumes "eng_risk_evaluate eng = evaluate" and "re_matched (evaluate (ri_query ri))"
  shows "\<exists>d t m. route eng ri = Inr d \<and> dr_decision d = Risk
    \<and> dr_risk d = Some \<lparr>rp_risk_type = t, rp_action = lit ''block'', rp_message = m\<rparr>
    \<and> re_risk_type (evaluate (ri_query ri)) = Some t \<and> re_message (evaluate (ri_query ri)) = Some m
    \<and> dr_intent_id d = None \<and> dr_route_key d = None"
  using match_fields [OF assms(2)] assms
  by (auto simp: route_def Let_def risk_decision_def or_default_def)

lemma no_collaborators:
  assumes "eng_risk_evaluate eng = evaluate" and "eng_risk_evaluate eng' = evaluate"
    and "re_matched (evaluate (ri_query ri))"
  shows "route eng ri = Inr (risk_decision (evaluate (ri_query ri)))"
    and "route eng' ri = Inr (risk_decision (evaluate (ri_query ri)))"
  using assms by (simp_all add: route_def Let_def)

end

interpretation global_risk: risk_evaluator "risk_evaluate policy" for policy
proof
  fix q
  assume "re_matched (risk_evaluate policy q)"
  then obtain t where "risk_evaluate policy q = risk_match t"
    using risk_matched_fields by blast
  then show "\<exists>t m. risk_evaluate policy q = \<lparr>re_matched = True, re_risk_type = Some t,
      re_action = Some (lit ''block''), re_message = Some m\<rparr> \<and> m \<noteq> []"
    by (auto simp: risk_match_def)
qed

lemma risk_decision_Risk [simp]: "dr_decision (risk_decision e) = Risk"
  by (simp add: risk_decision_def Let_def)

lemma off_topic_decision_iff:
  "off_topic_decision ri = Some d \<Longrightarrow> dr_decision d = Off_Topic \<and> dr_intent_id d = None
    \<and> dr_route_key d = None \<and> (\<exists>policy. ctx_off_topic_policy (ri_release ri) = Some policy
      \<and> oe_matched (off_topic_evaluate policy (ri_query ri)))"
  by (auto simp: off_topic_decision_def Let_def split: option.splits if_splits)

lemma off_topic_decision_exists:
  "(\<exists>d. off_topic_decision ri = Some d) \<longleftrightarrow>
    (\<exists>policy. ctx_off_topic_policy (ri_release ri) = Some policy
      \<and> oe_matched (off_topic_evaluate policy (ri_query ri)))"
  by (auto simp: off_topic_decision_def Let_def split: option.splits)

definition scored :: "route_input \<Rightarrow> intent_candidate list \<Rightarrow> (str \<Rightarrow> semantic_match option) \<Rightarrow> candidate_score list" where
  "scored ri candidates matches =
     map (\<lambda>c. score_candidate (ri_query ri) c (matches (ic_intent_id c))) candidates"

definition engine_composer :: "'x routing_engine \<Rightarrow> route_input \<Rightarrow> (threshold_error, decision_composer) outcome" where
  "engine_composer eng ri = (case eng_composer eng of Some dc \<Rightarrow> Inr dc | None \<Rightarrow> release_composer (ri_release ri))"

lemma semantic_decision_Inr:
  "semantic_decision eng ri = Inr d \<longleftrightarrow>
    (\<exists>candidates matches dc. eng_candidate_loader eng (ri_service_id ri) (ri_release ri) = Inr candidates
      \<and> eng_semantic_search eng (ri_query ri) candidates (ri_release ri) = Inr matches
      \<and> engine_composer eng ri = Inr dc
      \<and> d = compose dc (scored ri candidates matches) (Some (sc_allowed_intents (ri_route_scope ri)))
          (Some (sc_allowed_route_keys (ri_route_scope ri))))"
  by (auto simp: semantic_decision_def engine_composer_def scored_def raise_simps split: option.splits)

lemma semantic_decision_kinds:
  "semantic_decision eng ri = Inr d \<Longrightarrow> dr_decision d \<in> {Confident, Clarify, Fallback, Unauthorized}"
  using compose_kinds by (auto simp: semantic_decision_Inr)

lemma route_Inr:
  "route eng ri = Inr d \<longleftrightarrow>
    (if re_matched (eng_risk_evaluate eng (ri_query ri)) then d = risk_decision (eng_risk_evaluate eng (ri_query ri))
     else \<exists>sd. semantic_decision eng ri = Inr sd \<and>
       d = (if dr_decision sd = Confident then sd
            else case off_topic_decision ri of Some off \<Rightarrow> off | None \<Rightarrow> sd))"
  by (auto simp: route_def Let_def raise_simps split: option.splits if_splits)

text \<open>Only the risk evaluation makes a decision a risk decision.\<close>

lemma route_Risk:
  assumes "eng_risk_evaluate eng = risk_evaluate policy" and "route eng ri = Inr d" and "dr_decision d = Risk"
  shows "re_matched (risk_evaluate policy (ri_query ri))"
  using assms semantic_decision_kinds [of eng ri] off_topic_decision_iff [of ri]
  by (auto simp: route_Inr split: option.splits if_splits)

text \<open>
  C26: With the program's risk policy, routing returns a risk decision exactly when some pattern of
  the policy occurs in the query; then no candidate is loaded and no search is made (whatever the
  collaborators would do), the payload names the evaluator's type with the action block, and no
  intent or route is disclosed.
\<close>

theorem route_risk_first:
  assumes "eng_risk_evaluate eng = risk_evaluate policy"
  shows "((\<exists>d. route eng ri = Inr d \<and> dr_decision d = Risk) \<longleftrightarrow> re_matched (risk_evaluate policy (ri_query ri)))
    \<and> (re_matched (risk_evaluate policy (ri_query ri)) \<longrightarrow>
        route eng ri = route (eng\<lparr>eng_candidate_loader := l, eng_semantic_search := s, eng_composer := c\<rparr>) ri
        \<and> (\<exists>d t m. route eng ri = Inr d \<and> re_risk_type (risk_evaluate policy (ri_query ri)) = Some t
            \<and> dr_risk d = Some \<lparr>rp_risk_type = t, rp_action = lit ''block'', rp_message = m\<rparr>
            \<and> dr_intent_id d = None \<and> dr_route_key d = None))"
proof (cases "re_matched (risk_evaluate policy (ri_query ri))")
  case True
  let ?eng' = "eng\<lparr>eng_candidate_loader := l, eng_semantic_search := s, eng_composer := c\<rparr>"
  have "route eng ri = route ?eng' ri"
    using global_risk.no_collaborators [of eng policy ?eng' ri] assms True by simp
  with True show ?thesis
    using global_risk.risk_payload [OF assms True] by blast
next
  case False
  then show ?thesis using route_Risk [OF assms] by blast
qed

text \<open>
  C25: A confident routing result is sound from end to end: no risk pattern matched, the loader and
  the search answered, and the disclosed intent and route key are those of a loaded candidate inside
  the caller's scope whose confidence reaches the threshold, is the highest of all and beats every
  other scored candidate by the margin.
\<close>

theorem route_confident_sound:
  assumes "route eng ri = Inr d" and "dr_decision d = Confident"
  shows "\<not> re_matched (eng_risk_evaluate eng (ri_query ri))
    \<and> (\<exists>candidates matches dc c.
        eng_candidate_loader eng (ri_service_id ri) (ri_release ri) = Inr candidates
        \<and> eng_semantic_search eng (ri_query ri) candidates (ri_release ri) = Inr matches
        \<and> engine_composer eng ri = Inr dc
        \<and> c \<in> set candidates
        \<and> dr_intent_id d = Some (ic_intent_id c) \<and> dr_route_key d = Some (ic_route_key c)
        \<and> in_scope (sc_allowed_intents (ri_route_scope ri)) (ic_intent_id c)
        \<and> in_scope (sc_allowed_route_keys (ri_route_scope ri)) (ic_route_key c)
        \<and> (let t = score_candidate (ri_query ri) c (matches (ic_intent_id c)) in
            dr_confidence d = Some (cs_confidence t)
            \<and> resolved_threshold (dc_threshold_config dc) \<le> cs_confidence t
            \<and> (\<forall>o' \<in> set (scored ri candidates matches). cs_confidence o' \<le> cs_confidence t)
            \<and> (\<forall>o' \<in> set (remove1 t (scored ri candidates matches)).
                tc_clarify_margin (dc_threshold_config dc) \<le> fsub (cs_confidence t) (cs_confidence o'))))"
proof -
  have no_risk: "\<not> re_matched (eng_risk_evaluate eng (ri_query ri))"
    using assms by (auto simp: route_Inr)
  then have "semantic_decision eng ri = Inr d"
    using assms off_topic_decision_iff [of ri d] off_topic_decision_iff [of ri]
    by (auto simp: route_Inr split: option.splits if_splits)
  then obtain candidates matches dc where
    collab: "eng_candidate_loader eng (ri_service_id ri) (ri_release ri) = Inr candidates"
      "eng_semantic_search eng (ri_query ri) candidates (ri_release ri) = Inr matches"
      "engine_composer eng ri = Inr dc"
    and d: "d = compose dc (scored ri candidates matches) (Some (sc_allowed_intents (ri_route_scope ri)))
          (Some (sc_allowed_route_keys (ri_route_scope ri)))"
    by (auto simp: semantic_decision_Inr)
  let ?scored = "scored ri candidates matches"
  obtain t where t: "winner ?scored = Some t"
    "is_authorized dc t (Some (sc_allowed_intents (ri_route_scope ri))) (Some (sc_allowed_route_keys (ri_route_scope ri)))"
    "resolved_threshold (dc_threshold_config dc) \<le> cs_confidence t"
    "\<forall>c \<in> set (remove1 t ?scored). tc_clarify_margin (dc_threshold_config dc) \<le> fsub (cs_confidence t) (cs_confidence c)"
    using compose_confidentD assms(2) d by blast
  obtain c where c: "c \<in> set candidates" "t = score_candidate (ri_query ri) c (matches (ic_intent_id c))"
    using winner_in [OF t(1)] by (auto simp: scored_def)
  have ids: "cs_intent_id t = ic_intent_id c" "cs_route_key t = ic_route_key c"
    by (simp_all add: c(2) score_candidate_def Let_def)
  have "dr_intent_id d = Some (cs_intent_id t)" "dr_route_key d = Some (cs_route_key t)"
      "dr_confidence d = Some (cs_confidence t)"
    using compose_confident_fields [OF t(1)] assms(2) d by auto
  moreover have "\<forall>o' \<in> set ?scored. cs_confidence o' \<le> cs_confidence t"
    using winner_max [OF t(1)] by blast
  ultimately show ?thesis
    using no_risk collab c t(2-4) ids unfolding Let_def
    by (intro conjI exI [of _ candidates] exI [of _ matches] exI [of _ dc] exI [of _ c])
      (simp_all add: is_authorized_def effective_scope_def)
qed

text \<open>
  Routing answers off-topic exactly when no risk pattern matched, the semantic decision was
  reached and is not confident, and the release carries an enabled off-topic policy one of whose
  keywords, stripped and not blank, occurs in the query when both are case-folded; the answer then
  names no intent and no route.
\<close>

theorem route_off_topic:
  "(\<exists>d. route eng ri = Inr d \<and> dr_decision d = Off_Topic \<and> dr_intent_id d = None \<and> dr_route_key d = None) \<longleftrightarrow>
    \<not> re_matched (eng_risk_evaluate eng (ri_query ri))
    \<and> (\<exists>sd. semantic_decision eng ri = Inr sd \<and> dr_decision sd \<noteq> Confident)
    \<and> (\<exists>policy. ctx_off_topic_policy (ri_release ri) = Some policy \<and> otp_enabled policy
        \<and> (\<exists>k \<in> set (otp_keywords policy). strip k \<noteq> []
            \<and> py_in (casefold (strip k)) (casefold (ri_query ri))))"
  (is "?l \<longleftrightarrow> ?r")
proof -
  have matched: "(\<exists>d. off_topic_decision ri = Some d) \<longleftrightarrow>
      (\<exists>policy. ctx_off_topic_policy (ri_release ri) = Some policy \<and> otp_enabled policy
        \<and> (\<exists>k \<in> set (otp_keywords policy). strip k \<noteq> [] \<and> py_in (casefold (strip k)) (casefold (ri_query ri))))"
    by (simp add: off_topic_decision_exists off_topic_matched_iff keyword_hit_def)
  have "?l \<longleftrightarrow> \<not> re_matched (eng_risk_evaluate eng (ri_query ri))
      \<and> (\<exists>sd. semantic_decision eng ri = Inr sd \<and> dr_decision sd \<noteq> Confident)
      \<and> (\<exists>d. off_topic_decision ri = Some d)"
  proof
    assume ?l
    then obtain d where d: "route eng ri = Inr d" "dr_decision d = Off_Topic" by blast
    with semantic_decision_kinds [of eng ri] show "\<not> re_matched (eng_risk_evaluate eng (ri_query ri))
        \<and> (\<exists>sd. semantic_decision eng ri = Inr sd \<and> dr_decision sd \<noteq> Confident)
        \<and> (\<exists>d. off_topic_decision ri = Some d)"
      by (fastforce simp: route_Inr split: option.splits if_splits)
  next
    assume "\<not> re_matched (eng_risk_evaluate eng (ri_query ri))
        \<and> (\<exists>sd. semantic_decision eng ri = Inr sd \<and> dr_decision sd \<noteq> Confident)
        \<and> (\<exists>d. off_topic_decision ri = Some d)"
    then show ?l
      using off_topic_decision_iff [of ri] by (auto simp: route_Inr)
  qed
  then show ?thesis unfolding matched .
qed

text \<open>
  C32: Routing fails in exactly three ways, and never for a query the risk policy blocks: the
  candidate loader raises, the semantic search raises on the loaded candidates, or, for an engine
  without a composer of its own, the release's threshold configuration is rejected.
\<close>

theorem route_failures:
  "route eng ri = Inl e \<longleftrightarrow>
    \<not> re_matched (eng_risk_evaluate eng (ri_query ri)) \<and>
    (case eng_candidate_loader eng (ri_service_id ri) (ri_release ri) of
       Inl x \<Rightarrow> e = Loader_Error x
     | Inr candidates \<Rightarrow>
        (case eng_semantic_search eng (ri_query ri) candidates (ri_release ri) of
           Inl x \<Rightarrow> e = Search_Error x
         | Inr matches \<Rightarrow> eng_composer eng = None \<and>
            (ctx_threshold_preset (ri_release ri) = lit ''custom'' \<and> ctx_threshold (ri_release ri) = None
               \<and> e = Threshold_Error Custom_Requires_Threshold
             \<or> ctx_threshold_preset (ri_release ri) \<notin> insert (lit ''custom'') (range preset_value)
               \<and> e = Threshold_Error (Unknown_Preset (ctx_threshold_preset (ri_release ri))))))"
proof -
  have composer: "release_composer r = Inl te \<longleftrightarrow>
      ctx_threshold_preset r = lit ''custom'' \<and> ctx_threshold r = None \<and> te = Custom_Requires_Threshold
      \<or> ctx_threshold_preset r \<notin> insert (lit ''custom'') (range preset_value)
        \<and> te = Unknown_Preset (ctx_threshold_preset r)" for r te
    using parse_preset_None [of "ctx_threshold_preset r"]
    by (cases "parse_preset (ctx_threshold_preset r)")
      (auto simp: release_composer_def make_threshold_config_def raise_simps split: option.splits if_splits)
  show ?thesis
    by (auto simp: route_def Let_def semantic_decision_def raise_simps composer
        split: sum.splits option.splits if_splits)
qed

section \<open>A concrete engine\<close>

definition sample_context :: active_release_context where
  "sample_context =
     \<lparr>ctx_release_version = lit ''rel_1'', ctx_service_id = None, ctx_policy_version = None,
      ctx_intent_catalog_version = None, ctx_model_version = None, ctx_vector_index_version = None,
      ctx_test_run_id = None, ctx_threshold_preset = lit ''balanced'', ctx_threshold = None,
      ctx_threshold_value = None, ctx_clarify_margin = clarify_margin_default,
      ctx_min_candidate_score = min_candidate_score_default, ctx_fallback_score = fallback_score_default,
      ctx_policy = [], ctx_catalog_snapshot = [], ctx_max_input_tokens = 256,
      ctx_off_topic_policy = Some \<lparr>otp_enabled = True, otp_keywords = [lit '' hi '', lit '' ''],
        otp_message = lit ''no'', otp_fallback_policy = None\<rparr>\<rparr>"

definition sample_input :: "str \<Rightarrow> route_input" where
  "sample_input q = \<lparr>ri_query = q, ri_service_id = lit ''svc'',
     ri_route_scope = \<lparr>sc_allowed_intents = [lit ''a''], sc_allowed_route_keys = []\<rparr>,
     ri_release = sample_context\<rparr>"

definition sample_candidate :: intent_candidate where
  "sample_candidate = \<lparr>ic_intent_id = lit ''a'', ic_display_name = lit ''A'', ic_domain = lit ''d'',
     ic_route_key = lit ''d.a.x'', ic_include_keywords = [], ic_exclude_keywords = []\<rparr>"

definition sample_engine :: "intent_candidate list \<Rightarrow> unit routing_engine" where
  "sample_engine candidates = \<lparr>eng_risk_evaluate = risk_evaluate \<lparr>rpol_enabled = True\<rparr>,
     eng_candidate_loader = (\<lambda>_ _. Inr candidates),
     eng_semantic_search = (\<lambda>_ _ _. Inr (\<lambda>_. Some \<lparr>sm_positive_scores = [1], sm_negative_scores = []\<rparr>)),
     eng_composer = Some (sample_composer (decimal 80 2))\<rparr>"

lemma sample_no_risk: "\<not> re_matched (risk_evaluate \<lparr>rpol_enabled = True\<rparr> (lit ''hi''))"
proof -
  have "casefold (lit ''hi'') = lit ''hi''"
    by (simp add: lit_def)
  moreover have "\<not> risk_type_hit (lit ''hi'') t" for t
    by (cases t) (simp_all add: risk_type_hit_def lit_def sublist_Cons_right)
  ultimately show ?thesis by (simp add: risk_matched_iff)
qed

lemma sample_confidence: "sb_confidence (compute_intent_confidence [1] [] 0 0) = 1"
  by code_simp

lemma sample_bounds: "decimal 45 2 < 1" "decimal 80 2 < 1" "decimal 8 2 < 1"
  by code_simp+

lemmas sample_bounds_order [simp] = sample_bounds [THEN less_forms]

lemma winner_single: "winner [t] = Some t"
  by (simp add: winner_def sorted_desc_def)

lemma sample_semantic:
  "\<exists>d. semantic_decision (sample_engine [sample_candidate]) (sample_input q) = Inr d \<and> dr_decision d = Confident"
proof -
  let ?t = "score_candidate q sample_candidate (Some \<lparr>sm_positive_scores = [1], sm_negative_scores = []\<rparr>)"
  have t: "cs_confidence ?t = 1" "cs_intent_id ?t = lit ''a''"
    using sample_confidence
    by (simp_all add: score_candidate_def sample_candidate_def keyword_match_count_def Let_def)
  have "dr_decision (compose (sample_composer (decimal 80 2)) [?t] (Some [lit ''a'']) (Some [])) = Confident"
    by (rule compose_single_confident) (simp_all add: t is_authorized_def effective_scope_def in_scope_def)
  then show ?thesis
    by (simp add: semantic_decision_def sample_engine_def sample_input_def)
qed

lemma sample_route_confident:
  "\<exists>d. route (sample_engine [sample_candidate]) (sample_input (lit ''hi'')) = Inr d \<and> dr_decision d = Confident"
  using sample_semantic [of "lit ''hi''"] sample_no_risk
  by (auto simp: route_def sample_engine_def sample_input_def)

theorem route_confident_sound_witness:
  "\<exists>d (c :: intent_candidate). route (sample_engine [sample_candidate]) (sample_input (lit ''hi'')) = Inr d
    \<and> dr_intent_id d = Some (ic_intent_id c) \<and> in_scope [lit ''a''] (ic_intent_id c)"
proof -
  obtain d where d: "route (sample_engine [sample_candidate]) (sample_input (lit ''hi'')) = Inr d"
      "dr_decision d = Confident"
    using sample_route_confident by blast
  have "sc_allowed_intents (ri_route_scope (sample_input (lit ''hi''))) = [lit ''a'']"
    by (simp add: sample_input_def)
  with route_confident_sound [OF d]
  have "\<exists>c :: intent_candidate. dr_intent_id d = Some (ic_intent_id c) \<and> in_scope [lit ''a''] (ic_intent_id c)"
    by metis
  with d(1) show ?thesis by blast
qed

theorem route_risk_first_witness:
  "\<exists>d t m. route (sample_engine []) (sample_input (lit ''rm -rf'')) = Inr d
    \<and> dr_risk d = Some \<lparr>rp_risk_type = t, rp_action = lit ''block'', rp_message = m\<rparr>
    \<and> re_risk_type (risk_evaluate \<lparr>rpol_enabled = True\<rparr> (lit ''rm -rf'')) = Some t"
proof -
  have q: "ri_query (sample_input (lit ''rm -rf'')) = lit ''rm -rf''"
    by (simp add: sample_input_def)
  have "risk_type_hit (casefold (lit ''rm -rf'')) Dangerous_Command"
    by (simp add: risk_type_hit_def lit_def sublist_Cons_right)
  then have "re_matched (risk_evaluate \<lparr>rpol_enabled = True\<rparr> (lit ''rm -rf''))"
    by (auto simp: risk_matched_iff)
  moreover have "eng_risk_evaluate (sample_engine []) = risk_evaluate \<lparr>rpol_enabled = True\<rparr>"
    by (simp add: sample_engine_def)
  ultimately show ?thesis
    using route_risk_first [of "sample_engine []" "\<lparr>rpol_enabled = True\<rparr>" "sample_input (lit ''rm -rf'')"]
    unfolding q by blast
qed

text \<open>At this point an engine without candidates falls back, and the off-topic policy answers.\<close>

lemma sample_off_topic_hit:
  "strip (lit '' hi '') = lit ''hi''" "casefold (lit ''hi'') = lit ''hi''" "casefold (lit '' hi '') = lit '' hi ''"
  "casefold (lit '' '') = lit '' ''"
  by (simp_all add: lit_def strip_def lstrip_def rstrip_def is_space_def)

theorem route_off_topic_witness:
  "\<exists>d. route (sample_engine []) (sample_input (lit ''hi'')) = Inr d \<and> dr_decision d = Off_Topic"
proof -
  let ?eng = "sample_engine []" and ?ri = "sample_input (lit ''hi'')"
  have "\<not> re_matched (eng_risk_evaluate ?eng (ri_query ?ri))"
    using sample_no_risk by (simp add: sample_engine_def sample_input_def)
  moreover have "\<exists>sd. semantic_decision ?eng ?ri = Inr sd \<and> dr_decision sd \<noteq> Confident"
    by (simp add: semantic_decision_def sample_engine_def sample_input_def compose_Nil)
  moreover have "\<exists>policy. ctx_off_topic_policy (ri_release ?ri) = Some policy \<and> otp_enabled policy
      \<and> (\<exists>k \<in> set (otp_keywords policy). strip k \<noteq> [] \<and> py_in (casefold (strip k)) (casefold (ri_query ?ri)))"
    by (simp add: sample_input_def sample_context_def sample_off_topic_hit)
  ultimately show ?thesis
    using route_off_topic [of ?eng ?ri] by blast
qed

text \<open>
  The keywords recorded with an off-topic decision are the stored keywords that occur in the
  query as they are written; a keyword that matched only after stripping is missing from the record
  and a blank keyword, which never matches, can be in it.
\<close>

theorem off_topic_record_divergence:
  "(off_topic_decision ri = Some d \<longrightarrow> (\<exists>policy. ctx_off_topic_policy (ri_release ri) = Some policy
      \<and> dr_state d = Some (Off_Topic_State (filter (\<lambda>k. py_in (casefold k) (casefold (ri_query ri))) (otp_keywords policy)))))
   \<and> (\<exists>d'. off_topic_decision (sample_input (lit ''hi'')) = Some d' \<and> dr_state d' = Some (Off_Topic_State []))"
proof (intro conjI impI)
  assume "off_topic_decision ri = Some d"
  then show "\<exists>policy. ctx_off_topic_policy (ri_release ri) = Some policy
      \<and> dr_state d = Some (Off_Topic_State (filter (\<lambda>k. py_in (casefold k) (casefold (ri_query ri))) (otp_keywords policy)))"
    by (auto simp: off_topic_decision_def matched_keywords_def Let_def split: option.splits if_splits)
next
  have "py_in (casefold (strip (lit '' hi ''))) (casefold (lit ''hi''))"
    by (simp add: sample_off_topic_hit)
  moreover have "\<not> py_in (casefold (lit '' hi '')) (casefold (lit ''hi''))"
      "\<not> py_in (casefold (lit '' '')) (casefold (lit ''hi''))"
    unfolding sample_off_topic_hit by (simp_all add: lit_def sublist_Cons_right)
  moreover have "strip (lit '' hi '') \<noteq> []"
    unfolding sample_off_topic_hit by (simp add: lit_def)
  ultimately show "\<exists>d'. off_topic_decision (sample_input (lit ''hi'')) = Some d' \<and> dr_state d' = Some (Off_Topic_State [])"
    by (simp add: off_topic_decision_def sample_input_def sample_context_def off_topic_evaluate_def
      matched_keywords_def keyword_hit_def Let_def)
qed

theorem off_topic_record_divergence_witness:
  "\<exists>d. off_topic_decision (sample_input (lit ''hi'')) = Some d \<and> dr_state d = Some (Off_Topic_State [])"
  using off_topic_record_divergence by blast

end
