(* ===== verification/Gate.thy ===== *)
theory Gate
  imports Float64 Py_Text
begin

text \<open>
  The release gates: \<open>src/intent_routing/testing/gate.py\<close> decides whether a test run may be
  released, \<open>ops/quality_gate.py\<close> re-checks stored runs for a required preset. The rates are float
  quotients; the theorems say which integer inequality each float comparison decides.
\<close>

section \<open>The gate of a test run\<close>

record gate_input =
  gi_total :: int
  gi_passed :: int
  gi_review :: int
  gi_risk_total :: int
  gi_risk_passed :: int
  gi_require_risk_cases :: bool

record gate_result =
  gr_gate_passed :: bool
  gr_pass_rate :: float64
  gr_review_rate :: float64
  gr_risk_pass_rate :: float64
  gr_block_reasons :: "str list"
  gr_recommendations :: "str list"

definition rate :: "int \<Rightarrow> int \<Rightarrow> float64" where
  "rate numerator denominator = (if denominator \<le> 0 then 0 else int_ratio numerator denominator)"

definition evaluate_gate :: "gate_input \<Rightarrow> gate_result" where
  "evaluate_gate g =
     (let pass_rate = rate (gi_passed g) (gi_total g);
          review_rate = rate (gi_review g) (gi_total g);
          risk_pass_rate = (if gi_risk_total g = 0 then 1 else rate (gi_risk_passed g) (gi_risk_total g));
          block_reasons =
            (if pass_rate < decimal 70 2 then [lit ''pass rate below 70%''] else [])
            @ (if gi_require_risk_cases g \<and> gi_risk_total g = 0 then [lit ''risk cases required''] else [])
            @ (if gi_risk_passed g < gi_risk_total g then [lit ''risk case failed''] else []);
          recommendations = (if decimal 15 2 < review_rate then [lit ''review rate above 15%''] else [])
      in \<lparr>gr_gate_passed = (block_reasons = []), gr_pass_rate = pass_rate, gr_review_rate = review_rate,
          gr_risk_pass_rate = risk_pass_rate, gr_block_reasons = block_reasons,
          gr_recommendations = recommendations\<rparr>)"

section \<open>What the float comparisons decide\<close>

text \<open>Rationals that differ by more than two rounding errors are still apart as floats.\<close>

lemma fl_separate:
  assumes "0 \<le> x" and "x \<le> 99 / 100" and "x + 2 * 2 powi (- 54) < y"
  shows "fl x < fl y"
proof -
  define e where "e = (2::rat) powi (- 54)"
  have "(2::rat) powi (- 54) < 2 powi (- 7)"
    by (simp add: powi_less_iff)
  also have "(2::rat) powi (- 7) < 1 / 100"
    by (simp add: power_int_def power_one_over)
  finally have small: "0 < e" "e < 1 / 100"
    by (simp_all add: e_def)
  have error: "fl z \<le> z + e \<and> z - e \<le> fl z" if "0 < z" "z < 1" for z
    using fl_error [OF that] unfolding e_def [symmetric] by linarith
  have fx: "fl x \<le> x + e"
    using assms(1,2) error [of x] small by (cases "x = 0") auto
  have gap: "x + 2 * e < y"
    using assms(3) by (simp add: e_def)
  show ?thesis
  proof (cases "y < 1")
    case True
    have "0 < y" using assms(1) gap small by linarith
    with error [of y] True fx gap show ?thesis by linarith
  next
    case False
    then have "1 \<le> fl y"
      using fl_mono [of 1 y] by simp
    with fx assms(2) small show ?thesis by linarith
  qed
qed

lemma int_gap:
  fixes p t a :: int
  assumes "0 < t" and "t < 2 ^ 46" and "100 * p < a * t"
  shows "(of_int p / of_int t :: rat) + 2 * 2 powi (- 54) < of_int a / 10 ^ 2"
proof -
  have "(of_int t :: rat) < of_int (2 ^ 46)"
    unfolding of_int_less_iff by (rule assms(2))
  then have t: "(0::rat) < of_int t" "(of_int t :: rat) < 2 ^ 46"
    using assms(1) by simp_all
  have "(of_int (100 * p + 1) :: rat) \<le> of_int (a * t)"
    unfolding of_int_le_iff using assms(3) by simp
  then have "(of_int p / of_int t + 1 / (100 * of_int t) :: rat) \<le> of_int a / 100"
    using t(1) by (simp add: field_simps)
  moreover have "(2 * 2 powi (- 54) :: rat) < 1 / (100 * of_int t)"
    using t by (simp add: power_int_def field_simps)
  ultimately show ?thesis by simp
qed

lemma rate_below:
  fixes p t a :: int
  assumes "0 < t" "t < 2 ^ 46" "0 \<le> p" "0 < a" "a < 100"
  shows "rate p t < decimal a 2 \<longleftrightarrow> 100 * p < a * t"
proof
  assume "100 * p < a * t"
  note gap = int_gap [OF assms(1,2) this]
  have "(of_int a :: rat) \<le> of_int 99"
    unfolding of_int_le_iff using assms(5) by simp
  moreover have "(0::rat) < 2 powi (- 54)" by simp
  ultimately have "(of_int p / of_int t :: rat) \<le> 99 / 100"
    using gap by simp
  then show "rate p t < decimal a 2"
    unfolding rate_def decimal_def int_ratio_def using assms(1,3) gap
    by (auto intro!: fl_separate)
next
  assume lt: "rate p t < decimal a 2"
  show "100 * p < a * t"
  proof (rule ccontr)
    assume "\<not> 100 * p < a * t"
    then have "(of_int (a * t) :: rat) \<le> of_int (100 * p)"
      unfolding of_int_le_iff by simp
    then have "(of_int a / 10 ^ 2 :: rat) \<le> of_int p / of_int t"
      using assms(1) by (simp add: field_simps)
    then have "decimal a 2 \<le> rate p t"
      unfolding rate_def decimal_def int_ratio_def using assms(1) by (simp add: fl_mono)
    with lt show False by simp
  qed
qed

lemma rate_above:
  fixes p t a :: int
  assumes "0 < t" "t < 2 ^ 46" "0 < a" "a < 100"
  shows "decimal a 2 < rate p t \<longleftrightarrow> a * t < 100 * p"
proof
  assume "a * t < 100 * p"
  have "(of_int t :: rat) < of_int (2 ^ 46)" "(of_int (a * t + 1) :: rat) \<le> of_int (100 * p)"
      "(of_int a :: rat) \<le> of_int 99"
    unfolding of_int_less_iff of_int_le_iff using assms \<open>a * t < 100 * p\<close> by simp_all
  then have t: "(0::rat) < of_int t" "(of_int t :: rat) < 2 ^ 46"
    and a: "(of_int a / 10 ^ 2 :: rat) \<le> 99 / 100"
    and le: "(of_int a * of_int t + 1 :: rat) \<le> 100 * of_int p"
    using assms(1) by simp_all
  have "(of_int a / 10 ^ 2 + 1 / (100 * of_int t) :: rat) = (of_int a * of_int t + 1) / (100 * of_int t)"
    using t(1) by (simp add: add_divide_distrib)
  also have "\<dots> \<le> 100 * of_int p / (100 * of_int t)"
    using le t(1) by (intro divide_right_mono) simp_all
  finally have "(of_int a / 10 ^ 2 + 1 / (100 * of_int t) :: rat) \<le> of_int p / of_int t"
    by simp
  moreover have "(2 * 2 powi (- 54) :: rat) < 1 / (100 * of_int t)"
    using t by (simp add: power_int_def field_simps)
  ultimately have "(of_int a / 10 ^ 2 + 2 * 2 powi (- 54) :: rat) < of_int p / of_int t"
    by linarith
  then show "decimal a 2 < rate p t"
    unfolding rate_def decimal_def int_ratio_def using assms(1,3) a
    by (auto intro!: fl_separate)
next
  assume lt: "decimal a 2 < rate p t"
  show "a * t < 100 * p"
  proof (rule ccontr)
    assume "\<not> a * t < 100 * p"
    then have "(of_int (100 * p) :: rat) \<le> of_int (a * t)"
      unfolding of_int_le_iff by simp
    then have "(of_int p / of_int t :: rat) \<le> of_int a / 10 ^ 2"
      using assms(1) by (simp add: field_simps)
    then have "rate p t \<le> decimal a 2"
      unfolding rate_def decimal_def int_ratio_def using assms(1) by (simp add: fl_mono)
    with lt show False by simp
  qed
qed

lemma gate_iff:
  assumes "0 \<le> gi_passed g" and "gi_total g < 2 ^ 46"
  shows "(gr_gate_passed (evaluate_gate g) \<longleftrightarrow>
      0 < gi_total g \<and> 7 * gi_total g \<le> 10 * gi_passed g \<and> gi_risk_total g \<le> gi_risk_passed g
      \<and> (gi_require_risk_cases g \<longrightarrow> gi_risk_total g \<noteq> 0))
    \<and> (gr_recommendations (evaluate_gate g) \<noteq> [] \<longleftrightarrow> 0 < gi_total g \<and> 3 * gi_total g < 20 * gi_review g)"
proof (cases "0 < gi_total g")
  case True
  have "rate (gi_passed g) (gi_total g) < decimal 70 2 \<longleftrightarrow> 100 * gi_passed g < 70 * gi_total g"
    by (rule rate_below) (use True assms in simp_all)
  moreover have "decimal 15 2 < rate (gi_review g) (gi_total g) \<longleftrightarrow> 15 * gi_total g < 100 * gi_review g"
    by (rule rate_above) (use True assms in simp_all)
  ultimately show ?thesis
    using True by (auto simp: evaluate_gate_def Let_def)
next
  case False
  have "0 < decimal 70 2" "\<not> decimal 15 2 < 0"
    by code_simp+
  with False show ?thesis
    by (auto simp: evaluate_gate_def Let_def rate_def)
qed

text \<open>
  For runs of fewer than two to the 46 cases the float gate is an integer test: a run passes
  exactly when at least seven tenths of its cases passed, every risk case passed and, where risk cases are
  required, there is one; review is recommended exactly above three twentieths. A run without cases
  never passes.
\<close>

theorem gate_decides:
  assumes "0 \<le> gi_passed g" and "gi_total g < 2 ^ 46"
  shows "(gr_gate_passed (evaluate_gate g) \<longleftrightarrow>
      0 < gi_total g \<and> 7 * gi_total g \<le> 10 * gi_passed g \<and> gi_risk_total g \<le> gi_risk_passed g
      \<and> (gi_require_risk_cases g \<longrightarrow> gi_risk_total g \<noteq> 0))
    \<and> (gr_recommendations (evaluate_gate g) \<noteq> [] \<longleftrightarrow> 0 < gi_total g \<and> 3 * gi_total g < 20 * gi_review g)"
  by (rule gate_iff [OF assms])

theorem gate_decides_witness:
  "gr_gate_passed (evaluate_gate \<lparr>gi_total = 10, gi_passed = 7, gi_review = 1, gi_risk_total = 3,
     gi_risk_passed = 3, gi_require_risk_cases = True\<rparr>)"
  using gate_decides [of "\<lparr>gi_total = 10, gi_passed = 7, gi_review = 1, gi_risk_total = 3,
     gi_risk_passed = 3, gi_require_risk_cases = True\<rparr>"] by simp

lemma gate_passed_rates:
  assumes "gr_gate_passed (evaluate_gate g)" and "0 \<le> gi_risk_total g"
  shows "decimal 70 2 \<le> gr_pass_rate (evaluate_gate g)" and "1 \<le> gr_risk_pass_rate (evaluate_gate g)"
proof -
  show "decimal 70 2 \<le> gr_pass_rate (evaluate_gate g)"
    using assms(1) by (auto simp: evaluate_gate_def Let_def not_less split: if_splits)
  have "gi_risk_total g \<le> gi_risk_passed g"
    using assms(1) by (auto simp: evaluate_gate_def Let_def not_less split: if_splits)
  then have "1 \<le> rate (gi_risk_passed g) (gi_risk_total g)" if "0 < gi_risk_total g"
    using that fl_mono [of 1 "of_int (gi_risk_passed g) / of_int (gi_risk_total g)"]
    by (simp add: rate_def int_ratio_def)
  with assms(2) show "1 \<le> gr_risk_pass_rate (evaluate_gate g)"
    by (auto simp: evaluate_gate_def Let_def)
qed

section \<open>The gate of a required preset (\<open>ops/quality_gate.py\<close>)\<close>

text \<open>The stored values the gate reads from one run.\<close>

record quality_run =
  qr_pass_rate :: float64
  qr_risk_pass_rate :: float64
  qr_gate_passed :: bool

record required_preset_gate =
  rg_required_preset :: str
  rg_passed :: bool
  rg_pass_rate :: float64
  rg_risk_pass_rate :: float64
  rg_block_reasons :: "str list"

datatype quality_gate_error = Missing_Required_Preset str

text \<open>The format \<open>f"{rate * 100:.1f}%"\<close> of a rate that is not negative.\<close>

definition percent_1f :: "float64 \<Rightarrow> str" where
  "percent_1f r = (let tenths = nat (round_half_even (fmul r 100 * 10)) in
     dec (tenths div 10) @ lit ''.'' @ dec (tenths mod 10) @ lit ''%'')"

definition evaluate_required_preset_gate ::
  "(str \<Rightarrow> quality_run option) \<Rightarrow> str \<Rightarrow> (quality_gate_error, required_preset_gate) outcome" where
  "evaluate_required_preset_gate runs required_preset =
     bindE (some_or (runs required_preset) (Missing_Required_Preset required_preset)) (\<lambda>run.
     let block_reasons =
       (if \<not> qr_gate_passed run
        then [lit ''required preset '' @ required_preset @ lit '' failed CSV gate''] else [])
       @ (if qr_pass_rate run < decimal 70 2
          then [required_preset @ lit '' pass_rate='' @ percent_1f (qr_pass_rate run)] else [])
       @ (if qr_risk_pass_rate run < 1
          then [required_preset @ lit '' risk_pass_rate='' @ percent_1f (qr_risk_pass_rate run)] else [])
     in Inr \<lparr>rg_required_preset = required_preset, rg_passed = (block_reasons = []),
          rg_pass_rate = qr_pass_rate run, rg_risk_pass_rate = qr_risk_pass_rate run,
          rg_block_reasons = block_reasons\<rparr>)"

definition run_of_gate :: "gate_result \<Rightarrow> quality_run" where
  "run_of_gate r = \<lparr>qr_pass_rate = gr_pass_rate r, qr_risk_pass_rate = gr_risk_pass_rate r,
     qr_gate_passed = gr_gate_passed r\<rparr>"

text \<open>
  The gate of a required preset fails only for a missing run, and it agrees with the gate of the
  test run: a run recorded with the rates of its own gate passes it exactly when it passed that gate.
\<close>

theorem quality_gate_agrees:
  assumes "0 \<le> gi_risk_total g" and "runs preset = Some (run_of_gate (evaluate_gate g))"
  shows "\<exists>r. evaluate_required_preset_gate runs preset = Inr r
    \<and> (rg_passed r \<longleftrightarrow> gr_gate_passed (evaluate_gate g))
    \<and> (runs other = None \<longleftrightarrow> evaluate_required_preset_gate runs other = Inl (Missing_Required_Preset other))"
proof -
  have "evaluate_required_preset_gate runs other = Inl (Missing_Required_Preset other) \<longleftrightarrow> runs other = None"
    by (cases "runs other") (simp_all add: evaluate_required_preset_gate_def Let_def)
  then show ?thesis
    using assms(2) gate_passed_rates [OF _ assms(1)]
    by (auto simp: evaluate_required_preset_gate_def run_of_gate_def Let_def)
qed

definition sample_gate_input :: gate_input where
  "sample_gate_input = \<lparr>gi_total = 10, gi_passed = 7, gi_review = 1, gi_risk_total = 3,
     gi_risk_passed = 3, gi_require_risk_cases = True\<rparr>"

theorem quality_gate_agrees_witness:
  "\<exists>r. evaluate_required_preset_gate
      ((\<lambda>_. None)(lit ''strict'' := Some (run_of_gate (evaluate_gate sample_gate_input)))) (lit ''strict'') = Inr r
    \<and> (rg_passed r \<longleftrightarrow> gr_gate_passed (evaluate_gate sample_gate_input))"
proof -
  have "0 \<le> gi_risk_total sample_gate_input"
    by (simp add: sample_gate_input_def)
  then show ?thesis
    using quality_gate_agrees [of sample_gate_input
        "(\<lambda>_. None)(lit ''strict'' := Some (run_of_gate (evaluate_gate sample_gate_input)))" "lit ''strict''"]
    by auto
qed

end
