(* ===== verification/Csv_Reader.thy ===== *)
theory Csv_Reader
  imports Py_Text
begin

text \<open>
  What the test-case parsers use of Python's \<open>csv\<close> module: the state machine of the reader for the
  default dialect (comma, double quote, doubled quotes, not strict), the lines a \<open>StringIO\<close> yields,
  and the minimal quoting of a writer, against which the reader is proved correct.
\<close>

section \<open>The reader\<close>

datatype csv_state = Start_Record | Start_Field | In_Field | In_Quoted_Field
  | Quote_In_Quoted_Field | Eat_Crnl

datatype csv_error = Newline_In_Unquoted_Field | Field_Larger_Than_Limit

text \<open>A configuration: the state, the field being read, and the fields already read.\<close>

type_synonym csv_config = "csv_state \<times> str \<times> str list"

definition field_limit :: nat where "field_limit = 131072"

definition csv_reset :: csv_config where "csv_reset = (Start_Record, [], [])"

text \<open>The input of one step is a character, or \<open>None\<close> at the end of a line.\<close>

definition is_eol :: "nat option \<Rightarrow> bool" where
  "is_eol c \<longleftrightarrow> c = None \<or> c = Some 10 \<or> c = Some 13"

definition eol_state :: "nat option \<Rightarrow> csv_state" where
  "eol_state c = (if c = None then Start_Record else Eat_Crnl)"

definition csv_add :: "nat option \<Rightarrow> csv_state \<Rightarrow> str \<Rightarrow> str list \<Rightarrow> (csv_error, csv_config) outcome" where
  "csv_add c st f fs = (case c of
     None \<Rightarrow> Inr (st, f, fs)
   | Some ch \<Rightarrow> if field_limit \<le> length f then Inl Field_Larger_Than_Limit else Inr (st, f @ [ch], fs))"

definition csv_start_field :: "nat option \<Rightarrow> str \<Rightarrow> str list \<Rightarrow> (csv_error, csv_config) outcome" where
  "csv_start_field c f fs =
     (if is_eol c then Inr (eol_state c, [], fs @ [f])
      else if c = Some 34 then Inr (In_Quoted_Field, f, fs)
      else if c = Some 44 then Inr (Start_Field, [], fs @ [f])
      else csv_add c In_Field f fs)"

fun csv_char :: "nat option \<Rightarrow> csv_config \<Rightarrow> (csv_error, csv_config) outcome" where
  "csv_char c (Start_Record, f, fs) =
     (if c = None then Inr (Start_Record, f, fs)
      else if is_eol c then Inr (Eat_Crnl, f, fs)
      else csv_start_field c f fs)"
| "csv_char c (Start_Field, f, fs) = csv_start_field c f fs"
| "csv_char c (In_Field, f, fs) =
     (if is_eol c then Inr (eol_state c, [], fs @ [f])
      else if c = Some 44 then Inr (Start_Field, [], fs @ [f])
      else csv_add c In_Field f fs)"
| "csv_char c (In_Quoted_Field, f, fs) =
     (if c = None then Inr (In_Quoted_Field, f, fs)
      else if c = Some 34 then Inr (Quote_In_Quoted_Field, f, fs)
      else csv_add c In_Quoted_Field f fs)"
| "csv_char c (Quote_In_Quoted_Field, f, fs) =
     (if c = Some 34 then csv_add c In_Quoted_Field f fs
      else if c = Some 44 then Inr (Start_Field, [], fs @ [f])
      else if is_eol c then Inr (eol_state c, [], fs @ [f])
      else csv_add c In_Field f fs)"
| "csv_char c (Eat_Crnl, f, fs) =
     (if c = None then Inr (Start_Record, f, fs)
      else if is_eol c then Inr (Eat_Crnl, f, fs)
      else Inl Newline_In_Unquoted_Field)"

fun csv_chars :: "str \<Rightarrow> csv_config \<Rightarrow> (csv_error, csv_config) outcome" where
  "csv_chars [] cfg = Inr cfg"
| "csv_chars (c # cs) cfg = bindE (csv_char (Some c) cfg) (csv_chars cs)"

definition csv_line :: "str \<Rightarrow> csv_config \<Rightarrow> (csv_error, csv_config) outcome" where
  "csv_line l cfg = bindE (csv_chars l cfg) (csv_char None)"

text \<open>
  The rows the reader yields, in order; an error is the last element, because the iteration raises
  there. When the lines are exhausted inside a record, the record is closed as it stands.
\<close>

fun csv_rows :: "csv_config \<Rightarrow> str list \<Rightarrow> (csv_error, str list) outcome list" where
  "csv_rows (st, f, fs) [] = (if f \<noteq> [] \<or> st = In_Quoted_Field then [Inr (fs @ [f])] else [])"
| "csv_rows cfg (l # ls) = (case csv_line l cfg of
     Inl e \<Rightarrow> [Inl e]
   | Inr (st, f, fs) \<Rightarrow>
       if st = Start_Record then Inr fs # csv_rows csv_reset ls else csv_rows (st, f, fs) ls)"

text \<open>The lines of a \<open>StringIO\<close>: each keeps its line feed, which alone ends a line.\<close>

fun lines_of :: "str \<Rightarrow> str list" where
  "lines_of [] = []"
| "lines_of (c # cs) =
     (if c = 10 then [c] # lines_of cs
      else case lines_of cs of [] \<Rightarrow> [[c]] | l # ls \<Rightarrow> (c # l) # ls)"

definition csv_reader :: "str \<Rightarrow> (csv_error, str list) outcome list" where
  "csv_reader text = csv_rows csv_reset (lines_of text)"

lemma concat_lines: "concat (lines_of s) = s"
  by (induction s) (auto split: list.splits)

section \<open>A writer\<close>

text \<open>
  Minimal quoting: a field with a delimiter, a quote or a line break is quoted, with its quotes
  doubled. A row whose only field is empty is not written bare, because that is a blank line.
\<close>

definition plain_char :: "nat \<Rightarrow> bool" where
  "plain_char c \<longleftrightarrow> c \<noteq> 10 \<and> c \<noteq> 13 \<and> c \<noteq> 34 \<and> c \<noteq> 44"

definition double_quotes :: "str \<Rightarrow> str" where
  "double_quotes s = concat (map (\<lambda>c. if c = 34 then [34, 34] else [c]) s)"

definition csv_field :: "str \<Rightarrow> str" where
  "csv_field s = (if s \<noteq> [] \<and> list_all plain_char s then s else [34] @ double_quotes s @ [34])"

definition csv_row :: "str list \<Rightarrow> str" where
  "csv_row fields = join_with [44] (map csv_field fields)"

definition csv_text :: "str list list \<Rightarrow> str" where
  "csv_text rows = concat (map (\<lambda>r. csv_row r @ [10]) rows)"

section \<open>The reader reads back what the writer wrote\<close>

text \<open>One character at a time, across line boundaries.\<close>

lemma rows_char:
  "c \<noteq> 10 \<Longrightarrow> s \<noteq> [] \<Longrightarrow> csv_rows cfg (lines_of (c # s)) =
    (case csv_char (Some c) cfg of Inl e \<Rightarrow> [Inl e] | Inr cfg' \<Rightarrow> csv_rows cfg' (lines_of s))"
proof -
  assume c: "c \<noteq> 10" and "s \<noteq> []"
  then obtain l ls where ls: "lines_of s = l # ls"
    by (metis concat.simps(1) concat_lines neq_Nil_conv)
  obtain st f fs where cfg: "cfg = (st, f, fs)"
    by (cases cfg)
  show ?thesis
  proof (cases "csv_char (Some c) cfg")
    case (Inl e)
    then show ?thesis
      using c ls by (simp add: cfg csv_line_def)
  next
    case (Inr cfg')
    then show ?thesis
      using c ls by (cases cfg') (simp add: cfg csv_line_def)
  qed
qed

lemma rows_newline:
  "csv_rows cfg (lines_of (10 # s)) =
    (case bindE (csv_char (Some 10) cfg) (csv_char None) of
       Inl e \<Rightarrow> [Inl e]
     | Inr (st, f, fs) \<Rightarrow>
         if st = Start_Record then Inr fs # csv_rows csv_reset (lines_of s)
         else csv_rows (st, f, fs) (lines_of s))"
  by (cases cfg) (cases "csv_char (Some 10) cfg", simp_all add: csv_line_def)

lemma rows_quoted:
  "length f + length x \<le> field_limit \<Longrightarrow> t \<noteq> [] \<Longrightarrow>
    csv_rows (In_Quoted_Field, f, fs) (lines_of (double_quotes x @ 34 # t)) =
    csv_rows (Quote_In_Quoted_Field, f @ x, fs) (lines_of t)"
proof (induction x arbitrary: f)
  case Nil
  then show ?case by (simp add: double_quotes_def rows_char del: lines_of.simps)
next
  case (Cons c x)
  have f: "\<not> field_limit \<le> length f" "length (f @ [c]) + length x \<le> field_limit"
    using Cons.prems(1) by simp_all
  have IH: "csv_rows (In_Quoted_Field, f @ [c], fs) (lines_of (double_quotes x @ 34 # t)) =
      csv_rows (Quote_In_Quoted_Field, f @ c # x, fs) (lines_of t)"
    using Cons.IH [OF f(2) Cons.prems(2)] by simp
  have dq: "double_quotes (c # x) = (if c = 34 then [34, 34] else [c]) @ double_quotes x"
    by (simp add: double_quotes_def)
  show ?case
  proof (cases "c = 10")
    case True
    with f IH show ?thesis
      unfolding dq by (simp add: rows_newline csv_add_def del: lines_of.simps)
  next
    case False
    with f IH show ?thesis
      unfolding dq by (cases "c = 34") (simp_all add: rows_char csv_add_def del: lines_of.simps)
  qed
qed

lemma rows_plain:
  "length f + length x \<le> field_limit \<Longrightarrow> list_all plain_char x \<Longrightarrow> t \<noteq> [] \<Longrightarrow>
    csv_rows (In_Field, f, fs) (lines_of (x @ t)) = csv_rows (In_Field, f @ x, fs) (lines_of t)"
proof (induction x arbitrary: f)
  case Nil
  then show ?case by simp
next
  case (Cons c x)
  then show ?case
    using Cons.IH [of "f @ [c]"]
    by (simp add: rows_char csv_add_def plain_char_def is_eol_def del: lines_of.simps)
qed

lemma rows_field:
  assumes "length x \<le> field_limit" and "st = Start_Record \<or> st = Start_Field"
  shows "t \<noteq> [] \<Longrightarrow> csv_rows (st, [], fs) (lines_of (csv_field x @ 44 # t)) =
      csv_rows (Start_Field, [], fs @ [x]) (lines_of t)"
    and "csv_rows (st, [], fs) (lines_of (csv_field x @ 10 # t)) =
      Inr (fs @ [x]) # csv_rows csv_reset (lines_of t)"
proof -
  have quoted: "csv_rows (st, [], fs) (lines_of ([34] @ double_quotes x @ [34] @ u)) =
      csv_rows (Quote_In_Quoted_Field, x, fs) (lines_of u)" if "u \<noteq> []" for u
    using that assms rows_quoted [of "[]" x u fs]
    by (auto simp: rows_char csv_start_field_def is_eol_def simp del: lines_of.simps)
  have plain: "csv_rows (st, [], fs) (lines_of (x @ u)) = csv_rows (In_Field, x, fs) (lines_of u)"
    if x_ne: "x \<noteq> []" and "list_all plain_char x" "u \<noteq> []" for u
  proof -
    obtain c y where x: "x = c # y" using x_ne by (cases x) auto
    have "\<not> field_limit \<le> length ([] :: str)" by (simp add: field_limit_def)
    then show ?thesis
      using that assms rows_plain [of "[c]" y u fs] unfolding x
      by (auto simp: rows_char csv_start_field_def is_eol_def plain_char_def csv_add_def
        simp del: lines_of.simps)
  qed
  show "csv_rows (st, [], fs) (lines_of (csv_field x @ 44 # t)) =
      csv_rows (Start_Field, [], fs @ [x]) (lines_of t)" if "t \<noteq> []"
    using that quoted [of "44 # t"] plain [of "44 # t"]
    by (auto simp: csv_field_def rows_char is_eol_def simp del: lines_of.simps)
  show "csv_rows (st, [], fs) (lines_of (csv_field x @ 10 # t)) =
      Inr (fs @ [x]) # csv_rows csv_reset (lines_of t)"
    using quoted [of "10 # t"] plain [of "10 # t"]
    by (auto simp: csv_field_def rows_newline is_eol_def eol_state_def simp del: lines_of.simps)
qed

lemma rows_row:
  "r \<noteq> [] \<Longrightarrow> \<forall>x \<in> set r. length x \<le> field_limit \<Longrightarrow> st = Start_Record \<or> st = Start_Field \<Longrightarrow>
    csv_rows (st, [], fs) (lines_of (csv_row r @ 10 # t)) = Inr (fs @ r) # csv_rows csv_reset (lines_of t)"
proof (induction r arbitrary: st fs)
  case Nil
  then show ?case by simp
next
  case (Cons x r)
  show ?case
  proof (cases r)
    case Nil
    then show ?thesis
      using Cons.prems rows_field(2) [of x st fs t] by (simp add: csv_row_def del: lines_of.simps)
  next
    case (Cons y ys)
    then have "csv_row (x # r) @ 10 # t = csv_field x @ 44 # (csv_row r @ 10 # t)"
      by (simp add: csv_row_def)
    then show ?thesis
      using Cons.prems rows_field(1) [of x st "csv_row r @ 10 # t" fs] Cons.IH [of Start_Field "fs @ [x]"] Cons
      by (simp del: lines_of.simps)
  qed
qed

theorem reader_writer:
  "\<forall>r \<in> set rows. r \<noteq> [] \<and> (\<forall>x \<in> set r. length x \<le> field_limit) \<Longrightarrow>
    csv_reader (csv_text rows) = map Inr rows"
proof -
  have "csv_rows csv_reset (lines_of (csv_text rows)) = map Inr rows"
    if "\<forall>r \<in> set rows. r \<noteq> [] \<and> (\<forall>x \<in> set r. length x \<le> field_limit)"
    using that
  proof (induction rows)
    case Nil
    then show ?case by (simp add: csv_text_def csv_reset_def)
  next
    case (Cons r rows)
    then show ?case
      using rows_row [of r Start_Record "[]" "csv_text rows"]
      by (simp add: csv_text_def csv_reset_def del: lines_of.simps)
  qed
  then show "\<forall>r \<in> set rows. r \<noteq> [] \<and> (\<forall>x \<in> set r. length x \<le> field_limit) \<Longrightarrow>
      csv_reader (csv_text rows) = map Inr rows"
    by (simp add: csv_reader_def)
qed

end
