(* ===== verification/Csv_Cases.thy ===== *)
theory Csv_Cases
  imports Csv_Reader Domain_Schemas Json
begin

text \<open>
  The test-case files of \<open>src/intent_routing/testing\<close>: the classification, legacy and risk formats
  (\<open>csv_runner.py\<close>, \<open>risk_pack.py\<close>), the completion of expected route keys from a catalog
  snapshot and the merge of the two case lists. A parser consumes the rows of the reader lazily, so a
  validation error of an earlier row wins over a reader error of a later one.
\<close>

section \<open>Cases and errors\<close>

record parsed_test_case =
  tc_case_id :: str
  tc_query :: str
  tc_expected_intent :: "str option"
  tc_case_type :: str
  tc_memo :: str
  tc_expected_decision :: decision
  tc_expected_route_key :: "str option"

datatype csv_validation_error =
    Csv_Columns "str list"
  | Row_Columns nat
  | Value_Required nat str
  | Duplicate_Case_Id nat str
  | Unknown_Case_Type nat str
  | Expected_Intent_Required nat
  | Expected_Intent_Not_Empty nat
  | No_Test_Cases
  | Duplicate_Merged_Case_Id str
  | Intent_Not_In_Catalog str str
  | Risk_Policy_Disabled
  | No_Ready_Vector_Index
  | In_Source str csv_validation_error
  | Csv_Reader_Error csv_error

definition classification_csv_columns :: "str list" where
  "classification_csv_columns = [lit ''case_id'', lit ''query'', lit ''expected_intent'', lit ''memo'']"

definition legacy_csv_columns :: "str list" where
  "legacy_csv_columns =
     [lit ''case_id'', lit ''query'', lit ''expected_intent'', lit ''case_type'', lit ''memo'']"

definition risk_csv_columns :: "str list" where
  "risk_csv_columns = [lit ''case_id'', lit ''query'', lit ''memo'']"

definition expected_decisions :: "(str \<times> decision) list" where
  "expected_decisions =
     [(lit ''positive'', Confident), (lit ''confusing'', Confident), (lit ''clarify'', Clarify),
      (lit ''risk'', Risk), (lit ''off_topic'', Off_Topic), (lit ''fallback'', Fallback)]"

section \<open>Dictionary rows\<close>

text \<open>
  \<open>DictReader\<close>: the first row names the columns (none when the file is empty); blank rows are
  skipped; a short row has \<open>None\<close> for the missing columns, a long one has the key \<open>None\<close>.
\<close>

definition fieldnames :: "(csv_error, str list) outcome list \<Rightarrow> (csv_validation_error, str list option) outcome" where
  "fieldnames rows = (case rows of
     [] \<Rightarrow> Inr None
   | Inl e # _ \<Rightarrow> Inl (Csv_Reader_Error e)
   | Inr r # _ \<Rightarrow> Inr (Some r))"

definition row_get :: "str list \<Rightarrow> str list \<Rightarrow> str \<Rightarrow> str option" where
  "row_get columns row column = map_of (zip columns row) column"

definition row_or_empty :: "str list \<Rightarrow> str list \<Rightarrow> str \<Rightarrow> str" where
  "row_or_empty columns row column = (case row_get columns row column of Some v \<Rightarrow> v | None \<Rightarrow> [])"

definition required :: "str option \<Rightarrow> nat \<Rightarrow> str \<Rightarrow> (csv_validation_error, str) outcome" where
  "required v row_number column =
     (let stripped = strip (case v of Some s \<Rightarrow> s | None \<Rightarrow> []) in
      if stripped = [] then Inl (Value_Required row_number column) else Inr stripped)"

text \<open>
  The loop the three parsers share: rows are numbered from two, blank rows are not counted, and the
  identifiers seen so far are threaded through.
\<close>

type_synonym row_parser = "nat \<Rightarrow> str list \<Rightarrow> str list \<Rightarrow> (csv_validation_error, parsed_test_case) outcome"

fun parse_rows ::
  "row_parser \<Rightarrow> nat \<Rightarrow> str list \<Rightarrow> (csv_error, str list) outcome list
    \<Rightarrow> (csv_validation_error, parsed_test_case list) outcome" where
  "parse_rows parse_row n seen [] = Inr []"
| "parse_rows parse_row n seen (Inl e # rows) = Inl (Csv_Reader_Error e)"
| "parse_rows parse_row n seen (Inr row # rows) =
     (if row = [] then parse_rows parse_row n seen rows
      else bindE (parse_row n seen row) (\<lambda>c.
        bindE (parse_rows parse_row (n + 1) (tc_case_id c # seen) rows) (\<lambda>cs. Inr (c # cs))))"

definition nonempty_cases ::
  "parsed_test_case list \<Rightarrow> (csv_validation_error, parsed_test_case list) outcome" where
  "nonempty_cases cases = bindE (require (cases \<noteq> []) No_Test_Cases) (\<lambda>_. Inr cases)"

section \<open>The three formats\<close>

definition classification_row :: row_parser where
  "classification_row n seen row =
     (let cols = classification_csv_columns in
      bindE (require (length row \<le> length cols) (Row_Columns n)) (\<lambda>_.
      bindE (required (row_get cols row (lit ''case_id'')) n (lit ''case_id'')) (\<lambda>case_id.
      bindE (required (row_get cols row (lit ''query'')) n (lit ''query'')) (\<lambda>query.
      bindE (required (row_get cols row (lit ''expected_intent'')) n (lit ''expected_intent'')) (\<lambda>intent.
      bindE (required (row_get cols row (lit ''memo'')) n (lit ''memo'')) (\<lambda>memo.
      bindE (require (case_id \<notin> set seen) (Duplicate_Case_Id n case_id)) (\<lambda>_.
      Inr \<lparr>tc_case_id = case_id, tc_query = query, tc_expected_intent = Some intent,
           tc_case_type = lit ''positive'', tc_memo = memo, tc_expected_decision = Confident,
           tc_expected_route_key = None\<rparr>)))))))"

definition legacy_row :: row_parser where
  "legacy_row n seen row =
     (let cols = legacy_csv_columns in
      bindE (require (length row \<le> length cols) (Row_Columns n)) (\<lambda>_.
      bindE (required (row_get cols row (lit ''case_id'')) n (lit ''case_id'')) (\<lambda>case_id.
      bindE (required (row_get cols row (lit ''query'')) n (lit ''query'')) (\<lambda>query.
      let raw_expected_intent = strip (row_or_empty cols row (lit ''expected_intent''));
          case_type = strip (row_or_empty cols row (lit ''case_type'')) in
      bindE (required (row_get cols row (lit ''memo'')) n (lit ''memo'')) (\<lambda>memo.
      bindE (require (case_id \<notin> set seen) (Duplicate_Case_Id n case_id)) (\<lambda>_.
      bindE (some_or (map_of expected_decisions case_type) (Unknown_Case_Type n case_type)) (\<lambda>expected_decision.
      bindE (if case_type \<in> {lit ''positive'', lit ''confusing''}
             then bindE (require (raw_expected_intent \<noteq> []) (Expected_Intent_Required n))
                    (\<lambda>_. Inr (Some raw_expected_intent))
             else bindE (require (raw_expected_intent = []) (Expected_Intent_Not_Empty n))
                    (\<lambda>_. Inr None)) (\<lambda>expected_intent.
      Inr \<lparr>tc_case_id = case_id, tc_query = query, tc_expected_intent = expected_intent,
           tc_case_type = case_type, tc_memo = memo, tc_expected_decision = expected_decision,
           tc_expected_route_key = None\<rparr>))))))))"

definition risk_row :: "str \<Rightarrow> row_parser" where
  "risk_row source n seen row =
     (let cols = risk_csv_columns in
      lift_error (In_Source source) (
      bindE (require (length row \<le> length cols) (Row_Columns n)) (\<lambda>_.
      bindE (required (row_get cols row (lit ''case_id'')) n (lit ''case_id'')) (\<lambda>case_id.
      bindE (required (row_get cols row (lit ''query'')) n (lit ''query'')) (\<lambda>query.
      bindE (required (row_get cols row (lit ''memo'')) n (lit ''memo'')) (\<lambda>memo.
      bindE (require (case_id \<notin> set seen) (Duplicate_Case_Id n case_id)) (\<lambda>_.
      Inr \<lparr>tc_case_id = case_id, tc_query = query, tc_expected_intent = None,
           tc_case_type = lit ''risk'', tc_memo = memo, tc_expected_decision = Risk,
           tc_expected_route_key = None\<rparr>)))))))"

definition parse_test_cases_csv :: "str \<Rightarrow> (csv_validation_error, parsed_test_case list) outcome" where
  "parse_test_cases_csv text =
     (let rows = csv_reader text in
      bindE (fieldnames rows) (\<lambda>names.
        if names = Some classification_csv_columns then
          bindE (parse_rows classification_row 2 [] (tl rows)) nonempty_cases
        else if names = Some legacy_csv_columns then
          bindE (parse_rows legacy_row 2 [] (tl rows)) nonempty_cases
        else Inl (Csv_Columns classification_csv_columns)))"

definition is_classification_csv :: "str \<Rightarrow> (csv_validation_error, bool) outcome" where
  "is_classification_csv text =
     bindE (fieldnames (csv_reader text)) (\<lambda>names. Inr (names = Some classification_csv_columns))"

definition parse_risk_cases_csv ::
  "str \<Rightarrow> str \<Rightarrow> (csv_validation_error, parsed_test_case list) outcome" where
  "parse_risk_cases_csv text source =
     (let rows = csv_reader text in
      bindE (fieldnames rows) (\<lambda>names.
      bindE (require (names = Some risk_csv_columns) (In_Source source (Csv_Columns risk_csv_columns))) (\<lambda>_.
      bindE (parse_rows (risk_row source) 2 [] (tl rows)) (\<lambda>cases.
      lift_error (In_Source source) (nonempty_cases cases)))))"

section \<open>Merging and completing cases\<close>

fun first_duplicate :: "str list \<Rightarrow> str list \<Rightarrow> str option" where
  "first_duplicate seen [] = None"
| "first_duplicate seen (x # xs) = (if x \<in> set seen then Some x else first_duplicate (x # seen) xs)"

definition merge_test_cases ::
  "parsed_test_case list \<Rightarrow> parsed_test_case list \<Rightarrow> (csv_validation_error, parsed_test_case list) outcome" where
  "merge_test_cases classification_cases risk_cases =
     (let merged = classification_cases @ risk_cases in
      case first_duplicate [] (map tc_case_id merged) of
        Some d \<Rightarrow> Inl (Duplicate_Merged_Case_Id d) | None \<Rightarrow> Inr merged)"

definition intent_route_key :: "json \<Rightarrow> (str \<times> str) option" where
  "intent_route_key item = (case item of
     JObj d \<Rightarrow> (case (as_str (get d (lit ''intent_id'')), as_str (get d (lit ''route_key''))) of
        (Some i, Some r) \<Rightarrow> Some (i, r) | _ \<Rightarrow> None)
   | _ \<Rightarrow> None)"

definition expected_route_keys_by_intent :: "json \<Rightarrow> (str, str) dict" where
  "expected_route_keys_by_intent snapshot = (case snapshot of
     JObj d \<Rightarrow> (case get d (lit ''intents'') of
        JArr items \<Rightarrow> dict_of (List.map_filter intent_route_key items) | _ \<Rightarrow> [])
   | _ \<Rightarrow> [])"

definition hydrate_case ::
  "(str, str) dict \<Rightarrow> parsed_test_case \<Rightarrow> (csv_validation_error, parsed_test_case) outcome" where
  "hydrate_case route_keys c = (case tc_expected_intent c of
     None \<Rightarrow> Inr c
   | Some i \<Rightarrow> bindE (some_or (map_of route_keys i) (Intent_Not_In_Catalog (tc_case_id c) i))
       (\<lambda>r. Inr (c\<lparr>tc_expected_route_key := Some r\<rparr>)))"

definition hydrate_expected_route_keys ::
  "parsed_test_case list \<Rightarrow> json \<Rightarrow> (csv_validation_error, parsed_test_case list) outcome" where
  "hydrate_expected_route_keys cases snapshot =
     mapE (hydrate_case (expected_route_keys_by_intent snapshot)) cases"

section \<open>What a format promises\<close>

text \<open>
  The parsing loop serves any row parser that refuses an identifier it has seen and produces only
  cases of a given kind.
\<close>

locale case_format =
  fixes parse_row :: row_parser and kind :: "parsed_test_case \<Rightarrow> bool"
  assumes fresh: "parse_row n seen row = Inr c \<Longrightarrow> tc_case_id c \<notin> set seen"
    and of_kind: "parse_row n seen row = Inr c \<Longrightarrow> kind c"
begin

lemma rows_distinct:
  "parse_rows parse_row n seen rows = Inr cs \<Longrightarrow>
    distinct (map tc_case_id cs) \<and> set (map tc_case_id cs) \<inter> set seen = {}"
proof (induction rows arbitrary: n seen cs)
  case Nil
  then show ?case by simp
next
  case (Cons r rows)
  show ?case
  proof (cases "\<exists>row. r = Inr row \<and> row \<noteq> []")
    case False
    with Cons.prems Cons.IH show ?thesis by (cases r) auto
  next
    case True
    then obtain row where r: "r = Inr row" "row \<noteq> []" by blast
    with Cons.prems obtain c cs' where c: "parse_row n seen row = Inr c" "cs = c # cs'"
      and rest: "parse_rows parse_row (n + 1) (tc_case_id c # seen) rows = Inr cs'"
      by (auto simp: raise_simps)
    from Cons.IH [OF rest] fresh [OF c(1)] c(2) show ?thesis by auto
  qed
qed

lemma rows_kind: "parse_rows parse_row n seen rows = Inr cs \<Longrightarrow> c \<in> set cs \<Longrightarrow> kind c"
proof (induction rows arbitrary: n seen cs)
  case Nil
  then show ?case by simp
next
  case (Cons r rows)
  then show ?case
    by (cases r) (auto simp: raise_simps dest!: of_kind dest: Cons.IH split: if_splits)
qed

lemma rows_nonempty:
  assumes "bindE (parse_rows parse_row n [] rows) nonempty_cases = Inr cs"
  shows "cs \<noteq> [] \<and> distinct (map tc_case_id cs) \<and> (\<forall>c \<in> set cs. kind c)"
  using assms rows_distinct [of n "[]" rows] rows_kind [of n "[]" rows]
  by (auto simp: nonempty_cases_def raise_simps)

end

text \<open>The kinds: every text is stripped and not empty, and the expectation fits the case type.\<close>

definition stripped :: "str \<Rightarrow> bool" where
  "stripped s \<longleftrightarrow> s \<noteq> [] \<and> strip s = s"

definition well_formed_case :: "parsed_test_case \<Rightarrow> bool" where
  "well_formed_case c \<longleftrightarrow>
     stripped (tc_case_id c) \<and> stripped (tc_query c) \<and> stripped (tc_memo c)
     \<and> map_of expected_decisions (tc_case_type c) = Some (tc_expected_decision c)
     \<and> (case tc_expected_intent c of Some i \<Rightarrow> stripped i | None \<Rightarrow> True)
     \<and> (tc_expected_intent c \<noteq> None \<longleftrightarrow> tc_expected_decision c = Confident)
     \<and> tc_expected_route_key c = None"

definition risk_case :: "parsed_test_case \<Rightarrow> bool" where
  "risk_case c \<longleftrightarrow> well_formed_case c \<and> tc_case_type c = lit ''risk''"

lemma required_stripped: "required v n col = Inr s \<Longrightarrow> stripped s"
  by (auto simp: required_def stripped_def Let_def split: if_splits)

lemma strip_stripped: "strip s \<noteq> [] \<Longrightarrow> stripped (strip s)"
  by (simp add: stripped_def)

lemma expected_decisions_lookup:
  "map_of expected_decisions (lit ''positive'') = Some Confident"
  "map_of expected_decisions (lit ''confusing'') = Some Confident"
  "map_of expected_decisions (lit ''risk'') = Some Risk"
  "map_of expected_decisions t = Some Confident \<longleftrightarrow> t = lit ''positive'' \<or> t = lit ''confusing''"
  by (auto simp: expected_decisions_def lit_def)

interpretation classification: case_format classification_row well_formed_case
proof
  fix n seen row c
  assume "classification_row n seen row = Inr c"
  then show "tc_case_id c \<notin> set seen" "well_formed_case c"
    by (auto simp: classification_row_def Let_def raise_simps well_formed_case_def
        expected_decisions_lookup dest: required_stripped)
qed

interpretation legacy: case_format legacy_row well_formed_case
proof
  fix n seen row c
  assume "legacy_row n seen row = Inr c"
  then show "tc_case_id c \<notin> set seen" "well_formed_case c"
    by (auto simp: legacy_row_def Let_def raise_simps well_formed_case_def expected_decisions_lookup
        strip_stripped dest: required_stripped split: if_splits)
qed

interpretation risk: case_format "risk_row source" risk_case for source
proof
  fix n seen row c
  assume "risk_row source n seen row = Inr c"
  then show "tc_case_id c \<notin> set seen" "risk_case c"
    by (auto simp: risk_row_def Let_def raise_simps well_formed_case_def risk_case_def
        expected_decisions_lookup dest: required_stripped)
qed

lemma test_cases_parsed:
  assumes "parse_test_cases_csv text = Inr cs"
  shows "cs \<noteq> [] \<and> distinct (map tc_case_id cs) \<and> (\<forall>c \<in> set cs. well_formed_case c)"
proof -
  have "bindE (parse_rows classification_row 2 [] (tl (csv_reader text))) nonempty_cases = Inr cs
      \<or> bindE (parse_rows legacy_row 2 [] (tl (csv_reader text))) nonempty_cases = Inr cs"
    using assms unfolding parse_test_cases_csv_def Let_def bindE_Inr [of "fieldnames (csv_reader text)"]
    by (auto simp del: bindE_simps split: if_splits)
  then show ?thesis using classification.rows_nonempty legacy.rows_nonempty by blast
qed

lemma risk_cases_parsed:
  assumes "parse_risk_cases_csv text source = Inr cs"
  shows "cs \<noteq> [] \<and> distinct (map tc_case_id cs) \<and> (\<forall>c \<in> set cs. risk_case c)"
proof -
  have "bindE (parse_rows (risk_row source) 2 [] (tl (csv_reader text))) nonempty_cases = Inr cs"
    using assms by (auto simp: parse_risk_cases_csv_def Let_def raise_simps)
  then show ?thesis using risk.rows_nonempty by blast
qed

text \<open>
  A test-case file that is accepted, in either format, yields at least one case; the case
  identifiers are distinct, every text is stripped and not blank, the expected decision is the one of the
  case type, and an intent is expected exactly of cases expected to be confident. The same holds of risk
  files, whose cases are all risk cases.
\<close>

theorem parsed_cases_well_formed:
  "(parse_test_cases_csv text = Inr cs \<longrightarrow>
      cs \<noteq> [] \<and> distinct (map tc_case_id cs) \<and> (\<forall>c \<in> set cs. well_formed_case c))
   \<and> (parse_risk_cases_csv text source = Inr cs \<longrightarrow>
      cs \<noteq> [] \<and> distinct (map tc_case_id cs) \<and> (\<forall>c \<in> set cs. risk_case c))"
  using test_cases_parsed risk_cases_parsed by blast

section \<open>Round trip of the classification format\<close>

definition classification_fields :: "parsed_test_case \<Rightarrow> str list" where
  "classification_fields c =
     [tc_case_id c, tc_query c, (case tc_expected_intent c of Some i \<Rightarrow> i | None \<Rightarrow> []), tc_memo c]"

definition write_classification_csv :: "parsed_test_case list \<Rightarrow> str" where
  "write_classification_csv cs = csv_text (classification_csv_columns # map classification_fields cs)"

definition classification_case :: "parsed_test_case \<Rightarrow> bool" where
  "classification_case c \<longleftrightarrow> well_formed_case c \<and> tc_case_type c = lit ''positive''
     \<and> list_all (\<lambda>f. length f \<le> field_limit) (classification_fields c)"

lemma classification_row_written:
  assumes "classification_case c" and "tc_case_id c \<notin> set seen"
  shows "classification_row n seen (classification_fields c) = Inr c"
proof -
  obtain i where i: "tc_expected_intent c = Some i"
    using assms(1) by (auto simp: classification_case_def well_formed_case_def expected_decisions_lookup)
  have get: "row_get classification_csv_columns (classification_fields c) (lit ''case_id'') = Some (tc_case_id c)"
    "row_get classification_csv_columns (classification_fields c) (lit ''query'') = Some (tc_query c)"
    "row_get classification_csv_columns (classification_fields c) (lit ''expected_intent'') = Some i"
    "row_get classification_csv_columns (classification_fields c) (lit ''memo'') = Some (tc_memo c)"
    by (simp_all add: row_get_def classification_csv_columns_def classification_fields_def i lit_def)
  have ok: "required (Some s) n col = Inr s" if "stripped s" for s col
    using that by (simp add: required_def stripped_def)
  have "length (classification_fields c) \<le> length classification_csv_columns"
    by (simp add: classification_fields_def classification_csv_columns_def)
  moreover have "stripped (tc_case_id c)" "stripped (tc_query c)" "stripped i" "stripped (tc_memo c)"
      "tc_expected_decision c = Confident" "tc_case_type c = lit ''positive''" "tc_expected_route_key c = None"
    using assms(1) i by (auto simp: classification_case_def well_formed_case_def expected_decisions_lookup)
  ultimately show ?thesis
    using assms(2) i by (simp add: classification_row_def Let_def get ok)
qed

lemma parse_rows_written:
  "list_all classification_case cs \<Longrightarrow> distinct (map tc_case_id cs) \<Longrightarrow>
    set (map tc_case_id cs) \<inter> set seen = {} \<Longrightarrow>
    parse_rows classification_row n seen (map Inr (map classification_fields cs)) = Inr cs"
proof (induction cs arbitrary: n seen)
  case Nil
  then show ?case by simp
next
  case (Cons c cs)
  then have "classification_row n seen (classification_fields c) = Inr c"
    by (intro classification_row_written) auto
  moreover have "parse_rows classification_row (n + 1) (tc_case_id c # seen)
      (map Inr (map classification_fields cs)) = Inr cs"
    by (rule Cons.IH) (use Cons.prems in auto)
  moreover have "classification_fields c \<noteq> []"
    by (simp add: classification_fields_def)
  ultimately show ?case by simp
qed

text \<open>
  Writing classification cases as CSV (with commas, quotes and line breaks inside fields) and
  parsing the text gives back exactly those cases, in order.
\<close>

theorem classification_csv_roundtrip:
  assumes "cs \<noteq> []" and "list_all classification_case cs" and "distinct (map tc_case_id cs)"
  shows "parse_test_cases_csv (write_classification_csv cs) = Inr cs"
proof -
  have "\<forall>r \<in> set (classification_csv_columns # map classification_fields cs).
      r \<noteq> [] \<and> (\<forall>x \<in> set r. length x \<le> field_limit)"
    using assms(2)
    by (auto simp: list_all_iff classification_case_def classification_csv_columns_def
        classification_fields_def field_limit_def lit_def)
  then have "csv_reader (write_classification_csv cs) =
      map Inr (classification_csv_columns # map classification_fields cs)"
    unfolding write_classification_csv_def by (rule reader_writer)
  then show ?thesis
    using assms parse_rows_written [of cs "[]" 2]
    by (simp add: parse_test_cases_csv_def fieldnames_def nonempty_cases_def o_def)
qed

section \<open>Merging and completing\<close>

lemma first_duplicate_None:
  "first_duplicate seen xs = None \<longleftrightarrow> distinct xs \<and> set xs \<inter> set seen = {}"
  by (induction seen xs rule: first_duplicate.induct) auto

text \<open>
  Merging keeps every case, classification first, and fails exactly when an identifier occurs
  twice; completing the cases adds to each expected intent the route key the catalog gives it (the last
  one, when the snapshot lists the intent twice) and changes nothing else.
\<close>

theorem merge_and_hydrate:
  "(merge_test_cases a b = Inr m \<longleftrightarrow> m = a @ b \<and> distinct (map tc_case_id (a @ b)))
   \<and> (hydrate_expected_route_keys cs snapshot = Inr hs \<longrightarrow>
        list_all2 (\<lambda>c h. h = c\<lparr>tc_expected_route_key :=
            (case tc_expected_intent c of
               Some i \<Rightarrow> map_of (expected_route_keys_by_intent snapshot) i
             | None \<Rightarrow> tc_expected_route_key c)\<rparr>
          \<and> (tc_expected_intent c \<noteq> None \<longrightarrow> tc_expected_route_key h \<noteq> None)) cs hs)"
proof (intro conjI impI)
  show "merge_test_cases a b = Inr m \<longleftrightarrow> m = a @ b \<and> distinct (map tc_case_id (a @ b))"
    using first_duplicate_None [of "[]" "map tc_case_id (a @ b)"]
    by (auto simp: merge_test_cases_def Let_def split: option.splits)
next
  assume "hydrate_expected_route_keys cs snapshot = Inr hs"
  then have "list_all2 (\<lambda>c h. hydrate_case (expected_route_keys_by_intent snapshot) c = Inr h) cs hs"
    by (simp add: hydrate_expected_route_keys_def mapE_Inr)
  then show "list_all2 (\<lambda>c h. h = c\<lparr>tc_expected_route_key :=
            (case tc_expected_intent c of
               Some i \<Rightarrow> map_of (expected_route_keys_by_intent snapshot) i
             | None \<Rightarrow> tc_expected_route_key c)\<rparr>
          \<and> (tc_expected_intent c \<noteq> None \<longrightarrow> tc_expected_route_key h \<noteq> None)) cs hs"
    by (rule list_all2_mono) (auto simp: hydrate_case_def raise_simps split: option.splits)
qed

section \<open>A concrete file\<close>

definition sample_case :: parsed_test_case where
  "sample_case = \<lparr>tc_case_id = lit ''c1'', tc_query = lit ''pay, \"now\"'' @ [10] @ lit ''please'',
     tc_expected_intent = Some (lit ''a''), tc_case_type = lit ''positive'', tc_memo = lit ''m'',
     tc_expected_decision = Confident, tc_expected_route_key = None\<rparr>"

lemma sample_case_ok: "classification_case sample_case"
  by (simp add: classification_case_def well_formed_case_def sample_case_def stripped_def
      classification_fields_def field_limit_def expected_decisions_lookup lit_def strip_def lstrip_def
      rstrip_def is_space_def)

theorem classification_csv_roundtrip_witness:
  "parse_test_cases_csv (write_classification_csv [sample_case]) = Inr [sample_case]"
  by (rule classification_csv_roundtrip) (simp_all add: sample_case_ok)

lemma sample_parses:
  "bindE (parse_rows classification_row 2 [] (map Inr [classification_fields sample_case])) nonempty_cases
    = Inr [sample_case]"
  using parse_rows_written [of "[sample_case]" "[]" 2] sample_case_ok
  by (simp add: nonempty_cases_def)

lemma sample_csv:
  "parse_test_cases_csv (csv_text [classification_csv_columns, classification_fields sample_case]) = Inr [sample_case]"
proof -
  have "csv_reader (csv_text [classification_csv_columns, classification_fields sample_case]) =
      map Inr [classification_csv_columns, classification_fields sample_case]"
    by (rule reader_writer)
      (simp add: classification_csv_columns_def classification_fields_def sample_case_def field_limit_def lit_def)
  then show ?thesis
    using sample_parses by (simp add: parse_test_cases_csv_def fieldnames_def)
qed

theorem parsed_cases_well_formed_witness:
  "\<exists>cs. parse_test_cases_csv (csv_text [classification_csv_columns, classification_fields sample_case]) = Inr cs
    \<and> distinct (map tc_case_id cs) \<and> cs \<noteq> []"
  using sample_csv parsed_cases_well_formed by blast

definition sample_snapshot :: json where
  "sample_snapshot = JObj [(lit ''intents'', JArr [JObj [(lit ''intent_id'', JStr (lit ''a'')),
     (lit ''route_key'', JStr (lit ''d.a.x''))]])]"

lemma sample_hydrates:
  "hydrate_expected_route_keys [sample_case] sample_snapshot =
    Inr [sample_case\<lparr>tc_expected_route_key := Some (lit ''d.a.x'')\<rparr>]"
proof -
  have "expected_route_keys_by_intent sample_snapshot = [(lit ''a'', lit ''d.a.x'')]"
    by (simp add: expected_route_keys_by_intent_def sample_snapshot_def get_def intent_route_key_def
        List.map_filter_def dict_of_def lit_def)
  then show ?thesis
    by (simp add: hydrate_expected_route_keys_def hydrate_case_def sample_case_def)
qed

theorem merge_and_hydrate_witness:
  "\<exists>hs. hydrate_expected_route_keys [sample_case] sample_snapshot = Inr hs
    \<and> map tc_expected_route_key hs = [Some (lit ''d.a.x'')]
    \<and> list_all2 (\<lambda>c h. tc_expected_intent c \<noteq> None \<longrightarrow> tc_expected_route_key h \<noteq> None) [sample_case] hs"
proof -
  let ?hs = "[sample_case\<lparr>tc_expected_route_key := Some (lit ''d.a.x'')\<rparr>]"
  have "list_all2 (\<lambda>c h. tc_expected_intent c \<noteq> None \<longrightarrow> tc_expected_route_key h \<noteq> None) [sample_case] ?hs"
    using merge_and_hydrate sample_hydrates by (blast intro: list_all2_mono)
  then show ?thesis
    using sample_hydrates by (intro exI [of _ ?hs]) simp
qed

end
