(* ===== verification/Pii.thy ===== *)
theory Pii
  imports Py_Text
begin

text \<open>
  \<open>src/intent_routing/security/pii.py\<close>: the masking of resident registration numbers, business
  registration numbers and mobile numbers by three regular-expression substitutions in a row.
\<close>

section \<open>Substitution\<close>

text \<open>
  Each of the three expressions is a small set of fixed-length sequences of character classes, tried
  in order of preference (a greedy \<open>{3,4}\<close> prefers four). \<open>re.sub\<close> scans from the left: at a
  match it emits the replacement of the matched text and goes on behind it, else it copies a
  character. The counter says how many characters of the last match remain to be passed over.
\<close>

type_synonym char_class = "nat \<Rightarrow> bool"
type_synonym pattern = "char_class list"

definition matches :: "pattern \<Rightarrow> str \<Rightarrow> bool" where
  "matches p w \<longleftrightarrow> list_all2 (\<lambda>cls c. cls c) p w"

definition matches_prefix :: "str \<Rightarrow> pattern \<Rightarrow> bool" where
  "matches_prefix s p \<longleftrightarrow> matches p (take (length p) s)"

fun re_sub :: "pattern list \<Rightarrow> (str \<Rightarrow> str) \<Rightarrow> nat \<Rightarrow> str \<Rightarrow> str" where
  "re_sub ps repl k [] = []"
| "re_sub ps repl k (c # cs) =
     (if 0 < k then re_sub ps repl (k - 1) cs
      else case find (matches_prefix (c # cs)) ps of
        None \<Rightarrow> c # re_sub ps repl 0 cs
      | Some p \<Rightarrow> repl (take (length p) (c # cs)) @ re_sub ps repl (length p - 1) cs)"

section \<open>The three rules\<close>

definition dash :: char_class where "dash c \<longleftrightarrow> c = 45"

definition digits :: "nat \<Rightarrow> pattern" where "digits n = replicate n is_decimal"

definition stars :: "nat \<Rightarrow> str" where "stars n = replicate n 42"

text \<open>\<open>(\d{6})-([1-4])\d{6}\<close>\<close>

definition resident_pattern :: pattern where
  "resident_pattern = digits 6 @ [dash, \<lambda>c. 49 \<le> c \<and> c \<le> 52] @ digits 6"

definition mask_resident :: "str \<Rightarrow> str" where
  "mask_resident w = take 8 w @ stars 6"

text \<open>\<open>(\d{3})-(\d{2})-(\d{5})\<close>\<close>

definition business_pattern :: pattern where
  "business_pattern = digits 3 @ [dash] @ digits 2 @ [dash] @ digits 5"

definition mask_business :: "str \<Rightarrow> str" where
  "mask_business w = take 7 w @ stars 5"

text \<open>\<open>(010)-(\d{3,4})-(\d{4})\<close>\<close>

definition phone_pattern :: "nat \<Rightarrow> pattern" where
  "phone_pattern n = [\<lambda>c. c = 48, \<lambda>c. c = 49, \<lambda>c. c = 48, dash] @ digits n @ [dash] @ digits 4"

definition mask_phone :: "str \<Rightarrow> str" where
  "mask_phone w = take 4 w @ stars 4 @ drop (length w - 5) w"

definition mask_pii :: "str \<Rightarrow> str" where
  "mask_pii text =
     (let a = re_sub [resident_pattern] mask_resident 0 text;
          b = re_sub [business_pattern] mask_business 0 a
      in re_sub [phone_pattern 4, phone_pattern 3] mask_phone 0 b)"

section \<open>What no substitution creates\<close>

definition star_free :: "str \<Rightarrow> bool" where "star_free w \<longleftrightarrow> 42 \<notin> set w"

lemma matches_length: "matches p w \<Longrightarrow> length w = length p"
  by (simp add: matches_def list_all2_lengthD)

lemma re_sub_skip: "re_sub ps repl k s = re_sub ps repl 0 (drop k s)"
proof (induction s arbitrary: k)
  case Nil
  then show ?case by simp
next
  case (Cons c cs)
  show ?case
  proof (cases k)
    case (Suc j)
    then show ?thesis using Cons.IH [of j] by simp
  qed simp
qed

lemma sublist_in_left: "sublist w x \<Longrightarrow> sublist w (x @ y)"
  using sublist_order.order.trans [OF _ sublist_append_rightI] by blast

lemma sublist_in_right: "sublist w y \<Longrightarrow> sublist w (x @ y)"
  using sublist_order.order.trans [OF _ sublist_append_leftI] by blast

lemma star_free_around:
  assumes "star_free w" and "sublist w (a @ stars (Suc n) @ z)"
  shows "sublist w a \<or> sublist w z"
proof -
  have *: "sublist w xs \<or> sublist w ys" if "sublist w (xs @ 42 # ys)" for xs ys
  proof -
    have pre: "v = []" if "prefix v (42 # ys)" "set v \<subseteq> set w" for v
      using that assms(1) by (cases v) (auto simp: star_free_def)
    from that consider "sublist w xs" | "sublist w (42 # ys)"
      | w1 w2 where "w = w1 @ w2" "suffix w1 xs" "prefix w2 (42 # ys)"
      by (auto simp: sublist_append)
    then show ?thesis
    proof cases
      case 2
      then show ?thesis
        using pre [of w] by (auto simp: sublist_Cons_right)
    next
      case 3
      then have "w2 = []" by (intro pre) auto
      with 3 show ?thesis by (auto intro: suffix_imp_sublist)
    qed simp
  qed
  have "sublist w z" if "sublist w (stars m @ z)" for m
    using that
  proof (induction m)
    case 0
    then show ?case by (simp add: stars_def)
  next
    case (Suc m)
    then have "sublist w [] \<or> sublist w (stars m @ z)"
      using * [of "[]" "stars m @ z"] by (simp add: stars_def)
    then show ?case
      using Suc.IH by (cases "w = []") auto
  qed
  then show ?thesis
    using * [of a "stars n @ z"] assms(2) by (auto simp: stars_def)
qed

lemma sublist_masked:
  assumes "star_free w" and "sublist w (a @ stars (Suc n) @ c @ u)"
    and whole: "sublist w u \<Longrightarrow> sublist w t"
    and front: "\<And>v. prefix v u \<Longrightarrow> star_free v \<Longrightarrow> prefix v t"
  shows "sublist w (a @ b @ c @ t)"
proof -
  have right: "sublist w (c @ t)" if rest: "sublist w (c @ u)"
  proof -
    consider "sublist w c" | "sublist w u" | w1 w2 where "w = w1 @ w2" "suffix w1 c" "prefix w2 u"
      using rest unfolding sublist_append by (elim disjE exE conjE) simp_all
    then show ?thesis
    proof cases
      case 1
      then show ?thesis by (rule sublist_in_left)
    next
      case 2
      then show ?thesis by (intro sublist_in_right whole)
    next
      case 3
      then have "prefix w2 t"
        using assms(1) by (intro front) (simp_all add: star_free_def)
      with 3(1,2) have "\<exists>w1 w2. w = w1 @ w2 \<and> suffix w1 c \<and> prefix w2 t"
        by (intro exI conjI)
      then show ?thesis
        unfolding sublist_append by (intro disjI2)
    qed
  qed
  from star_free_around [OF assms(1,2)] show ?thesis
  proof
    assume "sublist w a"
    then show ?thesis by (rule sublist_in_left)
  next
    assume "sublist w (c @ u)"
    from right [OF this] show ?thesis
      by (rule sublist_in_right [OF sublist_in_right])
  qed
qed

text \<open>
  A rule that keeps a beginning and an end of the match around a star: its output has no new text
  between stars.
\<close>

locale masking =
  fixes ps :: "pattern list" and repl :: "str \<Rightarrow> str"
  assumes shape: "p \<in> set ps \<Longrightarrow> matches p w \<Longrightarrow>
    \<exists>a b c n. w = a @ b @ c \<and> repl w = a @ stars (Suc n) @ c"
    and nonempty: "p \<in> set ps \<Longrightarrow> p \<noteq> []"
begin

lemma step:
  assumes "s \<noteq> []"
  obtains (copy) "re_sub ps repl 0 s = hd s # re_sub ps repl 0 (tl s)"
      "\<not> (\<exists>p \<in> set ps. matches_prefix s p)"
  | (mask) p w t where "p \<in> set ps" "matches p w" "s = w @ t"
      "re_sub ps repl 0 s = repl w @ re_sub ps repl 0 t" "length t < length s"
proof -
  obtain x xs where s: "s = x # xs" using assms by (cases s) auto
  show thesis
  proof (cases "find (matches_prefix s) ps")
    case None
    then have "\<not> (\<exists>p \<in> set ps. matches_prefix s p)"
      by (auto simp: find_None_iff)
    then show thesis
      using copy None s by simp
  next
    case (Some p)
    then have p: "p \<in> set ps" "matches p (take (length p) s)"
      by (auto simp: find_Some_iff matches_prefix_def)
    have "length p \<noteq> 0" using nonempty [OF p(1)] by simp
    then have "re_sub ps repl 0 s = repl (take (length p) s) @ re_sub ps repl 0 (drop (length p) s)"
      using Some s re_sub_skip [of ps repl "length p - 1" xs] by (cases "length p") simp_all
    moreover have "length (drop (length p) s) < length s"
      using \<open>length p \<noteq> 0\<close> s by simp
    ultimately show thesis
      using mask [OF p, of "drop (length p) s"] by simp
  qed
qed

lemma star_free_prefix: "prefix w (re_sub ps repl 0 s) \<Longrightarrow> star_free w \<Longrightarrow> prefix w s"
proof (induction "length s" arbitrary: s w rule: less_induct)
  case less
  show ?case
  proof (cases "s = []")
    case True
    with less.prems show ?thesis by simp
  next
    case False
    then show ?thesis
    proof (cases rule: step)
      case copy
      show ?thesis
      proof (cases w)
        case (Cons x v)
        then have "x = hd s" "prefix v (re_sub ps repl 0 (tl s))" "star_free v"
          using less.prems copy(1) by (auto simp: star_free_def)
        then have "prefix v (tl s)"
          using less.hyps [of "tl s" v] False by simp
        with \<open>x = hd s\<close> Cons False show ?thesis by (cases s) simp_all
      qed simp
    next
      case (mask p m t)
      then obtain a b c n where abc: "m = a @ b @ c" "repl m = a @ stars (Suc n) @ c"
        using shape by blast
      then have "prefix w (a @ 42 # (stars n @ c @ re_sub ps repl 0 t))"
        using less.prems(1) mask(4) by (simp add: stars_def)
      then have "prefix w a"
        using less.prems(2) by (auto simp: prefix_append star_free_def prefix_Cons)
      then show ?thesis
        using mask(3) abc(1) by (metis append.assoc prefix_def)
    qed
  qed
qed

lemma star_free_sublist: "sublist w (re_sub ps repl 0 s) \<Longrightarrow> star_free w \<Longrightarrow> sublist w s"
proof (induction "length s" arbitrary: s rule: less_induct)
  case less
  show ?case
  proof (cases "s = []")
    case True
    with less.prems show ?thesis by simp
  next
    case False
    then show ?thesis
    proof (cases rule: step)
      case copy
      have s: "s = hd s # tl s" using False by simp
      show ?thesis
      proof (cases "prefix w (re_sub ps repl 0 s)")
        case True
        then have "prefix w s"
          using less.prems(2) by (rule star_free_prefix)
        then show ?thesis by (rule prefix_imp_sublist)
      next
        case no: False
        then have "sublist w (re_sub ps repl 0 (tl s))"
          using less.prems(1) copy(1) by (simp add: sublist_Cons_right)
        moreover have "length (tl s) < length s"
          using False by simp
        ultimately have "sublist w (tl s)"
          using less.hyps less.prems(2) by metis
        then show ?thesis
          by (subst s) (simp add: sublist_Cons_right)
      qed
    next
      case (mask p m t)
      then obtain a b c n where abc: "m = a @ b @ c" "repl m = a @ stars (Suc n) @ c"
        using shape by blast
      have "sublist w (a @ b @ c @ t)"
      proof (rule sublist_masked)
        show "star_free w" by (rule less.prems(2))
        show "sublist w (a @ stars (Suc n) @ c @ re_sub ps repl 0 t)"
          using less.prems(1) unfolding mask(4) abc(2) by simp
        show "sublist w t" if "sublist w (re_sub ps repl 0 t)"
          using mask(5) that less.prems(2) by (rule less.hyps)
        show "prefix v t" if "prefix v (re_sub ps repl 0 t)" "star_free v" for v
          using that by (rule star_free_prefix)
      qed
      then show ?thesis
        unfolding mask(3) abc(1) by simp
    qed
  qed
qed

end

context masking
begin

text \<open>Characters outside of the matches stay: what holds of the matched characters and the star does not change.\<close>

lemma keeps_all:
  assumes matched: "\<And>p w. p \<in> set ps \<Longrightarrow> matches p w \<Longrightarrow> list_all P w" and star: "P 42"
  shows "list_all P (re_sub ps repl 0 s) = list_all P s"
proof (induction "length s" arbitrary: s rule: less_induct)
  case less
  show ?case
  proof (cases "s = []")
    case False
    then show ?thesis
    proof (cases rule: step)
      case copy
      then show ?thesis using less.hyps [of "tl s"] False by (cases s) auto
    next
      case (mask p w t)
      obtain a b c n where w: "w = a @ b @ c" "repl w = a @ stars (Suc n) @ c" using shape [OF mask(1,2)] by blast
      have "list_all P w" by (rule matched [OF mask(1,2)])
      then have "list_all P a" "list_all P c" by (simp_all add: w(1))
      then have "list_all P (repl w)" using star unfolding w(2) by (auto simp: stars_def list_all_iff)
      then have "list_all P (re_sub ps repl 0 s) = list_all P t" using less.hyps [OF mask(5)] by (simp add: mask(4))
      also have "\<dots> = list_all P s" using \<open>list_all P w\<close> by (simp add: mask(3))
      finally show ?thesis .
    qed
  qed simp
qed

end

text \<open>
  A single rule that ends in stars, and whose pattern no text with a star matches, leaves nothing
  behind that it could match.
\<close>

locale masking_tail =
  fixes p :: pattern and repl :: "str \<Rightarrow> str"
  assumes tail: "matches p w \<Longrightarrow> \<exists>a b n. w = a @ b \<and> b \<noteq> [] \<and> repl w = a @ stars (Suc n)"
    and no_star: "matches p w \<Longrightarrow> star_free w"
    and proper: "p \<noteq> []"

sublocale masking_tail \<subseteq> masking "[p]" repl
proof
  show "\<exists>a b c n. w = a @ b @ c \<and> repl w = a @ stars (Suc n) @ c" if q: "q \<in> set [p]" "matches q w" for q w
  proof -
    have "matches p w" using q by simp
    then obtain a b n where "w = a @ b" "repl w = a @ stars (Suc n)"
      using tail by blast
    then have "w = a @ b @ [] \<and> repl w = a @ stars (Suc n) @ []" by simp
    then show ?thesis by (intro exI)
  qed
  show "q \<noteq> []" if "q \<in> set [p]" for q
    using that proper by simp
qed

context masking_tail
begin

lemma no_match_left: "matches p w \<Longrightarrow> \<not> sublist w (re_sub [p] repl 0 s)"
proof (induction "length s" arbitrary: s rule: less_induct)
  case less
  have w: "star_free w" "length w = length p"
    using less.prems no_star matches_length by blast+
  show ?case
  proof (cases "s = []")
    case True
    then show ?thesis using w proper by auto
  next
    case False
    then show ?thesis
    proof (cases rule: step)
      case copy
      have "\<not> prefix w (re_sub [p] repl 0 s)"
      proof
        assume "prefix w (re_sub [p] repl 0 s)"
        then have "prefix w s" using star_free_prefix w(1) by blast
        then have "take (length p) s = w" using w(2) by (auto simp: prefix_def)
        with copy(2) less.prems show False by (simp add: matches_prefix_def)
      qed
      moreover have "\<not> sublist w (re_sub [p] repl 0 (tl s))"
        using less.hyps [of "tl s"] less.prems False by simp
      ultimately show ?thesis
        using copy(1) by (simp add: sublist_Cons_right)
    next
      case (mask q m t)
      then have m: "matches p m" by simp
      then obtain a b n where ab: "m = a @ b" "b \<noteq> []" "repl m = a @ stars (Suc n)"
        using tail by blast
      then have "length a < length w"
        using matches_length [OF m] w(2) by (cases b) auto
      then have "\<not> sublist w a"
        using sublist_length_le by fastforce
      moreover have "\<not> sublist w (re_sub [p] repl 0 t)"
        using less.hyps [OF mask(5) less.prems] .
      ultimately show ?thesis
        using star_free_around [OF w(1), of a n "re_sub [p] repl 0 t"] unfolding mask(4) ab(3) by auto
    qed
  qed
qed

end

section \<open>What masking guarantees\<close>

lemma matches_star_free: "list_all (\<lambda>cls. \<not> cls 42) p \<Longrightarrow> matches p w \<Longrightarrow> star_free w"
  by (auto simp: matches_def star_free_def list_all2_conv_all_nth list_all_length in_set_conv_nth)

lemma not_decimal_star [simp]: "\<not> is_decimal 42"
  by (simp add: is_decimal_def digit_of_def decimal_zeros_def)

lemma digits_star [simp]: "list_all (\<lambda>cls. \<not> cls 42) (digits n)"
  by (simp add: digits_def list_all_iff)

lemma length_digits [simp]: "length (digits n) = n"
  by (simp add: digits_def)

interpretation resident: masking_tail resident_pattern mask_resident
proof
  show "\<exists>a b n. w = a @ b \<and> b \<noteq> [] \<and> mask_resident w = a @ stars (Suc n)" if "matches resident_pattern w" for w
  proof -
    have "length w = 14"
      using matches_length [OF that] by (simp add: resident_pattern_def)
    then have "w = take 8 w @ drop 8 w \<and> drop 8 w \<noteq> [] \<and> mask_resident w = take 8 w @ stars (Suc 5)"
      by (auto simp: mask_resident_def)
    then show ?thesis by blast
  qed
  show "star_free w" if "matches resident_pattern w" for w
    by (rule matches_star_free [OF _ that]) (simp add: resident_pattern_def dash_def)
  show "resident_pattern \<noteq> []"
    by (simp add: resident_pattern_def)
qed

interpretation business: masking_tail business_pattern mask_business
proof
  show "\<exists>a b n. w = a @ b \<and> b \<noteq> [] \<and> mask_business w = a @ stars (Suc n)" if "matches business_pattern w" for w
  proof -
    have "length w = 12"
      using matches_length [OF that] by (simp add: business_pattern_def)
    then have "w = take 7 w @ drop 7 w \<and> drop 7 w \<noteq> [] \<and> mask_business w = take 7 w @ stars (Suc 4)"
      by (auto simp: mask_business_def)
    then show ?thesis by blast
  qed
  show "star_free w" if "matches business_pattern w" for w
    by (rule matches_star_free [OF _ that]) (simp add: business_pattern_def dash_def)
  show "business_pattern \<noteq> []"
    by (simp add: business_pattern_def)
qed

lemma length_phone_pattern: "length (phone_pattern n) = n + 9"
  by (simp add: phone_pattern_def)

lemma phone_length:
  assumes "p \<in> set [phone_pattern 4, phone_pattern 3]"
  shows "length p = 13 \<or> length p = 12"
proof -
  from assms have "p = phone_pattern 4 \<or> p = phone_pattern 3" by simp
  then show ?thesis
    by (elim disjE) (simp_all only: length_phone_pattern, simp_all)
qed

lemma mask_phone_shape:
  assumes "length w = 13 \<or> length w = 12"
  shows "w = take 4 w @ take (length w - 9) (drop 4 w) @ drop (length w - 5) w"
proof -
  from assms have "length w - 5 = (length w - 9) + 4" by linarith
  then have "drop (length w - 5) w = drop (length w - 9) (drop 4 w)"
    by (simp only: drop_drop)
  then show ?thesis
    by (simp only: append_take_drop_id)
qed

interpretation phone: masking "[phone_pattern 4, phone_pattern 3]" mask_phone
proof
  fix p w
  assume p: "p \<in> set [phone_pattern 4, phone_pattern 3]"
  show "p \<noteq> []"
    using phone_length [OF p] by auto
  assume "matches p w"
  then have "length w = 13 \<or> length w = 12"
    using phone_length [OF p] matches_length [of p w] by simp
  note shape = mask_phone_shape [OF this]
  have "mask_phone w = take 4 w @ stars (Suc 3) @ drop (length w - 5) w"
    unfolding mask_phone_def by simp
  with shape show "\<exists>a b c n. w = a @ b @ c \<and> mask_phone w = a @ stars (Suc n) @ c"
    by (intro exI [of _ "take 4 w"] exI [of _ "take (length w - 9) (drop 4 w)"]
        exI [of _ "drop (length w - 5) w"] exI [of _ 3] conjI)
qed

lemma re_sub_unmatched:
  "(\<And>p w. p \<in> set ps \<Longrightarrow> matches p w \<Longrightarrow> \<not> sublist w s) \<Longrightarrow> re_sub ps repl 0 s = s"
proof (induction s)
  case Nil
  then show ?case by simp
next
  case (Cons c cs)
  have "find (matches_prefix (c # cs)) ps = None"
  proof (rule ccontr)
    assume "find (matches_prefix (c # cs)) ps \<noteq> None"
    then obtain p where found: "find (matches_prefix (c # cs)) ps = Some p" by blast
    then have "p \<in> set ps" "matches p (take (length p) (c # cs))"
      by (auto simp: find_Some_iff matches_prefix_def)
    moreover have "sublist (take (length p) (c # cs)) (c # cs)"
      by (rule sublist_take)
    ultimately show False using Cons.prems by blast
  qed
  moreover have "re_sub ps repl 0 cs = cs"
    by (rule Cons.IH) (use Cons.prems in \<open>auto simp: sublist_Cons_right\<close>)
  ultimately show ?case by simp
qed

text \<open>
  No resident or business registration number of the masked formats survives masking, wherever
  it stands in the text, and masking never assembles new text: whatever part of the result has no star
  was in the original. A text in which none of the formats occurs is returned unchanged.
\<close>

theorem mask_pii_complete:
  "(matches resident_pattern w \<or> matches business_pattern w \<longrightarrow> \<not> sublist w (mask_pii text))
   \<and> (sublist u (mask_pii text) \<and> star_free u \<longrightarrow> sublist u text)
   \<and> ((\<forall>p \<in> {resident_pattern, business_pattern, phone_pattern 4, phone_pattern 3}. \<forall>v.
         matches p v \<longrightarrow> \<not> sublist v text) \<longrightarrow> mask_pii text = text)"
proof -
  let ?a = "re_sub [resident_pattern] mask_resident 0 text"
  let ?b = "re_sub [business_pattern] mask_business 0 ?a"
  have res: "mask_pii text = re_sub [phone_pattern 4, phone_pattern 3] mask_phone 0 ?b"
    by (simp add: mask_pii_def)
  have b: "sublist v ?b" if "sublist v (mask_pii text)" "star_free v" for v
    using that phone.star_free_sublist [of v ?b] by (simp add: res)
  have a: "sublist v ?a" if "sublist v (mask_pii text)" "star_free v" for v
    using business.star_free_sublist [OF b] that by blast
  have "\<not> sublist w (mask_pii text)" if "matches resident_pattern w"
    using a resident.no_match_left resident.no_star that by blast
  moreover have "\<not> sublist w (mask_pii text)" if "matches business_pattern w"
    using b business.no_match_left business.no_star that by blast
  moreover have "sublist u text" if "sublist u (mask_pii text)" "star_free u"
    using resident.star_free_sublist [OF a] that by blast
  moreover have "mask_pii text = text"
    if none: "\<forall>p \<in> {resident_pattern, business_pattern, phone_pattern 4, phone_pattern 3}. \<forall>v.
         matches p v \<longrightarrow> \<not> sublist v text"
  proof -
    have "?a = text" by (rule re_sub_unmatched) (use none in auto)
    moreover have "re_sub [business_pattern] mask_business 0 text = text"
      by (rule re_sub_unmatched) (use none in auto)
    moreover have "re_sub [phone_pattern 4, phone_pattern 3] mask_phone 0 text = text"
      by (rule re_sub_unmatched) (use none in auto)
    ultimately show ?thesis by (simp add: res)
  qed
  ultimately show ?thesis by blast
qed

theorem mask_pii_complete_witness:
  "\<not> sublist (lit ''900101-1234567'') (mask_pii (lit ''id 900101-1234567, tel 010-1234-5678''))"
proof -
  have "matches resident_pattern (lit ''900101-1234567'')"
    by code_simp
  then show ?thesis using mask_pii_complete by blast
qed

text \<open>
  Mobile numbers that share digits are an exception: the second of two overlapping numbers is
  still in the result.
\<close>

theorem mask_pii_overlapping_phones:
  "mask_pii (lit ''010-1234-5010-1234-5678'') = lit ''010-****-5010-1234-5678''
   \<and> sublist (lit ''010-1234-5678'') (mask_pii (lit ''010-1234-5010-1234-5678''))
   \<and> matches (phone_pattern 4) (lit ''010-1234-5678'')"
proof -
  have "mask_pii (lit ''010-1234-5010-1234-5678'') = lit ''010-****-5010-1234-5678''"
    by code_simp
  moreover have "matches (phone_pattern 4) (lit ''010-1234-5678'')"
    by code_simp
  moreover have "sublist (lit ''010-1234-5678'') (lit ''010-****-5010-1234-5678'')"
    by (simp add: lit_def sublist_Cons_right)
  ultimately show ?thesis by simp
qed

section \<open>What masking leaves alone\<close>

lemma matches_all: "matches p w \<Longrightarrow> (\<And>cls c. cls \<in> set p \<Longrightarrow> cls c \<Longrightarrow> P c) \<Longrightarrow> list_all P w"
  by (auto simp: matches_def list_all2_conv_all_nth list_all_length) (metis nth_mem)

lemma mask_pii_keeps_all:
  assumes "\<And>c. is_decimal c \<Longrightarrow> P c" and "P 42" and "P 45"
  shows "list_all P (mask_pii s) = list_all P s"
proof -
  have ascii: "is_decimal c" if "48 \<le> c" "c \<le> 57" for c using that by (simp add: is_decimal_def digit_of_def)
  have "list_all P w" if "p \<in> {resident_pattern, business_pattern, phone_pattern 4, phone_pattern 3}" "matches p w" for p w
    by (rule matches_all [OF that(2)])
      (use that(1) assms ascii in \<open>auto simp: resident_pattern_def business_pattern_def phone_pattern_def digits_def dash_def\<close>)
  then have "list_all P (re_sub [resident_pattern] mask_resident 0 t) = list_all P t"
    "list_all P (re_sub [business_pattern] mask_business 0 t) = list_all P t"
    "list_all P (re_sub [phone_pattern 4, phone_pattern 3] mask_phone 0 t) = list_all P t" for t
    by (intro resident.keeps_all business.keeps_all phone.keeps_all assms(2); auto)+
  then show ?thesis by (simp add: mask_pii_def)
qed

lemma is_decimal_bounds: "is_decimal c \<Longrightarrow> 0 < c \<and> c < 1114112 \<and> \<not> (55296 \<le> c \<and> c < 57344)"
  by (auto simp: is_decimal_def digit_of_def decimal_zeros_def split: if_splits option.splits)

end
