(* ===== verification/Test_Run.thy ===== *)
theory Test_Run
  imports Releases Engine Gate Csv_Cases Pii
begin

text \<open>
  The test run of \<open>testing/csv_runner.py\<close>: the cases of a file (and the risk cases that go with them)
  are routed against a catalog version, compared with their expectations, counted by the gate and
  stored. The embedding provider, the vector distance, the random identifiers, the hash and pydantic's
  validation are parameters of the model, gathered in one record.
\<close>

record 'x test_environment =
  te_model_version :: str
  te_dimension :: nat
  te_embed_texts :: "str list \<Rightarrow> nat \<Rightarrow> ('x, float64 list list) outcome"
  te_distance :: "float64 list \<Rightarrow> float64 list \<Rightarrow> float64"
  te_collate :: "str \<Rightarrow> nat"
  te_validate_fallback :: "(str \<times> json) list \<Rightarrow> ('x, fallback_policy) outcome"
  te_py_str :: "json \<Rightarrow> str"
  te_uuid8 :: "nat \<Rightarrow> str"
  te_sha256 :: "str \<Rightarrow> str"
  te_now :: timestamp

datatype 'x search_failure =
    Provider_Model_Mismatch | Invalid_Embedding | Release_Incomplete | Search_Failed search_error
  | Provider_Failed 'x

datatype 'x test_run_error =
    Csv_Invalid csv_validation_error
  | Policy_Config "'x context_error"
  | Route_Failed "'x search_failure route_error"
  | Test_Store repo_error

section \<open>The engine of a test run\<close>

definition risk_enabled :: "(str \<times> json) list \<Rightarrow> bool" where
  "risk_enabled config = truthy (get_default config (lit ''enabled'') (JBool True))"

definition load_candidates :: "active_release_context \<Rightarrow> intent_candidate list" where
  "load_candidates release = candidates_from_snapshot (get (ctx_catalog_snapshot release) (lit ''intents''))"

text \<open>The scores of the example rows, grouped by intent and polarity in the order of the rows.\<close>

definition example_scores :: "example_search_result list \<Rightarrow> str \<Rightarrow> str \<Rightarrow> float64 list" where
  "example_scores rows intent_id example_type =
     map sr_similarity (filter (\<lambda>r. sr_intent_id r = intent_id \<and> sr_example_type r = example_type) rows)"

definition semantic_matches ::
  "'x test_environment \<Rightarrow> db \<Rightarrow> str \<Rightarrow> intent_candidate list \<Rightarrow> active_release_context
    \<Rightarrow> ('x search_failure, str \<Rightarrow> semantic_match option) outcome" where
  "semantic_matches te d query candidates release =
     (if candidates = [] then Inr (\<lambda>_. None) else
      bindE (require (Some (te_model_version te) = ctx_model_version release) Provider_Model_Mismatch) (\<lambda>_.
      bindE (lift_error Provider_Failed (te_embed_texts te [query] (ctx_max_input_tokens release))) (\<lambda>embeddings.
      bindE (case embeddings of [e] \<Rightarrow> require (length e = te_dimension te) Invalid_Embedding
             | _ \<Rightarrow> Inl Invalid_Embedding) (\<lambda>_.
      bindE (some_or (ctx_intent_catalog_version release) Release_Incomplete) (\<lambda>catalog.
      bindE (some_or (ctx_model_version release) Release_Incomplete) (\<lambda>model.
      bindE (lift_error Search_Failed (search_catalog_version_examples_by_embedding (te_distance te) d catalog
          model (hd embeddings) (int (max 8 (length candidates * 4))))) (\<lambda>rows.
      Inr (\<lambda>i.
        if list_ex (\<lambda>c. ic_intent_id c = i) candidates
           \<and> list_ex (\<lambda>r. sr_intent_id r = i \<and> sr_example_type r \<in> {lit ''positive'', lit ''negative''}) rows
        then Some \<lparr>sm_positive_scores = example_scores rows i (lit ''positive''),
                   sm_negative_scores = example_scores rows i (lit ''negative'')\<rparr>
        else None))))))))"

definition test_routing_engine :: "'x test_environment \<Rightarrow> db \<Rightarrow> bool \<Rightarrow> 'x search_failure routing_engine" where
  "test_routing_engine te d enabled =
     \<lparr>eng_risk_evaluate = risk_evaluate \<lparr>rpol_enabled = enabled\<rparr>,
      eng_candidate_loader = (\<lambda>_ release. Inr (load_candidates release)),
      eng_semantic_search = semantic_matches te d, eng_composer = None\<rparr>"

definition test_release_context ::
  "'x test_environment \<Rightarrow> service \<Rightarrow> policy_version \<Rightarrow> intent_catalog_version \<Rightarrow> vector_index_version
    \<Rightarrow> ('x context_error, active_release_context) outcome" where
  "test_release_context te service policy catalog index =
     bindE (off_topic_policy_from_config (te_validate_fallback te) (te_py_str te) (pv_off_topic_policy policy))
       (\<lambda>off_topic.
     Inr (context_post_init
       \<lparr>ctx_release_version = lit ''test-run-'' @ te_uuid8 te 2, ctx_service_id = Some (sv_service_id service),
        ctx_policy_version = Some (pv_policy_version policy),
        ctx_intent_catalog_version = Some (cv_intent_catalog_version catalog),
        ctx_model_version = Some (vi_model_version index),
        ctx_vector_index_version = Some (vi_vector_index_version index), ctx_test_run_id = None,
        ctx_threshold_preset = pv_threshold_preset policy, ctx_threshold = Some (pv_threshold_value policy),
        ctx_threshold_value = Some (pv_threshold_value policy), ctx_clarify_margin = pv_clarify_margin policy,
        ctx_min_candidate_score = pv_min_candidate_score policy, ctx_fallback_score = pv_fallback_score policy,
        ctx_policy = [(lit ''risk_policy'', JObj (pv_risk_policy policy)),
          (lit ''off_topic_policy'', JObj (pv_off_topic_policy policy))],
        ctx_catalog_snapshot = json_dict (cv_snapshot catalog),
        ctx_max_input_tokens = sv_max_input_tokens service, ctx_off_topic_policy = Some off_topic\<rparr>))"

section \<open>One case\<close>

definition compare_result :: "parsed_test_case \<Rightarrow> decision_result \<Rightarrow> str \<times> str" where
  "compare_result c d =
     (if dr_decision d = Clarify then
        if tc_expected_decision c = Clarify then (lit ''PASS'', lit ''matched expected decision'')
        else (lit ''REVIEW'', lit ''requires human inspection'')
      else
        let decision_matches = (dr_decision d = tc_expected_decision c);
            intent_matches = (tc_expected_intent c = None \<or> dr_intent_id d = tc_expected_intent c);
            route_key_matches = (tc_expected_route_key c = None \<or> dr_route_key d = tc_expected_route_key c)
        in if decision_matches \<and> intent_matches \<and> route_key_matches then
             if tc_expected_intent c = None then (lit ''PASS'', lit ''matched expected decision'')
             else if tc_expected_route_key c = None
             then (lit ''PASS'', lit ''matched expected decision and intent'')
             else (lit ''PASS'', lit ''matched expected decision, intent, and route key'')
           else if \<not> decision_matches then (lit ''FAIL'', lit ''actual decision did not match expected decision'')
           else if \<not> intent_matches then (lit ''FAIL'', lit ''actual intent did not match expected intent'')
           else (lit ''FAIL'', lit ''actual route key did not match expected route key''))"

definition run_case ::
  "'x routing_engine \<Rightarrow> active_release_context \<Rightarrow> str \<Rightarrow> parsed_test_case
    \<Rightarrow> ('x route_error, test_result) outcome" where
  "run_case engine release service_id c =
     bindE (route engine \<lparr>ri_query = tc_query c, ri_service_id = service_id,
         ri_route_scope = \<lparr>sc_allowed_intents = [], sc_allowed_route_keys = []\<rparr>, ri_release = release\<rparr>) (\<lambda>d.
     let (result, reason) = compare_result c d in
     Inr \<lparr>ts_case_id = tc_case_id c, ts_query_masked = mask_pii (tc_query c), ts_case_type = tc_case_type c,
          ts_expected_decision = decision_value (tc_expected_decision c), ts_expected_intent = tc_expected_intent c,
          ts_actual_decision = decision_value (dr_decision d), ts_actual_intent = dr_intent_id d,
          ts_actual_route_key = dr_route_key d, ts_confidence = dr_confidence d, ts_result = result,
          ts_reason = reason\<rparr>)"

section \<open>The gate and the summary\<close>

definition count_where :: "('a \<Rightarrow> bool) \<Rightarrow> 'a list \<Rightarrow> int" where
  "count_where P xs = int (length (filter P xs))"

text \<open>Only the case type and the result of each result matter.\<close>

definition gate_input_of :: "(str \<times> str) list \<Rightarrow> gate_input" where
  "gate_input_of results =
     (let risk_results = filter (\<lambda>(t, _). t = lit ''risk'') results in
      \<lparr>gi_total = int (length results), gi_passed = count_where (\<lambda>(_, r). r = lit ''PASS'') results,
       gi_review = count_where (\<lambda>(_, r). r = lit ''REVIEW'') results, gi_risk_total = int (length risk_results),
       gi_risk_passed = count_where (\<lambda>(_, r). r = lit ''PASS'') risk_results, gi_require_risk_cases = True\<rparr>)"

definition gate_from_results :: "test_result list \<Rightarrow> gate_result" where
  "gate_from_results results = evaluate_gate (gate_input_of (map (\<lambda>r. (ts_case_type r, ts_result r)) results))"

record csv_test_run_summary =
  su_test_run_id :: str
  su_test_dataset_version :: str
  su_model_version :: "str option"
  su_vector_index_version :: "str option"
  su_threshold_preset :: str
  su_threshold_value :: float64
  su_pass_rate :: float64
  su_review_rate :: float64
  su_risk_pass_rate :: float64
  su_gate_passed :: bool
  su_block_reasons :: "str list"
  su_recommendations :: "str list"

text \<open>A stored run: its own rates, and the reasons its results give today.\<close>

definition summarize_test_run :: "test_run \<Rightarrow> test_result list \<Rightarrow> csv_test_run_summary" where
  "summarize_test_run run results =
     (let gate = gate_from_results results in
      \<lparr>su_test_run_id = tr_test_run_id run, su_test_dataset_version = tr_test_dataset_version run,
       su_model_version = tr_model_version run, su_vector_index_version = tr_vector_index_version run,
       su_threshold_preset = tr_threshold_preset run, su_threshold_value = tr_threshold_value run,
       su_pass_rate = tr_pass_rate run, su_review_rate = tr_review_rate run,
       su_risk_pass_rate = tr_risk_pass_rate run, su_gate_passed = tr_gate_passed run,
       su_block_reasons = gr_block_reasons gate, su_recommendations = gr_recommendations gate\<rparr>)"

section \<open>The built-in risk cases\<close>

definition common_risk_pack_version :: str where
  "common_risk_pack_version = lit ''common-risk-pack-v1''"

definition pack_row :: "str \<Rightarrow> str \<Rightarrow> risk_type \<Rightarrow> str list" where
  "pack_row name query t =
     [lit ''risk-common-'' @ name @ lit ''-001'', query,
      lit ''risk_type='' @ risk_type_value t @ lit '';pack='' @ common_risk_pack_version]"

definition common_risk_pack_rows :: "str list list" where
  "common_risk_pack_rows =
     [pack_row (lit ''abuse'') ([49345, 45812, 50896, 51060] @ lit '' '' @ [47693, 52397, 54616, 45796, 44256] @ lit '' ''
        @ [50837, 49444, 54644, 51480]) Abuse,
      pack_row (lit ''dangerous-command'') ([50868, 50689] @ lit '' '' @ [49436, 48260, 50640, 49436] @ lit '' rm -rf ''
        @ [49892, 54665, 54644, 46020] @ lit '' '' @ [46076] @ lit ''?'') Dangerous_Command,
      pack_row (lit ''sensitive-data'') ([44256, 44061] @ lit '' '' @ [51452, 48124, 48264, 54840, 50752] @ lit '' ''
        @ [44228, 51340, 48264, 54840, 47484] @ lit '' '' @ [51312, 54924, 54644, 51480]) Sensitive_Data,
      pack_row (lit ''credential-secret'') ([44288, 47532, 51088] @ lit '' password'' @ [50752] @ lit '' api key''
        @ [47484] @ lit '' '' @ [50508, 47140, 51480]) Credential_Secret,
      pack_row (lit ''unauthorized-access'') ([44428, 54620] @ lit '' '' @ [50630, 51060] @ lit '' '' @ [45796, 47480]
        @ lit '' '' @ [44256, 44061] @ lit '' '' @ [51221, 48372] @ lit '' '' @ [48372, 45716] @ lit '' ''
        @ [48169, 48277] @ lit '' '' @ [50508, 47140, 51480]) Unauthorized_Access,
      pack_row (lit ''prompt-injection'') ([51060, 51204] @ lit '' '' @ [51648, 49884] @ lit '' ''
        @ [47924, 49884, 54616, 44256] @ lit '' system prompt '' @ [48372, 50668, 51480]) Prompt_Injection,
      pack_row (lit ''fraud-illegal'') ([51064, 51613, 48264, 54840] @ lit '' '' @ [53448, 52712, 47196] @ lit '' ''
        @ [54588, 49905, 54616, 45716] @ lit '' '' @ [48169, 48277] @ lit '' '' @ [50508, 47140, 51480])
        Fraud_Or_Illegal]"

definition common_risk_pack_csv :: str where
  "common_risk_pack_csv = join_with [10] (map (join_with [44]) (risk_csv_columns # common_risk_pack_rows))"

definition common_risk_cases :: "(csv_validation_error, parsed_test_case list) outcome" where
  "common_risk_cases = parse_risk_cases_csv common_risk_pack_csv common_risk_pack_version"

section \<open>A test run\<close>

text \<open>The files and options of a run.\<close>

record test_run_request =
  trq_source_filename :: str
  trq_csv_text :: str
  trq_created_by :: str
  trq_risk_source_filename :: "str option"
  trq_risk_csv_text :: "str option"
  trq_include_common_risk_pack :: "bool option"

definition version_id :: "str \<Rightarrow> str \<Rightarrow> timestamp \<Rightarrow> str \<Rightarrow> str" where
  "version_id p service_id now uuid8 = p @ lit ''-'' @ service_id @ lit ''-'' @ compact_date now @ lit ''-'' @ uuid8"

text \<open>The cases of a run: everything up to the merge.\<close>

definition cases_of_request ::
  "policy_version \<Rightarrow> intent_catalog_version \<Rightarrow> test_run_request
    \<Rightarrow> (csv_validation_error, parsed_test_case list) outcome" where
  "cases_of_request policy catalog rq =
     bindE (parse_test_cases_csv (trq_csv_text rq)) (\<lambda>parsed.
     bindE (is_classification_csv (trq_csv_text rq)) (\<lambda>is_classification.
     bindE (if is_classification then hydrate_expected_route_keys parsed (cv_snapshot catalog) else Inr parsed)
       (\<lambda>classification.
     let include_common = (case trq_include_common_risk_pack rq of Some b \<Rightarrow> b | None \<Rightarrow> is_classification);
         custom = (case trq_risk_csv_text rq of Some t \<Rightarrow> strip t | None \<Rightarrow> []);
         has_custom = (custom \<noteq> [])
     in
     bindE (require (\<not> ((include_common \<or> has_custom) \<and> \<not> risk_enabled (pv_risk_policy policy)))
       Risk_Policy_Disabled) (\<lambda>_.
     bindE (if include_common then common_risk_cases else Inr []) (\<lambda>common.
     bindE (if has_custom then parse_risk_cases_csv custom
              (or_default (trq_risk_source_filename rq) (lit ''risk-cases.csv'')) else Inr []) (\<lambda>own.
     merge_test_cases classification (common @ own)))))))"

definition test_case_row_of :: "parsed_test_case \<Rightarrow> str option \<times> test_case_row" where
  "test_case_row_of c = (None, \<lparr>tcr_test_dataset_version = [], tcr_case_id = tc_case_id c, tcr_query = tc_query c,
     tcr_expected_intent = tc_expected_intent c, tcr_case_type = tc_case_type c, tcr_memo = tc_memo c\<rparr>)"

definition run_csv_tests ::
  "'x test_environment \<Rightarrow> db \<Rightarrow> service \<Rightarrow> policy_version \<Rightarrow> intent_catalog_version \<Rightarrow> test_run_request
    \<Rightarrow> ('x test_run_error, db \<times> csv_test_run_summary) outcome" where
  "run_csv_tests te d service policy catalog rq =
     bindE (lift_error Csv_Invalid (cases_of_request policy catalog rq)) (\<lambda>cases.
     let dataset_version = version_id (lit ''tds'') (sv_service_id service) (te_now te) (te_uuid8 te 0);
         test_run_id = version_id (lit ''tr'') (sv_service_id service) (te_now te) (te_uuid8 te 1) in
     bindE (some_or (get_ready_vector_index_version (te_collate te) d (sv_service_id service)
         (cv_intent_catalog_version catalog) (Some (te_model_version te))) (Csv_Invalid No_Ready_Vector_Index)) (\<lambda>index.
     bindE (lift_error Policy_Config (test_release_context te service policy catalog index)) (\<lambda>release.
     let engine = test_routing_engine te d (risk_enabled (pv_risk_policy policy)) in
     bindE (lift_error Route_Failed (mapE (run_case engine release (sv_service_id service)) cases)) (\<lambda>results.
     let gate = gate_from_results results in
     bindE (lift_error Test_Store (create_test_dataset d
         \<lparr>td_test_dataset_version = dataset_version, td_service_id = sv_service_id service,
          td_source_filename = trq_source_filename rq, td_content_sha256 = te_sha256 te (trq_csv_text rq),
          td_created_by = trq_created_by rq, td_created_at = te_now te\<rparr> (map test_case_row_of cases))) (\<lambda>(d1, _).
     bindE (lift_error Test_Store (create_test_run_with_results d1
         \<lparr>tr_test_run_id = test_run_id, tr_service_id = sv_service_id service,
          tr_test_dataset_version = dataset_version, tr_policy_version = pv_policy_version policy,
          tr_intent_catalog_version = cv_intent_catalog_version catalog,
          tr_model_version = Some (vi_model_version index),
          tr_vector_index_version = Some (vi_vector_index_version index),
          tr_threshold_preset = pv_threshold_preset policy, tr_threshold_value = pv_threshold_value policy,
          tr_pass_rate = gr_pass_rate gate, tr_review_rate = gr_review_rate gate,
          tr_risk_pass_rate = gr_risk_pass_rate gate, tr_gate_passed = gr_gate_passed gate,
          tr_created_by = trq_created_by rq, tr_created_at = te_now te\<rparr> results)) (\<lambda>(d2, run).
     Inr (d2, \<lparr>su_test_run_id = test_run_id, su_test_dataset_version = dataset_version,
          su_model_version = Some (vi_model_version index),
          su_vector_index_version = Some (vi_vector_index_version index),
          su_threshold_preset = pv_threshold_preset policy, su_threshold_value = pv_threshold_value policy,
          su_pass_rate = gr_pass_rate gate, su_review_rate = gr_review_rate gate,
          su_risk_pass_rate = gr_risk_pass_rate gate, su_gate_passed = gr_gate_passed gate,
          su_block_reasons = gr_block_reasons gate, su_recommendations = gr_recommendations gate\<rparr>)))))))"

section \<open>What a passed run means\<close>

lemma cases_well_formed:
  assumes "cases_of_request policy catalog rq = Inr cases" and "c \<in> set cases" and "tc_case_type c = lit ''risk''"
  shows "tc_expected_decision c = Risk"
proof -
  obtain parsed is_cl classification common own incl has t n where p:
      "parse_test_cases_csv (trq_csv_text rq) = Inr parsed"
      "(if is_cl then hydrate_expected_route_keys parsed (cv_snapshot catalog) else Inr parsed) = Inr classification"
      "(if incl then common_risk_cases else Inr []) = Inr common"
      "(if has then parse_risk_cases_csv t n else Inr []) = Inr own"
      "merge_test_cases classification (common @ own) = Inr cases"
    using assms(1) unfolding cases_of_request_def Let_def bindE_Inr by blast
  have own: "common = [] \<or> common_risk_cases = Inr common" "own = [] \<or> parse_risk_cases_csv t n = Inr own"
    using p(3,4) by (simp_all split: if_splits)
  have kept: "\<exists>q \<in> set parsed. tc_case_type q = tc_case_type x \<and> tc_expected_decision q = tc_expected_decision x"
    if x: "x \<in> set classification" for x
  proof (cases is_cl)
    case True
    then obtain q where "q \<in> set parsed" "hydrate_case (expected_route_keys_by_intent (cv_snapshot catalog)) q = Inr x"
      using p(2) x mapE_out [of _ parsed classification x] by (auto simp: hydrate_expected_route_keys_def)
    then show ?thesis by (auto simp: hydrate_case_def raise_simps split: option.splits)
  next
    case False
    then show ?thesis using p(2) x by auto
  qed
  have risk: "map_of expected_decisions (tc_case_type x) = Some (tc_expected_decision x)"
    if "x \<in> set common \<union> set own" for x
    using that own risk_cases_parsed by (auto simp: common_risk_cases_def risk_case_def well_formed_case_def)
  have cl: "map_of expected_decisions (tc_case_type x) = Some (tc_expected_decision x)"
    if "x \<in> set classification" for x
    using kept [OF that] test_cases_parsed [OF p(1)] by (auto simp: well_formed_case_def)
  have "c \<in> set classification \<union> (set common \<union> set own)"
    using p(5) assms(2) by (auto simp: merge_test_cases_def Let_def split: option.splits)
  then have "map_of expected_decisions (tc_case_type c) = Some (tc_expected_decision c)"
    using cl risk by blast
  then show ?thesis using assms(3) expected_decisions_lookup(3) by simp
qed

lemma compare_result_PASS:
  "fst (compare_result c d) = lit ''PASS'' \<Longrightarrow> dr_decision d = tc_expected_decision c"
  by (auto simp: compare_result_def Let_def lit_def split: if_splits)

lemma run_case_Inr:
  "run_case engine release service_id c = Inr q \<Longrightarrow>
    \<exists>d. route engine \<lparr>ri_query = tc_query c, ri_service_id = service_id,
         ri_route_scope = \<lparr>sc_allowed_intents = [], sc_allowed_route_keys = []\<rparr>, ri_release = release\<rparr> = Inr d
      \<and> ts_case_type q = tc_case_type c \<and> ts_result q = fst (compare_result c d)
      \<and> ts_case_id q = tc_case_id c"
  by (cases "route engine \<lparr>ri_query = tc_query c, ri_service_id = service_id,
         ri_route_scope = \<lparr>sc_allowed_intents = [], sc_allowed_route_keys = []\<rparr>, ri_release = release\<rparr>")
    (auto simp: run_case_def case_prod_beta)

lemma gate_input_of_bounds: "0 \<le> gi_passed (gate_input_of rs)"
  by (simp add: gate_input_of_def count_where_def Let_def)

lemma filter_all_length: "length xs \<le> length (filter P xs) \<Longrightarrow> x \<in> set xs \<Longrightarrow> P x"
  by (metis filter_id_conv length_filter_less not_less)

text \<open>A passed gate: enough cases passed, and all risk cases, of which there are some.\<close>

lemma gate_from_results_passed:
  assumes "gr_gate_passed (gate_from_results rs)"
  shows "\<exists>q \<in> set rs. ts_case_type q = lit ''risk''"
    and "\<And>q. q \<in> set rs \<Longrightarrow> ts_case_type q = lit ''risk'' \<Longrightarrow> ts_result q = lit ''PASS''"
    and "length rs < 2 ^ 46 \<Longrightarrow> 7 * length rs \<le> 10 * length (filter (\<lambda>q. ts_result q = lit ''PASS'') rs)"
proof -
  let ?kr = "map (\<lambda>r. (ts_case_type r, ts_result r)) rs"
  let ?g = "gate_input_of ?kr"
  let ?risk = "filter (\<lambda>(t, _). t = lit ''risk'') ?kr"
  have passed: "gr_gate_passed (evaluate_gate ?g)" using assms by (simp add: gate_from_results_def)
  have "gi_risk_total ?g \<noteq> 0" "gi_risk_total ?g \<le> gi_risk_passed ?g"
    using passed by (auto simp: evaluate_gate_def Let_def gate_input_of_def not_less split: if_splits)
  then have "length ?risk \<noteq> 0" and le: "length ?risk \<le> length (filter (\<lambda>(_, r). r = lit ''PASS'') ?risk)"
    unfolding gate_input_of_def Let_def count_where_def gate_input.simps by linarith+
  from this(1) show "\<exists>q \<in> set rs. ts_case_type q = lit ''risk''" by (auto simp: filter_empty_conv)
  show "ts_result q = lit ''PASS''" if "q \<in> set rs" "ts_case_type q = lit ''risk''" for q
    using filter_all_length [OF le, of "(ts_case_type q, ts_result q)"] that by force
  show "7 * length rs \<le> 10 * length (filter (\<lambda>q. ts_result q = lit ''PASS'') rs)" if "length rs < 2 ^ 46"
  proof -
    have "gi_total ?g < 2 ^ 46" using that by (simp add: gate_input_of_def Let_def)
    then have "7 * gi_total ?g \<le> 10 * gi_passed ?g"
      using gate_iff [OF gate_input_of_bounds] passed by blast
    then show ?thesis by (simp add: gate_input_of_def Let_def count_where_def filter_map comp_def)
  qed
qed

lemma run_csv_tests_Inr:
  assumes "run_csv_tests te d service policy catalog rq = Inr (d', s)"
  obtains cases index release results d1 t run t' run' where
    "cases_of_request policy catalog rq = Inr cases"
    "get_ready_vector_index_version (te_collate te) d (sv_service_id service)
       (cv_intent_catalog_version catalog) (Some (te_model_version te)) = Some index"
    "mapE (run_case (test_routing_engine te d (risk_enabled (pv_risk_policy policy))) release
       (sv_service_id service)) cases = Inr results"
    "create_test_dataset d t (map test_case_row_of cases) = Inr (d1, t')"
    "create_test_run_with_results d1 run results = Inr (d', run')"
    "tr_test_run_id run = su_test_run_id s" "tr_service_id run = sv_service_id service"
    "tr_policy_version run = pv_policy_version policy"
    "tr_intent_catalog_version run = cv_intent_catalog_version catalog"
    "tr_model_version run = Some (vi_model_version index)"
    "tr_vector_index_version run = Some (vi_vector_index_version index)"
    "tr_gate_passed run = gr_gate_passed (gate_from_results results)"
    "su_gate_passed s = gr_gate_passed (gate_from_results results)"
    "tr_pass_rate run = su_pass_rate s"
  using assms
  unfolding run_csv_tests_def Let_def bindE_Inr lift_error_iff some_or_Inr split_paired_Ex case_prod_conv
    sum.inject prod.inject
  by (elim exE conjE, hypsubst) (rule that, assumption, assumption, assumption, assumption, assumption, simp_all)

text \<open>
  C19: A run that passes the gate guarantees its release: it has risk cases, the risk policy blocks the
  query of every one of them, and at least seven tenths of the cases passed.
\<close>

theorem passed_test_run_guarded:
  assumes "run_csv_tests te d service policy catalog rq = Inr (d', s)" and "su_gate_passed s"
  shows "\<exists>cases. cases_of_request policy catalog rq = Inr cases
    \<and> (\<exists>c \<in> set cases. tc_case_type c = lit ''risk'')
    \<and> (\<forall>c \<in> set cases. tc_case_type c = lit ''risk'' \<longrightarrow>
         re_matched (risk_evaluate \<lparr>rpol_enabled = risk_enabled (pv_risk_policy policy)\<rparr> (tc_query c)))
    \<and> (\<exists>results. list_all2 (\<lambda>c q. ts_case_id q = tc_case_id c) cases results
         \<and> (\<forall>q \<in> set results. (su_test_run_id s, q) \<in> set (db_test_results d'))
         \<and> (length cases < 2 ^ 46 \<longrightarrow>
              7 * length cases \<le> 10 * length (filter (\<lambda>q. ts_result q = lit ''PASS'') results)))"
proof -
  let ?policy = "\<lparr>rpol_enabled = risk_enabled (pv_risk_policy policy)\<rparr>"
  obtain cases index release results d1 t run t' run' where x:
    "cases_of_request policy catalog rq = Inr cases"
    "mapE (run_case (test_routing_engine te d (risk_enabled (pv_risk_policy policy))) release
       (sv_service_id service)) cases = Inr results"
    "create_test_run_with_results d1 run results = Inr (d', run')"
    "tr_test_run_id run = su_test_run_id s"
    "su_gate_passed s = gr_gate_passed (gate_from_results results)"
    by (rule run_csv_tests_Inr [OF assms(1)])
  let ?run = "run_case (test_routing_engine te d (risk_enabled (pv_risk_policy policy))) release (sv_service_id service)"
  have both: "list_all2 (\<lambda>c q. ?run c = Inr q) cases results" using x(2) by (simp add: mapE_Inr)
  have gate: "gr_gate_passed (gate_from_results results)" using x(5) assms(2) by simp
  have types: "ts_case_type q = tc_case_type c" "ts_case_id q = tc_case_id c" if "?run c = Inr q" for c q
    using run_case_Inr [OF that] by auto
  have "re_matched (risk_evaluate ?policy (tc_query c))"
    if c: "c \<in> set cases" "tc_case_type c = lit ''risk''" for c
  proof -
    obtain q where q: "q \<in> set results" "?run c = Inr q" using mapE_in [OF x(2) c(1)] by blast
    then obtain dr where dr: "route (test_routing_engine te d (risk_enabled (pv_risk_policy policy)))
        \<lparr>ri_query = tc_query c, ri_service_id = sv_service_id service,
         ri_route_scope = \<lparr>sc_allowed_intents = [], sc_allowed_route_keys = []\<rparr>, ri_release = release\<rparr> = Inr dr"
        "ts_result q = fst (compare_result c dr)" "ts_case_type q = tc_case_type c"
      using run_case_Inr by blast
    have "ts_result q = lit ''PASS''"
      using gate_from_results_passed(2) [OF gate q(1)] dr(3) c(2) by simp
    then have "dr_decision dr = Risk"
      using compare_result_PASS [of c dr] dr(2) cases_well_formed [OF x(1) c] by simp
    then show ?thesis
      using route_Risk [OF _ dr(1), of ?policy] by (simp add: test_routing_engine_def)
  qed
  moreover have "\<exists>c \<in> set cases. tc_case_type c = lit ''risk''"
  proof -
    obtain q where q: "q \<in> set results" "ts_case_type q = lit ''risk''"
      using gate_from_results_passed(1) [OF gate] by blast
    then obtain c where "c \<in> set cases" "?run c = Inr q" using mapE_out [OF x(2)] by blast
    then show ?thesis using types(1) q(2) by fastforce
  qed
  moreover have "list_all2 (\<lambda>c q. ts_case_id q = tc_case_id c) cases results"
    using both by (rule list_all2_mono) (rule types(2))
  moreover have "\<forall>q \<in> set results. (su_test_run_id s, q) \<in> set (db_test_results d')"
    using x(3,4) by (auto simp: create_test_run_with_results_def raise_simps)
  moreover have "length cases = length results" using mapE_length [OF x(2)] by simp
  ultimately show ?thesis
    using x(1) gate_from_results_passed(3) [OF gate] by auto
qed

lemma create_test_dataset_frame:
  "create_test_dataset d t cs = Inr (d1, t') \<Longrightarrow> db_policy_versions d1 = db_policy_versions d
    \<and> db_catalog_versions d1 = db_catalog_versions d \<and> db_vector_indexes d1 = db_vector_indexes d
    \<and> db_releases d1 = db_releases d \<and> db_test_runs d1 = db_test_runs d \<and> db_test_results d1 = db_test_results d"
  by (auto simp: create_test_dataset_def raise_simps)

lemma create_test_run_frame:
  "create_test_run_with_results d1 run qs = Inr (d2, r) \<Longrightarrow> db_policy_versions d2 = db_policy_versions d1
    \<and> db_catalog_versions d2 = db_catalog_versions d1 \<and> db_vector_indexes d2 = db_vector_indexes d1
    \<and> db_releases d2 = db_releases d1 \<and> db_test_runs d2 = db_test_runs d1 @ [run] \<and> r = run
    \<and> tr_test_run_id run \<notin> tr_test_run_id ` set (db_test_runs d1)
    \<and> db_test_results d2 = db_test_results d1 @ map (Pair (tr_test_run_id run)) qs"
  by (auto simp: create_test_run_with_results_def raise_simps)

lemma releases_inv_frame:
  "db_releases d' = db_releases d \<Longrightarrow> db_test_runs d' = db_test_runs d \<Longrightarrow> db_test_results d' = db_test_results d
    \<Longrightarrow> releases_inv d' = releases_inv d"
  by (simp add: releases_inv_def release_evidence_def)

lemma find_appended: "(\<And>x. x \<in> set xs \<Longrightarrow> \<not> P x) \<Longrightarrow> P y \<Longrightarrow> find P (xs @ [y]) = Some y"
  by (induction xs) auto

lemma appended_results:
  assumes "\<And>x. x \<in> set old \<Longrightarrow> fst x \<noteq> run"
  shows "map snd (filter (\<lambda>(r, _). r = run) (old @ map (Pair run) qs)) = qs"
proof -
  have "filter (\<lambda>(r, _). r = run) old = []"
    using assms by (force simp: filter_empty_conv)
  then show ?thesis by (simp add: comp_def filter_map)
qed

text \<open>Where a run is stored: found under its identifier, with its results, and not yet released.\<close>

lemma stored_test_run:
  assumes inv: "releases_inv d1" and run: "create_test_run_with_results d1 run results = Inr (d', run')"
  shows "get_test_run d' (tr_test_run_id run) = Some run"
    and "set (list_test_results collate d' (tr_test_run_id run)) = set results"
    and "get_release_for_test_run_environment d' s e (tr_test_run_id run) = None"
proof -
  let ?run = "tr_test_run_id run"
  note f = create_test_run_frame [OF run]
  have fresh: "?run \<notin> tr_test_run_id ` set (db_test_runs d1)" using f by blast
  show "get_test_run d' ?run = Some run"
    unfolding get_test_run_def first_row_def f [THEN conjunct2, THEN conjunct2, THEN conjunct2, THEN conjunct2, THEN conjunct1]
    by (rule find_appended) (use fresh in \<open>auto simp: image_iff\<close>)
  have "fst y \<noteq> ?run" if "y \<in> set (db_test_results d1)" for y
    using releases_invD(6) [OF inv that] fresh by metis
  then show "set (list_test_results collate d' ?run) = set results"
    using f appended_results [of "db_test_results d1" ?run results] by (simp add: list_test_results_def)
  have "rel_test_run_id r \<noteq> ?run" if r: "r \<in> set (db_releases d1)" for r
    using releases_invD(4) [OF inv r] fresh by (metis imageI release_evidence_def)
  then show "get_release_for_test_run_environment d' s e ?run = None"
    using f by (auto simp: get_release_for_test_run_environment_def first_row_None)
qed

lemma passed_run_valid:
  assumes gate: "gr_gate_passed (gate_from_results results)"
    and res: "set (list_test_results collate d run_id) = set results"
    and run: "get_test_run d run_id = Some run" "tr_service_id run = s" "tr_gate_passed run"
      "tr_policy_version run = p" "tr_intent_catalog_version run = c"
    and rows: "get_policy_version d s p = Some policy" "get_catalog_version d s c = Some catalog"
      "cv_status catalog = lit ''active''"
    and env: "e \<in> set supported_runtime_environments"
  shows "validate_release_inputs collate d s e p c run_id None
    = Inr \<lparr>dep_policy = policy, dep_catalog = catalog, dep_test_run = run\<rparr>"
proof -
  have "filter (\<lambda>r. ts_case_type r = lit ''risk'') (list_test_results collate d run_id) \<noteq> []"
    using gate_from_results_passed(1) [OF gate] res by (auto simp: filter_empty_conv)
  moreover have "\<not> list_ex (\<lambda>r. ts_result r \<noteq> lit ''PASS'')
      (filter (\<lambda>r. ts_case_type r = lit ''risk'') (list_test_results collate d run_id))"
    using gate_from_results_passed(2) [OF gate] res by (auto simp: list_ex_iff)
  ultimately show ?thesis unfolding validate_release_inputs_def using env rows run by simp
qed

text \<open>
  C21: A run that passed its gate can be released: with its policy and active catalog in place, the
  creation of a release in any supported environment succeeds, with the rates of the run and switched off.
\<close>

theorem passed_test_run_releasable:
  assumes inv: "releases_inv d"
    and ok: "run_csv_tests te d service policy catalog rq = Inr (d', s)" and gate: "su_gate_passed s"
    and pol: "get_policy_version d (sv_service_id service) (pv_policy_version policy) = Some policy"
    and cat: "get_catalog_version d (sv_service_id service) (cv_intent_catalog_version catalog) = Some catalog"
      "cv_status catalog = lit ''active''"
    and env: "e \<in> set supported_runtime_environments"
  shows "\<exists>d'' r. create_release (te_collate te) d' (sv_service_id service) e (pv_policy_version policy)
      (cv_intent_catalog_version catalog) (te_model_version te) (su_test_run_id s) None who now = Inr (d'', r)
    \<and> rel_pass_rate r = su_pass_rate s \<and> \<not> rel_active r \<and> db_releases d'' = db_releases d' @ [r]"
proof -
  obtain cases index release results d1 t run t' run' where x:
    "get_ready_vector_index_version (te_collate te) d (sv_service_id service)
       (cv_intent_catalog_version catalog) (Some (te_model_version te)) = Some index"
    "create_test_dataset d t (map test_case_row_of cases) = Inr (d1, t')"
    "create_test_run_with_results d1 run results = Inr (d', run')"
    "tr_test_run_id run = su_test_run_id s" "tr_service_id run = sv_service_id service"
    "tr_policy_version run = pv_policy_version policy"
    "tr_intent_catalog_version run = cv_intent_catalog_version catalog"
    "tr_model_version run = Some (vi_model_version index)"
    "tr_vector_index_version run = Some (vi_vector_index_version index)"
    "tr_gate_passed run = gr_gate_passed (gate_from_results results)"
    "su_gate_passed s = gr_gate_passed (gate_from_results results)"
    "tr_pass_rate run = su_pass_rate s"
    by (rule run_csv_tests_Inr [OF ok])
  note f1 = create_test_dataset_frame [OF x(2)] and f2 = create_test_run_frame [OF x(3)]
  have inv1: "releases_inv d1" using inv f1 releases_inv_frame [of d1 d] by simp
  note stored = stored_test_run [OF inv1 x(3), unfolded x(4)]
  have valid: "validate_release_inputs (te_collate te) d' (sv_service_id service) e (pv_policy_version policy)
      (cv_intent_catalog_version catalog) (su_test_run_id s) None
    = Inr \<lparr>dep_policy = policy, dep_catalog = catalog, dep_test_run = run\<rparr>"
    by (rule passed_run_valid [OF _ stored(2,1) x(5)])
      (use x(6,7,10,11) gate pol cat f1 f2 env in \<open>simp_all add: get_policy_version_def get_catalog_version_def\<close>)
  have ix: "get_ready_vector_index_version (te_collate te) d' (sv_service_id service)
      (cv_intent_catalog_version catalog) (Some (te_model_version te)) = Some index"
    using x(1) f1 f2 by (simp add: get_ready_vector_index_version_def)
  have no_store: "release_version_id (te_collate te) d' (sv_service_id service) now
      \<notin> rel_release_version ` set (db_releases d')"
    by (rule release_version_id_fresh) (use releases_invD(3) [OF record_run_inv [OF inv1 x(3)]] in blast)
  note norel = stored(3) [of "sv_service_id service" e]
  show ?thesis
    unfolding create_release_def valid bindE_simps norel ix
    using no_store norel x(8,9,12)
    by (auto simp: agrees_def insert_release_def release_conflict_def get_release_for_test_run_environment_def
        first_row_None)
qed

section \<open>The built-in cases are always blocked\<close>

text \<open>A file of plain fields without a final line feed.\<close>

definition plain_field :: "str \<Rightarrow> bool" where
  "plain_field x \<longleftrightarrow> x \<noteq> [] \<and> list_all plain_char x \<and> length x \<le> field_limit"

lemma csv_field_plain [simp]: "plain_field x \<Longrightarrow> csv_field x = x"
  by (simp add: csv_field_def plain_field_def)

lemma csv_chars_plain:
  "length f + length x \<le> field_limit \<Longrightarrow> list_all plain_char x
    \<Longrightarrow> csv_chars x (In_Field, f, fs) = Inr (In_Field, f @ x, fs)"
  by (induction x arbitrary: f) (auto simp: csv_add_def plain_char_def is_eol_def)

lemma lines_of_plain: "list_all plain_char x \<Longrightarrow> x \<noteq> [] \<Longrightarrow> lines_of x = [x]"
proof (induction x)
  case Nil
  then show ?case by simp
next
  case (Cons c x)
  then show ?case by (cases x) (auto simp: plain_char_def)
qed

lemma rows_last_field:
  assumes "plain_field x" and "st = Start_Record \<or> st = Start_Field"
  shows "csv_rows (st, [], fs) (lines_of x) = [Inr (fs @ [x])]"
proof -
  obtain c y where x: "x = c # y" using assms(1) by (cases x) (auto simp: plain_field_def)
  have plain: "list_all plain_char x" "length x \<le> field_limit" "x \<noteq> []" using assms(1) by (simp_all add: plain_field_def)
  have "csv_chars x (st, [], fs) = Inr (In_Field, x, fs)"
    using plain assms(2) csv_chars_plain [of "[c]" y fs]
    by (auto simp: x csv_start_field_def is_eol_def plain_char_def csv_add_def field_limit_def)
  then show ?thesis
    using lines_of_plain [OF plain(1,3)] by (simp add: csv_line_def is_eol_def eol_state_def csv_reset_def)
qed

lemma rows_last:
  "r \<noteq> [] \<Longrightarrow> \<forall>x \<in> set r. plain_field x \<Longrightarrow> st = Start_Record \<or> st = Start_Field
    \<Longrightarrow> csv_rows (st, [], fs) (lines_of (csv_row r)) = [Inr (fs @ r)]"
proof (induction r arbitrary: st fs)
  case Nil
  then show ?case by simp
next
  case (Cons x r)
  show ?case
  proof (cases r)
    case Nil
    then show ?thesis using Cons.prems rows_last_field [of x st fs] by (simp add: csv_row_def)
  next
    case (Cons y ys)
    then have row: "csv_row (x # r) = csv_field x @ 44 # csv_row r" by (simp add: csv_row_def)
    have "csv_row r \<noteq> []"
      using Cons Cons.prems(2) by (cases ys) (auto simp: csv_row_def plain_field_def)
    then show ?thesis
      using Cons.prems rows_field(1) [of x st "csv_row r" fs] Cons.IH [of Start_Field "fs @ [x]"] Cons row
      by (auto simp: plain_field_def simp del: lines_of.simps)
  qed
qed

lemma csv_row_plain: "\<forall>x \<in> set r. plain_field x \<Longrightarrow> csv_row r = join_with [44] r"
  unfolding csv_row_def by (metis csv_field_plain map_idI)

lemma reader_plain:
  "rows \<noteq> [] \<Longrightarrow> \<forall>r \<in> set rows. r \<noteq> [] \<and> (\<forall>x \<in> set r. plain_field x)
    \<Longrightarrow> csv_reader (join_with [10] (map (join_with [44]) rows)) = map Inr rows"
proof (induction rows)
  case Nil
  then show ?case by simp
next
  case (Cons r rows)
  have r: "r \<noteq> []" "\<forall>x \<in> set r. plain_field x" "join_with [44] r = csv_row r"
    using Cons.prems csv_row_plain [of r] by auto
  show ?case
  proof (cases rows)
    case Nil
    then show ?thesis
      using r rows_last [of r Start_Record "[]"] by (simp add: csv_reader_def csv_reset_def)
  next
    case (Cons q qs)
    have rest: "csv_reader (join_with [10] (map (join_with [44]) rows)) = map Inr rows"
      using Cons.IH Cons Cons.prems by simp
    have "join_with [10] (map (join_with [44]) (r # rows))
        = csv_row r @ 10 # join_with [10] (map (join_with [44]) rows)"
      using Cons r(3) by simp
    then show ?thesis
      using rest r rows_row [of r Start_Record "[]" "join_with [10] (map (join_with [44]) rows)"]
      by (auto simp: csv_reader_def csv_reset_def plain_field_def simp del: lines_of.simps)
  qed
qed

definition pack_case :: "str list \<Rightarrow> parsed_test_case" where
  "pack_case r = \<lparr>tc_case_id = r ! 0, tc_query = r ! 1, tc_expected_intent = None, tc_case_type = lit ''risk'',
     tc_memo = r ! 2, tc_expected_decision = Risk, tc_expected_route_key = None\<rparr>"

lemma pack_rows_plain: "r \<in> set common_risk_pack_rows \<Longrightarrow> length r = 3 \<and> (\<forall>x \<in> set r. plain_field x \<and> stripped x)"
  by (auto simp: common_risk_pack_rows_def pack_row_def common_risk_pack_version_def plain_field_def plain_char_def
      field_limit_def stripped_def strip_def lstrip_def rstrip_def is_space_def lit_def)

lemma pack_row_parses:
  assumes "length r = 3" and "\<forall>x \<in> set r. stripped x" and "r ! 0 \<notin> set seen"
  shows "risk_row source n seen r = Inr (pack_case r)"
proof -
  obtain a b c where r: "r = [a, b, c]"
    using assms(1) by (metis (no_types, opaque_lifting) length_0_conv length_Suc_conv numeral_3_eq_3)
  have get: "row_get risk_csv_columns r (lit ''case_id'') = Some a" "row_get risk_csv_columns r (lit ''query'') = Some b"
    "row_get risk_csv_columns r (lit ''memo'') = Some c" "length risk_csv_columns = 3"
    by (simp_all add: row_get_def risk_csv_columns_def r lit_def)
  have ok: "required (Some s) n col = Inr s" if "stripped s" for s col
    using that by (simp add: required_def stripped_def)
  show ?thesis
    using assms(2,3) ok get unfolding risk_row_def Let_def by (simp add: r pack_case_def)
qed

lemma parse_pack_rows:
  "\<forall>r \<in> set rows. length r = 3 \<and> (\<forall>x \<in> set r. stripped x) \<Longrightarrow> distinct (map (\<lambda>r. r ! 0) rows)
    \<Longrightarrow> set (map (\<lambda>r. r ! 0) rows) \<inter> set seen = {}
    \<Longrightarrow> parse_rows (risk_row source) n seen (map Inr rows) = Inr (map pack_case rows)"
proof (induction rows arbitrary: n seen)
  case Nil
  then show ?case by simp
next
  case (Cons r rows)
  have "risk_row source n seen r = Inr (pack_case r)"
    by (rule pack_row_parses) (use Cons.prems in auto)
  moreover have "parse_rows (risk_row source) (n + 1) (tc_case_id (pack_case r) # seen) (map Inr rows)
      = Inr (map pack_case rows)"
    by (rule Cons.IH) (use Cons.prems in \<open>auto simp: pack_case_def\<close>)
  moreover have "r \<noteq> []" using Cons.prems(1) by auto
  ultimately show ?case by simp
qed

lemma common_cases: "common_risk_cases = Inr (map pack_case common_risk_pack_rows)"
proof -
  have "plain_field x" if "x \<in> set risk_csv_columns" for x
    using that by (auto simp: risk_csv_columns_def plain_field_def plain_char_def field_limit_def lit_def)
  then have "\<forall>r \<in> set (risk_csv_columns # common_risk_pack_rows). r \<noteq> [] \<and> (\<forall>x \<in> set r. plain_field x)"
    using pack_rows_plain by (fastforce simp: risk_csv_columns_def)
  then have rd: "csv_reader common_risk_pack_csv = map Inr (risk_csv_columns # common_risk_pack_rows)"
    unfolding common_risk_pack_csv_def by (intro reader_plain) simp_all
  have "parse_rows (risk_row common_risk_pack_version) 2 [] (map Inr common_risk_pack_rows)
      = Inr (map pack_case common_risk_pack_rows)"
    by (rule parse_pack_rows) (use pack_rows_plain in \<open>auto simp: common_risk_pack_rows_def pack_row_def lit_def\<close>)
  then show ?thesis
    by (simp add: common_risk_cases_def parse_risk_cases_csv_def rd fieldnames_def nonempty_cases_def
        common_risk_pack_rows_def)
qed

lemma pack_query_folded: "r \<in> set common_risk_pack_rows \<Longrightarrow> casefold (r ! 1) = r ! 1"
  by (auto simp: common_risk_pack_rows_def pack_row_def lit_def)

lemma pack_query_hit:
  "map (\<lambda>r. find (risk_type_hit (r ! 1)) risk_types) common_risk_pack_rows = map Some risk_types"
  by (simp add: common_risk_pack_rows_def pack_row_def risk_types_list risk_type_hit_def lit_def sublist_Cons_right)

lemma pack_evaluations:
  "rpol_enabled policy \<Longrightarrow> map (\<lambda>r. risk_evaluate policy (r ! 1)) common_risk_pack_rows = map risk_match risk_types"
proof -
  assume on: "rpol_enabled policy"
  let ?h = "\<lambda>t. case t of Some t \<Rightarrow> risk_match t | None \<Rightarrow> no_risk"
  have "map (\<lambda>r. risk_evaluate policy (r ! 1)) common_risk_pack_rows
      = map (\<lambda>r. ?h (find (risk_type_hit (r ! 1)) risk_types)) common_risk_pack_rows"
    using on by (intro map_cong refl) (simp add: risk_evaluate_def pack_query_folded del: One_nat_def)
  also have "\<dots> = map ?h (map (\<lambda>r. find (risk_type_hit (r ! 1)) risk_types) common_risk_pack_rows)"
    by (simp add: comp_def)
  also have "\<dots> = map risk_match risk_types"
    unfolding pack_query_hit by (simp add: comp_def)
  finally show ?thesis .
qed

text \<open>
  C24: The built-in risk pack parses into one case per risk type, in the order of the types; the enabled
  policy reports exactly that type for its query, and the case passes whatever the catalog, the index and
  the embedding provider are.
\<close>

theorem common_risk_pack_blocked:
  "\<exists>cases. common_risk_cases = Inr cases
    \<and> map (\<lambda>c. risk_evaluate \<lparr>rpol_enabled = True\<rparr> (tc_query c)) cases = map risk_match risk_types
    \<and> distinct (map tc_case_id cases)
    \<and> list_all (\<lambda>c. case run_case (test_routing_engine te d True) release s c of
         Inr q \<Rightarrow> ts_case_type q = lit ''risk'' \<and> ts_result q = lit ''PASS'' | Inl _ \<Rightarrow> False) cases"
proof -
  let ?cases = "map pack_case common_risk_pack_rows"
  have eval: "map (\<lambda>c. risk_evaluate \<lparr>rpol_enabled = True\<rparr> (tc_query c)) ?cases = map risk_match risk_types"
    using pack_evaluations [of "\<lparr>rpol_enabled = True\<rparr>"] by (simp add: comp_def pack_case_def)
  have "case run_case (test_routing_engine te d True) release s c of
         Inr q \<Rightarrow> ts_case_type q = lit ''risk'' \<and> ts_result q = lit ''PASS'' | Inl _ \<Rightarrow> False"
    if c: "c \<in> set ?cases" for c
  proof -
    have "risk_evaluate \<lparr>rpol_enabled = True\<rparr> (tc_query c) \<in> set (map risk_match risk_types)"
      unfolding eval [symmetric] using c by auto
    then have "re_matched (risk_evaluate \<lparr>rpol_enabled = True\<rparr> (tc_query c))"
      by (auto simp: risk_match_def)
    moreover have "tc_expected_decision c = Risk" "tc_case_type c = lit ''risk''" "tc_expected_intent c = None"
        "tc_expected_route_key c = None"
      using c by (auto simp: pack_case_def)
    ultimately show ?thesis
      by (simp add: run_case_def route_def test_routing_engine_def compare_result_def)
  qed
  then show ?thesis
    using common_cases eval risk_cases_parsed [of common_risk_pack_csv common_risk_pack_version ?cases]
    by (auto simp: common_risk_cases_def list_all_iff)
qed

section \<open>A run\<close>

definition sample_env :: "unit test_environment" where
  "sample_env = \<lparr>te_model_version = [5], te_dimension = 1, te_embed_texts = (\<lambda>_ _. Inl ()),
     te_distance = (\<lambda>_ _. 0), te_collate = length, te_validate_fallback = (\<lambda>_. Inl ()), te_py_str = (\<lambda>_. []),
     te_uuid8 = (\<lambda>n. dec n), te_sha256 = id, te_now = days 20454\<rparr>"

definition sample_service :: service where
  "sample_service = \<lparr>sv_service_id = [2], sv_display_name = [2], sv_max_input_tokens = 256,
     sv_status = lit ''active'', sv_created_by = [9], sv_created_at = 0, sv_updated_at = 0\<rparr>"

definition sample_policy_row :: policy_version where
  "sample_policy_row = hd (db_policy_versions sample_db)"

definition sample_catalog_row :: intent_catalog_version where
  "sample_catalog_row = hd (db_catalog_versions sample_db)"

definition risk_fields :: "str list" where
  "risk_fields = [lit ''r1'', lit ''drop table'', [], lit ''risk'', lit ''m'']"

definition sample_risk_case :: parsed_test_case where
  "sample_risk_case = \<lparr>tc_case_id = lit ''r1'', tc_query = lit ''drop table'', tc_expected_intent = None,
     tc_case_type = lit ''risk'', tc_memo = lit ''m'', tc_expected_decision = Risk, tc_expected_route_key = None\<rparr>"

definition sample_request :: test_run_request where
  "sample_request = \<lparr>trq_source_filename = lit ''f.csv'', trq_csv_text = csv_text [legacy_csv_columns, risk_fields],
     trq_created_by = [9], trq_risk_source_filename = None, trq_risk_csv_text = None,
     trq_include_common_risk_pack = None\<rparr>"

lemma sample_row: "legacy_row 2 [] risk_fields = Inr sample_risk_case"
  by (simp add: legacy_row_def risk_fields_def legacy_csv_columns_def row_get_def row_or_empty_def required_def
      sample_risk_case_def expected_decisions_def lit_def strip_def lstrip_def rstrip_def is_space_def)

lemma sample_cases: "cases_of_request sample_policy_row sample_catalog_row sample_request = Inr [sample_risk_case]"
proof -
  have reader: "csv_reader (csv_text [legacy_csv_columns, risk_fields]) = map Inr [legacy_csv_columns, risk_fields]"
    by (rule reader_writer) (simp add: legacy_csv_columns_def risk_fields_def field_limit_def lit_def)
  have cols: "legacy_csv_columns \<noteq> classification_csv_columns" "risk_fields \<noteq> []"
    by (simp_all add: legacy_csv_columns_def classification_csv_columns_def risk_fields_def)
  have "parse_test_cases_csv (csv_text [legacy_csv_columns, risk_fields]) = Inr [sample_risk_case]"
    using cols by (simp add: parse_test_cases_csv_def reader fieldnames_def sample_row nonempty_cases_def)
  then show ?thesis
    using cols
    by (simp add: cases_of_request_def sample_request_def is_classification_csv_def reader fieldnames_def
        merge_test_cases_def)
qed

lemma drop_table_blocked: "re_matched (risk_evaluate \<lparr>rpol_enabled = True\<rparr> (lit ''drop table''))"
proof -
  have "risk_type_hit (casefold (lit ''drop table'')) Dangerous_Command"
    by (simp add: risk_type_hit_def lit_def sublist_Cons_right)
  then show ?thesis by (auto simp: risk_matched_iff)
qed

lemma sample_case_passes:
  "\<exists>q. run_case (test_routing_engine te d True) release s sample_risk_case = Inr q
    \<and> ts_case_type q = lit ''risk'' \<and> ts_result q = lit ''PASS''"
  using drop_table_blocked
  by (simp add: run_case_def route_def test_routing_engine_def sample_risk_case_def compare_result_def)

lemma sample_gate: "gr_gate_passed (evaluate_gate (gate_input_of [(lit ''risk'', lit ''PASS'')]))"
  using gate_iff [of "gate_input_of [(lit ''risk'', lit ''PASS'')]"]
  by (simp add: gate_input_of_def count_where_def)

lemma sample_rows:
  "pv_service_id sample_policy_row = [2]" "pv_policy_version sample_policy_row = [3]"
  "risk_enabled (pv_risk_policy sample_policy_row)" "pv_off_topic_policy sample_policy_row = []"
  "cv_service_id sample_catalog_row = [2]" "cv_intent_catalog_version sample_catalog_row = [4]"
  "cv_status sample_catalog_row = lit ''active''"
  by (simp_all add: sample_policy_row_def sample_catalog_row_def sample_db_def risk_enabled_def get_default_def)

lemma sample_index:
  "\<exists>i. get_ready_vector_index_version length sample_db [2] [4] (Some [5]) = Some i"
  by (simp add: get_ready_vector_index_version_def ready_index_def sample_db_def order_by_def first_row_def)

lemma sample_test_run:
  "\<exists>d' s. run_csv_tests sample_env sample_db sample_service sample_policy_row sample_catalog_row sample_request
    = Inr (d', s) \<and> su_gate_passed s"
proof -
  obtain i where i: "get_ready_vector_index_version length sample_db [2] [4] (Some [5]) = Some i"
    using sample_index by blast
  obtain release where r: "test_release_context sample_env sample_service sample_policy_row sample_catalog_row i = Inr release"
    by (simp add: test_release_context_def off_topic_policy_from_config_def sample_rows get_default_def get_def)
  obtain q where q: "run_case (test_routing_engine sample_env sample_db True) release [2] sample_risk_case = Inr q"
      "ts_case_type q = lit ''risk''" "ts_result q = lit ''PASS''"
    using sample_case_passes by blast
  have gate: "gr_gate_passed (gate_from_results [q])"
    using sample_gate q by (simp add: gate_from_results_def)
  have env: "te_collate sample_env = length" "te_model_version sample_env = [5]" "sv_service_id sample_service = [2]"
    by (simp_all add: sample_env_def sample_service_def)
  have tables: "db_test_datasets sample_db = []" "db_test_cases sample_db = []" "db_test_runs sample_db = []"
    by (simp_all add: sample_db_def empty_db_def)
  show ?thesis
    using gate i r q
    by (simp add: run_csv_tests_def sample_cases env sample_rows create_test_dataset_def
        create_test_run_with_results_def insert_row_def tables test_case_row_of_def Let_def)
qed

theorem passed_test_run_guarded_witness:
  "\<exists>d' s cases. run_csv_tests sample_env sample_db sample_service sample_policy_row sample_catalog_row sample_request
      = Inr (d', s)
    \<and> cases_of_request sample_policy_row sample_catalog_row sample_request = Inr cases
    \<and> (\<exists>c \<in> set cases. tc_case_type c = lit ''risk'')"
proof -
  obtain d' s where ok: "run_csv_tests sample_env sample_db sample_service sample_policy_row sample_catalog_row
      sample_request = Inr (d', s)" "su_gate_passed s"
    using sample_test_run by blast
  show ?thesis using passed_test_run_guarded [OF ok] ok(1) by blast
qed

lemma sample_get_rows:
  "get_policy_version sample_db (sv_service_id sample_service) (pv_policy_version sample_policy_row) = Some sample_policy_row"
  "get_catalog_version sample_db (sv_service_id sample_service) (cv_intent_catalog_version sample_catalog_row)
    = Some sample_catalog_row"
  by (simp_all add: get_policy_version_def get_catalog_version_def first_row_def sample_service_def
      sample_policy_row_def sample_catalog_row_def sample_db_def)

theorem passed_test_run_releasable_witness:
  "\<exists>d' s d'' r. run_csv_tests sample_env sample_db sample_service sample_policy_row sample_catalog_row sample_request
      = Inr (d', s)
    \<and> create_release length d' [2] (lit ''prod'') [3] [4] [5] (su_test_run_id s) None [9] (days 20454) = Inr (d'', r)
    \<and> rel_pass_rate r = su_pass_rate s"
proof -
  obtain d' s where ok: "run_csv_tests sample_env sample_db sample_service sample_policy_row sample_catalog_row
      sample_request = Inr (d', s)" "su_gate_passed s"
    using sample_test_run by blast
  have "releases_inv sample_db" by (rule releases_inv_empty [OF sample_db_empty])
  from passed_test_run_releasable [OF this ok sample_get_rows sample_rows(7), of "lit ''prod''" "[9]" "days 20454"]
  show ?thesis
    using ok(1) by (auto simp: supported_runtime_environments_def sample_env_def sample_service_def sample_rows)
qed

end
