(* ===== verification/Runtime.thy ===== *)
theory Runtime
  imports Api_Keys Test_Run
begin

text \<open>
  The runtime endpoint: \<open>api/runtime.py\<close> with the trace logger of \<open>logging/trace.py\<close> and the exception handlers
  of \<open>main.py\<close> that log the requests the endpoint did not log itself. The embedding provider, the vector
  distance, pydantic's validation, identifiers and clocks are parameters, and so is how deep \<open>json.loads\<close> may nest
  before the recursion limit, the same for both readings of a body.
\<close>

record 'x embedding_provider =
  pr_model_version :: str
  pr_dimension :: nat
  pr_embed_texts :: "str list \<Rightarrow> nat \<Rightarrow> ('x, float64 list list) outcome"

record 'x runtime_env =
  rt_provider :: "('x, 'x embedding_provider) outcome"
  rt_distance :: "float64 list \<Rightarrow> float64 list \<Rightarrow> float64"
  rt_validate_fallback :: "(str \<times> json) list \<Rightarrow> ('x, fallback_policy) outcome"
  rt_py_str :: "json \<Rightarrow> str"
  rt_json_depth :: nat
  rt_validate_body :: "json_text \<Rightarrow> runtime_request option"
  rt_trace_id :: str
  rt_latency :: "nat \<Rightarrow> nat"
  rt_clock :: "nat \<Rightarrow> timestamp"
  rt_variable :: "str \<Rightarrow> str option"
  rt_aead :: aead
  rt_nonces :: "nat \<Rightarrow> nonces"
  rt_kdf :: pbkdf2

section \<open>Errors\<close>

record runtime_api_error =
  rx_status :: nat
  rx_code :: error_code
  rx_message :: str
  rx_retryable :: bool
  rx_category :: str
  rx_layer :: str
  rx_release :: "active_release_context option"

text \<open>\<open>Store_Failure\<close> is any exception of the \<open>flush\<close> that inserts a log.\<close>

datatype runtime_failure = Api_Error runtime_api_error | Trace_Configuration | Store_Failure | Other_Exception

definition active_release_not_found :: runtime_failure where
  "active_release_not_found = Api_Error \<lparr>rx_status = 404, rx_code = ACTIVE_RELEASE_NOT_FOUND,
     rx_message = lit ''No active release is available for this service.'', rx_retryable = False,
     rx_category = lit ''configuration_error'', rx_layer = lit ''release_layer'', rx_release = None\<rparr>"

definition policy_load_failed :: "active_release_context \<Rightarrow> runtime_failure" where
  "policy_load_failed release = Api_Error \<lparr>rx_status = 503, rx_code = POLICY_LOAD_FAILED,
     rx_message = lit ''Release dependencies are temporarily unavailable.'', rx_retryable = True,
     rx_category = lit ''dependency_failure'', rx_layer = lit ''policy_layer'', rx_release = Some release\<rparr>"

definition embedding_unavailable :: runtime_failure where
  "embedding_unavailable = Api_Error \<lparr>rx_status = 503, rx_code = EMBEDDING_MODEL_UNAVAILABLE,
     rx_message = lit ''Embedding dependency is temporarily unavailable.'', rx_retryable = True,
     rx_category = lit ''dependency_failure'', rx_layer = lit ''embedding_layer'', rx_release = None\<rparr>"

definition vector_store_unavailable :: runtime_failure where
  "vector_store_unavailable = Api_Error \<lparr>rx_status = 503, rx_code = VECTOR_STORE_UNAVAILABLE,
     rx_message = lit ''Vector search is temporarily unavailable.'', rx_retryable = True,
     rx_category = lit ''dependency_failure'', rx_layer = lit ''semantic_layer'', rx_release = None\<rparr>"

section \<open>The active release\<close>

text \<open>A context with only its versions: the other fields have the defaults of the class.\<close>

definition partial_context :: "str \<Rightarrow> active_release_context" where
  "partial_context release_version = \<lparr>ctx_release_version = release_version, ctx_service_id = None,
     ctx_policy_version = None, ctx_intent_catalog_version = None, ctx_model_version = None,
     ctx_vector_index_version = None, ctx_test_run_id = None, ctx_threshold_preset = lit ''balanced'',
     ctx_threshold = None, ctx_threshold_value = None, ctx_clarify_margin = decimal 8 2,
     ctx_min_candidate_score = decimal 55 2, ctx_fallback_score = decimal 45 2, ctx_policy = [],
     ctx_catalog_snapshot = [], ctx_max_input_tokens = 256, ctx_off_topic_policy = None\<rparr>"

definition load_active_release ::
  "'x runtime_env \<Rightarrow> db \<Rightarrow> str \<Rightarrow> str \<Rightarrow> (runtime_failure, active_release_context) outcome" where
  "load_active_release rt d service_id environment =
     bindE (some_or (get_active_release d service_id environment) active_release_not_found) (\<lambda>r.
     let partial = (partial_context (rel_release_version r))
           \<lparr>ctx_service_id := Some service_id, ctx_policy_version := Some (rel_policy_version r),
            ctx_intent_catalog_version := Some (rel_intent_catalog_version r),
            ctx_model_version := Some (rel_model_version r),
            ctx_vector_index_version := Some (rel_vector_index_version r),
            ctx_test_run_id := Some (rel_test_run_id r)\<rparr> in
     case (get_policy_version d service_id (rel_policy_version r),
           get_catalog_version d service_id (rel_intent_catalog_version r),
           get_test_run d (rel_test_run_id r), get_service d service_id) of
       (Some policy, Some catalog, Some run, Some service) \<Rightarrow>
         if \<not> tr_gate_passed run then Inl (policy_load_failed partial)
         else bindE (lift_error (\<lambda>_. Other_Exception) (off_topic_policy_from_config (rt_validate_fallback rt) (rt_py_str rt)
           (pv_off_topic_policy policy))) (\<lambda>off_topic.
         Inr (context_post_init
           \<lparr>ctx_release_version = rel_release_version r, ctx_service_id = Some service_id,
            ctx_policy_version = Some (pv_policy_version policy),
            ctx_intent_catalog_version = Some (cv_intent_catalog_version catalog),
            ctx_model_version = Some (rel_model_version r),
            ctx_vector_index_version = Some (rel_vector_index_version r), ctx_test_run_id = Some (rel_test_run_id r),
            ctx_threshold_preset = pv_threshold_preset policy, ctx_threshold = Some (pv_threshold_value policy),
            ctx_threshold_value = Some (pv_threshold_value policy), ctx_clarify_margin = pv_clarify_margin policy,
            ctx_min_candidate_score = pv_min_candidate_score policy, ctx_fallback_score = pv_fallback_score policy,
            ctx_policy = [(lit ''risk_policy'', JObj (pv_risk_policy policy)),
              (lit ''off_topic_policy'', JObj (pv_off_topic_policy policy))],
            ctx_catalog_snapshot = json_dict (cv_snapshot catalog),
            ctx_max_input_tokens = sv_max_input_tokens service, ctx_off_topic_policy = Some off_topic\<rparr>))
     | _ \<Rightarrow> Inl (policy_load_failed partial))"

section \<open>Semantic search\<close>

definition runtime_semantic_matches ::
  "'x runtime_env \<Rightarrow> db \<Rightarrow> str \<Rightarrow> intent_candidate list \<Rightarrow> active_release_context
    \<Rightarrow> (runtime_failure, str \<Rightarrow> semantic_match option) outcome" where
  "runtime_semantic_matches rt d query candidates release =
     (if candidates = [] then Inr (\<lambda>_. None) else
      bindE (lift_error (\<lambda>_. embedding_unavailable) (rt_provider rt)) (\<lambda>provider.
      bindE (require (ctx_model_version release = Some (pr_model_version provider)) embedding_unavailable) (\<lambda>_.
      bindE (lift_error (\<lambda>_. embedding_unavailable) (pr_embed_texts provider [query] (ctx_max_input_tokens release)))
        (\<lambda>embeddings.
      bindE (case embeddings of [e] \<Rightarrow> require (length e = pr_dimension provider) embedding_unavailable
             | _ \<Rightarrow> Inl embedding_unavailable) (\<lambda>_.
      bindE (some_or (ctx_intent_catalog_version release) vector_store_unavailable) (\<lambda>catalog.
      bindE (lift_error (\<lambda>_. vector_store_unavailable) (search_catalog_version_examples_by_embedding (rt_distance rt) d
          catalog (pr_model_version provider) (hd embeddings) (int (max 8 (length candidates * 4))))) (\<lambda>rows.
      Inr (\<lambda>i.
        if list_ex (\<lambda>c. ic_intent_id c = i) candidates
           \<and> list_ex (\<lambda>r. sr_intent_id r = i \<and> sr_example_type r \<in> {lit ''positive'', lit ''negative''}) rows
        then Some \<lparr>sm_positive_scores = example_scores rows i (lit ''positive''),
                   sm_negative_scores = example_scores rows i (lit ''negative'')\<rparr>
        else None))))))))"

definition runtime_routing_engine ::
  "'x runtime_env \<Rightarrow> db \<Rightarrow> active_release_context \<Rightarrow> runtime_failure routing_engine" where
  "runtime_routing_engine rt d release =
     \<lparr>eng_risk_evaluate = risk_evaluate
        \<lparr>rpol_enabled = risk_enabled (json_dict (get (ctx_policy release) (lit ''risk_policy'')))\<rparr>,
      eng_candidate_loader = (\<lambda>_ release. Inr (load_candidates release)),
      eng_semantic_search = runtime_semantic_matches rt d, eng_composer = None\<rparr>"

text \<open>What escapes from routing: the API errors of the search, and any other exception.\<close>

fun route_failure :: "runtime_failure route_error \<Rightarrow> runtime_failure" where
  "route_failure (Search_Error f) = f"
| "route_failure (Loader_Error f) = f"
| "route_failure (Threshold_Error e) = Other_Exception"

definition runtime_response_of :: "decision_result \<Rightarrow> str \<Rightarrow> str option \<Rightarrow> str \<Rightarrow> runtime_response" where
  "runtime_response_of d trace_id request_id release_version =
     \<lparr>rr_trace_id = trace_id, rr_decision = dr_decision d, rr_request_id = request_id, rr_domain = dr_domain d,
      rr_intent_id = (if dr_decision d = Confident then dr_intent_id d else None), rr_confidence = dr_confidence d,
      rr_route_key = (if dr_decision d = Confident then dr_route_key d else None),
      rr_clarify_question = dr_clarify_question d, rr_fallback_policy = dr_fallback_policy d,
      rr_clarify = dr_clarify d, rr_risk = dr_risk d, rr_release_version = Some release_version\<rparr>"

section \<open>The trace log\<close>

definition preset_text :: "preset_choice \<Rightarrow> str" where
  "preset_text p = (case p of Custom \<Rightarrow> lit ''custom'' | Preset t \<Rightarrow> preset_value t)"

definition json_float_option :: "float64 option \<Rightarrow> json" where
  "json_float_option v = (case v of None \<Rightarrow> JNull | Some f \<Rightarrow> JFloat f)"

definition json_text_option :: "str option \<Rightarrow> json" where
  "json_text_option v = (case v of None \<Rightarrow> JNull | Some s \<Rightarrow> JStr s)"

definition ranking_entry :: "nat \<times> candidate_score \<Rightarrow> json" where
  "ranking_entry = (\<lambda>(rank, c). JObj
     [(lit ''rank'', JInt (int rank)), (lit ''intent_id'', JStr (cs_intent_id c)),
      (lit ''display_name'', JStr (cs_display_name c)), (lit ''domain'', JStr (cs_domain c)),
      (lit ''route_key'', JStr (cs_route_key c)), (lit ''confidence'', JFloat (cs_confidence c)),
      (lit ''score_breakdown'', JObj
        [(lit ''positive_max'', JFloat (cs_positive_score c)), (lit ''negative_max'', JFloat (cs_negative_score c)),
         (lit ''include_keyword_match_count'', JInt (int (cs_include_keyword_match_count c))),
         (lit ''exclude_keyword_match_count'', JInt (int (cs_exclude_keyword_match_count c))),
         (lit ''keyword_boost'', JFloat (cs_keyword_boost c)), (lit ''keyword_penalty'', JFloat (cs_keyword_penalty c)),
         (lit ''negative_penalty'', JFloat (cs_negative_penalty c))])])"

fun decision_state_json :: "decision_state \<Rightarrow> (str \<times> json) list" where
  "decision_state_json (Ranked_State reason intent_id route_key margin thresholds ranking) =
     [(lit ''decision_reason'', JStr reason), (lit ''selected_intent_id'', json_text_option intent_id),
      (lit ''selected_route_key'', json_text_option route_key), (lit ''margin'', json_float_option margin),
      (lit ''thresholds'', JObj
        [(lit ''preset'', JStr (preset_text (ts_preset thresholds))), (lit ''threshold'', JFloat (ts_threshold thresholds)),
         (lit ''clarify_margin'', JFloat (ts_clarify_margin thresholds)),
         (lit ''min_candidate_score'', JFloat (ts_min_candidate_score thresholds)),
         (lit ''fallback_score'', JFloat (ts_fallback_score thresholds))]),
      (lit ''ranking'', JArr (map ranking_entry ranking))]"
| "decision_state_json (Risk_State risk_type action) =
     [(lit ''decision_reason'', JStr (lit ''risk_policy_match'')), (lit ''risk_type'', JStr (risk_type_value risk_type)),
      (lit ''action'', JStr action)]"
| "decision_state_json (Off_Topic_State keywords) =
     [(lit ''decision_reason'', JStr (lit ''off_topic_policy_match'')),
      (lit ''matched_keywords'', JArr (map JStr keywords))]"

text \<open>\<open>Decimal(str(round(value, 6)))\<close>: the value to six decimals, ties to even.\<close>

definition decimal_of :: "float64 \<Rightarrow> float64" where
  "decimal_of v = of_int (round_half_even (v * 1000000)) / 1000000"

definition versions_of :: "active_release_context option \<Rightarrow> log_versions" where
  "versions_of release =
     (case release of
        None \<Rightarrow> \<lparr>lv_release_version = None, lv_policy_version = None, lv_intent_catalog_version = None,
          lv_model_version = None, lv_vector_index_version = None, lv_test_run_id = None,
          lv_threshold_preset = None, lv_threshold_value = None\<rparr>
      | Some r \<Rightarrow> \<lparr>lv_release_version = Some (ctx_release_version r), lv_policy_version = ctx_policy_version r,
          lv_intent_catalog_version = ctx_intent_catalog_version r, lv_model_version = ctx_model_version r,
          lv_vector_index_version = ctx_vector_index_version r, lv_test_run_id = ctx_test_run_id r,
          lv_threshold_preset = Some (ctx_threshold_preset r),
          lv_threshold_value = map_option decimal_of (ctx_threshold r)\<rparr>)"

definition trace_keyring :: "'x runtime_env \<Rightarrow> (runtime_failure, raw_text_keyring) outcome" where
  "trace_keyring rt = lift_error (\<lambda>_. Trace_Configuration) (load_raw_text_keyring (rt_variable rt))"

definition encrypt_query :: "'x runtime_env \<Rightarrow> nat \<Rightarrow> str \<Rightarrow> (runtime_failure, nullable_encrypted_text) outcome" where
  "encrypt_query rt k query =
     bindE (trace_keyring rt) (\<lambda>keyring.
     bindE (lift_error (\<lambda>_. Other_Exception) (keyring_encrypt (rt_aead rt) keyring (rt_nonces rt k) query None)) (\<lambda>e.
     Inr (stored_text e)))"

record log_source =
  so_request_id :: "str option"
  so_app_id :: "str option"
  so_service_id :: "str option"
  so_environment :: "str option"

definition add_runtime_log :: "db \<Rightarrow> runtime_log \<Rightarrow> (runtime_failure, db) outcome" where
  "add_runtime_log d r = bindE (lift_error (\<lambda>_. Store_Failure) (insert_runtime_log d r)) (\<lambda>(d', _). Inr d')"

definition log_success ::
  "'x runtime_env \<Rightarrow> log_source \<Rightarrow> active_release_context \<Rightarrow> decision_result \<Rightarrow> str \<Rightarrow> nat \<Rightarrow> db
    \<Rightarrow> (runtime_failure, db) outcome" where
  "log_success rt src release dr query latency_ms d =
     bindE (encrypt_query rt 0 query) (\<lambda>raw.
     add_runtime_log d \<lparr>rl_trace_id = rt_trace_id rt, rl_request_id = so_request_id src, rl_app_id = so_app_id src,
       rl_service_id = so_service_id src, rl_environment = so_environment src, rl_versions = versions_of (Some release),
       rl_decision = \<lparr>ld_decision = Some (decision_value (dr_decision dr)), ld_intent_id = dr_intent_id dr,
         ld_confidence = map_option decimal_of (dr_confidence dr), ld_margin = map_option decimal_of (dr_margin dr),
         ld_route_key = dr_route_key dr, ld_decision_state = map_option decision_state_json (dr_state dr)\<rparr>,
       rl_error = \<lparr>le_error_code = None, le_error_category = None, le_error_layer = None, le_http_status = None,
         le_retryable = None\<rparr>,
       rl_latency_ms = latency_ms, rl_query_raw = raw, rl_query_masked = Some (mask_pii query),
       rl_raw_query_deleted_at = None, rl_raw_query_deleted_by = None, rl_raw_query_delete_reason = None,
       rl_created_at = rt_clock rt 0\<rparr>)"

record runtime_error_log =
  el_code :: error_code
  el_category :: str
  el_layer :: str
  el_message :: str
  el_retryable :: bool

fun error_code_value :: "error_code \<Rightarrow> str" where
  "error_code_value INVALID_REQUEST = lit ''INVALID_REQUEST''"
| "error_code_value AUTHENTICATION_FAILED = lit ''AUTHENTICATION_FAILED''"
| "error_code_value SERVICE_SCOPE_DENIED = lit ''SERVICE_SCOPE_DENIED''"
| "error_code_value ACTIVE_RELEASE_NOT_FOUND = lit ''ACTIVE_RELEASE_NOT_FOUND''"
| "error_code_value ROUTING_TIMEOUT = lit ''ROUTING_TIMEOUT''"
| "error_code_value RATE_LIMITED = lit ''RATE_LIMITED''"
| "error_code_value INTERNAL_ERROR = lit ''INTERNAL_ERROR''"
| "error_code_value EMBEDDING_MODEL_UNAVAILABLE = lit ''EMBEDDING_MODEL_UNAVAILABLE''"
| "error_code_value VECTOR_STORE_UNAVAILABLE = lit ''VECTOR_STORE_UNAVAILABLE''"
| "error_code_value POLICY_LOAD_FAILED = lit ''POLICY_LOAD_FAILED''"
| "error_code_value RAW_QUERY_UNAVAILABLE = lit ''RAW_QUERY_UNAVAILABLE''"

definition log_error ::
  "'x runtime_env \<Rightarrow> nat \<Rightarrow> log_source \<Rightarrow> active_release_context option \<Rightarrow> runtime_error_log \<Rightarrow> nat \<Rightarrow> nat
    \<Rightarrow> str option \<Rightarrow> str option \<Rightarrow> bool \<Rightarrow> db \<Rightarrow> (runtime_failure, db) outcome" where
  "log_error rt k src release err http_status latency_ms query_raw decision encrypt_raw_query d =
     bindE (case query_raw of
         None \<Rightarrow> Inr null_text
       | Some q \<Rightarrow> if encrypt_raw_query then encrypt_query rt k q else Inr null_text) (\<lambda>raw.
     add_runtime_log d \<lparr>rl_trace_id = rt_trace_id rt, rl_request_id = so_request_id src, rl_app_id = so_app_id src,
       rl_service_id = so_service_id src, rl_environment = so_environment src, rl_versions = versions_of release,
       rl_decision = \<lparr>ld_decision = decision, ld_intent_id = None, ld_confidence = None, ld_margin = None,
         ld_route_key = None, ld_decision_state = None\<rparr>,
       rl_error = \<lparr>le_error_code = Some (error_code_value (el_code err)), le_error_category = Some (el_category err),
         le_error_layer = Some (el_layer err), le_http_status = Some http_status, le_retryable = Some (el_retryable err)\<rparr>,
       rl_latency_ms = latency_ms, rl_query_raw = raw, rl_query_masked = map_option mask_pii query_raw,
       rl_raw_query_deleted_at = None, rl_raw_query_deleted_by = None, rl_raw_query_delete_reason = None,
       rl_created_at = rt_clock rt k\<rparr>)"

section \<open>The endpoint\<close>

text \<open>A reply: the response, or a status with an envelope and whether the endpoint has logged the error.\<close>

datatype runtime_reply = Routed runtime_response | Failed nat error_envelope bool

definition envelope_of :: "str \<Rightarrow> str option \<Rightarrow> active_release_context option \<Rightarrow> runtime_error_log \<Rightarrow> error_envelope" where
  "envelope_of trace_id request_id release err =
     \<lparr>ee_trace_id = trace_id,
      ee_error = \<lparr>ei_code = el_code err, ei_message = el_message err, ei_retryable = el_retryable err,
        ei_category = Some (el_category err), ei_layer = Some (el_layer err), ei_support_message = None,
        ei_safe_detail = None, ei_fallback_policy = None\<rparr>,
      ee_request_id = request_id, ee_release_version = map_option ctx_release_version release\<rparr>"

definition log_and_raise ::
  "'x runtime_env \<Rightarrow> log_source \<Rightarrow> active_release_context option \<Rightarrow> str \<Rightarrow> runtime_error_log \<Rightarrow> nat \<Rightarrow> db
    \<Rightarrow> db \<times> runtime_reply" where
  "log_and_raise rt src release query err http_status d =
     (let envelope = envelope_of (rt_trace_id rt) (so_request_id src) release err in
      case log_error rt 1 src release err http_status (rt_latency rt 1) (Some query) None
             (el_layer err \<noteq> lit ''runtime_logging'') d of
        Inl _ \<Rightarrow> (d, Failed http_status envelope False)
      | Inr d' \<Rightarrow> (d', Failed http_status envelope True))"

definition internal_error_log :: "string \<Rightarrow> string \<Rightarrow> runtime_error_log" where
  "internal_error_log layer message = \<lparr>el_code = INTERNAL_ERROR, el_category = lit ''internal_error'',
     el_layer = lit layer, el_message = lit message, el_retryable = False\<rparr>"

text \<open>
  The three \<open>except\<close> clauses; \<open>release\<close> is the one that had been loaded when the exception was raised. A failed flush
  goes through the last clause, and leaves a session that refuses every statement until it is rolled back: the attempt
  to log the error in it fails as well.
\<close>

fun handle_failure ::
  "'x runtime_env \<Rightarrow> log_source \<Rightarrow> active_release_context option \<Rightarrow> str \<Rightarrow> runtime_failure \<Rightarrow> db \<Rightarrow> db \<times> runtime_reply" where
  "handle_failure rt src release query (Api_Error e) d =
     log_and_raise rt src (if rx_release e \<noteq> None then rx_release e else release) query
       \<lparr>el_code = rx_code e, el_category = rx_category e, el_layer = rx_layer e, el_message = rx_message e,
        el_retryable = rx_retryable e\<rparr> (rx_status e) d"
| "handle_failure rt src release query Trace_Configuration d =
     log_and_raise rt src release query
       (internal_error_log ''runtime_logging'' ''Runtime logging is temporarily unavailable.'') 500 d"
| "handle_failure rt src release query Store_Failure d =
     (d, Failed 500 (envelope_of (rt_trace_id rt) (so_request_id src) release
       (internal_error_log ''runtime_api'' ''Routing could not be completed.'')) False)"
| "handle_failure rt src release query Other_Exception d =
     log_and_raise rt src release query
       (internal_error_log ''runtime_api'' ''Routing could not be completed.'') 500 d"

definition source_of :: "auth_context \<Rightarrow> log_source" where
  "source_of auth = \<lparr>so_request_id = at_request_id auth, so_app_id = Some (at_app_id auth),
     so_service_id = Some (at_service_id auth), so_environment = Some (at_environment auth)\<rparr>"

definition route_runtime ::
  "'x runtime_env \<Rightarrow> db \<Rightarrow> str \<Rightarrow> auth_context \<Rightarrow> active_release_context \<Rightarrow> (runtime_failure, decision_result) outcome" where
  "route_runtime rt d query auth release =
     lift_error route_failure (route (runtime_routing_engine rt d release)
       \<lparr>ri_query = query, ri_service_id = at_service_id auth,
        ri_route_scope = \<lparr>sc_allowed_intents = at_allowed_intents auth, sc_allowed_route_keys = at_allowed_route_keys auth\<rparr>,
        ri_release = release\<rparr>)"

definition intent_route :: "'x runtime_env \<Rightarrow> str \<Rightarrow> auth_context \<Rightarrow> db \<Rightarrow> db \<times> runtime_reply" where
  "intent_route rt query auth d =
     (case load_active_release rt d (at_service_id auth) (at_environment auth) of
        Inl f \<Rightarrow> handle_failure rt (source_of auth) None query f d
      | Inr release \<Rightarrow>
          (case bindE (route_runtime rt d query auth release) (\<lambda>dr.
             bindE (log_success rt (source_of auth) release dr query (rt_latency rt 0) d) (\<lambda>d'. Inr (d', dr))) of
             Inl f \<Rightarrow> handle_failure rt (source_of auth) (Some release) query f d
           | Inr (d', dr) \<Rightarrow>
               (d', Routed (runtime_response_of dr (rt_trace_id rt) (at_request_id auth) (ctx_release_version release)))))"

section \<open>The exception handlers\<close>

text \<open>
  A request as the framework hands it over: its headers, whether its content type is JSON, and its body as a text
  (\<open>None\<close> when the bytes do not decode).
\<close>

record http_request =
  hq_headers :: auth_headers
  hq_json :: bool
  hq_body :: "str option"

datatype http_reply =
    Ok_Reply runtime_response
  | Error_Reply nat error_envelope
  | Unparsed_Body_Reply
  | Server_Error_Reply

text \<open>Only \<open>JSONDecodeError\<close> is caught: other exceptions of \<open>json.loads\<close> surface.\<close>

definition extract_runtime_query :: "nat \<Rightarrow> http_request \<Rightarrow> (unit, str option) outcome" where
  "extract_runtime_query depth q =
     (case hq_body q of None \<Rightarrow> Inl ()
      | Some body \<Rightarrow>
          if body = [] then Inr None
          else case json_loads depth body of
            Inl Decode_Error \<Rightarrow> Inr None
          | Inl _ \<Rightarrow> Inl ()
          | Inr (T_Obj payload) \<Rightarrow>
              (case map_of payload (lit ''query'') of Some (T_Str query) \<Rightarrow> Inr (Some query) | _ \<Rightarrow> Inr None)
          | Inr _ \<Rightarrow> Inr None)"

definition preflight_error_metadata :: "error_code \<Rightarrow> str \<times> str" where
  "preflight_error_metadata code =
     (if code = AUTHENTICATION_FAILED then (lit ''authentication_error'', lit ''auth_layer'')
      else if code = SERVICE_SCOPE_DENIED then (lit ''authorization_error'', lit ''auth_layer'')
      else if code = INVALID_REQUEST then (lit ''validation_error'', lit ''request_layer'')
      else (lit ''request_error'', lit ''request_layer''))"

definition runtime_error_metadata :: "error_info \<Rightarrow> str \<times> str" where
  "runtime_error_metadata payload =
     (case (ei_category payload, ei_layer payload) of
        (Some category, Some layer) \<Rightarrow> (category, layer)
      | _ \<Rightarrow> preflight_error_metadata (ei_code payload))"

definition should_encrypt_runtime_fallback :: "error_envelope \<Rightarrow> str \<Rightarrow> bool" where
  "should_encrypt_runtime_fallback detail layer \<longleftrightarrow>
     layer \<noteq> lit ''runtime_logging'' \<and> ee_release_version detail \<noteq> None"

definition log_runtime_preflight_error ::
  "'x runtime_env \<Rightarrow> auth_headers \<Rightarrow> str option \<Rightarrow> runtime_error_log \<Rightarrow> nat \<Rightarrow> str option \<Rightarrow> str option \<Rightarrow> bool
    \<Rightarrow> db \<Rightarrow> db" where
  "log_runtime_preflight_error rt h request_id err http_status query_raw release_version encrypt_raw_query d =
     (let src = \<lparr>so_request_id = request_id, so_app_id = ah_app_id h, so_service_id = ah_service_id h,
            so_environment = None\<rparr>;
          write = (\<lambda>encrypt. log_error rt 2 src (map_option partial_context release_version) err http_status
            (rt_latency rt 2) query_raw (Some (lit ''error'')) encrypt d) in
      case write encrypt_raw_query of
        Inr d' \<Rightarrow> d'
      | Inl Trace_Configuration \<Rightarrow> (case write False of Inr d' \<Rightarrow> d' | Inl _ \<Rightarrow> d)
      | Inl _ \<Rightarrow> d)"

text \<open>The handler of an exception whose detail is an envelope.\<close>

definition http_exception_handler ::
  "'x runtime_env \<Rightarrow> http_request \<Rightarrow> nat \<Rightarrow> error_envelope \<Rightarrow> bool \<Rightarrow> db \<Rightarrow> db \<times> http_reply" where
  "http_exception_handler rt q http_status detail already_logged d =
     (if already_logged then (d, Error_Reply http_status detail)
      else case extract_runtime_query (rt_json_depth rt) q of
        Inl _ \<Rightarrow> (d, Server_Error_Reply)
      | Inr query_raw \<Rightarrow>
          let e = ee_error detail;
              request_id = (case ee_request_id detail of
                Some r \<Rightarrow> if r \<noteq> [] then Some r else ah_request_id (hq_headers q)
              | None \<Rightarrow> ah_request_id (hq_headers q));
              (category, layer) = runtime_error_metadata e
          in (log_runtime_preflight_error rt (hq_headers q) request_id
                \<lparr>el_code = ei_code e, el_category = category, el_layer = layer, el_message = ei_message e,
                 el_retryable = ei_retryable e\<rparr>
                http_status query_raw (ee_release_version detail) (should_encrypt_runtime_fallback detail layer) d,
              Error_Reply http_status detail))"

definition validation_exception_handler :: "'x runtime_env \<Rightarrow> http_request \<Rightarrow> db \<Rightarrow> db \<times> http_reply" where
  "validation_exception_handler rt q d =
     (let request_id = (case ah_request_id (hq_headers q) of Some r \<Rightarrow> if r \<noteq> [] then Some r else None | None \<Rightarrow> None);
          (category, layer) = preflight_error_metadata INVALID_REQUEST;
          envelope = \<lparr>ee_trace_id = rt_trace_id rt,
            ee_error = \<lparr>ei_code = INVALID_REQUEST, ei_message = lit ''Request validation failed.'', ei_retryable = False,
              ei_category = None, ei_layer = None, ei_support_message = None, ei_safe_detail = None,
              ei_fallback_policy = None\<rparr>,
            ee_request_id = request_id, ee_release_version = None\<rparr>
      in case extract_runtime_query (rt_json_depth rt) q of
           Inl _ \<Rightarrow> (d, Server_Error_Reply)
         | Inr query_raw \<Rightarrow>
             (log_runtime_preflight_error rt (hq_headers q) request_id
                \<lparr>el_code = INVALID_REQUEST, el_category = category, el_layer = layer,
                 el_message = lit ''Request validation failed.'', el_retryable = False\<rparr>
                422 query_raw None False d,
              Error_Reply 422 envelope))"

text \<open>\<open>_error_envelope\<close> of the dependency that admits a request.\<close>

definition auth_error_envelope :: "str \<Rightarrow> error_code \<Rightarrow> str \<Rightarrow> str option \<Rightarrow> error_envelope" where
  "auth_error_envelope trace_id code message request_id =
     \<lparr>ee_trace_id = trace_id,
      ee_error = \<lparr>ei_code = code, ei_message = message, ei_retryable = False, ei_category = None, ei_layer = None,
        ei_support_message = None, ei_safe_detail = None, ei_fallback_policy = None\<rparr>,
      ee_request_id = request_id, ee_release_version = None\<rparr>"

section \<open>The whole request\<close>

text \<open>
  The framework parses a JSON body first, then solves the dependencies (the admission), then validates the body,
  then calls the endpoint; exceptions go through the handlers.
\<close>

definition admitted_request ::
  "'x runtime_env \<Rightarrow> timestamp \<Rightarrow> http_request \<Rightarrow> json_text option \<Rightarrow> db \<Rightarrow> db \<times> http_reply" where
  "admitted_request rt now q payload d =
     (case require_api_key (rt_kdf rt) (rt_variable rt) now d (hq_headers q) of
        Inl (Http_Error http_status code message) \<Rightarrow>
          http_exception_handler rt q http_status
            (auth_error_envelope (rt_trace_id rt) code message (ah_request_id (hq_headers q))) False d
      | Inl _ \<Rightarrow> (d, Server_Error_Reply)
      | Inr auth \<Rightarrow>
          (case Option.bind payload (rt_validate_body rt) of
             None \<Rightarrow> validation_exception_handler rt q d
           | Some r \<Rightarrow>
               if \<not> valid_runtime_request r then validation_exception_handler rt q d
               else case intent_route rt (rq_query r) auth d of
                 (d', Routed response) \<Rightarrow> (d', Ok_Reply response)
               | (d', Failed http_status envelope logged) \<Rightarrow>
                   http_exception_handler rt q http_status envelope logged d'))"

definition runtime_endpoint :: "'x runtime_env \<Rightarrow> timestamp \<Rightarrow> http_request \<Rightarrow> db \<Rightarrow> db \<times> http_reply" where
  "runtime_endpoint rt now q d =
     (if \<not> hq_json q \<or> hq_body q = Some [] then admitted_request rt now q None d
      else case hq_body q of
        None \<Rightarrow> (d, Unparsed_Body_Reply)
      | Some body \<Rightarrow>
          (case json_loads (rt_json_depth rt) body of
             Inl Decode_Error \<Rightarrow> validation_exception_handler rt q d
           | Inl _ \<Rightarrow> (d, Unparsed_Body_Reply)
           | Inr payload \<Rightarrow> admitted_request rt now q (Some payload) d))"

end
