(* ===== verification/Runtime_Safety.thy ===== *)
theory Runtime_Safety
  imports Runtime
begin

text \<open>
  What the runtime endpoint guarantees: a route is only handed out for an admitted key, from the vetted active
  release and within the scope of the key; and every request whose query can be taken and stored leaves one log, with the masked
  query and a raw query that is either absent or encrypted so that the ring of keys reads it back.
\<close>

section \<open>Routes\<close>

lemma route_confidentD:
  assumes "route eng ri = Inr d" and "dr_decision d = Confident"
  shows "\<exists>candidates c. eng_candidate_loader eng (ri_service_id ri) (ri_release ri) = Inr candidates \<and> c \<in> set candidates
    \<and> dr_intent_id d = Some (ic_intent_id c) \<and> dr_route_key d = Some (ic_route_key c)
    \<and> in_scope (sc_allowed_intents (ri_route_scope ri)) (ic_intent_id c)
    \<and> in_scope (sc_allowed_route_keys (ri_route_scope ri)) (ic_route_key c)"
proof -
  have "semantic_decision eng ri = Inr d"
    using assms off_topic_decision_iff [of ri d] off_topic_decision_iff [of ri]
    by (auto simp: route_Inr split: option.splits if_splits)
  then obtain candidates matches dc where
    load: "eng_candidate_loader eng (ri_service_id ri) (ri_release ri) = Inr candidates"
    and d: "d = compose dc (scored ri candidates matches) (Some (sc_allowed_intents (ri_route_scope ri)))
          (Some (sc_allowed_route_keys (ri_route_scope ri)))"
    by (auto simp: semantic_decision_Inr)
  obtain t where t: "winner (scored ri candidates matches) = Some t"
    "is_authorized dc t (Some (sc_allowed_intents (ri_route_scope ri))) (Some (sc_allowed_route_keys (ri_route_scope ri)))"
    using compose_confidentD assms(2) d by blast
  obtain c where c: "c \<in> set candidates" "t = score_candidate (ri_query ri) c (matches (ic_intent_id c))"
    using winner_in [OF t(1)] by (auto simp: scored_def)
  have "cs_intent_id t = ic_intent_id c" "cs_route_key t = ic_route_key c"
    by (simp_all add: c(2) score_candidate_def Let_def)
  moreover have "dr_intent_id d = Some (cs_intent_id t)" "dr_route_key d = Some (cs_route_key t)"
    using compose_confident_fields [OF t(1)] assms(2) d by auto
  ultimately show ?thesis using load c(1) t(2)
    by (intro exI [of _ candidates] exI [of _ c]) (simp add: is_authorized_def effective_scope_def)
qed

lemma load_active_release_Inr:
  assumes "load_active_release rt d s e = Inr cx"
  shows "\<exists>r policy catalog run. get_active_release d s e = Some r \<and> get_policy_version d s (rel_policy_version r) = Some policy
    \<and> get_catalog_version d s (rel_intent_catalog_version r) = Some catalog
    \<and> get_test_run d (rel_test_run_id r) = Some run \<and> tr_gate_passed run
    \<and> ctx_release_version cx = rel_release_version r \<and> ctx_catalog_snapshot cx = json_dict (cv_snapshot catalog)
    \<and> ctx_model_version cx = Some (rel_model_version r)"
proof -
  obtain r where r: "get_active_release d s e = Some r"
    using assms by (auto simp: load_active_release_def raise_simps)
  note load = assms [unfolded load_active_release_def r some_or_simps bindE_simps Let_def]
  obtain policy where p: "get_policy_version d s (rel_policy_version r) = Some policy"
    using load by (auto split: option.splits)
  obtain catalog where c: "get_catalog_version d s (rel_intent_catalog_version r) = Some catalog"
    using load by (auto split: option.splits)
  obtain run where t: "get_test_run d (rel_test_run_id r) = Some run" using load p c by (auto split: option.splits)
  obtain service where s: "get_service d s = Some service" using load p c t by (auto split: option.splits)
  show ?thesis using load r
    by (auto simp: p c t s raise_simps context_post_init_def split: if_splits)
qed

lemma intent_route_Routed:
  assumes "snd (intent_route rt query auth d) = Routed resp"
  shows "\<exists>release dr d'. load_active_release rt d (at_service_id auth) (at_environment auth) = Inr release
    \<and> route_runtime rt d query auth release = Inr dr
    \<and> log_success rt (source_of auth) release dr query (rt_latency rt 0) d = Inr d'
    \<and> intent_route rt query auth d = (d', Routed resp)
    \<and> resp = runtime_response_of dr (rt_trace_id rt) (at_request_id auth) (ctx_release_version release)"
proof -
  have raised: "snd (log_and_raise rt src rel q err st d0) \<noteq> Routed resp" for src rel q err st d0
    by (simp add: log_and_raise_def Let_def split: sum.split)
  have "snd (handle_failure rt src rel q f d0) \<noteq> Routed resp" for src rel q f d0
    by (cases f) (simp_all add: raised)
  then show ?thesis using assms
    by (auto simp: intent_route_def raise_simps split: sum.splits prod.splits)
qed

lemma admitted_Ok:
  assumes "snd (admitted_request rt now q payload d) = Ok_Reply resp"
  shows "\<exists>auth r. require_api_key (rt_kdf rt) (rt_variable rt) now d (hq_headers q) = Inr auth
    \<and> Option.bind payload (rt_validate_body rt) = Some r \<and> valid_runtime_request r
    \<and> snd (intent_route rt (rq_query r) auth d) = Routed resp"
proof -
  have no: "snd (http_exception_handler rt q st env l d0) \<noteq> Ok_Reply resp"
    "snd (validation_exception_handler rt q d0) \<noteq> Ok_Reply resp" for st env l d0
    by (auto simp: http_exception_handler_def validation_exception_handler_def Let_def split: sum.split prod.split)
  show ?thesis using assms no
    by (auto simp: admitted_request_def split: sum.splits http_error.splits option.splits if_splits prod.splits
        runtime_reply.splits)
qed

lemma endpoint_Ok:
  assumes "snd (runtime_endpoint rt now q d) = Ok_Reply resp"
  shows "\<exists>payload. snd (admitted_request rt now q payload d) = Ok_Reply resp"
proof -
  have "snd (validation_exception_handler rt q d) \<noteq> Ok_Reply resp"
    by (auto simp: validation_exception_handler_def Let_def split: sum.split prod.split)
  then show ?thesis using assms
    by (auto simp: runtime_endpoint_def split: if_splits option.splits sum.splits json_error.splits)
qed

text \<open>
  C1: a route key is only answered to a request whose key exists, verifies the secret it came with and is usable
  now; the route then is that of a candidate of the catalog of the active release of the key's service and
  environment, a release whose test run has passed its gate, and it is within the scope of the key.
\<close>

theorem routed_request_vetted:
  assumes "snd (runtime_endpoint rt now q d) = Ok_Reply resp" and "rr_route_key resp = Some k"
  shows "\<exists>secret key r catalog run c. bearer_secret (ah_authorization (hq_headers q)) = Some secret
    \<and> ah_key_id (hq_headers q) = Some (ak_key_id key) \<and> get_api_key_by_id d (ak_key_id key) = Some key
    \<and> verify_secret (rt_kdf rt) secret (ak_key_hash key) \<and> key_usable (rt_variable rt) now key
    \<and> get_active_release d (ak_service_id key) (ak_environment key) = Some r
    \<and> rr_release_version resp = Some (rel_release_version r)
    \<and> get_test_run d (rel_test_run_id r) = Some run \<and> tr_gate_passed run
    \<and> get_catalog_version d (ak_service_id key) (rel_intent_catalog_version r) = Some catalog
    \<and> c \<in> set (candidates_from_snapshot (get (json_dict (cv_snapshot catalog)) (lit ''intents'')))
    \<and> rr_decision resp = Confident \<and> rr_intent_id resp = Some (ic_intent_id c) \<and> ic_route_key c = k
    \<and> in_scope (ak_allowed_intents key) (ic_intent_id c) \<and> in_scope (ak_allowed_route_keys key) k"
proof -
  obtain payload where "snd (admitted_request rt now q payload d) = Ok_Reply resp" using endpoint_Ok [OF assms(1)] by blast
  then obtain auth and rq :: runtime_request where auth: "require_api_key (rt_kdf rt) (rt_variable rt) now d (hq_headers q) = Inr auth"
    and routed: "snd (intent_route rt (rq_query rq) auth d) = Routed resp" using admitted_Ok by blast
  obtain release dr where rel: "load_active_release rt d (at_service_id auth) (at_environment auth) = Inr release"
    and dr: "route_runtime rt d (rq_query rq) auth release = Inr dr"
    and resp: "resp = runtime_response_of dr (rt_trace_id rt) (at_request_id auth) (ctx_release_version release)"
    using intent_route_Routed [OF routed] by blast
  have conf: "dr_decision dr = Confident" "dr_route_key dr = Some k"
    using assms(2) by (simp_all add: resp runtime_response_of_def split: if_splits)
  obtain c where c: "c \<in> set (load_candidates release)" "dr_intent_id dr = Some (ic_intent_id c)" "ic_route_key c = k"
    "in_scope (at_allowed_intents auth) (ic_intent_id c)" "in_scope (at_allowed_route_keys auth) k"
    using dr conf(2) route_confidentD [OF _ conf(1)]
    by (fastforce simp: route_runtime_def raise_simps runtime_routing_engine_def)
  obtain r catalog run where r: "get_active_release d (at_service_id auth) (at_environment auth) = Some r"
    "get_catalog_version d (at_service_id auth) (rel_intent_catalog_version r) = Some catalog"
    "get_test_run d (rel_test_run_id r) = Some run" "tr_gate_passed run"
    "ctx_release_version release = rel_release_version r" "ctx_catalog_snapshot release = json_dict (cv_snapshot catalog)"
    using load_active_release_Inr [OF rel] by blast
  show ?thesis using auth c conf r
    by (auto simp: require_api_key_Inr resp runtime_response_of_def load_candidates_def) blast
qed

section \<open>Logs\<close>

text \<open>The log of a request and of its answer; the raw query is absent or an envelope that reads back as the query.\<close>

definition log_keeps :: "'x runtime_env \<Rightarrow> str option \<Rightarrow> runtime_log \<Rightarrow> bool" where
  "log_keeps rt query r \<longleftrightarrow> rl_trace_id r = rt_trace_id rt \<and> rl_query_masked r = map_option mask_pii query
     \<and> (rl_query_raw r = null_text
        \<or> (\<exists>ring text e. load_raw_text_keyring (rt_variable rt) = Inr ring \<and> query = Some text
             \<and> rl_query_raw r = stored_text e \<and> keyring_decrypt (rt_aead rt) ring e None = Inr text))"

definition log_of_error :: "nat \<Rightarrow> error_envelope \<Rightarrow> runtime_log \<Rightarrow> bool" where
  "log_of_error http_status detail r \<longleftrightarrow> ee_trace_id detail = rl_trace_id r
     \<and> le_http_status (rl_error r) = Some http_status
     \<and> le_error_code (rl_error r) = Some (error_code_value (ei_code (ee_error detail)))
     \<and> ld_route_key (rl_decision r) = None"

definition log_of_response :: "runtime_response \<Rightarrow> runtime_log \<Rightarrow> bool" where
  "log_of_response response r \<longleftrightarrow> rr_trace_id response = rl_trace_id r
     \<and> ld_decision (rl_decision r) = Some (decision_value (rr_decision response))
     \<and> lv_release_version (rl_versions r) = rr_release_version response
     \<and> le_error_code (rl_error r) = None \<and> rl_query_raw r \<noteq> null_text"

text \<open>
  What a deployment provides: AES-GCM, fresh draws, a fresh trace identifier, and texts that can be stored as the name of
  the active key and as the versions of the stored releases.
\<close>

definition trace_ok :: "'x runtime_env \<Rightarrow> db \<Rightarrow> bool" where
  "trace_ok rt d \<longleftrightarrow> aead_ok (rt_aead rt) \<and> (\<forall>k. nonces_ok (rt_nonces rt k))
     \<and> rt_trace_id rt \<notin> rl_trace_id ` set (db_runtime_logs d) \<and> storable (rt_trace_id rt)
     \<and> (case load_raw_text_keyring (rt_variable rt) of Inl _ \<Rightarrow> True | Inr ring \<Rightarrow> storable (kr_active_key_id ring))
     \<and> (\<forall>r \<in> set (db_releases d). storable (rel_release_version r))"

subsection \<open>Texts that can be stored\<close>

lemma storable_utf8: "storable s \<Longrightarrow> \<exists>b. utf8_encode s = Some b"
  by (induction s) (auto simp: storable_def utf8_char_def)

lemma storable_option_simps [simp]: "storable_option None" "storable_option (Some s) = storable s"
  by (simp_all add: storable_option_def)

lemma storable_lit: "list_all (\<lambda>c. 0 < (of_char c :: nat)) s \<Longrightarrow> storable (lit s)"
proof (induction s)
  case (Cons c s)
  have "(of_char c :: nat) < 256" by simp
  then have "(of_char c :: nat) < 1114112" "\<not> 55296 \<le> (of_char c :: nat)" by linarith+
  then show ?case using Cons by (simp add: storable_def lit_def)
qed (simp add: storable_def lit_def)

lemma storable_mask [simp]: "storable (mask_pii s) = storable s"
  unfolding storable_def by (rule mask_pii_keeps_all) (auto dest: is_decimal_bounds)

lemma storable_error_code [simp]: "storable (error_code_value c)"
  by (cases c) (simp_all add: storable_lit)

subsection \<open>One insertion\<close>

lemma add_runtime_log_Inr:
  "add_runtime_log d r = Inr d' \<longleftrightarrow> storable_runtime_log r \<and> rl_trace_id r \<notin> rl_trace_id ` set (db_runtime_logs d)
    \<and> d' = d\<lparr>db_runtime_logs := db_runtime_logs d @ [r]\<rparr>"
  by (auto simp: add_runtime_log_def insert_runtime_log_def insert_row_def raise_simps)

lemma add_runtime_log_Inl: "add_runtime_log d r = Inl f \<Longrightarrow> f = Store_Failure"
  by (auto simp: add_runtime_log_def raise_simps lift_error_def split: sum.splits prod.splits)

lemma encrypt_query_Inr:
  assumes "trace_ok rt d" and "encrypt_query rt k query = Inr raw"
  shows "\<exists>ring e. load_raw_text_keyring (rt_variable rt) = Inr ring \<and> raw = stored_text e
    \<and> keyring_decrypt (rt_aead rt) ring e None = Inr query \<and> storable_option (nt_key_id raw) \<and> storable_option (nt_algorithm raw)"
proof -
  obtain ring e where ring: "load_raw_text_keyring (rt_variable rt) = Inr ring"
    and e: "keyring_encrypt (rt_aead rt) ring (rt_nonces rt k) query None = Inr e" and raw: "raw = stored_text e"
    using assms(2) by (auto simp: encrypt_query_def trace_keyring_def raise_simps lift_error_def split: sum.splits)
  have ok: "keyring_ok ring" using ring load_keyring_ok by (auto simp: load_raw_text_keyring_def)
  have A: "aead_ok (rt_aead rt)" "nonces_ok (rt_nonces rt k)" using assms(1) by (simp_all add: trace_ok_def)
  note d = keyring_decrypt_encrypt [OF e A ok refl]
  obtain key where "encrypt_text (rt_aead rt) key (rt_nonces rt k) query None = Inr e"
    using e by (auto simp: keyring_encrypt_def raise_simps)
  from encrypt_textE [OF this A] have "et_algorithm e = algorithm" by blast
  moreover have "storable algorithm" by (simp add: algorithm_def storable_lit)
  moreover have "storable (kr_active_key_id ring)" using assms(1) ring by (simp add: trace_ok_def)
  ultimately show ?thesis using ring d raw by (auto simp: stored_text_def)
qed

text \<open>Encryption fails for a storable text only when no ring is configured.\<close>

lemma encrypt_query_total:
  assumes "trace_ok rt d" and "storable query"
  shows "encrypt_query rt k query = Inl Trace_Configuration \<or> (\<exists>raw. encrypt_query rt k query = Inr raw)"
proof (cases "load_raw_text_keyring (rt_variable rt)")
  case (Inl x)
  then show ?thesis by (simp add: encrypt_query_def trace_keyring_def)
next
  case (Inr ring)
  have ok: "keyring_ok ring" using Inr load_keyring_ok by (auto simp: load_raw_text_keyring_def)
  have "storable (kr_active_key_id ring)" using assms(1) Inr by (simp add: trace_ok_def)
  then obtain b where "utf8_encode (kr_active_key_id ring) = Some b" using storable_utf8 by blast
  moreover have "ascii (lit ''key_id='')" "ascii (lit '';algorithm='')" "ascii algorithm"
    by (simp_all add: lit_def ascii_def algorithm_def)
  ultimately obtain ad where "associated_data (kr_active_key_id ring) algorithm None = Inr ad"
    by (auto simp: associated_data_def encode_def some_or_Inr utf8_encode_append)
  moreover obtain q where "utf8_encode query = Some q" using storable_utf8 [OF assms(2)] by blast
  ultimately obtain e where "keyring_encrypt (rt_aead rt) ring (rt_nonces rt k) query None = Inr e"
    using keyring_encrypt_total [OF ok] by blast
  then show ?thesis using Inr by (auto simp: encrypt_query_def trace_keyring_def)
qed

text \<open>What a log that was written says.\<close>

lemma log_success_Inr:
  assumes "trace_ok rt d" and "log_success rt src release dr query ms d = Inr d'"
  shows "\<exists>r. d' = d\<lparr>db_runtime_logs := db_runtime_logs d @ [r]\<rparr> \<and> log_keeps rt (Some query) r \<and> storable query
    \<and> log_of_response (runtime_response_of dr (rt_trace_id rt) request_id (ctx_release_version release)) r"
proof -
  obtain raw where raw: "encrypt_query rt 0 query = Inr raw" using assms(2) by (auto simp: log_success_def raise_simps)
  obtain ring e where ring: "load_raw_text_keyring (rt_variable rt) = Inr ring" "raw = stored_text e"
    "keyring_decrypt (rt_aead rt) ring e None = Inr query" using encrypt_query_Inr [OF assms(1) raw] by blast
  obtain r where r: "log_success rt src release dr query ms d = add_runtime_log d r"
    "rl_trace_id r = rt_trace_id rt" "rl_query_masked r = Some (mask_pii query)" "rl_query_raw r = stored_text e"
    "ld_decision (rl_decision r) = Some (decision_value (dr_decision dr))"
    "lv_release_version (rl_versions r) = Some (ctx_release_version release)" "le_error_code (rl_error r) = None"
    by (rule that, simp only: log_success_def raw ring bindE_simps) (simp_all add: versions_of_def)
  have "add_runtime_log d r = Inr d'" using assms(2) r(1) by simp
  then have w: "storable_runtime_log r" "d' = d\<lparr>db_runtime_logs := db_runtime_logs d @ [r]\<rparr>" by (simp_all add: add_runtime_log_Inr)
  then have "storable query" using r(3) by (simp add: storable_runtime_log_def Let_def)
  moreover have "log_keeps rt (Some query) r" using r(2-4) ring by (auto simp: log_keeps_def)
  moreover have "stored_text e \<noteq> null_text" by (simp add: stored_text_def null_text_def)
  then have "log_of_response (runtime_response_of dr (rt_trace_id rt) request_id (ctx_release_version release)) r"
    using r by (simp add: log_of_response_def runtime_response_of_def)
  ultimately show ?thesis using w(2) by blast
qed

lemma log_error_Inr:
  assumes "trace_ok rt d" and "log_error rt k src rel err st ms query decided encrypt d = Inr d'"
    and "ee_trace_id detail = rt_trace_id rt" and "ei_code (ee_error detail) = el_code err"
  shows "\<exists>r. d' = d\<lparr>db_runtime_logs := db_runtime_logs d @ [r]\<rparr> \<and> log_keeps rt query r \<and> storable_option query
    \<and> log_of_error st detail r"
proof -
  obtain raw where raw: "(case query of None \<Rightarrow> Inr null_text | Some q \<Rightarrow> if encrypt then encrypt_query rt k q else Inr null_text)
      = Inr raw" using assms(2) by (auto simp: log_error_def raise_simps)
  obtain r where r: "log_error rt k src rel err st ms query decided encrypt d = add_runtime_log d r"
    "rl_trace_id r = rt_trace_id rt" "rl_query_masked r = map_option mask_pii query" "rl_query_raw r = raw"
    "le_http_status (rl_error r) = Some st" "le_error_code (rl_error r) = Some (error_code_value (el_code err))"
    "ld_route_key (rl_decision r) = None"
    by (rule that, simp only: log_error_def raw bindE_simps) simp_all
  have "log_keeps rt query r"
    using raw r(2-4) encrypt_query_Inr [OF assms(1), of k] by (auto simp: log_keeps_def split: option.splits if_splits)
  moreover have "storable_runtime_log r" using assms(2) r(1) by (simp add: add_runtime_log_Inr)
  then have "storable_option query" using r(3) by (cases query) (simp_all add: storable_runtime_log_def Let_def)
  ultimately show ?thesis using assms(2-4) r by (auto simp: add_runtime_log_Inr log_of_error_def)
qed

text \<open>An envelope that can be logged.\<close>

definition detail_ok :: "error_envelope \<Rightarrow> bool" where
  "detail_ok detail \<longleftrightarrow> storable_option (ee_request_id detail) \<and> storable_option (ee_release_version detail)
     \<and> storable_option (ei_category (ee_error detail)) \<and> storable_option (ei_layer (ee_error detail))"

text \<open>The headers of a request are texts of Latin-1 without NUL.\<close>

definition headers_ok :: "auth_headers \<Rightarrow> bool" where
  "headers_ok h \<longleftrightarrow> storable_option (ah_request_id h) \<and> storable_option (ah_app_id h) \<and> storable_option (ah_service_id h)"

lemma log_error_written:
  assumes "trace_ok rt d" and "storable_option query" and "\<not> encrypt \<or> encrypt_query rt 2 (the query) \<noteq> Inl Trace_Configuration"
    and "headers_ok h" and "storable_option request_id" and "storable_option release_version"
    and "storable (el_category err)" and "storable (el_layer err)"
  shows "\<exists>d'. log_error rt 2 \<lparr>so_request_id = request_id, so_app_id = ah_app_id h, so_service_id = ah_service_id h,
      so_environment = None\<rparr> (map_option partial_context release_version) err st ms query (Some (lit ''error'')) encrypt d = Inr d'"
proof -
  obtain raw where raw: "(case query of None \<Rightarrow> Inr null_text | Some q \<Rightarrow> if encrypt then encrypt_query rt 2 q else Inr null_text)
      = (Inr raw :: (runtime_failure, _) outcome)" "storable_option (nt_key_id raw)" "storable_option (nt_algorithm raw)"
  proof (cases "\<exists>q. query = Some q \<and> encrypt")
    case True
    then obtain q raw where "query = Some q" "encrypt" "encrypt_query rt 2 q = Inr raw"
      using encrypt_query_total [OF assms(1), of _ 2] assms(2,3) by fastforce
    then show thesis using that [of raw] encrypt_query_Inr [OF assms(1), of 2 q raw] by auto
  next
    case False
    then show thesis using that [of null_text] by (auto simp: null_text_def split: option.split)
  qed
  have texts: "storable (lit ''balanced'')" "storable (lit ''error'')" by (simp_all add: storable_lit)
  show ?thesis
    unfolding log_error_def raw(1) bindE_simps add_runtime_log_Inr
    using assms(1,2,4-8) raw(2,3) texts
    by (cases release_version; cases query)
      (simp_all add: trace_ok_def storable_runtime_log_def Let_def versions_of_def partial_context_def headers_ok_def)
qed

lemma preflight_logs:
  assumes "trace_ok rt d" and "storable_option query" and "headers_ok h" and "storable_option request_id"
    and "storable_option release_version" and "storable (el_category err)" and "storable (el_layer err)"
    and "ee_trace_id detail = rt_trace_id rt" and "ei_code (ee_error detail) = el_code err"
  shows "\<exists>r. log_runtime_preflight_error rt h request_id err st query release_version encrypt d
      = d\<lparr>db_runtime_logs := db_runtime_logs d @ [r]\<rparr> \<and> log_keeps rt query r \<and> log_of_error st detail r"
proof -
  let ?attempt = "\<lambda>encrypt. log_error rt 2 \<lparr>so_request_id = request_id, so_app_id = ah_app_id h, so_service_id = ah_service_id h,
      so_environment = None\<rparr> (map_option partial_context release_version) err st (rt_latency rt 2) query (Some (lit ''error'')) encrypt d"
  note written = log_error_written [OF assms(1,2) _ assms(3-7), of _ st "rt_latency rt 2"]
  obtain d1 where plain: "?attempt False = Inr d1" using written [of False] by blast
  have "\<exists>b d'. ?attempt b = Inr d' \<and> log_runtime_preflight_error rt h request_id err st query release_version encrypt d = d'"
  proof (cases "encrypt \<and> (\<exists>q. query = Some q \<and> encrypt_query rt 2 q = Inl Trace_Configuration)")
    case True
    then have "?attempt encrypt = Inl Trace_Configuration" by (auto simp: log_error_def)
    then show ?thesis using plain by (auto simp: log_runtime_preflight_error_def Let_def)
  next
    case False
    have "\<exists>d'. ?attempt encrypt = Inr d'"
    proof (cases query)
      case None
      then show ?thesis using plain by (simp add: log_error_def)
    next
      case (Some q)
      then show ?thesis using written [of encrypt] False by auto
    qed
    then show ?thesis by (auto simp: log_runtime_preflight_error_def Let_def)
  qed
  then show ?thesis using log_error_Inr [OF assms(1) _ assms(8,9)] by blast
qed

text \<open>Nothing is written of a query that cannot be stored.\<close>

lemma preflight_unstorable:
  assumes "trace_ok rt d" and "\<not> storable_option query"
  shows "log_runtime_preflight_error rt h request_id err st query release_version encrypt d = d"
proof -
  let ?detail = "\<lparr>ee_trace_id = rt_trace_id rt, ee_error = \<lparr>ei_code = el_code err, ei_message = [], ei_retryable = False,
    ei_category = None, ei_layer = None, ei_support_message = None, ei_safe_detail = None, ei_fallback_policy = None\<rparr>,
    ee_request_id = None, ee_release_version = None\<rparr>"
  have "log_error rt 2 src rel err st ms query decided b d \<noteq> Inr d'" for src rel ms decided b d'
    using log_error_Inr [OF assms(1), of 2 src rel err st ms query decided b d' ?detail] assms(2) by auto
  then show ?thesis by (auto simp: log_runtime_preflight_error_def Let_def split: sum.split runtime_failure.split)
qed

section \<open>The handlers\<close>

text \<open>What an error reply leaves behind: one log of the query, when it can be stored.\<close>

definition error_logged :: "'x runtime_env \<Rightarrow> db \<Rightarrow> str option \<Rightarrow> db \<times> http_reply \<Rightarrow> bool" where
  "error_logged rt d query p \<longleftrightarrow> (\<exists>st detail. snd p = Error_Reply st detail
     \<and> (if storable_option query then \<exists>r. fst p = d\<lparr>db_runtime_logs := db_runtime_logs d @ [r]\<rparr> \<and> log_keeps rt query r
          \<and> log_of_error st detail r
        else fst p = d))"

lemma http_exception_logs:
  assumes "trace_ok rt d" and "extract_runtime_query (rt_json_depth rt) q = Inr query" and "headers_ok (hq_headers q)"
    and "detail_ok detail" and "ee_trace_id detail = rt_trace_id rt"
  shows "error_logged rt d query (http_exception_handler rt q st detail False d)"
proof -
  let ?e = "ee_error detail"
  let ?id = "case ee_request_id detail of Some r \<Rightarrow> if r \<noteq> [] then Some r else ah_request_id (hq_headers q)
      | None \<Rightarrow> ah_request_id (hq_headers q)"
  obtain category layer where c: "runtime_error_metadata ?e = (category, layer)" by fastforce
  have "storable category" "storable layer"
    using c assms(4) by (auto simp: runtime_error_metadata_def preflight_error_metadata_def detail_ok_def storable_lit
        split: option.splits if_splits)
  moreover have "storable_option ?id" using assms(3,4) by (auto simp: headers_ok_def detail_ok_def split: option.split)
  moreover have "storable_option (ee_release_version detail)" using assms(4) by (simp add: detail_ok_def)
  ultimately show ?thesis
    using preflight_logs [OF assms(1) _ assms(3), of query ?id "ee_release_version detail"
        "\<lparr>el_code = ei_code ?e, el_category = category, el_layer = layer, el_message = ei_message ?e, el_retryable = ei_retryable ?e\<rparr>"
        detail st] preflight_unstorable [OF assms(1)] assms(5)
    by (simp add: http_exception_handler_def assms(2) Let_def c error_logged_def)
qed

lemma validation_logs:
  assumes "trace_ok rt d" and "extract_runtime_query (rt_json_depth rt) q = Inr query" and "headers_ok (hq_headers q)"
  shows "error_logged rt d query (validation_exception_handler rt q d)"
proof -
  obtain category layer where c: "preflight_error_metadata INVALID_REQUEST = (category, layer)" by fastforce
  have "storable category" "storable layer" using c by (auto simp: preflight_error_metadata_def storable_lit)
  moreover have "storable_option (case ah_request_id (hq_headers q) of Some r \<Rightarrow> if r \<noteq> [] then Some r else None | None \<Rightarrow> None)"
    using assms(3) by (auto simp: headers_ok_def split: option.split)
  ultimately show ?thesis
    using preflight_logs [OF assms(1) _ assms(3), where release_version = None and st = 422] preflight_unstorable [OF assms(1)]
    by (simp add: validation_exception_handler_def assms(2) Let_def c error_logged_def)
qed

text \<open>What the endpoint raises can be logged: its categories and layers are literals, its versions those of stored releases.\<close>

definition failure_ok :: "runtime_failure \<Rightarrow> bool" where
  "failure_ok f \<longleftrightarrow>
     (case f of Api_Error e \<Rightarrow> storable (rx_category e) \<and> storable (rx_layer e)
          \<and> storable_option (map_option ctx_release_version (rx_release e))
      | _ \<Rightarrow> True)"

lemma failure_ok_simps [simp]: "failure_ok active_release_not_found" "failure_ok embedding_unavailable"
  "failure_ok vector_store_unavailable" "failure_ok Other_Exception" "failure_ok Trace_Configuration" "failure_ok Store_Failure"
  "failure_ok (policy_load_failed r) = storable (ctx_release_version r)"
  by (simp_all add: failure_ok_def active_release_not_found_def embedding_unavailable_def vector_store_unavailable_def
      policy_load_failed_def storable_lit)

lemma load_failure_ok:
  assumes "trace_ok rt d"
  shows "load_active_release rt d s e = Inl f \<Longrightarrow> failure_ok f"
    and "load_active_release rt d s e = Inr release \<Longrightarrow> storable (ctx_release_version release)"
proof -
  have stored: "storable (rel_release_version r)" if "get_active_release d s e = Some r" for r
    using assms get_active_release_Some [OF that] by (simp add: trace_ok_def)
  show "failure_ok f" if f: "load_active_release rt d s e = Inl f"
  proof (cases "get_active_release d s e")
    case None
    then show ?thesis using f by (simp add: load_active_release_def)
  next
    case (Some r)
    note load = f [unfolded load_active_release_def Some some_or_simps bindE_simps Let_def]
    show ?thesis using load stored [OF Some]
      by (cases "get_policy_version d s (rel_policy_version r)"; cases "get_catalog_version d s (rel_intent_catalog_version r)";
          cases "get_test_run d (rel_test_run_id r)"; cases "get_service d s")
        (auto simp: partial_context_def raise_simps split: if_splits)
  qed
  show "load_active_release rt d s e = Inr release \<Longrightarrow> storable (ctx_release_version release)"
    using load_active_release_Inr [of rt d s e release] stored by auto
qed

lemma single_embedding:
  "(case es of [e] \<Rightarrow> require (P e) u | _ \<Rightarrow> Inl u) = Inl f \<longleftrightarrow> f = u \<and> (\<forall>e. es = [e] \<longrightarrow> \<not> P e)"
  "(case es of [e] \<Rightarrow> require (P e) u | _ \<Rightarrow> Inl u) = Inr x \<longleftrightarrow> (\<exists>e. es = [e] \<and> P e)"
  by (auto simp: raise_simps split: list.split)

lemma semantic_failure_ok: "runtime_semantic_matches rt d query candidates release = Inl f \<Longrightarrow> failure_ok f"
  unfolding runtime_semantic_matches_def by (auto simp: single_embedding raise_simps Let_def split: if_splits)

lemma route_failure_ok:
  assumes "route_runtime rt d query auth release = Inl f"
  shows "failure_ok f"
proof -
  let ?eng = "runtime_routing_engine rt d release"
  obtain ri e where e: "route ?eng ri = Inl e" "f = route_failure e" using assms by (auto simp: route_runtime_def raise_simps)
  then have "semantic_decision ?eng ri = Inl e" by (auto simp: route_def Let_def raise_simps split: if_splits option.splits)
  then consider g where "e = Loader_Error g" "eng_candidate_loader ?eng (ri_service_id ri) (ri_release ri) = Inl g"
    | g cs where "e = Search_Error g" "eng_semantic_search ?eng (ri_query ri) cs (ri_release ri) = Inl g"
    | t where "e = Threshold_Error t"
    by (auto simp: semantic_decision_def raise_simps split: option.splits)
  then show ?thesis using e(2) semantic_failure_ok by cases (auto simp: runtime_routing_engine_def)
qed

text \<open>The endpoint logs a failure once, or leaves it to the handler of its exception.\<close>

definition failed_reply :: "'x runtime_env \<Rightarrow> db \<Rightarrow> str \<Rightarrow> db \<times> runtime_reply \<Rightarrow> bool" where
  "failed_reply rt d query p \<longleftrightarrow> (\<exists>st detail logged. snd p = Failed st detail logged \<and> ee_trace_id detail = rt_trace_id rt
     \<and> detail_ok detail
     \<and> (if logged then \<exists>r. fst p = d\<lparr>db_runtime_logs := db_runtime_logs d @ [r]\<rparr> \<and> log_keeps rt (Some query) r
          \<and> storable query \<and> log_of_error st detail r
        else fst p = d))"

lemma envelope_detail_ok:
  assumes "storable (el_category err)" and "storable (el_layer err)" and "storable_option (map_option ctx_release_version rel)"
    and "storable_option request_id"
  shows "detail_ok (envelope_of trace_id request_id rel err)"
  using assms by (simp add: envelope_of_def detail_ok_def)

lemma log_and_raise_reply:
  assumes "trace_ok rt d" and "storable_option (so_request_id src)" and "storable_option (map_option ctx_release_version rel)"
    and "storable (el_category err)" and "storable (el_layer err)"
  shows "failed_reply rt d query (log_and_raise rt src rel query err st d)"
proof -
  let ?e = "envelope_of (rt_trace_id rt) (so_request_id src) rel err"
  have e: "ee_trace_id ?e = rt_trace_id rt" "ei_code (ee_error ?e) = el_code err" by (simp_all add: envelope_of_def)
  note ok = envelope_detail_ok [OF assms(4,5,3,2), of "rt_trace_id rt"]
  show ?thesis
  proof (cases "log_error rt 1 src rel err st (rt_latency rt 1) (Some query) None (el_layer err \<noteq> lit ''runtime_logging'') d")
    case (Inl x)
    then have "log_and_raise rt src rel query err st d = (d, Failed st ?e False)" by (simp add: log_and_raise_def Let_def)
    then show ?thesis unfolding failed_reply_def using e(1) ok by (intro exI [of _ st] exI [of _ ?e] exI [of _ False]) auto
  next
    case (Inr x)
    then have l: "log_and_raise rt src rel query err st d = (x, Failed st ?e True)" by (simp add: log_and_raise_def Let_def)
    obtain r where "x = d\<lparr>db_runtime_logs := db_runtime_logs d @ [r]\<rparr>" "log_keeps rt (Some query) r"
      "storable query" "log_of_error st ?e r" using log_error_Inr [OF assms(1) Inr e] by auto
    then show ?thesis unfolding failed_reply_def l using e(1) ok by (intro exI [of _ st] exI [of _ ?e] exI [of _ True]) auto
  qed
qed

lemma internal_error_storable:
  "list_all (\<lambda>c. 0 < (of_char c :: nat)) l \<Longrightarrow> storable (el_layer (internal_error_log l m))"
  "storable (el_category (internal_error_log l m))"
  by (simp_all add: internal_error_log_def storable_lit)

lemma handle_failure_reply:
  assumes "trace_ok rt d" and "failure_ok f" and "storable_option (so_request_id src)"
    and "storable_option (map_option ctx_release_version rel)"
  shows "failed_reply rt d query (handle_failure rt src rel query f d)"
proof (cases f)
  case (Api_Error e)
  then have "storable_option (map_option ctx_release_version (if rx_release e \<noteq> None then rx_release e else rel))"
    "storable (rx_category e)" "storable (rx_layer e)" using assms(2,4) by (simp_all add: failure_ok_def)
  then show ?thesis unfolding Api_Error handle_failure.simps by (intro log_and_raise_reply [OF assms(1,3)]) simp_all
next
  case Trace_Configuration
  then show ?thesis by (simp add: log_and_raise_reply [OF assms(1,3,4)] internal_error_storable)
next
  case Store_Failure
  let ?e = "envelope_of (rt_trace_id rt) (so_request_id src) rel (internal_error_log ''runtime_api'' ''Routing could not be completed.'')"
  have "detail_ok ?e"
    by (rule envelope_detail_ok [OF _ _ assms(4,3)]) (simp_all add: internal_error_storable)
  moreover have "ee_trace_id ?e = rt_trace_id rt" by (simp add: envelope_of_def)
  ultimately show ?thesis unfolding Store_Failure failed_reply_def
    by (intro exI [of _ 500] exI [of _ ?e] exI [of _ False]) simp
next
  case Other_Exception
  then show ?thesis by (simp add: log_and_raise_reply [OF assms(1,3,4)] internal_error_storable)
qed

lemma route_logged:
  assumes "trace_ok rt d" and "extract_runtime_query (rt_json_depth rt) q = Inr (Some query)" and "headers_ok (hq_headers q)"
    and "at_request_id auth = ah_request_id (hq_headers q)"
  shows "(\<exists>response r. intent_route rt query auth d = (d\<lparr>db_runtime_logs := db_runtime_logs d @ [r]\<rparr>, Routed response)
      \<and> log_keeps rt (Some query) r \<and> storable query \<and> log_of_response response r)
    \<or> (\<exists>d' st detail logged. intent_route rt query auth d = (d', Failed st detail logged)
        \<and> error_logged rt d (Some query) (http_exception_handler rt q st detail logged d'))"
proof -
  have src: "storable_option (so_request_id (source_of auth))" using assms(3,4) by (simp add: source_of_def headers_ok_def)
  have failed: "\<exists>d' st detail logged. handle_failure rt (source_of auth) rel query f d = (d', Failed st detail logged)
      \<and> error_logged rt d (Some query) (http_exception_handler rt q st detail logged d')"
    if ok: "failure_ok f" "storable_option (map_option ctx_release_version rel)" for rel f
  proof -
    obtain d' reply where h: "handle_failure rt (source_of auth) rel query f d = (d', reply)" by fastforce
    obtain st detail logged where r: "reply = Failed st detail logged" "ee_trace_id detail = rt_trace_id rt" "detail_ok detail"
      "if logged then \<exists>r. d' = d\<lparr>db_runtime_logs := db_runtime_logs d @ [r]\<rparr> \<and> log_keeps rt (Some query) r
         \<and> storable query \<and> log_of_error st detail r else d' = d"
      using handle_failure_reply [OF assms(1) ok(1) src ok(2), of query] unfolding failed_reply_def h fst_conv snd_conv by blast
    have "error_logged rt d (Some query) (http_exception_handler rt q st detail logged d')"
      using r(4) http_exception_logs [OF assms(1-3) r(3,2), of st]
      by (cases logged) (auto simp: http_exception_handler_def error_logged_def)
    then show ?thesis using h r(1) by blast
  qed
  show ?thesis
  proof (cases "load_active_release rt d (at_service_id auth) (at_environment auth)")
    case (Inl f)
    then show ?thesis using failed [OF load_failure_ok(1) [OF assms(1) Inl], of None] by (simp add: intent_route_def)
  next
    case (Inr release)
    have version: "storable_option (map_option ctx_release_version (Some release))"
      using load_failure_ok(2) [OF assms(1) Inr] by simp
    show ?thesis
    proof (cases "bindE (route_runtime rt d query auth release) (\<lambda>dr.
        bindE (log_success rt (source_of auth) release dr query (rt_latency rt 0) d) (\<lambda>d'. Inr (d', dr)))")
      case f: (Inl f)
      then consider "route_runtime rt d query auth release = Inl f"
        | dr where "log_success rt (source_of auth) release dr query (rt_latency rt 0) d = Inl f"
        by (auto simp: raise_simps)
      then have "failure_ok f"
      proof cases
        case 2
        then have "f \<in> {Trace_Configuration, Other_Exception, Store_Failure}"
          by (auto simp: log_success_def encrypt_query_def trace_keyring_def raise_simps dest: add_runtime_log_Inl)
        then show ?thesis by auto
      qed (rule route_failure_ok)
      then show ?thesis using failed [OF _ version, of f] f Inr by (simp add: intent_route_def del: handle_failure.simps)
    next
      case ok: (Inr p)
      then obtain dr d' where p: "p = (d', dr)" "log_success rt (source_of auth) release dr query (rt_latency rt 0) d = Inr d'"
        by (auto simp: raise_simps)
      from log_success_Inr [OF assms(1) p(2), of "at_request_id auth"] show ?thesis using ok p(1) Inr
        by (auto simp: intent_route_def)
    qed
  qed
qed

text \<open>
  The headers come through HTTP; and pydantic takes the query of a valid body as it stands, so that it is the one the
  handlers extract.
\<close>

definition request_ok :: "'x runtime_env \<Rightarrow> http_request \<Rightarrow> bool" where
  "request_ok rt q \<longleftrightarrow> headers_ok (hq_headers q)
     \<and> (case hq_body q of None \<Rightarrow> True
        | Some body \<Rightarrow>
            (case json_loads (rt_json_depth rt) body of Inl _ \<Rightarrow> True
             | Inr payload \<Rightarrow>
                 (case rt_validate_body rt payload of None \<Rightarrow> True
                  | Some r \<Rightarrow> extract_runtime_query (rt_json_depth rt) q = Inr (Some (rq_query r)))))"

text \<open>What the endpoint leaves behind.\<close>

definition logged_reply :: "'x runtime_env \<Rightarrow> http_request \<Rightarrow> db \<Rightarrow> db \<times> http_reply \<Rightarrow> bool" where
  "logged_reply rt q d p \<longleftrightarrow>
     (case extract_runtime_query (rt_json_depth rt) q of
        Inl _ \<Rightarrow> fst p = d \<and> snd p \<in> {Unparsed_Body_Reply, Server_Error_Reply}
      | Inr query \<Rightarrow>
          if storable_option query then \<exists>r. fst p = d\<lparr>db_runtime_logs := db_runtime_logs d @ [r]\<rparr> \<and> log_keeps rt query r
            \<and> ((\<exists>response. snd p = Ok_Reply response \<and> log_of_response response r)
               \<or> (\<exists>st detail. snd p = Error_Reply st detail \<and> log_of_error st detail r))
          else fst p = d \<and> (\<exists>st detail. snd p = Error_Reply st detail))"

lemma logged_error: "extract_runtime_query (rt_json_depth rt) q = Inr query \<Longrightarrow> error_logged rt d query p \<Longrightarrow> logged_reply rt q d p"
  by (auto simp: logged_reply_def error_logged_def split: if_splits)

lemma logged_validation:
  assumes "trace_ok rt d" and "request_ok rt q"
  shows "logged_reply rt q d (validation_exception_handler rt q d)"
proof (cases "extract_runtime_query (rt_json_depth rt) q")
  case (Inl x)
  then show ?thesis by (simp add: validation_exception_handler_def Let_def logged_reply_def split: prod.split)
next
  case (Inr query)
  then show ?thesis using validation_logs [OF assms(1) Inr] assms(2) logged_error [OF Inr] by (simp add: request_ok_def)
qed

lemma logged_auth_error:
  assumes "trace_ok rt d" and "request_ok rt q"
  shows "logged_reply rt q d (http_exception_handler rt q st
      (auth_error_envelope (rt_trace_id rt) code message (ah_request_id (hq_headers q))) False d)"
proof (cases "extract_runtime_query (rt_json_depth rt) q")
  case (Inl x)
  then show ?thesis by (simp add: http_exception_handler_def logged_reply_def)
next
  case (Inr query)
  let ?e = "auth_error_envelope (rt_trace_id rt) code message (ah_request_id (hq_headers q))"
  have "headers_ok (hq_headers q)" using assms(2) by (simp add: request_ok_def)
  moreover from this have "detail_ok ?e" "ee_trace_id ?e = rt_trace_id rt"
    by (simp_all add: detail_ok_def auth_error_envelope_def headers_ok_def)
  ultimately show ?thesis using http_exception_logs [OF assms(1) Inr] logged_error [OF Inr] by blast
qed

lemma require_api_key_Inl: "require_api_key kdf env now d h = Inl e \<Longrightarrow> \<exists>st code message. e = Http_Error st code message"
  by (auto simp: require_api_key_def raise_simps raise_key_authentication_failed_def raise_scope_denied_def)

lemma admitted_logged:
  assumes "trace_ok rt d" and "request_ok rt q"
    and "payload = None \<or> (\<exists>body. hq_body q = Some body \<and> (\<exists>p. json_loads (rt_json_depth rt) body = Inr p \<and> payload = Some p))"
  shows "logged_reply rt q d (admitted_request rt now q payload d)"
proof (cases "require_api_key (rt_kdf rt) (rt_variable rt) now d (hq_headers q)")
  case (Inl e)
  then show ?thesis using logged_auth_error [OF assms(1,2)] require_api_key_Inl [OF Inl] by (auto simp: admitted_request_def)
next
  case (Inr auth)
  show ?thesis
  proof (cases "Option.bind payload (rt_validate_body rt)")
    case None
    then show ?thesis using logged_validation [OF assms(1,2)] by (simp add: admitted_request_def Inr)
  next
    case (Some r)
    then have x: "extract_runtime_query (rt_json_depth rt) q = Inr (Some (rq_query r))"
      using assms(2,3) by (auto simp: request_ok_def bind_eq_Some_conv)
    have "at_request_id auth = ah_request_id (hq_headers q)" using Inr by (auto simp: require_api_key_Inr)
    moreover have "headers_ok (hq_headers q)" using assms(2) by (simp add: request_ok_def)
    ultimately have "(\<exists>response row. intent_route rt (rq_query r) auth d
          = (d\<lparr>db_runtime_logs := db_runtime_logs d @ [row]\<rparr>, Routed response)
        \<and> log_keeps rt (Some (rq_query r)) row \<and> storable (rq_query r) \<and> log_of_response response row)
      \<or> (\<exists>d' st detail logged. intent_route rt (rq_query r) auth d = (d', Failed st detail logged)
        \<and> error_logged rt d (Some (rq_query r)) (http_exception_handler rt q st detail logged d'))"
      using route_logged [OF assms(1) x] by blast
    then have "logged_reply rt q d (case intent_route rt (rq_query r) auth d of
        (d', Routed response) \<Rightarrow> (d', Ok_Reply response)
      | (d', Failed st detail logged) \<Rightarrow> http_exception_handler rt q st detail logged d')"
    proof (elim disjE exE conjE)
      fix response row
      assume "intent_route rt (rq_query r) auth d = (d\<lparr>db_runtime_logs := db_runtime_logs d @ [row]\<rparr>, Routed response)"
        "log_keeps rt (Some (rq_query r)) row" "storable (rq_query r)" "log_of_response response row"
      then show ?thesis unfolding logged_reply_def x by (auto intro: exI [of _ row])
    next
      fix d' st detail logged
      assume "intent_route rt (rq_query r) auth d = (d', Failed st detail logged)"
        "error_logged rt d (Some (rq_query r)) (http_exception_handler rt q st detail logged d')"
      then show ?thesis using logged_error [OF x] by simp
    qed
    then show ?thesis using logged_validation [OF assms(1,2)] by (simp add: admitted_request_def Inr Some)
  qed
qed

text \<open>
  C2: The log of the runtime endpoint is complete for the queries that can be stored. When no query can be taken from
  the request because reading its body fails other than by a syntax error (bytes that are no text, an integer of too many
  digits, nesting beyond the recursion limit), the reply is an error without a log. A query with a NUL character or a
  surrogate, which the database refuses, gets an error reply and leaves no log, and never a route. Every other request
  leaves exactly one new log, under the trace identifier of the reply, with its decision or error code and the masked
  query; the raw query of the log is absent or reads back, through the configured ring of keys, as the query of the
  request, and with a response it is present.
\<close>

theorem runtime_request_logged:
  assumes "trace_ok rt d" and "request_ok rt q" and "p = runtime_endpoint rt now q d"
  shows "case extract_runtime_query (rt_json_depth rt) q of
      Inl _ \<Rightarrow> fst p = d \<and> snd p \<in> {Unparsed_Body_Reply, Server_Error_Reply}
    | Inr query \<Rightarrow>
        if storable_option query then
          \<exists>r. fst p = d\<lparr>db_runtime_logs := db_runtime_logs d @ [r]\<rparr> \<and> log_keeps rt query r
            \<and> ((\<exists>response. snd p = Ok_Reply response \<and> log_of_response response r)
               \<or> (\<exists>st detail. snd p = Error_Reply st detail \<and> log_of_error st detail r))
        else fst p = d \<and> (\<exists>st detail. snd p = Error_Reply st detail)"
proof -
  have unread: "logged_reply rt q d (d, Unparsed_Body_Reply)" if "extract_runtime_query (rt_json_depth rt) q = Inl x" for x
    using that by (simp add: logged_reply_def)
  have "logged_reply rt q d (runtime_endpoint rt now q d)"
  proof (cases "\<not> hq_json q \<or> hq_body q = Some []")
    case True
    then show ?thesis using admitted_logged [OF assms(1,2), of None now] by (simp add: runtime_endpoint_def)
  next
    case False
    show ?thesis
    proof (cases "hq_body q")
      case None
      then show ?thesis using False unread by (simp add: runtime_endpoint_def extract_runtime_query_def)
    next
      case (Some body)
      show ?thesis
      proof (cases "json_loads (rt_json_depth rt) body")
        case (Inl e)
        then show ?thesis using False Some unread logged_validation [OF assms(1,2)]
          by (cases e) (auto simp: runtime_endpoint_def extract_runtime_query_def)
      next
        case (Inr payload)
        then show ?thesis using False Some admitted_logged [OF assms(1,2), of "Some payload" now]
          by (simp add: runtime_endpoint_def)
      qed
    qed
  qed
  then show ?thesis unfolding assms(3) logged_reply_def .
qed

end
