(* ===== verification/Live_Service.thy ===== *)
theory Live_Service
  imports Runtime_Safety
begin

text \<open>
  A running service on concrete data: a database with one active release and one key, an environment with a toy
  cipher that has the laws of AES-GCM, and a request. The theorems about the runtime endpoint apply to it.
\<close>

section \<open>A live service\<close>

text \<open>One service with an active release of one intent, and a key for it.\<close>

fun list_code :: "nat list \<Rightarrow> nat" where
  "list_code [] = 0"
| "list_code (x # xs) = 2 ^ x * (2 * list_code xs + 1)"

lemma pair_code_inject:
  fixes x y :: nat
  shows "2 ^ a * (2 * x + 1) = 2 ^ b * (2 * y + 1) \<Longrightarrow> a = b \<and> x = y"
proof (induction a arbitrary: b)
  case 0
  show ?case
  proof (cases b)
    case (Suc c)
    then have "even (2 ^ b * (2 * y + 1))" by simp
    with 0 have "even (2 * x + 1)" by (metis power_0 mult_1)
    then show ?thesis by simp
  qed (use 0 in simp)
next
  case (Suc a)
  show ?case
  proof (cases b)
    case 0
    have "even (2 ^ Suc a * (2 * x + 1))" by simp
    with Suc.prems 0 have "even (2 * y + 1)" by (metis power_0 mult_1)
    then show ?thesis by simp
  next
    case b: (Suc c)
    then show ?thesis using Suc.prems Suc.IH [of c] by simp
  qed
qed

lemma list_code_inject: "list_code xs = list_code ys \<Longrightarrow> xs = ys"
proof (induction xs arbitrary: ys)
  case Nil
  then show ?case by (cases ys) auto
next
  case (Cons x xs)
  then obtain y zs where ys: "ys = y # zs" by (cases ys) auto
  with Cons.prems have "2 ^ x * (2 * list_code xs + 1) = 2 ^ y * (2 * list_code zs + 1)" by (simp only: list_code.simps)
  from pair_code_inject [OF this] Cons.IH ys show ?case by blast
qed

definition live_aead :: aead where
  "live_aead = \<lparr>ae_encrypt = (\<lambda>k iv p ad. p @ [list_code ad] @ replicate 15 0),
     ae_decrypt = (\<lambda>k iv c ad. if drop (length c - 16) c = [list_code ad] @ replicate 15 0
       then Some (take (length c - 16) c) else None)\<rparr>"

lemma live_aead_ok: "aead_ok live_aead"
  by (auto simp: aead_ok_def live_aead_def dest: list_code_inject split: if_splits)

definition live_variable :: "str \<Rightarrow> str option" where
  "live_variable = map_of [(lit ''RAW_TEXT_KEK_ID'', lit ''k''),
     (lit ''RAW_TEXT_KEK_BASE64'', b64encode (replicate 32 0)), (lit ''RAW_TEXT_LEGACY_KEKS_JSON'', lit ''{}''),
     (lit ''ALLOWED_RUNTIME_ENVIRONMENTS'', lit ''dev'')]"

definition live_nonces :: nonces where
  "live_nonces = \<lparr>nc_dek = replicate 32 0, nc_text_iv = replicate 12 0, nc_dek_iv = replicate 12 0\<rparr>"

definition live_provider :: "unit embedding_provider" where
  "live_provider = \<lparr>pr_model_version = [5], pr_dimension = 1024, pr_embed_texts = (\<lambda>_ _. Inr [replicate 1024 0])\<rparr>"

definition live_validate :: "json_text \<Rightarrow> runtime_request option" where
  "live_validate payload =
     (case payload of T_Obj [(k, T_Str v)] \<Rightarrow> Some \<lparr>rq_query = v, rq_channel = None, rq_user_context = []\<rparr> | _ \<Rightarrow> None)"

definition live_rt :: "unit runtime_env" where
  "live_rt = \<lparr>rt_provider = Inr live_provider, rt_distance = (\<lambda>_ _. 0), rt_validate_fallback = (\<lambda>_. Inl ()),
     rt_py_str = (\<lambda>_. []), rt_json_depth = 9, rt_validate_body = live_validate, rt_trace_id = lit ''irt-1'', rt_latency = (\<lambda>_. 1),
     rt_clock = (\<lambda>_. 1), rt_variable = live_variable, rt_aead = live_aead, rt_nonces = (\<lambda>_. live_nonces),
     rt_kdf = (\<lambda>_ _ _. [7])\<rparr>"

definition live_request :: http_request where
  "live_request = \<lparr>hq_headers = \<lparr>ah_authorization = Some (lit ''Bearer s''), ah_app_id = Some [1], ah_service_id = Some [2],
       ah_key_id = Some [7], ah_request_id = None\<rparr>,
     hq_json = True, hq_body = Some (dumps_strings [(lit ''query'', lit ''hi'')])\<rparr>"

definition live_hash :: str where
  "live_hash = join_with [36] [pbkdf2_algorithm, dec pbkdf2_iterations, b64encode_unpadded [1], b64encode_unpadded [7]]"

definition live_key :: api_key where
  "live_key = \<lparr>ak_key_id = [7], ak_key_hash = live_hash, ak_key_fingerprint = [], ak_environment = lit ''dev'',
     ak_app_id = [1], ak_service_id = [2], ak_allowed_intents = [lit ''a''], ak_allowed_route_keys = [],
     ak_status = lit ''active'', ak_expires_at = None, ak_revoked_at = None, ak_created_by = [9], ak_created_at = 0,
     ak_secret = null_text\<rparr>"

definition live_policy :: policy_version where
  "live_policy = \<lparr>pv_policy_version = [3], pv_service_id = [2], pv_threshold_preset = lit ''balanced'',
     pv_threshold_value = decimal 72 2, pv_clarify_margin = decimal 8 2, pv_min_candidate_score = decimal 55 2,
     pv_fallback_score = decimal 45 2, pv_risk_policy = [], pv_off_topic_policy = [], pv_created_by = [9], pv_created_at = 0\<rparr>"

definition live_catalog :: intent_catalog_version where
  "live_catalog = \<lparr>cv_intent_catalog_version = [4], cv_service_id = [2],
     cv_display_version = None, cv_description = None, cv_status = lit ''active'',
     cv_reproducibility_status = lit ''complete'', cv_source_catalog_version = None,
     cv_snapshot = JObj [(lit ''intents'', JArr [candidate_to_item sample_candidate])],
     cv_created_by = [9], cv_created_at = 0, cv_activated_at = None, cv_deactivated_at = None\<rparr>"

definition live_release :: release where
  "live_release = \<lparr>rel_release_version = lit ''rel_1'', rel_service_id = [2], rel_environment = lit ''dev'',
     rel_policy_version = [3], rel_intent_catalog_version = [4], rel_model_version = [5], rel_vector_index_version = [8],
     rel_test_dataset_version = [6], rel_test_run_id = [10], rel_pass_rate = 1, rel_risk_pass_rate = 1,
     rel_active = True, rel_released_by = [9], rel_released_at = 0, rel_rollback_target = None\<rparr>"

definition live_text :: encrypted_text where
  "live_text = \<lparr>et_ciphertext = [], et_encrypted_dek = [], et_encrypted_dek_iv = [], et_encrypted_dek_auth_tag = [],
     et_key_id = [], et_iv = [], et_auth_tag = [], et_algorithm = []\<rparr>"

definition live_example :: catalog_example_embedding where
  "live_example = \<lparr>ce_id = [11], ce_intent_catalog_version = [4], ce_service_id = [2], ce_model_version = [5],
     ce_vector_index_version = [8], ce_intent_id = lit ''a'', ce_example_id = None, ce_example_type = lit ''positive'',
     ce_text_raw = live_text, ce_text_masked = [], ce_embedding = Some (replicate 1024 0),
     ce_embedding_status = lit ''active'', ce_created_at = 0, ce_deactivated_at = None\<rparr>"

definition live_db :: db where
  "live_db = empty_db\<lparr>db_services := [sample_service], db_api_keys := [live_key], db_policy_versions := [live_policy],
     db_catalog_versions := [live_catalog], db_test_runs := [sample_run [10]], db_releases := [live_release],
     db_example_embeddings := [live_example]\<rparr>"

lemma live_json: "json_loads 9 (dumps_strings [(lit ''query'', lit ''hi'')]) = Inr (T_Obj [(lit ''query'', T_Str (lit ''hi''))])"
  using json_loads_dumps [of "[(lit ''query'', lit ''hi'')]" 9] by (simp add: lit_def dict_keys_def)

lemma live_load:
  assumes "env (lit i) = Some (lit ''k'')" and "env (lit k) = Some (b64encode (replicate 32 0))"
    and "env (lit l) = Some (lit ''{}'')"
  shows "\<exists>ring. load_keyring i dflt k l env = Inr ring \<and> kr_active_key_id ring = lit ''k''"
proof -
  have key: "b64decode True (b64encode (replicate 32 0)) = Some (replicate 32 0)"
    by (rule b64decode_b64encode) (simp add: byte_list_def list_all_iff)
  have s: "strip (lit ''k'') = lit ''k''" by (simp add: lit_def strip_def lstrip_def rstrip_def is_space_def)
  have b: "\<not> blank (b64encode (replicate 32 0))"
  proof -
    have "replicate 32 (0 :: nat) = 0 # 0 # 0 # replicate 29 0" by (simp add: numeral_eq_Suc)
    then have "65 \<in> set (b64encode (replicate 32 0))" by (simp add: b64_char_def)
    moreover have "\<not> is_space 65" by (simp add: is_space_def)
    ultimately show ?thesis by (auto simp: blank_iff list_all_iff)
  qed
  have "parse_legacy_keks (lit ''{}'') v = Inr []" for v
  proof -
    have "dumps_strings [] = lit ''{}''" by (simp add: dumps_strings_def lit_def)
    then have "json_loads (length (lit ''{}'')) (lit ''{}'') = Inr (T_Obj [])" using json_loads_dumps [of "[]" "length (lit ''{}'')"] by (simp add: dict_keys_def)
    then show ?thesis by (simp add: parse_legacy_keks_def)
  qed
  moreover have "lit ''k'' \<noteq> []" by (simp add: lit_def)
  ultimately show ?thesis using b s assms
    by (simp add: load_keyring_def dict_keys_def keyring_from_values_def make_encryptor_def decode_kek_def key Let_def)
qed

lemma live_ring: "\<exists>ring. load_raw_text_keyring live_variable = Inr ring \<and> kr_active_key_id ring = lit ''k''"
  unfolding load_raw_text_keyring_def by (rule live_load) (simp_all add: live_variable_def lit_def)

lemma live_trace_ok: "trace_ok live_rt live_db"
proof -
  obtain ring where "load_raw_text_keyring live_variable = Inr ring" "kr_active_key_id ring = lit ''k''" using live_ring by blast
  moreover have "storable (lit ''k'')" "storable (lit ''irt-1'')" "storable (lit ''rel_1'')" by (simp_all add: storable_lit)
  ultimately show ?thesis using live_aead_ok
    by (simp add: trace_ok_def live_rt_def live_nonces_def nonces_ok_def live_db_def empty_db_def live_release_def)
qed

definition live_auth :: auth_context where
  "live_auth = \<lparr>at_key_id = [7], at_app_id = [1], at_service_id = [2], at_environment = lit ''dev'', at_request_id = None,
     at_allowed_intents = [lit ''a''], at_allowed_route_keys = []\<rparr>"

lemma live_secret: "verify_secret (\<lambda>_ _ _. [7]) (lit ''s'') live_hash"
proof -
  have u: "utf8_encode (lit ''s'') = Some [115]" by (simp add: lit_def utf8_char_def)
  have "hash_secret (\<lambda>_ _ _. [7]) [1] (lit ''s'') = Inr live_hash"
    by (simp add: hash_secret_def encode_def u live_hash_def)
  then show ?thesis by (subst verify_hash_secret) (auto simp: byte_list_def u)
qed

lemma live_usable: "key_usable live_variable 1 live_key"
proof -
  have "live_variable (lit ''ALLOWED_RUNTIME_ENVIRONMENTS'') = Some (lit ''dev'')" by (simp add: live_variable_def lit_def)
  moreover have "split_on 44 (lit ''dev'') = [lit ''dev'']" by (simp add: lit_def)
  moreover have "strip (lit ''dev'') = lit ''dev''" "lit ''dev'' \<noteq> []"
    by (simp_all add: lit_def strip_def lstrip_def rstrip_def is_space_def)
  ultimately have "get_allowed_runtime_environments live_variable = Some {lit ''dev''}"
    by (simp add: get_allowed_runtime_environments_def Let_def supported_runtime_environments_def)
  then show ?thesis by (simp add: key_usable_def is_expired_def live_key_def)
qed

lemma live_admitted: "require_api_key (rt_kdf live_rt) (rt_variable live_rt) 1 live_db (hq_headers live_request) = Inr live_auth"
proof -
  have "bearer_secret (Some (lit ''Bearer s'')) = Some (lit ''s'')"
    by (simp add: bearer_secret_def lit_def partition_on_def lower_ascii)
  moreover have "get_api_key_by_id live_db [7] = Some live_key"
    by (simp add: get_api_key_by_id_def live_db_def first_row_def live_key_def)
  ultimately show ?thesis unfolding require_api_key_Inr using live_secret live_usable
    by (intro exI [of _ "lit ''s''"] exI [of _ live_key])
      (simp add: live_request_def live_rt_def live_auth_def live_key_def)
qed

definition live_context :: active_release_context where
  "live_context = \<lparr>ctx_release_version = lit ''rel_1'', ctx_service_id = Some [2], ctx_policy_version = Some [3],
     ctx_intent_catalog_version = Some [4], ctx_model_version = Some [5], ctx_vector_index_version = Some [8],
     ctx_test_run_id = Some [10], ctx_threshold_preset = lit ''balanced'', ctx_threshold = Some (decimal 72 2),
     ctx_threshold_value = Some (decimal 72 2), ctx_clarify_margin = decimal 8 2, ctx_min_candidate_score = decimal 55 2,
     ctx_fallback_score = decimal 45 2,
     ctx_policy = [(lit ''risk_policy'', JObj []), (lit ''off_topic_policy'', JObj [])],
     ctx_catalog_snapshot = [(lit ''intents'', JArr [candidate_to_item sample_candidate])], ctx_max_input_tokens = 256,
     ctx_off_topic_policy = Some \<lparr>otp_enabled = False, otp_keywords = [],
       otp_message = lit ''Request is outside the service policy.'', otp_fallback_policy = None\<rparr>\<rparr>"

lemma live_loaded: "load_active_release live_rt live_db [2] (lit ''dev'') = Inr live_context"
proof -
  have "get_active_release live_db [2] (lit ''dev'') = Some live_release"
    "get_policy_version live_db [2] [3] = Some live_policy" "get_catalog_version live_db [2] [4] = Some live_catalog"
    "get_test_run live_db [10] = Some (sample_run [10])" "get_service live_db [2] = Some sample_service"
    by (simp_all add: get_active_release_def get_policy_version_def get_catalog_version_def get_test_run_def get_service_def
        live_db_def first_row_def order_by_def live_release_def live_policy_def live_catalog_def sample_run_def sample_service_def)
  moreover have "off_topic_policy_from_config (rt_validate_fallback live_rt) (rt_py_str live_rt) []
      = Inr (the (ctx_off_topic_policy live_context))"
    by (simp add: off_topic_policy_from_config_def live_context_def get_default_def get_def List.map_filter_def)
  ultimately show ?thesis
    by (simp add: load_active_release_def live_release_def live_policy_def live_catalog_def sample_run_def sample_service_def
        live_context_def context_post_init_def)
qed

lemma live_candidates: "load_candidates live_context = [sample_candidate]"
  by (simp add: load_candidates_def live_context_def get_def candidates_from_snapshot_def List.map_filter_def
      candidate_item_roundtrip)

lemma live_matches:
  "\<exists>matches. runtime_semantic_matches live_rt live_db (lit ''hi'') [sample_candidate] live_context = Inr matches
    \<and> matches (lit ''a'') = Some \<lparr>sm_positive_scores = [1], sm_negative_scores = []\<rparr>"
proof -
  have one: "fsub 1 0 = 1" by code_simp
  have rows: "search_catalog_version_examples_by_embedding (rt_distance live_rt) live_db [4] [5] (replicate 1024 0) 8
      = Inr [\<lparr>sr_example_id = None, sr_intent_id = lit ''a'', sr_example_type = lit ''positive'', sr_similarity = 1\<rparr>]"
    by (simp add: search_catalog_version_examples_by_embedding_def check_search_def live_db_def live_example_def live_rt_def
        order_by_def one)
  have "lit ''positive'' \<noteq> lit ''negative''" by (simp add: lit_def)
  then show ?thesis using rows
    by (simp add: runtime_semantic_matches_def live_rt_def live_provider_def live_context_def sample_candidate_def
        example_scores_def)
qed

lemma live_floats: "decimal 72 2 < 1"
  by code_simp

lemma single_state:
  assumes "dr_decision (compose dc [t] ai ar) = Confident" and "storable (cs_intent_id t)" and "storable (cs_display_name t)"
    and "storable (cs_domain t)" and "storable (cs_route_key t)"
  shows "\<exists>st. dr_state (compose dc [t] ai ar) = Some st \<and> storable_json (JObj (decision_state_json st))"
proof -
  have "sorted_desc cs_confidence [t] = [t]" by (simp add: sorted_desc_def)
  then obtain m where "compose dc [t] ai ar = compose_decision dc Confident t m [t] (lit ''threshold_met'')"
    using assms(1) by (elim compose_cases [of "[t]" t "[]" dc ai ar]) auto
  then have "dr_state (compose dc [t] ai ar) = Some (compose_state dc [t] (Some t) (Some m) (lit ''threshold_met''))"
    by (simp add: compose_decision_def)
  moreover have "storable (preset_text p)" for p
  proof (cases p)
    case (Preset t)
    then show ?thesis by (cases t) (simp_all add: preset_text_def storable_lit)
  qed (simp add: preset_text_def storable_lit)
  ultimately show ?thesis using assms(2-5)
    by (simp add: compose_state_def Let_def ranking_entry_def json_text_option_def json_float_option_def storable_lit)
qed

lemma live_routed: "\<exists>dr. route_runtime live_rt live_db (lit ''hi'') live_auth live_context = Inr dr
    \<and> dr_decision dr = Confident \<and> dr_route_key dr = Some (lit ''d.a.x'') \<and> dr_intent_id dr = Some (lit ''a'')
    \<and> (\<exists>st. dr_state dr = Some st \<and> storable_json (JObj (decision_state_json st)))"
proof -
  let ?ri = "\<lparr>ri_query = lit ''hi'', ri_service_id = [2],
    ri_route_scope = \<lparr>sc_allowed_intents = [lit ''a''], sc_allowed_route_keys = []\<rparr>, ri_release = live_context\<rparr>"
  let ?eng = "runtime_routing_engine live_rt live_db live_context"
  obtain matches where m: "runtime_semantic_matches live_rt live_db (lit ''hi'') [sample_candidate] live_context = Inr matches"
    "matches (lit ''a'') = Some \<lparr>sm_positive_scores = [1], sm_negative_scores = []\<rparr>" using live_matches by blast
  obtain dc where dc: "release_composer live_context = Inr dc" "dc_allowed_intents dc = None" "dc_allowed_route_keys dc = None"
    "tc_fallback_score (dc_threshold_config dc) = decimal 45 2" "resolved_threshold (dc_threshold_config dc) = decimal 72 2"
    "tc_clarify_margin (dc_threshold_config dc) = decimal 8 2"
    by (rule that [of "projr (release_composer live_context)"])
      (simp_all add: release_composer_def live_context_def make_threshold_config_def parse_preset_def lit_def resolved_threshold_def)
  let ?t = "score_candidate (lit ''hi'') sample_candidate (Some \<lparr>sm_positive_scores = [1], sm_negative_scores = []\<rparr>)"
  have t: "cs_confidence ?t = 1" "cs_intent_id ?t = lit ''a''" "cs_route_key ?t = lit ''d.a.x''"
    "cs_display_name ?t = lit ''A''" "cs_domain ?t = lit ''d''"
    using sample_confidence by (simp_all add: score_candidate_def sample_candidate_def keyword_match_count_def Let_def)
  let ?d = "compose dc [?t] (Some [lit ''a'']) (Some [])"
  have conf: "dr_decision ?d = Confident"
    by (rule compose_single_confident) (use dc live_floats sample_bounds in \<open>simp_all add: t is_authorized_def effective_scope_def in_scope_def\<close>)
  have "winner [?t] = Some ?t" by (rule winner_single)
  from compose_confident_fields [OF this conf] have key: "dr_route_key ?d = Some (lit ''d.a.x'')" "dr_intent_id ?d = Some (lit ''a'')"
    by (simp_all add: t)
  have state: "\<exists>st. dr_state ?d = Some st \<and> storable_json (JObj (decision_state_json st))"
    by (rule single_state [OF conf]) (simp_all add: t storable_lit)
  have "semantic_decision ?eng ?ri = Inr ?d"
    using m by (simp add: semantic_decision_def runtime_routing_engine_def live_candidates dc(1))
      (simp add: sample_candidate_def)
  moreover have "eng_risk_evaluate ?eng = risk_evaluate \<lparr>rpol_enabled = True\<rparr>"
    by (simp add: runtime_routing_engine_def live_context_def get_def risk_enabled_def get_default_def)
  ultimately have "route ?eng ?ri = Inr ?d"
    using sample_no_risk conf by (simp add: route_def)
  then show ?thesis using conf key state by (simp add: route_runtime_def live_auth_def)
qed

lemma live_log_success:
  assumes "dr_intent_id dr = Some (lit ''a'')" and "dr_route_key dr = Some (lit ''d.a.x'')"
    and "\<exists>st. dr_state dr = Some st \<and> storable_json (JObj (decision_state_json st))"
  shows "\<exists>d'. log_success live_rt (source_of live_auth) live_context dr (lit ''hi'') ms live_db = Inr d'"
proof -
  obtain ring where "load_raw_text_keyring live_variable = Inr ring" using live_ring by blast
  then have ring: "load_raw_text_keyring (rt_variable live_rt) = Inr ring" by (simp add: live_rt_def)
  then have "encrypt_query live_rt 0 (lit ''hi'') \<noteq> Inl Trace_Configuration"
    by (simp add: encrypt_query_def trace_keyring_def raise_simps)
  then obtain raw where raw: "encrypt_query live_rt 0 (lit ''hi'') = Inr raw"
    using encrypt_query_total [OF live_trace_ok, of "lit ''hi''" 0] by (auto simp: storable_lit)
  have names: "storable_option (nt_key_id raw)" "storable_option (nt_algorithm raw)"
    using encrypt_query_Inr [OF live_trace_ok raw] by blast+
  have small: "storable [Suc 0]" "storable [2]" "storable [3]" "storable [4]" "storable [5]" "storable [8]" "storable [10]"
    by (simp_all add: storable_def)
  have decision: "storable (decision_value v)" for v by (cases v) (simp_all add: storable_lit)
  have "rt_trace_id live_rt = lit ''irt-1''" "db_runtime_logs live_db = []" by (simp_all add: live_rt_def live_db_def empty_db_def)
  then show ?thesis unfolding log_success_def raw bindE_simps add_runtime_log_Inr using assms names
    by (auto simp: storable_runtime_log_def Let_def versions_of_def live_context_def source_of_def live_auth_def small decision
        storable_lit)
qed

lemma live_endpoint: "\<exists>resp. snd (runtime_endpoint live_rt 1 live_request live_db) = Ok_Reply resp
    \<and> rr_route_key resp = Some (lit ''d.a.x'')"
proof -
  obtain dr where dr: "route_runtime live_rt live_db (lit ''hi'') live_auth live_context = Inr dr"
    "dr_decision dr = Confident" "dr_route_key dr = Some (lit ''d.a.x'')" "dr_intent_id dr = Some (lit ''a'')"
    "\<exists>st. dr_state dr = Some st \<and> storable_json (JObj (decision_state_json st))" using live_routed by blast
  obtain d' where log: "log_success live_rt (source_of live_auth) live_context dr (lit ''hi'') (rt_latency live_rt 0) live_db
      = Inr d'" using live_log_success [OF dr(4,3,5)] by blast
  have loaded: "load_active_release live_rt live_db (at_service_id live_auth) (at_environment live_auth) = Inr live_context"
    using live_loaded by (simp add: live_auth_def)
  let ?resp = "runtime_response_of dr (rt_trace_id live_rt) (at_request_id live_auth) (ctx_release_version live_context)"
  have routed: "snd (intent_route live_rt (lit ''hi'') live_auth live_db) = Routed ?resp"
    by (simp add: intent_route_def loaded dr(1) log)
  have "valid_runtime_request \<lparr>rq_query = lit ''hi'', rq_channel = None, rq_user_context = []\<rparr>"
    by (simp add: valid_runtime_request_def lit_def)
  moreover have "Option.bind (Some (T_Obj [(lit ''query'', T_Str (lit ''hi''))])) (rt_validate_body live_rt)
      = Some \<lparr>rq_query = lit ''hi'', rq_channel = None, rq_user_context = []\<rparr>"
    by (simp add: live_rt_def live_validate_def)
  ultimately have "snd (admitted_request live_rt 1 live_request (Some (T_Obj [(lit ''query'', T_Str (lit ''hi''))])) live_db)
      = Ok_Reply ?resp"
    using routed by (cases "intent_route live_rt (lit ''hi'') live_auth live_db") (simp add: admitted_request_def live_admitted)
  moreover have "hq_json live_request" "hq_body live_request = Some (dumps_strings [(lit ''query'', lit ''hi'')])"
    by (simp_all add: live_request_def)
  moreover have "dumps_strings [(lit ''query'', lit ''hi'')] \<noteq> []" by (simp add: dumps_strings_def)
  moreover have "rt_json_depth live_rt = 9" by (simp add: live_rt_def)
  ultimately have "snd (runtime_endpoint live_rt 1 live_request live_db) = Ok_Reply ?resp"
    by (simp add: runtime_endpoint_def live_json)
  then show ?thesis using dr(2,3) by (auto simp: runtime_response_of_def)
qed

theorem routed_request_vetted_witness:
  "\<exists>key r c. get_api_key_by_id live_db [7] = Some key \<and> get_active_release live_db (ak_service_id key) (ak_environment key) = Some r
    \<and> ic_route_key c = lit ''d.a.x'' \<and> in_scope (ak_allowed_intents key) (ic_intent_id (c :: intent_candidate))"
proof -
  obtain resp where r: "snd (runtime_endpoint live_rt 1 live_request live_db) = Ok_Reply resp"
    "rr_route_key resp = Some (lit ''d.a.x'')" using live_endpoint by blast
  have "ah_key_id (hq_headers live_request) = Some [7]" by (simp add: live_request_def)
  with routed_request_vetted [OF r] show ?thesis by (metis option.inject)
qed

lemma live_extracted: "extract_runtime_query (rt_json_depth live_rt) live_request = Inr (Some (lit ''hi''))"
proof -
  have "dumps_strings [(lit ''query'', lit ''hi'')] \<noteq> []" by (simp add: dumps_strings_def)
  then show ?thesis by (simp add: extract_runtime_query_def live_request_def live_json live_rt_def)
qed

lemma live_request_ok: "request_ok live_rt live_request"
proof -
  have "rt_json_depth live_rt = 9" by (simp add: live_rt_def)
  moreover have "hq_body live_request = Some (dumps_strings [(lit ''query'', lit ''hi'')])" by (simp add: live_request_def)
  moreover have "rt_validate_body live_rt (T_Obj [(lit ''query'', T_Str (lit ''hi''))])
      = Some \<lparr>rq_query = lit ''hi'', rq_channel = None, rq_user_context = []\<rparr>"
    by (simp add: live_rt_def live_validate_def)
  moreover have "headers_ok (hq_headers live_request)"
    by (simp add: headers_ok_def live_request_def storable_def)
  ultimately show ?thesis using live_extracted by (simp add: request_ok_def live_json)
qed

theorem runtime_request_logged_witness:
  "\<exists>r. db_runtime_logs (fst (runtime_endpoint live_rt 1 live_request live_db)) = [r]
    \<and> rl_trace_id r = lit ''irt-1'' \<and> rl_query_masked r = Some (mask_pii (lit ''hi'')) \<and> rl_query_raw r \<noteq> null_text"
proof -
  obtain resp where r: "snd (runtime_endpoint live_rt 1 live_request live_db) = Ok_Reply resp" using live_endpoint by blast
  have "db_runtime_logs live_db = []" "rt_trace_id live_rt = lit ''irt-1''" "storable (lit ''hi'')"
    by (simp_all add: live_db_def empty_db_def live_rt_def storable_lit)
  with runtime_request_logged [OF live_trace_ok live_request_ok refl, of 1] show ?thesis
    by (auto simp: r live_extracted log_keeps_def log_of_response_def)
qed

end
