(* ===== verification/Rewrap_Safety.thy ===== *)
theory Rewrap_Safety
  imports Rewrap Live_Service
begin

text \<open>
  What a run of the rotation guarantees: every text stays readable, only envelopes change, a dry run changes nothing,
  and the status \<open>completed\<close> is only reported when no covered envelope is left under another key.
\<close>

section \<open>Batches\<close>

lemma concat_batches: "0 < n \<Longrightarrow> concat (batches n xs) = xs"
proof (induction n xs rule: batches.induct)
  case step: (1 n xs)
  then show ?case by (cases "xs = []") (simp_all add: batches.simps [of n xs] batches.simps [of n "[]"])
qed

lemma process_candidates_fold:
  assumes "0 < n"
  shows "\<exists>c. process_candidates A ring ns candidates tables dry n d
    = fold (process_candidate A ring ns dry) candidates (c, d)"
proof -
  have nested: "fold (fold f) bs s = fold f (concat bs) s" for f :: "'a \<Rightarrow> 'b \<Rightarrow> 'b" and bs s
    by (induction bs arbitrary: s) simp_all
  show ?thesis unfolding process_candidates_def nested concat_batches [OF assms] by (rule exI) (rule refl)
qed

section \<open>Envelopes that keep their text\<close>

definition text_kept :: "aead \<Rightarrow> raw_text_keyring \<Rightarrow> encrypted_text \<Rightarrow> encrypted_text \<Rightarrow> bool" where
  "text_kept A ring e e' \<longleftrightarrow> e' = e \<or> et_key_id e' = kr_active_key_id ring
     \<and> (\<exists>p. keyring_decrypt A ring e None = Inr p \<and> keyring_decrypt A ring e' None = Inr p)"

definition example_kept :: "aead \<Rightarrow> raw_text_keyring \<Rightarrow> intent_example \<Rightarrow> intent_example \<Rightarrow> bool" where
  "example_kept A ring r r' \<longleftrightarrow> (\<exists>e. r' = r\<lparr>ie_text_raw := e\<rparr> \<and> text_kept A ring (ie_text_raw r) e)"

definition log_kept :: "aead \<Rightarrow> raw_text_keyring \<Rightarrow> runtime_log \<Rightarrow> runtime_log \<Rightarrow> bool" where
  "log_kept A ring r r' \<longleftrightarrow> r' = r \<or> (\<exists>e e'. complete_text (rl_query_raw r) = Some e
     \<and> r' = r\<lparr>rl_query_raw := stored_text e'\<rparr> \<and> text_kept A ring e e')"

definition rows_kept :: "aead \<Rightarrow> raw_text_keyring \<Rightarrow> db \<Rightarrow> db \<Rightarrow> bool" where
  "rows_kept A ring d d' \<longleftrightarrow> list_all2 (example_kept A ring) (db_intent_examples d) (db_intent_examples d')
     \<and> list_all2 (log_kept A ring) (db_runtime_logs d) (db_runtime_logs d')
     \<and> d' = d\<lparr>db_intent_examples := db_intent_examples d', db_runtime_logs := db_runtime_logs d'\<rparr>"

definition keyed :: "db \<Rightarrow> bool" where
  "keyed d \<longleftrightarrow> distinct (map ie_example_id (db_intent_examples d)) \<and> distinct (map rl_trace_id (db_runtime_logs d))"

lemma text_kept_refl [simp]: "text_kept A ring e e"
  by (simp add: text_kept_def)

lemma text_kept_trans: "text_kept A ring e e' \<Longrightarrow> text_kept A ring e' e'' \<Longrightarrow> text_kept A ring e e''"
  by (auto simp: text_kept_def)

lemma example_kept_refl [simp]: "example_kept A ring r r"
  unfolding example_kept_def by (rule exI [of _ "ie_text_raw r"]) simp

lemma example_kept_trans: "example_kept A ring r r' \<Longrightarrow> example_kept A ring r' r'' \<Longrightarrow> example_kept A ring r r''"
  by (auto simp: example_kept_def intro!: exI [of _ "ie_text_raw r''"] intro: text_kept_trans)

lemma log_kept_refl [simp]: "log_kept A ring r r"
  by (simp add: log_kept_def)

lemma log_kept_trans: "log_kept A ring r r' \<Longrightarrow> log_kept A ring r' r'' \<Longrightarrow> log_kept A ring r r''"
  unfolding log_kept_def by (fastforce intro: text_kept_trans)

lemma rows_kept_refl [simp]: "rows_kept A ring d d"
  by (simp add: rows_kept_def list.rel_refl)

lemma rows_kept_trans: "rows_kept A ring d d' \<Longrightarrow> rows_kept A ring d' d'' \<Longrightarrow> rows_kept A ring d d''"
proof -
  assume a: "rows_kept A ring d d'" and b: "rows_kept A ring d' d''"
  have "list_all2 (example_kept A ring) (db_intent_examples d) (db_intent_examples d'')"
    by (rule list_all2_trans [OF example_kept_trans]) (use a b in \<open>auto simp: rows_kept_def\<close>)
  moreover have "list_all2 (log_kept A ring) (db_runtime_logs d) (db_runtime_logs d'')"
    by (rule list_all2_trans [OF log_kept_trans]) (use a b in \<open>auto simp: rows_kept_def\<close>)
  moreover have "d'' = d\<lparr>db_intent_examples := db_intent_examples d'', db_runtime_logs := db_runtime_logs d''\<rparr>"
    using a b unfolding rows_kept_def by (cases d, cases d', cases d'') simp
  ultimately show ?thesis unfolding rows_kept_def by blast
qed

lemma list_all2_keys: "list_all2 R xs ys \<Longrightarrow> (\<And>x y. R x y \<Longrightarrow> key y = key x) \<Longrightarrow> map key ys = map key xs"
  by (induction rule: list_all2_induct) auto

lemma rows_kept_keyed: "rows_kept A ring d d' \<Longrightarrow> keyed d \<Longrightarrow> keyed d'"
proof -
  assume k: "rows_kept A ring d d'" "keyed d"
  have "map ie_example_id (db_intent_examples d') = map ie_example_id (db_intent_examples d)"
    by (rule list_all2_keys [of "example_kept A ring"]) (use k(1) in \<open>auto simp: rows_kept_def example_kept_def\<close>)
  moreover have "map rl_trace_id (db_runtime_logs d') = map rl_trace_id (db_runtime_logs d)"
    by (rule list_all2_keys [of "log_kept A ring"]) (use k(1) in \<open>auto simp: rows_kept_def log_kept_def\<close>)
  ultimately show ?thesis using k(2) by (simp add: keyed_def)
qed

lemma update_first_kept:
  assumes "distinct (map key rows)" and "first_row (\<lambda>r. key r = i) rows = Some r" and "R r (f r)"
    and "\<And>r. R r r"
  shows "list_all2 R rows (update_where (\<lambda>r. key r = i) f rows)"
proof -
  note r = first_row_Some [OF assms(2)]
  have "R x (if key x = i then f x else x)" if "x \<in> set rows" for x
    using distinct_key [OF assms(1) that, of r] r assms(3,4) by auto
  then show ?thesis by (auto simp: update_where_def list_all2_conv_all_nth)
qed

lemma reencrypt_envelope_kept:
  assumes "reencrypt_envelope A e ring n = Inr e'" and "aead_ok A" and "nonces_ok n" and "keyring_ok ring"
  shows "text_kept A ring e e' \<and> et_key_id e' = kr_active_key_id ring"
proof (cases "et_key_id e = kr_active_key_id ring")
  case False
  then obtain p where p: "keyring_decrypt A ring e None = Inr p" "keyring_encrypt A ring n p None = Inr e'"
    using assms(1) by (auto simp: reencrypt_envelope_def raise_simps)
  then show ?thesis using keyring_decrypt_encrypt [OF p(2) assms(2-4) refl] by (auto simp: text_kept_def)
qed (use assms(1) in \<open>simp add: reencrypt_envelope_def\<close>)

section \<open>The run keeps every row\<close>

lemma apply_kept:
  assumes "candidate_encrypted_text d c = Some e" and "text_kept A ring e e'" and "keyed d"
  shows "rows_kept A ring d (apply_candidate_encrypted_text c e' d)"
proof (cases c)
  case c: (Example_Row i)
  obtain r where r: "first_row (\<lambda>r. ie_example_id r = i) (db_intent_examples d) = Some r" "ie_text_raw r = e"
    using assms(1) by (auto simp: c example_row_def)
  have "list_all2 (example_kept A ring) (db_intent_examples d)
      (update_where (\<lambda>r. ie_example_id r = i) (apply_intent_example_encrypted_text e') (db_intent_examples d))"
    by (rule update_first_kept [OF _ r(1)]) (use assms(2,3) r(2) in \<open>auto simp: keyed_def example_kept_def\<close>)
  then show ?thesis by (simp add: c rows_kept_def list.rel_refl)
next
  case c: (Log_Row i)
  obtain r where r: "first_row (\<lambda>r. rl_trace_id r = i) (db_runtime_logs d) = Some r" "complete_text (rl_query_raw r) = Some e"
    using assms(1) by (auto simp: c log_row_def bind_eq_Some_conv)
  have "list_all2 (log_kept A ring) (db_runtime_logs d)
      (update_where (\<lambda>r. rl_trace_id r = i) (apply_runtime_log_encrypted_query e') (db_runtime_logs d))"
    by (rule update_first_kept [OF _ r(1)]) (use assms(2,3) r(2) in \<open>auto simp: keyed_def log_kept_def\<close>)
  then show ?thesis by (simp add: c rows_kept_def list.rel_refl)
qed

lemma process_candidate_kept:
  assumes "keyed d" and "aead_ok A" and "\<forall>k. nonces_ok (ns k)" and "keyring_ok ring"
  shows "rows_kept A ring d (snd (process_candidate A ring ns dry c (counts, d)))"
proof -
  have "rows_kept A ring d (apply_candidate_encrypted_text c e' d)"
    if "candidate_encrypted_text d c = Some e" "reencrypt_envelope A e ring (ns k) = Inr e'" for e e' k
    using apply_kept [OF that(1) _ assms(1)] reencrypt_envelope_kept [OF that(2) assms(2) _ assms(4)] assms(3) by blast
  then show ?thesis by (auto simp: process_candidate_def Let_def split: option.split sum.split)
qed

lemma process_fold_kept:
  assumes "keyed d" and "aead_ok A" and "\<forall>k. nonces_ok (ns k)" and "keyring_ok ring"
  shows "rows_kept A ring d (snd (fold (process_candidate A ring ns dry) cs (counts, d)))"
  using assms(1)
proof (induction cs arbitrary: counts d)
  case (Cons c cs)
  obtain counts' d' where s: "process_candidate A ring ns dry c (counts, d) = (counts', d')" by fastforce
  have k: "rows_kept A ring d d'" using process_candidate_kept [OF Cons.prems assms(2-4), where dry = dry and c = c and counts = counts] by (simp add: s)
  show ?case using rows_kept_trans [OF k Cons.IH [OF rows_kept_keyed [OF k Cons.prems]]] by (simp add: s)
qed simp

lemma process_dry: "snd (fold (process_candidate A ring ns True) cs (counts, d)) = d"
proof (induction cs arbitrary: counts)
  case (Cons c cs)
  have "snd (process_candidate A ring ns True c (counts, d)) = d"
    by (simp add: process_candidate_def Let_def split: option.split)
  then show ?case using Cons.IH by (cases "process_candidate A ring ns True c (counts, d)") simp
qed simp

section \<open>What completion means\<close>

definition covered_rotated :: "db \<Rightarrow> str \<Rightarrow> str list \<Rightarrow> str \<Rightarrow> bool" where
  "covered_rotated d service_id tables active \<longleftrightarrow>
     (intent_examples \<in> set tables \<longrightarrow>
        (\<forall>r \<in> set (db_intent_examples d). ie_service_id r = service_id \<longrightarrow> et_key_id (ie_text_raw r) = active))
     \<and> (runtime_logs \<in> set tables \<longrightarrow>
        (\<forall>r \<in> set (db_runtime_logs d). \<forall>e. rl_service_id r = Some service_id \<longrightarrow> rl_raw_query_deleted_at r = None
           \<longrightarrow> complete_text (rl_query_raw r) = Some e \<longrightarrow> et_key_id e = active))"

lemma group_counts_pos: "k \<in> set ks \<Longrightarrow> \<exists>n. (k, n) \<in> set (group_counts ks) \<and> 0 < n"
proof -
  assume k: "k \<in> set ks"
  then have "0 < length (filter (\<lambda>k'. k' = k) ks)" by (auto simp: filter_empty_conv)
  then show ?thesis using k by (auto simp: group_counts_def)
qed

lemma dict_put_mem: "(k, v) \<in> set (dict_put k v d)"
  by (induction k v d rule: dict_put.induct) auto

lemma dict_of_graph: "t \<in> set ts \<Longrightarrow> (t, f t) \<in> set (dict_of (map (\<lambda>t. (t, f t)) ts))"
proof -
  assume t: "t \<in> set ts"
  then have "t \<in> fst ` set (map (\<lambda>t. (t, f t)) ts)" by force
  then have "map_of (rev (map (\<lambda>t. (t, f t)) ts)) t \<noteq> None" by (simp add: map_of_eq_None_iff image_image)
  then obtain v where v: "map_of (rev (map (\<lambda>t. (t, f t)) ts)) t = Some v" by blast
  then have "v = f t" by (auto dest!: map_of_SomeD)
  with v have "map_of (dict_of (map (\<lambda>t. (t, f t)) ts)) t = Some (f t)" by (simp add: dict_simps)
  then show ?thesis by (rule map_of_SomeD)
qed

lemma no_legacy_left:
  assumes "\<not> has_remaining_legacy_key_counts (raw_text_key_counts_by_table kc tables active)"
    and "t \<in> set tables" and "(k, n) \<in> set (table_counts kc t)" and "0 < n"
  shows "k = active"
  using assms dict_of_graph [OF assms(2), of "key_count_detail_of kc active"]
  by (fastforce simp: has_remaining_legacy_key_counts_def raw_text_key_counts_by_table_def key_count_detail_of_def list_ex_iff)

lemma no_legacy_rotated:
  assumes "\<not> has_remaining_legacy_key_counts (raw_text_key_counts_by_table (count_raw_text_key_ids d s) tables active)"
  shows "covered_rotated d s tables active"
proof -
  note left = no_legacy_left [OF assms]
  have ne: "intent_examples \<noteq> runtime_logs" by (simp add: intent_examples_def runtime_logs_def lit_def)
  have "et_key_id (ie_text_raw r) = active"
    if "intent_examples \<in> set tables" "r \<in> set (db_intent_examples d)" "ie_service_id r = s" for r
  proof -
    have "et_key_id (ie_text_raw r) \<in> set (map (\<lambda>r. et_key_id (ie_text_raw r)) (filter (\<lambda>r. ie_service_id r = s) (db_intent_examples d)))"
      using that by auto
    from group_counts_pos [OF this] left [OF that(1)] show ?thesis
      by (auto simp: table_counts_def count_raw_text_key_ids_def example_key_counts_def)
  qed
  moreover have "et_key_id e = active"
    if "runtime_logs \<in> set tables" "r \<in> set (db_runtime_logs d)" "rl_service_id r = Some s"
      "rl_raw_query_deleted_at r = None" "complete_text (rl_query_raw r) = Some e" for r e
  proof -
    have "et_key_id e \<in> set (List.map_filter (\<lambda>r. map_option et_key_id (complete_text (rl_query_raw r)))
        (filter (\<lambda>r. rl_service_id r = Some s \<and> rl_raw_query_deleted_at r = None) (db_runtime_logs d)))"
      using that by (force simp: List.map_filter_def)
    from group_counts_pos [OF this] left [OF that(1)] ne show ?thesis
      by (auto simp: table_counts_def count_raw_text_key_ids_def)
  qed
  ultimately show ?thesis unfolding covered_rotated_def by blast
qed

lemma status_completed:
  "raw_text_rewrap_status dry failed after_counts = lit ''completed''
     \<longleftrightarrow> failed = 0 \<and> (dry \<or> \<not> has_remaining_legacy_key_counts after_counts)"
  by (auto simp: raw_text_rewrap_status_def lit_def)

section \<open>The run\<close>

lemma rewrap_execute_kept:
  assumes "rewrap_execute en q ring run_id d = (report, d1)" and "1 \<le> wq_batch_size q"
    and "keyed d" and "aead_ok (re_aead en)" and "\<forall>k. nonces_ok (re_nonces en k)" and "keyring_ok ring"
  shows "\<exists>c. rows_kept (re_aead en) ring d d1 \<and> (wq_dry_run q \<longrightarrow> d1 = d)
    \<and> rp_status report = raw_text_rewrap_status (wq_dry_run q) c (raw_text_key_counts_by_table
       (count_raw_text_key_ids d1 (wq_service_id q)) (wq_included_tables q) (kr_active_key_id ring))"
proof -
  have n: "0 < nat (wq_batch_size q)" using assms(2) by simp
  define cs where "cs = list_candidates (re_collate en) d (wq_service_id q) (wq_included_tables q)
    (source_key_ids_from_counts (count_raw_text_key_ids d (wq_service_id q)) (wq_included_tables q) (kr_active_key_id ring))
    (nat (wq_limit q))"
  obtain counts where counts: "process_candidates (re_aead en) ring (re_nonces en) cs (wq_included_tables q) (wq_dry_run q)
      (nat (wq_batch_size q)) d = (counts, d1)"
    and report: "rp_status report = raw_text_rewrap_status (wq_dry_run q) (rn_failed counts) (raw_text_key_counts_by_table
       (count_raw_text_key_ids d1 (wq_service_id q)) (wq_included_tables q) (kr_active_key_id ring))"
    using assms(1) by (auto simp: rewrap_execute_def Let_def simp flip: cs_def split: prod.splits)
  obtain c where "fold (process_candidate (re_aead en) ring (re_nonces en) (wq_dry_run q)) cs (c, d) = (counts, d1)"
    using process_candidates_fold [OF n, of "re_aead en" ring "re_nonces en" cs "wq_included_tables q" "wq_dry_run q" d] counts
    by auto
  then show ?thesis
    using process_fold_kept [OF assms(3,4,5,6), where dry = "wq_dry_run q" and cs = cs and counts = c]
      process_dry [of "re_aead en" ring "re_nonces en" cs c d] report by (cases "wq_dry_run q") auto
qed

lemma run_raw_text_rewrapE:
  assumes "run_raw_text_rewrap en q w = Inr (w', report)" and "load_raw_text_keyring (re_variable en) = Inr ring"
  shows "\<exists>run_id d1. rewrap_execute en q ring run_id (ws_db w) = (report, d1) \<and> 1 \<le> wq_batch_size q
    \<and> (if wq_dry_run q then ws_db w' = d1
       else db_intent_examples (ws_db w') = db_intent_examples d1 \<and> db_runtime_logs (ws_db w') = db_runtime_logs d1)"
proof -
  let ?id = "next_rewrap_run_id (ws_runs w) (re_clock en 0)"
  obtain report' d1 where x: "rewrap_execute en q ring ?id (ws_db w) = (report', d1)" by fastforce
  have "report' = report \<and> 1 \<le> wq_batch_size q
    \<and> (if wq_dry_run q then ws_db w' = d1
       else db_intent_examples (ws_db w') = db_intent_examples d1 \<and> db_runtime_logs (ws_db w') = db_runtime_logs d1)"
    using assms(1) unfolding run_raw_text_rewrap_def
    by (elim bindE_elim) (auto simp: assms(2) x Let_def raise_simps insert_audit_log_def split: if_splits)
  with x show ?thesis by blast
qed

text \<open>
  C6: after a run of the rotation every example and every log is the row it was, up to an envelope that decrypts to
  the same text under the active key; a dry run changes nothing; and when a run reports that it is completed, no
  covered envelope of the service is left under another key.
\<close>

theorem raw_text_rewrap_safe:
  assumes "run_raw_text_rewrap en q w = Inr (w', report)" and "load_raw_text_keyring (re_variable en) = Inr ring"
    and "aead_ok (re_aead en)" and "\<forall>k. nonces_ok (re_nonces en k)" and "keyed (ws_db w)"
  shows "list_all2 (example_kept (re_aead en) ring) (db_intent_examples (ws_db w)) (db_intent_examples (ws_db w'))
    \<and> list_all2 (log_kept (re_aead en) ring) (db_runtime_logs (ws_db w)) (db_runtime_logs (ws_db w'))
    \<and> (wq_dry_run q \<longrightarrow> ws_db w' = ws_db w)
    \<and> (\<not> wq_dry_run q \<and> rp_status report = lit ''completed''
         \<longrightarrow> covered_rotated (ws_db w') (wq_service_id q) (wq_included_tables q) (kr_active_key_id ring))"
proof -
  obtain run_id d1 where x: "rewrap_execute en q ring run_id (ws_db w) = (report, d1)"
    and d': "if wq_dry_run q then ws_db w' = d1
      else db_intent_examples (ws_db w') = db_intent_examples d1 \<and> db_runtime_logs (ws_db w') = db_runtime_logs d1"
    and batch: "1 \<le> wq_batch_size q"
    using run_raw_text_rewrapE [OF assms(1,2)] by blast
  obtain c where c: "rows_kept (re_aead en) ring (ws_db w) d1" "wq_dry_run q \<Longrightarrow> d1 = ws_db w"
    "rp_status report = raw_text_rewrap_status (wq_dry_run q) c (raw_text_key_counts_by_table
       (count_raw_text_key_ids d1 (wq_service_id q)) (wq_included_tables q) (kr_active_key_id ring))"
    using rewrap_execute_kept [OF x batch assms(5,3,4) load_keyring_ok [OF assms(2) [unfolded load_raw_text_keyring_def]]]
    by blast
  have "covered_rotated d1 (wq_service_id q) (wq_included_tables q) (kr_active_key_id ring)"
    if "\<not> wq_dry_run q" "rp_status report = lit ''completed''"
    using that no_legacy_rotated by (simp add: c(3) status_completed)
  then show ?thesis using c(1,2) d' by (auto simp: rows_kept_def covered_rotated_def split: if_splits)
qed

section \<open>A rotation\<close>

text \<open>An example written under the key \<open>a\<close>, and an environment in which \<open>k\<close> is active and \<open>a\<close> is a legacy key.\<close>

definition rotated_variable :: "str \<Rightarrow> str option" where
  "rotated_variable = map_of [(lit ''RAW_TEXT_KEK_ID'', lit ''k''), (lit ''RAW_TEXT_KEK_BASE64'', b64encode (replicate 32 0)),
     (lit ''RAW_TEXT_LEGACY_KEKS_JSON'', dumps_strings [(lit ''a'', b64encode (replicate 32 0))])]"

definition rotated_encryptor :: "string \<Rightarrow> envelope_encryptor" where
  "rotated_encryptor k = \<lparr>ee_kek_id = lit k, ee_kek = replicate 32 0\<rparr>"

definition rotated_ring :: raw_text_keyring where
  "rotated_ring = \<lparr>kr_active_key_id = lit ''k'',
     kr_encryptors = [(lit ''k'', rotated_encryptor ''k''), (lit ''a'', rotated_encryptor ''a'')]\<rparr>"

definition retired_ring :: raw_text_keyring where
  "retired_ring = \<lparr>kr_active_key_id = lit ''a'', kr_encryptors = [(lit ''a'', rotated_encryptor ''a'')]\<rparr>"

definition rotated_env :: rewrap_env where
  "rotated_env = \<lparr>re_variable = rotated_variable, re_aead = live_aead, re_nonces = (\<lambda>_. live_nonces), re_clock = (\<lambda>_. 0),
     re_collate = length, re_uuid = [1], re_reports_written = (\<lambda>_. True)\<rparr>"

definition rotated_request :: rewrap_request where
  "rotated_request = \<lparr>wq_service_id = [2], wq_actor_id = [9], wq_included_tables = [intent_examples, runtime_logs],
     wq_dry_run = False, wq_approval_id = Some [5], wq_batch_size = 100, wq_limit = 1000\<rparr>"

definition rotated_example :: "encrypted_text \<Rightarrow> intent_example" where
  "rotated_example e = \<lparr>ie_example_id = [11], ie_service_id = [2], ie_intent_id = lit ''a'', ie_example_type = lit ''positive'',
     ie_text_raw = e, ie_text_masked = [], ie_embedding = None, ie_source = [], ie_test_case_id = None, ie_approved = True,
     ie_created_by = [9], ie_created_at = 0\<rparr>"

lemma rotated_names [simp]: "lit ''a'' \<noteq> lit ''k''" "lit ''k'' \<noteq> lit ''a''" "lit ''a'' \<noteq> []" "lit ''k'' \<noteq> []"
  "strip (lit ''a'') = lit ''a''" "strip (lit ''k'') = lit ''k''"
  by (simp_all add: lit_def strip_def lstrip_def rstrip_def is_space_def)

lemma rotated_loaded: "load_raw_text_keyring rotated_variable = Inr rotated_ring"
proof -
  define b where "b = b64encode (replicate 32 0)"
  have key: "b64decode True b = Some (replicate 32 0)"
    unfolding b_def by (rule b64decode_b64encode) (simp add: byte_list_def list_all_iff)
  have "replicate 32 (0 :: nat) = 0 # 0 # 0 # replicate 29 0" by (simp add: numeral_eq_Suc)
  then have "65 \<in> set b" by (simp add: b_def b64_char_def)
  then have nonblank: "\<not> blank b" unfolding blank_iff list_all_iff by (auto intro!: bexI [of _ 65] simp: is_space_def)
  have "c < 128" if "c \<in> set b" for c
    using b64encode_chars [of "replicate 32 0" c] that b64_value_ascii [of c] by (auto simp: b_def byte_list_def list_all_iff)
  then have "scalar_text b" by (fastforce simp: scalar_text_def list_all_iff)
  moreover have "scalar_text (lit ''a'')" by (simp add: scalar_text_def lit_def)
  ultimately have "json_loads (length (dumps_strings [(lit ''a'', b)])) (dumps_strings [(lit ''a'', b)]) = Inr (T_Obj [(lit ''a'', T_Str b)])"
    using json_loads_dumps [of "[(lit ''a'', b)]" "length (dumps_strings [(lit ''a'', b)])"] by (simp add: dict_keys_def dumps_strings_def)
  then have legacy: "parse_legacy_keks (dumps_strings [(lit ''a'', b)]) v = Inr [(lit ''a'', b)]" for v
    by (simp add: parse_legacy_keks_def add_legacy_kek_def dict_keys_def)
  have env: "rotated_variable (lit ''RAW_TEXT_KEK_ID'') = Some (lit ''k'')"
    "rotated_variable (lit ''RAW_TEXT_KEK_BASE64'') = Some b"
    "rotated_variable (lit ''RAW_TEXT_LEGACY_KEKS_JSON'') = Some (dumps_strings [(lit ''a'', b)])"
    by (simp_all add: rotated_variable_def b_def lit_def)
  show ?thesis unfolding load_raw_text_keyring_def load_keyring_def
    by (simp add: env nonblank legacy dict_keys_def keyring_from_values_def make_encryptor_def decode_kek_def key
        add_legacy_def rotated_ring_def rotated_encryptor_def Let_def)
qed

lemma rotated_rings: "keyring_ok rotated_ring" "keyring_ok retired_ring"
  by (simp_all add: keyring_ok_def rotated_ring_def retired_ring_def rotated_encryptor_def dict_keys_def)

lemma rotated_parts: "associated_data (lit ''a'') algorithm None \<in> range Inr" "associated_data (lit ''k'') algorithm None \<in> range Inr"
  "utf8_encode (lit ''hi'') = Some [104, 105]"
  by (simp_all add: associated_data_def encode_def algorithm_def lit_def utf8_char_def image_iff)

definition rotated_db :: "encrypted_text \<Rightarrow> db" where
  "rotated_db e = empty_db\<lparr>db_intent_examples := [rotated_example e]\<rparr>"

definition rotated_tables :: "str list" where
  "rotated_tables = [intent_examples, runtime_logs]"

lemma rotated_table_names [simp]: "intent_examples \<noteq> runtime_logs" "runtime_logs \<noteq> intent_examples"
  by (simp_all add: intent_examples_def runtime_logs_def lit_def)

lemma rotated_counts: "count_raw_text_key_ids (rotated_db e) [2] = \<lparr>kc_intent_examples = [(et_key_id e, 1)], kc_runtime_logs = [],
    kc_runtime_logs_redacted = 0, kc_runtime_logs_incomplete = None\<rparr>"
  by (simp add: count_raw_text_key_ids_def rotated_db_def empty_db_def example_key_counts_def rotated_example_def
      group_counts_def redacted_count_def List.map_filter_def)

lemma rotated_candidates:
  "et_key_id e = k \<Longrightarrow> list_candidates collate (rotated_db e) [2] rotated_tables [k] 1000 = [Example_Row [11]]"
  by (simp add: list_candidates_def rotated_tables_def list_intent_examples_for_rewrap_def list_runtime_logs_for_rewrap_def
      rotated_db_def empty_db_def rotated_example_def optional_filter_def order_by_def)

lemma rotated_processed:
  assumes "et_key_id e = lit ''a''" and "reencrypt_envelope live_aead e rotated_ring live_nonces = Inr e'"
  shows "\<exists>c. process_candidates live_aead rotated_ring (\<lambda>_. live_nonces) [Example_Row [11]] rotated_tables False 100 (rotated_db e)
    = (c, rotated_db e') \<and> rn_failed c = 0"
proof -
  have b: "batches 100 [Example_Row [11]] = [[Example_Row [11]]]" by (simp add: batches.simps)
  have r: "candidate_encrypted_text (rotated_db e) (Example_Row [11]) = Some e"
    by (simp add: example_row_def rotated_db_def first_row_def rotated_example_def)
  have u: "apply_candidate_encrypted_text (Example_Row [11]) e' (rotated_db e) = rotated_db e'"
    by (simp add: rotated_db_def update_where_def rotated_example_def)
  have k: "lit ''a'' \<in> set (dict_keys (kr_encryptors rotated_ring))" "kr_active_key_id rotated_ring = lit ''k''"
    by (simp_all add: rotated_ring_def dict_keys_def)
  show ?thesis unfolding process_candidates_def b 
    by (simp add: process_candidate_def r assms k Let_def u del: candidate_encrypted_text.simps apply_candidate_encrypted_text.simps)
qed

lemma rotated_status:
  "et_key_id e' = lit ''k'' \<Longrightarrow> raw_text_rewrap_status False 0
     (raw_text_key_counts_by_table (count_raw_text_key_ids (rotated_db e') [2]) rotated_tables (lit ''k'')) = lit ''completed''"
  by (simp add: status_completed has_remaining_legacy_key_counts_def raw_text_key_counts_by_table_def rotated_tables_def
      key_count_detail_of_def table_counts_def rotated_counts dict_of_def)

lemma rotated_executed:
  assumes "et_key_id e = lit ''a''" and "reencrypt_envelope live_aead e rotated_ring live_nonces = Inr e'"
    and "et_key_id e' = lit ''k''"
  shows "\<exists>report. rewrap_execute rotated_env rotated_request rotated_ring i (rotated_db e) = (report, rotated_db e')
    \<and> rp_status report = lit ''completed''"
proof -
  have s: "source_key_ids_from_counts (count_raw_text_key_ids (rotated_db e) [2]) rotated_tables (lit ''k'') = [lit ''a'']"
    by (simp add: source_key_ids_from_counts_def rotated_tables_def table_counts_def rotated_counts assms(1) insert_Diff_if)
  obtain c where c: "process_candidates live_aead rotated_ring (\<lambda>_. live_nonces) [Example_Row [11]] rotated_tables False 100
      (rotated_db e) = (c, rotated_db e')" "rn_failed c = 0"
    using rotated_processed [OF assms(1,2)] by blast
  show ?thesis
    by (simp add: rewrap_execute_def rotated_env_def rotated_request_def rotated_ring_def [THEN arg_cong [where f = kr_active_key_id]]
        s rotated_candidates [OF assms(1)] c rotated_status [OF assms(3)] Let_def flip: rotated_tables_def)
qed

lemma rotated_run:
  assumes "et_key_id e = lit ''a''" and "reencrypt_envelope live_aead e rotated_ring live_nonces = Inr e'"
    and "et_key_id e' = lit ''k''"
  shows "\<exists>w' report. run_raw_text_rewrap rotated_env rotated_request \<lparr>ws_db = rotated_db e, ws_runs = []\<rparr> = Inr (w', report)
    \<and> rp_status report = lit ''completed'' \<and> db_intent_examples (ws_db w') = [rotated_example e']"
proof -
  let ?i = "next_rewrap_run_id [] 0"
  obtain report where x: "rewrap_execute rotated_env rotated_request rotated_ring ?i (rotated_db e) = (report, rotated_db e')"
    and completed: "rp_status report = lit ''completed''"
    using rotated_executed [OF assms] by blast
  have env: "re_variable rotated_env = rotated_variable" "re_clock rotated_env = (\<lambda>_. 0)" "re_reports_written rotated_env = (\<lambda>_. True)"
    "re_uuid rotated_env = [1]" by (simp_all add: rotated_env_def)
  have q: "wq_included_tables rotated_request \<noteq> []" "1 \<le> wq_batch_size rotated_request" "1 \<le> wq_limit rotated_request"
    "wq_approval_id rotated_request = Some [5]" "\<not> wq_dry_run rotated_request" by (simp_all add: rotated_request_def)
  show ?thesis
    by (simp add: run_raw_text_rewrap_def env q rotated_loaded x Let_def insert_row_def insert_audit_log_def completed)
      (simp add: rotated_db_def empty_db_def)
qed

theorem raw_text_rewrap_safe_witness:
  "\<exists>e e' (w' :: rewrap_store). et_key_id e = lit ''a'' \<and> et_key_id e' = lit ''k''
    \<and> db_intent_examples (ws_db w') = [rotated_example e']
    \<and> example_kept live_aead rotated_ring (rotated_example e) (rotated_example e')
    \<and> covered_rotated (ws_db w') [2] rotated_tables (lit ''k'')"
proof -
  have n: "nonces_ok live_nonces" by (simp add: nonces_ok_def live_nonces_def)
  obtain e where e: "keyring_encrypt live_aead retired_ring live_nonces (lit ''hi'') None = Inr e"
    using keyring_encrypt_total [OF rotated_rings(2) rotated_parts(3), of None _ live_aead live_nonces] rotated_parts(1)
    by (auto simp: retired_ring_def)
  obtain e' where e': "keyring_encrypt live_aead rotated_ring live_nonces (lit ''hi'') None = Inr e'"
    using keyring_encrypt_total [OF rotated_rings(1) rotated_parts(3), of None _ live_aead live_nonces] rotated_parts(2)
    by (auto simp: rotated_ring_def)
  have old: "keyring_decrypt live_aead rotated_ring e None = Inr (lit ''hi'')" "et_key_id e = lit ''a''"
    using keyring_decrypt_encrypt [OF e live_aead_ok n rotated_rings(2), of rotated_ring]
    by (simp_all add: rotated_ring_def retired_ring_def)
  have new: "et_key_id e' = lit ''k''"
    using keyring_decrypt_encrypt(2) [OF e' live_aead_ok n rotated_rings(1) refl] by (simp add: rotated_ring_def)
  have "reencrypt_envelope live_aead e rotated_ring live_nonces = Inr e'"
    using old e' by (simp add: reencrypt_envelope_def rotated_ring_def)
  from rotated_run [OF old(2) this new] obtain w' report where
    run: "run_raw_text_rewrap rotated_env rotated_request \<lparr>ws_db = rotated_db e, ws_runs = []\<rparr> = Inr (w', report)"
    and completed: "rp_status report = lit ''completed''" and rows: "db_intent_examples (ws_db w') = [rotated_example e']"
    by blast
  have "load_raw_text_keyring (re_variable rotated_env) = Inr rotated_ring" by (simp add: rotated_env_def rotated_loaded)
  from raw_text_rewrap_safe [OF run this] completed rows have
    "example_kept live_aead rotated_ring (rotated_example e) (rotated_example e')"
    "covered_rotated (ws_db w') [2] rotated_tables (lit ''k'')"
    by (simp_all add: rotated_env_def live_aead_ok n keyed_def rotated_db_def empty_db_def rotated_request_def
        rotated_tables_def) (simp_all add: rotated_ring_def)
  then show ?thesis using old(2) new rows by blast
qed

end
