(* ===== verification/Catalogs.thy ===== *)
theory Catalogs
  imports Runtime
begin

text \<open>
  \<open>versions/catalogs.py\<close>: an immutable version of a service's catalog is created from its intents and examples, with a
  snapshot, a vector index and the embeddings of the examples; and the difference of two versions. Advisory locks
  serialise the creations, so that a creation is one transaction that runs alone. \<open>get_embedding_provider\<close>, the
  collation and the random identifiers are parameters.
\<close>

section \<open>Numbers in identifiers\<close>

text \<open>\<open>str.isdigit\<close> also holds of digits that are not decimal, as superscripts; \<open>int\<close> raises on them.\<close>

definition other_digits :: "(nat \<times> nat) list" where
  "other_digits = [(178, 179), (185, 185), (4969, 4977), (6618, 6618), (8304, 8304), (8308, 8313), (8320, 8329),
     (9312, 9320), (9332, 9340), (9352, 9360), (9450, 9450), (9461, 9469), (9471, 9471), (10102, 10110),
     (10112, 10120), (10122, 10130), (68160, 68163), (69216, 69224), (69714, 69722), (127232, 127242)]"

definition isdigit :: "str \<Rightarrow> bool" where
  "isdigit s \<longleftrightarrow> s \<noteq> [] \<and> list_all (\<lambda>c. is_decimal c \<or> list_ex (\<lambda>(a, b). a \<le> c \<and> c \<le> b) other_digits) s"

datatype 'x catalog_error =
    Catalog_Invalid str
  | Catalog_Dependency str
  | Bad_Number str
  | Provider_Failed 'x
  | Catalog_Store repo_error

definition int_of_digits :: "str \<Rightarrow> ('x catalog_error, nat) outcome" where
  "int_of_digits s = (if isdecimal s then Inr (int_of_decimal s) else Inl (Bad_Number s))"

text \<open>\<open>max([int(n) for n in texts if n.isdigit()], default=0) + 1\<close>\<close>

definition next_number :: "str list \<Rightarrow> ('x catalog_error, nat) outcome" where
  "next_number texts = bindE (mapE int_of_digits (filter isdigit texts)) (\<lambda>numbers. Inr (fold max numbers 0 + 1))"

definition next_display_version :: "db \<Rightarrow> str \<Rightarrow> ('x catalog_error, str) outcome" where
  "next_display_version d service_id =
     bindE (next_number (map tl (filter (prefix (lit ''v'')) (list_catalog_display_versions d service_id)))) (\<lambda>n.
     Inr (lit ''v'' @ dec n))"

definition vector_index_prefix :: "str \<Rightarrow> str \<Rightarrow> str" where
  "vector_index_prefix catalog_id model_version = lit ''vec-'' @ catalog_id @ lit ''-'' @ model_version @ lit ''-''"

definition vector_index_version_id :: "(str \<Rightarrow> nat) \<Rightarrow> db \<Rightarrow> str \<Rightarrow> str \<Rightarrow> ('x catalog_error, str) outcome" where
  "vector_index_version_id collate d catalog_id model_version =
     (let p = vector_index_prefix catalog_id model_version in
      bindE (next_number (map (rpartition_suffix 45) (list_vector_index_versions_by_prefix collate d p))) (\<lambda>n.
      Inr (p @ zero_pad 3 n)))"

section \<open>Creating a version\<close>

definition normalize_description :: "str \<Rightarrow> ('x catalog_error, str) outcome" where
  "normalize_description description =
     (let normalized = strip description in
      bindE (require (10 \<le> length normalized)
        (Catalog_Invalid (lit ''Catalog version description must be at least 10 characters.''))) (\<lambda>_. Inr normalized))"

record 'x catalog_env =
  cn_provider :: "('x, 'x embedding_provider) outcome"
  cn_collate :: "str \<Rightarrow> nat"
  cn_uuid_hex :: str
  cn_uuid :: "nat \<Rightarrow> str"

definition catalog_examples :: "(str \<Rightarrow> nat) \<Rightarrow> db \<Rightarrow> str \<Rightarrow> intent_example list" where
  "catalog_examples collate d service_id =
     concat (map (\<lambda>i. list_examples d service_id (in_intent_id i)) (list_intents collate d service_id))"

definition example_item :: "intent_example \<Rightarrow> json" where
  "example_item e = JObj [(lit ''example_id'', JStr (ie_example_id e)), (lit ''example_type'', JStr (ie_example_type e)),
     (lit ''text_masked'', JStr (ie_text_masked e)), (lit ''approved'', JBool True)]"

definition intent_item :: "db \<Rightarrow> str \<Rightarrow> intent \<Rightarrow> json" where
  "intent_item d service_id i = JObj
     [(lit ''intent_id'', JStr (in_intent_id i)), (lit ''domain'', JStr (in_domain i)),
      (lit ''display_name'', JStr (in_display_name i)), (lit ''description'', JStr (in_description i)),
      (lit ''route_key'', JStr (in_route_key i)), (lit ''status'', JStr (lit ''active'')),
      (lit ''include_keywords'', JArr (map JStr (in_include_keywords i))),
      (lit ''exclude_keywords'', JArr (map JStr (in_exclude_keywords i))),
      (lit ''examples'', JArr (map example_item (list_examples d service_id (in_intent_id i))))]"

definition catalog_snapshot :: "(str \<Rightarrow> nat) \<Rightarrow> db \<Rightarrow> str \<Rightarrow> json" where
  "catalog_snapshot collate d service_id = JObj
     [(lit ''service_id'', JStr service_id),
      (lit ''intents'', JArr (map (intent_item d service_id) (list_intents collate d service_id)))]"

definition catalog_version_id :: "'x catalog_env \<Rightarrow> str \<Rightarrow> timestamp \<Rightarrow> str" where
  "catalog_version_id cn service_id now =
     lit ''cat-'' @ service_id @ lit ''-'' @ compact_date now @ lit ''-'' @ take 8 (cn_uuid_hex cn)"

definition embedding_row ::
  "'x catalog_env \<Rightarrow> str \<Rightarrow> str \<Rightarrow> str \<Rightarrow> str \<Rightarrow> timestamp \<Rightarrow> nat \<times> intent_example \<times> float64 list
    \<Rightarrow> catalog_example_embedding" where
  "embedding_row cn catalog_id service_id model_version index now = (\<lambda>(k, e, v).
     \<lparr>ce_id = cn_uuid cn k, ce_intent_catalog_version = catalog_id, ce_service_id = service_id,
      ce_model_version = model_version, ce_vector_index_version = index, ce_intent_id = ie_intent_id e,
      ce_example_id = Some (ie_example_id e), ce_example_type = ie_example_type e, ce_text_raw = ie_text_raw e,
      ce_text_masked = ie_text_masked e, ce_embedding = Some v, ce_embedding_status = lit ''active'',
      ce_created_at = now, ce_deactivated_at = None\<rparr>)"

definition insert_embedding :: "catalog_example_embedding \<Rightarrow> db \<Rightarrow> ('x catalog_error, db) outcome" where
  "insert_embedding r d =
     bindE (lift_error Catalog_Store (create_catalog_version_example_embedding d r)) (\<lambda>(d', _). Inr d')"

definition new_catalog_row ::
  "'x catalog_env \<Rightarrow> db \<Rightarrow> str \<Rightarrow> str \<Rightarrow> str \<Rightarrow> str option \<Rightarrow> str \<Rightarrow> timestamp \<Rightarrow> intent_catalog_version" where
  "new_catalog_row cn d service_id description display_version source created_by now =
     \<lparr>cv_intent_catalog_version = catalog_version_id cn service_id now, cv_service_id = service_id,
      cv_display_version = Some display_version, cv_description = Some description, cv_status = lit ''active'',
      cv_reproducibility_status = lit ''complete'', cv_source_catalog_version = source,
      cv_snapshot = catalog_snapshot (cn_collate cn) d service_id, cv_created_by = created_by, cv_created_at = now,
      cv_activated_at = Some now, cv_deactivated_at = None\<rparr>"

definition create_catalog_version ::
  "'x catalog_env \<Rightarrow> db \<Rightarrow> service \<Rightarrow> str \<Rightarrow> str \<Rightarrow> timestamp \<Rightarrow> str \<Rightarrow> str option
    \<Rightarrow> ('x catalog_error, db \<times> intent_catalog_version) outcome" where
  "create_catalog_version cn d service description created_by now model_version source =
     (let service_id = sv_service_id service in
      bindE (normalize_description description) (\<lambda>description.
      bindE (require (source = None \<or> get_catalog_version d service_id (the source) \<noteq> None)
        (Catalog_Dependency (lit ''Source catalog version does not exist.''))) (\<lambda>_.
      let catalog_id = catalog_version_id cn service_id now in
      bindE (next_display_version d service_id) (\<lambda>display_version.
      let examples = catalog_examples (cn_collate cn) d service_id in
      bindE (lift_error Provider_Failed (cn_provider cn)) (\<lambda>provider.
      bindE (require (pr_model_version provider = model_version)
        (Catalog_Invalid (lit ''Embedding model version does not match provider.''))) (\<lambda>_.
      bindE (lift_error Provider_Failed (pr_embed_texts provider (map ie_text_masked examples)
        (sv_max_input_tokens service))) (\<lambda>embeddings.
      bindE (require (length embeddings = length examples \<and> list_all (\<lambda>v. length v = pr_dimension provider) embeddings)
        (Catalog_Invalid (lit ''Embedding provider returned an invalid result.''))) (\<lambda>_.
      bindE (lift_error Catalog_Store (insert_catalog_version d
        (new_catalog_row cn d service_id description display_version source created_by now)))
        (\<lambda>(d1, catalog).
      bindE (vector_index_version_id (cn_collate cn) d1 catalog_id model_version) (\<lambda>index.
      bindE (lift_error Catalog_Store (create_vector_index_version d1
        \<lparr>vi_vector_index_version = index, vi_service_id = service_id, vi_intent_catalog_version = catalog_id,
         vi_model_version = model_version, vi_status = lit ''ready'', vi_created_at = now\<rparr>)) (\<lambda>(d2, _).
      bindE (foldE insert_embedding (map (embedding_row cn catalog_id service_id model_version index now)
        (zip [0..<length examples] (zip examples embeddings))) d2) (\<lambda>d3.
      Inr (d3, catalog)))))))))))))"

section \<open>The difference of two versions\<close>

text \<open>
  Equality of the values of Python: numbers and booleans are compared by value, objects as dictionaries; the keys of an
  object are distinct.
\<close>

fun py_number :: "json \<Rightarrow> rat option" where
  "py_number (JBool b) = Some (of_bool b)"
| "py_number (JInt i) = Some (of_int i)"
| "py_number (JFloat x) = Some x"
| "py_number _ = None"

lemma json_size_item: "x \<in> set xs \<Longrightarrow> size x < size (JArr xs)"
  by (induction xs) auto

lemma json_size_field: "(k, x) \<in> set a \<Longrightarrow> size x < size (JObj a)"
  by (induction a) auto

function py_eq :: "json \<Rightarrow> json \<Rightarrow> bool" where
  "py_eq JNull w \<longleftrightarrow> w = JNull"
| "py_eq (JStr s) w \<longleftrightarrow> w = JStr s"
| "py_eq (JBool b) w \<longleftrightarrow> py_number w = Some (of_bool b)"
| "py_eq (JInt i) w \<longleftrightarrow> py_number w = Some (of_int i)"
| "py_eq (JFloat x) w \<longleftrightarrow> py_number w = Some x"
| "py_eq (JArr xs) w \<longleftrightarrow> (case w of
      JArr ys \<Rightarrow> length xs = length ys \<and> (\<forall>(x, y) \<in> set (zip xs ys). py_eq x y) | _ \<Rightarrow> False)"
| "py_eq (JObj a) w \<longleftrightarrow> (case w of
      JObj b \<Rightarrow> set (map fst a) = set (map fst b) \<and> (\<forall>(k, x) \<in> set a. \<forall>y \<in> set_option (map_of b k). py_eq x y) | _ \<Rightarrow> False)"
  by pat_completeness auto

termination
  by (relation "measure (size \<circ> fst)") (auto simp del: json.size intro: json_size_field json_size_item [OF set_zip_leftD])

definition text_of :: "(json \<Rightarrow> str) \<Rightarrow> json \<Rightarrow> str" where
  "text_of py_str v = (case v of JStr s \<Rightarrow> s | _ \<Rightarrow> py_str v)"

text \<open>The examples of one item of the snapshot, each extended by the intent it belongs to.\<close>

definition example_entry :: "(json \<Rightarrow> str) \<Rightarrow> (str \<times> json) list \<Rightarrow> json \<Rightarrow> (str \<times> (str \<times> json) list) option" where
  "example_entry py_str item example =
     (case example of
        JObj e \<Rightarrow> map_option (\<lambda>i. (text_of py_str i,
          dict_put (lit ''route_key'') (get item (lit ''route_key''))
            (dict_put (lit ''intent_display_name'') (get item (lit ''display_name''))
              (dict_put (lit ''intent_id'') (get item (lit ''intent_id'')) e)))) (map_of e (lit ''example_id''))
      | _ \<Rightarrow> None)"

fun item_examples :: "(json \<Rightarrow> str) \<Rightarrow> json \<Rightarrow> (str \<times> (str \<times> json) list) list" where
  "item_examples py_str (JObj item) = List.map_filter (example_entry py_str item) (json_list (get item (lit ''examples'')))"
| "item_examples py_str _ = []"

fun intent_entry :: "(json \<Rightarrow> str) \<Rightarrow> json \<Rightarrow> (str \<times> json) option" where
  "intent_entry py_str (JObj item) = map_option (\<lambda>i. (text_of py_str i, JObj item)) (map_of item (lit ''intent_id''))"
| "intent_entry py_str _ = None"

definition snapshot_items :: "(json \<Rightarrow> str) \<Rightarrow> json \<Rightarrow> (str, json) dict \<times> (str, (str \<times> json) list) dict" where
  "snapshot_items py_str snapshot =
     (let intents = json_list (get (json_dict snapshot) (lit ''intents'')) in
      (dict_of (List.map_filter (intent_entry py_str) intents), dict_of (concat (map (item_examples py_str) intents))))"

definition example_comparison_state :: "(str \<times> json) list \<Rightarrow> json" where
  "example_comparison_state e = JObj (map (\<lambda>k. (k, get e k))
     [lit ''intent_id'', lit ''example_type'', lit ''text_masked'', lit ''approved''])"

definition only_in :: "('k :: linorder, 'v) dict \<Rightarrow> ('k, 'w) dict \<Rightarrow> 'k list" where
  "only_in a b = sorted_list_of_set (set (dict_keys a) - set (dict_keys b))"

definition changed :: "('v \<Rightarrow> json) \<Rightarrow> ('k :: linorder, 'v) dict \<Rightarrow> ('k, 'v) dict \<Rightarrow> 'k list" where
  "changed state before after = sorted_list_of_set (set (filter
     (\<lambda>k. case (map_of before k, map_of after k) of
            (Some x, Some y) \<Rightarrow> \<not> py_eq (state x) (state y) | _ \<Rightarrow> False) (dict_keys before)))"

record example_diff_entry =
  df_intent_id :: str
  df_intent_display_name :: str
  df_route_key :: str
  df_example_type :: str
  df_text_masked :: str

definition or_dash :: "(json \<Rightarrow> str) \<Rightarrow> json \<Rightarrow> str" where
  "or_dash py_str v = (if truthy v then text_of py_str v else lit ''-'')"

definition example_diff_entries :: "(json \<Rightarrow> str) \<Rightarrow> str list \<Rightarrow> (str, (str \<times> json) list) dict \<Rightarrow> example_diff_entry list" where
  "example_diff_entries py_str ids examples = List.map_filter (\<lambda>i. map_option (\<lambda>e.
     \<lparr>df_intent_id = or_dash py_str (get e (lit ''intent_id'')),
      df_intent_display_name = or_dash py_str (get e (lit ''intent_display_name'')),
      df_route_key = or_dash py_str (get e (lit ''route_key'')),
      df_example_type = or_dash py_str (get e (lit ''example_type'')),
      df_text_masked = or_dash py_str (get e (lit ''text_masked''))\<rparr>) (map_of examples i)) ids"

record catalog_version_diff =
  df_service_id :: str
  df_from_version :: "str option"
  df_to_version :: str
  df_added_intents :: "str list"
  df_removed_intents :: "str list"
  df_changed_intents :: "str list"
  df_added_examples :: "example_diff_entry list"
  df_removed_examples :: "example_diff_entry list"
  df_changed_examples :: "example_diff_entry list"

definition build_catalog_version_diff ::
  "(json \<Rightarrow> str) \<Rightarrow> db \<Rightarrow> str \<Rightarrow> str \<Rightarrow> str option \<Rightarrow> (unit catalog_error, catalog_version_diff) outcome" where
  "build_catalog_version_diff py_str d service_id version compare_to =
     bindE (some_or (get_catalog_version d service_id version)
       (Catalog_Dependency (lit ''Catalog version does not exist.''))) (\<lambda>target.
     let baseline = Option.bind compare_to (get_catalog_version d service_id) in
     bindE (require (compare_to = None \<or> baseline \<noteq> None)
       (Catalog_Dependency (lit ''Compare catalog version does not exist.''))) (\<lambda>_.
     let (intents0, examples0) = snapshot_items py_str (case baseline of Some b \<Rightarrow> cv_snapshot b | None \<Rightarrow> JObj []);
         (intents1, examples1) = snapshot_items py_str (cv_snapshot target) in
     Inr \<lparr>df_service_id = service_id, df_from_version = map_option cv_intent_catalog_version baseline,
       df_to_version = cv_intent_catalog_version target, df_added_intents = only_in intents1 intents0,
       df_removed_intents = only_in intents0 intents1, df_changed_intents = changed id intents0 intents1,
       df_added_examples = example_diff_entries py_str (only_in examples1 examples0) examples1,
       df_removed_examples = example_diff_entries py_str (only_in examples0 examples1) examples0,
       df_changed_examples = example_diff_entries py_str (changed example_comparison_state examples0 examples1) examples1\<rparr>))"

section \<open>Numbers that are never reused\<close>

lemma isdecimal_dec [simp]: "isdecimal (dec n)"
  using isdecimal_zero_pad [of 0 n] by (simp add: zero_pad_def)

lemma isdigit_decimal: "isdecimal s \<Longrightarrow> isdigit s"
  by (auto simp: isdecimal_def isdigit_def list_all_iff)

lemma max_fold_ge: "(x :: nat) \<in> set xs \<or> x \<le> a \<Longrightarrow> x \<le> fold max xs a"
proof (induction xs arbitrary: a)
  case (Cons y ys)
  show ?case by (simp, rule Cons.IH) (use Cons.prems in auto)
qed simp

lemma next_number_fresh:
  assumes "(next_number texts :: ('x catalog_error, nat) outcome) = Inr n" and "isdecimal t" and "int_of_decimal t = n"
  shows "t \<notin> set texts"
proof
  assume "t \<in> set texts"
  obtain numbers where "(mapE int_of_digits (filter isdigit texts) :: ('x catalog_error, nat list) outcome) = Inr numbers" and n: "n = fold max numbers 0 + 1"
    using assms(1) by (auto simp: next_number_def raise_simps)
  from mapE_in [OF this(1), of t] \<open>t \<in> set texts\<close> isdigit_decimal [OF assms(2)] assms(2,3)
  have "n \<in> set numbers" by (auto simp: int_of_digits_def)
  from max_fold_ge [of n numbers 0] this n show False by simp
qed

lemma next_display_version_fresh:
  assumes "(next_display_version d s :: ('x catalog_error, str) outcome) = Inr v" and "r \<in> set (db_catalog_versions d)" and "cv_service_id r = s"
  shows "cv_display_version r \<noteq> Some v"
proof
  assume r: "cv_display_version r = Some v"
  obtain n where n: "(next_number (map tl (filter (prefix (lit ''v'')) (list_catalog_display_versions d s)))
      :: ('x catalog_error, nat) outcome) = Inr n"
    and v: "v = lit ''v'' @ dec n"
    using assms(1) by (auto simp: next_display_version_def raise_simps)
  have "v \<in> set (list_catalog_display_versions d s)"
    using assms(2,3) r by (force simp: list_catalog_display_versions_def List.map_filter_def)
  then have "dec n \<in> set (map tl (filter (prefix (lit ''v'')) (list_catalog_display_versions d s)))"
    unfolding v by (force simp: lit_def)
  with next_number_fresh [OF n, of "dec n"] show False by simp
qed

section \<open>What a creation stores\<close>

lemma insert_embedding_Inr: "insert_embedding r d = Inr d'
    \<longleftrightarrow> ce_id r \<notin> ce_id ` set (db_example_embeddings d) \<and> d' = d\<lparr>db_example_embeddings := db_example_embeddings d @ [r]\<rparr>"
  by (auto simp: insert_embedding_def create_catalog_version_example_embedding_def raise_simps)

lemma insert_embeddings: "(foldE insert_embedding rows d :: ('x catalog_error, db) outcome) = Inr d'
    \<Longrightarrow> d' = d\<lparr>db_example_embeddings := db_example_embeddings d @ rows\<rparr>"
proof (induction rows arbitrary: d)
  case (Cons a rows)
  then have "(foldE insert_embedding rows (d\<lparr>db_example_embeddings := db_example_embeddings d @ [a]\<rparr>)
      :: ('x catalog_error, db) outcome) = Inr d'"
    by (auto simp: insert_embedding_Inr raise_simps)
  from Cons.IH [OF this] show ?case by simp
qed simp

definition catalog_rows ::
  "'x catalog_env \<Rightarrow> db \<Rightarrow> intent_catalog_version \<Rightarrow> str \<Rightarrow> str \<Rightarrow> float64 list list \<Rightarrow> catalog_example_embedding list" where
  "catalog_rows cn d r model_version index embeddings =
     (let examples = catalog_examples (cn_collate cn) d (cv_service_id r) in
      map (embedding_row cn (cv_intent_catalog_version r) (cv_service_id r) model_version index (cv_created_at r))
        (zip [0..<length examples] (zip examples embeddings)))"

definition index_row :: "intent_catalog_version \<Rightarrow> str \<Rightarrow> str \<Rightarrow> vector_index_version" where
  "index_row r model_version index = \<lparr>vi_vector_index_version = index, vi_service_id = cv_service_id r,
     vi_intent_catalog_version = cv_intent_catalog_version r, vi_model_version = model_version, vi_status = lit ''ready'',
     vi_created_at = cv_created_at r\<rparr>"

lemma create_catalog_versionE:
  fixes cn :: "'x catalog_env"
  assumes "create_catalog_version cn d service description created_by now model_version source = Inr (d', r)"
  obtains index embeddings where
    "d' = d\<lparr>db_catalog_versions := db_catalog_versions d @ [r], db_vector_indexes := db_vector_indexes d @ [index_row r model_version index],
       db_example_embeddings := db_example_embeddings d @ catalog_rows cn d r model_version index embeddings\<rparr>"
    "length embeddings = length (catalog_examples (cn_collate cn) d (cv_service_id r))"
    "\<forall>q \<in> set (db_catalog_versions d). \<not> catalog_conflict r q"
    "index \<notin> vi_vector_index_version ` set (db_vector_indexes d)"
    "cv_service_id r = sv_service_id service" "cv_status r = lit ''active''" "cv_reproducibility_status r = lit ''complete''"
    "cv_snapshot r = catalog_snapshot (cn_collate cn) d (cv_service_id r)"
proof -
  let ?s = "sv_service_id service" and ?id = "catalog_version_id cn (sv_service_id service) now"
  obtain desc disp emb d1 index d2 q where
    1: "insert_catalog_version d (new_catalog_row cn d ?s desc disp source created_by now) = Inr (d1, r)"
    and 2: "create_vector_index_version d1 \<lparr>vi_vector_index_version = index, vi_service_id = ?s, vi_intent_catalog_version = ?id,
         vi_model_version = model_version, vi_status = lit ''ready'', vi_created_at = now\<rparr> = Inr (d2, q)"
    and 3: "(foldE insert_embedding (map (embedding_row cn ?id ?s model_version index now)
        (zip [0..<length (catalog_examples (cn_collate cn) d ?s)] (zip (catalog_examples (cn_collate cn) d ?s) emb))) d2
        :: ('x catalog_error, db) outcome) = Inr d'"
    and n: "length emb = length (catalog_examples (cn_collate cn) d ?s)"
    using assms by (auto simp: create_catalog_version_def Let_def raise_simps)
  have r: "r = new_catalog_row cn d ?s desc disp source created_by now"
    and d1: "d1 = d\<lparr>db_catalog_versions := db_catalog_versions d @ [r]\<rparr>"
    and conflict: "\<forall>q \<in> set (db_catalog_versions d). \<not> catalog_conflict r q"
    using 1 by (auto simp: insert_catalog_version_def split: if_splits)
  have cols: "cv_service_id r = ?s" "cv_intent_catalog_version r = ?id" "cv_created_at r = now" "cv_status r = lit ''active''"
    "cv_reproducibility_status r = lit ''complete''" "cv_snapshot r = catalog_snapshot (cn_collate cn) d ?s"
    by (simp_all add: r new_catalog_row_def)
  have d2: "d2 = d1\<lparr>db_vector_indexes := db_vector_indexes d1 @ [index_row r model_version index]\<rparr>"
    "index \<notin> vi_vector_index_version ` set (db_vector_indexes d1)"
    using 2 by (auto simp: create_vector_index_version_def raise_simps index_row_def cols)
  have "d' = d2\<lparr>db_example_embeddings := db_example_embeddings d2 @ catalog_rows cn d r model_version index emb\<rparr>"
    using insert_embeddings [OF 3] by (simp add: catalog_rows_def Let_def cols)
  then show ?thesis
    by (intro that [of index emb]) (use n conflict d2(2) in \<open>simp_all add: d2(1) d1 cols\<close>)
qed

text \<open>A candidate of the runtime for an intent.\<close>

definition candidate_of_intent :: "intent \<Rightarrow> intent_candidate" where
  "candidate_of_intent i = \<lparr>ic_intent_id = in_intent_id i, ic_display_name = in_display_name i, ic_domain = in_domain i,
     ic_route_key = in_route_key i, ic_include_keywords = in_include_keywords i, ic_exclude_keywords = in_exclude_keywords i\<rparr>"

lemma intent_item_candidate: "candidate_from_item (intent_item d s i) = Some (candidate_of_intent i)"
  by (simp add: candidate_from_item_def intent_item_def get_def lit_def map_filter_as_str candidate_of_intent_def)

lemma snapshot_intents [simp]:
  "get (json_dict (catalog_snapshot collate d s)) (lit ''intents'') = JArr (map (intent_item d s) (list_intents collate d s))"
  by (simp add: catalog_snapshot_def get_def lit_def)

lemma snapshot_candidates:
  "candidates_from_snapshot (get (json_dict (catalog_snapshot collate d s)) (lit ''intents''))
     = map candidate_of_intent (list_intents collate d s)"
proof -
  have "List.map_filter candidate_from_item (map (intent_item d s) xs) = map candidate_of_intent xs" for xs
    by (induction xs) (simp_all add: List.map_filter_def intent_item_candidate)
  then show ?thesis by (simp add: candidates_from_snapshot_def)
qed

lemma snapshot_example_count:
  "sum_list (map (\<lambda>i. length (json_list (get (json_dict i) (lit ''examples'')))) (map (intent_item d s) xs))
     = length (concat (map (\<lambda>i. list_examples d s (in_intent_id i)) xs))"
  by (induction xs) (simp_all add: intent_item_def get_def lit_def)

lemma first_row_new: "(\<forall>q \<in> set rows. \<not> P q) \<Longrightarrow> first_row P (rows @ new) = first_row P new"
  by (induction rows) (auto simp: first_row_def)

lemma created_found:
  assumes "\<forall>q \<in> set rows. \<not> catalog_conflict r q"
  shows "first_row (\<lambda>q. cv_service_id q = cv_service_id r \<and> cv_intent_catalog_version q = cv_intent_catalog_version r) (rows @ [r]) = Some r"
  using assms by (subst first_row_new) (auto simp: catalog_conflict_def first_row_def)

end
