(* ===== verification/Key_Handlers.thy ===== *)
theory Key_Handlers
  imports Api_Keys Access_Admin
begin

text \<open>
  The handlers of \<open>api/admin.py\<close> for services and API keys: creation with the scope of a released catalog,
  revocation, the later display of a secret, the listings and the runtime setup guide. A handler
  takes the context of the caller and the database; the secrets, the encryption and the digests come
  from the record \<open>key_env\<close>.
\<close>

section \<open>The environment\<close>

record key_env =
  ke_admin :: admin_env
  ke_aead :: aead
  ke_nonces :: nonces
  ke_kdf :: pbkdf2
  ke_salt :: bytes
  ke_hexdigest :: "bytes \<Rightarrow> str"
  ke_py_str :: "json \<Rightarrow> str"

text \<open>No handler catches the errors of the cryptographic functions.\<close>

fun crypto_unhandled :: "crypto_error \<Rightarrow> http_error" where
  "crypto_unhandled (Crypto_Value_Error s) = Unhandled_Value_Error s"
| "crypto_unhandled Unicode_Error = Unhandled_Value_Error (lit ''codec error'')"
| "crypto_unhandled Invalid_Tag = Unhandled_Value_Error (lit ''InvalidTag'')"
| "crypto_unhandled (Missing_Kek v) = Unhandled_Value_Error (v @ lit '' is required'')"

definition with_crypto :: "(crypto_error, 'a) outcome \<Rightarrow> (http_error, 'a) outcome" where
  "with_crypto m = lift_error crypto_unhandled m"

text \<open>One audit log, with all of its columns.\<close>

definition audit_entry ::
  "admin_env \<Rightarrow> nat \<Rightarrow> string \<Rightarrow> str \<Rightarrow> str option \<Rightarrow> str option \<Rightarrow> string \<Rightarrow> str \<Rightarrow> str option \<Rightarrow> str option
    \<Rightarrow> (str \<times> json) list option \<Rightarrow> (str \<times> json) list option \<Rightarrow> timestamp \<Rightarrow> db \<Rightarrow> (http_error, db) outcome" where
  "audit_entry en k event_type actor_id service_id trace_id target_type target_id view_reason source_ip
     before_state after_state now d =
     bindE (unhandled (insert_audit_log d \<lparr>al_audit_id = en_uuid en k, al_event_type = lit event_type,
       al_actor_id = actor_id, al_service_id = service_id, al_trace_id = trace_id, al_target_type = lit target_type,
       al_target_id = target_id, al_view_reason = view_reason, al_source_ip = source_ip,
       al_before_state = before_state, al_after_state = after_state, al_created_at = now\<rparr>)) (\<lambda>(d', _). Inr d')"

section \<open>Services\<close>

record service_create_request =
  sq_service_id :: str
  sq_display_name :: str
  sq_max_input_tokens :: nat

definition service_response_state :: "admin_env \<Rightarrow> service \<Rightarrow> (str \<times> json) list" where
  "service_response_state en s =
     [(lit ''service_id'', JStr (sv_service_id s)), (lit ''display_name'', JStr (sv_display_name s)),
      (lit ''max_input_tokens'', JInt (int (sv_max_input_tokens s))), (lit ''status'', JStr (sv_status s)),
      (lit ''created_by'', JStr (sv_created_by s)), (lit ''created_at'', JStr (en_dump_time en (sv_created_at s))),
      (lit ''updated_at'', JStr (en_dump_time en (sv_updated_at s)))]"

definition create_service_handler ::
  "admin_env \<Rightarrow> service_create_request \<Rightarrow> admin_context \<Rightarrow> db \<Rightarrow> (http_error, db \<times> service) outcome" where
  "create_service_handler en request cx d =
     bindE (require_system_admin cx) (\<lambda>_.
     let now = en_clock en 1 in
     bindE (except_integrity (raise_conflict ''Service already exists.'')
       (create_service d \<lparr>sv_service_id = sq_service_id request, sv_display_name = sq_display_name request,
          sv_max_input_tokens = sq_max_input_tokens request, sv_status = lit ''active'',
          sv_created_by = cx_actor_id cx, sv_created_at = now, sv_updated_at = now\<rparr>)) (\<lambda>(d1, s).
     bindE (audit_entry en 0 ''service.created'' (cx_actor_id cx) (Some (sv_service_id s)) None ''service''
       (sv_service_id s) None None None (Some (service_response_state en s)) now d1) (\<lambda>d2.
     Inr (d2, s))))"

definition accessible_services :: "admin_env \<Rightarrow> admin_session_context \<Rightarrow> db \<Rightarrow> (service \<times> str list) list" where
  "accessible_services en sc d =
     (let cx = admin_context_from_session_record sc in
      if has_role cx (lit ''system_admin'')
      then map (\<lambda>s. (s, [lit ''system_admin''])) (list_services (en_collate en) d)
      else map (\<lambda>s. (s, sorted_list_of_set (roles_for (cx_service_roles cx) (sv_service_id s))))
        (list_services_for_user (en_collate en) d (cx_actor_id cx)))"

section \<open>Route candidates of a release\<close>

record intent_route_candidate =
  rc_intent_id :: str
  rc_display_name :: str
  rc_route_key :: str
  rc_status :: str
  rc_source :: str

definition py_str_of :: "key_env \<Rightarrow> json \<Rightarrow> str" where
  "py_str_of ke j = (case j of JStr s \<Rightarrow> s | _ \<Rightarrow> ke_py_str ke j)"

definition route_candidate_of :: "key_env \<Rightarrow> str \<Rightarrow> json \<Rightarrow> intent_route_candidate option" where
  "route_candidate_of ke source item =
     (case item of
        JObj m \<Rightarrow>
          if get m (lit ''status'') \<noteq> JStr (lit ''active'') then None
          else Some \<lparr>rc_intent_id = py_str_of ke (get_default m (lit ''intent_id'') (JStr [])),
            rc_display_name = py_str_of ke (get_default m (lit ''display_name'') (JStr [])),
            rc_route_key = py_str_of ke (get_default m (lit ''route_key'') (JStr [])),
            rc_status = py_str_of ke (get_default m (lit ''status'') (JStr [])), rc_source = source\<rparr>
      | _ \<Rightarrow> None)"

definition intent_route_candidates_for_release ::
  "key_env \<Rightarrow> db \<Rightarrow> service \<Rightarrow> release \<Rightarrow> str \<Rightarrow> intent_route_candidate list" where
  "intent_route_candidates_for_release ke d s r source =
     (case get_catalog_version d (sv_service_id s) (rel_intent_catalog_version r) of
        None \<Rightarrow> []
      | Some c \<Rightarrow>
          (case get_default (json_dict (cv_snapshot c)) (lit ''intents'') (JArr []) of
             JArr items \<Rightarrow> List.map_filter (route_candidate_of ke source) items
           | _ \<Rightarrow> []))"

definition active_release_intent_route_candidates ::
  "key_env \<Rightarrow> db \<Rightarrow> service \<Rightarrow> str \<Rightarrow> release option \<times> intent_route_candidate list" where
  "active_release_intent_route_candidates ke d s environment =
     (case get_active_release d (sv_service_id s) environment of
        None \<Rightarrow> (None, [])
      | Some r \<Rightarrow> (Some r, intent_route_candidates_for_release ke d s r (lit ''active_release'')))"

definition released_catalog_intent_route_candidates ::
  "key_env \<Rightarrow> db \<Rightarrow> service \<Rightarrow> str \<Rightarrow> release option \<times> intent_route_candidate list" where
  "released_catalog_intent_route_candidates ke d s environment =
     (case list_releases (en_collate (ke_admin ke)) d (sv_service_id s) (Some environment) of
        [] \<Rightarrow> (None, [])
      | r # _ \<Rightarrow> (Some r, intent_route_candidates_for_release ke d s r (lit ''released_catalog'')))"

section \<open>Creating keys\<close>

definition runtime_setup_environment :: "str option \<Rightarrow> (http_error, str) outcome" where
  "runtime_setup_environment environment =
     (let target = or_default environment (lit ''dev'') in
      bindE (require (target \<in> set supported_runtime_environments)
        (raise_validation_failed ''environment must be one of dev, qa, prod.'')) (\<lambda>_. Inr target))"

record key_create_request =
  kq_environment :: str
  kq_app_id :: str
  kq_allowed_intents :: "str list"
  kq_allowed_route_keys :: "str list"
  kq_expires_in_days :: "nat option"

text \<open>\<open>sorted(set(requested) - candidates)\<close>\<close>

definition unknown_values :: "str list \<Rightarrow> str set \<Rightarrow> str list" where
  "unknown_values requested known = sorted_list_of_set (set requested - known)"

definition validate_runtime_api_key_scope ::
  "key_env \<Rightarrow> db \<Rightarrow> service \<Rightarrow> key_create_request \<Rightarrow> (http_error, release) outcome" where
  "validate_runtime_api_key_scope ke d s request =
     bindE (runtime_setup_environment (Some (kq_environment request))) (\<lambda>environment.
     case released_catalog_intent_route_candidates ke d s environment of
       (None, _) \<Rightarrow> Inl (raise_validation_failed ''released catalog is required for scoped API key creation.'')
     | (Some r, candidates) \<Rightarrow>
         let unknown_intents = unknown_values (kq_allowed_intents request) (set (map rc_intent_id candidates));
             unknown_route_keys = unknown_values (kq_allowed_route_keys request) (set (map rc_route_key candidates))
         in if unknown_intents \<noteq> [] then Inl (Http_Error 422 INVALID_REQUEST
                (lit ''allowed_intents must come from released catalog candidates: '' @ join_with (lit '', '') unknown_intents))
            else if unknown_route_keys \<noteq> [] then Inl (Http_Error 422 INVALID_REQUEST
                (lit ''allowed_route_keys must come from released catalog candidates: '' @ join_with (lit '', '') unknown_route_keys))
            else Inr r)"

text \<open>A date from the year 10000 on raises \<open>OverflowError\<close>, which nothing catches.\<close>

definition key_expires_at :: "timestamp \<Rightarrow> nat option \<Rightarrow> (http_error, timestamp option) outcome" where
  "key_expires_at now expires_in_days =
     (case expires_in_days of None \<Rightarrow> Inr None
      | Some n \<Rightarrow> if now + days (int n) < 253402300800 * microseconds_per_second
          then Inr (Some (now + days (int n)))
          else Inl (Unhandled_Value_Error (lit ''date value out of range'')))"

definition api_key_response :: "admin_env \<Rightarrow> api_key \<Rightarrow> (str \<times> json) list" where
  "api_key_response en r =
     [(lit ''key_id'', JStr (ak_key_id r)), (lit ''key_fingerprint'', JStr (ak_key_fingerprint r)),
      (lit ''environment'', JStr (ak_environment r)), (lit ''app_id'', JStr (ak_app_id r)),
      (lit ''service_id'', JStr (ak_service_id r)), (lit ''allowed_intents'', JArr (map JStr (ak_allowed_intents r))),
      (lit ''allowed_route_keys'', JArr (map JStr (ak_allowed_route_keys r))), (lit ''status'', JStr (ak_status r))]
     @ (case ak_expires_at r of None \<Rightarrow> [] | Some t \<Rightarrow> [(lit ''expires_at'', JStr (en_dump_time en t))])
     @ (case ak_revoked_at r of None \<Rightarrow> [] | Some t \<Rightarrow> [(lit ''revoked_at'', JStr (en_dump_time en t))])
     @ [(lit ''created_by'', JStr (ak_created_by r)), (lit ''created_at'', JStr (en_dump_time en (ak_created_at r)))]"

definition api_key_after_state :: "admin_env \<Rightarrow> api_key \<Rightarrow> (str \<times> json) list" where
  "api_key_after_state en r = api_key_response en r @ [(lit ''api_key'', JStr (lit ''REDACTED''))]"

text \<open>The new key and its secret, which leaves the server only in the response.\<close>

definition create_api_key_for_service ::
  "key_env \<Rightarrow> str \<Rightarrow> key_create_request \<Rightarrow> str \<Rightarrow> timestamp \<Rightarrow> db \<Rightarrow> (http_error, db \<times> api_key \<times> str) outcome" where
  "create_api_key_for_service ke service_id request actor_id now d =
     (let en = ke_admin ke; secret = lit ''irt_'' @ en_token en; key_id = lit ''key_live_'' @ en_uuid_hex en 0 in
      bindE (with_crypto (load_api_key_secret_keyring (en_variable en))) (\<lambda>keyring.
      bindE (with_crypto (keyring_encrypt (ke_aead ke) keyring (ke_nonces ke) secret
        (Some (api_key_secret_context service_id key_id)))) (\<lambda>encrypted.
      bindE (with_crypto (hash_secret (ke_kdf ke) (ke_salt ke) secret)) (\<lambda>key_hash.
      bindE (with_crypto (fingerprint_secret (ke_hexdigest ke) secret)) (\<lambda>fingerprint.
      bindE (key_expires_at now (kq_expires_in_days request)) (\<lambda>expires_at.
      bindE (unhandled (create_api_key_row d \<lparr>ak_key_id = key_id, ak_key_hash = key_hash, ak_key_fingerprint = fingerprint,
         ak_environment = kq_environment request, ak_app_id = kq_app_id request, ak_service_id = service_id,
         ak_allowed_intents = kq_allowed_intents request, ak_allowed_route_keys = kq_allowed_route_keys request,
         ak_status = lit ''active'', ak_expires_at = expires_at, ak_revoked_at = None, ak_created_by = actor_id,
         ak_created_at = now, ak_secret = null_text\<rparr>)) (\<lambda>(d1, row).
      let r = apply_encrypted_api_key_secret row encrypted;
          d2 = d1\<lparr>db_api_keys := put_row ak_key_id r (db_api_keys d1)\<rparr>
      in bindE (audit_entry en 0 ''api_key.created'' actor_id (Some service_id) None ''api_key'' key_id None None None
           (Some (api_key_after_state en r)) now d2) (\<lambda>d3.
      Inr (d3, r, secret)))))))))"

text \<open>The two endpoints check the access and the service in different orders.\<close>

definition create_api_key ::
  "key_env \<Rightarrow> str \<Rightarrow> key_create_request \<Rightarrow> admin_context \<Rightarrow> db \<Rightarrow> (http_error, db \<times> api_key \<times> str) outcome" where
  "create_api_key ke service_id request cx d =
     bindE (require_api_key_management_access cx service_id) (\<lambda>_.
     bindE (some_or (get_service d service_id) (raise_not_found ''Service does not exist.'')) (\<lambda>s.
     bindE (validate_runtime_api_key_scope ke d s request) (\<lambda>_.
     create_api_key_for_service ke service_id request (cx_actor_id cx) (en_clock (ke_admin ke) 1) d)))"

definition create_service_api_key ::
  "key_env \<Rightarrow> str \<Rightarrow> key_create_request \<Rightarrow> admin_context \<Rightarrow> db \<Rightarrow> (http_error, db \<times> api_key \<times> str) outcome" where
  "create_service_api_key ke service_id request cx d =
     bindE (some_or (get_service d service_id) (raise_not_found ''Service does not exist.'')) (\<lambda>s.
     bindE (require_api_key_management_access cx service_id) (\<lambda>_.
     bindE (validate_runtime_api_key_scope ke d s request) (\<lambda>_.
     create_api_key_for_service ke service_id request (cx_actor_id cx) (en_clock (ke_admin ke) 1) d)))"

section \<open>Revoking and revealing\<close>

definition revoke_api_key_record ::
  "key_env \<Rightarrow> api_key \<Rightarrow> str \<Rightarrow> timestamp \<Rightarrow> db \<Rightarrow> (http_error, db \<times> api_key) outcome" where
  "revoke_api_key_record ke r actor_id now d =
     (if ak_status r = lit ''revoked'' then Inr (d, r)
      else
        let en = ke_admin ke; (d1, r') = Store.revoke_api_key d r now in
        bindE (audit_entry en 0 ''api_key.revoked'' actor_id (Some (ak_service_id r)) None ''api_key'' (ak_key_id r)
          None None (Some (api_key_after_state en r)) (Some (api_key_after_state en r')) now d1) (\<lambda>d2.
        Inr (d2, r')))"

definition revoke_api_key_handler ::
  "key_env \<Rightarrow> str \<Rightarrow> admin_context \<Rightarrow> db \<Rightarrow> (http_error, db \<times> api_key) outcome" where
  "revoke_api_key_handler ke key_id cx d =
     bindE (some_or (get_api_key_by_id d key_id) (raise_not_found ''API key does not exist.'')) (\<lambda>r.
     bindE (require_api_key_management_access cx (ak_service_id r)) (\<lambda>_.
     revoke_api_key_record ke r (cx_actor_id cx) (en_clock (ke_admin ke) 1) d))"

definition service_api_key ::
  "str \<Rightarrow> str \<Rightarrow> admin_context \<Rightarrow> db \<Rightarrow> (http_error, api_key) outcome" where
  "service_api_key service_id key_id cx d =
     bindE (some_or (get_service d service_id) (raise_not_found ''Service does not exist.'')) (\<lambda>_.
     bindE (require_api_key_management_access cx service_id) (\<lambda>_.
     bindE (some_or (get_api_key_by_id d key_id) (raise_not_found ''API key does not exist.'')) (\<lambda>r.
     bindE (require (ak_service_id r = service_id)
       (raise_admin_forbidden ''API key does not belong to the selected Service.'')) (\<lambda>_. Inr r))))"

definition revoke_service_api_key ::
  "key_env \<Rightarrow> str \<Rightarrow> str \<Rightarrow> admin_context \<Rightarrow> db \<Rightarrow> (http_error, db \<times> api_key) outcome" where
  "revoke_service_api_key ke service_id key_id cx d =
     bindE (service_api_key service_id key_id cx d) (\<lambda>r.
     revoke_api_key_record ke r (cx_actor_id cx) (en_clock (ke_admin ke) 1) d)"

definition raise_if_api_key_not_revealable :: "api_key \<Rightarrow> timestamp \<Rightarrow> (http_error, unit) outcome" where
  "raise_if_api_key_not_revealable r now =
     bindE (require (ak_status r \<noteq> lit ''revoked'' \<and> ak_revoked_at r = None)
       (raise_bad_request ''Revoked API key secrets cannot be revealed.'')) (\<lambda>_.
     bindE (require (ak_status r \<noteq> lit ''expired'')
       (raise_bad_request ''Expired API key secrets cannot be revealed.'')) (\<lambda>_.
     bindE (require (\<not> is_expired r now)
       (raise_bad_request ''Expired API key secrets cannot be revealed.'')) (\<lambda>_.
     require (encrypted_api_key_secret r \<noteq> None)
       (raise_conflict ''API key secret is unavailable; rotate or reissue this legacy key.''))))"

definition api_key_reveal_audit_state :: "api_key \<Rightarrow> (str \<times> json) list" where
  "api_key_reveal_audit_state r =
     [(lit ''key_id'', JStr (ak_key_id r)), (lit ''service_id'', JStr (ak_service_id r)),
      (lit ''environment'', JStr (ak_environment r)), (lit ''app_id'', JStr (ak_app_id r)),
      (lit ''status'', JStr (ak_status r))]"

definition reveal_service_api_key ::
  "key_env \<Rightarrow> str \<Rightarrow> str \<Rightarrow> admin_context \<Rightarrow> db \<Rightarrow> (http_error, db \<times> api_key \<times> str) outcome" where
  "reveal_service_api_key ke service_id key_id cx d =
     (let en = ke_admin ke; now = en_clock en 1 in
      bindE (service_api_key service_id key_id cx d) (\<lambda>r.
      bindE (raise_if_api_key_not_revealable r now) (\<lambda>_.
      bindE (some_or (encrypted_api_key_secret r)
        (raise_conflict ''API key secret is unavailable; rotate or reissue this legacy key.'')) (\<lambda>encrypted.
      bindE (with_crypto (load_api_key_secret_keyring (en_variable en))) (\<lambda>keyring.
      bindE (with_crypto (keyring_decrypt (ke_aead ke) keyring encrypted
        (Some (api_key_secret_context (ak_service_id r) (ak_key_id r))))) (\<lambda>secret.
      bindE (audit_entry en 0 ''api_key.secret_revealed'' (cx_actor_id cx) (Some service_id) None ''api_key'' (ak_key_id r)
        (Some (lit ''runtime_setup_authorization_copy'')) None None (Some (api_key_reveal_audit_state r)) now d) (\<lambda>d1.
      Inr (d1, r, secret))))))))"

section \<open>Listings and the setup guide\<close>

definition list_api_keys_handler ::
  "key_env \<Rightarrow> str option \<Rightarrow> str option \<Rightarrow> str option \<Rightarrow> nat \<Rightarrow> admin_context \<Rightarrow> db \<Rightarrow> (http_error, api_key list) outcome" where
  "list_api_keys_handler ke service_id environment status limit cx d =
     bindE (case service_id of
         None \<Rightarrow> require_system_admin cx
       | Some s \<Rightarrow> bindE (require_api_key_management_access cx s) (\<lambda>_.
           require (get_service d s \<noteq> None) (raise_not_found ''Service does not exist.''))) (\<lambda>_.
     bindE (case environment of None \<Rightarrow> Inr None
       | Some e \<Rightarrow> bindE (runtime_setup_environment (Some e)) (\<lambda>e. Inr (Some e))) (\<lambda>environment.
     Inr (list_api_keys (en_collate (ke_admin ke)) d service_id environment status limit)))"

definition list_service_api_keys ::
  "key_env \<Rightarrow> str \<Rightarrow> str option \<Rightarrow> str option \<Rightarrow> nat \<Rightarrow> admin_context \<Rightarrow> db \<Rightarrow> (http_error, api_key list) outcome" where
  "list_service_api_keys ke service_id environment status limit cx d =
     bindE (require (get_service d service_id \<noteq> None) (raise_not_found ''Service does not exist.'')) (\<lambda>_.
     bindE (require_api_key_management_access cx service_id) (\<lambda>_.
     bindE (case environment of None \<Rightarrow> Inr [] | Some e \<Rightarrow> runtime_setup_environment (Some e)) (\<lambda>_.
     Inr (list_api_keys (en_collate (ke_admin ke)) d (Some service_id) environment status limit))))"

text \<open>The parts of the guide that depend on the state; its fixed texts are left out.\<close>

record runtime_setup =
  rs_service_id :: str
  rs_environment :: str
  rs_active_release :: "release option"
  rs_selected_key :: "api_key option"
  rs_key_id_header :: str
  rs_app_id_header :: str
  rs_warnings :: "str list"

definition get_runtime_setup ::
  "key_env \<Rightarrow> str \<Rightarrow> str option \<Rightarrow> str option \<Rightarrow> str option \<Rightarrow> admin_context \<Rightarrow> db \<Rightarrow> (http_error, runtime_setup) outcome" where
  "get_runtime_setup ke service_id environment app_id key_id cx d =
     bindE (require_api_key_management_access cx service_id) (\<lambda>_.
     bindE (some_or (get_service d service_id) (raise_not_found ''Service does not exist.'')) (\<lambda>s.
     bindE (runtime_setup_environment environment) (\<lambda>target.
     let r = fst (active_release_intent_route_candidates ke d s target) in
     bindE (case key_id of None \<Rightarrow> Inr None
       | Some i \<Rightarrow>
           bindE (some_or (get_api_key_by_id d i) (raise_not_found ''API key does not exist.'')) (\<lambda>k.
           bindE (require (ak_service_id k = service_id)
             (raise_admin_forbidden ''API key does not belong to the selected Service.'')) (\<lambda>_.
           bindE (require (ak_environment k = target)
             (raise_validation_failed ''API key environment must match the selected environment.'')) (\<lambda>_.
           bindE (require (app_id = None \<or> app_id = Some (ak_app_id k))
             (raise_validation_failed ''app_id must match the selected API key.'')) (\<lambda>_. Inr (Some k)))))) (\<lambda>selected.
     Inr \<lparr>rs_service_id = service_id, rs_environment = target, rs_active_release = r, rs_selected_key = selected,
       rs_key_id_header = (case selected of Some k \<Rightarrow> ak_key_id k | None \<Rightarrow> lit ''{{intent_routing_key_id}}''),
       rs_app_id_header = (case selected of Some k \<Rightarrow> ak_app_id k
         | None \<Rightarrow> or_default app_id (lit ''{{intent_routing_app_id}}'')),
       rs_warnings = (if r = None then [lit ''No active release exists for the selected Service environment.''] else [])\<rparr>))))"

end
