(* ===== verification/Catalog_Handlers.thy ===== *)
theory Catalog_Handlers
  imports Catalogs Key_Handlers
begin

text \<open>
  The handlers of \<open>api/admin.py\<close> for catalog versions: creation, the lists and the difference, deactivation, and loading
  a version back into the editable catalog of the service. The operations on one service's catalog are serialised by an
  advisory lock, so that each runs alone.
\<close>

section \<open>Responses\<close>

record catalog_version_response =
  cr_intent_catalog_version :: str
  cr_display_version :: str
  cr_service_id :: str
  cr_model_version :: str
  cr_vector_index_version :: str
  cr_description :: str
  cr_status :: str
  cr_reproducibility_status :: str
  cr_released :: bool
  cr_release_count :: nat
  cr_source_catalog_version :: "str option"
  cr_intent_count :: nat
  cr_example_count :: nat
  cr_embedding_count :: nat
  cr_created_by :: str
  cr_created_at :: timestamp
  cr_activated_at :: "timestamp option"
  cr_deactivated_at :: "timestamp option"
  cr_snapshot :: json

definition catalog_version_response_of :: "(str \<Rightarrow> nat) \<Rightarrow> db \<Rightarrow> intent_catalog_version \<Rightarrow> catalog_version_response" where
  "catalog_version_response_of collate d r =
     (let intents = json_list (get (json_dict (cv_snapshot r)) (lit ''intents''));
          vector = get_ready_vector_index_version collate d (cv_service_id r) (cv_intent_catalog_version r) None;
          release_count = catalog_version_release_count d (cv_service_id r) (cv_intent_catalog_version r)
      in \<lparr>cr_intent_catalog_version = cv_intent_catalog_version r, cr_display_version = or_default (cv_display_version r) [],
          cr_service_id = cv_service_id r,
          cr_model_version = (case vector of Some v \<Rightarrow> vi_model_version v | None \<Rightarrow> []),
          cr_vector_index_version = (case vector of Some v \<Rightarrow> vi_vector_index_version v | None \<Rightarrow> []),
          cr_description = or_default (cv_description r) [], cr_status = cv_status r,
          cr_reproducibility_status = cv_reproducibility_status r, cr_released = (0 < release_count),
          cr_release_count = release_count, cr_source_catalog_version = cv_source_catalog_version r,
          cr_intent_count = length intents,
          cr_example_count = sum_list (map (\<lambda>i. length (json_list (get (json_dict i) (lit ''examples'')))) intents),
          cr_embedding_count = count_active_catalog_version_embeddings d (cv_intent_catalog_version r),
          cr_created_by = cv_created_by r, cr_created_at = cv_created_at r, cr_activated_at = cv_activated_at r,
          cr_deactivated_at = cv_deactivated_at r, cr_snapshot = cv_snapshot r\<rparr>)"

definition catalog_version_state :: "admin_env \<Rightarrow> catalog_version_response \<Rightarrow> (str \<times> json) list" where
  "catalog_version_state en c =
     [(lit ''intent_catalog_version'', JStr (cr_intent_catalog_version c)),
      (lit ''display_version'', JStr (cr_display_version c)), (lit ''service_id'', JStr (cr_service_id c)),
      (lit ''model_version'', JStr (cr_model_version c)), (lit ''vector_index_version'', JStr (cr_vector_index_version c)),
      (lit ''description'', JStr (cr_description c)), (lit ''status'', JStr (cr_status c)),
      (lit ''reproducibility_status'', JStr (cr_reproducibility_status c)), (lit ''released'', JBool (cr_released c)),
      (lit ''release_count'', JInt (int (cr_release_count c))),
      (lit ''source_catalog_version'', json_str_option (cr_source_catalog_version c)),
      (lit ''intent_count'', JInt (int (cr_intent_count c))), (lit ''example_count'', JInt (int (cr_example_count c))),
      (lit ''embedding_count'', JInt (int (cr_embedding_count c))), (lit ''created_by'', JStr (cr_created_by c)),
      (lit ''created_at'', JStr (en_dump_time en (cr_created_at c))),
      (lit ''activated_at'', json_time_option en (cr_activated_at c)),
      (lit ''deactivated_at'', json_time_option en (cr_deactivated_at c)), (lit ''snapshot'', cr_snapshot c)]"

section \<open>Creation, lists and deactivation\<close>

definition ensure_service_exists :: "db \<Rightarrow> str \<Rightarrow> (http_error, service) outcome" where
  "ensure_service_exists d service_id = some_or (get_service d service_id) (raise_not_found ''Service does not exist.'')"

text \<open>The errors of the domain function that the handler answers; the others are not caught.\<close>

fun catalog_http_error :: "'x catalog_error \<Rightarrow> http_error" where
  "catalog_http_error (Catalog_Invalid m) = Http_Error 422 INVALID_REQUEST m"
| "catalog_http_error (Catalog_Dependency m) = Http_Error 422 INVALID_REQUEST m"
| "catalog_http_error (Catalog_Store e) =
     (if e = Integrity_Error then raise_conflict ''Catalog version already exists.'' else Unhandled e)"
| "catalog_http_error (Bad_Number s) = Unhandled_Value_Error (lit ''invalid literal for int() with base 10: '' @ s)"
| "catalog_http_error (Provider_Failed _) = Unhandled_Value_Error (lit ''embedding provider'')"

definition create_catalog_version_handler ::
  "admin_env \<Rightarrow> 'x catalog_env \<Rightarrow> str \<Rightarrow> str \<Rightarrow> str option \<Rightarrow> admin_context \<Rightarrow> db
    \<Rightarrow> (http_error, db \<times> catalog_version_response) outcome" where
  "create_catalog_version_handler en cn service_id description source cx d =
     bindE (require_service_catalog_access cx service_id) (\<lambda>_.
     let now = en_clock en 0 in
     bindE (ensure_service_exists d service_id) (\<lambda>service.
     bindE (lift_error (\<lambda>e. catalog_http_error (Provider_Failed e)) (cn_provider cn)) (\<lambda>provider.
     bindE (lift_error catalog_http_error (create_catalog_version cn d service description (cx_actor_id cx) now
       (pr_model_version provider) source)) (\<lambda>(d1, r).
     let response = catalog_version_response_of (en_collate en) d1 r in
     bindE (audit_entry en 0 ''catalog_version.created'' (cx_actor_id cx) (Some service_id) None ''intent_catalog_version''
       (cv_intent_catalog_version r) None None None (Some (catalog_version_state en response)) now d1) (\<lambda>d2.
     Inr (d2, response))))))"

definition list_catalog_versions_handler ::
  "admin_env \<Rightarrow> str \<Rightarrow> str option \<Rightarrow> nat \<Rightarrow> admin_context \<Rightarrow> db \<Rightarrow> (http_error, catalog_version_response list) outcome" where
  "list_catalog_versions_handler en service_id status_filter limit cx d =
     bindE (require_service_catalog_access cx service_id) (\<lambda>_.
     bindE (ensure_service_exists d service_id) (\<lambda>_.
     Inr (map (catalog_version_response_of (en_collate en) d)
       (list_catalog_versions (en_collate en) d service_id status_filter limit))))"

definition get_catalog_version_handler ::
  "admin_env \<Rightarrow> str \<Rightarrow> str \<Rightarrow> admin_context \<Rightarrow> db \<Rightarrow> (http_error, catalog_version_response) outcome" where
  "get_catalog_version_handler en service_id version cx d =
     bindE (require_service_catalog_access cx service_id) (\<lambda>_.
     bindE (some_or (get_catalog_version d service_id version) (raise_not_found ''Catalog version does not exist.'')) (\<lambda>r.
     Inr (catalog_version_response_of (en_collate en) d r)))"

fun diff_http_error :: "unit catalog_error \<Rightarrow> http_error" where
  "diff_http_error (Catalog_Dependency m) = Http_Error 404 INVALID_REQUEST m"
| "diff_http_error e = catalog_http_error e"

definition get_catalog_version_diff_handler ::
  "(json \<Rightarrow> str) \<Rightarrow> str \<Rightarrow> str \<Rightarrow> str option \<Rightarrow> admin_context \<Rightarrow> db \<Rightarrow> (http_error, catalog_version_diff) outcome" where
  "get_catalog_version_diff_handler py_str service_id version compare_to cx d =
     bindE (require_service_catalog_access cx service_id) (\<lambda>_.
     lift_error diff_http_error (build_catalog_version_diff py_str d service_id version compare_to))"

definition deactivate_catalog_version_handler ::
  "admin_env \<Rightarrow> str \<Rightarrow> str \<Rightarrow> admin_context \<Rightarrow> db \<Rightarrow> (http_error, db \<times> catalog_version_response) outcome" where
  "deactivate_catalog_version_handler en service_id version cx d =
     bindE (require_service_catalog_access cx service_id) (\<lambda>_.
     bindE (require (\<not> catalog_version_has_release_reference d service_id version)
       (raise_conflict ''Catalog version is referenced by a Release.'')) (\<lambda>_.
     let now = en_clock en 0; (d1, deactivated) = deactivate_catalog_version d service_id version now in
     bindE (some_or deactivated (raise_not_found ''Catalog version does not exist.'')) (\<lambda>r.
     let d2 = deactivate_catalog_version_embeddings d1 version now in
     Inr (d2, catalog_version_response_of (en_collate en) d2 r))))"

section \<open>Loading a version into the editable catalog\<close>

text \<open>
  The columns of an intent are texts and lists of texts: the database driver refuses anything else. A missing field of
  the snapshot is an empty text or list.
\<close>

definition refused :: http_error where
  "refused = Unhandled_Value_Error (lit ''column type'')"

definition draft_text :: "(str \<times> json) list \<Rightarrow> string \<Rightarrow> (http_error, str) outcome" where
  "draft_text item k = some_or (as_str (get_default item (lit k) (JStr []))) refused"

definition draft_keywords :: "(str \<times> json) list \<Rightarrow> string \<Rightarrow> (http_error, str list) outcome" where
  "draft_keywords item k =
     (case get_default item (lit k) (JArr []) of
        JArr xs \<Rightarrow> mapE (\<lambda>x. some_or (as_str x) refused) xs
      | _ \<Rightarrow> Inl refused)"

definition draft_values :: "(str \<times> json) list \<Rightarrow> str \<Rightarrow> timestamp \<Rightarrow> (http_error, intent \<Rightarrow> intent) outcome" where
  "draft_values item actor_id now =
     bindE (draft_text item ''domain'') (\<lambda>domain.
     bindE (draft_text item ''display_name'') (\<lambda>display_name.
     bindE (draft_text item ''description'') (\<lambda>description.
     bindE (draft_text item ''route_key'') (\<lambda>route_key.
     bindE (draft_keywords item ''include_keywords'') (\<lambda>include_keywords.
     bindE (draft_keywords item ''exclude_keywords'') (\<lambda>exclude_keywords.
     Inr (\<lambda>r. r\<lparr>in_domain := domain, in_display_name := display_name, in_description := description,
       in_route_key := route_key, in_status := lit ''draft'', in_include_keywords := include_keywords,
       in_exclude_keywords := exclude_keywords, in_updated_by := actor_id, in_updated_at := now\<rparr>)))))))"

definition new_intent :: "str \<Rightarrow> str \<Rightarrow> str \<Rightarrow> str \<Rightarrow> timestamp \<Rightarrow> intent" where
  "new_intent i service_id intent_id actor_id now =
     \<lparr>in_id = i, in_service_id = service_id, in_intent_id = intent_id, in_domain = [], in_display_name = [],
      in_description = [], in_route_key = [], in_status = [], in_include_keywords = [], in_exclude_keywords = [],
      in_created_by = actor_id, in_updated_by = actor_id, in_created_at = now, in_updated_at = now\<rparr>"

definition load_intent ::
  "(nat \<Rightarrow> str) \<Rightarrow> str \<Rightarrow> str \<Rightarrow> timestamp \<Rightarrow> nat \<times> json \<Rightarrow> db \<Rightarrow> (http_error, db) outcome" where
  "load_intent uuid service_id actor_id now = (\<lambda>(k, item) d.
     case get (json_dict item) (lit ''intent_id'') of
       JStr intent_id \<Rightarrow>
         bindE (draft_values (json_dict item) actor_id now) (\<lambda>set_values.
         bindE (unhandled (case get_intent d service_id intent_id of
             None \<Rightarrow> create_intent d (set_values (new_intent (uuid k) service_id intent_id actor_id now))
           | Some existing \<Rightarrow> update_intent d existing set_values)) (\<lambda>(d', _). Inr d'))
     | _ \<Rightarrow> Inr d)"

definition loaded_example :: "str \<Rightarrow> str \<Rightarrow> str \<Rightarrow> timestamp \<Rightarrow> catalog_example_embedding \<Rightarrow> intent_example" where
  "loaded_example example_id service_id actor_id now q =
     \<lparr>ie_example_id = example_id, ie_service_id = service_id, ie_intent_id = ce_intent_id q,
      ie_example_type = ce_example_type q, ie_text_raw = ce_text_raw q, ie_text_masked = ce_text_masked q,
      ie_embedding = None, ie_source = lit ''catalog_version_load'', ie_test_case_id = None, ie_approved = False,
      ie_created_by = actor_id, ie_created_at = now\<rparr>"

definition load_example :: "str \<Rightarrow> str \<Rightarrow> timestamp \<Rightarrow> catalog_example_embedding \<Rightarrow> db \<Rightarrow> (http_error, db) outcome" where
  "load_example service_id actor_id now q d =
     (case ce_example_id q of
        None \<Rightarrow> Inr d
      | Some example_id \<Rightarrow>
          let r = loaded_example example_id service_id actor_id now q in
          (case get_example d service_id example_id of
             None \<Rightarrow> bindE (unhandled (create_example d r)) (\<lambda>(d', _). Inr d')
           | Some existing \<Rightarrow> Inr (fst (update_example d existing (\<lambda>_. r)))))"

definition load_catalog_version_to_draft ::
  "admin_env \<Rightarrow> str \<Rightarrow> str \<Rightarrow> admin_context \<Rightarrow> db \<Rightarrow> (http_error, db \<times> catalog_version_response) outcome" where
  "load_catalog_version_to_draft en service_id version cx d =
     bindE (require_service_catalog_access cx service_id) (\<lambda>_.
     bindE (some_or (get_catalog_version d service_id version) (raise_not_found ''Catalog version does not exist.'')) (\<lambda>r.
     let intents = json_list (get (json_dict (cv_snapshot r)) (lit ''intents''));
         now = en_clock en 0;
         intent_ids = List.map_filter (\<lambda>i. as_str (get (json_dict i) (lit ''intent_id''))) intents;
         embeddings = list_catalog_version_example_embeddings d version;
         example_ids = List.map_filter ce_example_id embeddings;
         d1 = fold (\<lambda>e d. delete_example d e)
           (filter (\<lambda>e. ie_example_id e \<notin> set example_ids) (list_examples_for_service d service_id)) d;
         d2 = fold (\<lambda>i d. delete_intent d i)
           (filter (\<lambda>i. in_intent_id i \<notin> set intent_ids) (list_intents (en_collate en) d1 service_id)) d1 in
     bindE (foldE (load_intent (en_uuid en) service_id (cx_actor_id cx) now) (enumerate 1 intents) d2) (\<lambda>d3.
     bindE (foldE (load_example service_id (cx_actor_id cx) now) embeddings d3) (\<lambda>d4.
     let response = catalog_version_response_of (en_collate en) d4 r in
     bindE (audit_entry en 0 ''catalog_version.loaded_to_draft'' (cx_actor_id cx) (Some service_id) None
       ''intent_catalog_version'' version None None None (Some (catalog_version_state en response)) now d4) (\<lambda>d5.
     Inr (d5, response))))))"

end
