(* ===== verification/Example_Handlers.thy ===== *)
theory Example_Handlers
  imports Catalog_Handlers
begin

text \<open>
  The handlers of \<open>api/admin.py\<close> that edit the catalog of a service: intents, and examples with their encrypted raw
  text, their masked text and, once approved, their embedding. Request bodies are the validated ones; a patch sets the
  fields that were given.
\<close>

section \<open>Keys and embeddings\<close>

definition raw_text_keyring_or_500 :: "(str \<Rightarrow> str option) \<Rightarrow> (http_error, raw_text_keyring) outcome" where
  "raw_text_keyring_or_500 env = lift_error (\<lambda>e. case e of
       Missing_Kek _ \<Rightarrow> raise_internal_error ''Raw text encryption key is not configured.''
     | _ \<Rightarrow> raise_internal_error ''Raw text encryption key is invalid.'') (load_raw_text_keyring env)"

definition example_text_for_embedding :: "key_env \<Rightarrow> intent_example \<Rightarrow> (http_error, str) outcome" where
  "example_text_for_embedding ke e =
     (let embed_from = lower (strip (case en_variable (ke_admin ke) (lit ''EMBED_EXAMPLES_FROM'') of
            Some v \<Rightarrow> v | None \<Rightarrow> lit ''masked'')) in
      if embed_from = lit ''masked'' then Inr (ie_text_masked e)
      else if embed_from = lit ''raw''
      then bindE (raw_text_keyring_or_500 (en_variable (ke_admin ke))) (\<lambda>ring.
           with_crypto (keyring_decrypt (ke_aead ke) ring (ie_text_raw e) None))
      else Inl (Unhandled_Value_Error (lit ''EMBED_EXAMPLES_FROM must be one of: masked, raw.'')))"

text \<open>Every exception on the way to the embedding is answered in the same way.\<close>

definition embedding_failed :: http_error where
  "embedding_failed = raise_internal_error ''Embedding generation failed.''"

definition example_embedding :: "key_env \<Rightarrow> 'x catalog_env \<Rightarrow> service \<Rightarrow> intent_example \<Rightarrow> (http_error, float64 list) outcome" where
  "example_embedding ke cn service e =
     bindE (lift_error (\<lambda>_. embedding_failed) (cn_provider cn)) (\<lambda>provider.
     bindE (lift_error (\<lambda>_. embedding_failed) (example_text_for_embedding ke e)) (\<lambda>embedding_text.
     bindE (lift_error (\<lambda>_. embedding_failed) (pr_embed_texts provider [embedding_text] (sv_max_input_tokens service)))
       (\<lambda>embeddings.
     case embeddings of
       [v] \<Rightarrow> bindE (require (length v = 1024) embedding_failed) (\<lambda>_. Inr v)
     | _ \<Rightarrow> Inl embedding_failed)))"

section \<open>Audit states\<close>

text \<open>\<open>model_dump(exclude_none=True)\<close> leaves out the fields without a value.\<close>

definition some_field :: "string \<Rightarrow> json option \<Rightarrow> (str \<times> json) list" where
  "some_field k v = (case v of None \<Rightarrow> [] | Some x \<Rightarrow> [(lit k, x)])"

definition example_after_state :: "admin_env \<Rightarrow> intent_example \<Rightarrow> (str \<times> json) list" where
  "example_after_state en e =
     [(lit ''example_id'', JStr (ie_example_id e)), (lit ''service_id'', JStr (ie_service_id e)),
      (lit ''intent_id'', JStr (ie_intent_id e)), (lit ''example_type'', JStr (ie_example_type e)),
      (lit ''text_masked'', JStr (ie_text_masked e))]
     @ some_field ''embedding'' (map_option (\<lambda>v. JObj [(lit ''dimension'', JInt (int (length v))), (lit ''stored'', JBool True)])
         (ie_embedding e))
     @ [(lit ''source'', JStr (ie_source e))] @ some_field ''test_case_id'' (map_option JStr (ie_test_case_id e))
     @ [(lit ''approved'', JBool (ie_approved e)), (lit ''created_by'', JStr (ie_created_by e)),
        (lit ''created_at'', JStr (en_dump_time en (ie_created_at e)))]"

definition intent_delete_before_state :: "admin_env \<Rightarrow> intent \<Rightarrow> intent_example list \<Rightarrow> (str \<times> json) list" where
  "intent_delete_before_state en i examples =
     [(lit ''id'', JStr (in_id i)), (lit ''service_id'', JStr (in_service_id i)), (lit ''intent_id'', JStr (in_intent_id i)),
      (lit ''domain'', JStr (in_domain i)), (lit ''display_name'', JStr (in_display_name i)),
      (lit ''description'', JStr (in_description i)), (lit ''route_key'', JStr (in_route_key i)),
      (lit ''status'', JStr (in_status i)), (lit ''include_keywords'', JArr (map JStr (in_include_keywords i))),
      (lit ''exclude_keywords'', JArr (map JStr (in_exclude_keywords i))), (lit ''created_by'', JStr (in_created_by i)),
      (lit ''updated_by'', JStr (in_updated_by i)), (lit ''created_at'', JStr (en_dump_time en (in_created_at i))),
      (lit ''updated_at'', JStr (en_dump_time en (in_updated_at i))), (lit ''example_count'', JInt (int (length examples))),
      (lit ''embedded_example_count'', JInt (int (length (filter (\<lambda>e. ie_embedding e \<noteq> None) examples))))]"

section \<open>Intents\<close>

record intent_create_request =
  iq_intent_id :: str
  iq_domain :: str
  iq_display_name :: str
  iq_description :: str
  iq_route_key :: str
  iq_include_keywords :: "str list"
  iq_exclude_keywords :: "str list"

definition create_intent_handler ::
  "admin_env \<Rightarrow> str \<Rightarrow> intent_create_request \<Rightarrow> admin_context \<Rightarrow> db \<Rightarrow> (http_error, db \<times> intent) outcome" where
  "create_intent_handler en service_id q cx d =
     bindE (require_service_catalog_access cx service_id) (\<lambda>_.
     let now = en_clock en 0 in
     bindE (ensure_service_exists d service_id) (\<lambda>_.
     except_integrity (raise_conflict ''Intent id or route_key already exists for this service.'')
       (create_intent d \<lparr>in_id = en_uuid en 0, in_service_id = service_id, in_intent_id = iq_intent_id q,
          in_domain = iq_domain q, in_display_name = iq_display_name q, in_description = iq_description q,
          in_route_key = iq_route_key q, in_status = lit ''draft'', in_include_keywords = iq_include_keywords q,
          in_exclude_keywords = iq_exclude_keywords q, in_created_by = cx_actor_id cx, in_updated_by = cx_actor_id cx,
          in_created_at = now, in_updated_at = now\<rparr>)))"

definition list_intents_handler :: "admin_env \<Rightarrow> str \<Rightarrow> admin_context \<Rightarrow> db \<Rightarrow> (http_error, intent list) outcome" where
  "list_intents_handler en service_id cx d =
     bindE (require_service_catalog_access cx service_id) (\<lambda>_.
     bindE (ensure_service_exists d service_id) (\<lambda>_. Inr (list_intents (en_collate en) d service_id)))"

definition list_intent_route_candidates ::
  "key_env \<Rightarrow> str \<Rightarrow> str \<Rightarrow> str option \<Rightarrow> admin_context \<Rightarrow> db \<Rightarrow> (http_error, intent_route_candidate list) outcome" where
  "list_intent_route_candidates ke service_id source environment cx d =
     (let checked = \<lambda>f. (case environment of
            Some e \<Rightarrow> if e \<in> set supported_runtime_environments then Inr (snd (f e))
              else Inl (raise_validation_failed ''environment must be one of dev, qa, prod.'')
          | None \<Rightarrow> Inl (raise_validation_failed ''environment must be one of dev, qa, prod.'')) in
      bindE (require_service_catalog_access cx service_id) (\<lambda>_.
      bindE (ensure_service_exists d service_id) (\<lambda>service.
      if source = lit ''current_catalog''
      then Inr (map (\<lambda>i. \<lparr>rc_intent_id = in_intent_id i, rc_display_name = in_display_name i, rc_route_key = in_route_key i,
             rc_status = in_status i, rc_source = source\<rparr>) (list_active_intents (en_collate (ke_admin ke)) d service_id))
      else if source = lit ''active_release'' then checked (active_release_intent_route_candidates ke d service)
      else if source = lit ''released_catalog'' then checked (released_catalog_intent_route_candidates ke d service)
      else Inl (raise_bad_request ''source must be current_catalog, active_release, or released_catalog''))))"

record intent_patch_request =
  ip_domain :: "str option"
  ip_display_name :: "str option"
  ip_description :: "str option"
  ip_route_key :: "str option"
  ip_status :: "str option"
  ip_include_keywords :: "str list option"
  ip_exclude_keywords :: "str list option"

definition given_or :: "'a option \<Rightarrow> 'a \<Rightarrow> 'a" where
  "given_or v old = (case v of Some x \<Rightarrow> x | None \<Rightarrow> old)"

definition patch_intent ::
  "admin_env \<Rightarrow> str \<Rightarrow> str \<Rightarrow> intent_patch_request \<Rightarrow> admin_context \<Rightarrow> db \<Rightarrow> (http_error, db \<times> intent) outcome" where
  "patch_intent en service_id intent_id p cx d =
     bindE (require_service_catalog_access cx service_id) (\<lambda>_.
     bindE (some_or (get_intent d service_id intent_id) (raise_not_found ''Intent does not exist.'')) (\<lambda>i.
     except_integrity (raise_conflict ''Intent route_key already exists for this service.'')
       (update_intent d i (\<lambda>r. r\<lparr>in_domain := given_or (ip_domain p) (in_domain r),
          in_display_name := given_or (ip_display_name p) (in_display_name r),
          in_description := given_or (ip_description p) (in_description r),
          in_route_key := given_or (ip_route_key p) (in_route_key r), in_status := given_or (ip_status p) (in_status r),
          in_include_keywords := given_or (ip_include_keywords p) (in_include_keywords r),
          in_exclude_keywords := given_or (ip_exclude_keywords p) (in_exclude_keywords r),
          in_updated_by := cx_actor_id cx, in_updated_at := en_clock en 0\<rparr>))))"

definition delete_intent_handler ::
  "admin_env \<Rightarrow> str \<Rightarrow> str \<Rightarrow> admin_context \<Rightarrow> db \<Rightarrow> (http_error, db \<times> unit) outcome" where
  "delete_intent_handler en service_id intent_id cx d =
     bindE (require_service_catalog_access cx service_id) (\<lambda>_.
     bindE (some_or (get_intent d service_id intent_id) (raise_not_found ''Intent does not exist.'')) (\<lambda>i.
     let now = en_clock en 0; examples = list_examples d service_id intent_id;
         before_state = intent_delete_before_state en i examples;
         d1 = delete_intent (fold (\<lambda>e d. delete_example d e) examples d) i in
     bindE (audit_entry en 0 ''intent.deleted'' (cx_actor_id cx) (Some service_id) None ''intent'' intent_id None None
       (Some before_state) None now d1) (\<lambda>d2. Inr (d2, ()))))"

section \<open>Examples\<close>

record example_create_request =
  eq_example_type :: str
  eq_text_raw :: str
  eq_source :: str
  eq_test_case_id :: "str option"

definition example_audit ::
  "admin_env \<Rightarrow> string \<Rightarrow> admin_context \<Rightarrow> str \<Rightarrow> str \<Rightarrow> (str \<times> json) list option \<Rightarrow> (str \<times> json) list option \<Rightarrow> timestamp
    \<Rightarrow> db \<Rightarrow> (http_error, db) outcome" where
  "example_audit en event_type cx service_id example_id before_state after_state now d =
     audit_entry en 0 event_type (cx_actor_id cx) (Some service_id) None ''intent_example'' example_id None None
       before_state after_state now d"

definition create_example_handler ::
  "key_env \<Rightarrow> str \<Rightarrow> str \<Rightarrow> example_create_request \<Rightarrow> admin_context \<Rightarrow> db \<Rightarrow> (http_error, db \<times> intent_example) outcome" where
  "create_example_handler ke service_id intent_id q cx d =
     (let en = ke_admin ke in
      bindE (require_service_catalog_access cx service_id) (\<lambda>_.
      let now = en_clock en 0 in
      bindE (some_or (get_intent d service_id intent_id) (raise_not_found ''Intent does not exist.'')) (\<lambda>_.
      bindE (raw_text_keyring_or_500 (en_variable en)) (\<lambda>ring.
      bindE (with_crypto (keyring_encrypt (ke_aead ke) ring (ke_nonces ke) (eq_text_raw q) None)) (\<lambda>encrypted.
      bindE (unhandled (create_example d \<lparr>ie_example_id = en_uuid en 1, ie_service_id = service_id,
        ie_intent_id = intent_id, ie_example_type = eq_example_type q, ie_text_raw = encrypted,
        ie_text_masked = mask_pii (eq_text_raw q), ie_embedding = None, ie_source = eq_source q,
        ie_test_case_id = eq_test_case_id q, ie_approved = False, ie_created_by = cx_actor_id cx,
        ie_created_at = now\<rparr>)) (\<lambda>(d1, e).
      bindE (example_audit en ''example.created'' cx service_id (ie_example_id e) None (Some (example_after_state en e)) now d1)
        (\<lambda>d2. Inr (d2, e))))))))"

definition list_examples_handler ::
  "str \<Rightarrow> str \<Rightarrow> admin_context \<Rightarrow> db \<Rightarrow> (http_error, intent_example list) outcome" where
  "list_examples_handler service_id intent_id cx d =
     bindE (require_service_catalog_access cx service_id) (\<lambda>_.
     bindE (some_or (get_intent d service_id intent_id) (raise_not_found ''Intent does not exist.'')) (\<lambda>_.
     Inr (list_examples d service_id intent_id)))"

definition approve_example_handler ::
  "key_env \<Rightarrow> 'x catalog_env \<Rightarrow> str \<Rightarrow> str \<Rightarrow> admin_context \<Rightarrow> db \<Rightarrow> (http_error, db \<times> intent_example) outcome" where
  "approve_example_handler ke cn service_id example_id cx d =
     (let en = ke_admin ke in
      bindE (require_service_catalog_access cx service_id) (\<lambda>_.
      bindE (some_or (get_example d service_id example_id) (raise_not_found ''Example does not exist.'')) (\<lambda>e.
      bindE (ensure_service_exists d service_id) (\<lambda>service.
      bindE (example_embedding ke cn service e) (\<lambda>embedding.
      let (d1, e1) = approve_example d e (Some embedding) in
      bindE (example_audit en ''example.approved'' cx service_id (ie_example_id e1) (Some (example_after_state en e))
        (Some (example_after_state en e1)) (en_clock en 0) d1) (\<lambda>d2. Inr (d2, e1)))))))"

record example_patch_request =
  ep_example_type :: "str option"
  ep_text_raw :: "str option"
  ep_source :: "str option"
  ep_test_case_id :: "str option option"

text \<open>A new raw text brings its envelope and its mask; the other fields are set when they were given.\<close>

definition patched_example ::
  "key_env \<Rightarrow> example_patch_request \<Rightarrow> intent_example \<Rightarrow> (http_error, intent_example) outcome" where
  "patched_example ke p e =
     (let e1 = e\<lparr>ie_example_type := given_or (ep_example_type p) (ie_example_type e),
            ie_source := given_or (ep_source p) (ie_source e),
            ie_test_case_id := given_or (ep_test_case_id p) (ie_test_case_id e)\<rparr> in
      case ep_text_raw p of
        None \<Rightarrow> Inr e1
      | Some text_raw \<Rightarrow>
          bindE (raw_text_keyring_or_500 (en_variable (ke_admin ke))) (\<lambda>ring.
          bindE (with_crypto (keyring_encrypt (ke_aead ke) ring (ke_nonces ke) text_raw None)) (\<lambda>encrypted.
          Inr (e1\<lparr>ie_text_raw := encrypted, ie_text_masked := mask_pii text_raw\<rparr>))))"

definition patch_example_handler ::
  "key_env \<Rightarrow> 'x catalog_env \<Rightarrow> str \<Rightarrow> str \<Rightarrow> example_patch_request \<Rightarrow> admin_context \<Rightarrow> db
    \<Rightarrow> (http_error, db \<times> intent_example) outcome" where
  "patch_example_handler ke cn service_id example_id p cx d =
     (let en = ke_admin ke in
      bindE (require_service_catalog_access cx service_id) (\<lambda>_.
      bindE (some_or (get_example d service_id example_id) (raise_not_found ''Example does not exist.'')) (\<lambda>e.
      bindE (ensure_service_exists d service_id) (\<lambda>service.
      bindE (patched_example ke p e) (\<lambda>patched.
      let (d1, e1) = update_example d e (\<lambda>_. patched) in
      bindE (if ie_approved e1
        then bindE (example_embedding ke cn service e1) (\<lambda>v. Inr (update_example d1 e1 (\<lambda>r. r\<lparr>ie_embedding := Some v\<rparr>)))
        else Inr (d1, e1)) (\<lambda>(d2, e2).
      bindE (example_audit en ''example.updated'' cx service_id (ie_example_id e2) (Some (example_after_state en e))
        (Some (example_after_state en e2)) (en_clock en 0) d2) (\<lambda>d3. Inr (d3, e2))))))))"

definition delete_example_handler ::
  "admin_env \<Rightarrow> str \<Rightarrow> str \<Rightarrow> admin_context \<Rightarrow> db \<Rightarrow> (http_error, db \<times> unit) outcome" where
  "delete_example_handler en service_id example_id cx d =
     bindE (require_service_catalog_access cx service_id) (\<lambda>_.
     bindE (some_or (get_example d service_id example_id) (raise_not_found ''Example does not exist.'')) (\<lambda>e.
     bindE (example_audit en ''example.deleted'' cx service_id example_id (Some (example_after_state en e)) None
       (en_clock en 0) (delete_example d e)) (\<lambda>d1. Inr (d1, ()))))"

end
