(* ===== verification/Governance.thy ===== *)
theory Governance
  imports Repository
begin

text \<open>
  Governed actions of \<open>db/repositories.py\<close>: requests that a second person approves or rejects, and
  the single-use tokens with which an approved request lets its author read one raw query.
\<close>

definition governed_resource_types :: "str list" where
  "governed_resource_types = [lit ''intent'', lit ''example'', lit ''release'', lit ''runtime_log'',
     lit ''raw_query'', lit ''export'']"

definition governed_actions :: "str list" where
  "governed_actions = [lit ''request'', lit ''approve'', lit ''reject'', lit ''activate'',
     lit ''rollback'', lit ''decrypt'', lit ''export'']"

definition governed_request_statuses :: "str list" where
  "governed_request_statuses = [lit ''pending'', lit ''approved'', lit ''rejected'', lit ''activated'',
     lit ''rolled_back'', lit ''token_issued'', lit ''viewed'', lit ''expired'', lit ''completed'']"

section \<open>Requests\<close>

definition create_governed_action_request ::
  "db \<Rightarrow> governed_action_request \<Rightarrow> (repo_error, db \<times> governed_action_request) outcome" where
  "create_governed_action_request d r =
     bindE (require_allowed_value (ga_resource_type r) (lit ''governed resource type'') governed_resource_types) (\<lambda>_.
     bindE (require_allowed_value (ga_action r) (lit ''governed action'') governed_actions) (\<lambda>_.
     bindE (require_allowed_value (ga_status r) (lit ''governed request status'') governed_request_statuses) (\<lambda>_.
     bindE (require_nonblank_string (ga_resource_id r) (lit ''governed resource id'')) (\<lambda>_.
     bindE (require_nonblank_string (ga_requested_by r) (lit ''governed request requester'')) (\<lambda>_.
     bindE (require_nonblank_string (ga_reason r) (lit ''governed request reason'')) (\<lambda>_.
     bindE (insert_row ga_request_id r (db_governed_requests d)) (\<lambda>rows.
     Inr (d\<lparr>db_governed_requests := rows\<rparr>, r))))))))"

text \<open>The values a caller leaves to the defaults: a pending request nobody has decided.\<close>

definition pending_request ::
  "str \<Rightarrow> str \<Rightarrow> str \<Rightarrow> str \<Rightarrow> str \<Rightarrow> str \<Rightarrow> timestamp \<Rightarrow> str \<Rightarrow> governed_action_request" where
  "pending_request request_id service_id resource_type resource_id action requested_by requested_at reason =
     \<lparr>ga_request_id = request_id, ga_service_id = service_id, ga_resource_type = resource_type,
      ga_resource_id = resource_id, ga_action = action, ga_status = lit ''pending'',
      ga_requested_by = requested_by, ga_requested_at = requested_at, ga_decided_by = None,
      ga_decided_at = None, ga_reason = reason, ga_decision_reason = None\<rparr>"

definition get_governed_action_request :: "db \<Rightarrow> str \<Rightarrow> governed_action_request option" where
  "get_governed_action_request d request_id =
     first_row (\<lambda>r. ga_request_id r = request_id) (db_governed_requests d)"

definition list_governed_action_requests ::
  "(str \<Rightarrow> nat) \<Rightarrow> db \<Rightarrow> str \<Rightarrow> str option \<Rightarrow> str option \<Rightarrow> nat
    \<Rightarrow> (repo_error, governed_action_request list) outcome" where
  "list_governed_action_requests collate d service_id status resource_type limit =
     bindE (case status of None \<Rightarrow> Inr [] | Some s \<Rightarrow>
       require_allowed_value s (lit ''governed request status'') governed_request_statuses) (\<lambda>_.
     bindE (case resource_type of None \<Rightarrow> Inr [] | Some t \<Rightarrow>
       require_allowed_value t (lit ''governed resource type'') governed_resource_types) (\<lambda>_.
     Inr (take limit (order_by (\<lambda>r. (- ga_requested_at r, collate (ga_request_id r)))
       (optional_filter resource_type (\<lambda>t r. ga_resource_type r = t)
       (optional_filter status (\<lambda>s r. ga_status r = s)
       (filter (\<lambda>r. ga_service_id r = service_id) (db_governed_requests d))))))))"

definition require_pending_governed_request :: "governed_action_request \<Rightarrow> (repo_error, unit) outcome" where
  "require_pending_governed_request r =
     require (ga_status r = lit ''pending'') Governed_Request_Not_Pending"

definition put_request :: "governed_action_request \<Rightarrow> db \<Rightarrow> db" where
  "put_request r d = d\<lparr>db_governed_requests := put_row ga_request_id r (db_governed_requests d)\<rparr>"

definition approve_governed_action_request ::
  "db \<Rightarrow> governed_action_request \<Rightarrow> str \<Rightarrow> timestamp \<Rightarrow> str option
    \<Rightarrow> (repo_error, db \<times> governed_action_request) outcome" where
  "approve_governed_action_request d r decided_by decided_at reason =
     bindE (require_pending_governed_request r) (\<lambda>_.
     bindE (require_nonblank_string decided_by (lit ''governed request decision actor'')) (\<lambda>_.
     bindE (require (ga_requested_by r \<noteq> decided_by) Author_Cannot_Approve) (\<lambda>_.
     let r' = r\<lparr>ga_status := lit ''approved'', ga_decided_by := Some decided_by,
       ga_decided_at := Some decided_at, ga_decision_reason := reason\<rparr> in
     Inr (put_request r' d, r'))))"

definition reject_governed_action_request ::
  "db \<Rightarrow> governed_action_request \<Rightarrow> str \<Rightarrow> timestamp \<Rightarrow> str
    \<Rightarrow> (repo_error, db \<times> governed_action_request) outcome" where
  "reject_governed_action_request d r decided_by decided_at reason =
     bindE (require_pending_governed_request r) (\<lambda>_.
     bindE (require_nonblank_string decided_by (lit ''governed request decision actor'')) (\<lambda>_.
     bindE (require (ga_requested_by r \<noteq> decided_by) Author_Cannot_Reject) (\<lambda>_.
     bindE (require_nonblank_string reason (lit ''governed request rejection reason'')) (\<lambda>_.
     let r' = r\<lparr>ga_status := lit ''rejected'', ga_decided_by := Some decided_by,
       ga_decided_at := Some decided_at, ga_decision_reason := Some reason\<rparr> in
     Inr (put_request r' d, r')))))"

section \<open>View tokens\<close>

definition issue_raw_query_view_token ::
  "db \<Rightarrow> governed_action_request \<Rightarrow> str \<Rightarrow> str \<Rightarrow> timestamp \<Rightarrow> str \<Rightarrow> timestamp
    \<Rightarrow> (repo_error, db \<times> raw_query_view_token) outcome" where
  "issue_raw_query_view_token d r token_id token_hash expires_at issued_by issued_at =
     bindE (require (ga_resource_type r = lit ''raw_query'' \<and> ga_action r = lit ''decrypt'')
       Token_Requires_Decrypt_Request) (\<lambda>_.
     bindE (require (ga_status r = lit ''approved'') Token_Requires_Approval) (\<lambda>_.
     bindE (require_nonblank_string token_hash (lit ''raw query view token hash'')) (\<lambda>_.
     bindE (require (issued_at < expires_at) Token_Expiry_Not_After_Issue) (\<lambda>_.
     bindE (require_nonblank_string issued_by (lit ''raw query view token issuer'')) (\<lambda>_.
     let token = \<lparr>vt_token_id = token_id, vt_request_id = ga_request_id r, vt_service_id = ga_service_id r,
       vt_trace_id = ga_resource_id r, vt_token_hash = token_hash, vt_expires_at = expires_at,
       vt_issued_by = issued_by, vt_issued_at = issued_at, vt_viewed_at = None, vt_expired_at = None\<rparr> in
     bindE (require (token_hash \<notin> vt_token_hash ` set (db_view_tokens d)) Integrity_Error) (\<lambda>_.
     bindE (insert_row vt_token_id token (db_view_tokens d)) (\<lambda>rows.
     Inr (put_request (r\<lparr>ga_status := lit ''token_issued''\<rparr>) (d\<lparr>db_view_tokens := rows\<rparr>), token))))))))"

text \<open>The request of a token (the join), and the tokens of a live request.\<close>

definition token_request :: "db \<Rightarrow> raw_query_view_token \<Rightarrow> governed_action_request option" where
  "token_request d t = get_governed_action_request d (vt_request_id t)"

definition token_live :: "db \<Rightarrow> str \<Rightarrow> str \<Rightarrow> str \<Rightarrow> raw_query_view_token \<Rightarrow> bool" where
  "token_live d token_hash service_id trace_id t \<longleftrightarrow>
     vt_token_hash t = token_hash \<and> vt_service_id t = service_id \<and> vt_trace_id t = trace_id
     \<and> vt_viewed_at t = None \<and> vt_expired_at t = None
     \<and> map_option ga_status (token_request d t) = Some (lit ''token_issued'')"

definition put_token :: "raw_query_view_token \<Rightarrow> db \<Rightarrow> db" where
  "put_token t d = d\<lparr>db_view_tokens := put_row vt_token_id t (db_view_tokens d)\<rparr>"

definition set_request_status :: "str \<Rightarrow> str \<Rightarrow> db \<Rightarrow> db" where
  "set_request_status request_id status d =
     d\<lparr>db_governed_requests := update_where (\<lambda>r. ga_request_id r = request_id)
       (\<lambda>r. r\<lparr>ga_status := status\<rparr>) (db_governed_requests d)\<rparr>"

definition get_valid_raw_query_view_token ::
  "db \<Rightarrow> str \<Rightarrow> str \<Rightarrow> str \<Rightarrow> timestamp \<Rightarrow> raw_query_view_token option" where
  "get_valid_raw_query_view_token d token_hash service_id trace_id now =
     first_row (\<lambda>t. token_live d token_hash service_id trace_id t \<and> now < vt_expires_at t) (db_view_tokens d)"

definition mark_raw_query_view_token_viewed ::
  "db \<Rightarrow> raw_query_view_token \<Rightarrow> timestamp \<Rightarrow> db \<times> raw_query_view_token" where
  "mark_raw_query_view_token_viewed d t viewed_at =
     (let t' = t\<lparr>vt_viewed_at := Some viewed_at\<rparr> in
      (set_request_status (vt_request_id t) (lit ''viewed'') (put_token t' d), t'))"

definition consume_raw_query_view_token ::
  "db \<Rightarrow> str \<Rightarrow> str \<Rightarrow> str \<Rightarrow> timestamp \<Rightarrow> db \<times> raw_query_view_token option" where
  "consume_raw_query_view_token d token_hash service_id trace_id consumed_at =
     (case first_row (\<lambda>t. token_live d token_hash service_id trace_id t \<and> consumed_at < vt_expires_at t)
             (db_view_tokens d) of
        None \<Rightarrow> (d, None)
      | Some t \<Rightarrow>
         (let t' = t\<lparr>vt_viewed_at := Some consumed_at\<rparr> in
          (set_request_status (vt_request_id t) (lit ''viewed'') (put_token t' d), Some t')))"

definition expire_raw_query_view_token ::
  "db \<Rightarrow> str \<Rightarrow> str \<Rightarrow> str \<Rightarrow> timestamp \<Rightarrow> db \<times> raw_query_view_token option" where
  "expire_raw_query_view_token d token_hash service_id trace_id expired_at =
     (case first_row (\<lambda>t. token_live d token_hash service_id trace_id t \<and> vt_expires_at t \<le> expired_at)
             (db_view_tokens d) of
        None \<Rightarrow> (d, None)
      | Some t \<Rightarrow>
         (let t' = t\<lparr>vt_expired_at := Some expired_at\<rparr> in
          (set_request_status (vt_request_id t) (lit ''expired'') (put_token t' d), Some t')))"

definition expire_one :: "timestamp \<Rightarrow> raw_query_view_token \<Rightarrow> db \<Rightarrow> db" where
  "expire_one now t d =
     (let d' = put_token (t\<lparr>vt_expired_at := Some now\<rparr>) d in
      if map_option ga_status (token_request d t) = Some (lit ''token_issued'')
      then set_request_status (vt_request_id t) (lit ''expired'') d' else d')"

definition expire_raw_query_view_tokens :: "db \<Rightarrow> timestamp \<Rightarrow> db \<times> raw_query_view_token list" where
  "expire_raw_query_view_tokens d now =
     (let tokens = filter (\<lambda>t. token_request d t \<noteq> None \<and> vt_expires_at t \<le> now \<and> vt_expired_at t = None)
        (db_view_tokens d) in
      (fold (expire_one now) tokens d, map (\<lambda>t. t\<lparr>vt_expired_at := Some now\<rparr>) tokens))"

section \<open>The lifecycle as a machine\<close>

text \<open>
  The calls that change requests and tokens, each with what its caller passes. A request is addressed
  by its identifier: the handlers look the row up and answer 404 when it is missing.
\<close>

datatype governed_event =
    Requested str str str str str str timestamp str
  | Approved str str timestamp "str option"
  | Rejected str str timestamp str
  | Activated str
  | Issued str str str timestamp str timestamp
  | Consumed str str str timestamp
  | Viewed str str str timestamp
  | Expired str str str timestamp
  | Swept timestamp

definition on_request :: "db \<Rightarrow> str \<Rightarrow> (governed_action_request \<Rightarrow> db) \<Rightarrow> db" where
  "on_request d request_id f =
     (case get_governed_action_request d request_id of None \<Rightarrow> d | Some r \<Rightarrow> f r)"

text \<open>The status change of a publish request when its release has been activated.\<close>

definition activate_governed_request :: "governed_action_request \<Rightarrow> db \<Rightarrow> db" where
  "activate_governed_request r d =
     (if ga_resource_type r = lit ''release'' \<and> ga_action r = lit ''activate'' \<and> ga_status r = lit ''approved''
      then put_request (r\<lparr>ga_status := lit ''activated''\<rparr>) d else d)"

fun governed_step :: "db \<Rightarrow> governed_event \<Rightarrow> db" where
  "governed_step d (Requested i s t x a who now why) =
     committed d (create_governed_action_request d (pending_request i s t x a who now why))"
| "governed_step d (Approved i who now why) =
     on_request d i (\<lambda>r. committed d (approve_governed_action_request d r who now why))"
| "governed_step d (Rejected i who now why) =
     on_request d i (\<lambda>r. committed d (reject_governed_action_request d r who now why))"
| "governed_step d (Activated i) = on_request d i (\<lambda>r. activate_governed_request r d)"
| "governed_step d (Issued i t h expires who now) =
     on_request d i (\<lambda>r. committed d (issue_raw_query_view_token d r t h expires who now))"
| "governed_step d (Consumed h s x now) = fst (consume_raw_query_view_token d h s x now)"
| "governed_step d (Viewed h s x now) =
     (case get_valid_raw_query_view_token d h s x now of None \<Rightarrow> d
      | Some t \<Rightarrow> fst (mark_raw_query_view_token_viewed d t now))"
| "governed_step d (Expired h s x now) = fst (expire_raw_query_view_token d h s x now)"
| "governed_step d (Swept now) = fst (expire_raw_query_view_tokens d now)"

section \<open>The invariant of requests and tokens\<close>

text \<open>A decision by somebody else than the author.\<close>

definition seconded :: "governed_action_request \<Rightarrow> bool" where
  "seconded r \<longleftrightarrow> ga_decided_by r \<noteq> None \<and> ga_decided_by r \<noteq> Some (ga_requested_by r)"

definition token_statuses :: "str set" where
  "token_statuses = {lit ''token_issued'', lit ''viewed'', lit ''expired''}"

definition backs_token :: "raw_query_view_token \<Rightarrow> governed_action_request \<Rightarrow> bool" where
  "backs_token t r \<longleftrightarrow> ga_request_id r = vt_request_id t \<and> ga_service_id r = vt_service_id t
     \<and> ga_resource_id r = vt_trace_id t \<and> ga_resource_type r = lit ''raw_query''
     \<and> ga_action r = lit ''decrypt'' \<and> ga_status r \<in> token_statuses \<and> vt_issued_at t < vt_expires_at t"

definition governed_inv :: "db \<Rightarrow> bool" where
  "governed_inv d \<longleftrightarrow>
     distinct (map ga_request_id (db_governed_requests d))
     \<and> distinct (map vt_token_id (db_view_tokens d)) \<and> distinct (map vt_token_hash (db_view_tokens d))
     \<and> distinct (map vt_request_id (db_view_tokens d))
     \<and> (\<forall>r \<in> set (db_governed_requests d). ga_status r = lit ''pending'' \<or> seconded r)
     \<and> (\<forall>t \<in> set (db_view_tokens d). \<exists>r \<in> set (db_governed_requests d). backs_token t r)"

lemma governed_invD:
  assumes "governed_inv d"
  shows "distinct (map ga_request_id (db_governed_requests d))"
    and "distinct (map vt_token_id (db_view_tokens d))"
    and "distinct (map vt_token_hash (db_view_tokens d))"
    and "distinct (map vt_request_id (db_view_tokens d))"
    and "\<And>r. r \<in> set (db_governed_requests d) \<Longrightarrow> ga_status r \<noteq> lit ''pending'' \<Longrightarrow> seconded r"
    and "\<And>t. t \<in> set (db_view_tokens d) \<Longrightarrow> \<exists>r \<in> set (db_governed_requests d). backs_token t r"
  using assms by (auto simp: governed_inv_def)

lemma pending_not_token [simp]: "lit ''pending'' \<notin> token_statuses" "lit ''approved'' \<notin> token_statuses"
  by (simp_all add: token_statuses_def lit_def)

lemma get_request_in:
  "get_governed_action_request d i = Some r \<Longrightarrow> r \<in> set (db_governed_requests d) \<and> ga_request_id r = i"
  unfolding get_governed_action_request_def by (rule first_row_Some)

lemma put_request_inv:
  assumes inv: "governed_inv d" and r: "r \<in> set (db_governed_requests d)"
    and same: "ga_request_id r' = ga_request_id r" "ga_service_id r' = ga_service_id r"
      "ga_resource_type r' = ga_resource_type r" "ga_resource_id r' = ga_resource_id r"
      "ga_action r' = ga_action r"
    and sec: "seconded r'"
      and st: "ga_status r \<in> token_statuses \<Longrightarrow> ga_status r' \<in> token_statuses"
  shows "governed_inv (put_request r' d)"
proof -
  let ?R = "put_row ga_request_id r' (db_governed_requests d)"
  have sub: "q = r' \<or> q \<in> set (db_governed_requests d)" if "q \<in> set ?R" for q
    using put_row_in [OF that] by blast
  have kept: "\<exists>q \<in> set ?R. backs_token t q" if tok: "t \<in> set (db_view_tokens d)" for t
  proof -
    obtain q where q: "q \<in> set (db_governed_requests d)" "backs_token t q"
      using governed_invD(6) [OF inv tok] by blast
    show ?thesis
    proof (cases "ga_request_id q = ga_request_id r")
      case True
      then have "q = r" using distinct_key [OF governed_invD(1) [OF inv]] q(1) r by blast
      then have "backs_token t r'" using q(2) same st by (simp add: backs_token_def)
      moreover have "r' \<in> set ?R" using put_row_mem [OF r] same(1) by metis
      ultimately show ?thesis by blast
    next
      case False
      then have "q \<in> set ?R" using put_row_other [OF q(1)] same(1) by metis
      then show ?thesis using q(2) by blast
    qed
  qed
  show ?thesis
    unfolding governed_inv_def put_request_def
    using governed_invD [OF inv] sub kept sec by (simp add: ball_conj_distrib) blast
qed

lemma put_token_inv:
  assumes inv: "governed_inv d" and t: "t \<in> set (db_view_tokens d)"
    and same: "vt_token_id t' = vt_token_id t" "vt_token_hash t' = vt_token_hash t"
      "vt_request_id t' = vt_request_id t" "\<And>r. backs_token t' r = backs_token t r"
  shows "governed_inv (put_token t' d)"
proof -
  let ?T = "put_row vt_token_id t' (db_view_tokens d)"
  have eq: "q = t" if "q \<in> set (db_view_tokens d)" "vt_token_id q = vt_token_id t'" for q
    using distinct_key [OF governed_invD(2) [OF inv] that(1) t] that(2) same(1) by simp
  have maps: "map key ?T = map key (db_view_tokens d)" if "key t' = key t" for key :: "raw_query_view_token \<Rightarrow> str"
    unfolding put_row_def by (rule update_where_keys) (use eq that in auto)
  have "\<exists>r \<in> set (db_governed_requests d). backs_token q r" if "q \<in> set ?T" for q
    using put_row_in [OF that] governed_invD(6) [OF inv] t same(4) by metis
  then show ?thesis
    using governed_invD [OF inv] maps [of vt_token_id] maps [of vt_token_hash] maps [of vt_request_id] same
    by (auto simp: governed_inv_def put_token_def)
qed

lemma set_request_status_inv:
  assumes inv: "governed_inv d" and t: "t \<in> set (db_view_tokens d)" and s: "s \<in> token_statuses"
  shows "governed_inv (set_request_status (vt_request_id t) s d)"
proof -
  obtain r where r: "r \<in> set (db_governed_requests d)" "backs_token t r"
    using governed_invD(6) [OF inv t] by blast
  have rid: "ga_request_id r = vt_request_id t" and st: "ga_status r \<in> token_statuses"
    using r(2) by (simp_all add: backs_token_def)
  have eq: "q = r" if "q \<in> set (db_governed_requests d)" "ga_request_id q = vt_request_id t" for q
    using distinct_key [OF governed_invD(1) [OF inv] that(1) r(1)] that(2) rid by simp
  have "set_request_status (vt_request_id t) s d = put_request (r\<lparr>ga_status := s\<rparr>) d"
    unfolding set_request_status_def put_request_def put_row_def update_where_def
    using eq rid by (simp cong: map_cong)
  moreover have "ga_status r \<noteq> lit ''pending''" using st pending_not_token(1) by metis
  then have "seconded (r\<lparr>ga_status := s\<rparr>)"
    using governed_invD(5) [OF inv r(1)] by (simp add: seconded_def)
  ultimately show ?thesis
    using put_request_inv [OF inv r(1), of "r\<lparr>ga_status := s\<rparr>"] s by simp
qed

text \<open>Every operation keeps the invariant.\<close>

lemma create_request_inv:
  assumes inv: "governed_inv d"
    and ok: "create_governed_action_request d r = Inr (d', r')" and pend: "ga_status r = lit ''pending''"
  shows "governed_inv d'"
proof -
  have new: "ga_request_id r \<notin> ga_request_id ` set (db_governed_requests d)"
    and d': "d' = d\<lparr>db_governed_requests := db_governed_requests d @ [r]\<rparr>"
    using ok by (auto simp: create_governed_action_request_def raise_simps)
  show ?thesis
    using governed_invD [OF inv] new pend unfolding d' governed_inv_def by auto
qed

lemma approve_inv:
  assumes inv: "governed_inv d" and r: "r \<in> set (db_governed_requests d)"
    and ok: "approve_governed_action_request d r who now why = Inr (d', r')"
  shows "governed_inv d'"
proof -
  have d': "d' = put_request r' d" and st: "ga_status r = lit ''pending''"
    and r': "r' = r\<lparr>ga_status := lit ''approved'', ga_decided_by := Some who, ga_decided_at := Some now,
      ga_decision_reason := why\<rparr>" and ne: "ga_requested_by r \<noteq> who"
    using ok by (auto simp: approve_governed_action_request_def require_pending_governed_request_def
        raise_simps Let_def)
  show ?thesis
    unfolding d' by (rule put_request_inv [OF inv r]) (use r' ne st in \<open>simp_all add: seconded_def\<close>)
qed

lemma reject_inv:
  assumes inv: "governed_inv d" and r: "r \<in> set (db_governed_requests d)"
    and ok: "reject_governed_action_request d r who now why = Inr (d', r')"
  shows "governed_inv d'"
proof -
  have d': "d' = put_request r' d" and st: "ga_status r = lit ''pending''"
    and r': "r' = r\<lparr>ga_status := lit ''rejected'', ga_decided_by := Some who, ga_decided_at := Some now,
      ga_decision_reason := Some why\<rparr>" and ne: "ga_requested_by r \<noteq> who"
    using ok by (auto simp: reject_governed_action_request_def require_pending_governed_request_def
        raise_simps Let_def)
  show ?thesis
    unfolding d' by (rule put_request_inv [OF inv r]) (use r' ne st in \<open>simp_all add: seconded_def\<close>)
qed

lemma activate_inv:
  assumes inv: "governed_inv d" and r: "r \<in> set (db_governed_requests d)"
  shows "governed_inv (activate_governed_request r d)"
proof (cases "ga_status r = lit ''approved''")
  case True
  have sec: "seconded r" using governed_invD(5) [OF inv r] True by (simp add: lit_def)
  have "governed_inv (put_request (r\<lparr>ga_status := lit ''activated''\<rparr>) d)"
    by (rule put_request_inv [OF inv r]) (use sec True in \<open>simp_all add: seconded_def\<close>)
  then show ?thesis using inv by (simp add: activate_governed_request_def)
next
  case False
  then show ?thesis using inv by (simp add: activate_governed_request_def)
qed

lemma issue_inv:
  assumes inv: "governed_inv d" and r: "r \<in> set (db_governed_requests d)"
    and ok: "issue_raw_query_view_token d r i h expires who now = Inr (d', t)"
  shows "governed_inv d'"
proof -
  let ?r = "r\<lparr>ga_status := lit ''token_issued''\<rparr>"
  let ?d = "d\<lparr>db_view_tokens := db_view_tokens d @ [t]\<rparr>"
  have t: "vt_token_id t = i" "vt_request_id t = ga_request_id r" "vt_service_id t = ga_service_id r"
      "vt_trace_id t = ga_resource_id r" "vt_token_hash t = h" "vt_issued_at t < vt_expires_at t"
    and new: "h \<notin> vt_token_hash ` set (db_view_tokens d)" "i \<notin> vt_token_id ` set (db_view_tokens d)"
    and st: "ga_status r = lit ''approved''" "ga_resource_type r = lit ''raw_query''"
      "ga_action r = lit ''decrypt''"
    and d': "d' = put_request ?r ?d"
    using ok by (auto simp: issue_raw_query_view_token_def raise_simps Let_def)
  have fresh: "vt_request_id q \<noteq> ga_request_id r" if q: "q \<in> set (db_view_tokens d)" for q
  proof
    assume eq: "vt_request_id q = ga_request_id r"
    obtain r0 where r0: "r0 \<in> set (db_governed_requests d)" "backs_token q r0"
      using governed_invD(6) [OF inv q] by blast
    then have "ga_request_id r0 = ga_request_id r" using eq by (simp add: backs_token_def)
    then have "r0 = r" using distinct_key [OF governed_invD(1) [OF inv] r0(1) r] by simp
    then show False using r0(2) st pending_not_token(2) by (simp add: backs_token_def)
  qed
  have fresh_id: "vt_request_id t \<notin> vt_request_id ` set (db_view_tokens d)"
    using fresh t(2) by fastforce
  have sec: "seconded r" using governed_invD(5) [OF inv r] st by (simp add: lit_def)
  have put: "governed_inv (put_request ?r d)"
    by (rule put_request_inv [OF inv r]) (use sec st in \<open>simp_all add: seconded_def\<close>)
  have "?r \<in> set (db_governed_requests d')"
    unfolding d' put_request_def using put_row_mem [OF r, of ga_request_id ?r] by simp
  moreover have "backs_token t ?r" using t st by (simp add: backs_token_def token_statuses_def)
  ultimately show ?thesis
    using governed_invD [OF put] new t(1,5) fresh_id unfolding d' governed_inv_def put_request_def
    by (auto simp: ball_Un)
qed

lemma mark_inv:
  assumes inv: "governed_inv d" and t: "t \<in> set (db_view_tokens d)" and s: "s \<in> token_statuses"
    and same: "vt_token_id t' = vt_token_id t" "vt_token_hash t' = vt_token_hash t"
      "vt_request_id t' = vt_request_id t" "\<And>r. backs_token t' r = backs_token t r"
  shows "governed_inv (set_request_status (vt_request_id t) s (put_token t' d))"
proof -
  have "t' \<in> set (db_view_tokens (put_token t' d))"
    using put_row_mem [OF t, of vt_token_id t'] same(1) by (simp add: put_token_def)
  then show ?thesis
    using set_request_status_inv [OF put_token_inv [OF inv t same] _ s] same(3) by metis
qed

lemma first_token:
  assumes "first_row (\<lambda>t. token_live d h s x t \<and> P t) (db_view_tokens d) = Some t"
  shows "t \<in> set (db_view_tokens d)" and "token_live d h s x t" and "P t"
  using first_row_Some [OF assms] by simp_all

lemma token_status_in [simp]:
  "lit ''viewed'' \<in> token_statuses" "lit ''expired'' \<in> token_statuses" "lit ''token_issued'' \<in> token_statuses"
  by (simp_all add: token_statuses_def)

lemma consume_inv: "governed_inv d \<Longrightarrow> governed_inv (fst (consume_raw_query_view_token d h s x now))"
  unfolding consume_raw_query_view_token_def
  by (auto simp: Let_def backs_token_def dest!: first_row_Some intro!: mark_inv split: option.split)

lemma expire_inv: "governed_inv d \<Longrightarrow> governed_inv (fst (expire_raw_query_view_token d h s x now))"
  unfolding expire_raw_query_view_token_def
  by (auto simp: Let_def backs_token_def dest!: first_row_Some intro!: mark_inv split: option.split)

lemma view_inv:
  "governed_inv d \<Longrightarrow> get_valid_raw_query_view_token d h s x now = Some t
    \<Longrightarrow> governed_inv (fst (mark_raw_query_view_token_viewed d t at'))"
  unfolding get_valid_raw_query_view_token_def mark_raw_query_view_token_viewed_def
  by (auto simp: Let_def backs_token_def dest!: first_row_Some intro!: mark_inv)

lemma expire_one_inv:
  "governed_inv d \<Longrightarrow> t \<in> set (db_view_tokens d) \<Longrightarrow> governed_inv (expire_one now t d)"
  unfolding expire_one_def
  by (auto simp: Let_def backs_token_def intro!: mark_inv put_token_inv)

text \<open>Expiring one token leaves the rows of the others, so the sweep can go on.\<close>

lemma expire_one_tokens:
  "db_view_tokens (expire_one now t d)
    = put_row vt_token_id (t\<lparr>vt_expired_at := Some now\<rparr>) (db_view_tokens d)"
  by (simp add: expire_one_def put_token_def set_request_status_def Let_def)

lemma expire_one_keeps:
  assumes "distinct (map vt_token_id (t # ts))" and "set (t # ts) \<subseteq> set (db_view_tokens d)"
  shows "set ts \<subseteq> set (db_view_tokens (expire_one now t d))"
proof
  fix q assume q: "q \<in> set ts"
  then have "vt_token_id q \<noteq> vt_token_id t" using assms(1) by (auto simp: image_iff)
  then show "q \<in> set (db_view_tokens (expire_one now t d))"
    unfolding expire_one_tokens using q assms(2) by (intro put_row_other) auto
qed

lemma expire_fold_inv:
  "governed_inv d \<Longrightarrow> distinct (map vt_token_id ts) \<Longrightarrow> set ts \<subseteq> set (db_view_tokens d)
    \<Longrightarrow> governed_inv (fold (expire_one now) ts d)"
proof (induction ts arbitrary: d)
  case Nil
  then show ?case by simp
next
  case (Cons t ts)
  have "set ts \<subseteq> set (db_view_tokens (expire_one now t d))"
    by (rule expire_one_keeps [OF Cons.prems(2,3)])
  then show ?case using Cons.IH Cons.prems expire_one_inv by simp
qed

lemma distinct_map_filter_key: "distinct (map key xs) \<Longrightarrow> distinct (map key (filter P xs))"
  by (induction xs) auto

lemma sweep_inv: "governed_inv d \<Longrightarrow> governed_inv (fst (expire_raw_query_view_tokens d now))"
  unfolding expire_raw_query_view_tokens_def Let_def fst_conv
  by (rule expire_fold_inv) (auto intro: distinct_map_filter_key governed_invD(2))

lemma committed_inv: "(\<And>d' a. m = Inr (d', a) \<Longrightarrow> governed_inv d') \<Longrightarrow> governed_inv d \<Longrightarrow> governed_inv (committed d m)"
  by (cases m) (auto simp: committed_def)

lemma on_request_inv:
  "(\<And>r. r \<in> set (db_governed_requests d) \<Longrightarrow> governed_inv (f r)) \<Longrightarrow> governed_inv d
    \<Longrightarrow> governed_inv (on_request d i f)"
  by (auto simp: on_request_def dest: get_request_in split: option.split)

lemma governed_step_inv: "governed_inv d \<Longrightarrow> governed_inv (governed_step d e)"
proof (cases e)
  case (Requested i s t x a who now why)
  assume "governed_inv d"
  then show ?thesis
    by (auto simp: Requested pending_request_def intro!: committed_inv intro: create_request_inv)
next
  case (Viewed h s x now)
  assume "governed_inv d"
  then show ?thesis by (auto simp: Viewed intro: view_inv split: option.split)
qed (auto intro!: on_request_inv committed_inv intro: approve_inv reject_inv activate_inv issue_inv consume_inv
    expire_inv sweep_inv)

section \<open>What no step undoes\<close>

definition decision_of :: "governed_action_request
    \<Rightarrow> str \<times> str \<times> str \<times> str option \<times> timestamp option \<times> str option" where
  "decision_of r = (ga_request_id r, ga_requested_by r, ga_reason r, ga_decided_by r, ga_decided_at r,
     ga_decision_reason r)"

definition request_evolves :: "governed_action_request \<Rightarrow> governed_action_request \<Rightarrow> bool" where
  "request_evolves r r' \<longleftrightarrow> decision_of r' = decision_of r \<and> ga_status r' \<noteq> lit ''pending''
     \<and> (ga_status r = lit ''rejected'' \<longrightarrow> ga_status r' = lit ''rejected'')"

definition token_evolves :: "raw_query_view_token \<Rightarrow> raw_query_view_token \<Rightarrow> bool" where
  "token_evolves t t' \<longleftrightarrow> vt_token_hash t' = vt_token_hash t
     \<and> (vt_viewed_at t \<noteq> None \<longrightarrow> vt_viewed_at t' \<noteq> None)
     \<and> (vt_expired_at t \<noteq> None \<longrightarrow> vt_expired_at t' \<noteq> None)"

definition progress :: "db \<Rightarrow> db \<Rightarrow> bool" where
  "progress d d' \<longleftrightarrow>
     (\<forall>r \<in> set (db_governed_requests d). ga_status r \<noteq> lit ''pending'' \<longrightarrow>
        (\<exists>r' \<in> set (db_governed_requests d'). request_evolves r r'))
     \<and> (\<forall>t \<in> set (db_view_tokens d). \<exists>t' \<in> set (db_view_tokens d'). token_evolves t t')"

lemma request_evolves_refl: "ga_status r \<noteq> lit ''pending'' \<Longrightarrow> request_evolves r r"
  by (simp add: request_evolves_def)

lemma token_evolves_refl: "token_evolves t t"
  by (simp add: token_evolves_def)

lemma progress_refl: "progress d d"
  unfolding progress_def by (blast intro: request_evolves_refl token_evolves_refl)

lemma progress_trans:
  assumes one: "progress d1 d2" and two: "progress d2 d3"
  shows "progress d1 d3"
proof -
  have "\<exists>r'' \<in> set (db_governed_requests d3). request_evolves r r''"
    if r: "r \<in> set (db_governed_requests d1)" "ga_status r \<noteq> lit ''pending''" for r
  proof -
    obtain r' where r': "r' \<in> set (db_governed_requests d2)" "request_evolves r r'"
      using one r unfolding progress_def by blast
    moreover from r' obtain r'' where "r'' \<in> set (db_governed_requests d3)" "request_evolves r' r''"
      using two unfolding progress_def request_evolves_def by blast
    ultimately show ?thesis by (auto simp: request_evolves_def)
  qed
  moreover have "\<exists>t'' \<in> set (db_view_tokens d3). token_evolves t t''" if t: "t \<in> set (db_view_tokens d1)" for t
  proof -
    obtain t' where t': "t' \<in> set (db_view_tokens d2)" "token_evolves t t'"
      using one t unfolding progress_def by blast
    moreover from t' obtain t'' where "t'' \<in> set (db_view_tokens d3)" "token_evolves t' t''"
      using two unfolding progress_def by blast
    ultimately show ?thesis by (auto simp: token_evolves_def)
  qed
  ultimately show ?thesis by (simp add: progress_def)
qed

lemma progress_append:
  "progress d (d\<lparr>db_governed_requests := db_governed_requests d @ rs\<rparr>)"
  "progress d (d\<lparr>db_view_tokens := db_view_tokens d @ ts\<rparr>)"
  using progress_refl [of d] unfolding progress_def by auto

lemma progress_put_request:
  assumes inv: "distinct (map ga_request_id (db_governed_requests d))"
    and r: "r \<in> set (db_governed_requests d)" and same: "ga_request_id r' = ga_request_id r"
    and ev: "ga_status r \<noteq> lit ''pending'' \<Longrightarrow> request_evolves r r'"
  shows "progress d (put_request r' d)"
proof -
  have "\<exists>q' \<in> set (put_row ga_request_id r' (db_governed_requests d)). request_evolves q q'"
    if q: "q \<in> set (db_governed_requests d)" "ga_status q \<noteq> lit ''pending''" for q
  proof (cases "ga_request_id q = ga_request_id r")
    case True
    then have "q = r" using distinct_key [OF inv q(1) r] by simp
    then show ?thesis using ev q(2) put_row_mem [OF r, of ga_request_id r'] same by auto
  next
    case False
    then show ?thesis
      using put_row_other [OF q(1), of ga_request_id r'] same request_evolves_refl [OF q(2)] by auto
  qed
  moreover have "\<forall>t \<in> set (db_view_tokens d). \<exists>t' \<in> set (db_view_tokens d). token_evolves t t'"
    by (blast intro: token_evolves_refl)
  ultimately show ?thesis by (simp add: progress_def put_request_def)
qed

lemma progress_put_token:
  assumes inv: "distinct (map vt_token_id (db_view_tokens d))"
    and t: "t \<in> set (db_view_tokens d)" and same: "vt_token_id t' = vt_token_id t" and ev: "token_evolves t t'"
  shows "progress d (put_token t' d)"
proof -
  have "\<exists>q' \<in> set (put_row vt_token_id t' (db_view_tokens d)). token_evolves q q'"
    if q: "q \<in> set (db_view_tokens d)" for q
  proof (cases "vt_token_id q = vt_token_id t")
    case True
    then have "q = t" using distinct_key [OF inv q t] by simp
    then show ?thesis using ev put_row_mem [OF t, of vt_token_id t'] same by auto
  next
    case False
    then show ?thesis using put_row_other [OF q, of vt_token_id t'] same token_evolves_refl by auto
  qed
  moreover have "\<forall>r \<in> set (db_governed_requests d). ga_status r \<noteq> lit ''pending'' \<longrightarrow>
      (\<exists>r' \<in> set (db_governed_requests d). request_evolves r r')"
    by (blast intro: request_evolves_refl)
  ultimately show ?thesis by (simp add: progress_def put_token_def)
qed

lemma progress_set_status:
  assumes inv: "governed_inv d" and t: "t \<in> set (db_view_tokens d)" and s: "s \<in> token_statuses"
  shows "progress d (set_request_status (vt_request_id t) s d)"
proof -
  obtain r where r: "r \<in> set (db_governed_requests d)" "backs_token t r"
    using governed_invD(6) [OF inv t] by blast
  have st: "ga_status r \<noteq> lit ''rejected''" and s': "s \<noteq> lit ''pending''"
    using r(2) s by (auto simp: backs_token_def token_statuses_def lit_def)
  let ?f = "\<lambda>q. if ga_request_id q = vt_request_id t then q\<lparr>ga_status := s\<rparr> else q"
  have ev: "request_evolves q (?f q)"
    if q: "q \<in> set (db_governed_requests d)" "ga_status q \<noteq> lit ''pending''" for q
  proof (cases "ga_request_id q = vt_request_id t")
    case True
    then have "q = r"
      using distinct_key [OF governed_invD(1) [OF inv] q(1) r(1)] r(2) by (simp add: backs_token_def)
    then show ?thesis using st s' True by (simp add: request_evolves_def decision_of_def)
  next
    case False
    then show ?thesis using request_evolves_refl [OF q(2)] by simp
  qed
  have "\<exists>q' \<in> set (map ?f (db_governed_requests d)). request_evolves q q'"
    if q: "q \<in> set (db_governed_requests d)" "ga_status q \<noteq> lit ''pending''" for q
  proof (rule bexI [of _ "?f q"])
    show "request_evolves q (?f q)" by (rule ev [OF q])
    show "?f q \<in> set (map ?f (db_governed_requests d))" unfolding set_map by (rule imageI [OF q(1)])
  qed
  then show ?thesis
    unfolding progress_def set_request_status_def update_where_def by (simp del: set_map list.set_map) (blast intro: token_evolves_refl)
qed

lemma progress_mark:
  assumes inv: "governed_inv d" and t: "t \<in> set (db_view_tokens d)" and s: "s \<in> token_statuses"
    and same: "vt_token_id t' = vt_token_id t" "vt_token_hash t' = vt_token_hash t"
      "vt_request_id t' = vt_request_id t" "\<And>r. backs_token t' r = backs_token t r"
    and ev: "token_evolves t t'"
  shows "progress d (set_request_status (vt_request_id t) s (put_token t' d))"
proof -
  have "t' \<in> set (db_view_tokens (put_token t' d))"
    using put_row_mem [OF t, of vt_token_id t'] same(1) by (simp add: put_token_def)
  then have "progress (put_token t' d) (set_request_status (vt_request_id t) s (put_token t' d))"
    using progress_set_status [OF put_token_inv [OF inv t same] _ s] same(3) by metis
  then show ?thesis
    using progress_put_token [OF governed_invD(2) [OF inv] t same(1) ev] progress_trans by blast
qed

lemma committed_progress:
  "(\<And>d' a. m = Inr (d', a) \<Longrightarrow> progress d d') \<Longrightarrow> progress d (committed d m)"
  by (cases m) (auto simp: committed_def progress_refl)

lemma on_request_progress:
  "(\<And>r. r \<in> set (db_governed_requests d) \<Longrightarrow> progress d (f r)) \<Longrightarrow> progress d (on_request d i f)"
  by (auto simp: on_request_def progress_refl dest: get_request_in split: option.split)

lemma approve_progress:
  assumes inv: "governed_inv d" and r: "r \<in> set (db_governed_requests d)"
    and ok: "approve_governed_action_request d r who now why = Inr (d', r')"
  shows "progress d d'"
  using ok progress_put_request [OF governed_invD(1) [OF inv] r, of r']
  by (auto simp: approve_governed_action_request_def require_pending_governed_request_def raise_simps Let_def)

lemma reject_progress:
  assumes inv: "governed_inv d" and r: "r \<in> set (db_governed_requests d)"
    and ok: "reject_governed_action_request d r who now why = Inr (d', r')"
  shows "progress d d'"
  using ok progress_put_request [OF governed_invD(1) [OF inv] r, of r']
  by (auto simp: reject_governed_action_request_def require_pending_governed_request_def raise_simps Let_def)

lemma activate_progress:
  assumes inv: "governed_inv d" and r: "r \<in> set (db_governed_requests d)"
  shows "progress d (activate_governed_request r d)"
  using progress_put_request [OF governed_invD(1) [OF inv] r, of "r\<lparr>ga_status := lit ''activated''\<rparr>"]
  by (auto simp: activate_governed_request_def progress_refl request_evolves_def decision_of_def lit_def)

lemma issue_progress:
  assumes inv: "governed_inv d" and r: "r \<in> set (db_governed_requests d)"
    and ok: "issue_raw_query_view_token d r i h expires who now = Inr (d', t)"
  shows "progress d d'"
proof -
  let ?r = "r\<lparr>ga_status := lit ''token_issued''\<rparr>"
  have d': "d' = put_request ?r (d\<lparr>db_view_tokens := db_view_tokens d @ [t]\<rparr>)"
    and st: "ga_status r = lit ''approved''"
    using ok by (auto simp: issue_raw_query_view_token_def raise_simps Let_def)
  have "progress (d\<lparr>db_view_tokens := db_view_tokens d @ [t]\<rparr>) d'"
    unfolding d' by (rule progress_put_request [of _ r])
      (use governed_invD(1) [OF inv] r st in \<open>simp_all add: request_evolves_def decision_of_def lit_def\<close>)
  then show ?thesis using progress_trans [OF progress_append(2)] by blast
qed

lemma consume_progress: "governed_inv d \<Longrightarrow> progress d (fst (consume_raw_query_view_token d h s x now))"
  unfolding consume_raw_query_view_token_def
  by (auto simp: Let_def backs_token_def token_evolves_def progress_refl dest!: first_row_Some
      intro!: progress_mark split: option.split)

lemma expire_progress: "governed_inv d \<Longrightarrow> progress d (fst (expire_raw_query_view_token d h s x now))"
  unfolding expire_raw_query_view_token_def
  by (auto simp: Let_def backs_token_def token_evolves_def progress_refl dest!: first_row_Some
      intro!: progress_mark split: option.split)

lemma view_progress:
  "governed_inv d \<Longrightarrow> get_valid_raw_query_view_token d h s x now = Some t
    \<Longrightarrow> progress d (fst (mark_raw_query_view_token_viewed d t now'))"
  unfolding get_valid_raw_query_view_token_def mark_raw_query_view_token_viewed_def
  by (auto simp: Let_def backs_token_def token_evolves_def dest!: first_row_Some intro!: progress_mark)

lemma expire_one_progress:
  "governed_inv d \<Longrightarrow> t \<in> set (db_view_tokens d) \<Longrightarrow> progress d (expire_one now t d)"
  unfolding expire_one_def
  by (auto simp: Let_def backs_token_def token_evolves_def
      intro!: progress_mark progress_put_token dest: governed_invD(2))

lemma expire_fold_progress:
  "governed_inv d \<Longrightarrow> distinct (map vt_token_id ts) \<Longrightarrow> set ts \<subseteq> set (db_view_tokens d)
    \<Longrightarrow> progress d (fold (expire_one now) ts d)"
proof (induction ts arbitrary: d)
  case Nil
  then show ?case by (simp add: progress_refl)
next
  case (Cons t ts)
  have "set ts \<subseteq> set (db_view_tokens (expire_one now t d))"
    by (rule expire_one_keeps [OF Cons.prems(2,3)])
  then show ?case
    using Cons.IH [of "expire_one now t d"] Cons.prems expire_one_inv [of d t now]
      expire_one_progress [of d t now] by (auto intro: progress_trans)
qed

lemma sweep_progress: "governed_inv d \<Longrightarrow> progress d (fst (expire_raw_query_view_tokens d now))"
  unfolding expire_raw_query_view_tokens_def Let_def fst_conv
  by (rule expire_fold_progress) (auto intro: distinct_map_filter_key governed_invD(2))

lemma governed_step_progress: "governed_inv d \<Longrightarrow> progress d (governed_step d e)"
proof (cases e)
  case (Requested i s t x a who now why)
  then show ?thesis
    by (auto simp: create_governed_action_request_def raise_simps progress_append intro!: committed_progress)
next
  case (Viewed h s x now)
  assume "governed_inv d"
  then show ?thesis by (auto simp: Viewed progress_refl intro: view_progress split: option.split)
qed (auto intro!: on_request_progress committed_progress intro: approve_progress reject_progress
    activate_progress issue_progress consume_progress expire_progress sweep_progress)

section \<open>Runs\<close>

definition governed_run :: "db \<Rightarrow> governed_event list \<Rightarrow> db" where
  "governed_run d es = fold (\<lambda>e d. governed_step d e) es d"

interpretation governed: absorbing_machine governed_step governed_inv "progress d\<^sub>0" for d\<^sub>0
  by unfold_locales (auto intro: governed_step_inv governed_step_progress progress_trans)

lemma governed_run_inv: "governed_inv d \<Longrightarrow> governed_inv (governed_run d es)"
  unfolding governed_run_def by (rule governed.run_inv)

lemma governed_run_progress: "governed_inv d \<Longrightarrow> progress d (governed_run d es)"
  unfolding governed_run_def by (rule governed.run_final) (simp_all add: progress_refl)

lemma governed_inv_empty: "db_governed_requests d = [] \<Longrightarrow> db_view_tokens d = [] \<Longrightarrow> governed_inv d"
  by (simp add: governed_inv_def)

lemma consume_Some:
  "consume_raw_query_view_token d h s x now = (d', Some t') \<longleftrightarrow>
     (\<exists>t. first_row (\<lambda>t. token_live d h s x t \<and> now < vt_expires_at t) (db_view_tokens d) = Some t
       \<and> t' = t\<lparr>vt_viewed_at := Some now\<rparr>
       \<and> d' = set_request_status (vt_request_id t) (lit ''viewed'') (put_token t' d))"
  by (auto simp: consume_raw_query_view_token_def Let_def split: option.splits)

text \<open>A token of a run that started without tokens rests on a request that was decided.\<close>

lemma live_token_request:
  assumes inv: "governed_inv d" and t: "t \<in> set (db_view_tokens d)" and live: "token_live d h s x t"
  shows "\<exists>r \<in> set (db_governed_requests d). ga_request_id r = vt_request_id t \<and> ga_service_id r = s
    \<and> ga_resource_id r = x \<and> ga_resource_type r = lit ''raw_query'' \<and> ga_action r = lit ''decrypt''
    \<and> ga_status r = lit ''token_issued'' \<and> seconded r"
proof -
  obtain r where r: "r \<in> set (db_governed_requests d)" "backs_token t r"
    using governed_invD(6) [OF inv t] by blast
  obtain q where q: "get_governed_action_request d (vt_request_id t) = Some q" "ga_status q = lit ''token_issued''"
    using live by (auto simp: token_live_def token_request_def)
  have "q = r"
    using get_request_in [OF q(1)] distinct_key [OF governed_invD(1) [OF inv] _ r(1)] r(2)
    by (auto simp: backs_token_def)
  moreover have "seconded r"
    using governed_invD(5) [OF inv r(1)] q(2) \<open>q = r\<close> by (simp add: lit_def)
  ultimately show ?thesis
    using r q(2) live by (auto simp: backs_token_def token_live_def)
qed

text \<open>a raw query is only ever shown on an approval by a second person.\<close>

theorem raw_query_view_needs_second_person:
  assumes "db_governed_requests d = []" and "db_view_tokens d = []"
    and shown: "consume_raw_query_view_token (governed_run d es) h s x now = (d', Some t)"
  shows "\<exists>r \<in> set (db_governed_requests (governed_run d es)). ga_request_id r = vt_request_id t
    \<and> ga_service_id r = s \<and> ga_resource_id r = x \<and> ga_resource_type r = lit ''raw_query''
    \<and> ga_action r = lit ''decrypt'' \<and> (\<exists>b. ga_decided_by r = Some b \<and> b \<noteq> ga_requested_by r)
    \<and> now < vt_expires_at t"
proof -
  obtain t0 where t0: "first_row (\<lambda>t. token_live (governed_run d es) h s x t \<and> now < vt_expires_at t)
      (db_view_tokens (governed_run d es)) = Some t0" "t = t0\<lparr>vt_viewed_at := Some now\<rparr>"
    using shown unfolding consume_Some by blast
  show ?thesis
    using live_token_request [OF governed_run_inv first_token(1,2) [OF t0(1)]] first_token(3) [OF t0(1)]
      governed_inv_empty [OF assms(1,2)] t0(2) by (fastforce simp: seconded_def)
qed

lemma spent_token_refused:
  assumes inv: "governed_inv d" and t: "t \<in> set (db_view_tokens d)" "vt_token_hash t = h"
    and spent: "vt_viewed_at t \<noteq> None \<or> vt_expired_at t \<noteq> None"
  shows "consume_raw_query_view_token d h s x now = (d, None)"
proof -
  have "\<not> token_live d h s x q" if q: "q \<in> set (db_view_tokens d)" for q
  proof
    assume live: "token_live d h s x q"
    then have "q = t"
      using distinct_key [OF governed_invD(3) [OF inv] q t(1)] t(2) by (simp add: token_live_def)
    then show False using live spent by (auto simp: token_live_def)
  qed
  then have "first_row (\<lambda>t. token_live d h s x t \<and> now < vt_expires_at t) (db_view_tokens d) = None"
    by (simp add: first_row_None)
  then show ?thesis by (simp add: consume_raw_query_view_token_def)
qed

text \<open>C20: a view token works once.\<close>

theorem raw_query_token_single_use:
  assumes "db_governed_requests d = []" and "db_view_tokens d = []"
    and shown: "consume_raw_query_view_token (governed_run d es) h s x now = (d', Some t)"
  shows "snd (consume_raw_query_view_token (governed_run d' es') h s' x' now') = None"
proof -
  let ?d = "governed_run d es"
  have inv: "governed_inv ?d" by (rule governed_run_inv [OF governed_inv_empty [OF assms(1,2)]])
  have inv': "governed_inv d'" using consume_inv [OF inv, of h s x now] shown by simp
  obtain t0 where t0: "first_row (\<lambda>t. token_live ?d h s x t \<and> now < vt_expires_at t) (db_view_tokens ?d) = Some t0"
      "t = t0\<lparr>vt_viewed_at := Some now\<rparr>" "d' = set_request_status (vt_request_id t0) (lit ''viewed'') (put_token t ?d)"
    using shown unfolding consume_Some by blast
  have "vt_token_hash t = h" using first_token(2) [OF t0(1)] t0(2) by (simp add: token_live_def)
  moreover have "t \<in> set (db_view_tokens d')"
    using put_row_mem [OF first_token(1) [OF t0(1)], of vt_token_id t] t0(2,3)
    by (simp add: set_request_status_def put_token_def)
  ultimately obtain t' where "t' \<in> set (db_view_tokens (governed_run d' es'))" "vt_token_hash t' = h"
      "vt_viewed_at t' \<noteq> None"
    using governed_run_progress [OF inv', of es'] t0(2) unfolding progress_def token_evolves_def by force
  then show ?thesis using spent_token_refused [OF governed_run_inv [OF inv']] by simp
qed

text \<open>a decision is made by a second person and is never changed.\<close>

theorem governed_decision_final:
  assumes "db_governed_requests d = []" and "db_view_tokens d = []"
    and r: "r \<in> set (db_governed_requests (governed_run d es))" and decided: "ga_status r \<noteq> lit ''pending''"
  shows "ga_decided_by r \<noteq> Some (ga_requested_by r)
    \<and> (\<exists>r' \<in> set (db_governed_requests (governed_run (governed_run d es) es')).
        ga_request_id r' = ga_request_id r \<and> ga_decided_by r' = ga_decided_by r
        \<and> ga_decided_at r' = ga_decided_at r \<and> ga_decision_reason r' = ga_decision_reason r
        \<and> (ga_status r = lit ''rejected'' \<longrightarrow> ga_status r' = lit ''rejected''))"
proof -
  have inv: "governed_inv (governed_run d es)"
    by (rule governed_run_inv [OF governed_inv_empty [OF assms(1,2)]])
  show ?thesis
    using governed_invD(5) [OF inv r decided] governed_run_progress [OF inv, of es'] r decided
    unfolding progress_def seconded_def request_evolves_def decision_of_def by blast
qed

section \<open>A run\<close>

definition view_events :: "governed_event list" where
  "view_events =
     [Requested [1] [2] (lit ''raw_query'') [3] (lit ''decrypt'') [4] 10 [5], Approved [1] [6] 20 None,
      Issued [1] [7] [8] 100 [4] 30]"

lemmas governed_defs = governed_run_def committed_def on_request_def pending_request_def
  create_governed_action_request_def approve_governed_action_request_def
  require_pending_governed_request_def issue_raw_query_view_token_def get_governed_action_request_def
  put_request_def put_row_def update_where_def first_row_def insert_row_def require_allowed_value_def
  require_nonblank_string_def governed_resource_types_def governed_actions_def
  governed_request_statuses_def consume_raw_query_view_token_def token_live_def token_request_def
  put_token_def set_request_status_def require_def Let_def lit_def

lemma view_run:
  "db_governed_requests (governed_run empty_db view_events)
     = [\<lparr>ga_request_id = [1], ga_service_id = [2], ga_resource_type = lit ''raw_query'',
          ga_resource_id = [3], ga_action = lit ''decrypt'', ga_status = lit ''token_issued'',
          ga_requested_by = [4], ga_requested_at = 10, ga_decided_by = Some [6], ga_decided_at = Some 20,
          ga_reason = [5], ga_decision_reason = None\<rparr>]"
  "db_view_tokens (governed_run empty_db view_events)
     = [\<lparr>vt_token_id = [7], vt_request_id = [1], vt_service_id = [2], vt_trace_id = [3], vt_token_hash = [8],
          vt_expires_at = 100, vt_issued_by = [4], vt_issued_at = 30, vt_viewed_at = None,
          vt_expired_at = None\<rparr>]"
  by (simp_all add: view_events_def empty_db_def governed_defs blank_def strip_def lstrip_def rstrip_def is_space_def)

lemma view_shown:
  "\<exists>d' t. consume_raw_query_view_token (governed_run empty_db view_events) [8] [2] [3] 50 = (d', Some t)"
  by (simp add: consume_raw_query_view_token_def token_live_def token_request_def
      get_governed_action_request_def first_row_def view_run Let_def)

lemma empty_db_tables [simp]: "db_governed_requests empty_db = []" "db_view_tokens empty_db = []"
  by (simp_all add: empty_db_def)

text \<open>The approved view request of the run is shown, and its author is not who approved it.\<close>

theorem raw_query_view_needs_second_person_witness:
  "\<exists>d' t. consume_raw_query_view_token (governed_run empty_db view_events) [8] [2] [3] 50 = (d', Some t)
    \<and> (\<exists>r \<in> set (db_governed_requests (governed_run empty_db view_events)).
        ga_resource_id r = [3] \<and> ga_action r = lit ''decrypt''
        \<and> (\<exists>b. ga_decided_by r = Some b \<and> b \<noteq> ga_requested_by r) \<and> 50 < vt_expires_at t)"
proof -
  obtain d' t where shown:
      "consume_raw_query_view_token (governed_run empty_db view_events) [8] [2] [3] 50 = (d', Some t)"
    using view_shown by blast
  show ?thesis
    using raw_query_view_needs_second_person [OF empty_db_tables shown] shown by blast
qed

text \<open>Showing it again, whatever happens in between, is refused.\<close>

theorem raw_query_token_single_use_witness:
  "\<exists>d' t. consume_raw_query_view_token (governed_run empty_db view_events) [8] [2] [3] 50 = (d', Some t)
    \<and> snd (consume_raw_query_view_token (governed_run d' view_events) [8] [2] [3] 60) = None"
proof -
  obtain d' t where shown:
      "consume_raw_query_view_token (governed_run empty_db view_events) [8] [2] [3] 50 = (d', Some t)"
    using view_shown by blast
  show ?thesis
    using raw_query_token_single_use [OF empty_db_tables shown] shown by blast
qed

text \<open>The approval of the run survives a rejection that comes too late.\<close>

theorem governed_decision_final_witness:
  "\<exists>r \<in> set (db_governed_requests (governed_run (governed_run empty_db view_events) [Rejected [1] [9] 70 [5]])).
     ga_decided_by r = Some [6] \<and> ga_decided_at r = Some 20"
  using governed_decision_final [OF empty_db_tables, of _ view_events "[Rejected [1] [9] 70 [5]]"]
  by (fastforce simp: view_run(1) lit_def)

end
