(* ===== verification/Raw_Query_Handlers.thy ===== *)
theory Raw_Query_Handlers
  imports Example_Handlers Rewrap Governance
begin

text \<open>
  The raw query of a runtime log: the handlers of \<open>api/admin.py\<close> that request, decide and open a view of it,
  \<open>logging/audit.py\<close> which reads it, and \<open>ops/retention.py\<close> which removes it when it is old.
\<close>

section \<open>Reading a log\<close>

definition runtime_log_encrypted_raw_query :: "runtime_log \<Rightarrow> encrypted_text option" where
  "runtime_log_encrypted_raw_query r = runtime_log_encrypted_query r"

definition decrypt_runtime_raw_query ::
  "aead \<Rightarrow> raw_text_keyring \<Rightarrow> runtime_log \<Rightarrow> (crypto_error, str option) outcome" where
  "decrypt_runtime_raw_query A ring r =
     (case runtime_log_encrypted_raw_query r of
        None \<Rightarrow> Inr None
      | Some e \<Rightarrow> bindE (keyring_decrypt A ring e None) (\<lambda>p. Inr (Some p)))"

definition raw_query_view_after_state :: "runtime_log \<Rightarrow> (str \<times> json) list" where
  "raw_query_view_after_state r =
     [(lit ''trace_id'', JStr (rl_trace_id r)), (lit ''service_id'', json_str_option (rl_service_id r)),
      (lit ''query_raw_viewed'', JBool True)]"

section \<open>Audit states\<close>

definition phase2_safe_audit_reason :: str where
  "phase2_safe_audit_reason = lit ''governed workflow reason supplied''"

definition safe_phase2_audit_reason :: "str option \<Rightarrow> str option" where
  "safe_phase2_audit_reason reason = map_option (\<lambda>_. phase2_safe_audit_reason) reason"

text \<open>The field is taken out, and whether it held a text is put at the end.\<close>

definition hide_reason :: "string \<Rightarrow> (str, json) dict \<Rightarrow> (str, json) dict" where
  "hide_reason field values =
     (case map_of values (lit field) of
        None \<Rightarrow> values
      | Some v \<Rightarrow> dict_put (lit field @ lit ''_present'')
          (JBool (case v of JStr s \<Rightarrow> strip s \<noteq> [] | _ \<Rightarrow> False)) (filter (\<lambda>(k, _). k \<noteq> lit field) values))"

definition safe_phase2_audit_state :: "(str, json) dict \<Rightarrow> (str, json) dict" where
  "safe_phase2_audit_state values = hide_reason ''decision_reason'' (hide_reason ''reason'' values)"

record raw_query_view_request_response =
  vr_request_id :: str
  vr_service_id :: str
  vr_trace_id :: str
  vr_status :: str
  vr_requested_by :: str
  vr_requested_at :: timestamp
  vr_decided_by :: "str option"
  vr_decided_at :: "timestamp option"
  vr_reason :: str
  vr_decision_reason :: "str option"

definition raw_query_view_request_response_of :: "governed_action_request \<Rightarrow> raw_query_view_request_response" where
  "raw_query_view_request_response_of r =
     \<lparr>vr_request_id = ga_request_id r, vr_service_id = ga_service_id r, vr_trace_id = ga_resource_id r,
      vr_status = ga_status r, vr_requested_by = ga_requested_by r, vr_requested_at = ga_requested_at r,
      vr_decided_by = ga_decided_by r, vr_decided_at = ga_decided_at r, vr_reason = ga_reason r,
      vr_decision_reason = ga_decision_reason r\<rparr>"

text \<open>\<open>model_dump(mode="json")\<close> of the response, in the order of its fields.\<close>

definition view_request_state :: "admin_env \<Rightarrow> governed_action_request \<Rightarrow> (str, json) dict" where
  "view_request_state en r = safe_phase2_audit_state
     [(lit ''request_id'', JStr (ga_request_id r)), (lit ''service_id'', JStr (ga_service_id r)),
      (lit ''trace_id'', JStr (ga_resource_id r)), (lit ''resource_type'', JStr (lit ''raw_query'')),
      (lit ''action'', JStr (lit ''decrypt'')), (lit ''status'', JStr (ga_status r)),
      (lit ''requested_by'', JStr (ga_requested_by r)), (lit ''requested_at'', JStr (en_dump_time en (ga_requested_at r))),
      (lit ''decided_by'', json_str_option (ga_decided_by r)), (lit ''decided_at'', json_time_option en (ga_decided_at r)),
      (lit ''reason'', JStr (ga_reason r)), (lit ''decision_reason'', json_str_option (ga_decision_reason r))]"

definition raw_query_token_audit_state :: "raw_query_view_token \<Rightarrow> bool \<Rightarrow> str \<Rightarrow> (str \<times> json) list" where
  "raw_query_token_audit_state t include_terminal_timestamps status =
     [(lit ''request_id'', JStr (vt_request_id t)), (lit ''service_id'', JStr (vt_service_id t)),
      (lit ''trace_id'', JStr (vt_trace_id t)), (lit ''status'', JStr status),
      (lit ''expires_at'', JStr (isoformat (vt_expires_at t)))]
     @ (if include_terminal_timestamps
        then some_field ''expired_at'' (map_option (JStr \<circ> isoformat) (vt_expired_at t))
          @ some_field ''viewed_at'' (map_option (JStr \<circ> isoformat) (vt_viewed_at t)) else [])"

text \<open>The status of the request a token belongs to; a token always has one.\<close>

definition token_request_status :: "db \<Rightarrow> raw_query_view_token \<Rightarrow> str" where
  "token_request_status d t = (case token_request d t of Some r \<Rightarrow> ga_status r | None \<Rightarrow> [])"

section \<open>Requests\<close>

definition raw_query_audit ::
  "admin_env \<Rightarrow> string \<Rightarrow> admin_context \<Rightarrow> str \<Rightarrow> str \<Rightarrow> string \<Rightarrow> str \<Rightarrow> str option \<Rightarrow> (str \<times> json) list option
    \<Rightarrow> (str \<times> json) list option \<Rightarrow> timestamp \<Rightarrow> db \<Rightarrow> (http_error, db) outcome" where
  "raw_query_audit en event_type cx service_id trace_id target_type target_id reason before_state after_state now d =
     audit_entry en 0 event_type (cx_actor_id cx) (Some service_id) (Some trace_id) target_type target_id
       (safe_phase2_audit_reason reason) (en_source_ip en) before_state after_state now d"

definition create_raw_query_view_request ::
  "admin_env \<Rightarrow> str \<Rightarrow> str \<Rightarrow> str \<Rightarrow> admin_context \<Rightarrow> db
    \<Rightarrow> (http_error, db \<times> raw_query_view_request_response) outcome" where
  "create_raw_query_view_request en service_id trace_id reason cx d =
     bindE (require_raw_query_request_access cx service_id) (\<lambda>_.
     let now = en_clock en 0 in
     bindE (ensure_service_exists d service_id) (\<lambda>_.
     bindE (some_or (get_masked_runtime_log d service_id trace_id) (raise_not_found ''Runtime log does not exist.'')) (\<lambda>_.
     bindE (unhandled (create_governed_action_request d (pending_request (lit ''gar_'' @ en_uuid_hex en 0) service_id
       (lit ''raw_query'') trace_id (lit ''decrypt'') (cx_actor_id cx) now reason))) (\<lambda>(d1, r).
     bindE (raw_query_audit en ''raw_query.requested'' cx service_id trace_id ''raw_query_view_request'' (ga_request_id r)
       (Some reason) None (Some (view_request_state en r)) now d1) (\<lambda>d2.
     Inr (d2, raw_query_view_request_response_of r))))))"

definition raw_query_view_request_or_404 :: "db \<Rightarrow> str \<Rightarrow> str \<Rightarrow> (http_error, governed_action_request) outcome" where
  "raw_query_view_request_or_404 d service_id request_id =
     bindE (some_or (get_governed_action_request d request_id) (raise_not_found ''Raw query view request does not exist.''))
       (\<lambda>r.
     bindE (require (ga_service_id r = service_id \<and> ga_resource_type r = lit ''raw_query'' \<and> ga_action r = lit ''decrypt'')
       (raise_not_found ''Raw query view request does not exist.'')) (\<lambda>_. Inr r))"

text \<open>The messages of the exceptions that decisions and tokens raise; an integrity error is not a \<open>ValueError\<close>.\<close>

fun governed_error_message :: "repo_error \<Rightarrow> str" where
  "governed_error_message Governed_Request_Not_Pending = lit ''governed request must be pending''"
| "governed_error_message (Must_Not_Be_Blank field) = field @ lit '' must not be blank''"
| "governed_error_message Author_Cannot_Approve = lit ''request author cannot approve own request''"
| "governed_error_message Author_Cannot_Reject = lit ''request author cannot reject own request''"
| "governed_error_message Token_Requires_Decrypt_Request = lit ''raw query view token requires a raw_query decrypt request''"
| "governed_error_message Token_Requires_Approval = lit ''raw query view request must be approved before token issue''"
| "governed_error_message Token_Expiry_Not_After_Issue = lit ''raw query view token expiry must be after issue time''"
| "governed_error_message _ = []"

definition governed_conflict :: "repo_error \<Rightarrow> http_error" where
  "governed_conflict e = (if e = Integrity_Error then Unhandled e else Http_Error 409 INVALID_REQUEST (governed_error_message e))"

definition decision_error :: "repo_error \<Rightarrow> http_error" where
  "decision_error e =
     (if e \<noteq> Integrity_Error \<and> py_in (lit ''request author'') (governed_error_message e)
      then Http_Error 403 SERVICE_SCOPE_DENIED (governed_error_message e) else governed_conflict e)"

definition approve_raw_query_view_request ::
  "admin_env \<Rightarrow> str \<Rightarrow> str \<Rightarrow> str option \<Rightarrow> admin_context \<Rightarrow> db
    \<Rightarrow> (http_error, db \<times> raw_query_view_request_response) outcome" where
  "approve_raw_query_view_request en service_id request_id reason cx d =
     bindE (require_raw_query_decision_access cx service_id) (\<lambda>_.
     let now = en_clock en 0 in
     bindE (raw_query_view_request_or_404 d service_id request_id) (\<lambda>r.
     bindE (lift_error decision_error (approve_governed_action_request d r (cx_actor_id cx) now reason)) (\<lambda>(d1, r1).
     bindE (raw_query_audit en ''raw_query.approved'' cx service_id (ga_resource_id r1) ''raw_query_view_request''
       (ga_request_id r1) reason (Some (view_request_state en r)) (Some (view_request_state en r1)) now d1) (\<lambda>d2.
     Inr (d2, raw_query_view_request_response_of r1)))))"

definition reject_raw_query_view_request ::
  "admin_env \<Rightarrow> str \<Rightarrow> str \<Rightarrow> str option \<Rightarrow> admin_context \<Rightarrow> db
    \<Rightarrow> (http_error, db \<times> raw_query_view_request_response) outcome" where
  "reject_raw_query_view_request en service_id request_id reason cx d =
     bindE (some_or reason (raise_validation_failed ''Request validation failed.'')) (\<lambda>why.
     bindE (require_raw_query_decision_access cx service_id) (\<lambda>_.
     let now = en_clock en 0 in
     bindE (raw_query_view_request_or_404 d service_id request_id) (\<lambda>r.
     bindE (lift_error decision_error (reject_governed_action_request d r (cx_actor_id cx) now why)) (\<lambda>(d1, r1).
     bindE (raw_query_audit en ''raw_query.rejected'' cx service_id (ga_resource_id r1) ''raw_query_view_request''
       (ga_request_id r1) reason (Some (view_request_state en r)) (Some (view_request_state en r1)) now d1) (\<lambda>d2.
     Inr (d2, raw_query_view_request_response_of r1))))))"

section \<open>Tokens and the view\<close>

definition hash_raw_query_view_token :: "admin_env \<Rightarrow> str \<Rightarrow> (http_error, str) outcome" where
  "hash_raw_query_view_token en token =
     (if blank token then Inl (Unhandled_Value_Error (lit ''raw query view token must not be blank''))
      else Inr (token_digest en token))"

record raw_query_token_response =
  tr_request_id :: str
  tr_token :: str
  tr_expires_at :: timestamp

definition issue_raw_query_view_token_handler ::
  "admin_env \<Rightarrow> str \<Rightarrow> str \<Rightarrow> int \<Rightarrow> admin_context \<Rightarrow> db \<Rightarrow> (http_error, db \<times> raw_query_token_response) outcome" where
  "issue_raw_query_view_token_handler en service_id request_id ttl_seconds cx d =
     (let now = en_clock en 0; raw_token = lit ''rqv_'' @ en_token en; expires_at = now + 1000000 * ttl_seconds in
      bindE (raw_query_view_request_or_404 d service_id request_id) (\<lambda>r.
      bindE (require_raw_query_token_requester cx r) (\<lambda>_.
      bindE (hash_raw_query_view_token en raw_token) (\<lambda>token_hash.
      bindE (lift_error governed_conflict (issue_raw_query_view_token d r (lit ''rqt_'' @ en_uuid_hex en 0) token_hash
        expires_at (cx_actor_id cx) now)) (\<lambda>(d1, t).
      bindE (raw_query_audit en ''raw_query.token_issued'' cx service_id (ga_resource_id r) ''raw_query_view_request''
        (ga_request_id r) None (Some (view_request_state en r))
        (Some (raw_query_token_audit_state t True (token_request_status d1 t)
          @ [(lit ''token_returned_once'', JBool True)])) now d1) (\<lambda>d2.
      Inr (d2, \<lparr>tr_request_id = ga_request_id r, tr_token = raw_token, tr_expires_at = expires_at\<rparr>)))))))"

record raw_query_decrypt_response =
  dr_trace_id :: str
  dr_service_id :: str
  dr_query_raw :: str
  dr_viewed_by :: str
  dr_viewed_at :: timestamp

text \<open>A consumed token opens the log; anything that fails takes the consumption back.\<close>

definition view_raw_query ::
  "key_env \<Rightarrow> str \<Rightarrow> str \<Rightarrow> str \<Rightarrow> admin_context \<Rightarrow> raw_query_view_token \<Rightarrow> timestamp \<Rightarrow> db
    \<Rightarrow> (http_error, db \<times> raw_query_decrypt_response) outcome" where
  "view_raw_query ke service_id trace_id view_reason cx t now d =
     (let en = ke_admin ke in
      bindE (some_or (token_request d t) (raise_not_found ''Raw query view request does not exist.'')) (\<lambda>request.
      bindE (require_raw_query_token_requester cx request) (\<lambda>_.
      bindE (some_or (get_runtime_log_for_decrypt d service_id trace_id) (raise_not_found ''Runtime log does not exist.''))
        (\<lambda>r.
      bindE (require (rl_raw_query_deleted_at r = None \<and> runtime_log_encrypted_raw_query r \<noteq> None)
        raise_raw_query_unavailable) (\<lambda>_.
      bindE (raw_text_keyring_or_500 (en_variable en)) (\<lambda>ring.
      bindE (lift_error (\<lambda>_. raise_raw_query_unavailable) (decrypt_runtime_raw_query (ke_aead ke) ring r)) (\<lambda>p.
      bindE (some_or p raise_raw_query_unavailable) (\<lambda>query_raw.
      bindE (raw_query_audit en ''raw_query.viewed'' cx service_id trace_id ''runtime_log'' trace_id (Some view_reason)
        None (Some (raw_query_view_after_state r)) now d) (\<lambda>d1.
      Inr (d1, \<lparr>dr_trace_id = trace_id, dr_service_id = service_id, dr_query_raw = query_raw,
        dr_viewed_by = cx_actor_id cx, dr_viewed_at = now\<rparr>))))))))))"

text \<open>
  The reply with the committed database: an expired token is marked and recorded although the request is refused.
\<close>

definition decrypt_raw_runtime_query ::
  "key_env \<Rightarrow> str \<Rightarrow> str \<Rightarrow> str \<Rightarrow> str option \<Rightarrow> admin_context \<Rightarrow> db
    \<Rightarrow> db \<times> (http_error, raw_query_decrypt_response) outcome" where
  "decrypt_raw_runtime_query ke service_id trace_id view_reason token cx d =
     (let en = ke_admin ke; now = en_clock en 0;
          forbidden = raise_admin_forbidden ''Approved raw query view token is required.'' in
      case bindE (ensure_service_exists d service_id) (\<lambda>_. bindE (some_or token forbidden) (hash_raw_query_view_token en)) of
        Inl e \<Rightarrow> (d, Inl e)
      | Inr token_hash \<Rightarrow>
          (case consume_raw_query_view_token d token_hash service_id trace_id now of
             (d1, Some t) \<Rightarrow>
               (case view_raw_query ke service_id trace_id view_reason cx t now d1 of
                  Inl e \<Rightarrow> (d, Inl e)
                | Inr (d2, response) \<Rightarrow> (d2, Inr response))
           | (_, None) \<Rightarrow>
               (case expire_raw_query_view_token d token_hash service_id trace_id now of
                  (_, None) \<Rightarrow> (d, Inl forbidden)
                | (d1, Some t) \<Rightarrow>
                    (case raw_query_audit en ''raw_query.token_expired'' cx service_id trace_id ''raw_query_view_request''
                        (vt_request_id t) None (Some (raw_query_token_audit_state t False (lit ''token_issued'')))
                        (Some (raw_query_token_audit_state t True (token_request_status d1 t))) now d1 of
                       Inl e \<Rightarrow> (d, Inl e)
                     | Inr d2 \<Rightarrow> (d2, Inl forbidden)))))"

section \<open>Retention\<close>

record raw_query_retention_plan =
  rp_service_id :: str
  rp_older_than_days :: int
  rp_eligible_trace_ids :: "str list"
  rp_already_redacted_count :: nat

definition plan_runtime_raw_query_redaction ::
  "(str \<Rightarrow> nat) \<Rightarrow> db \<Rightarrow> str \<Rightarrow> int \<Rightarrow> int \<Rightarrow> timestamp \<Rightarrow> (str, raw_query_retention_plan) outcome" where
  "plan_runtime_raw_query_redaction collate d service_id older_than_days limit now =
     bindE (require (0 \<le> older_than_days) (lit ''older_than_days must be non-negative'')) (\<lambda>_.
     bindE (require (1 \<le> limit) (lit ''limit must be at least 1'')) (\<lambda>_.
     let cutoff = now - days older_than_days;
         old = filter (\<lambda>r. rl_service_id r = Some service_id \<and> rl_created_at r < cutoff) (db_runtime_logs d);
         eligible = filter (\<lambda>r. rl_raw_query_deleted_at r = None \<and> has_raw_query r) old in
     Inr \<lparr>rp_service_id = service_id, rp_older_than_days = older_than_days,
       rp_eligible_trace_ids = map rl_trace_id (take (nat limit) (order_by (\<lambda>r. (rl_created_at r, collate (rl_trace_id r))) eligible)),
       rp_already_redacted_count = length (filter (\<lambda>r. rl_raw_query_deleted_at r \<noteq> None) old)\<rparr>))"

definition redaction_audit ::
  "admin_env \<Rightarrow> str \<Rightarrow> str \<Rightarrow> str \<Rightarrow> timestamp \<Rightarrow> nat \<times> str \<Rightarrow> db \<Rightarrow> (http_error, db) outcome" where
  "redaction_audit en service_id actor_id reason deleted_at = (\<lambda>(k, trace_id) d.
     audit_entry en k ''runtime_log.raw_query_redacted'' actor_id (Some service_id) (Some trace_id) ''runtime_log'' trace_id
       None None None (Some [(lit ''trace_id'', JStr trace_id), (lit ''service_id'', JStr service_id),
         (lit ''raw_query_redacted'', JBool True), (lit ''reason'', JStr reason)]) deleted_at d)"

definition apply_runtime_raw_query_redaction ::
  "admin_env \<Rightarrow> str \<Rightarrow> str list \<Rightarrow> str \<Rightarrow> str \<Rightarrow> db \<Rightarrow> (http_error, db \<times> nat) outcome" where
  "apply_runtime_raw_query_redaction en service_id trace_ids actor_id reason d =
     (let trace_id_values = rev (remdups (rev trace_ids)) in
      if trace_id_values = [] then Inr (d, 0)
      else let deleted_at = en_clock en 0;
               (d1, redacted) = redact_runtime_raw_query_trace_ids d service_id trace_id_values actor_id reason deleted_at in
        bindE (foldE (redaction_audit en service_id actor_id reason deleted_at) (enumerate 0 redacted) d1) (\<lambda>d2.
        Inr (d2, length redacted)))"

end
