(* ===== verification/Diagnostics.thy ===== *)
theory Diagnostics
  imports Catalogs Test_Run
begin

text \<open>
  \<open>diagnostics/test_runs.py\<close>: what stands in the way of a test run, from the statistics of its catalog version, its
  summary and its results, the most urgent issue first.
\<close>

section \<open>Issues\<close>

record diagnostic_issue =
  is_code :: str
  is_severity :: str
  is_evidence :: "(str \<times> json) list"

definition issue :: "string \<Rightarrow> string \<Rightarrow> (string \<times> json) list \<Rightarrow> diagnostic_issue" where
  "issue code severity evidence = \<lparr>is_code = lit code, is_severity = lit severity,
     is_evidence = map (\<lambda>(k, v). (lit k, v)) evidence\<rparr>"

definition issue_code_priority :: "(str, nat) dict" where
  "issue_code_priority = [(lit ''catalog_version_not_active'', 0), (lit ''catalog_version_not_reproducible'', 1),
     (lit ''catalog_version_has_no_intents'', 2), (lit ''catalog_version_has_no_examples'', 3),
     (lit ''test_run_vector_index_not_ready'', 4), (lit ''catalog_version_has_no_ready_vector_index'', 5),
     (lit ''catalog_version_has_no_embeddings'', 6), (lit ''risk_case_failed'', 10),
     (lit ''fallback_failures_dominant'', 20), (lit ''intent_mismatch_exists'', 21), (lit ''pass_rate_below_gate'', 30),
     (lit ''review_rate_above_guidance'', 31)]"

definition priority_of :: "diagnostic_issue \<Rightarrow> nat" where
  "priority_of i = the (map_of issue_code_priority (is_code i))"

definition json_option :: "str option \<Rightarrow> json" where
  "json_option v = (case v of None \<Rightarrow> JNull | Some s \<Rightarrow> JStr s)"

definition issue_if :: "bool \<Rightarrow> 'a \<Rightarrow> 'a list" where
  "issue_if b x = (if b then [x] else [])"

text \<open>The issues of the catalog version.\<close>

definition catalog_issues :: "catalog_diagnostic_record \<Rightarrow> diagnostic_issue list" where
  "catalog_issues c =
     issue_if (cd_status c \<noteq> lit ''active'')
       (issue ''catalog_version_not_active'' ''blocker'' [(''status'', JStr (cd_status c))])
     @ issue_if (cd_reproducibility_status c \<noteq> lit ''complete'') (issue ''catalog_version_not_reproducible'' ''blocker''
         [(''reproducibility_status'', JStr (cd_reproducibility_status c))])
     @ (if cd_intent_count c = 0 then [issue ''catalog_version_has_no_intents'' ''blocker'' [(''intent_count'', JInt 0)]]
        else if cd_example_count c = 0
        then [issue ''catalog_version_has_no_examples'' ''blocker'' [(''example_count'', JInt 0)]]
        else if cd_ready_vector_index_version c = None
        then [issue ''catalog_version_has_no_ready_vector_index'' ''blocker'' [(''ready_vector_index_version'', JNull)]]
        else if cd_test_run_vector_index_version c \<noteq> None \<and> cd_test_run_vector_index_ready c = Some False
        then [issue ''test_run_vector_index_not_ready'' ''blocker''
          [(''test_run_vector_index_version'', json_option (cd_test_run_vector_index_version c)),
           (''test_run_vector_index_status'', json_option (cd_test_run_vector_index_status c))]]
        else if cd_embedding_count c = 0
        then [issue ''catalog_version_has_no_embeddings'' ''blocker'' [(''embedding_count'', JInt 0)]]
        else [])"

text \<open>
  The issues of the run. The column \<open>result\<close> holds one of the constants of the test runner, so that upper-casing
  concerns ASCII letters only.
\<close>

definition failed_rows :: "test_result list \<Rightarrow> test_result list" where
  "failed_rows results = filter (\<lambda>r. ascii_upper (ts_result r) = lit ''FAIL'') results"

definition fallback_fail_count :: "test_result list \<Rightarrow> nat" where
  "fallback_fail_count results = length (filter (\<lambda>r. ts_actual_decision r = lit ''fallback'') (failed_rows results))"

definition intent_mismatch_count :: "test_result list \<Rightarrow> nat" where
  "intent_mismatch_count results =
     length (filter (\<lambda>r. ts_reason r = lit ''actual intent did not match expected intent'') (failed_rows results))"

definition run_issues :: "csv_test_run_summary \<Rightarrow> test_result list \<Rightarrow> diagnostic_issue list" where
  "run_issues s results =
     issue_if (su_risk_pass_rate s < 1)
       (issue ''risk_case_failed'' ''blocker'' [(''risk_pass_rate'', JFloat (su_risk_pass_rate s))])
     @ issue_if (failed_rows results \<noteq> [] \<and> decimal 5 1 \<le> int_ratio (int (fallback_fail_count results)) (int (length (failed_rows results))))
         (issue ''fallback_failures_dominant'' ''warning''
           [(''fallback_fail_count'', JInt (int (fallback_fail_count results))),
            (''failed_count'', JInt (int (length (failed_rows results))))])
     @ issue_if (0 < intent_mismatch_count results) (issue ''intent_mismatch_exists'' ''warning''
         [(''intent_mismatch_count'', JInt (int (intent_mismatch_count results)))])
     @ issue_if (list_ex (prefix (lit ''pass rate below '')) (su_block_reasons s))
         (issue ''pass_rate_below_gate'' ''blocker'' [(''pass_rate'', JFloat (su_pass_rate s)),
           (''block_reasons'', JArr (map JStr (su_block_reasons s)))])
     @ issue_if (list_ex (prefix (lit ''review rate above '')) (su_recommendations s))
         (issue ''review_rate_above_guidance'' ''recommendation'' [(''review_rate'', JFloat (su_review_rate s)),
           (''recommendations'', JArr (map JStr (su_recommendations s)))])"

text \<open>\<open>Counter(values)\<close>\<close>

definition counter :: "str list \<Rightarrow> (str, nat) dict" where
  "counter values = fold (\<lambda>v c. dict_put v (case map_of c v of Some n \<Rightarrow> n + 1 | None \<Rightarrow> 1) c) values []"

record test_run_diagnostics =
  dg_primary_issue :: "diagnostic_issue option"
  dg_issues :: "diagnostic_issue list"
  dg_catalog_version :: catalog_diagnostic_record
  dg_result_counts :: "(str, nat) dict"
  dg_actual_decision_counts :: "(str, nat) dict"

definition diagnose_test_run ::
  "csv_test_run_summary \<Rightarrow> catalog_diagnostic_record \<Rightarrow> test_result list \<Rightarrow> test_run_diagnostics" where
  "diagnose_test_run summary c results =
     (let issues = sort_key priority_of (catalog_issues c @ run_issues summary results) in
      \<lparr>dg_primary_issue = (case issues of [] \<Rightarrow> None | i # _ \<Rightarrow> Some i), dg_issues = issues, dg_catalog_version = c,
       dg_result_counts = counter (map (\<lambda>r. ascii_upper (ts_result r)) results),
       dg_actual_decision_counts = counter (map ts_actual_decision results)\<rparr>)"

definition issue_codes :: "test_run_diagnostics \<Rightarrow> str list" where
  "issue_codes g = map is_code (dg_issues g)"

section \<open>A created version is ready\<close>

lemma catalog_issues_none:
  "cd_status c = lit ''active'' \<Longrightarrow> cd_reproducibility_status c = lit ''complete'' \<Longrightarrow> 0 < cd_intent_count c
    \<Longrightarrow> 0 < cd_example_count c \<Longrightarrow> cd_ready_vector_index_version c \<noteq> None \<Longrightarrow> cd_test_run_vector_index_ready c \<noteq> Some False
    \<Longrightarrow> 0 < cd_embedding_count c \<Longrightarrow> catalog_issues c = []"
  by (simp add: catalog_issues_def issue_if_def)

lemma filter_none_append: "(\<forall>q \<in> set rows. \<not> P q) \<Longrightarrow> filter P (rows @ new) = filter P new"
  by simp

text \<open>
  C9: a catalog version that was created from at least one example can be looked up, its snapshot is read by the runtime
  as exactly the intents of the service, and with its vector index the diagnosis of a test run finds nothing wrong with
  it: only the run itself can have issues.
\<close>

theorem created_catalog_ready:
  assumes "create_catalog_version cn d service description created_by now model_version source = Inr (d', r)"
    and "catalog_examples (cn_collate cn) d (sv_service_id service) \<noteq> []"
    and "\<forall>q \<in> set (db_vector_indexes d). vi_intent_catalog_version q \<noteq> cv_intent_catalog_version r"
  shows "get_catalog_version d' (sv_service_id service) (cv_intent_catalog_version r) = Some r
    \<and> candidates_from_snapshot (get (json_dict (cv_snapshot r)) (lit ''intents''))
        = map candidate_of_intent (list_intents (cn_collate cn) d (sv_service_id service))
    \<and> (\<exists>index c. get_ready_vector_index_version (cn_collate cn) d' (sv_service_id service) (cv_intent_catalog_version r)
            (Some model_version) = Some index
        \<and> get_catalog_version_diagnostic_record (cn_collate cn) d' (sv_service_id service) (cv_intent_catalog_version r)
            (Some model_version) (Some (vi_vector_index_version index)) = Some c
        \<and> (\<forall>summary results. dg_issues (diagnose_test_run summary c results) = sort_key priority_of (run_issues summary results)))"
proof (rule create_catalog_versionE [OF assms(1)])
  fix index emb
  assume d': "d' = d\<lparr>db_catalog_versions := db_catalog_versions d @ [r],
      db_vector_indexes := db_vector_indexes d @ [index_row r model_version index],
      db_example_embeddings := db_example_embeddings d @ catalog_rows cn d r model_version index emb\<rparr>"
    and n: "length emb = length (catalog_examples (cn_collate cn) d (cv_service_id r))"
    and conflict: "\<forall>q \<in> set (db_catalog_versions d). \<not> catalog_conflict r q"
    and fresh: "index \<notin> vi_vector_index_version ` set (db_vector_indexes d)"
    and r: "cv_service_id r = sv_service_id service" "cv_status r = lit ''active''" "cv_reproducibility_status r = lit ''complete''"
      "cv_snapshot r = catalog_snapshot (cn_collate cn) d (cv_service_id r)"
  let ?s = "sv_service_id service" and ?i = "index_row r model_version index"
  have found: "get_catalog_version d' ?s (cv_intent_catalog_version r) = Some r"
    using created_found [OF conflict] by (simp add: get_catalog_version_def d' r(1))
  have ready: "get_ready_vector_index_version (cn_collate cn) d' ?s (cv_intent_catalog_version r) (Some model_version) = Some ?i"
    using assms(3) by (simp add: get_ready_vector_index_version_def d' ready_index_def index_row_def r(1) order_by_def first_row_def)
  have selected: "first_row (\<lambda>q. vi_service_id q = ?s \<and> vi_intent_catalog_version q = cv_intent_catalog_version r
      \<and> vi_vector_index_version q = index \<and> matches_version (Some model_version) (vi_model_version q)) (db_vector_indexes d') = Some ?i"
    using fresh by (subst d', simp, subst first_row_new) (auto simp: index_row_def r(1) matches_version_def first_row_def)
  obtain c where c: "get_catalog_version_diagnostic_record (cn_collate cn) d' ?s (cv_intent_catalog_version r)
      (Some model_version) (Some index) = Some c" "cd_status c = lit ''active''" "cd_reproducibility_status c = lit ''complete''"
    "cd_intent_count c = length (list_intents (cn_collate cn) d ?s)"
    "cd_example_count c = length (catalog_examples (cn_collate cn) d ?s)"
    "cd_ready_vector_index_version c = Some index" "cd_test_run_vector_index_ready c = Some True"
    "cd_embedding_count c = length (filter (\<lambda>q. ce_service_id q = ?s \<and> ce_intent_catalog_version q = cv_intent_catalog_version r
        \<and> ce_embedding_status q = lit ''active'' \<and> ce_embedding q \<noteq> None \<and> matches_version (Some model_version) (ce_model_version q)
        \<and> matches_version (Some index) (ce_vector_index_version q)) (db_example_embeddings d'))"
    using r(2,3)
    by (simp add: get_catalog_version_diagnostic_record_def found ready selected r(4) snapshot_example_count [unfolded map_map] catalog_examples_def
        Let_def) (simp add: index_row_def r(1))
  have rows: "catalog_rows cn d r model_version index emb \<noteq> []"
    using assms(2) n by (simp add: catalog_rows_def Let_def r(1) zip_eq_Nil_iff flip: length_greater_0_conv)
  have "\<forall>q \<in> set (catalog_rows cn d r model_version index emb). ce_service_id q = ?s
      \<and> ce_intent_catalog_version q = cv_intent_catalog_version r \<and> ce_embedding_status q = lit ''active''
      \<and> ce_embedding q \<noteq> None \<and> ce_model_version q = model_version \<and> ce_vector_index_version q = index"
    by (auto simp: catalog_rows_def embedding_row_def r(1) Let_def)
  then have "0 < cd_embedding_count c"
    using rows by (auto simp: c(8) d' matches_version_def filter_empty_conv length_greater_0_conv neq_Nil_conv)
  moreover have "0 < cd_intent_count c" "0 < cd_example_count c"
    using assms(2) by (auto simp: c(4,5) catalog_examples_def)
  ultimately have "catalog_issues c = []" using c(2,3,6,7) by (intro catalog_issues_none) auto
  then have "\<forall>summary results. dg_issues (diagnose_test_run summary c results) = sort_key priority_of (run_issues summary results)"
    by (simp add: diagnose_test_run_def Let_def)
  moreover have "vi_vector_index_version ?i = index" by (simp add: index_row_def)
  ultimately show ?thesis using found ready c(1) snapshot_candidates by (auto simp: r(4) r(1))
qed

definition sample_intent :: intent where
  "sample_intent = \<lparr>in_id = [1], in_service_id = [2], in_intent_id = lit ''a'', in_domain = [], in_display_name = [],
     in_description = [], in_route_key = lit ''r'', in_status = lit ''draft'', in_include_keywords = [], in_exclude_keywords = [],
     in_created_by = [9], in_updated_by = [9], in_created_at = 0, in_updated_at = 0\<rparr>"

definition sample_text :: encrypted_text where
  "sample_text = \<lparr>et_ciphertext = [], et_encrypted_dek = [], et_encrypted_dek_iv = [], et_encrypted_dek_auth_tag = [],
     et_key_id = [], et_iv = [], et_auth_tag = [], et_algorithm = []\<rparr>"

definition sample_example :: intent_example where
  "sample_example = \<lparr>ie_example_id = [11], ie_service_id = [2], ie_intent_id = lit ''a'', ie_example_type = lit ''positive'',
     ie_text_raw = sample_text, ie_text_masked = [65], ie_embedding = None, ie_source = [], ie_test_case_id = None,
     ie_approved = False, ie_created_by = [9], ie_created_at = 0\<rparr>"

definition sample_catalog_db :: db where
  "sample_catalog_db = empty_db\<lparr>db_services := [sample_service], db_intents := [sample_intent],
     db_intent_examples := [sample_example]\<rparr>"

definition sample_catalog_env :: "unit catalog_env" where
  "sample_catalog_env = \<lparr>cn_provider = Inr \<lparr>pr_model_version = [5], pr_dimension = 1, pr_embed_texts = (\<lambda>ts _. Inr (map (\<lambda>_. [1]) ts))\<rparr>,
     cn_collate = length, cn_uuid_hex = [48], cn_uuid = (\<lambda>k. [k])\<rparr>"

lemma sample_catalog_examples: "catalog_examples length sample_catalog_db [2] = [sample_example]"
  by (simp add: catalog_examples_def list_intents_def list_examples_def examples_where_def sample_catalog_db_def
      empty_db_def sample_intent_def sample_example_def order_by_def)

definition sample_description :: str where
  "sample_description = lit ''A version.''"

lemma sample_catalog_tables: "db_catalog_versions sample_catalog_db = []" "db_vector_indexes sample_catalog_db = []"
  "db_example_embeddings sample_catalog_db = []"
  by (simp_all add: sample_catalog_db_def empty_db_def)

lemma sample_catalog_created:
  "\<exists>d' r. create_catalog_version sample_catalog_env sample_catalog_db sample_service sample_description [9] 0 [5] None = Inr (d', r)"
proof -
  have "strip sample_description = sample_description"
    by (simp add: strip_def lstrip_def rstrip_def is_space_def sample_description_def lit_def)
  then have desc: "normalize_description sample_description = Inr sample_description"
    by (simp add: normalize_description_def) (simp add: sample_description_def lit_def)
  have display: "next_display_version sample_catalog_db [2] = Inr (lit ''v'' @ dec 1)"
    by (simp add: next_display_version_def next_number_def list_catalog_display_versions_def sample_catalog_db_def
        empty_db_def List.map_filter_def order_by_def)
  have env: "cn_collate sample_catalog_env = length" "cn_uuid sample_catalog_env = (\<lambda>k. [k])"
    "cn_provider sample_catalog_env = Inr \<lparr>pr_model_version = [5], pr_dimension = 1, pr_embed_texts = (\<lambda>ts _. Inr (map (\<lambda>_. [1]) ts))\<rparr>"
    by (simp_all add: sample_catalog_env_def)
  have s: "sv_service_id sample_service = [2]" by (simp add: sample_service_def)
  show ?thesis unfolding create_catalog_version_def Let_def s desc display
    by (simp add: env sample_catalog_examples insert_catalog_version_def sample_catalog_tables vector_index_version_id_def
        next_number_def list_vector_index_versions_by_prefix_def order_by_def create_vector_index_version_def insert_row_def
        insert_embedding_def create_catalog_version_example_embedding_def embedding_row_def Let_def)
qed

theorem created_catalog_ready_witness:
  "\<exists>d' r. get_catalog_version d' [2] (cv_intent_catalog_version r) = Some r
    \<and> candidates_from_snapshot (get (json_dict (cv_snapshot r)) (lit ''intents'')) = [candidate_of_intent sample_intent]"
proof -
  obtain d' r where "create_catalog_version sample_catalog_env sample_catalog_db sample_service sample_description [9] 0 [5] None
      = Inr (d', r)" using sample_catalog_created by blast
  from created_catalog_ready [OF this] have "get_catalog_version d' [2] (cv_intent_catalog_version r) = Some r
    \<and> candidates_from_snapshot (get (json_dict (cv_snapshot r)) (lit ''intents''))
      = map candidate_of_intent (list_intents length sample_catalog_db [2])"
    using sample_catalog_examples by (simp add: sample_service_def sample_catalog_env_def) (simp add: sample_catalog_db_def empty_db_def)
  moreover have "list_intents length sample_catalog_db [2] = [sample_intent]"
    by (simp add: list_intents_def sample_catalog_db_def sample_intent_def order_by_def)
  ultimately show ?thesis by auto
qed

end
