(* ===== verification/Release_Handlers.thy ===== *)
theory Release_Handlers
  imports Raw_Query_Handlers Test_Run Diagnostics
begin

text \<open>
  The handlers of \<open>api/admin.py\<close> that bring a configuration into production: policy versions, test runs, releases
  with their candidates and differences, and the publish requests by which a second person approves an activation.
\<close>

section \<open>Policy versions\<close>

record off_topic_policy_settings =
  os_enabled :: bool
  os_keywords :: "str list"
  os_message :: str
  os_fallback_policy :: "fallback_policy option"

text \<open>No preset stands for \<open>custom\<close>.\<close>

record policy_version_create_request =
  pq_threshold_preset :: "threshold_preset option"
  pq_threshold_value :: "float64 option"
  pq_clarify_margin :: float64
  pq_min_candidate_score :: float64
  pq_fallback_score :: float64
  pq_risk_enabled :: bool
  pq_off_topic_policy :: off_topic_policy_settings

definition unit_interval :: "float64 \<Rightarrow> bool" where
  "unit_interval x \<longleftrightarrow> 0 \<le> x \<and> x \<le> 1"

text \<open>What validation admits: the bounds of the fields, no blank keyword, and the contract of the thresholds.\<close>

definition request_threshold :: "policy_version_create_request \<Rightarrow> float64 option" where
  "request_threshold q =
     (case pq_threshold_preset q of
        None \<Rightarrow> pq_threshold_value q
      | Some p \<Rightarrow> if pq_threshold_value q = None then Some (preset_threshold p) else None)"

definition valid_policy_request :: "policy_version_create_request \<Rightarrow> bool" where
  "valid_policy_request q \<longleftrightarrow>
     (\<forall>x \<in> set_option (pq_threshold_value q). unit_interval x) \<and> unit_interval (pq_clarify_margin q)
     \<and> unit_interval (pq_min_candidate_score q) \<and> unit_interval (pq_fallback_score q)
     \<and> list_all (\<lambda>k. strip k \<noteq> []) (os_keywords (pq_off_topic_policy q))
     \<and> (case request_threshold q of
          None \<Rightarrow> False
        | Some t \<Rightarrow> pq_fallback_score q \<le> pq_min_candidate_score q \<and> pq_min_candidate_score q \<le> t)"

definition fallback_policy_state :: "fallback_policy \<Rightarrow> json" where
  "fallback_policy_state f = JObj ([(lit ''type'', JStr (fp_type f))]
     @ some_field ''retryable'' (map_option JBool (fp_retryable f))
     @ some_field ''recommended_action'' (map_option JStr (fp_recommended_action f))
     @ some_field ''message'' (map_option JStr (fp_message f)))"

definition off_topic_policy_state :: "off_topic_policy_settings \<Rightarrow> (str \<times> json) list" where
  "off_topic_policy_state s =
     [(lit ''enabled'', JBool (os_enabled s)), (lit ''keywords'', JArr (map JStr (os_keywords s))),
      (lit ''message'', JStr (os_message s))]
     @ some_field ''fallback_policy'' (map_option fallback_policy_state (os_fallback_policy s))"

definition policy_version_id :: "admin_env \<Rightarrow> str \<Rightarrow> timestamp \<Rightarrow> str" where
  "policy_version_id en service_id now =
     lit ''pol-'' @ service_id @ lit ''-'' @ compact_date now @ lit ''-'' @ take 8 (en_uuid_hex en 0)"

text \<open>The response of a policy version writes the missing values of its settings as \<open>null\<close>.\<close>

definition fallback_policy_dump :: "fallback_policy \<Rightarrow> json" where
  "fallback_policy_dump f = JObj [(lit ''type'', JStr (fp_type f)),
     (lit ''retryable'', case fp_retryable f of None \<Rightarrow> JNull | Some b \<Rightarrow> JBool b),
     (lit ''recommended_action'', json_str_option (fp_recommended_action f)),
     (lit ''message'', json_str_option (fp_message f))]"

definition off_topic_policy_dump :: "off_topic_policy_settings \<Rightarrow> json" where
  "off_topic_policy_dump s = JObj
     [(lit ''enabled'', JBool (os_enabled s)), (lit ''keywords'', JArr (map JStr (os_keywords s))),
      (lit ''message'', JStr (os_message s)),
      (lit ''fallback_policy'', case os_fallback_policy s of None \<Rightarrow> JNull | Some f \<Rightarrow> fallback_policy_dump f)]"

definition policy_version_state :: "admin_env \<Rightarrow> policy_version \<Rightarrow> off_topic_policy_settings \<Rightarrow> (str \<times> json) list" where
  "policy_version_state en r settings =
     [(lit ''policy_version'', JStr (pv_policy_version r)), (lit ''service_id'', JStr (pv_service_id r)),
      (lit ''threshold_preset'', JStr (pv_threshold_preset r)), (lit ''threshold_value'', JFloat (pv_threshold_value r)),
      (lit ''clarify_margin'', JFloat (pv_clarify_margin r)),
      (lit ''min_candidate_score'', JFloat (pv_min_candidate_score r)), (lit ''fallback_score'', JFloat (pv_fallback_score r)),
      (lit ''risk_policy'', JObj (pv_risk_policy r)), (lit ''off_topic_policy'', off_topic_policy_dump settings),
      (lit ''created_by'', JStr (pv_created_by r)), (lit ''created_at'', JStr (en_dump_time en (pv_created_at r)))]"

text \<open>The numeric columns have no fixed scale: the decimal text of a float reads back as the float.\<close>

definition create_policy_version_handler ::
  "admin_env \<Rightarrow> str \<Rightarrow> policy_version_create_request \<Rightarrow> admin_context \<Rightarrow> db
    \<Rightarrow> (http_error, db \<times> policy_version) outcome" where
  "create_policy_version_handler en service_id q cx d =
     bindE (require_service_catalog_access cx service_id) (\<lambda>_.
     let now = en_clock en 0 in
     bindE (ensure_service_exists d service_id) (\<lambda>_.
     bindE (some_or (request_threshold q) (Unhandled_Value_Error (lit ''threshold_value''))) (\<lambda>threshold.
     bindE (except_integrity (raise_conflict ''Policy version already exists.'') (create_policy_version d
       \<lparr>pv_policy_version = policy_version_id en service_id now, pv_service_id = service_id,
        pv_threshold_preset = (case pq_threshold_preset q of None \<Rightarrow> lit ''custom'' | Some p \<Rightarrow> preset_value p),
        pv_threshold_value = threshold, pv_clarify_margin = pq_clarify_margin q,
        pv_min_candidate_score = pq_min_candidate_score q, pv_fallback_score = pq_fallback_score q,
        pv_risk_policy = [(lit ''enabled'', JBool (pq_risk_enabled q))],
        pv_off_topic_policy = off_topic_policy_state (pq_off_topic_policy q), pv_created_by = cx_actor_id cx,
        pv_created_at = now\<rparr>)) (\<lambda>(d1, r).
     bindE (audit_entry en 0 ''policy_version.created'' (cx_actor_id cx) (Some service_id) None ''policy_version''
       (pv_policy_version r) None None None (Some (policy_version_state en r (pq_off_topic_policy q))) now
       d1) (\<lambda>d2. Inr (d2, r))))))"

definition list_policy_versions_handler ::
  "admin_env \<Rightarrow> str \<Rightarrow> nat \<Rightarrow> admin_context \<Rightarrow> db \<Rightarrow> (http_error, policy_version list) outcome" where
  "list_policy_versions_handler en service_id limit cx d =
     bindE (require_service_catalog_access cx service_id) (\<lambda>_.
     bindE (ensure_service_exists d service_id) (\<lambda>_. Inr (list_policy_versions (en_collate en) d service_id limit)))"

definition get_policy_version_handler ::
  "str \<Rightarrow> str \<Rightarrow> admin_context \<Rightarrow> db \<Rightarrow> (http_error, policy_version) outcome" where
  "get_policy_version_handler service_id version cx d =
     bindE (require_service_catalog_access cx service_id) (\<lambda>_.
     bindE (ensure_service_exists d service_id) (\<lambda>_.
     some_or (get_policy_version d service_id version) (raise_not_found ''Policy version does not exist.'')))"

section \<open>Test runs\<close>

fun csv_error_message :: "csv_validation_error \<Rightarrow> str" where
  "csv_error_message (Csv_Columns cols) = lit ''CSV columns must be exactly: '' @ join_with (lit '', '') cols"
| "csv_error_message (Row_Columns n) = lit ''row '' @ dec n @ lit '': CSV columns must match header''"
| "csv_error_message (Value_Required n c) = lit ''row '' @ dec n @ lit '': '' @ c @ lit '' is required''"
| "csv_error_message (Duplicate_Case_Id n i) = lit ''row '' @ dec n @ lit '': duplicate case_id '' @ i"
| "csv_error_message (Unknown_Case_Type n t) = lit ''row '' @ dec n @ lit '': unknown case_type '' @ t"
| "csv_error_message (Expected_Intent_Required n) = lit ''row '' @ dec n @ lit '': expected_intent is required''"
| "csv_error_message (Expected_Intent_Not_Empty n) = lit ''row '' @ dec n @ lit '': expected_intent must be empty''"
| "csv_error_message No_Test_Cases = lit ''CSV must include at least one test case''"
| "csv_error_message (Duplicate_Merged_Case_Id i) = lit ''duplicate case_id '' @ i"
| "csv_error_message (Intent_Not_In_Catalog c i) =
     lit ''case '' @ c @ lit '': expected_intent '' @ i @ lit '' does not exist in selected catalog''"
| "csv_error_message Risk_Policy_Disabled = lit ''Risk policy must be enabled to run risk guardrail cases.''"
| "csv_error_message No_Ready_Vector_Index =
     lit ''Catalog version does not have a ready vector index for the current embedding model.''"
| "csv_error_message (In_Source source (Csv_Columns cols)) = source @ lit '': '' @ csv_error_message (Csv_Columns cols)"
| "csv_error_message (In_Source source No_Test_Cases) = source @ lit '': CSV must include at least one risk case''"
| "csv_error_message (In_Source source e) = source @ lit '' '' @ csv_error_message e"
| "csv_error_message (Csv_Reader_Error e) = []"

text \<open>
  The validation errors of the run are answered; an error of the csv module, of the policy, the provider or the search
  is not caught.
\<close>

fun csv_reader_failed :: "csv_validation_error \<Rightarrow> bool" where
  "csv_reader_failed (Csv_Reader_Error _) = True"
| "csv_reader_failed (In_Source _ e) = csv_reader_failed e"
| "csv_reader_failed _ = False"

fun test_run_http_error :: "'x test_run_error \<Rightarrow> http_error" where
  "test_run_http_error (Csv_Invalid e) =
     (if csv_reader_failed e then Unhandled_Value_Error (lit ''csv'') else Http_Error 400 INVALID_REQUEST (csv_error_message e))"
| "test_run_http_error (Route_Failed (Search_Error Provider_Model_Mismatch)) =
     raise_bad_request ''Embedding provider model does not match the selected vector index model.''"
| "test_run_http_error (Route_Failed _) = Unhandled_Value_Error (lit ''routing'')"
| "test_run_http_error (Policy_Config _) = Unhandled_Value_Error (lit ''policy'')"
| "test_run_http_error (Test_Store e) =
     (if e = Integrity_Error then raise_conflict ''Test run already exists.'' else Unhandled e)"

definition create_test_run_handler ::
  "'x test_environment \<Rightarrow> str \<Rightarrow> str \<Rightarrow> str \<Rightarrow> test_run_request \<Rightarrow> admin_context \<Rightarrow> db
    \<Rightarrow> (http_error, db \<times> csv_test_run_summary) outcome" where
  "create_test_run_handler te service_id policy_version catalog_version rq cx d =
     bindE (require_service_catalog_access cx service_id) (\<lambda>_.
     bindE (ensure_service_exists d service_id) (\<lambda>service.
     bindE (some_or (get_policy_version d service_id policy_version) (raise_not_found ''Policy version does not exist.''))
       (\<lambda>policy.
     bindE (some_or (get_catalog_version d service_id catalog_version) (raise_not_found ''Catalog version does not exist.''))
       (\<lambda>catalog.
     lift_error test_run_http_error (run_csv_tests te d service policy catalog (rq\<lparr>trq_created_by := cx_actor_id cx\<rparr>))))))"

record test_run_list_item =
  ti_run :: test_run
  ti_source_filename :: str
  ti_block_reasons :: "str list"
  ti_recommendations :: "str list"

definition list_test_runs_handler ::
  "admin_env \<Rightarrow> str \<Rightarrow> bool option \<Rightarrow> bool option \<Rightarrow> nat \<Rightarrow> admin_context \<Rightarrow> db
    \<Rightarrow> (http_error, test_run_list_item list) outcome" where
  "list_test_runs_handler en service_id gate_passed risk_passed limit cx d =
     bindE (require_service_catalog_access cx service_id) (\<lambda>_.
     bindE (ensure_service_exists d service_id) (\<lambda>_.
     Inr (map (\<lambda>(run, dataset).
         let summary = summarize_test_run run (list_test_results (en_collate en) d (tr_test_run_id run)) in
         \<lparr>ti_run = run, ti_source_filename = td_source_filename dataset, ti_block_reasons = su_block_reasons summary,
          ti_recommendations = su_recommendations summary\<rparr>)
       (list_test_runs (en_collate en) d service_id gate_passed risk_passed limit))))"

definition service_test_run :: "db \<Rightarrow> str \<Rightarrow> str \<Rightarrow> (http_error, test_run) outcome" where
  "service_test_run d service_id test_run_id =
     bindE (some_or (get_test_run d test_run_id) (raise_not_found ''Test run does not exist.'')) (\<lambda>run.
     bindE (require (tr_service_id run = service_id) (raise_not_found ''Test run does not exist.'')) (\<lambda>_. Inr run))"

definition get_test_run_summary ::
  "admin_env \<Rightarrow> str \<Rightarrow> str \<Rightarrow> admin_context \<Rightarrow> db \<Rightarrow> (http_error, csv_test_run_summary) outcome" where
  "get_test_run_summary en service_id test_run_id cx d =
     bindE (require_service_catalog_access cx service_id) (\<lambda>_.
     bindE (ensure_service_exists d service_id) (\<lambda>_.
     bindE (service_test_run d service_id test_run_id) (\<lambda>run.
     Inr (summarize_test_run run (list_test_results (en_collate en) d test_run_id)))))"

definition get_test_run_results ::
  "admin_env \<Rightarrow> str \<Rightarrow> str \<Rightarrow> admin_context \<Rightarrow> db \<Rightarrow> (http_error, test_result list) outcome" where
  "get_test_run_results en service_id test_run_id cx d =
     bindE (require_service_catalog_access cx service_id) (\<lambda>_.
     bindE (ensure_service_exists d service_id) (\<lambda>_.
     bindE (service_test_run d service_id test_run_id) (\<lambda>_. Inr (list_test_results (en_collate en) d test_run_id))))"

definition get_test_run_diagnostics ::
  "admin_env \<Rightarrow> str \<Rightarrow> str \<Rightarrow> admin_context \<Rightarrow> db \<Rightarrow> (http_error, test_run_diagnostics) outcome" where
  "get_test_run_diagnostics en service_id test_run_id cx d =
     bindE (require_service_catalog_access cx service_id) (\<lambda>_.
     bindE (ensure_service_exists d service_id) (\<lambda>_.
     bindE (service_test_run d service_id test_run_id) (\<lambda>run.
     bindE (some_or (get_catalog_version_diagnostic_record (en_collate en) d service_id (tr_intent_catalog_version run)
       (tr_model_version run) (tr_vector_index_version run)) (raise_not_found ''Catalog version does not exist.''))
       (\<lambda>record.
     let results = list_test_results (en_collate en) d test_run_id in
     Inr (diagnose_test_run (summarize_test_run run results) record results)))))"

section \<open>Releases\<close>

text \<open>The messages of the exceptions of \<open>versions/releases.py\<close>.\<close>

fun release_error_message :: "release_error \<Rightarrow> str" where
  "release_error_message Bad_Environment = lit ''Release environment must be one of dev, qa, prod.''"
| "release_error_message Policy_Missing = lit ''Policy version does not exist.''"
| "release_error_message Catalog_Missing = lit ''Catalog version does not exist.''"
| "release_error_message Catalog_Inactive = lit ''Catalog version is inactive.''"
| "release_error_message Test_Run_Missing = lit ''Test run does not exist.''"
| "release_error_message Gate_Not_Passed = lit ''Test run gate must pass before release.''"
| "release_error_message No_Risk_Cases = lit ''Test run must include risk cases before release.''"
| "release_error_message Risk_Case_Failed = lit ''Test run risk cases must all pass before release.''"
| "release_error_message Policy_Mismatch = lit ''Test run policy version does not match release.''"
| "release_error_message Catalog_Mismatch = lit ''Test run catalog version does not match release.''"
| "release_error_message Rollback_Target_Missing = lit ''Rollback target release does not exist.''"
| "release_error_message Already_Released = lit ''Test run already has a release for this environment.''"
| "release_error_message No_Ready_Index =
     lit ''Catalog version does not have a ready vector index for the requested model.''"
| "release_error_message Model_Mismatch =
     lit ''Test run model version does not match the selected catalog vector index.''"
| "release_error_message Index_Mismatch =
     lit ''Test run vector index version does not match the selected catalog vector index.''"
| "release_error_message Release_Missing = lit ''Release does not exist.''"
| "release_error_message Compare_Missing = lit ''Compare release does not exist.''"
| "release_error_message No_Rollback_Target = lit ''Release does not have a rollback target.''"
| "release_error_message (Release_Store _) = []"

text \<open>Creation answers every exception; activation and rollback leave those of the repository uncaught.\<close>

definition create_release_error :: "release_error \<Rightarrow> http_error" where
  "create_release_error e =
     (if is_dependency_error e then Http_Error 404 INVALID_REQUEST (release_error_message e)
      else case e of
        Release_Store Integrity_Error \<Rightarrow> raise_conflict ''Release version already exists.''
      | Release_Store _ \<Rightarrow> raise_internal_error ''Release creation failed.''
      | _ \<Rightarrow> Http_Error 400 INVALID_REQUEST (release_error_message e))"

definition switch_release_error :: "release_error \<Rightarrow> http_error" where
  "switch_release_error e =
     (if is_dependency_error e then Http_Error 404 INVALID_REQUEST (release_error_message e)
      else case e of Release_Store r \<Rightarrow> Unhandled r | _ \<Rightarrow> Http_Error 400 INVALID_REQUEST (release_error_message e))"

record release_create_request =
  lq_environment :: str
  lq_policy_version :: str
  lq_intent_catalog_version :: str
  lq_test_run_id :: str
  lq_rollback_target :: "str option"

definition create_release_handler ::
  "admin_env \<Rightarrow> 'x catalog_env \<Rightarrow> str \<Rightarrow> release_create_request \<Rightarrow> admin_context \<Rightarrow> db
    \<Rightarrow> (http_error, db \<times> release) outcome" where
  "create_release_handler en cn service_id q cx d =
     bindE (require_release_management_access cx service_id) (\<lambda>_.
     let now = en_clock en 0 in
     bindE (ensure_service_exists d service_id) (\<lambda>_.
     bindE (lift_error (\<lambda>_. raise_internal_error ''Release creation failed.'') (cn_provider cn)) (\<lambda>provider.
     bindE (lift_error create_release_error (create_release (en_collate en) d service_id (strip (lq_environment q))
       (lq_policy_version q) (lq_intent_catalog_version q) (pr_model_version provider) (lq_test_run_id q)
       (lq_rollback_target q) (cx_actor_id cx) now)) (\<lambda>(d1, r).
     bindE (audit_entry en 0 ''release.created'' (cx_actor_id cx) (Some service_id) None ''release'' (rel_release_version r)
       None None None (Some (release_after_state r)) now d1) (\<lambda>d2. Inr (d2, r))))))"

record release_candidate =
  ca_run :: test_run
  ca_environment :: str
  ca_source_filename :: str
  ca_eligible :: bool
  ca_block_reasons :: "str list"
  ca_existing_release_version :: "str option"

definition release_candidate_of ::
  "(str \<Rightarrow> nat) \<Rightarrow> db \<Rightarrow> str \<Rightarrow> (str, release) dict \<Rightarrow> test_run \<times> test_dataset \<Rightarrow> release_candidate" where
  "release_candidate_of collate d environment existing_releases = (\<lambda>(run, dataset).
     let results = list_test_results collate d (tr_test_run_id run); summary = summarize_test_run run results;
         existing = map_of existing_releases (tr_test_run_id run);
         risk_results = filter (\<lambda>r. ts_case_type r = lit ''risk'') results;
         risk_passed = (risk_results \<noteq> [] \<and> list_all (\<lambda>r. ts_result r = lit ''PASS'') risk_results)
     in \<lparr>ca_run = run, ca_environment = environment, ca_source_filename = td_source_filename dataset,
         ca_eligible = (tr_gate_passed run \<and> risk_passed \<and> existing = None),
         ca_block_reasons = su_block_reasons summary
           @ (if risk_results = [] then [lit ''risk cases required'']
              else if \<not> risk_passed \<and> lit ''risk case failed'' \<notin> set (su_block_reasons summary)
              then [lit ''risk case failed''] else [])
           @ (if existing \<noteq> None then [lit ''test run already has a release''] else []),
         ca_existing_release_version = map_option rel_release_version existing\<rparr>)"

definition list_release_candidates ::
  "admin_env \<Rightarrow> str \<Rightarrow> str option \<Rightarrow> nat \<Rightarrow> admin_context \<Rightarrow> db \<Rightarrow> (http_error, release_candidate list) outcome" where
  "list_release_candidates en service_id environment limit cx d =
     bindE (require_release_review_access cx service_id) (\<lambda>_.
     bindE (ensure_service_exists d service_id) (\<lambda>_.
     bindE (runtime_setup_environment environment) (\<lambda>target_environment.
     let existing_releases = dict_of (map (\<lambda>r. (rel_test_run_id r, r))
       (list_releases (en_collate en) d service_id (Some target_environment))) in
     Inr (map (release_candidate_of (en_collate en) d target_environment existing_releases)
       (list_test_runs (en_collate en) d service_id None None limit)))))"

definition get_release_diff ::
  "str \<Rightarrow> str \<Rightarrow> str option \<Rightarrow> admin_context \<Rightarrow> db \<Rightarrow> (http_error, release_diff) outcome" where
  "get_release_diff service_id release_version compare_to cx d =
     bindE (require_release_review_access cx service_id) (\<lambda>_.
     bindE (ensure_service_exists d service_id) (\<lambda>_.
     lift_error switch_release_error (build_release_diff d service_id release_version compare_to)))"

definition list_releases_handler ::
  "admin_env \<Rightarrow> str \<Rightarrow> str option \<Rightarrow> admin_context \<Rightarrow> db \<Rightarrow> (http_error, release list) outcome" where
  "list_releases_handler en service_id environment cx d =
     bindE (require_release_review_access cx service_id) (\<lambda>_.
     bindE (ensure_service_exists d service_id) (\<lambda>_.
     bindE (case environment of None \<Rightarrow> Inr None
         | Some e \<Rightarrow> bindE (runtime_setup_environment (Some e)) (\<lambda>e. Inr (Some e))) (\<lambda>e.
     Inr (list_releases (en_collate en) d service_id e))))"

definition get_active_release_handler ::
  "str \<Rightarrow> str \<Rightarrow> admin_context \<Rightarrow> db \<Rightarrow> (http_error, release) outcome" where
  "get_active_release_handler service_id environment cx d =
     bindE (require_release_review_access cx service_id) (\<lambda>_.
     bindE (ensure_service_exists d service_id) (\<lambda>_.
     bindE (runtime_setup_environment (Some environment)) (\<lambda>e.
     some_or (get_active_release d service_id e) (raise_not_found ''Active release does not exist.''))))"

definition activate_release_handler ::
  "admin_env \<Rightarrow> str \<Rightarrow> str \<Rightarrow> admin_context \<Rightarrow> db \<Rightarrow> (http_error, db \<times> release) outcome" where
  "activate_release_handler en service_id release_version cx d =
     bindE (require_release_management_access cx service_id) (\<lambda>_.
     bindE (ensure_service_exists d service_id) (\<lambda>_.
     bindE (lift_error switch_release_error (activate_release d service_id release_version)) (\<lambda>(d1, before_state, r).
     bindE (audit_entry en 0 ''release.activated'' (cx_actor_id cx) (Some service_id) None ''release''
       (rel_release_version r) None None (Some before_state) (Some (release_after_state r)) (en_clock en 0) d1) (\<lambda>d2.
     Inr (d2, r)))))"

definition rollback_release_handler ::
  "admin_env \<Rightarrow> str \<Rightarrow> str \<Rightarrow> admin_context \<Rightarrow> db \<Rightarrow> (http_error, db \<times> release) outcome" where
  "rollback_release_handler en service_id release_version cx d =
     bindE (require_release_management_access cx service_id) (\<lambda>_.
     bindE (ensure_service_exists d service_id) (\<lambda>_.
     bindE (lift_error switch_release_error (rollback_release d service_id release_version))
       (\<lambda>(d1, r, before_state, target).
     bindE (audit_entry en 0 ''release.rollback'' (cx_actor_id cx) (Some service_id) None ''release''
       (rel_release_version r) None None (Some before_state)
       (Some (release_after_state target @ [(lit ''rollback_from'', JStr (rel_release_version r))])) (en_clock en 0) d1)
       (\<lambda>d2. Inr (d2, target)))))"

section \<open>Publish requests\<close>

text \<open>Every response is built from the row of the request; its state in the audit log hides the reasons.\<close>

definition publish_request_state :: "admin_env \<Rightarrow> governed_action_request \<Rightarrow> (str, json) dict" where
  "publish_request_state en r = safe_phase2_audit_state
     [(lit ''request_id'', JStr (ga_request_id r)), (lit ''service_id'', JStr (ga_service_id r)),
      (lit ''resource_type'', JStr (ga_resource_type r)), (lit ''resource_id'', JStr (ga_resource_id r)),
      (lit ''action'', JStr (ga_action r)), (lit ''status'', JStr (ga_status r)),
      (lit ''requested_by'', JStr (ga_requested_by r)), (lit ''requested_at'', JStr (en_dump_time en (ga_requested_at r))),
      (lit ''decided_by'', json_str_option (ga_decided_by r)), (lit ''decided_at'', json_time_option en (ga_decided_at r)),
      (lit ''reason'', JStr (ga_reason r)), (lit ''decision_reason'', json_str_option (ga_decision_reason r))]"

definition publish_audit ::
  "admin_env \<Rightarrow> string \<Rightarrow> admin_context \<Rightarrow> str \<Rightarrow> str \<Rightarrow> str option \<Rightarrow> (str \<times> json) list option
    \<Rightarrow> (str \<times> json) list option \<Rightarrow> timestamp \<Rightarrow> db \<Rightarrow> (http_error, db) outcome" where
  "publish_audit en event_type cx service_id request_id reason before_state after_state now d =
     audit_entry en 0 event_type (cx_actor_id cx) (Some service_id) None ''publish_request'' request_id
       (safe_phase2_audit_reason reason) (en_source_ip en) before_state after_state now d"

record publish_request_create_request =
  gq_resource_type :: str
  gq_resource_id :: str
  gq_action :: str
  gq_target_version :: "str option"
  gq_reason :: str

definition create_publish_request ::
  "admin_env \<Rightarrow> str \<Rightarrow> publish_request_create_request \<Rightarrow> admin_context \<Rightarrow> db
    \<Rightarrow> (http_error, db \<times> governed_action_request) outcome" where
  "create_publish_request en service_id q cx d =
     bindE (require_publish_request_access cx service_id) (\<lambda>_.
     bindE (require (gq_resource_type q = lit ''release'' \<and> gq_action q = lit ''activate'')
       (raise_bad_request ''Only release activation publish requests are supported.'')) (\<lambda>_.
     bindE (require (gq_target_version q = None \<or> gq_target_version q = Some (gq_resource_id q))
       (raise_bad_request ''target_version must match release resource_id.'')) (\<lambda>_.
     let now = en_clock en 0 in
     bindE (ensure_service_exists d service_id) (\<lambda>_.
     bindE (some_or (get_release d service_id (gq_resource_id q)) (raise_not_found ''Release does not exist.'')) (\<lambda>_.
     bindE (unhandled (create_governed_action_request d (pending_request (lit ''gar_'' @ en_uuid_hex en 0) service_id
       (gq_resource_type q) (gq_resource_id q) (gq_action q) (cx_actor_id cx) now (gq_reason q)))) (\<lambda>(d1, r).
     bindE (publish_audit en ''publish.requested'' cx service_id (ga_request_id r) (Some (gq_reason q)) None
       (Some (publish_request_state en r)) now d1) (\<lambda>d2. Inr (d2, r))))))))"

definition publish_request_or_404 :: "db \<Rightarrow> str \<Rightarrow> str \<Rightarrow> (http_error, governed_action_request) outcome" where
  "publish_request_or_404 d service_id request_id =
     bindE (some_or (get_governed_action_request d request_id) (raise_not_found ''Publish request does not exist.''))
       (\<lambda>r.
     bindE (require (ga_service_id r = service_id
         \<and> ga_resource_type r \<in> {lit ''intent'', lit ''example'', lit ''release''})
       (raise_not_found ''Publish request does not exist.'')) (\<lambda>_. Inr r))"

definition approve_publish_request ::
  "admin_env \<Rightarrow> str \<Rightarrow> str \<Rightarrow> str option \<Rightarrow> admin_context \<Rightarrow> db
    \<Rightarrow> (http_error, db \<times> governed_action_request) outcome" where
  "approve_publish_request en service_id request_id reason cx d =
     bindE (require_publish_decision_access cx service_id) (\<lambda>_.
     let now = en_clock en 0 in
     bindE (publish_request_or_404 d service_id request_id) (\<lambda>r.
     bindE (lift_error decision_error (approve_governed_action_request d r (cx_actor_id cx) now reason)) (\<lambda>(d1, r1).
     bindE (publish_audit en ''publish.approved'' cx service_id (ga_request_id r1) reason
       (Some (publish_request_state en r)) (Some (publish_request_state en r1)) now d1) (\<lambda>d2. Inr (d2, r1)))))"

definition reject_publish_request ::
  "admin_env \<Rightarrow> str \<Rightarrow> str \<Rightarrow> str option \<Rightarrow> admin_context \<Rightarrow> db
    \<Rightarrow> (http_error, db \<times> governed_action_request) outcome" where
  "reject_publish_request en service_id request_id reason cx d =
     bindE (some_or reason (raise_validation_failed ''Request validation failed.'')) (\<lambda>why.
     bindE (require_publish_decision_access cx service_id) (\<lambda>_.
     let now = en_clock en 0 in
     bindE (publish_request_or_404 d service_id request_id) (\<lambda>r.
     bindE (lift_error decision_error (reject_governed_action_request d r (cx_actor_id cx) now why)) (\<lambda>(d1, r1).
     bindE (publish_audit en ''publish.rejected'' cx service_id (ga_request_id r1) reason
       (Some (publish_request_state en r)) (Some (publish_request_state en r1)) now d1) (\<lambda>d2. Inr (d2, r1))))))"

definition activate_publish_request ::
  "admin_env \<Rightarrow> str \<Rightarrow> str \<Rightarrow> admin_context \<Rightarrow> db \<Rightarrow> (http_error, db \<times> release) outcome" where
  "activate_publish_request en service_id request_id cx d =
     bindE (require_publish_activation_access cx service_id) (\<lambda>_.
     let now = en_clock en 0 in
     bindE (publish_request_or_404 d service_id request_id) (\<lambda>r.
     bindE (require (ga_resource_type r = lit ''release'' \<and> ga_action r = lit ''activate'')
       (raise_bad_request ''Publish request is not a release activation request.'')) (\<lambda>_.
     bindE (require (ga_status r = lit ''approved'')
       (raise_conflict ''Publish request must be approved before activation.'')) (\<lambda>_.
     bindE (lift_error switch_release_error (activate_release d service_id (ga_resource_id r)))
       (\<lambda>(d1, before_state, release).
     let d2 = put_request (r\<lparr>ga_status := lit ''activated''\<rparr>) d1 in
     bindE (audit_entry en 0 ''release.activated'' (cx_actor_id cx) (Some service_id) None ''release''
       (rel_release_version release) (safe_phase2_audit_reason (Some (ga_reason r))) (en_source_ip en)
       (Some before_state) (Some (release_after_state release)) now d2) (\<lambda>d3. Inr (d3, release)))))))"

end
