(* ===== verification/Key_Safety.thy ===== *)
theory Key_Safety
  imports Key_Handlers Runtime_Safety
begin

text \<open>
  The life of an API key across the handlers of administrators and the runtime endpoint: a key that is issued
  authenticates with the secret it was issued with and reveals it again; a key that is revoked stays revoked,
  admits no request and reveals nothing.
\<close>

section \<open>The table of keys\<close>

lemma first_row_put_row:
  "first_row (\<lambda>r. key r = k) (put_row key row rows)
     = (if k = key row \<and> first_row (\<lambda>r. key r = k) rows \<noteq> None then Some row else first_row (\<lambda>r. key r = k) rows)"
  by (induction rows) (auto simp: first_row_def put_row_def update_where_def)

lemma first_row_append:
  "first_row P (rows @ [row]) = (case first_row P rows of Some r \<Rightarrow> Some r | None \<Rightarrow> if P row then Some row else None)"
  by (induction rows) (auto simp: first_row_def)

lemma get_key_put [simp]:
  "get_api_key_by_id (d\<lparr>db_api_keys := put_row ak_key_id r (db_api_keys d)\<rparr>) k
     = (if k = ak_key_id r \<and> get_api_key_by_id d k \<noteq> None then Some r else get_api_key_by_id d k)"
  by (auto simp: get_api_key_by_id_def first_row_put_row)

lemma get_key_id: "get_api_key_by_id d k = Some r \<Longrightarrow> ak_key_id r = k"
  by (auto simp: get_api_key_by_id_def dest: first_row_Some)

lemma create_key_row:
  assumes "create_api_key_row d r = Inr (d', r')"
  shows "r' = r" and "get_api_key_by_id d (ak_key_id r) = None"
    and "get_api_key_by_id d' k = (if k = ak_key_id r then Some r else get_api_key_by_id d k)"
proof -
  have d': "r' = r" "ak_key_id r \<notin> ak_key_id ` set (db_api_keys d)" "d' = d\<lparr>db_api_keys := db_api_keys d @ [r]\<rparr>"
    using assms by (auto simp: create_api_key_row_def raise_simps)
  then show "r' = r" "get_api_key_by_id d (ak_key_id r) = None"
    by (auto simp: get_api_key_by_id_def first_row_None image_iff)
  then show "get_api_key_by_id d' k = (if k = ak_key_id r then Some r else get_api_key_by_id d k)"
    by (auto simp: d'(3) get_api_key_by_id_def first_row_append split: option.split)
qed

lemma audit_entry_keys: "audit_entry en k e a s t tt ti vr ip b af now d = Inr d' \<Longrightarrow> db_api_keys d' = db_api_keys d"
  by (auto simp: audit_entry_def unhandled_def insert_audit_log_def raise_simps)

lemma get_key_cong: "db_api_keys d' = db_api_keys d \<Longrightarrow> get_api_key_by_id d' k = get_api_key_by_id d k"
  by (simp add: get_api_key_by_id_def)

section \<open>Issuing\<close>

lemma create_for_serviceE:
  assumes "create_api_key_for_service ke service_id request actor_id now d = Inr (d', r, secret)"
  obtains ring e where "load_api_key_secret_keyring (en_variable (ke_admin ke)) = Inr ring"
    "keyring_encrypt (ke_aead ke) ring (ke_nonces ke) secret (Some (api_key_secret_context service_id (ak_key_id r))) = Inr e"
    "ak_secret r = stored_text e" "hash_secret (ke_kdf ke) (ke_salt ke) secret = Inr (ak_key_hash r)"
    "ak_service_id r = service_id" "ak_app_id r = kq_app_id request" "ak_environment r = kq_environment request"
    "ak_allowed_intents r = kq_allowed_intents request" "ak_allowed_route_keys r = kq_allowed_route_keys request"
    "ak_status r = lit ''active''" "ak_revoked_at r = None"
    "get_api_key_by_id d (ak_key_id r) = None"
    "\<And>k. get_api_key_by_id d' k = (if k = ak_key_id r then Some r else get_api_key_by_id d k)"
proof -
  let ?key_id = "lit ''key_live_'' @ en_uuid_hex (ke_admin ke) 0"
  let ?row = "\<lambda>hash fingerprint expires_at. \<lparr>ak_key_id = ?key_id, ak_key_hash = hash, ak_key_fingerprint = fingerprint,
     ak_environment = kq_environment request, ak_app_id = kq_app_id request, ak_service_id = service_id,
     ak_allowed_intents = kq_allowed_intents request, ak_allowed_route_keys = kq_allowed_route_keys request,
     ak_status = lit ''active'', ak_expires_at = expires_at, ak_revoked_at = None, ak_created_by = actor_id,
     ak_created_at = now, ak_secret = null_text\<rparr>"
  from assms obtain ring e hash fingerprint expires_at d1 row d2 where
    *: "load_api_key_secret_keyring (en_variable (ke_admin ke)) = Inr ring"
    "keyring_encrypt (ke_aead ke) ring (ke_nonces ke) secret (Some (api_key_secret_context service_id ?key_id)) = Inr e"
    "hash_secret (ke_kdf ke) (ke_salt ke) secret = Inr hash"
    "create_api_key_row d (?row hash fingerprint expires_at) = Inr (d1, row)"
    "r = apply_encrypted_api_key_secret row e"
    "audit_entry (ke_admin ke) 0 ''api_key.created'' actor_id (Some service_id) None ''api_key'' ?key_id None None None
       (Some (api_key_after_state (ke_admin ke) r)) now (d1\<lparr>db_api_keys := put_row ak_key_id r (db_api_keys d1)\<rparr>) = Inr d'"
    unfolding create_api_key_for_service_def Let_def
    by (auto elim!: bindE_elim simp: with_crypto_def unhandled_def lift_error_iff split: prod.splits)
  note row = create_key_row [OF *(4)]
  have r: "r = (?row hash fingerprint expires_at)\<lparr>ak_secret := stored_text e\<rparr>"
    using *(5) row(1) by (simp add: apply_encrypted_api_key_secret_def)
  have "get_api_key_by_id d' k = (if k = ak_key_id r then Some r else get_api_key_by_id d k)" for k
    using get_key_cong [OF audit_entry_keys [OF *(6)], of k] row(3) [of k] by (simp add: r)
  then show thesis using that [of ring e] * row(2) by (simp add: r)
qed

text \<open>Both endpoints issue through the same function, after the same checks of the scope.\<close>

lemma create_api_keyE:
  assumes "create_api_key ke service_id request cx d = Inr x \<or> create_service_api_key ke service_id request cx d = Inr x"
  obtains s rel where "get_service d service_id = Some s" "validate_runtime_api_key_scope ke d s request = Inr rel"
    "create_api_key_for_service ke service_id request (cx_actor_id cx) (en_clock (ke_admin ke) 1) d = Inr x"
    "require_api_key_management_access cx service_id = Inr ()"
  using assms
proof (elim disjE)
  assume "create_api_key ke service_id request cx d = Inr x"
  then show thesis unfolding create_api_key_def by (elim bindE_elim) (rule that; simp add: some_or_Inr)
next
  assume "create_service_api_key ke service_id request cx d = Inr x"
  then show thesis unfolding create_service_api_key_def by (elim bindE_elim) (rule that; simp add: some_or_Inr)
qed



lemma revealE:
  assumes "reveal_service_api_key ke service_id key_id cx d = Inr (d', r, secret)"
  obtains e ring where "get_api_key_by_id d key_id = Some r" "ak_service_id r = service_id"
    "encrypted_api_key_secret r = Some e" "load_api_key_secret_keyring (en_variable (ke_admin ke)) = Inr ring"
    "keyring_decrypt (ke_aead ke) ring e (Some (api_key_secret_context (ak_service_id r) (ak_key_id r))) = Inr secret"
    "ak_status r \<noteq> lit ''revoked''" "db_api_keys d' = db_api_keys d"
proof -
  obtain r' where r': "service_api_key service_id key_id cx d = Inr r'"
    "raise_if_api_key_not_revealable r' (en_clock (ke_admin ke) 1) = Inr ()"
    and rest: "bindE (some_or (encrypted_api_key_secret r')
        (raise_conflict ''API key secret is unavailable; rotate or reissue this legacy key.'')) (\<lambda>encrypted.
      bindE (with_crypto (load_api_key_secret_keyring (en_variable (ke_admin ke)))) (\<lambda>keyring.
      bindE (with_crypto (keyring_decrypt (ke_aead ke) keyring encrypted
        (Some (api_key_secret_context (ak_service_id r') (ak_key_id r'))))) (\<lambda>secret.
      bindE (audit_entry (ke_admin ke) 0 ''api_key.secret_revealed'' (cx_actor_id cx) (Some service_id) None ''api_key'' (ak_key_id r')
        (Some (lit ''runtime_setup_authorization_copy'')) None None (Some (api_key_reveal_audit_state r'))
        (en_clock (ke_admin ke) 1) d) (\<lambda>d1.
      Inr (d1, r', secret))))) = Inr (d', r, secret)"
    using assms unfolding reveal_service_api_key_def Let_def by (elim bindE_elim) auto
  obtain e ring where "encrypted_api_key_secret r' = Some e" "load_api_key_secret_keyring (en_variable (ke_admin ke)) = Inr ring"
    "keyring_decrypt (ke_aead ke) ring e (Some (api_key_secret_context (ak_service_id r') (ak_key_id r'))) = Inr secret"
    "r' = r" "db_api_keys d' = db_api_keys d"
    using rest by (elim bindE_elim) (auto simp: some_or_Inr with_crypto_def lift_error_iff dest: audit_entry_keys)
  moreover have "get_api_key_by_id d key_id = Some r'" "ak_service_id r' = service_id"
    using r'(1) by (auto simp: service_api_key_def raise_simps)
  moreover have "ak_status r' \<noteq> lit ''revoked''"
    using r'(2) by (auto simp: raise_if_api_key_not_revealable_def raise_simps)
  ultimately show thesis using that by blast
qed


section \<open>Revoking\<close>

text \<open>Everything that touches keys, and the requests of clients.\<close>

datatype 'x key_event =
    Service_Created service_create_request admin_context
  | Key_Created str key_create_request admin_context
  | Service_Key_Created str key_create_request admin_context
  | Key_Revoked str admin_context
  | Service_Key_Revoked str str admin_context
  | Key_Revealed str str admin_context
  | Runtime_Requested "'x runtime_env" timestamp http_request

fun key_step :: "db \<Rightarrow> key_env \<times> 'x key_event \<Rightarrow> db" where
  "key_step d (ke, Service_Created request cx) =
     (case create_service_handler (ke_admin ke) request cx d of Inr (d', _) \<Rightarrow> d' | Inl _ \<Rightarrow> d)"
| "key_step d (ke, Key_Created s request cx) = (case create_api_key ke s request cx d of Inr (d', _) \<Rightarrow> d' | Inl _ \<Rightarrow> d)"
| "key_step d (ke, Service_Key_Created s request cx) =
     (case create_service_api_key ke s request cx d of Inr (d', _) \<Rightarrow> d' | Inl _ \<Rightarrow> d)"
| "key_step d (ke, Key_Revoked k cx) = (case revoke_api_key_handler ke k cx d of Inr (d', _) \<Rightarrow> d' | Inl _ \<Rightarrow> d)"
| "key_step d (ke, Service_Key_Revoked s k cx) =
     (case revoke_service_api_key ke s k cx d of Inr (d', _) \<Rightarrow> d' | Inl _ \<Rightarrow> d)"
| "key_step d (ke, Key_Revealed s k cx) = (case reveal_service_api_key ke s k cx d of Inr (d', _) \<Rightarrow> d' | Inl _ \<Rightarrow> d)"
| "key_step d (ke, Runtime_Requested rt now q) = fst (runtime_endpoint rt now q d)"

definition key_run :: "db \<Rightarrow> (key_env \<times> 'x key_event) list \<Rightarrow> db" where
  "key_run d es = fold (\<lambda>e d. key_step d e) es d"

definition revoked :: "str \<Rightarrow> db \<Rightarrow> bool" where
  "revoked k d \<longleftrightarrow> (\<exists>r. get_api_key_by_id d k = Some r \<and> ak_status r = lit ''revoked'')"

lemma revoked_cong: "db_api_keys d' = db_api_keys d \<Longrightarrow> revoked k d' = revoked k d"
  by (simp add: revoked_def get_api_key_by_id_def)

lemma revoke_record_revoked:
  assumes "revoke_api_key_record ke r actor now d = Inr (d', r')" and "get_api_key_by_id d (ak_key_id r) = Some r"
  shows "revoked (ak_key_id r) d' \<and> (revoked k d \<longrightarrow> revoked k d')"
proof (cases "ak_status r = lit ''revoked''")
  case True
  then show ?thesis using assms by (auto simp: revoke_api_key_record_def revoked_def)
next
  case False
  let ?r = "r\<lparr>ak_status := lit ''revoked'', ak_revoked_at := Some now\<rparr>"
  have "db_api_keys d' = db_api_keys (d\<lparr>db_api_keys := put_row ak_key_id ?r (db_api_keys d)\<rparr>)"
    using assms(1) False unfolding revoke_api_key_record_def Store.revoke_api_key_def Let_def
    by (simp only: if_False prod.case) (elim bindE_elim, drule audit_entry_keys, simp)
  then have "revoked k' d' = revoked k' (d\<lparr>db_api_keys := put_row ak_key_id ?r (db_api_keys d)\<rparr>)" for k'
    by (rule revoked_cong)
  then show ?thesis using assms(2) by (auto simp: revoked_def)
qed

lemma revoke_handler_revoked:
  assumes "revoke_api_key_handler ke k cx d = Inr (d', r)"
  shows "revoked k d' \<and> (revoked k' d \<longrightarrow> revoked k' d')"
proof -
  obtain r0 where "get_api_key_by_id d k = Some r0" "revoke_api_key_record ke r0 (cx_actor_id cx) (en_clock (ke_admin ke) 1) d = Inr (d', r)"
    using assms unfolding revoke_api_key_handler_def by (elim bindE_elim) (auto simp: some_or_Inr)
  then show ?thesis using revoke_record_revoked get_key_id by metis
qed

lemma revoke_service_revoked:
  assumes "revoke_service_api_key ke s k cx d = Inr (d', r)"
  shows "revoked k d' \<and> (revoked k' d \<longrightarrow> revoked k' d')"
proof -
  obtain r0 where "service_api_key s k cx d = Inr r0" "revoke_api_key_record ke r0 (cx_actor_id cx) (en_clock (ke_admin ke) 1) d = Inr (d', r)"
    using assms unfolding revoke_service_api_key_def by (elim bindE_elim) auto
  moreover from this(1) have "get_api_key_by_id d k = Some r0" by (auto simp: service_api_key_def raise_simps)
  ultimately show ?thesis using revoke_record_revoked get_key_id by metis
qed

lemma create_key_revoked:
  assumes "create_api_key ke s request cx d = Inr (d', key, secret) \<or> create_service_api_key ke s request cx d = Inr (d', key, secret)"
    and "revoked k d"
  shows "revoked k d'"
proof -
  have "create_api_key_for_service ke s request (cx_actor_id cx) (en_clock (ke_admin ke) 1) d = Inr (d', key, secret)"
    using create_api_keyE [OF assms(1)] by blast
  from this show ?thesis
  proof (rule create_for_serviceE)
    assume "get_api_key_by_id d (ak_key_id key) = None"
      and "\<And>k. get_api_key_by_id d' k = (if k = ak_key_id key then Some key else get_api_key_by_id d k)"
    then show ?thesis using assms(2) by (auto simp: revoked_def)
  qed
qed

lemma create_service_keys: "create_service_handler en request cx d = Inr (d', s) \<Longrightarrow> db_api_keys d' = db_api_keys d"
  unfolding create_service_handler_def Let_def
  by (elim bindE_elim) (auto simp: except_integrity_def create_service_def raise_simps dest!: audit_entry_keys split: prod.splits)

text \<open>A runtime request only writes logs.\<close>

definition same_keys :: "db \<Rightarrow> db \<Rightarrow> bool" where
  "same_keys d d' \<longleftrightarrow> db_api_keys d' = db_api_keys d"

lemma same_keys_refl [simp]: "same_keys d d"
  by (simp add: same_keys_def)

lemma add_log_keys: "add_runtime_log d r = Inr d' \<Longrightarrow> same_keys d d'"
  by (auto simp: add_runtime_log_def insert_runtime_log_def raise_simps same_keys_def)

lemma log_error_keys: "log_error rt k src rel err st ms query decided encrypt d = Inr d' \<Longrightarrow> same_keys d d'"
  unfolding log_error_def by (elim bindE_elim) (rule add_log_keys)

lemma log_success_keys: "log_success rt src rel dr query ms d = Inr d' \<Longrightarrow> same_keys d d'"
  unfolding log_success_def by (elim bindE_elim) (rule add_log_keys)

lemma preflight_keys: "same_keys d (log_runtime_preflight_error rt h i err st query rel encrypt d)"
  by (auto simp: log_runtime_preflight_error_def Let_def dest: log_error_keys split: sum.split runtime_failure.split)

lemma handler_keys:
  "same_keys d (fst (http_exception_handler rt q st detail logged d))" "same_keys d (fst (validation_exception_handler rt q d))"
  by (auto simp: http_exception_handler_def validation_exception_handler_def Let_def preflight_keys split: sum.split prod.split)

lemma raise_keys: "same_keys d (fst (log_and_raise rt src rel query err st d))"
  by (auto simp: log_and_raise_def Let_def dest: log_error_keys split: sum.split)

lemma failure_keys: "same_keys d (fst (handle_failure rt src rel query f d))"
  by (cases f) (simp_all add: raise_keys)

lemma intent_route_keys: "same_keys d (fst (intent_route rt query auth d))"
proof (cases "load_active_release rt d (at_service_id auth) (at_environment auth)")
  case (Inl f)
  then show ?thesis by (simp add: intent_route_def failure_keys)
next
  case rel: (Inr release)
  show ?thesis
  proof (cases "bindE (route_runtime rt d query auth release) (\<lambda>dr.
             bindE (log_success rt (source_of auth) release dr query (rt_latency rt 0) d) (\<lambda>d'. Inr (d', dr)))")
    case (Inl f)
    then show ?thesis by (simp add: intent_route_def rel failure_keys)
  next
    case (Inr x)
    then have "same_keys d (fst x)" by (elim bindE_elim) (auto dest: log_success_keys)
    then show ?thesis using Inr by (cases x) (simp add: intent_route_def rel)
  qed
qed

lemma same_keys_trans: "same_keys d d' \<Longrightarrow> same_keys d' d'' \<Longrightarrow> same_keys d d''"
  by (simp add: same_keys_def)

lemma admitted_keys: "same_keys d (fst (admitted_request rt now q payload d))"
proof (cases "require_api_key (rt_kdf rt) (rt_variable rt) now d (hq_headers q)")
  case (Inl e)
  then show ?thesis by (cases e) (simp_all add: admitted_request_def handler_keys)
next
  case auth: (Inr auth)
  have routed: "same_keys d (fst (case intent_route rt query auth d of (d', Routed response) \<Rightarrow> (d', Ok_Reply response)
      | (d', Failed st detail logged) \<Rightarrow> http_exception_handler rt q st detail logged d'))" for query
  proof -
    obtain d' reply where r: "intent_route rt query auth d = (d', reply)" by fastforce
    then have "same_keys d d'" using intent_route_keys [of d rt query auth] by simp
    then show ?thesis by (cases reply) (auto simp: r intro: same_keys_trans [OF _ handler_keys(1)])
  qed
  show ?thesis
    by (simp add: admitted_request_def auth handler_keys routed split: option.split)
qed

lemma endpoint_keys: "same_keys d (fst (runtime_endpoint rt now q d))"
  by (simp add: runtime_endpoint_def admitted_keys handler_keys split: option.split sum.split json_error.split)

lemma key_step_revoked: "revoked k d \<Longrightarrow> revoked k (key_step d e)"
proof (cases "(d, e)" rule: key_step.cases)
  case (6 d' ke s k' cx)
  then show "revoked k d \<Longrightarrow> revoked k (key_step d e)"
    by (auto split: sum.split elim!: revealE dest: revoked_cong)
next
  case (7 d' ke rt now q)
  then show "revoked k d \<Longrightarrow> revoked k (key_step d e)"
    using endpoint_keys [of d rt now q] revoked_cong [of "fst (runtime_endpoint rt now q d)" d k] by (simp add: same_keys_def)
qed (auto split: sum.split dest: create_service_keys revoked_cong create_key_revoked [OF disjI1]
    create_key_revoked [OF disjI2] revoke_handler_revoked revoke_service_revoked)

interpretation key_lives: absorbing_machine key_step "\<lambda>_. True" "revoked k" for k
  by unfold_locales (simp_all add: key_step_revoked)

lemma revoked_not_admitted:
  assumes "revoked k d" and "snd (runtime_endpoint rt now q d) = Ok_Reply response"
  shows "ah_key_id (hq_headers q) \<noteq> Some k"
proof
  assume k: "ah_key_id (hq_headers q) = Some k"
  obtain payload auth where "require_api_key (rt_kdf rt) (rt_variable rt) now d (hq_headers q) = Inr auth"
    using endpoint_Ok [OF assms(2)] admitted_Ok by blast
  then obtain r where "get_api_key_by_id d k = Some r" "ak_status r = lit ''active''"
    using k by (auto simp: require_api_key_Inr key_usable_def)
  then show False using assms(1) by (auto simp: revoked_def lit_def)
qed

text \<open>
  C3: once an administrator has revoked a key, whatever administrators and clients do afterwards, no runtime request
  under the key is answered with a route or any other response, and its secret is not revealed.
\<close>

theorem revoked_key_never_admitted:
  assumes "revoke_api_key_handler ke k cx d = Inr (d', r) \<or> revoke_service_api_key ke s k cx d = Inr (d', r)"
    and "d2 = key_run d' es"
  shows "(snd (runtime_endpoint rt now q d2) = Ok_Reply response \<longrightarrow> ah_key_id (hq_headers q) \<noteq> Some k)
    \<and> reveal_service_api_key ke' s' k cx' d2 \<noteq> Inr (d3, r', secret)"
proof -
  have "revoked k d'" using assms(1) revoke_handler_revoked revoke_service_revoked by blast
  then have rev: "revoked k d2" unfolding assms(2) key_run_def by (rule key_lives.run_final [OF TrueI])
  moreover have "reveal_service_api_key ke' s' k cx' d2 \<noteq> Inr (d3, r', secret)"
  proof
    assume "reveal_service_api_key ke' s' k cx' d2 = Inr (d3, r', secret)"
    then show False
    proof (rule revealE)
      assume "get_api_key_by_id d2 k = Some r'" "ak_status r' \<noteq> lit ''revoked''"
      then show False using rev by (simp add: revoked_def)
    qed
  qed
  ultimately show ?thesis using revoked_not_admitted by blast
qed

end
