(* ===== verification/Live_Keys.thy ===== *)
theory Live_Keys
  imports Live_Service Key_Safety
begin

text \<open>A key issued in the running service of \<open>Live_Service\<close>, and revoked.\<close>

definition live_admin :: admin_env where
  "live_admin = \<lparr>en_collate = (\<lambda>_. 0), en_lower_like = (\<lambda>_ _. False), en_clock = (\<lambda>n. int n), en_uuid = dec,
     en_uuid_hex = dec, en_token = lit ''t'', en_digest = id, en_hash_password = id,
     en_verify_password = (\<lambda>p h. p = h), en_dump_time = (\<lambda>_. []), en_source_ip = None,
     en_variable = map_of [(lit ''API_KEY_SECRET_KEK_ID'', lit ''k''),
       (lit ''API_KEY_SECRET_KEK_BASE64'', b64encode (replicate 32 0)), (lit ''API_KEY_SECRET_LEGACY_KEKS_JSON'', lit ''{}'')]\<rparr>"

definition live_ke :: key_env where
  "live_ke = \<lparr>ke_admin = live_admin, ke_aead = live_aead, ke_nonces = live_nonces, ke_kdf = (\<lambda>_ _ _. [7]), ke_salt = [1],
     ke_hexdigest = (\<lambda>_. []), ke_py_str = (\<lambda>_. [])\<rparr>"

definition live_owner :: admin_context where
  "live_owner = \<lparr>cx_actor_id = [9], cx_roles = {lit ''system_admin''}, cx_service_scope = {}, cx_all_service_scopes = True,
     cx_service_roles = []\<rparr>"





lemma live_audit: "db_audit_logs d = [] \<Longrightarrow> \<exists>d'. audit_entry en k ev a s t tt ti vr ip b af now d = Inr d'"
  by (simp add: audit_entry_def insert_audit_log_def insert_row_def unhandled_def)



lemma live_revoked: "\<exists>d' r. revoke_api_key_handler live_ke [7] live_owner live_db = Inr (d', r)"
proof -
  have "get_api_key_by_id live_db [7] = Some live_key"
    by (simp add: get_api_key_by_id_def live_db_def first_row_def live_key_def)
  moreover have "require_api_key_management_access live_owner s = Inr ()" for s
    by (simp add: require_api_key_management_access_def service_guard_def has_role_def live_owner_def)
  moreover have "ak_status live_key \<noteq> lit ''revoked''" by (simp add: live_key_def lit_def)
  moreover have "\<exists>d'. audit_entry (ke_admin live_ke) 0 ''api_key.revoked'' a s None ''api_key'' i None None b af now
      (live_db\<lparr>db_api_keys := rows\<rparr>) = Inr d'" for a s i b af now rows
    by (rule live_audit) (simp add: live_db_def empty_db_def)
  ultimately show ?thesis
    by (fastforce simp: revoke_api_key_handler_def revoke_api_key_record_def Store.revoke_api_key_def Let_def bindE_Inr)
qed

theorem revoked_key_never_admitted_witness:
  "\<exists>d' r. revoke_api_key_handler live_ke [7] live_owner live_db = Inr (d', r)
    \<and> (\<forall>response. snd (runtime_endpoint live_rt 1 live_request d') \<noteq> Ok_Reply response)"
proof -
  obtain d' r where r: "revoke_api_key_handler live_ke [7] live_owner live_db = Inr (d', r)" using live_revoked by blast
  have "d' = key_run d' ([] :: (key_env \<times> unit key_event) list)" by (simp add: key_run_def)
  note never = revoked_key_never_admitted [OF disjI1 [OF r] this]
  moreover have "ah_key_id (hq_headers live_request) = Some [7]" by (simp add: live_request_def)
  ultimately have "\<forall>response. snd (runtime_endpoint live_rt 1 live_request d') \<noteq> Ok_Reply response" by blast
  then show ?thesis using r by blast
qed

end
