(* ===== verification/Catalog_Safety.thy ===== *)
theory Catalog_Safety
  imports Catalog_Handlers Diagnostics Live_Keys
begin

text \<open>
  A catalog version can be brought back: loading it into the editable catalog restores, intent by intent and example by
  example, what the service had when the version was created, whatever was edited since.
\<close>

section \<open>Rows under two keys\<close>

lemma update_other_key:
  assumes "distinct (map k1 rows)" and "distinct (map k2 rows)" and "x \<in> set rows"
  shows "update_where (\<lambda>q. k1 q = k1 x) f rows = update_where (\<lambda>q. k2 q = k2 x) f rows"
proof -
  have "k1 q = k1 x \<longleftrightarrow> k2 q = k2 x" if "q \<in> set rows" for q
    using distinct_key [OF assms(1) that assms(3)] distinct_key [OF assms(2) that assms(3)] by auto
  then show ?thesis by (auto simp: update_where_def)
qed

lemma update_put_other_key:
  assumes "distinct (map k1 rows)" and "distinct (map k2 rows)" and "x \<in> set rows" and "k2 r = k2 x"
  shows "update_where (\<lambda>q. k1 q = k1 x) (\<lambda>_. r) rows = put_row k2 r rows"
  unfolding put_row_def assms(4) by (rule update_other_key [OF assms(1-3)])

section \<open>Intents\<close>

definition intent_content :: "intent \<Rightarrow> str \<times> str \<times> str \<times> str \<times> str list \<times> str list" where
  "intent_content r = (in_domain r, in_display_name r, in_description r, in_route_key r, in_include_keywords r,
     in_exclude_keywords r)"

definition intent_key :: "intent \<Rightarrow> str \<times> str" where
  "intent_key r = (in_service_id r, in_intent_id r)"

definition intents_keyed :: "db \<Rightarrow> bool" where
  "intents_keyed d \<longleftrightarrow> distinct (map in_id (db_intents d)) \<and> distinct (map intent_key (db_intents d))"

lemma get_intent_key: "get_intent d s i = first_row (\<lambda>r. intent_key r = (s, i)) (db_intents d)"
  by (simp add: get_intent_def intent_key_def)

definition restored :: "intent \<Rightarrow> intent \<Rightarrow> bool" where
  "restored i r \<longleftrightarrow> intent_content r = intent_content i \<and> in_status r = lit ''draft''"

lemma texts_read: "mapE (\<lambda>x. some_or (as_str x) e) (map JStr ks) = Inr ks"
  by (induction ks) simp_all

lemma draft_values_item:
  "draft_values (json_dict (intent_item d s i)) actor now = Inr (\<lambda>r. r\<lparr>in_domain := in_domain i,
     in_display_name := in_display_name i, in_description := in_description i, in_route_key := in_route_key i,
     in_status := lit ''draft'', in_include_keywords := in_include_keywords i, in_exclude_keywords := in_exclude_keywords i,
     in_updated_by := actor, in_updated_at := now\<rparr>)"
  by (simp add: draft_values_def draft_text_def draft_keywords_def intent_item_def get_default_def lit_def texts_read)

lemma load_intents_only: "foldE (load_intent uuid s actor now) items d = Inr d' \<Longrightarrow> d' = d\<lparr>db_intents := db_intents d'\<rparr>"
proof (induction items arbitrary: d)
  case (Cons x items)
  then obtain d1 where d1: "load_intent uuid s actor now x d = Inr d1" "foldE (load_intent uuid s actor now) items d1 = Inr d'"
    by (auto simp: raise_simps)
  have "d1 = d\<lparr>db_intents := db_intents d1\<rparr>"
    using d1(1) by (cases x) (auto simp: load_intent_def raise_simps unhandled_def create_intent_def update_intent_def Let_def
      split: json.splits option.splits if_splits)
  then show ?case using Cons.IH [OF d1(2)] by (cases d, cases d1, cases d') simp
qed simp

lemma load_intent_step:
  assumes "load_intent uuid s actor now (k, intent_item d0 s0 i) d = Inr d'" and "intents_keyed d"
  obtains r where "restored i r" "d' = d\<lparr>db_intents := db_intents d'\<rparr>" "intents_keyed d'"
    "\<And>t j. get_intent d' t j = (if t = s \<and> j = in_intent_id i then Some r else get_intent d t j)"
proof -
  let ?f = "\<lambda>r. r\<lparr>in_domain := in_domain i, in_display_name := in_display_name i, in_description := in_description i,
    in_route_key := in_route_key i, in_status := lit ''draft'', in_include_keywords := in_include_keywords i,
    in_exclude_keywords := in_exclude_keywords i, in_updated_by := actor, in_updated_at := now\<rparr>"
  have id: "get (json_dict (intent_item d0 s0 i)) (lit ''intent_id'') = JStr (in_intent_id i)"
    by (simp add: intent_item_def get_def lit_def)
  have restored: "restored i (?f r)" for r :: intent by (simp add: restored_def intent_content_def)
  show ?thesis
  proof (cases "get_intent d s (in_intent_id i)")
    case None
    let ?r = "?f (new_intent (uuid k) s (in_intent_id i) actor now)"
    have d': "d' = d\<lparr>db_intents := db_intents d @ [?r]\<rparr>" and free: "\<forall>q \<in> set (db_intents d). \<not> intent_conflict ?r q"
      using assms(1) None by (auto simp: load_intent_def id draft_values_item unhandled_def create_intent_def raise_simps split: if_splits)
    have key: "intent_key ?r = (s, in_intent_id i)" by (simp add: intent_key_def new_intent_def)
    have "intents_keyed d'"
      using assms(2) free by (auto simp: d' intents_keyed_def intent_conflict_def intent_key_def)
    moreover have "get_intent d' t j = (if t = s \<and> j = in_intent_id i then Some ?r else get_intent d t j)" for t j
      using None by (auto simp: d' get_intent_key first_row_append key split: option.split)
    ultimately show ?thesis using restored d' by (intro that [of ?r]) auto
  next
    case (Some x)
    then have x: "x \<in> set (db_intents d)" "intent_key x = (s, in_intent_id i)"
      by (auto simp: get_intent_key dest: first_row_Some)
    have d': "d' = d\<lparr>db_intents := update_where (\<lambda>q. in_id q = in_id x) (\<lambda>_. ?f x) (db_intents d)\<rparr>"
      using assms(1) Some by (auto simp: load_intent_def id draft_values_item unhandled_def update_intent_def raise_simps Let_def split: if_splits)
    have key: "intent_key (?f x) = intent_key x" by (simp add: intent_key_def)
    have rows: "db_intents d' = put_row intent_key (?f x) (db_intents d)"
      using update_put_other_key [OF _ _ x(1) key, of in_id] assms(2) by (simp add: d' intents_keyed_def)
    have "map in_id (db_intents d') = map in_id (db_intents d)" unfolding d' by (simp, rule update_where_keys) simp
    then have "intents_keyed d'" using assms(2) rows by (simp add: intents_keyed_def)
    moreover have "get_intent d' t j = (if t = s \<and> j = in_intent_id i then Some (?f x) else get_intent d t j)" for t j
      using Some x(2) by (auto simp: get_intent_key rows first_row_put_row key)
    moreover have "d' = d\<lparr>db_intents := db_intents d'\<rparr>" by (simp add: d')
    ultimately show ?thesis using restored by (intro that [of "?f x"]) auto
  qed
qed

lemma load_intents:
  assumes "foldE (load_intent uuid s actor now) (enumerate k (map (intent_item d0 s0) xs)) d = Inr d'" and "intents_keyed d"
    and "distinct (map in_intent_id xs)"
  shows "intents_keyed d' \<and> d' = d\<lparr>db_intents := db_intents d'\<rparr>
    \<and> (\<forall>i \<in> set xs. \<exists>r. get_intent d' s (in_intent_id i) = Some r \<and> restored i r)
    \<and> (\<forall>t j. t \<noteq> s \<or> j \<notin> in_intent_id ` set xs \<longrightarrow> get_intent d' t j = get_intent d t j)"
  using assms
proof (induction xs arbitrary: k d)
  case (Cons i xs)
  obtain d1 where d1: "load_intent uuid s actor now (k, intent_item d0 s0 i) d = Inr d1"
    "foldE (load_intent uuid s actor now) (enumerate (Suc k) (map (intent_item d0 s0) xs)) d1 = Inr d'"
    using Cons.prems(1) by (auto simp: raise_simps)
  from load_intent_step [OF d1(1) Cons.prems(2)] obtain r where r: "restored i r" "d1 = d\<lparr>db_intents := db_intents d1\<rparr>"
    "intents_keyed d1" "\<And>t j. get_intent d1 t j = (if t = s \<and> j = in_intent_id i then Some r else get_intent d t j)" by blast
  have rest: "distinct (map in_intent_id xs)" "in_intent_id i \<notin> in_intent_id ` set xs" using Cons.prems(3) by auto
  note ih = Cons.IH [OF d1(2) r(3) rest(1)]
  have "d' = d\<lparr>db_intents := db_intents d'\<rparr>" using ih r(2) by (cases d, cases d1, cases d') simp
  moreover have "get_intent d' s (in_intent_id i) = Some r" using ih r(4) rest(2) by simp
  ultimately show ?case using ih r(1,4) by auto
qed simp

section \<open>Examples\<close>

definition example_content :: "intent_example \<Rightarrow> str \<times> str \<times> encrypted_text \<times> str" where
  "example_content r = (ie_intent_id r, ie_example_type r, ie_text_raw r, ie_text_masked r)"

definition examples_keyed :: "db \<Rightarrow> bool" where
  "examples_keyed d \<longleftrightarrow> distinct (map ie_example_id (db_intent_examples d))"

lemma first_row_and:
  assumes "distinct (map key rows)"
  shows "first_row (\<lambda>r. P r \<and> key r = k) rows = (case first_row (\<lambda>r. key r = k) rows of None \<Rightarrow> None | Some r \<Rightarrow> if P r then Some r else None)"
proof (cases "first_row (\<lambda>r. key r = k) rows")
  case None
  then have "first_row (\<lambda>r. P r \<and> key r = k) rows = None" by (auto simp: first_row_None)
  then show ?thesis by (simp add: None)
next
  case (Some x)
  then have "x \<in> set rows" "key x = k" by (auto dest: first_row_Some)
  then have "first_row (\<lambda>r. P r \<and> key r = k) rows = (if P x then Some x else None)"
    using distinct_key [OF assms] by (induction rows) (auto simp: first_row_def find_None_iff assms distinct_map inj_on_def)
  then show ?thesis by (simp add: Some)
qed

definition loaded :: "str \<Rightarrow> str \<Rightarrow> timestamp \<Rightarrow> catalog_example_embedding \<Rightarrow> intent_example" where
  "loaded s actor now q = loaded_example (the (ce_example_id q)) s actor now q"

lemma load_example_step:
  assumes "load_example s actor now q d = Inr d'" and "examples_keyed d" and "ce_example_id q = Some i"
  shows "d' = d\<lparr>db_intent_examples := db_intent_examples d'\<rparr> \<and> examples_keyed d'
    \<and> (\<forall>j. get_example d' s j = (if j = i then Some (loaded s actor now q) else get_example d s j))"
proof -
  let ?r = "loaded_example i s actor now q"
  have r: "ie_example_id ?r = i" "ie_service_id ?r = s" by (simp_all add: loaded_example_def)
  show ?thesis
  proof (cases "get_example d s i")
    case None
    have d': "d' = d\<lparr>db_intent_examples := db_intent_examples d @ [?r]\<rparr>" and free: "i \<notin> ie_example_id ` set (db_intent_examples d)"
      using assms(1) None r(1) by (auto simp: load_example_def assms(3) unhandled_def create_example_def raise_simps Let_def)
    have "get_example d' s j = (if j = i then Some ?r else get_example d s j)" for j
      using None r by (auto simp: d' get_example_def first_row_append split: option.split)
    then show ?thesis using assms(2,3) free r by (auto simp: d' examples_keyed_def loaded_def)
  next
    case (Some x)
    then have x: "ie_example_id x = i" "ie_service_id x = s" by (auto simp: get_example_def dest: first_row_Some)
    have d': "d' = d\<lparr>db_intent_examples := put_row ie_example_id ?r (db_intent_examples d)\<rparr>"
      using assms(1) Some by (auto simp: load_example_def assms(3) update_example_def Let_def put_row_def r x(1))
    have keyed: "examples_keyed d'" using assms(2) by (simp add: d' examples_keyed_def)
    have "get_example d' s j = (if j = i then Some ?r else get_example d s j)" for j
    proof -
      have "first_row (\<lambda>q. ie_example_id q = i) (db_intent_examples d) \<noteq> None"
        using Some by (auto simp: get_example_def first_row_None dest!: first_row_Some)
      then show ?thesis
        using first_row_and [OF keyed [unfolded examples_keyed_def], of "\<lambda>r. ie_service_id r = s" j]
          first_row_and [OF assms(2) [unfolded examples_keyed_def], of "\<lambda>r. ie_service_id r = s" j]
        by (auto simp: get_example_def d' first_row_put_row r)
    qed
    then show ?thesis using keyed assms(3) by (simp add: d' loaded_def)
  qed
qed

lemma load_examples_only: "foldE (load_example s actor now) qs d = Inr d' \<Longrightarrow> db_intents d' = db_intents d"
proof (induction qs arbitrary: d)
  case (Cons q qs)
  then obtain d1 where d1: "load_example s actor now q d = Inr d1" "foldE (load_example s actor now) qs d1 = Inr d'"
    by (auto simp: raise_simps)
  have "db_intents d1 = db_intents d"
    using d1(1) by (auto simp: load_example_def raise_simps unhandled_def create_example_def update_example_def Let_def
      split: option.splits)
  then show ?case using Cons.IH [OF d1(2)] by simp
qed simp

lemma load_examples:
  assumes "foldE (load_example s actor now) qs d = Inr d'" and "examples_keyed d"
    and "distinct (map ce_example_id qs)" and "\<forall>q \<in> set qs. ce_example_id q \<noteq> None"
  shows "d' = d\<lparr>db_intent_examples := db_intent_examples d'\<rparr>
    \<and> (\<forall>q \<in> set qs. get_example d' s (the (ce_example_id q)) = Some (loaded s actor now q))
    \<and> (\<forall>j. Some j \<notin> ce_example_id ` set qs \<longrightarrow> get_example d' s j = get_example d s j)"
  using assms
proof (induction qs arbitrary: d)
  case (Cons q qs)
  obtain i where i: "ce_example_id q = Some i" using Cons.prems(4) by auto
  obtain d1 where d1: "load_example s actor now q d = Inr d1" "foldE (load_example s actor now) qs d1 = Inr d'"
    using Cons.prems(1) by (auto simp: raise_simps)
  note step = load_example_step [OF d1(1) Cons.prems(2) i]
  have ih: "d' = d1\<lparr>db_intent_examples := db_intent_examples d'\<rparr>"
    "\<forall>q \<in> set qs. get_example d' s (the (ce_example_id q)) = Some (loaded s actor now q)"
    "\<forall>j. Some j \<notin> ce_example_id ` set qs \<longrightarrow> get_example d' s j = get_example d1 s j"
    using Cons.IH [OF d1(2)] step Cons.prems(3,4) by auto
  have "d' = d\<lparr>db_intent_examples := db_intent_examples d'\<rparr>" using ih(1) step by (cases d, cases d1, cases d') simp
  moreover have "Some i \<notin> ce_example_id ` set qs" using Cons.prems(3) i by auto
  ultimately show ?case using ih(2,3) step i by auto
qed simp

section \<open>What is removed\<close>

lemma map_filter_in: "y \<in> set (List.map_filter f xs) \<longleftrightarrow> Some y \<in> f ` set xs"
  by (induction xs) (auto simp: List.map_filter_def)

lemma delete_examples_eq: "fold (\<lambda>e d. delete_example d e) es d
    = d\<lparr>db_intent_examples := filter (\<lambda>q. ie_example_id q \<notin> ie_example_id ` set es) (db_intent_examples d)\<rparr>"
  by (induction es arbitrary: d) (auto simp: delete_example_def intro!: filter_cong)

lemma delete_intents_eq: "fold (\<lambda>i d. delete_intent d i) xs d
    = d\<lparr>db_intents := filter (\<lambda>q. in_id q \<notin> in_id ` set xs) (db_intents d)\<rparr>"
  by (induction xs arbitrary: d) (auto simp: delete_intent_def intro!: filter_cong)

lemma examples_removed:
  assumes "d1 = fold (\<lambda>e d. delete_example d e) (filter (\<lambda>e. ie_example_id e \<notin> ids) (list_examples_for_service d s)) d"
  shows "examples_keyed d \<Longrightarrow> examples_keyed d1" and "d1 = d\<lparr>db_intent_examples := db_intent_examples d1\<rparr>"
    and "j \<notin> ids \<Longrightarrow> get_example d1 s j = None"
proof -
  note d1 = assms [unfolded delete_examples_eq]
  show "examples_keyed d \<Longrightarrow> examples_keyed d1" by (simp add: d1 examples_keyed_def distinct_map_filter)
  show "d1 = d\<lparr>db_intent_examples := db_intent_examples d1\<rparr>" by (simp add: d1)
  show "j \<notin> ids \<Longrightarrow> get_example d1 s j = None"
    by (auto simp: get_example_def first_row_None d1 list_examples_for_service_def examples_where_def)
qed

lemma intents_removed:
  assumes "d1 = fold (\<lambda>i d. delete_intent d i) (filter (\<lambda>i. in_intent_id i \<notin> ids) (list_intents collate d s)) d"
  shows "intents_keyed d \<Longrightarrow> intents_keyed d1" and "d1 = d\<lparr>db_intents := db_intents d1\<rparr>"
    and "j \<notin> ids \<Longrightarrow> get_intent d1 s j = None"
proof -
  note d1 = assms [unfolded delete_intents_eq]
  show "intents_keyed d \<Longrightarrow> intents_keyed d1" by (simp add: d1 intents_keyed_def distinct_map_filter)
  show "d1 = d\<lparr>db_intents := db_intents d1\<rparr>" by (simp add: d1)
  show "j \<notin> ids \<Longrightarrow> get_intent d1 s j = None"
    by (auto simp: get_intent_def first_row_None d1 list_intents_def)
qed

section \<open>What a version holds\<close>

definition embedding_payload :: "catalog_example_embedding \<Rightarrow> str option \<times> str \<times> str \<times> encrypted_text \<times> str" where
  "embedding_payload q = (ce_example_id q, ce_intent_id q, ce_example_type q, ce_text_raw q, ce_text_masked q)"

definition example_payload :: "intent_example \<Rightarrow> str option \<times> str \<times> str \<times> encrypted_text \<times> str" where
  "example_payload e = (Some (ie_example_id e), example_content e)"

lemma catalog_rows_payload:
  assumes "length emb = length (catalog_examples (cn_collate cn) d (cv_service_id r))"
  shows "map embedding_payload (catalog_rows cn d r model_version index emb)
    = map example_payload (catalog_examples (cn_collate cn) d (cv_service_id r))"
  using assms by (auto simp: catalog_rows_def Let_def embedding_row_def embedding_payload_def example_payload_def
    example_content_def intro!: nth_equalityI)

lemma list_intents_ids: "intents_keyed d \<Longrightarrow> distinct (map in_intent_id (list_intents collate d s))"
  by (auto simp: intents_keyed_def list_intents_def order_by_def distinct_map inj_on_def intent_key_def)

lemma catalog_examples_set:
  assumes "\<forall>e \<in> set (db_intent_examples d). ie_service_id e = s \<longrightarrow> get_intent d s (ie_intent_id e) \<noteq> None"
  shows "set (catalog_examples collate d s) = {e \<in> set (db_intent_examples d). ie_service_id e = s}"
proof -
  have listed: "e \<in> set (list_examples d s i) \<longleftrightarrow> e \<in> set (db_intent_examples d) \<and> ie_service_id e = s \<and> ie_intent_id e = i" for e i
    by (simp add: list_examples_def examples_where_def)
  show ?thesis
  proof (intro equalityI subsetI)
    fix e
    assume "e \<in> {e \<in> set (db_intent_examples d). ie_service_id e = s}"
    then have e: "e \<in> set (db_intent_examples d)" "ie_service_id e = s" by simp_all
    then obtain i where "get_intent d s (ie_intent_id e) = Some i" using assms by blast
    then have "i \<in> set (list_intents collate d s)" "in_intent_id i = ie_intent_id e"
      by (auto simp: get_intent_def list_intents_def dest: first_row_Some)
    then show "e \<in> set (catalog_examples collate d s)" using e listed by (fastforce simp: catalog_examples_def)
  qed (auto simp: catalog_examples_def listed)
qed

lemma catalog_examples_distinct:
  assumes "examples_keyed d" and "intents_keyed d"
  shows "distinct (map ie_example_id (catalog_examples collate d s))"
proof -
  have one: "distinct (map ie_example_id (list_examples d s i))" for i
    using assms(1) by (auto simp: examples_keyed_def list_examples_def examples_where_def order_by_def distinct_map inj_on_def)
  have sets: "ie_intent_id e = i \<and> e \<in> set (db_intent_examples d)" if "e \<in> set (list_examples d s i)" for e i
    using that by (auto simp: list_examples_def examples_where_def)
  have apart: "ie_example_id e \<noteq> ie_example_id e'"
    if "e \<in> set (list_examples d s i)" "e' \<in> set (list_examples d s j)" "i \<noteq> j" for e e' i j
    using sets [OF that(1)] sets [OF that(2)] that(3) distinct_key [OF assms(1) [unfolded examples_keyed_def], of e e'] by auto
  have "distinct (map in_intent_id xs) \<Longrightarrow> distinct (map ie_example_id (concat (map (\<lambda>i. list_examples d s (in_intent_id i)) xs)))" for xs
  proof (induction xs)
    case (Cons x xs)
    then show ?case using one [of "in_intent_id x"] by (fastforce dest: apart)
  qed simp
  from this [OF list_intents_ids [OF assms(2)]] show ?thesis unfolding catalog_examples_def .
qed

text \<open>The rows of a created version, by their payload.\<close>

lemma created_payloads:
  assumes "create_catalog_version cn d service description created_by now model_version source = Inr (d', r)"
    and "\<forall>q \<in> set (db_example_embeddings d). ce_intent_catalog_version q \<noteq> cv_intent_catalog_version r"
  shows "mset (map embedding_payload (list_catalog_version_example_embeddings d' (cv_intent_catalog_version r)))
      = mset (map example_payload (catalog_examples (cn_collate cn) d (sv_service_id service)))"
    and "cv_snapshot r = catalog_snapshot (cn_collate cn) d (sv_service_id service)"
proof -
  obtain index emb where d': "d' = d\<lparr>db_catalog_versions := db_catalog_versions d @ [r],
      db_vector_indexes := db_vector_indexes d @ [index_row r model_version index],
      db_example_embeddings := db_example_embeddings d @ catalog_rows cn d r model_version index emb\<rparr>"
    and n: "length emb = length (catalog_examples (cn_collate cn) d (cv_service_id r))"
    and r: "cv_service_id r = sv_service_id service" "cv_snapshot r = catalog_snapshot (cn_collate cn) d (cv_service_id r)"
    by (rule create_catalog_versionE [OF assms(1)]) blast
  have "filter (\<lambda>q. ce_intent_catalog_version q = cv_intent_catalog_version r) (db_example_embeddings d')
      = catalog_rows cn d r model_version index emb"
    using assms(2) by (auto simp: d' catalog_rows_def Let_def embedding_row_def filter_empty_conv filter_id_conv)
  then show "mset (map embedding_payload (list_catalog_version_example_embeddings d' (cv_intent_catalog_version r)))
      = mset (map example_payload (catalog_examples (cn_collate cn) d (sv_service_id service)))"
    using arg_cong [OF catalog_rows_payload [OF n, of model_version index], of mset]
    by (simp add: list_catalog_version_example_embeddings_def order_by_def r(1))
  show "cv_snapshot r = catalog_snapshot (cn_collate cn) d (sv_service_id service)" using r by simp
qed

section \<open>Loading restores the version\<close>

lemma load_catalogE:
  assumes "load_catalog_version_to_draft en s v cx d = Inr (d', resp)" and "get_catalog_version d s v = Some r"
    and "cv_snapshot r = catalog_snapshot collate d0 s0"
  obtains d1 d2 d3 d4 where
    "d1 = fold (\<lambda>e d. delete_example d e) (filter (\<lambda>e. ie_example_id e
        \<notin> set (List.map_filter ce_example_id (list_catalog_version_example_embeddings d v))) (list_examples_for_service d s)) d"
    "d2 = fold (\<lambda>i d. delete_intent d i) (filter (\<lambda>i. in_intent_id i \<notin> in_intent_id ` set (list_intents collate d0 s0))
        (list_intents (en_collate en) d1 s)) d1"
    "foldE (load_intent (en_uuid en) s (cx_actor_id cx) (en_clock en 0))
        (enumerate 1 (map (intent_item d0 s0) (list_intents collate d0 s0))) d2 = Inr d3"
    "foldE (load_example s (cx_actor_id cx) (en_clock en 0)) (list_catalog_version_example_embeddings d v) d3 = Inr d4"
    "db_intents d' = db_intents d4" "db_intent_examples d' = db_intent_examples d4"
proof -
  have "List.map_filter (\<lambda>i. as_str (get (json_dict i) (lit ''intent_id''))) (map (intent_item d0 s0) xs) = map in_intent_id xs" for xs
    by (induction xs) (simp_all add: List.map_filter_def intent_item_def get_def lit_def)
  then have ids: "set (List.map_filter (\<lambda>i. as_str (get (json_dict i) (lit ''intent_id''))) (map (intent_item d0 s0) (list_intents collate d0 s0)))
      = in_intent_id ` set (list_intents collate d0 s0)" by simp
  have audit: "db_intents d2 = db_intents d1 \<and> db_intent_examples d2 = db_intent_examples d1"
    if "audit_entry en k t a i tr ty ti vr ip b af now d1 = Inr d2" for k t a i tr ty ti vr ip b af now and d1 d2 :: db
    using that by (auto simp: audit_entry_def unhandled_def insert_audit_log_def raise_simps)
  from assms(1) show ?thesis
    unfolding load_catalog_version_to_draft_def Let_def assms(2) some_or_simps bindE_simps assms(3) snapshot_intents
      json_list.simps ids
    by (elim bindE_elim) (use audit in \<open>auto intro: that [OF refl refl]\<close>)
qed

lemma get_intent_listed:
  assumes "intents_keyed d"
  shows "get_intent d s i = Some q \<longleftrightarrow> q \<in> set (list_intents collate d s) \<and> in_intent_id q = i"
proof
  assume "get_intent d s i = Some q"
  then show "q \<in> set (list_intents collate d s) \<and> in_intent_id q = i" by (auto simp: get_intent_def list_intents_def dest: first_row_Some)
next
  assume q: "q \<in> set (list_intents collate d s) \<and> in_intent_id q = i"
  then have "q \<in> set (db_intents d)" "intent_key q = (s, i)" by (auto simp: list_intents_def intent_key_def)
  moreover then obtain p where p: "get_intent d s i = Some p" by (fastforce simp: get_intent_key first_row_None simp flip: not_None_eq)
  moreover from p have "p \<in> set (db_intents d)" "intent_key p = (s, i)" by (auto simp: get_intent_key dest: first_row_Some)
  ultimately show "get_intent d s i = Some q" using assms distinct_key [of intent_key "db_intents d" p q] by (simp add: intents_keyed_def)
qed

lemma get_example_listed:
  assumes "examples_keyed d"
  shows "get_example d s j = Some e \<longleftrightarrow> e \<in> {e \<in> set (db_intent_examples d). ie_service_id e = s} \<and> ie_example_id e = j"
proof -
  have "first_row (\<lambda>r. ie_example_id r = j) (db_intent_examples d) = Some e \<longleftrightarrow> e \<in> set (db_intent_examples d) \<and> ie_example_id e = j"
  proof
    assume e: "e \<in> set (db_intent_examples d) \<and> ie_example_id e = j"
    then obtain p where p: "first_row (\<lambda>r. ie_example_id r = j) (db_intent_examples d) = Some p"
      by (fastforce simp: first_row_None simp flip: not_None_eq)
    with e show "first_row (\<lambda>r. ie_example_id r = j) (db_intent_examples d) = Some e"
      using distinct_key [OF assms [unfolded examples_keyed_def], of p e] first_row_Some [OF p] by simp
  qed (auto dest: first_row_Some)
  then show ?thesis
    using first_row_and [OF assms [unfolded examples_keyed_def], of "\<lambda>r. ie_service_id r = s" j]
    by (auto simp: get_example_def split: option.splits if_splits)
qed

lemma restored_intents:
  assumes "foldE (load_intent uuid s actor now) (enumerate k (map (intent_item d s) (list_intents collate d s))) d1 = Inr d2"
    and "intents_keyed d" and "intents_keyed d1"
    and "\<And>j. j \<notin> in_intent_id ` set (list_intents collate d s) \<Longrightarrow> get_intent d1 s j = None"
  shows "rel_option restored (get_intent d s i) (get_intent d2 s i)"
proof -
  have l: "\<forall>i \<in> set (list_intents collate d s). \<exists>r. get_intent d2 s (in_intent_id i) = Some r \<and> restored i r"
    "\<forall>j. j \<notin> in_intent_id ` set (list_intents collate d s) \<longrightarrow> get_intent d2 s j = get_intent d1 s j"
    using load_intents [OF assms(1,3) list_intents_ids [OF assms(2)]] by auto
  show ?thesis
  proof (cases "get_intent d s i")
    case None
    then have "i \<notin> in_intent_id ` set (list_intents collate d s)" using get_intent_listed [OF assms(2), of s i _ collate] by auto
    then show ?thesis using l(2) assms(4) None by simp
  next
    case (Some q)
    then have "q \<in> set (list_intents collate d s)" "in_intent_id q = i" using get_intent_listed [OF assms(2), of s i q collate] by auto
    then show ?thesis using l(1) Some by fastforce
  qed
qed

definition example_restored :: "intent_example \<Rightarrow> intent_example \<Rightarrow> bool" where
  "example_restored e r \<longleftrightarrow> example_content r = example_content e \<and> \<not> ie_approved r \<and> ie_embedding r = None"

lemma loaded_payload:
  "embedding_payload q = example_payload e \<Longrightarrow> ce_example_id q = Some (ie_example_id e) \<and> example_restored e (loaded s actor now q)"
  by (auto simp: embedding_payload_def example_payload_def example_restored_def loaded_def loaded_example_def example_content_def)

lemma restored_examples:
  assumes "foldE (load_example s actor now) rows d1 = Inr d2" and "examples_keyed d1"
    and "mset (map embedding_payload rows) = mset (map example_payload examples)" and "distinct (map ie_example_id examples)"
    and "\<And>e j. get_example d s j = Some e \<longleftrightarrow> e \<in> set examples \<and> ie_example_id e = j"
    and "\<And>j. Some j \<notin> ce_example_id ` set rows \<Longrightarrow> get_example d1 s j = None"
  shows "rel_option example_restored (get_example d s j) (get_example d2 s j)"
proof -
  have "mset (map fst (map embedding_payload rows)) = mset (map fst (map example_payload examples))"
    using assms(3) by (simp only: mset_map)
  then have ids_eq: "mset (map ce_example_id rows) = mset (map (Some \<circ> ie_example_id) examples)"
    by (simp add: embedding_payload_def example_payload_def comp_def)
  have "distinct (map (Some \<circ> ie_example_id) examples)" using assms(4) by (simp add: distinct_map inj_on_def)
  then have d: "distinct (map ce_example_id rows)" using mset_eq_imp_distinct_iff [OF ids_eq] by simp
  have ids: "set (map ce_example_id rows) = Some ` ie_example_id ` set examples"
    using mset_eq_setD [OF ids_eq] by (simp add: image_comp)
  have sets: "embedding_payload ` set rows = example_payload ` set examples" using assms(3) by (metis mset_eq_setD set_map)
  have some: "\<forall>q \<in> set rows. ce_example_id q \<noteq> None" using ids by auto
  note l = load_examples [OF assms(1,2) d some]
  show ?thesis
  proof (cases "get_example d s j")
    case None
    then have "\<forall>e \<in> set examples. ie_example_id e \<noteq> j" using assms(5) [of j] by (metis option.distinct(1))
    then have "Some j \<notin> ce_example_id ` set rows" using ids by auto
    then show ?thesis using l assms(6) None by simp
  next
    case (Some e)
    then obtain q where q: "q \<in> set rows" "embedding_payload q = example_payload e" using assms(5) sets by (metis imageE imageI)
    have "ie_example_id e = j" using Some assms(5) by blast
    then show ?thesis using l q(1) loaded_payload [OF q(2), of s actor now] Some by auto
  qed
qed

text \<open>
  C8: a catalog version that is loaded into the editable catalog restores exactly the intents and the examples the
  service had when the version was created, with their encrypted and masked texts; all of them are drafts again, and
  nothing else is left in the catalog of the service.
\<close>

theorem load_restores_catalog:
  assumes "create_catalog_version cn d service description created_by now model_version source = Inr (d', r)"
    and "intents_keyed d" and "examples_keyed d"
    and "\<forall>e \<in> set (db_intent_examples d). ie_service_id e = sv_service_id service
      \<longrightarrow> get_intent d (sv_service_id service) (ie_intent_id e) \<noteq> None"
    and "\<forall>q \<in> set (db_example_embeddings d). ce_intent_catalog_version q \<noteq> cv_intent_catalog_version r"
    and "get_catalog_version edited (sv_service_id service) (cv_intent_catalog_version r) = Some kept" and "cv_snapshot kept = cv_snapshot r"
    and "map embedding_payload (list_catalog_version_example_embeddings edited (cv_intent_catalog_version r))
      = map embedding_payload (list_catalog_version_example_embeddings d' (cv_intent_catalog_version r))"
    and "intents_keyed edited" and "examples_keyed edited"
    and "load_catalog_version_to_draft en (sv_service_id service) (cv_intent_catalog_version r) cx edited = Inr (final, resp)"
  shows "map_option intent_content (get_intent final (sv_service_id service) i)
        = map_option intent_content (get_intent d (sv_service_id service) i)
    \<and> map_option example_content (get_example final (sv_service_id service) j)
        = map_option example_content (get_example d (sv_service_id service) j)
    \<and> (\<forall>q. get_intent final (sv_service_id service) i = Some q \<longrightarrow> in_status q = lit ''draft'')
    \<and> (\<forall>e. get_example final (sv_service_id service) j = Some e \<longrightarrow> \<not> ie_approved e \<and> ie_embedding e = None)"
proof -
  let ?s = "sv_service_id service" and ?v = "cv_intent_catalog_version r"
  let ?intents = "list_intents (cn_collate cn) d ?s" and ?examples = "catalog_examples (cn_collate cn) d ?s"
  let ?rows = "list_catalog_version_example_embeddings edited ?v"
  note payload = created_payloads(1) [OF assms(1,5)]
  have snap: "cv_snapshot kept = catalog_snapshot (cn_collate cn) d ?s" using created_payloads(2) [OF assms(1,5)] assms(7) by simp
  obtain e1 e2 e3 e4 where
    e1: "e1 = fold (\<lambda>e d. delete_example d e) (filter (\<lambda>e. ie_example_id e
        \<notin> set (List.map_filter ce_example_id ?rows)) (list_examples_for_service edited ?s)) edited"
    and e2: "e2 = fold (\<lambda>i d. delete_intent d i) (filter (\<lambda>i. in_intent_id i \<notin> in_intent_id ` set ?intents)
        (list_intents (en_collate en) e1 ?s)) e1"
    and e3: "foldE (load_intent (en_uuid en) ?s (cx_actor_id cx) (en_clock en 0)) (enumerate 1 (map (intent_item d ?s) ?intents)) e2 = Inr e3"
    and e4: "foldE (load_example ?s (cx_actor_id cx) (en_clock en 0)) ?rows e3 = Inr e4"
    and final: "db_intents final = db_intents e4" "db_intent_examples final = db_intent_examples e4"
    by (rule load_catalogE [OF assms(11,6) snap])
  note x1 = examples_removed [OF e1] and x2 = intents_removed [OF e2]
  have keyed: "intents_keyed e2" "examples_keyed e3"
    and same: "db_intents final = db_intents e3" "\<And>j. get_example e3 ?s j = get_example e1 ?s j"
    using x1(1) [OF assms(10)] x2(1) assms(9) arg_cong [OF x1(2), of db_intents] arg_cong [OF x2(2), of db_intent_examples]
      arg_cong [OF load_intents_only [OF e3], of db_intent_examples] load_examples_only [OF e4] final by (simp_all add: intents_keyed_def examples_keyed_def get_example_def)
  have ids: "Some j \<notin> ce_example_id ` set ?rows \<longleftrightarrow> j \<notin> set (List.map_filter ce_example_id ?rows)" for j
    by (simp add: map_filter_in)
  have "rel_option restored (get_intent d ?s i) (get_intent e3 ?s i)"
    using x2(3) by (intro restored_intents [OF e3 assms(2) keyed(1)]) auto
  moreover have "rel_option example_restored (get_example d ?s j) (get_example e4 ?s j)"
    using x1(3) same(2) ids get_example_listed [OF assms(3), of ?s] catalog_examples_set [OF assms(4), of "cn_collate cn"]
    by (intro restored_examples [OF e4 keyed(2) _ catalog_examples_distinct [OF assms(3,2)]]) (use payload assms(8) in auto)
  ultimately show ?thesis
    by (auto simp: get_intent_def get_example_def same(1) final(2) restored_def example_restored_def elim!: option.rel_cases)
qed

definition emptied :: "db \<Rightarrow> db" where
  "emptied d = d\<lparr>db_intents := [], db_intent_examples := []\<rparr>"

lemma emptied_lookups:
  "get_catalog_version (emptied d) s v = get_catalog_version d s v"
  "list_catalog_version_example_embeddings (emptied d) v = list_catalog_version_example_embeddings d v"
  "list_examples_for_service (emptied d) s = []" "list_intents collate (emptied d) s = []"
  "intents_keyed (emptied d)" "examples_keyed (emptied d)"
  by (simp_all add: emptied_def get_catalog_version_def list_catalog_version_example_embeddings_def
      list_examples_for_service_def examples_where_def list_intents_def order_by_def intents_keyed_def examples_keyed_def)

lemma sample_loaded:
  assumes "create_catalog_version sample_catalog_env sample_catalog_db sample_service sample_description [9] 0 [5] None = Inr (d', r)"
  shows "get_catalog_version d' [2] (cv_intent_catalog_version r) = Some r"
    and "\<exists>d3 resp. load_catalog_version_to_draft live_admin [2] (cv_intent_catalog_version r) live_owner (emptied d') = Inr (d3, resp)"
proof -
  have env: "cn_collate sample_catalog_env = length" and s: "sv_service_id sample_service = [2]"
    by (simp_all add: sample_catalog_env_def sample_service_def)
  obtain index emb where d': "d' = sample_catalog_db\<lparr>db_catalog_versions := db_catalog_versions sample_catalog_db @ [r],
      db_vector_indexes := db_vector_indexes sample_catalog_db @ [index_row r [5] index],
      db_example_embeddings := db_example_embeddings sample_catalog_db @ catalog_rows sample_catalog_env sample_catalog_db r [5] index emb\<rparr>"
    and n: "length emb = length (catalog_examples length sample_catalog_db (cv_service_id r))"
    and r: "cv_service_id r = [2]" "cv_snapshot r = catalog_snapshot length sample_catalog_db (cv_service_id r)"
    by (rule create_catalog_versionE [OF assms, unfolded env s]) blast
  obtain v where emb: "emb = [v]" using n by (auto simp: r(1) sample_catalog_examples length_Suc_conv)
  let ?row = "embedding_row sample_catalog_env (cv_intent_catalog_version r) [2] [5] index (cv_created_at r) (0, sample_example, v)"
  have rows: "list_catalog_version_example_embeddings d' (cv_intent_catalog_version r) = [?row]"
    by (simp add: d' sample_catalog_tables catalog_rows_def Let_def env r(1) sample_catalog_examples emb
        list_catalog_version_example_embeddings_def order_by_def embedding_row_def)
  have i: "list_intents length sample_catalog_db [2] = [sample_intent]"
    by (simp add: list_intents_def sample_catalog_db_def sample_intent_def order_by_def)
  show found: "get_catalog_version d' [2] (cv_intent_catalog_version r) = Some r"
    by (simp add: get_catalog_version_def d' sample_catalog_tables first_row_def r(1))
  have id: "get (json_dict (intent_item d s i)) (lit ''intent_id'') = JStr (in_intent_id i)" for d s i
    by (simp add: intent_item_def get_def lit_def)
  have tables: "db_intents (emptied d') = []" "db_intent_examples (emptied d') = []" "db_audit_logs (emptied d') = []"
    by (simp_all add: emptied_def d' sample_catalog_db_def empty_db_def)
  have owner: "require_service_catalog_access live_owner s = Inr ()" for s
    by (simp add: require_service_catalog_access_def service_guard_def has_role_def live_owner_def)
  show "\<exists>d3 resp. load_catalog_version_to_draft live_admin [2] (cv_intent_catalog_version r) live_owner (emptied d') = Inr (d3, resp)"
    unfolding load_catalog_version_to_draft_def Let_def owner bindE_simps emptied_lookups found some_or_simps r(2) r(1)
      snapshot_intents i rows json_list.simps
    by (simp add: emptied_lookups load_intent_def id draft_values_item unhandled_def get_intent_def create_intent_def first_row_def
        tables load_example_def embedding_row_def get_example_def create_example_def insert_row_def audit_entry_def
        insert_audit_log_def Let_def)
qed

theorem load_restores_catalog_witness:
  "\<exists>d' v d3 resp. get_intent (emptied d') [2] (lit ''a'') = None
    \<and> load_catalog_version_to_draft live_admin [2] v live_owner (emptied d') = Inr (d3, resp)
    \<and> map_option intent_content (get_intent d3 [2] (lit ''a'')) = Some (intent_content sample_intent)
    \<and> map_option example_content (get_example d3 [2] [11]) = Some (example_content sample_example)"
proof -
  obtain d' r where c: "create_catalog_version sample_catalog_env sample_catalog_db sample_service sample_description [9] 0 [5] None
      = Inr (d', r)" using sample_catalog_created by blast
  note found = sample_loaded(1) [OF c]
  obtain d3 resp where l: "load_catalog_version_to_draft live_admin [2] (cv_intent_catalog_version r) live_owner (emptied d') = Inr (d3, resp)"
    using sample_loaded(2) [OF c] by blast
  have s: "sv_service_id sample_service = [2]" by (simp add: sample_service_def)
  have rows: "get_intent sample_catalog_db [2] (lit ''a'') = Some sample_intent" "get_example sample_catalog_db [2] [11] = Some sample_example"
    "intents_keyed sample_catalog_db" "examples_keyed sample_catalog_db" "ie_intent_id sample_example = lit ''a''"
    "db_intent_examples sample_catalog_db = [sample_example]"
    by (simp_all add: get_intent_def get_example_def first_row_def sample_catalog_db_def sample_intent_def sample_example_def
        intents_keyed_def examples_keyed_def)
  have "map_option intent_content (get_intent d3 [2] (lit ''a'')) = Some (intent_content sample_intent)
    \<and> map_option example_content (get_example d3 [2] [11]) = Some (example_content sample_example)"
    using load_restores_catalog [OF c rows(3,4), unfolded s, where edited = "emptied d'" and kept = r and en = live_admin and cx = live_owner
      and final = d3 and resp = resp and i = "lit ''a''" and j = "[11]"] l found
    by (simp add: rows sample_catalog_tables emptied_lookups)
  moreover have "get_intent (emptied d') [2] (lit ''a'') = None" by (simp add: get_intent_def emptied_def first_row_def)
  ultimately show ?thesis using l by blast
qed

end
