(* ===== verification/Example_Safety.thy ===== *)
theory Example_Safety
  imports Example_Handlers Catalog_Safety
begin

text \<open>
  The texts of the catalog are safe at every moment: whatever requests edit, version and restore the catalog, each
  example keeps its raw text readable through the ring of keys, shows the mask of exactly that text, and is only
  approved with an embedding of the right dimension.
\<close>

section \<open>The requests\<close>

text \<open>A request with the random bytes and identifiers that are drawn for it and the times it reads.\<close>

datatype catalog_action =
    Create_Intent str intent_create_request
  | Patch_Intent str str intent_patch_request
  | Delete_Intent str str
  | Create_Example str str example_create_request
  | Patch_Example str str example_patch_request
  | Approve_Example str str
  | Delete_Example str str
  | Create_Version str str "str option"
  | Deactivate_Version str str
  | Load_Version str str

record catalog_event =
  ev_context :: admin_context
  ev_nonces :: nonces
  ev_uuid :: "nat \<Rightarrow> str"
  ev_uuid_hex :: str
  ev_clock :: "nat \<Rightarrow> timestamp"
  ev_action :: catalog_action

definition event_env :: "key_env \<Rightarrow> catalog_event \<Rightarrow> key_env" where
  "event_env ke ev = ke\<lparr>ke_nonces := ev_nonces ev, ke_admin := (ke_admin ke)\<lparr>en_uuid := ev_uuid ev, en_clock := ev_clock ev\<rparr>\<rparr>"

definition event_catalog_env :: "'x catalog_env \<Rightarrow> catalog_event \<Rightarrow> 'x catalog_env" where
  "event_catalog_env cn ev = cn\<lparr>cn_uuid := ev_uuid ev, cn_uuid_hex := ev_uuid_hex ev\<rparr>"

definition catalog_step :: "key_env \<Rightarrow> 'x catalog_env \<Rightarrow> catalog_event \<Rightarrow> db \<Rightarrow> db" where
  "catalog_step ke0 cn0 ev d =
     (let ke = event_env ke0 ev; cn = event_catalog_env cn0 ev; en = ke_admin ke; cx = ev_context ev in
      case ev_action ev of
        Create_Intent s q \<Rightarrow> committed d (create_intent_handler en s q cx d)
      | Patch_Intent s i p \<Rightarrow> committed d (patch_intent en s i p cx d)
      | Delete_Intent s i \<Rightarrow> committed d (delete_intent_handler en s i cx d)
      | Create_Example s i q \<Rightarrow> committed d (create_example_handler ke s i q cx d)
      | Patch_Example s e p \<Rightarrow> committed d (patch_example_handler ke cn s e p cx d)
      | Approve_Example s e \<Rightarrow> committed d (approve_example_handler ke cn s e cx d)
      | Delete_Example s e \<Rightarrow> committed d (delete_example_handler en s e cx d)
      | Create_Version s description source \<Rightarrow>
          committed d (create_catalog_version_handler en cn s description source cx d)
      | Deactivate_Version s v \<Rightarrow> committed d (deactivate_catalog_version_handler en s v cx d)
      | Load_Version s v \<Rightarrow> committed d (load_catalog_version_to_draft en s v cx d))"

definition catalog_run :: "key_env \<Rightarrow> 'x catalog_env \<Rightarrow> db \<Rightarrow> catalog_event list \<Rightarrow> db" where
  "catalog_run ke cn d evs = fold (catalog_step ke cn) evs d"

section \<open>Safe texts\<close>

definition text_safe :: "aead \<Rightarrow> raw_text_keyring \<Rightarrow> encrypted_text \<Rightarrow> str \<Rightarrow> bool" where
  "text_safe A ring raw masked \<longleftrightarrow> (\<exists>p. keyring_decrypt A ring raw None = Inr p \<and> masked = mask_pii p)"

definition example_safe :: "aead \<Rightarrow> raw_text_keyring \<Rightarrow> intent_example \<Rightarrow> bool" where
  "example_safe A ring e \<longleftrightarrow> text_safe A ring (ie_text_raw e) (ie_text_masked e)
     \<and> (ie_approved e \<longrightarrow> (\<exists>v. ie_embedding e = Some v \<and> length v = 1024))"

definition catalog_safe :: "aead \<Rightarrow> raw_text_keyring \<Rightarrow> db \<Rightarrow> bool" where
  "catalog_safe A ring d \<longleftrightarrow> (\<forall>e \<in> set (db_intent_examples d). example_safe A ring e)
     \<and> (\<forall>q \<in> set (db_example_embeddings d). text_safe A ring (ce_text_raw q) (ce_text_masked q))"

lemma catalog_safe_cong:
  "catalog_safe A ring d \<Longrightarrow> set (db_intent_examples d') \<subseteq> set (db_intent_examples d)
    \<Longrightarrow> db_example_embeddings d' = db_example_embeddings d \<Longrightarrow> catalog_safe A ring d'"
  by (auto simp: catalog_safe_def)

lemma audited_tables:
  assumes "audit_entry en k t a i tr ty ti vr ip b af now d = Inr d'"
  shows "db_intent_examples d' = db_intent_examples d" "db_example_embeddings d' = db_example_embeddings d"
  using assms by (auto simp: audit_entry_def unhandled_def insert_audit_log_def raise_simps)

lemma audited_safe [simp]:
  "audit_entry en k t a i tr ty ti vr ip b af now d = Inr d' \<Longrightarrow> catalog_safe A ring d' \<longleftrightarrow> catalog_safe A ring d"
  using audited_tables [of en k t a i tr ty ti vr ip b af now d d'] by (simp add: catalog_safe_def)

lemma get_example_safe: "get_example d s i = Some e \<Longrightarrow> catalog_safe A ring d \<Longrightarrow> example_safe A ring e"
  by (auto simp: get_example_def catalog_safe_def dest: first_row_Some)

lemma put_examples_safe:
  assumes "\<forall>e \<in> set rows. example_safe A ring e" and "example_safe A ring e"
  shows "\<forall>e \<in> set (update_where P (\<lambda>_. e) rows). example_safe A ring e"
  using assms by (auto simp: update_where_def)

lemma put_example_safe:
  assumes "catalog_safe A ring (d\<lparr>db_intent_examples := rows\<rparr>)" and "example_safe A ring e"
  shows "catalog_safe A ring (d\<lparr>db_intent_examples := update_where P (\<lambda>_. e) rows\<rparr>)"
  using assms put_examples_safe [of rows A ring e P] by (auto simp: catalog_safe_def)

lemma same_examples_safe [simp]: "catalog_safe A ring (d\<lparr>db_intent_examples := db_intent_examples d\<rparr>) = catalog_safe A ring d"
  by (simp add: catalog_safe_def)

lemma encrypted_safe:
  assumes "keyring_encrypt A ring n p None = Inr e" and "aead_ok A" and "nonces_ok n" and "keyring_ok ring"
  shows "text_safe A ring e (mask_pii p)"
  using keyring_decrypt_encrypt(1) [OF assms refl] by (auto simp: text_safe_def)

lemma example_embedding_length: "example_embedding ke cn service e = Inr v \<Longrightarrow> length v = 1024"
  unfolding example_embedding_def by (elim bindE_elim) (auto simp: raise_simps split: list.splits)

lemma with_crypto_Inr: "with_crypto m = Inr x \<longleftrightarrow> m = Inr x"
  by (simp add: with_crypto_def raise_simps)

lemma keyring_or_500_Inr: "raw_text_keyring_or_500 env = Inr ring \<longleftrightarrow> load_raw_text_keyring env = Inr ring"
  by (simp add: raw_text_keyring_or_500_def raise_simps)

lemma create_example_safe:
  assumes "create_example_handler ke s i q cx d = Inr (d', e)" and "catalog_safe (ke_aead ke) ring d"
    and "load_raw_text_keyring (en_variable (ke_admin ke)) = Inr ring" and "aead_ok (ke_aead ke)" and "nonces_ok (ke_nonces ke)"
    and "keyring_ok ring"
  shows "catalog_safe (ke_aead ke) ring d'"
proof -
  obtain encrypted where enc: "keyring_encrypt (ke_aead ke) ring (ke_nonces ke) (eq_text_raw q) None = Inr encrypted"
    and e: "ie_text_raw e = encrypted" "ie_text_masked e = mask_pii (eq_text_raw q)" "\<not> ie_approved e"
    and d': "catalog_safe (ke_aead ke) ring d'
      \<longleftrightarrow> catalog_safe (ke_aead ke) ring (d\<lparr>db_intent_examples := db_intent_examples d @ [e]\<rparr>)"
    using assms(1,3) unfolding create_example_handler_def Let_def
    by (elim bindE_elim) (auto simp: keyring_or_500_Inr with_crypto_Inr unhandled_def create_example_def raise_simps
      example_audit_def split: if_splits)
  have "example_safe (ke_aead ke) ring e" using encrypted_safe [OF enc assms(4-6)] e by (simp add: example_safe_def)
  then show ?thesis using assms(2) unfolding d' by (auto simp: catalog_safe_def)
qed

lemma patched_example_safe:
  assumes "patched_example ke p e = Inr e'" and "text_safe (ke_aead ke) ring (ie_text_raw e) (ie_text_masked e)"
    and "load_raw_text_keyring (en_variable (ke_admin ke)) = Inr ring" and "aead_ok (ke_aead ke)" and "nonces_ok (ke_nonces ke)"
    and "keyring_ok ring"
  shows "text_safe (ke_aead ke) ring (ie_text_raw e') (ie_text_masked e') \<and> ie_approved e' = ie_approved e \<and> ie_embedding e' = ie_embedding e
    \<and> ie_example_id e' = ie_example_id e"
  using assms encrypted_safe
  by (auto simp: patched_example_def Let_def raise_simps keyring_or_500_Inr with_crypto_Inr split: option.splits)

lemma patch_example_safe:
  assumes "patch_example_handler ke cn s i p cx d = Inr (d', e)" and "catalog_safe (ke_aead ke) ring d"
    and "load_raw_text_keyring (en_variable (ke_admin ke)) = Inr ring" and "aead_ok (ke_aead ke)" and "nonces_ok (ke_nonces ke)"
    and "keyring_ok ring"
  shows "catalog_safe (ke_aead ke) ring d'"
proof -
  obtain e0 service e1 where e0: "get_example d s i = Some e0" and e1: "patched_example ke p e0 = Inr e1"
    and d': "if ie_approved e1 then \<exists>v. example_embedding ke cn service e1 = Inr v
        \<and> (catalog_safe (ke_aead ke) ring d' \<longleftrightarrow> catalog_safe (ke_aead ke) ring (d\<lparr>db_intent_examples :=
          update_where (\<lambda>q. ie_example_id q = ie_example_id e1) (\<lambda>_. e1\<lparr>ie_embedding := Some v\<rparr>)
            (update_where (\<lambda>q. ie_example_id q = ie_example_id e0) (\<lambda>_. e1) (db_intent_examples d))\<rparr>))
      else catalog_safe (ke_aead ke) ring d' \<longleftrightarrow> catalog_safe (ke_aead ke) ring (d\<lparr>db_intent_examples :=
            update_where (\<lambda>q. ie_example_id q = ie_example_id e0) (\<lambda>_. e1) (db_intent_examples d)\<rparr>)"
    using assms(1) unfolding patch_example_handler_def Let_def update_example_def put_row_def
    by (elim bindE_elim) (force simp: raise_simps example_audit_def split: if_splits)
  note safe0 = get_example_safe [OF e0 assms(2)]
  have p: "text_safe (ke_aead ke) ring (ie_text_raw e1) (ie_text_masked e1)" "ie_approved e1 = ie_approved e0"
    "ie_embedding e1 = ie_embedding e0"
    using patched_example_safe [OF e1 _ assms(3-6)] safe0 by (auto simp: example_safe_def)
  have e1_safe: "example_safe (ke_aead ke) ring e1" using p safe0 by (simp add: example_safe_def)
  have "example_safe (ke_aead ke) ring (e1\<lparr>ie_embedding := Some v\<rparr>)" if "example_embedding ke cn service e1 = Inr v" for v
    using p(1) example_embedding_length [OF that] by (simp add: example_safe_def)
  then show ?thesis using d' e1_safe assms(2) by (auto split: if_splits intro!: put_example_safe)
qed

lemma approve_example_safe:
  assumes "approve_example_handler ke cn s i cx d = Inr (d', e)" and "catalog_safe (ke_aead ke) ring d"
  shows "catalog_safe (ke_aead ke) ring d'"
proof -
  obtain e0 service v where e0: "get_example d s i = Some e0" and v: "example_embedding ke cn service e0 = Inr v"
    and d': "catalog_safe (ke_aead ke) ring d' \<longleftrightarrow> catalog_safe (ke_aead ke) ring (fst (approve_example d e0 (Some v)))"
    using assms(1) unfolding approve_example_handler_def Let_def
    by (elim bindE_elim) (auto simp: raise_simps example_audit_def split: prod.splits)
  have "example_safe (ke_aead ke) ring (e0\<lparr>ie_approved := True, ie_embedding := Some v\<rparr>)"
    using get_example_safe [OF e0 assms(2)] example_embedding_length [OF v] by (simp add: example_safe_def)
  then show ?thesis using d' assms(2) by (auto simp: approve_example_def Let_def put_row_def intro!: put_example_safe)
qed

lemma delete_examples_safe: "catalog_safe A ring d \<Longrightarrow> catalog_safe A ring (fold (\<lambda>e d. delete_example d e) es d)"
proof (induction es arbitrary: d)
  case (Cons e es)
  have "catalog_safe A ring (delete_example d e)" using Cons.prems by (auto simp: catalog_safe_def delete_example_def)
  then show ?case by (simp add: Cons.IH)
qed simp

lemma delete_intents_safe [simp]: "catalog_safe A ring (delete_intent d i) = catalog_safe A ring d"
  by (simp add: catalog_safe_def delete_intent_def)

lemma delete_example_handler_safe:
  assumes "delete_example_handler en s i cx d = Inr (d', u)" and "catalog_safe A ring d"
  shows "catalog_safe A ring d'"
  using assms delete_examples_safe [OF assms(2), of "[e]" for e, unfolded fold.simps id_comp]
  by (auto simp: delete_example_handler_def raise_simps example_audit_def Let_def)

lemma delete_intent_handler_safe:
  assumes "delete_intent_handler en s i cx d = Inr (d', u)" and "catalog_safe A ring d"
  shows "catalog_safe A ring d'"
  using assms delete_examples_safe [OF assms(2)]
  by (auto simp: delete_intent_handler_def raise_simps Let_def)

lemma intent_writes_safe:
  assumes "catalog_safe A ring d"
  shows "create_intent_handler en s q cx d = Inr (d1, r1) \<Longrightarrow> catalog_safe A ring d1"
    and "patch_intent en s i p cx d = Inr (d2, r2) \<Longrightarrow> catalog_safe A ring d2"
  using assms by (auto simp: create_intent_handler_def patch_intent_def except_integrity_def raise_simps Let_def
    create_intent_def update_intent_def catalog_safe_def split: if_splits)

section \<open>Versions\<close>

lemma catalog_row_safe:
  assumes "q \<in> set (catalog_rows cn d r m index embeddings)" and "catalog_safe A ring d"
  shows "text_safe A ring (ce_text_raw q) (ce_text_masked q)"
proof -
  obtain k e v where "(k, e, v) \<in> set (zip [0..<length (catalog_examples (cn_collate cn) d (cv_service_id r))]
      (zip (catalog_examples (cn_collate cn) d (cv_service_id r)) embeddings))"
    and "ce_text_raw q = ie_text_raw e" "ce_text_masked q = ie_text_masked e"
    using assms(1) by (auto simp: catalog_rows_def Let_def embedding_row_def)
  moreover from this have "e \<in> set (catalog_examples (cn_collate cn) d (cv_service_id r))"
    by (blast dest: set_zip_rightD set_zip_leftD)
  ultimately show ?thesis using assms(2)
    by (auto simp: catalog_examples_def list_examples_def examples_where_def catalog_safe_def example_safe_def)
qed

lemma create_version_safe:
  fixes cn :: "'x catalog_env"
  assumes "create_catalog_version_handler en cn s description source cx d = Inr (d', u)" and "catalog_safe A ring d"
  shows "catalog_safe A ring d'"
proof -
  obtain service now m d1 r where c: "create_catalog_version cn d service description (cx_actor_id cx) now m source
      = (Inr (d1, r) :: ('x catalog_error, db \<times> intent_catalog_version) outcome)"
    and d': "catalog_safe A ring d' \<longleftrightarrow> catalog_safe A ring d1"
    using assms(1) unfolding create_catalog_version_handler_def Let_def
    by (elim bindE_elim) (auto simp: raise_simps)
  from c obtain index embeddings where "d1 = d\<lparr>db_catalog_versions := db_catalog_versions d @ [r],
      db_vector_indexes := db_vector_indexes d @ [index_row r m index],
      db_example_embeddings := db_example_embeddings d @ catalog_rows cn d r m index embeddings\<rparr>"
    by (rule create_catalog_versionE) blast
  then show ?thesis using assms(2) catalog_row_safe [OF _ assms(2), of _ cn r m index embeddings]
    unfolding d' by (auto simp: catalog_safe_def)
qed

lemma deactivate_version_safe:
  assumes "deactivate_catalog_version_handler en s v cx d = Inr (d', u)" and "catalog_safe A ring d"
  shows "catalog_safe A ring d'"
  using assms by (auto simp: deactivate_catalog_version_handler_def raise_simps Let_def deactivate_catalog_version_def
    deactivate_catalog_version_embeddings_def catalog_safe_def update_where_def split: option.splits)

lemma load_example_safe:
  assumes "load_example s actor now q d = Inr d'" and "catalog_safe A ring d" and "text_safe A ring (ce_text_raw q) (ce_text_masked q)"
  shows "catalog_safe A ring d' \<and> db_example_embeddings d' = db_example_embeddings d"
proof -
  have "example_safe A ring (loaded_example i s actor now q)" for i
    using assms(3) by (simp add: loaded_example_def example_safe_def)
  then show ?thesis using assms(1,2)
    by (auto simp: load_example_def raise_simps unhandled_def create_example_def update_example_def Let_def catalog_safe_def
      update_where_def split: option.splits)
qed

lemma load_examples_safe:
  "foldE (load_example s actor now) qs d = Inr d' \<Longrightarrow> catalog_safe A ring d
    \<Longrightarrow> \<forall>q \<in> set qs. text_safe A ring (ce_text_raw q) (ce_text_masked q) \<Longrightarrow> catalog_safe A ring d'"
  by (induction qs arbitrary: d) (auto simp: raise_simps dest: load_example_safe)

lemma other_intents_safe: "d' = d\<lparr>db_intents := x\<rparr> \<Longrightarrow> catalog_safe A ring d' = catalog_safe A ring d"
  by (cases d) (simp add: catalog_safe_def)

lemma load_version_safe:
  assumes "load_catalog_version_to_draft en s v cx d = Inr (d', u)" and "catalog_safe A ring d"
  shows "catalog_safe A ring d'"
proof -
  obtain es xs items d2 d4 where
    items: "foldE (load_intent (en_uuid en) s (cx_actor_id cx) (en_clock en 0)) items
      (fold (\<lambda>i d. delete_intent d i) xs (fold (\<lambda>e d. delete_example d e) es d)) = Inr d2"
    and examples: "foldE (load_example s (cx_actor_id cx) (en_clock en 0)) (list_catalog_version_example_embeddings d v) d2 = Inr d4"
    and d': "catalog_safe A ring d' \<longleftrightarrow> catalog_safe A ring d4"
    using assms(1) unfolding load_catalog_version_to_draft_def Let_def
    by (elim bindE_elim) (auto simp: raise_simps)
  have "catalog_safe A ring (fold (\<lambda>i d. delete_intent d i) xs d1) = catalog_safe A ring d1" for xs d1
    by (induction xs arbitrary: d1) simp_all
  then have "catalog_safe A ring (fold (\<lambda>i d. delete_intent d i) xs (fold (\<lambda>e d. delete_example d e) es d))"
    using delete_examples_safe [OF assms(2)] by simp
  then have "catalog_safe A ring d2" by (simp add: other_intents_safe [OF load_intents_only [OF items]])
  moreover have "\<forall>q \<in> set (list_catalog_version_example_embeddings d v). text_safe A ring (ce_text_raw q) (ce_text_masked q)"
    using assms(2) by (auto simp: list_catalog_version_example_embeddings_def catalog_safe_def)
  ultimately show ?thesis unfolding d' by (rule load_examples_safe [OF examples])
qed

section \<open>Every run\<close>

lemma committed_safe:
  assumes "catalog_safe A ring d" and "\<And>d' x. m = Inr (d', x) \<Longrightarrow> catalog_safe A ring d'"
  shows "catalog_safe A ring (committed d m)"
  using assms by (auto simp: committed_def split: sum.split)

definition events_random :: "catalog_event list \<Rightarrow> bool" where
  "events_random evs \<longleftrightarrow> (\<forall>ev \<in> set evs. nonces_ok (ev_nonces ev))"

lemma catalog_step_safe:
  assumes "catalog_safe (ke_aead ke) ring d" and "load_raw_text_keyring (en_variable (ke_admin ke)) = Inr ring"
    and "aead_ok (ke_aead ke)" and "nonces_ok (ev_nonces ev)"
  shows "catalog_safe (ke_aead ke) ring (catalog_step ke cn ev d)"
proof -
  let ?ke = "event_env ke ev"
  have ke: "ke_aead ?ke = ke_aead ke" "en_variable (ke_admin ?ke) = en_variable (ke_admin ke)" "ke_nonces ?ke = ev_nonces ev"
    by (simp_all add: event_env_def)
  have ring: "keyring_ok ring" using assms(2) unfolding load_raw_text_keyring_def by (rule load_keyring_ok)
  note safe = assms(1) [folded ke(1)]
  note laws = assms(2) [folded ke(2)] assms(3) [folded ke(1)] assms(4) [folded ke(3)] ring
  show ?thesis unfolding catalog_step_def Let_def ke(1) [symmetric]
    by (cases "ev_action ev")
      (simp_all, auto intro!: committed_safe [OF safe] dest: intent_writes_safe(1) [OF safe] intent_writes_safe(2) [OF safe]
        delete_intent_handler_safe [OF _ safe] create_example_safe [OF _ safe laws] patch_example_safe [OF _ safe laws]
        approve_example_safe [OF _ safe] delete_example_handler_safe [OF _ safe] create_version_safe [OF _ safe]
        deactivate_version_safe [OF _ safe] load_version_safe [OF _ safe])
qed

lemma catalog_run_safe:
  assumes "catalog_safe (ke_aead ke) ring d" and "load_raw_text_keyring (en_variable (ke_admin ke)) = Inr ring"
    and "aead_ok (ke_aead ke)" and "events_random evs"
  shows "catalog_safe (ke_aead ke) ring (catalog_run ke cn d evs)"
  using assms(1,4)
proof (induction evs arbitrary: d)
  case (Cons ev evs)
  have "nonces_ok (ev_nonces ev)" "events_random evs" using Cons.prems(2) by (simp_all add: events_random_def)
  from Cons.IH [OF catalog_step_safe [OF Cons.prems(1) assms(2,3) this(1)] this(2)]
  show ?case by (simp add: catalog_run_def)
qed (simp add: catalog_run_def)

text \<open>
  From a catalog without texts, whatever sequence of requests edits intents and examples, approves examples, creates,
  deactivates and restores catalog versions, every example and every row of a catalog version holds an envelope that the
  ring of keys opens, shows the mask of exactly the text inside it, and an approved example has an embedding of the
  dimension of the index.
\<close>

theorem catalog_texts_safe:
  assumes "db_intent_examples d = []" and "db_example_embeddings d = []"
    and "load_raw_text_keyring (en_variable (ke_admin ke)) = Inr ring" and "aead_ok (ke_aead ke)" and "events_random evs"
    and "d' = catalog_run ke cn d evs"
  shows "(\<forall>e \<in> set (db_intent_examples d'). (\<exists>p. keyring_decrypt (ke_aead ke) ring (ie_text_raw e) None = Inr p
        \<and> ie_text_masked e = mask_pii p) \<and> (ie_approved e \<longrightarrow> (\<exists>v. ie_embedding e = Some v \<and> length v = 1024)))
    \<and> (\<forall>q \<in> set (db_example_embeddings d'). \<exists>p. keyring_decrypt (ke_aead ke) ring (ce_text_raw q) None = Inr p
        \<and> ce_text_masked q = mask_pii p)"
proof -
  have "catalog_safe (ke_aead ke) ring d" using assms(1,2) by (simp add: catalog_safe_def)
  then have safe: "catalog_safe (ke_aead ke) ring d'"
    unfolding assms(6) by (rule catalog_run_safe [OF _ assms(3-5)])
  show ?thesis by (rule safe [unfolded catalog_safe_def example_safe_def text_safe_def])
qed

section \<open>An example is written\<close>

definition draft_ke :: key_env where
  "draft_ke = live_ke\<lparr>ke_admin := live_admin\<lparr>en_variable := live_variable\<rparr>\<rparr>"

definition draft_db :: db where
  "draft_db = empty_db\<lparr>db_services := [sample_service], db_intents := [sample_intent]\<rparr>"

definition draft_event :: catalog_event where
  "draft_event = \<lparr>ev_context = live_owner, ev_nonces = live_nonces, ev_uuid = dec, ev_uuid_hex = [], ev_clock = int,
     ev_action = Create_Example [2] (lit ''a'') \<lparr>eq_example_type = lit ''positive'', eq_text_raw = lit ''hi'',
       eq_source = [], eq_test_case_id = None\<rparr>\<rparr>"

lemma draft_nonces: "nonces_ok live_nonces"
  by (simp add: nonces_ok_def live_nonces_def)

lemma draft_encrypted:
  assumes "load_raw_text_keyring live_variable = Inr ring" and "kr_active_key_id ring = lit ''k''"
  shows "\<exists>e. keyring_encrypt live_aead ring live_nonces (lit ''hi'') None = Inr e"
proof -
  have ring: "keyring_ok ring" using assms(1) unfolding load_raw_text_keyring_def by (rule load_keyring_ok)
  have u: "utf8_encode (lit ''hi'') = Some (lit ''hi'')" by (rule utf8_encode_ascii) (simp add: ascii_def lit_def)
  have "ascii (lit ''key_id='' @ lit ''k'' @ lit '';algorithm='' @ algorithm)" by (simp add: ascii_def lit_def algorithm_def)
  then have "\<exists>ad. associated_data (lit ''k'') algorithm None = Inr ad" by (simp add: associated_data_def encode_def)
  then show ?thesis
    using keyring_encrypt_total [OF ring u, of None] assms(2) by (metis (no_types))
qed

lemma draft_run:
  assumes "load_raw_text_keyring live_variable = Inr ring" and "kr_active_key_id ring = lit ''k''"
  shows "length (db_intent_examples (catalog_run draft_ke cn draft_db [draft_event])) = 1"
proof -
  let ?ke = "event_env draft_ke draft_event"
  let ?q = "\<lparr>eq_example_type = lit ''positive'', eq_text_raw = lit ''hi'', eq_source = [], eq_test_case_id = None\<rparr>"
  obtain e where e: "keyring_encrypt live_aead ring live_nonces (lit ''hi'') None = Inr e"
    using draft_encrypted [OF assms] by blast
  have env: "ke_aead ?ke = live_aead" "en_variable (ke_admin ?ke) = live_variable" "ke_nonces ?ke = live_nonces"
    by (simp_all add: event_env_def draft_ke_def draft_event_def live_ke_def)
  have access: "require_service_catalog_access live_owner [2] = Inr ()"
    by (simp add: require_service_catalog_access_def service_guard_def has_role_def live_owner_def)
  have intent: "get_intent draft_db [2] (lit ''a'') = Some sample_intent"
    by (simp add: get_intent_def draft_db_def first_row_def sample_intent_def)
  have tables: "db_intent_examples draft_db = []" "db_audit_logs draft_db = []" by (simp_all add: draft_db_def empty_db_def)
  let ?x = "\<lparr>ie_example_id = en_uuid (ke_admin ?ke) 1, ie_service_id = [2], ie_intent_id = lit ''a'',
    ie_example_type = eq_example_type ?q, ie_text_raw = e, ie_text_masked = mask_pii (eq_text_raw ?q), ie_embedding = None,
    ie_source = eq_source ?q, ie_test_case_id = eq_test_case_id ?q, ie_approved = False,
    ie_created_by = cx_actor_id live_owner, ie_created_at = en_clock (ke_admin ?ke) 0\<rparr>"
  have created: "create_example draft_db x = Inr (draft_db\<lparr>db_intent_examples := [x]\<rparr>, x)" for x
    by (simp add: create_example_def insert_row_def tables)
  have "\<exists>d'. example_audit en ''example.created'' live_owner [2] i None (Some st) now
      (draft_db\<lparr>db_intent_examples := [x]\<rparr>) = Inr d' \<and> length (db_intent_examples d') = 1" for en i st now x
    by (simp add: example_audit_def audit_entry_def insert_audit_log_def insert_row_def unhandled_def tables)
  then obtain d' where d': "example_audit (ke_admin ?ke) ''example.created'' live_owner [2] (ie_example_id ?x) None
      (Some (example_after_state (ke_admin ?ke) ?x)) (en_clock (ke_admin ?ke) 0) (draft_db\<lparr>db_intent_examples := [?x]\<rparr>) = Inr d'"
    "length (db_intent_examples d') = 1" by blast
  have "bindE (unhandled (create_example draft_db ?x)) f = f (draft_db\<lparr>db_intent_examples := [?x]\<rparr>, ?x)"
    for f :: "_ \<Rightarrow> (http_error, db \<times> intent_example) outcome"
    unfolding created by (simp add: unhandled_def)
  then have "create_example_handler ?ke [2] (lit ''a'') ?q live_owner draft_db = Inr (d', ?x)"
    using d'(1) unfolding create_example_handler_def Let_def access intent raw_text_keyring_or_500_def env assms(1)
    by (simp add: e with_crypto_def)
  then show ?thesis using d'(2)
    by (simp add: catalog_run_def catalog_step_def Let_def committed_def draft_event_def)
qed

theorem catalog_texts_safe_witness:
  "\<exists>ring e p. db_intent_examples (catalog_run draft_ke sample_catalog_env draft_db [draft_event]) = [e]
    \<and> keyring_decrypt live_aead ring (ie_text_raw e) None = Inr p \<and> ie_text_masked e = mask_pii p"
proof -
  obtain ring where ring: "load_raw_text_keyring live_variable = Inr ring" "kr_active_key_id ring = lit ''k''"
    using live_ring by blast
  obtain e where e: "db_intent_examples (catalog_run draft_ke sample_catalog_env draft_db [draft_event]) = [e]"
    using draft_run [OF ring, of sample_catalog_env] by (auto simp: length_Suc_conv)
  have "load_raw_text_keyring (en_variable (ke_admin draft_ke)) = Inr ring" "aead_ok (ke_aead draft_ke)"
    "events_random [draft_event]" "db_intent_examples draft_db = []" "db_example_embeddings draft_db = []"
    using ring live_aead_ok draft_nonces
    by (simp_all add: draft_ke_def live_ke_def events_random_def draft_event_def draft_db_def empty_db_def)
  from catalog_texts_safe [OF this(4,5,1,2,3) refl, of sample_catalog_env] e ring(1)
  show ?thesis by (auto simp: draft_ke_def live_ke_def)
qed

end
