(* ===== verification/Raw_Query_Safety.thy ===== *)
theory Raw_Query_Safety
  imports Raw_Query_Handlers Example_Safety
begin

text \<open>
  Who reads a raw query: whatever requests for views arrive, a text is only answered on an approval by a second person,
  to the author of the request or a platform administrator, leaves an audit entry, and never appears again once the
  query is redacted.
\<close>

section \<open>The requests\<close>

datatype raw_query_action =
    Logged runtime_log
  | Request_View str str str
  | Approve_View str str "str option"
  | Reject_View str str "str option"
  | Issue_Token str str int
  | Decrypt_Query str str str "str option"
  | Redact_Queries str "str list" str str

record raw_query_event =
  qe_context :: admin_context
  qe_uuid :: "nat \<Rightarrow> str"
  qe_uuid_hex :: "nat \<Rightarrow> str"
  qe_token :: str
  qe_clock :: "nat \<Rightarrow> timestamp"
  qe_action :: raw_query_action

definition view_env :: "key_env \<Rightarrow> raw_query_event \<Rightarrow> key_env" where
  "view_env ke ev = ke\<lparr>ke_admin := (ke_admin ke)\<lparr>en_uuid := qe_uuid ev, en_uuid_hex := qe_uuid_hex ev,
     en_token := qe_token ev, en_clock := qe_clock ev\<rparr>\<rparr>"

definition raw_query_step :: "key_env \<Rightarrow> raw_query_event \<Rightarrow> db \<Rightarrow> db" where
  "raw_query_step ke0 ev d =
     (let ke = view_env ke0 ev; en = ke_admin ke; cx = qe_context ev in
      case qe_action ev of
        Logged r \<Rightarrow> committed d (insert_runtime_log d r)
      | Request_View s x why \<Rightarrow> committed d (create_raw_query_view_request en s x why cx d)
      | Approve_View s i why \<Rightarrow> committed d (approve_raw_query_view_request en s i why cx d)
      | Reject_View s i why \<Rightarrow> committed d (reject_raw_query_view_request en s i why cx d)
      | Issue_Token s i ttl \<Rightarrow> committed d (issue_raw_query_view_token_handler en s i ttl cx d)
      | Decrypt_Query s x why token \<Rightarrow> fst (decrypt_raw_runtime_query ke s x why token cx d)
      | Redact_Queries s xs actor why \<Rightarrow> committed d (apply_runtime_raw_query_redaction en s xs actor why d))"

definition raw_query_run :: "key_env \<Rightarrow> db \<Rightarrow> raw_query_event list \<Rightarrow> db" where
  "raw_query_run ke d evs = fold (raw_query_step ke) evs d"

section \<open>What a handler leaves alone\<close>

text \<open>Audit entries only touch their own table, and only append to it.\<close>

lemma audited:
  assumes "audit_entry en k t a s tr ty ti vr ip b af now d = Inr d'"
  obtains e where "d' = d\<lparr>db_audit_logs := db_audit_logs d @ [e]\<rparr>" "al_event_type e = lit t" "al_actor_id e = a"
    "al_service_id e = s" "al_trace_id e = tr" "al_created_at e = now"
  using assms by (auto simp: audit_entry_def unhandled_def insert_audit_log_def raise_simps)

lemma governed_inv_cong:
  "governed_inv d \<Longrightarrow> db_governed_requests d' = db_governed_requests d \<Longrightarrow> db_view_tokens d' = db_view_tokens d
    \<Longrightarrow> governed_inv d'"
  by (simp add: governed_inv_def)

lemma audited_inv:
  assumes "audit_entry en k t a s tr ty ti vr ip b af now d = Inr d'"
  shows "governed_inv d' \<longleftrightarrow> governed_inv d" "db_runtime_logs d' = db_runtime_logs d"
  using assms by (auto elim!: audited simp: governed_inv_def)

lemma raw_audited_inv:
  assumes "raw_query_audit en t cx s tr ty ti vr b af now d = Inr d'"
  shows "governed_inv d' \<longleftrightarrow> governed_inv d" "db_runtime_logs d' = db_runtime_logs d"
  using audited_inv [OF assms [unfolded raw_query_audit_def]] .

lemma redaction_audits:
  "foldE (redaction_audit en s a why now) ids d = Inr d' \<Longrightarrow> (governed_inv d' \<longleftrightarrow> governed_inv d) \<and> db_runtime_logs d' = db_runtime_logs d"
proof (induction ids arbitrary: d)
  case (Cons i ids)
  then obtain d1 where d1: "redaction_audit en s a why now i d = Inr d1" "foldE (redaction_audit en s a why now) ids d1 = Inr d'"
    by (auto simp: raise_simps)
  have "(governed_inv d1 \<longleftrightarrow> governed_inv d) \<and> db_runtime_logs d1 = db_runtime_logs d"
    using d1(1) audited_inv by (cases i) (simp add: redaction_audit_def)
  then show ?case using Cons.IH [OF d1(2)] by simp
qed simp

lemma on_tables_logs:
  "create_governed_action_request d r = Inr (d1, q) \<Longrightarrow> db_runtime_logs d1 = db_runtime_logs d"
  "approve_governed_action_request d r b t w = Inr (d1, q) \<Longrightarrow> db_runtime_logs d1 = db_runtime_logs d"
  "reject_governed_action_request d r b t v = Inr (d1, q) \<Longrightarrow> db_runtime_logs d1 = db_runtime_logs d"
  "issue_raw_query_view_token d r i h e b t = Inr (d1, k) \<Longrightarrow> db_runtime_logs d1 = db_runtime_logs d"
  "db_runtime_logs (fst (consume_raw_query_view_token d h s x t)) = db_runtime_logs d"
  "db_runtime_logs (fst (expire_raw_query_view_token d h s x t)) = db_runtime_logs d"
  by (auto simp: create_governed_action_request_def approve_governed_action_request_def reject_governed_action_request_def
    issue_raw_query_view_token_def consume_raw_query_view_token_def expire_raw_query_view_token_def Let_def raise_simps
    put_request_def put_token_def set_request_status_def split: option.splits)

section \<open>Decisions and tokens\<close>

lemma request_or_404: "raw_query_view_request_or_404 d s i = Inr r \<longleftrightarrow> get_governed_action_request d i = Some r
    \<and> ga_service_id r = s \<and> ga_resource_type r = lit ''raw_query'' \<and> ga_action r = lit ''decrypt''"
  by (auto simp: raw_query_view_request_or_404_def raise_simps)

lemma pending_status [simp]: "ga_status (pending_request i s t x a who now why) = lit ''pending''"
  by (simp add: pending_request_def)

lemma create_view_keeps:
  assumes "create_raw_query_view_request en s x why cx d = Inr (d', u)" and "governed_inv d"
  shows "governed_inv d' \<and> db_runtime_logs d' = db_runtime_logs d"
  using assms by (auto simp: create_raw_query_view_request_def raise_simps Let_def unhandled_def raw_audited_inv
    on_tables_logs dest: create_request_inv [OF assms(2) _ pending_status])

lemma approve_view_keeps:
  assumes "approve_raw_query_view_request en s i why cx d = Inr (d', u)" and "governed_inv d"
  shows "governed_inv d' \<and> db_runtime_logs d' = db_runtime_logs d"
  using assms by (auto simp: approve_raw_query_view_request_def raise_simps Let_def raw_audited_inv request_or_404
    on_tables_logs intro: approve_inv [OF assms(2) get_request_in [THEN conjunct1]])

lemma reject_view_keeps:
  assumes "reject_raw_query_view_request en s i why cx d = Inr (d', u)" and "governed_inv d"
  shows "governed_inv d' \<and> db_runtime_logs d' = db_runtime_logs d"
  using assms by (auto simp: reject_raw_query_view_request_def raise_simps Let_def raw_audited_inv request_or_404
    on_tables_logs intro: reject_inv [OF assms(2) get_request_in [THEN conjunct1]])

lemma issue_token_keeps:
  assumes "issue_raw_query_view_token_handler en s i ttl cx d = Inr (d', u)" and "governed_inv d"
  shows "governed_inv d' \<and> db_runtime_logs d' = db_runtime_logs d"
  using assms by (auto simp: issue_raw_query_view_token_handler_def raise_simps Let_def raw_audited_inv request_or_404
    on_tables_logs intro: issue_inv [OF assms(2) get_request_in [THEN conjunct1]])

text \<open>A view: the consumed token, the request behind it, the log and its audit entry.\<close>

lemma view_raw_queryE:
  assumes "view_raw_query ke s x why cx t now d = Inr (d', u)"
  obtains r q ring e a where "token_request d t = Some r" "require_raw_query_token_requester cx r = Inr ()"
    "get_runtime_log_for_decrypt d s x = Some q" "rl_raw_query_deleted_at q = None"
    "runtime_log_encrypted_raw_query q = Some e" "load_raw_text_keyring (en_variable (ke_admin ke)) = Inr ring"
    "keyring_decrypt (ke_aead ke) ring e None = Inr (dr_query_raw u)"
    "d' = d\<lparr>db_audit_logs := db_audit_logs d @ [a]\<rparr>" "al_event_type a = lit ''raw_query.viewed''"
    "al_actor_id a = cx_actor_id cx" "al_service_id a = Some s" "al_trace_id a = Some x" "al_created_at a = now"
proof -
  obtain r q ring e where 1: "token_request d t = Some r" "require_raw_query_token_requester cx r = Inr ()"
    "get_runtime_log_for_decrypt d s x = Some q" "rl_raw_query_deleted_at q = None"
    "runtime_log_encrypted_raw_query q = Some e" "load_raw_text_keyring (en_variable (ke_admin ke)) = Inr ring"
    "keyring_decrypt (ke_aead ke) ring e None = Inr (dr_query_raw u)"
    and audit: "raw_query_audit (ke_admin ke) ''raw_query.viewed'' cx s x ''runtime_log'' x (Some why) None
      (Some (raw_query_view_after_state q)) now d = Inr d'"
    using assms by (auto simp: view_raw_query_def raise_simps Let_def raw_text_keyring_or_500_def decrypt_runtime_raw_query_def)
  from audit [unfolded raw_query_audit_def] obtain a where "d' = d\<lparr>db_audit_logs := db_audit_logs d @ [a]\<rparr>"
    "al_event_type a = lit ''raw_query.viewed''" "al_actor_id a = cx_actor_id cx" "al_service_id a = Some s"
    "al_trace_id a = Some x" "al_created_at a = now" by (rule audited)
  with 1 show ?thesis by (rule that)
qed

lemma view_keeps:
  assumes "view_raw_query ke s x why cx t now d = Inr (d', u)"
  shows "(governed_inv d' \<longleftrightarrow> governed_inv d) \<and> db_runtime_logs d' = db_runtime_logs d"
  by (rule view_raw_queryE [OF assms]) (simp add: governed_inv_def)

lemma decrypt_Inr:
  assumes "decrypt_raw_runtime_query ke s x why token cx d = (d', Inr u)"
  obtains h k d1 t where "token = Some k" "hash_raw_query_view_token (ke_admin ke) k = Inr h"
    "consume_raw_query_view_token d h s x (en_clock (ke_admin ke) 0) = (d1, Some t)"
    "view_raw_query ke s x why cx t (en_clock (ke_admin ke) 0) d1 = Inr (d', u)"
  using assms unfolding decrypt_raw_runtime_query_def Let_def
  by (auto simp: raise_simps split: sum.splits prod.splits option.splits)

lemma decrypt_keeps:
  assumes "governed_inv d"
  shows "governed_inv (fst (decrypt_raw_runtime_query ke s x why token cx d))
    \<and> db_runtime_logs (fst (decrypt_raw_runtime_query ke s x why token cx d)) = db_runtime_logs d"
proof -
  let ?now = "en_clock (ke_admin ke) 0"
  have "governed_inv d' \<and> db_runtime_logs d' = db_runtime_logs d"
    if "consume_raw_query_view_token d h s x ?now = (d1, Some t)" "view_raw_query ke s x why cx t ?now d1 = Inr (d', u)"
    for d1 t d' u h
    using that(1) view_keeps [OF that(2)] consume_inv [OF assms, of h s x ?now] on_tables_logs(5) [of d h s x ?now] by simp
  moreover have "governed_inv d' \<and> db_runtime_logs d' = db_runtime_logs d"
    if "expire_raw_query_view_token d h s x ?now = (d1, Some t)" "raw_query_audit (ke_admin ke) ev cx s x ty ti why b af ?now d1 = Inr d'"
    for d1 t d' h ev ty ti why b af
    using that(1) raw_audited_inv [OF that(2)] expire_inv [OF assms, of h s x ?now] on_tables_logs(6) [of d h s x ?now] by simp
  ultimately show ?thesis
    using assms unfolding decrypt_raw_runtime_query_def Let_def by (auto split: sum.splits prod.splits option.splits)
qed

section \<open>The invariant\<close>

lemma committed_either: "committed d m = d \<or> (\<exists>d' x. m = Inr (d', x) \<and> committed d m = d')"
  by (rule committed_cases) auto

lemma redact_inv: "governed_inv d \<Longrightarrow> governed_inv (fst (redact_runtime_raw_query_trace_ids d s xs actor why now))"
  by (simp add: redact_runtime_raw_query_trace_ids_def governed_inv_def)

lemma apply_redactionE:
  assumes "apply_runtime_raw_query_redaction en s xs actor why d = Inr (d', n)"
  shows "xs = [] \<and> d' = d \<or> (let d1 = fst (redact_runtime_raw_query_trace_ids d s (rev (remdups (rev xs))) actor why (en_clock en 0)) in
    (governed_inv d' \<longleftrightarrow> governed_inv d1) \<and> db_runtime_logs d' = db_runtime_logs d1)"
proof (cases "xs = []")
  case False
  then show ?thesis using assms
    by (auto simp: apply_runtime_raw_query_redaction_def raise_simps Let_def split: prod.splits dest: redaction_audits)
qed (use assms in \<open>simp add: apply_runtime_raw_query_redaction_def\<close>)

lemma raw_query_step_inv:
  assumes "governed_inv d"
  shows "governed_inv (raw_query_step ke ev d)"
proof (cases "qe_action ev")
  case (Logged r)
  then show ?thesis using assms
    by (auto simp: raw_query_step_def Let_def committed_def insert_runtime_log_def raise_simps governed_inv_def split: sum.split)
next
  case (Redact_Queries s xs actor why)
  have "governed_inv d'" if "apply_runtime_raw_query_redaction en s xs actor why d = Inr (d', n)" for en d' n
    using that apply_redactionE [OF that] redact_inv [OF assms] assms by metis
  then show ?thesis using assms Redact_Queries
    by (auto simp: raw_query_step_def Let_def intro: committed_inv)
qed (simp_all add: raw_query_step_def Let_def decrypt_keeps [OF assms],
  auto intro!: committed_inv [OF _ assms] dest: create_view_keeps [OF _ assms] approve_view_keeps [OF _ assms]
    reject_view_keeps [OF _ assms] issue_token_keeps [OF _ assms])

lemma raw_query_run_inv: "governed_inv d \<Longrightarrow> governed_inv (raw_query_run ke d evs)"
  unfolding raw_query_run_def by (induction evs arbitrary: d) (simp_all add: raw_query_step_inv)

section \<open>Every view is approved, addressed and recorded\<close>

text \<open>
  C10: When a raw query is answered, after whatever requests, a view request for exactly this log stands that somebody
  other than its author has approved, the reader is its author with access to the service or a platform administrator,
  the text is what the envelope of the log opens to, and the reading is the newest entry of the audit log.
\<close>

theorem raw_query_disclosed:
  assumes "db_governed_requests d = []" and "db_view_tokens d = []" and "d1 = raw_query_run ke d evs"
    and "decrypt_raw_runtime_query ke s x why token cx d1 = (d2, Inr u)"
  shows "\<exists>r q ring e a. r \<in> set (db_governed_requests d1) \<and> ga_service_id r = s \<and> ga_resource_id r = x
    \<and> ga_resource_type r = lit ''raw_query'' \<and> ga_action r = lit ''decrypt''
    \<and> (\<exists>b. ga_decided_by r = Some b \<and> b \<noteq> ga_requested_by r)
    \<and> (has_role cx (lit ''system_admin'') \<or> cx_actor_id cx = ga_requested_by r \<and> can_access_service cx s)
    \<and> get_runtime_log_for_decrypt d1 s x = Some q \<and> rl_raw_query_deleted_at q = None
    \<and> complete_text (rl_query_raw q) = Some e \<and> load_raw_text_keyring (en_variable (ke_admin ke)) = Inr ring
    \<and> keyring_decrypt (ke_aead ke) ring e None = Inr (dr_query_raw u)
    \<and> db_audit_logs d2 = db_audit_logs d1 @ [a] \<and> al_event_type a = lit ''raw_query.viewed''
    \<and> al_actor_id a = cx_actor_id cx \<and> al_trace_id a = Some x"
proof -
  let ?now = "en_clock (ke_admin ke) 0"
  have inv: "governed_inv d1" unfolding assms(3) by (rule raw_query_run_inv [OF governed_inv_empty [OF assms(1,2)]])
  obtain h d3 t where c: "consume_raw_query_view_token d1 h s x ?now = (d3, Some t)"
    and v: "view_raw_query ke s x why cx t ?now d3 = Inr (d2, u)" by (rule decrypt_Inr [OF assms(4)])
  obtain t0 where t0: "first_row (\<lambda>t. token_live d1 h s x t \<and> ?now < vt_expires_at t) (db_view_tokens d1) = Some t0"
    and t: "t = t0\<lparr>vt_viewed_at := Some ?now\<rparr>"
    and d3: "d3 = set_request_status (vt_request_id t0) (lit ''viewed'') (put_token t d1)"
    using c unfolding consume_Some by blast
  obtain r where r: "r \<in> set (db_governed_requests d1)" "ga_request_id r = vt_request_id t0" "ga_service_id r = s"
    "ga_resource_id r = x" "ga_resource_type r = lit ''raw_query''" "ga_action r = lit ''decrypt''" "seconded r"
    using live_token_request [OF inv first_token(1,2) [OF t0]] by blast
  obtain r' q ring e a where w: "token_request d3 t = Some r'" "require_raw_query_token_requester cx r' = Inr ()"
    "get_runtime_log_for_decrypt d3 s x = Some q" "rl_raw_query_deleted_at q = None"
    "runtime_log_encrypted_raw_query q = Some e" "load_raw_text_keyring (en_variable (ke_admin ke)) = Inr ring"
    "keyring_decrypt (ke_aead ke) ring e None = Inr (dr_query_raw u)"
    "d2 = d3\<lparr>db_audit_logs := db_audit_logs d3 @ [a]\<rparr>" "al_event_type a = lit ''raw_query.viewed''"
    "al_actor_id a = cx_actor_id cx" "al_trace_id a = Some x" by (rule view_raw_queryE [OF v])
  have "r' \<in> set (db_governed_requests d3)" "ga_request_id r' = vt_request_id t0"
    using get_request_in [of d3 "vt_request_id t" r'] w(1) t by (simp_all add: token_request_def)
  then obtain r0 where "r0 \<in> set (db_governed_requests d1)" "ga_request_id r0 = vt_request_id t0"
    "ga_requested_by r' = ga_requested_by r0" "ga_service_id r' = ga_service_id r0"
    unfolding d3 by (auto simp: set_request_status_def update_where_def put_token_def split: if_splits)
  moreover from this have "r0 = r" using distinct_key [OF governed_invD(1) [OF inv] _ r(1)] r(2) by metis
  ultimately have "has_role cx (lit ''system_admin'') \<or> cx_actor_id cx = ga_requested_by r \<and> can_access_service cx s"
    using w(2) r(3) by (simp add: require_raw_query_token_requester_def raise_simps)
  moreover have "get_runtime_log_for_decrypt d1 s x = Some q" "db_audit_logs d3 = db_audit_logs d1"
    using w(3) unfolding d3 by (simp_all add: get_runtime_log_for_decrypt_def set_request_status_def put_token_def)
  ultimately show ?thesis
    using r w by (intro exI [of _ r] exI [of _ q] exI [of _ ring] exI [of _ e] exI [of _ a])
      (simp add: seconded_def runtime_log_encrypted_raw_query_def, blast)
qed

section \<open>A redacted query is gone\<close>

definition redacted_log :: "str \<Rightarrow> str \<Rightarrow> str option \<Rightarrow> db \<Rightarrow> bool" where
  "redacted_log s x masked d \<longleftrightarrow> (\<exists>q \<in> set (db_runtime_logs d). rl_trace_id q = x \<and> rl_service_id q = Some s)
     \<and> (\<forall>q \<in> set (db_runtime_logs d). rl_trace_id q = x \<longrightarrow> rl_query_raw q = null_text \<and> rl_query_masked q = masked)"

lemma redacted_log_cong: "redacted_log s x m d \<Longrightarrow> db_runtime_logs d' = db_runtime_logs d \<Longrightarrow> redacted_log s x m d'"
  by (simp add: redacted_log_def)

definition without_query :: "str \<Rightarrow> str \<Rightarrow> timestamp \<Rightarrow> runtime_log \<Rightarrow> runtime_log" where
  "without_query actor why now r = r\<lparr>rl_query_raw := null_text, rl_raw_query_deleted_at := Some now,
     rl_raw_query_deleted_by := Some actor, rl_raw_query_delete_reason := Some why\<rparr>"

lemma redact_logs: "db_runtime_logs (fst (redact_runtime_raw_query_trace_ids d s xs actor why now))
    = (if xs = [] then db_runtime_logs d
       else map (\<lambda>r. if redactable s xs r then without_query actor why now r else r) (db_runtime_logs d))"
  by (simp add: redact_runtime_raw_query_trace_ids_def update_where_def without_query_def)

lemma without_query [simp]: "rl_query_raw (without_query actor why now r) = null_text"
  "rl_query_masked (without_query actor why now r) = rl_query_masked r"
  "rl_trace_id (without_query actor why now r) = rl_trace_id r"
  "rl_service_id (without_query actor why now r) = rl_service_id r"
  by (simp_all add: without_query_def)

lemma redacted_log_map:
  assumes "db_runtime_logs d' = map f (db_runtime_logs d)"
    and "\<And>r. rl_trace_id (f r) = rl_trace_id r" "\<And>r. rl_service_id (f r) = rl_service_id r"
    and "\<exists>q \<in> set (db_runtime_logs d). rl_trace_id q = x \<and> rl_service_id q = Some s"
    and "\<And>q. q \<in> set (db_runtime_logs d) \<Longrightarrow> rl_trace_id q = x \<Longrightarrow> rl_query_raw (f q) = null_text \<and> rl_query_masked (f q) = m"
  shows "redacted_log s x m d'"
  using assms by (simp add: redacted_log_def)

lemma redact_redacted:
  assumes "redacted_log s x m d"
  shows "redacted_log s x m (fst (redact_runtime_raw_query_trace_ids d s' xs actor why now))"
proof (cases "xs = []")
  case False
  show ?thesis
    by (rule redacted_log_map [OF redact_logs [of d s' xs actor why now, unfolded if_not_P [OF False]]])
      (use assms in \<open>auto simp: redacted_log_def\<close>)
qed (use assms in \<open>simp add: redacted_log_def redact_logs\<close>)

lemma raw_query_step_redacted:
  assumes "redacted_log s x m d" and "governed_inv d"
  shows "redacted_log s x m (raw_query_step ke ev d)"
proof (cases "qe_action ev")
  case (Logged r)
  then show ?thesis using assms(1)
    by (auto simp: raw_query_step_def Let_def committed_def insert_runtime_log_def raise_simps redacted_log_def split: sum.split)
next
  case (Redact_Queries s' xs actor why)
  have "redacted_log s x m d'" if "apply_runtime_raw_query_redaction en s' xs actor why d = Inr (d', n)" for en d' n
    using apply_redactionE [OF that] assms(1) by (auto simp: Let_def intro: redacted_log_cong [OF redact_redacted])
  then show ?thesis using assms(1) Redact_Queries
    by (auto simp: raw_query_step_def Let_def committed_def split: sum.split)
next
  case (Decrypt_Query s' x' why token)
  then show ?thesis using redacted_log_cong [OF assms(1)] decrypt_keeps [OF assms(2)]
    by (simp add: raw_query_step_def Let_def)
qed (simp_all add: raw_query_step_def Let_def committed_def split: sum.split,
  auto intro: redacted_log_cong [OF assms(1)] simp: assms(1) dest: create_view_keeps [OF _ assms(2)] approve_view_keeps [OF _ assms(2)]
    reject_view_keeps [OF _ assms(2)] issue_token_keeps [OF _ assms(2)])

lemma raw_query_run_redacted:
  "redacted_log s x m d \<Longrightarrow> governed_inv d \<Longrightarrow> redacted_log s x m (raw_query_run ke d evs)"
  unfolding raw_query_run_def by (induction evs arbitrary: d) (simp_all add: raw_query_step_redacted raw_query_step_inv)

text \<open>
  C11: A redacted raw query is gone for good: whatever follows, the log stays, with its masked query and without its raw
  query, and no request for it is answered with a text.
\<close>

theorem redacted_query_gone:
  assumes "governed_inv d" and "distinct (map rl_trace_id (db_runtime_logs d))"
    and "get_runtime_log_for_decrypt d s x = Some q" and "rl_raw_query_deleted_at q = None" and "x \<in> set xs"
    and "apply_runtime_raw_query_redaction en s xs actor why d = Inr (d1, n)" and "d2 = raw_query_run ke d1 evs"
  shows "(\<exists>q'. get_runtime_log_for_decrypt d2 s x = Some q' \<and> rl_query_raw q' = null_text \<and> rl_query_masked q' = rl_query_masked q)
    \<and> (\<forall>reason token cx d3 u. decrypt_raw_runtime_query ke s x reason token cx d2 \<noteq> (d3, Inr u))"
proof -
  let ?m = "rl_query_masked q" and ?xs = "rev (remdups (rev xs))"
  have q: "q \<in> set (db_runtime_logs d)" "rl_trace_id q = x" "rl_service_id q = Some s"
    using assms(3) by (auto simp: get_runtime_log_for_decrypt_def dest: first_row_Some)
  have only: "p = q" if "p \<in> set (db_runtime_logs d)" "rl_trace_id p = x" for p
    using distinct_key [OF assms(2) that(1) q(1)] that(2) q(2) by simp
  have "redacted_log s x ?m (fst (redact_runtime_raw_query_trace_ids d s ?xs actor why (en_clock en 0)))"
  proof -
    have xs: "?xs \<noteq> []" "x \<in> set ?xs" using assms(5) by (cases xs; simp)+
    show ?thesis
      by (rule redacted_log_map [OF redact_logs [of d s ?xs actor why "en_clock en 0", unfolded if_not_P [OF xs(1)]]])
        (use q xs(2) assms(4) in \<open>auto simp: redactable_def has_raw_query_def dest: only\<close>)
  qed
  then have d1: "redacted_log s x ?m d1" "governed_inv d1"
    using apply_redactionE [OF assms(6)] assms(1,5) redact_inv [OF assms(1)]
    by (auto simp: Let_def intro: redacted_log_cong)
  have red: "redacted_log s x ?m d2" "governed_inv d2"
    unfolding assms(7) using raw_query_run_redacted [OF d1] raw_query_run_inv [OF d1(2)] by blast+
  then obtain q' where q': "get_runtime_log_for_decrypt d2 s x = Some q'"
    by (cases "get_runtime_log_for_decrypt d2 s x") (auto simp: get_runtime_log_for_decrypt_def first_row_None redacted_log_def)
  then have raw: "rl_query_raw q' = null_text" "rl_query_masked q' = ?m"
    using red(1) by (auto simp: get_runtime_log_for_decrypt_def redacted_log_def dest!: first_row_Some)
  have "decrypt_raw_runtime_query ke s x reason token cx d2 \<noteq> (d3, Inr u)" for reason token cx d3 u
  proof
    assume "decrypt_raw_runtime_query ke s x reason token cx d2 = (d3, Inr u)"
    then obtain h d4 t where c: "consume_raw_query_view_token d2 h s x (en_clock (ke_admin ke) 0) = (d4, Some t)"
      and v: "view_raw_query ke s x reason cx t (en_clock (ke_admin ke) 0) d4 = Inr (d3, u)" by (rule decrypt_Inr)
    have "db_runtime_logs d4 = db_runtime_logs d2" using on_tables_logs(5) [of d2 h s x "en_clock (ke_admin ke) 0"] c by simp
    then have "get_runtime_log_for_decrypt d4 s x = Some q'" using q' by (simp add: get_runtime_log_for_decrypt_def)
    then show False
      using v raw(1) by (elim view_raw_queryE) (simp add: runtime_log_encrypted_raw_query_def)
  qed
  then show ?thesis using q' raw by blast
qed

section \<open>A run\<close>

definition view_log :: "encrypted_text \<Rightarrow> runtime_log" where
  "view_log e = \<lparr>rl_trace_id = [3], rl_request_id = None, rl_app_id = None, rl_service_id = Some [2],
     rl_environment = None,
     rl_versions = \<lparr>lv_release_version = None, lv_policy_version = None, lv_intent_catalog_version = None,
       lv_model_version = None, lv_vector_index_version = None, lv_test_run_id = None, lv_threshold_preset = None, lv_threshold_value = None\<rparr>,
     rl_decision = \<lparr>ld_decision = None, ld_intent_id = None, ld_confidence = None, ld_margin = None, ld_route_key = None,
       ld_decision_state = None\<rparr>,
     rl_error = \<lparr>le_error_code = None, le_error_category = None, le_error_layer = None, le_http_status = None, le_retryable = None\<rparr>, rl_latency_ms = 1, rl_query_raw = stored_text e,
     rl_query_masked = Some [65], rl_raw_query_deleted_at = None, rl_raw_query_deleted_by = None,
     rl_raw_query_delete_reason = None, rl_created_at = 0\<rparr>"

definition view_db :: "encrypted_text \<Rightarrow> db" where
  "view_db e = empty_db\<lparr>db_services := [sample_service], db_runtime_logs := [view_log e]\<rparr>"

definition view_auditor :: "nat \<Rightarrow> admin_context" where
  "view_auditor k = \<lparr>cx_actor_id = [k], cx_roles = {}, cx_service_scope = {[2]}, cx_all_service_scopes = False,
     cx_service_roles = [([2], {lit ''auditor''})]\<rparr>"

definition view_event :: "nat \<Rightarrow> nat \<Rightarrow> raw_query_action \<Rightarrow> raw_query_event" where
  "view_event k actor action = \<lparr>qe_context = view_auditor actor, qe_uuid = (\<lambda>i. [k + i]), qe_uuid_hex = (\<lambda>_. [7]),
     qe_token = [84], qe_clock = (\<lambda>_. int k), qe_action = action\<rparr>"

definition view_requests :: "raw_query_event list" where
  "view_requests = [view_event 10 4 (Request_View [2] [3] [70]),
     view_event 20 5 (Approve_View [2] (lit ''gar_'' @ [7]) None),
     view_event 30 4 (Issue_Token [2] (lit ''gar_'' @ [7]) 60)]"

lemma view_tables: "db_services (view_db e) = [sample_service]" "db_runtime_logs (view_db e) = [view_log e]"
  "db_governed_requests (view_db e) = []" "db_view_tokens (view_db e) = []" "db_audit_logs (view_db e) = []"
  by (simp_all add: view_db_def empty_db_def)

lemma view_context: "ke_admin (view_env ke ev) = (ke_admin ke)\<lparr>en_uuid := qe_uuid ev, en_uuid_hex := qe_uuid_hex ev,
     en_token := qe_token ev, en_clock := qe_clock ev\<rparr>" "ke_aead (view_env ke ev) = ke_aead ke"
  by (simp_all add: view_env_def)

lemma view_access: "require_raw_query_request_access (view_auditor k) [2] = Inr ()"
  "require_raw_query_decision_access (view_auditor k) [2] = Inr ()" "cx_actor_id (view_auditor k) = [k]"
  by (simp_all add: require_raw_query_request_access_def require_raw_query_decision_access_def service_guard_def
      has_any_service_role_def roles_for_def view_auditor_def has_role_def)

text \<open>An audit entry with a new identifier is written.\<close>

lemma audit_written:
  assumes "en_uuid en k \<notin> al_audit_id ` set (db_audit_logs d)"
  shows "\<exists>a. al_audit_id a = en_uuid en k
    \<and> audit_entry en k t who s tr ty ti vr ip b af now d = Inr (d\<lparr>db_audit_logs := db_audit_logs d @ [a]\<rparr>)"
  using assms by (intro exI conjI) (simp_all add: audit_entry_def unhandled_def insert_audit_log_def insert_row_def)

definition view_request :: governed_action_request where
  "view_request = pending_request (lit ''gar_'' @ [7]) [2] (lit ''raw_query'') [3] (lit ''decrypt'') [4] 10 [70]"

lemma view_env_at:
  "en_clock (ke_admin (view_env ke (view_event k w act))) 0 = int k" "en_uuid_hex (ke_admin (view_env ke (view_event k w act))) 0 = [7]"
  "en_uuid (ke_admin (view_env ke (view_event k w act))) 0 = [k]" "en_token (ke_admin (view_env ke (view_event k w act))) = [84]"
  "en_digest (ke_admin (view_env draft_ke (view_event k w act))) = id"
  "qe_context (view_event k w act) = view_auditor w" "qe_action (view_event k w act) = act"
  by (simp_all add: view_context view_event_def draft_ke_def live_ke_def live_admin_def)

lemma view_requested:
  assumes "en_clock en 0 = 10" and "en_uuid_hex en 0 = [7]" and "en_uuid en 0 = [10]"
  shows "\<exists>a u. create_raw_query_view_request en [2] [3] [70] (view_auditor 4) (view_db e)
      = Inr ((view_db e)\<lparr>db_governed_requests := [view_request], db_audit_logs := [a]\<rparr>, u) \<and> al_audit_id a = [10]"
proof -
  have service: "ensure_service_exists (view_db e) [2] = Inr sample_service"
    by (simp add: ensure_service_exists_def get_service_def view_tables first_row_def sample_service_def)
  have log: "get_masked_runtime_log (view_db e) [2] [3] = Some (masked_runtime_log_columns (view_log e))"
    by (simp add: get_masked_runtime_log_def view_tables first_row_def view_log_def)
  have created: "create_governed_action_request (view_db e) view_request
      = Inr ((view_db e)\<lparr>db_governed_requests := [view_request]\<rparr>, view_request)"
    by (simp add: create_governed_action_request_def view_request_def pending_request_def governed_defs view_tables blank_def
        strip_def lstrip_def rstrip_def is_space_def)
  have "\<exists>a. al_audit_id a = [10] \<and> raw_query_audit en ''raw_query.requested'' (view_auditor 4) [2] [3] ''raw_query_view_request''
       (ga_request_id view_request) (Some [70]) None (Some (view_request_state en view_request)) 10
       ((view_db e)\<lparr>db_governed_requests := [view_request]\<rparr>)
     = Inr ((view_db e)\<lparr>db_governed_requests := [view_request], db_audit_logs := [a]\<rparr>)"
    using audit_written [of en 0 "(view_db e)\<lparr>db_governed_requests := [view_request]\<rparr>"] assms(3)
    by (simp add: view_tables raw_query_audit_def)
  then show ?thesis
    by (auto simp: create_raw_query_view_request_def Let_def view_access service log assms view_request_def [symmetric] created
        unhandled_def)
qed

definition approved_request :: governed_action_request where
  "approved_request = view_request\<lparr>ga_status := lit ''approved'', ga_decided_by := Some [5], ga_decided_at := Some 20,
     ga_decision_reason := None\<rparr>"

lemma view_request_fields [simp]: "ga_request_id view_request = lit ''gar_'' @ [7]" "ga_service_id view_request = [2]"
  "ga_resource_type view_request = lit ''raw_query''" "ga_resource_id view_request = [3]" "ga_action view_request = lit ''decrypt''"
  "ga_status view_request = lit ''pending''" "ga_requested_by view_request = [4]"
  by (simp_all add: view_request_def pending_request_def)

lemma approved_request_fields [simp]: "ga_request_id approved_request = lit ''gar_'' @ [7]" "ga_service_id approved_request = [2]"
  "ga_resource_type approved_request = lit ''raw_query''" "ga_resource_id approved_request = [3]"
  "ga_action approved_request = lit ''decrypt''" "ga_status approved_request = lit ''approved''"
  "ga_requested_by approved_request = [4]"
  by (simp_all add: approved_request_def)

lemma not_blank [simp]: "require_nonblank_string [65] f = Inr [65]" "require_nonblank_string [4] f = Inr [4]"
  "require_nonblank_string [5] f = Inr [5]"
  by (simp_all add: require_nonblank_string_def blank_def strip_def lstrip_def rstrip_def is_space_def)

lemma view_approved:
  assumes "en_clock en 0 = 20" and "en_uuid en 0 = [20]" and "al_audit_id a = [10]" and "db_governed_requests d = [view_request]"
    and "db_audit_logs d = [a]"
  shows "\<exists>a' u. approve_raw_query_view_request en [2] (lit ''gar_'' @ [7]) None (view_auditor 5) d
      = Inr (d\<lparr>db_governed_requests := [approved_request], db_audit_logs := [a, a']\<rparr>, u) \<and> al_audit_id a' = [20]"
proof -
  have found: "raw_query_view_request_or_404 d [2] (lit ''gar_'' @ [7]) = Inr view_request"
    by (simp add: request_or_404 get_governed_action_request_def first_row_def assms(4))
  have approved: "approve_governed_action_request d view_request [5] 20 None
      = Inr (d\<lparr>db_governed_requests := [approved_request]\<rparr>, approved_request)"
    by (simp add: approve_governed_action_request_def require_pending_governed_request_def Let_def put_request_def put_row_def
        update_where_def assms(4) approved_request_def)
  have "\<exists>a'. al_audit_id a' = [20] \<and> raw_query_audit en ''raw_query.approved'' (view_auditor 5) [2] [3] ''raw_query_view_request''
       (lit ''gar_'' @ [7]) None (Some (view_request_state en view_request)) (Some (view_request_state en approved_request)) 20
       (d\<lparr>db_governed_requests := [approved_request]\<rparr>)
     = Inr (d\<lparr>db_governed_requests := [approved_request], db_audit_logs := [a, a']\<rparr>)"
    using audit_written [of en 0 "d\<lparr>db_governed_requests := [approved_request]\<rparr>"] assms(2,3,5)
    by (simp add: raw_query_audit_def)
  then show ?thesis
    by (auto simp: approve_raw_query_view_request_def Let_def view_access found assms(1) approved)
qed

definition view_token :: raw_query_view_token where
  "view_token = \<lparr>vt_token_id = lit ''rqt_'' @ [7], vt_request_id = lit ''gar_'' @ [7], vt_service_id = [2], vt_trace_id = [3],
     vt_token_hash = lit ''sha256:'' @ lit ''rqv_'' @ [84], vt_expires_at = 60000030, vt_issued_by = [4], vt_issued_at = 30,
     vt_viewed_at = None, vt_expired_at = None\<rparr>"

definition issued_request :: governed_action_request where
  "issued_request = approved_request\<lparr>ga_status := lit ''token_issued''\<rparr>"

lemma view_hash: "en_digest en = id \<Longrightarrow> hash_raw_query_view_token en (lit ''rqv_'' @ [84]) = Inr (vt_token_hash view_token)"
  by (simp add: hash_raw_query_view_token_def token_digest_def view_token_def blank_def strip_def lstrip_def rstrip_def
      is_space_def lit_def)

lemma view_issued:
  assumes "en_clock en 0 = 30" and "en_uuid en 0 = [30]" and "en_uuid_hex en 0 = [7]" and "en_token en = [84]" and "en_digest en = id"
    and "30 \<notin> hd ` al_audit_id ` set as" and "db_governed_requests d = [approved_request]" and "db_view_tokens d = []"
    and "db_audit_logs d = as"
  shows "\<exists>a u. issue_raw_query_view_token_handler en [2] (lit ''gar_'' @ [7]) 60 (view_auditor 4) d
      = Inr (d\<lparr>db_view_tokens := [view_token], db_governed_requests := [issued_request], db_audit_logs := as @ [a]\<rparr>, u) \<and> al_audit_id a = [30]"
proof -
  let ?d = "d\<lparr>db_view_tokens := [view_token], db_governed_requests := [issued_request]\<rparr>"
  have found: "raw_query_view_request_or_404 d [2] (lit ''gar_'' @ [7]) = Inr approved_request"
    by (simp add: request_or_404 get_governed_action_request_def first_row_def assms(7))
  have author: "require_raw_query_token_requester (view_auditor 4) approved_request = Inr ()"
    by (simp add: require_raw_query_token_requester_def view_auditor_def can_access_service_def)
  have "require_nonblank_string (vt_token_hash view_token) f = Inr (vt_token_hash view_token)" for f
    by (simp add: require_nonblank_string_def blank_def strip_def lstrip_def rstrip_def is_space_def view_token_def lit_def)
  then have issued: "issue_raw_query_view_token d approved_request (lit ''rqt_'' @ [7]) (vt_token_hash view_token) 60000030 [4] 30
      = Inr (?d, view_token)"
    by (simp add: issue_raw_query_view_token_def Let_def assms(7,8) insert_row_def put_request_def put_row_def update_where_def
        issued_request_def) (simp add: view_token_def)
  have "en_uuid en 0 \<notin> al_audit_id ` set (db_audit_logs ?d)" using assms(2,6,9) by force
  from audit_written [OF this]
  have "\<exists>a. raw_query_audit en ''raw_query.token_issued'' (view_auditor 4) [2] [3] ''raw_query_view_request''
       (lit ''gar_'' @ [7]) None b af 30 ?d = Inr (?d\<lparr>db_audit_logs := as @ [a]\<rparr>) \<and> al_audit_id a = [30]" for b af
    unfolding raw_query_audit_def using assms(2,9) by force
  then obtain a where "raw_query_audit en ''raw_query.token_issued'' (view_auditor 4) [2] [3] ''raw_query_view_request''
       (lit ''gar_'' @ [7]) None (Some (view_request_state en approved_request))
       (Some (raw_query_token_audit_state view_token True (token_request_status ?d view_token)
         @ [(lit ''token_returned_once'', JBool True)])) 30 ?d = Inr (?d\<lparr>db_audit_logs := as @ [a]\<rparr>)"
    and "al_audit_id a = [30]" by blast
  then show ?thesis
    by (auto simp: issue_raw_query_view_token_handler_def Let_def view_access(3) found author assms(1-5) view_hash issued)
qed

lemma view_answered:
  assumes "load_raw_text_keyring live_variable = Inr ring" and "keyring_decrypt live_aead ring e None = Inr p"
    and "dec 0 \<notin> al_audit_id ` set (db_audit_logs d)" and "db_services d = [sample_service]" and "db_runtime_logs d = [view_log e]"
    and "db_governed_requests d = [issued_request]" and "db_view_tokens d = [view_token]"
  shows "\<exists>d' u. decrypt_raw_runtime_query draft_ke [2] [3] [70] (Some (lit ''rqv_'' @ [84])) (view_auditor 4) d = (d', Inr u)
    \<and> dr_query_raw u = p"
proof -
  let ?en = "ke_admin draft_ke" and ?h = "vt_token_hash view_token" and ?t = "view_token\<lparr>vt_viewed_at := Some 0\<rparr>"
  have en: "en_clock ?en 0 = 0" "en_digest ?en = id" "en_variable ?en = live_variable" "ke_aead draft_ke = live_aead"
    "en_uuid ?en 0 = dec 0"
    by (simp_all add: draft_ke_def live_ke_def live_admin_def)
  have service: "ensure_service_exists d [2] = Inr sample_service"
    by (simp add: ensure_service_exists_def get_service_def assms(4) first_row_def sample_service_def)
  have t: "vt_request_id view_token = lit ''gar_'' @ [7]" "vt_service_id view_token = [2]" "vt_trace_id view_token = [3]"
    "vt_viewed_at view_token = None" "vt_expired_at view_token = None" "vt_expires_at view_token = 60000030"
    by (simp_all add: view_token_def)
  have r: "ga_request_id issued_request = lit ''gar_'' @ [7]" "ga_status issued_request = lit ''token_issued''"
    "ga_requested_by issued_request = [4]" "ga_service_id issued_request = [2]"
    by (simp_all add: issued_request_def)
  define d1 where "d1 = set_request_status (lit ''gar_'' @ [7]) (lit ''viewed'') (put_token ?t d)"
  have consumed: "consume_raw_query_view_token d ?h [2] [3] 0 = (d1, Some ?t)"
    by (simp add: consume_raw_query_view_token_def first_row_def assms(6,7) token_live_def token_request_def
        get_governed_action_request_def t r Let_def d1_def)
  have request: "token_request d1 ?t = Some (issued_request\<lparr>ga_status := lit ''viewed''\<rparr>)"
    by (simp add: token_request_def get_governed_action_request_def d1_def set_request_status_def put_token_def update_where_def
        first_row_def assms(6) t r)
  have author: "require_raw_query_token_requester (view_auditor 4) (issued_request\<lparr>ga_status := lit ''viewed''\<rparr>) = Inr ()"
    by (simp add: require_raw_query_token_requester_def view_auditor_def can_access_service_def r)
  have log: "get_runtime_log_for_decrypt d1 [2] [3] = Some (view_log e)" "db_audit_logs d1 = db_audit_logs d"
    by (simp_all add: get_runtime_log_for_decrypt_def d1_def set_request_status_def put_token_def assms(5) first_row_def view_log_def)
  have raw: "rl_raw_query_deleted_at (view_log e) = None" "runtime_log_encrypted_raw_query (view_log e) = Some e"
    by (simp_all add: view_log_def runtime_log_encrypted_raw_query_def)
  have "\<exists>a. raw_query_audit ?en ''raw_query.viewed'' (view_auditor 4) [2] [3] ''runtime_log'' [3] (Some [70]) None
      (Some (raw_query_view_after_state (view_log e))) 0 d1 = Inr (d1\<lparr>db_audit_logs := db_audit_logs d1 @ [a]\<rparr>)"
    unfolding raw_query_audit_def using audit_written [of ?en 0 d1] assms(3) log(2) en(5) by metis
  then obtain d2 where "raw_query_audit ?en ''raw_query.viewed'' (view_auditor 4) [2] [3] ''runtime_log'' [3] (Some [70]) None
      (Some (raw_query_view_after_state (view_log e))) 0 d1 = Inr d2" by blast
  then have "\<exists>u. view_raw_query draft_ke [2] [3] [70] (view_auditor 4) ?t 0 d1 = Inr (d2, u) \<and> dr_query_raw u = p"
    by (simp add: view_raw_query_def Let_def request author log(1) raw en raw_text_keyring_or_500_def assms(1,2)
        decrypt_runtime_raw_query_def)
  then obtain u where "view_raw_query draft_ke [2] [3] [70] (view_auditor 4) ?t 0 d1 = Inr (d2, u)" "dr_query_raw u = p" by blast
  then show ?thesis
    by (simp add: decrypt_raw_runtime_query_def Let_def service en view_hash consumed)
qed

lemma view_run_state:
  "db_services (raw_query_run draft_ke (view_db e) view_requests) = [sample_service]
    \<and> db_runtime_logs (raw_query_run draft_ke (view_db e) view_requests) = [view_log e]
    \<and> db_governed_requests (raw_query_run draft_ke (view_db e) view_requests) = [issued_request]
    \<and> db_view_tokens (raw_query_run draft_ke (view_db e) view_requests) = [view_token]
    \<and> dec 0 \<notin> al_audit_id ` set (db_audit_logs (raw_query_run draft_ke (view_db e) view_requests))"
proof -
  let ?en = "\<lambda>ev. ke_admin (view_env draft_ke ev)"
  let ?e1 = "view_event 10 4 (Request_View [2] [3] [70])" and ?e2 = "view_event 20 5 (Approve_View [2] (lit ''gar_'' @ [7]) None)"
    and ?e3 = "view_event 30 4 (Issue_Token [2] (lit ''gar_'' @ [7]) 60)"
  obtain a u where 1: "create_raw_query_view_request (?en ?e1) [2] [3] [70] (view_auditor 4) (view_db e)
      = Inr ((view_db e)\<lparr>db_governed_requests := [view_request], db_audit_logs := [a]\<rparr>, u)" "al_audit_id a = [10]"
    using view_requested [of "?en ?e1" e] by (auto simp: view_env_at)
  define d1 where "d1 = (view_db e)\<lparr>db_governed_requests := [view_request], db_audit_logs := [a]\<rparr>"
  have t1: "db_governed_requests d1 = [view_request]" "db_audit_logs d1 = [a]" "db_services d1 = [sample_service]"
    "db_runtime_logs d1 = [view_log e]" "db_view_tokens d1 = []" by (simp_all add: d1_def view_tables)
  obtain a2 u2 where 2: "approve_raw_query_view_request (?en ?e2) [2] (lit ''gar_'' @ [7]) None (view_auditor 5) d1
      = Inr (d1\<lparr>db_governed_requests := [approved_request], db_audit_logs := [a, a2]\<rparr>, u2)" "al_audit_id a2 = [20]"
    using view_approved [of "?en ?e2" a d1] 1(2) t1 by (auto simp: view_env_at)
  define d2 where "d2 = d1\<lparr>db_governed_requests := [approved_request], db_audit_logs := [a, a2]\<rparr>"
  have t2: "db_governed_requests d2 = [approved_request]" "db_audit_logs d2 = [a, a2]" "db_services d2 = [sample_service]"
    "db_runtime_logs d2 = [view_log e]" "db_view_tokens d2 = []" by (simp_all add: d2_def t1)
  obtain a3 u3 where 3: "issue_raw_query_view_token_handler (?en ?e3) [2] (lit ''gar_'' @ [7]) 60 (view_auditor 4) d2
      = Inr (d2\<lparr>db_view_tokens := [view_token], db_governed_requests := [issued_request], db_audit_logs := [a, a2] @ [a3]\<rparr>, u3)"
    "al_audit_id a3 = [30]"
    using view_issued [of "?en ?e3" "[a, a2]" d2] 1(2) 2(2) t2 by (auto simp: view_env_at)
  have run: "raw_query_run draft_ke (view_db e) view_requests
      = d2\<lparr>db_view_tokens := [view_token], db_governed_requests := [issued_request], db_audit_logs := [a, a2] @ [a3]\<rparr>"
    by (simp add: raw_query_run_def view_requests_def raw_query_step_def Let_def view_env_at committed_def 1(1) d1_def [symmetric]
        2(1) d2_def [symmetric] 3(1))
  show ?thesis unfolding run using t2 1(2) 2(2) 3(2) by (simp add: dec.simps)
qed

lemma view_tables_empty: "db_governed_requests (view_db e) = []" "db_view_tokens (view_db e) = []"
  by (simp_all add: view_tables)

lemma view_encrypted:
  obtains ring e where "load_raw_text_keyring live_variable = Inr ring" "keyring_decrypt live_aead ring e None = Inr (lit ''hi'')"
proof -
  obtain ring where ring: "load_raw_text_keyring live_variable = Inr ring" "kr_active_key_id ring = lit ''k''"
    using live_ring by blast
  have ok: "keyring_ok ring" using ring(1) unfolding load_raw_text_keyring_def by (rule load_keyring_ok)
  obtain e where "keyring_encrypt live_aead ring live_nonces (lit ''hi'') None = Inr e" using draft_encrypted [OF ring] by blast
  from keyring_decrypt_encrypt(1) [OF this live_aead_ok draft_nonces ok refl] ring(1) that show ?thesis by blast
qed

theorem raw_query_disclosed_witness:
  "\<exists>e d2 u r. decrypt_raw_runtime_query draft_ke [2] [3] [70] (Some (lit ''rqv_'' @ [84])) (view_auditor 4)
      (raw_query_run draft_ke (view_db e) view_requests) = (d2, Inr u) \<and> dr_query_raw u = lit ''hi''
    \<and> r \<in> set (db_governed_requests (raw_query_run draft_ke (view_db e) view_requests))
    \<and> (\<exists>b. ga_decided_by r = Some b \<and> b \<noteq> ga_requested_by r)"
proof -
  obtain ring e where e: "load_raw_text_keyring live_variable = Inr ring" "keyring_decrypt live_aead ring e None = Inr (lit ''hi'')"
    by (rule view_encrypted)
  let ?d = "raw_query_run draft_ke (view_db e) view_requests"
  obtain d2 u where shown: "decrypt_raw_runtime_query draft_ke [2] [3] [70] (Some (lit ''rqv_'' @ [84])) (view_auditor 4) ?d = (d2, Inr u)"
    "dr_query_raw u = lit ''hi''"
    using view_answered [OF e, of ?d] view_run_state [of e] by blast
  show ?thesis using raw_query_disclosed [OF view_tables_empty refl shown(1)] shown by blast
qed

text \<open>The log of the run, redacted before it was shown.\<close>

theorem redacted_query_gone_witness:
  "\<exists>e d1 q. apply_runtime_raw_query_redaction (ke_admin draft_ke) [2] [[3]] [9] [70] (view_db e) = Inr (d1, 1)
    \<and> get_runtime_log_for_decrypt (raw_query_run draft_ke d1 view_requests) [2] [3] = Some q \<and> rl_query_raw q = null_text
    \<and> rl_query_masked q = Some [65]"
proof -
  obtain e :: encrypted_text where "e = e" by blast
  let ?d = "view_db e"
  have log: "get_runtime_log_for_decrypt ?d [2] [3] = Some (view_log e)" "rl_raw_query_deleted_at (view_log e) = None"
    "distinct (map rl_trace_id (db_runtime_logs ?d))"
    by (simp_all add: get_runtime_log_for_decrypt_def view_tables first_row_def view_log_def)
  have "redactable [2] [[3]] (view_log e)" by (simp add: redactable_def view_log_def has_raw_query_def stored_text_def null_text_def)
  then have "\<exists>d1. apply_runtime_raw_query_redaction (ke_admin draft_ke) [2] [[3]] [9] [70] ?d = Inr (d1, 1)"
    by (simp add: apply_runtime_raw_query_redaction_def redact_runtime_raw_query_trace_ids_def view_tables Let_def
        redaction_audit_def audit_entry_def insert_audit_log_def insert_row_def unhandled_def view_log_def)
  then obtain d1 where d1: "apply_runtime_raw_query_redaction (ke_admin draft_ke) [2] [[3]] [9] [70] ?d = Inr (d1, 1)" by blast
  show ?thesis
    using redacted_query_gone [OF governed_inv_empty [OF view_tables_empty] log(3,1,2) _ d1 refl, of draft_ke view_requests] d1
    by (auto simp: view_log_def)
qed

end
