(* ===== verification/Publish_Safety.thy ===== *)
theory Publish_Safety
  imports Release_Handlers Raw_Query_Safety
begin

text \<open>
  The way into production through the handlers: what a publish request activates was approved by a second person and
  passed its gate, a request activates once, and the list of candidates agrees with what creation accepts.
\<close>

section \<open>The requests\<close>

datatype 'x publish_action =
    New_Policy str policy_version_create_request
  | Run_Tests "'x test_environment" str str str test_run_request
  | New_Release "'x catalog_env" str release_create_request
  | Activate str str
  | Roll_Back str str
  | Request_Publish str publish_request_create_request
  | Approve_Publish str str "str option"
  | Reject_Publish str str "str option"
  | Activate_Publish str str

record 'x publish_event =
  pe_env :: admin_env
  pe_context :: admin_context
  pe_action :: "'x publish_action"

definition publish_step :: "'x publish_event \<Rightarrow> db \<Rightarrow> db" where
  "publish_step ev d =
     (let en = pe_env ev; cx = pe_context ev in
      case pe_action ev of
        New_Policy s q \<Rightarrow> committed d (create_policy_version_handler en s q cx d)
      | Run_Tests te s p c rq \<Rightarrow> committed d (create_test_run_handler te s p c rq cx d)
      | New_Release cn s q \<Rightarrow> committed d (create_release_handler en cn s q cx d)
      | Activate s v \<Rightarrow> committed d (activate_release_handler en s v cx d)
      | Roll_Back s v \<Rightarrow> committed d (rollback_release_handler en s v cx d)
      | Request_Publish s q \<Rightarrow> committed d (create_publish_request en s q cx d)
      | Approve_Publish s i why \<Rightarrow> committed d (approve_publish_request en s i why cx d)
      | Reject_Publish s i why \<Rightarrow> committed d (reject_publish_request en s i why cx d)
      | Activate_Publish s i \<Rightarrow> committed d (activate_publish_request en s i cx d))"

definition publish_run :: "db \<Rightarrow> 'x publish_event list \<Rightarrow> db" where
  "publish_run d evs = fold publish_step evs d"

section \<open>What holds of every database\<close>

text \<open>The releases, and the governed requests, each with their own invariant, and one request that was activated.\<close>

definition publish_inv :: "db \<Rightarrow> bool" where
  "publish_inv d \<longleftrightarrow> releases_inv d \<and> governed_inv d"

definition activated :: "str \<Rightarrow> db \<Rightarrow> bool" where
  "activated i d \<longleftrightarrow> (\<exists>r. get_governed_action_request d i = Some r \<and> ga_status r = lit ''activated'')"

text \<open>What a step keeps: the invariant, and every activated request.\<close>

definition publish_keeps :: "db \<Rightarrow> db \<Rightarrow> bool" where
  "publish_keeps d d' \<longleftrightarrow> publish_inv d' \<and> (\<forall>i. activated i d \<longrightarrow> activated i d')"

lemma publish_keeps_refl: "publish_inv d \<Longrightarrow> publish_keeps d d"
  by (simp add: publish_keeps_def)

lemma publish_keeps_trans: "publish_keeps d1 d2 \<Longrightarrow> publish_keeps d2 d3 \<Longrightarrow> publish_keeps d1 d3"
  by (simp add: publish_keeps_def)

lemma publish_keeps_other:
  assumes "publish_inv d" and "releases_inv d'" and "db_governed_requests d' = db_governed_requests d"
    and "db_view_tokens d' = db_view_tokens d"
  shows "publish_keeps d d'"
  using assms governed_inv_cong [of d d'] by (simp add: publish_keeps_def publish_inv_def activated_def get_governed_action_request_def)

lemma publish_keeps_governed:
  assumes "publish_inv d" and "governed_inv d'" and "db_releases d' = db_releases d" and "db_test_runs d' = db_test_runs d"
    and "db_test_results d' = db_test_results d" and "\<And>i. activated i d \<Longrightarrow> activated i d'"
  shows "publish_keeps d d'"
  using assms releases_inv_frame [of d' d] by (simp add: publish_keeps_def publish_inv_def)

lemma audited_keeps:
  assumes "audit_entry en k t a s tr ty ti vr ip b af now d = Inr d'" and "publish_inv d"
  shows "publish_keeps d d'"
proof (rule publish_keeps_other [OF assms(2)])
  from assms(1) obtain e where "d' = d\<lparr>db_audit_logs := db_audit_logs d @ [e]\<rparr>" by (rule audited)
  then show "releases_inv d'" "db_governed_requests d' = db_governed_requests d" "db_view_tokens d' = db_view_tokens d"
    using assms(2) releases_inv_frame [of d' d] by (simp_all add: publish_inv_def)
qed

text \<open>A decision is only made on a pending request, and a new request has a new identifier.\<close>

lemma put_keeps_activated:
  assumes "activated i d" and "r \<in> set (db_governed_requests d)" and "governed_inv d" and "ga_status r \<noteq> lit ''activated''"
    and "ga_request_id r' = ga_request_id r"
  shows "activated i (put_request r' d)"
proof -
  obtain q where q: "get_governed_action_request d i = Some q" "ga_status q = lit ''activated''"
    using assms(1) by (auto simp: activated_def)
  have "ga_request_id r \<noteq> i"
    using get_request_in [OF q(1)] distinct_key [OF governed_invD(1) [OF assms(3)] assms(2), of q] q(2) assms(4) by auto
  then have "get_governed_action_request (put_request r' d) i = Some q"
    using q(1) assms(5) unfolding get_governed_action_request_def put_request_def by (simp add: first_row_put_row)
  then show ?thesis using q(2) by (auto simp: activated_def)
qed

lemma create_request_keeps:
  assumes "create_governed_action_request d (pending_request i s t x a who now why) = Inr (d', r)" and "publish_inv d"
  shows "publish_keeps d d'"
proof (rule publish_keeps_governed [OF assms(2)])
  show "governed_inv d'"
    using create_request_inv [OF _ assms(1) pending_status] assms(2) by (simp add: publish_inv_def)
  show "activated j d'" if "activated j d" for j
    using that assms(1) by (auto simp: activated_def create_governed_action_request_def raise_simps get_governed_action_request_def
      first_row_append)
qed (use assms(1) in \<open>auto simp: create_governed_action_request_def raise_simps\<close>)

lemma decision_keeps:
  assumes "publish_inv d" and "get_governed_action_request d i = Some r" and "ga_status r = lit ''pending''"
    and "d' = put_request r' d" and "ga_request_id r' = ga_request_id r" and "governed_inv d'"
  shows "publish_keeps d d'"
proof (rule publish_keeps_governed [OF assms(1,6)])
  have "r \<in> set (db_governed_requests d)" using get_request_in [OF assms(2)] by blast
  moreover have "ga_status r \<noteq> lit ''activated''" using assms(3) by (simp add: lit_def)
  moreover have "governed_inv d" using assms(1) by (simp add: publish_inv_def)
  ultimately show "activated j d'" if "activated j d" for j
    using put_keeps_activated [OF that] assms(4,5) by simp
qed (use assms(4) in \<open>simp_all add: put_request_def\<close>)

lemma approve_request_keeps:
  assumes "approve_governed_action_request d r who now why = Inr (d', r')" and "get_governed_action_request d i = Some r"
    and "publish_inv d"
  shows "publish_keeps d d'"
proof (rule decision_keeps [OF assms(3,2), where r' = r'])
  show "governed_inv d'"
    using approve_inv [OF _ _ assms(1)] get_request_in [OF assms(2)] assms(3) by (simp add: publish_inv_def)
qed (use assms(1) in \<open>auto simp: approve_governed_action_request_def require_pending_governed_request_def raise_simps Let_def\<close>)

lemma reject_request_keeps:
  assumes "reject_governed_action_request d r who now why = Inr (d', r')" and "get_governed_action_request d i = Some r"
    and "publish_inv d"
  shows "publish_keeps d d'"
proof (rule decision_keeps [OF assms(3,2), where r' = r'])
  show "governed_inv d'"
    using reject_inv [OF _ _ assms(1)] get_request_in [OF assms(2)] assms(3) by (simp add: publish_inv_def)
qed (use assms(1) in \<open>auto simp: reject_governed_action_request_def require_pending_governed_request_def raise_simps Let_def\<close>)

section \<open>Every handler\<close>

lemma publish_audit_keeps:
  assumes "publish_audit en t cx s i why b af now d = Inr d'" and "publish_inv d"
  shows "publish_keeps d d'"
  using audited_keeps [OF assms(1) [unfolded publish_audit_def] assms(2)] .

lemma releases_keeps:
  assumes "publish_inv d" and "releases_inv d'" and "d' = d\<lparr>db_releases := rs\<rparr>"
  shows "publish_keeps d d'"
  using assms by (intro publish_keeps_other) simp_all

lemma publish_keepsD: "publish_keeps d d' \<Longrightarrow> publish_inv d'"
  by (simp add: publish_keeps_def)

text \<open>An operation followed by its audit entry.\<close>

lemma then_audited:
  assumes "publish_keeps d d1" and "audit_entry en k t a s tr ty ti vr ip b af now d1 = Inr d2"
  shows "publish_keeps d d2"
  using publish_keeps_trans [OF assms(1) audited_keeps [OF assms(2) publish_keepsD [OF assms(1)]]] .

lemma publish_or_404: "publish_request_or_404 d s i = Inr r \<longleftrightarrow> get_governed_action_request d i = Some r \<and> ga_service_id r = s
    \<and> ga_resource_type r \<in> {lit ''intent'', lit ''example'', lit ''release''}"
  by (auto simp: publish_request_or_404_def raise_simps)

lemma new_policy_keeps:
  assumes "create_policy_version_handler en s q cx d = Inr (d', r)" and "publish_inv d"
  shows "publish_keeps d d'"
proof -
  obtain d1 p now where 1: "create_policy_version d p = Inr (d1, r)"
    and 2: "audit_entry en 0 ''policy_version.created'' (cx_actor_id cx) (Some s) None ''policy_version''
       (pv_policy_version r) None None None (Some (policy_version_state en r (pq_off_topic_policy q))) now d1 = Inr d'"
    using assms(1) unfolding create_policy_version_handler_def Let_def
    by (elim bindE_elim) (auto simp: raise_simps except_integrity_def)
  have "publish_keeps d d1"
  proof (rule publish_keeps_other [OF assms(2)])
    show "releases_inv d1" using 1 assms(2) releases_inv_frame [of d1 d]
      by (auto simp: create_policy_version_def raise_simps publish_inv_def)
  qed (use 1 in \<open>auto simp: create_policy_version_def raise_simps\<close>)
  then show ?thesis using 2 by (rule then_audited)
qed

lemma run_tests_keeps:
  assumes "create_test_run_handler te s p c rq cx d = Inr (d', u)" and "publish_inv d"
  shows "publish_keeps d d'"
proof -
  obtain service policy catalog where run: "run_csv_tests te d service policy catalog (rq\<lparr>trq_created_by := cx_actor_id cx\<rparr>) = Inr (d', u)"
    using assms(1) by (auto simp: create_test_run_handler_def raise_simps)
  obtain t cs d1 t' r results r' where 1: "create_test_dataset d t cs = Inr (d1, t')"
    and 2: "create_test_run_with_results d1 r results = Inr (d', r')"
    by (rule run_csv_tests_Inr [OF run])
  have inv: "releases_inv d1"
    using create_test_dataset_frame [OF 1] releases_inv_frame [of d1 d] assms(2) by (simp add: publish_inv_def)
  have other: "db_governed_requests d1 = db_governed_requests d" "db_view_tokens d1 = db_view_tokens d"
    using 1 by (auto simp: create_test_dataset_def raise_simps)
  have "db_governed_requests d' = db_governed_requests d1" "db_view_tokens d' = db_view_tokens d1"
    using 2 by (auto simp: create_test_run_with_results_def raise_simps)
  then show ?thesis using publish_keeps_other [OF assms(2) record_run_inv [OF inv 2]] other by simp
qed

lemma new_release_keeps:
  assumes "create_release_handler en cn s q cx d = Inr (d', r)" and "publish_inv d"
  shows "publish_keeps d d'"
proof -
  obtain m now d1 t where 1: "create_release (en_collate en) d s (strip (lq_environment q)) (lq_policy_version q)
      (lq_intent_catalog_version q) m (lq_test_run_id q) (lq_rollback_target q) (cx_actor_id cx) now = Inr (d1, r)"
    and 2: "audit_entry en 0 ''release.created'' (cx_actor_id cx) (Some s) None ''release'' (rel_release_version r)
       None None None (Some (release_after_state r)) now d1 = Inr d'"
    using assms(1) unfolding create_release_handler_def Let_def by (elim bindE_elim) (auto simp: raise_simps)
  have "releases_inv d1" using create_release_inv [OF _ 1] assms(2) by (simp add: publish_inv_def)
  moreover have "\<exists>rs. d1 = d\<lparr>db_releases := rs\<rparr>"
    using 1 by (auto simp: create_release_def raise_simps Let_def insert_release_def split: if_splits)
  ultimately have "publish_keeps d d1" using releases_keeps [OF assms(2)] by blast
  then show ?thesis using 2 by (rule then_audited)
qed

lemma switch_only: "set_active_release d s e v = Inr d' \<Longrightarrow> \<exists>rs. d' = d\<lparr>db_releases := rs\<rparr>"
  by (auto simp: set_active_release_def Let_def raise_simps split: option.splits)

lemma activate_changes: "activate_release d s v = Inr (d', b, r) \<Longrightarrow> \<exists>rs. d' = d\<lparr>db_releases := rs\<rparr>"
  by (auto simp: activate_release_def raise_simps dest!: switch_only)

lemma rollback_changes: "rollback_release d s v = Inr (d', q, b, r) \<Longrightarrow> \<exists>rs. d' = d\<lparr>db_releases := rs\<rparr>"
  by (auto simp: rollback_release_def raise_simps dest!: switch_only)

lemma activate_only:
  assumes "activate_release d s v = Inr (d', b, r)" and "publish_inv d"
  shows "publish_keeps d d'"
proof -
  obtain rs where "d' = d\<lparr>db_releases := rs\<rparr>"
    using activate_changes [OF assms(1)] by blast
  moreover have "releases_inv d'" using activate_release_inv [OF _ assms(1)] assms(2) by (simp add: publish_inv_def)
  ultimately show ?thesis using releases_keeps [OF assms(2)] by blast
qed

lemma rollback_only:
  assumes "rollback_release d s v = Inr (d', q, b, r)" and "publish_inv d"
  shows "publish_keeps d d'"
proof -
  obtain rs where "d' = d\<lparr>db_releases := rs\<rparr>"
    using rollback_changes [OF assms(1)] by blast
  moreover have "releases_inv d'" using rollback_release_inv [OF _ assms(1)] assms(2) by (simp add: publish_inv_def)
  ultimately show ?thesis using releases_keeps [OF assms(2)] by blast
qed

lemma switch_keeps:
  assumes "publish_inv d"
  shows "activate_release_handler en s v cx d = Inr (d1, r) \<Longrightarrow> publish_keeps d d1"
    and "rollback_release_handler en s v cx d = Inr (d2, r) \<Longrightarrow> publish_keeps d d2"
  by (auto simp: activate_release_handler_def rollback_release_handler_def raise_simps
    intro: then_audited [OF activate_only [OF _ assms]] then_audited [OF rollback_only [OF _ assms]])

lemma request_publish_keeps:
  assumes "create_publish_request en s q cx d = Inr (d', r)" and "publish_inv d"
  shows "publish_keeps d d'"
  using assms(1) unfolding create_publish_request_def Let_def
  by (elim bindE_elim) (auto simp: raise_simps unhandled_def publish_audit_def
    intro: then_audited [OF create_request_keeps [OF _ assms(2)]])

lemma decide_publish_keeps:
  assumes "publish_inv d"
  shows "approve_publish_request en s i why cx d = Inr (d1, r) \<Longrightarrow> publish_keeps d d1"
    and "reject_publish_request en s i why cx d = Inr (d2, r) \<Longrightarrow> publish_keeps d d2"
  by (auto simp: approve_publish_request_def reject_publish_request_def Let_def raise_simps publish_or_404 publish_audit_def
    intro: then_audited [OF approve_request_keeps [OF _ _ assms]] then_audited [OF reject_request_keeps [OF _ _ assms]])

text \<open>An activation through a publish request: the request was approved, the release is switched on, the request is used up.\<close>

lemma activate_publishE:
  assumes "activate_publish_request en s i cx d = Inr (d', r)"
  obtains q d1 b a where "get_governed_action_request d i = Some q" "ga_service_id q = s" "ga_resource_type q = lit ''release''"
    "ga_action q = lit ''activate''" "ga_status q = lit ''approved''" "activate_release d s (ga_resource_id q) = Inr (d1, b, r)"
    "d' = (put_request (q\<lparr>ga_status := lit ''activated''\<rparr>) d1)\<lparr>db_audit_logs := db_audit_logs d @ [a]\<rparr>"
    "al_event_type a = lit ''release.activated''" "al_actor_id a = cx_actor_id cx" "al_service_id a = Some s"
proof -
  obtain q d1 b where q: "get_governed_action_request d i = Some q" "ga_service_id q = s" "ga_resource_type q = lit ''release''"
    "ga_action q = lit ''activate''" "ga_status q = lit ''approved''" "activate_release d s (ga_resource_id q) = Inr (d1, b, r)"
    and audit: "audit_entry en 0 ''release.activated'' (cx_actor_id cx) (Some s) None ''release''
       (rel_release_version r) (safe_phase2_audit_reason (Some (ga_reason q))) (en_source_ip en)
       (Some b) (Some (release_after_state r)) (en_clock en 0) (put_request (q\<lparr>ga_status := lit ''activated''\<rparr>) d1) = Inr d'"
    using assms unfolding activate_publish_request_def Let_def by (elim bindE_elim) (auto simp: raise_simps publish_or_404)
  obtain rs where d1: "d1 = d\<lparr>db_releases := rs\<rparr>"
    using activate_changes [OF q(6)] by blast
  from audit obtain a where "d' = (put_request (q\<lparr>ga_status := lit ''activated''\<rparr>) d1)\<lparr>db_audit_logs :=
      db_audit_logs (put_request (q\<lparr>ga_status := lit ''activated''\<rparr>) d1) @ [a]\<rparr>"
    "al_event_type a = lit ''release.activated''" "al_actor_id a = cx_actor_id cx" "al_service_id a = Some s"
    by (rule audited)
  then show ?thesis using q d1 by (intro that [of q d1 b a]) (simp_all add: put_request_def)
qed

lemma activate_publish_keeps:
  assumes "activate_publish_request en s i cx d = Inr (d', r)" and "publish_inv d"
  shows "publish_keeps d d' \<and> activated i d'"
proof (rule activate_publishE [OF assms(1)])
  fix q :: governed_action_request and d1 b a
  let ?q = "q\<lparr>ga_status := lit ''activated''\<rparr>"
  assume q: "get_governed_action_request d i = Some q" "ga_resource_type q = lit ''release''" "ga_action q = lit ''activate''"
    "ga_status q = lit ''approved''" "activate_release d s (ga_resource_id q) = Inr (d1, b, r)"
    and d': "d' = (put_request ?q d1)\<lparr>db_audit_logs := db_audit_logs d @ [a]\<rparr>"
  obtain rs where d1: "d1 = d\<lparr>db_releases := rs\<rparr>"
    using activate_changes [OF q(5)] by blast
  have k1: "publish_keeps d d1" using activate_only [OF q(5) assms(2)] .
  then have inv1: "publish_inv d1" by (rule publish_keepsD)
  have in1: "q \<in> set (db_governed_requests d1)" "ga_request_id q = i" using get_request_in [OF q(1)] d1 by simp_all
  have "governed_inv (activate_governed_request q d1)" using activate_inv [OF _ in1(1)] inv1 by (simp add: publish_inv_def)
  then have gov: "governed_inv d'"
    using q(2-4) governed_inv_cong [of "put_request ?q d1" d'] by (simp add: activate_governed_request_def d')
  have other: "ga_status q \<noteq> lit ''activated''" using q(4) by (simp add: lit_def)
  have "publish_keeps d1 d'"
  proof (rule publish_keeps_governed [OF inv1 gov])
    show "activated j d'" if "activated j d1" for j
      using put_keeps_activated [OF that in1(1) _ other, of ?q] inv1
      by (simp add: d' publish_inv_def activated_def get_governed_action_request_def)
  qed (simp_all add: d' put_request_def)
  moreover have "activated i d'"
    using in1 q(1) d1 unfolding d' activated_def get_governed_action_request_def put_request_def
    by (simp add: first_row_put_row)
  ultimately show ?thesis using publish_keeps_trans [OF k1] by blast
qed

lemma publish_step_keeps:
  assumes "publish_inv d"
  shows "publish_keeps d (publish_step ev d)"
proof -
  have c: "publish_keeps d (committed d m)" if "\<And>d' x. m = Inr (d', x) \<Longrightarrow> publish_keeps d d'" for m :: "(http_error, db \<times> 'b) outcome"
    using that publish_keeps_refl [OF assms] by (auto simp: committed_def split: sum.split)
  show ?thesis unfolding publish_step_def Let_def
    by (cases "pe_action ev") (auto intro!: c dest: new_policy_keeps [OF _ assms] run_tests_keeps [OF _ assms]
      new_release_keeps [OF _ assms] switch_keeps [OF assms] request_publish_keeps [OF _ assms] decide_publish_keeps [OF assms]
      activate_publish_keeps [OF _ assms])
qed

interpretation publishing: absorbing_machine "\<lambda>d ev. publish_step ev d" publish_inv "activated i" for i
  using publish_step_keeps by unfold_locales (auto simp: publish_keeps_def)

lemma publish_run_kept:
  assumes "publish_inv d"
  shows "publish_inv (publish_run d evs)" and "activated i d \<Longrightarrow> activated i (publish_run d evs)"
  using publishing.run_inv [OF assms, of evs] publishing.run_final [OF assms, of i evs] by (simp_all add: publish_run_def)

lemma activated_refused: "activated i d \<Longrightarrow> activate_publish_request en s i cx d \<noteq> Inr (d', r)"
  by (auto simp: activated_def lit_def elim: activate_publishE)

section \<open>Publishing takes two\<close>

text \<open>
  C12: When a publish request activates a release, whatever requests came before, somebody other than its author has
  approved exactly this release; the release is then the one that is active in its environment, its test run passed the
  gate, the activation is the newest entry of the audit log, and the request never activates anything again.
\<close>

theorem published_release_approved:
  fixes evs :: "'x publish_event list"
  assumes "releases_inv d" and "db_governed_requests d = []" and "db_view_tokens d = []" and "d1 = publish_run d evs"
    and "activate_publish_request en s i cx d1 = Inr (d2, r)"
  shows "(\<exists>q run a. q \<in> set (db_governed_requests d1) \<and> ga_request_id q = i \<and> ga_service_id q = s
      \<and> ga_resource_type q = lit ''release'' \<and> ga_resource_id q = rel_release_version r
      \<and> (\<exists>b. ga_decided_by q = Some b \<and> b \<noteq> ga_requested_by q)
      \<and> get_active_release d2 s (rel_environment r) = Some r
      \<and> run \<in> set (db_test_runs d2) \<and> tr_test_run_id run = rel_test_run_id r \<and> tr_gate_passed run
      \<and> db_audit_logs d2 = db_audit_logs d1 @ [a] \<and> al_event_type a = lit ''release.activated'' \<and> al_actor_id a = cx_actor_id cx)
    \<and> (\<forall>(evs' :: 'x publish_event list) en' s' cx' d3 r'.
        activate_publish_request en' s' i cx' (publish_run d2 evs') \<noteq> Inr (d3, r'))"
proof -
  have inv0: "publish_inv d" using assms(1) governed_inv_empty [OF assms(2,3)] by (simp add: publish_inv_def)
  have inv: "publish_inv d1" unfolding assms(4) by (rule publish_run_kept(1) [OF inv0])
  note k = activate_publish_keeps [OF assms(5) inv]
  obtain q d' b a where q: "get_governed_action_request d1 i = Some q" "ga_service_id q = s"
    "ga_resource_type q = lit ''release''" "ga_status q = lit ''approved''"
    "activate_release d1 s (ga_resource_id q) = Inr (d', b, r)"
    "d2 = (put_request (q\<lparr>ga_status := lit ''activated''\<rparr>) d')\<lparr>db_audit_logs := db_audit_logs d1 @ [a]\<rparr>"
    "al_event_type a = lit ''release.activated''" "al_actor_id a = cx_actor_id cx"
    by (rule activate_publishE [OF assms(5)])
  have rinv: "releases_inv d1" "governed_inv d1" using inv by (simp_all add: publish_inv_def)
  obtain r0 where r0: "get_release d1 s (ga_resource_id q) = Some r0" "r = r0\<lparr>rel_active := True\<rparr>"
    "d' = d1\<lparr>db_releases := map (switch_to r0) (db_releases d1)\<rparr>"
    using q(5) activate_release_Inr [OF releases_invD(1) [OF rinv(1)]] by blast
  note r0_in = get_release_in [OF r0(1)]
  have active: "get_active_release d2 s (rel_environment r) = Some r"
    using get_active_switch [OF rinv(1), of r0] r0_in r0(2,3) q(6) by (simp add: get_active_release_def put_request_def)
  then have "r \<in> set (db_releases d2)" by (auto dest: get_active_release_Some)
  moreover have "releases_inv d2" using publish_keepsD k by (auto simp: publish_inv_def)
  ultimately obtain run where "run \<in> set (db_test_runs d2)" "tr_test_run_id run = rel_test_run_id r" "tr_gate_passed run"
    using releases_invD(4) [of d2 r] by (auto simp: release_evidence_def)
  moreover have "q \<in> set (db_governed_requests d1)" "ga_request_id q = i" using get_request_in [OF q(1)] by auto
  moreover have "seconded q" using governed_invD(5) [OF rinv(2) calculation(4)] q(4) by (simp add: lit_def)
  moreover have "ga_resource_id q = rel_release_version r" using r0_in r0(2) by simp
  moreover have "db_audit_logs d2 = db_audit_logs d1 @ [a]" by (simp add: q(6))
  moreover have "activated i (publish_run d2 evs')" for evs' :: "'x publish_event list"
    using publish_run_kept(2) [of d2 i] k by (auto simp: publish_keeps_def)
  ultimately show ?thesis using q(2,3,7,8) active activated_refused by (fastforce simp: seconded_def)
qed

section \<open>Candidates\<close>

text \<open>What can still go wrong with a run that is eligible: the other things a release is made of.\<close>

fun other_release_error :: "release_error \<Rightarrow> bool" where
  "other_release_error Policy_Missing = True"
| "other_release_error Catalog_Missing = True"
| "other_release_error Catalog_Inactive = True"
| "other_release_error Rollback_Target_Missing = True"
| "other_release_error No_Ready_Index = True"
| "other_release_error Model_Mismatch = True"
| "other_release_error Index_Mismatch = True"
| "other_release_error (Release_Store _) = True"
| "other_release_error _ = False"

lemma first_row_key:
  assumes "distinct (map key rows)" and "r \<in> set rows"
  shows "first_row (\<lambda>q. key q = key r) rows = Some r"
proof (cases "first_row (\<lambda>q. key q = key r) rows")
  case (Some q)
  then show ?thesis using first_row_Some [OF Some] distinct_key [OF assms(1) _ assms(2)] by blast
qed (use assms(2) in \<open>auto simp: first_row_None\<close>)

lemma candidate_lookup:
  "map_of (dict_of (map (\<lambda>r. (rel_test_run_id r, r)) (list_releases collate d s (Some e)))) i = None
    \<longleftrightarrow> get_release_for_test_run_environment d s e i = None"
  by (auto simp: dict_simps map_of_eq_None_iff list_releases_def optional_filter_def get_release_for_test_run_environment_def
    first_row_None image_iff rev_map [symmetric])

text \<open>
  C13: The list of release candidates agrees with the creation of releases: a test run that is not eligible cannot be
  released in the environment whatever is asked for, and when an eligible one is refused with its own policy and catalog
  version, the reason is none of its gate, its risk cases or an earlier release.
\<close>

theorem candidates_agree:
  assumes "list_release_candidates en s environment limit cx d = Inr cs" and "c \<in> set cs"
    and "distinct (map tr_test_run_id (db_test_runs d))"
  shows "(\<not> ca_eligible c \<longrightarrow> (\<forall>policy catalog model target who now d' r. create_release (en_collate en) d s (ca_environment c)
        policy catalog model (tr_test_run_id (ca_run c)) target who now \<noteq> Inr (d', r)))
    \<and> (ca_eligible c \<longrightarrow> (\<forall>model target who now e. create_release (en_collate en) d s (ca_environment c)
        (tr_policy_version (ca_run c)) (tr_intent_catalog_version (ca_run c)) model (tr_test_run_id (ca_run c)) target who now
        = Inl e \<longrightarrow> other_release_error e))"
proof -
  obtain e where e: "e \<in> set supported_runtime_environments" and cs: "cs = map (release_candidate_of (en_collate en) d e
      (dict_of (map (\<lambda>r. (rel_test_run_id r, r)) (list_releases (en_collate en) d s (Some e)))))
      (list_test_runs (en_collate en) d s None None limit)"
    using assms(1) by (auto simp: list_release_candidates_def raise_simps runtime_setup_environment_def Let_def)
  obtain run dataset where run: "(run, dataset) \<in> set (list_test_runs (en_collate en) d s None None limit)"
    and c: "c = release_candidate_of (en_collate en) d e
      (dict_of (map (\<lambda>r. (rel_test_run_id r, r)) (list_releases (en_collate en) d s (Some e)))) (run, dataset)"
    using assms(2) cs by auto
  have stored: "run \<in> set (db_test_runs d)" and service: "tr_service_id run = s"
    using run by (auto simp: list_test_runs_def optional_filter_def List.map_filter_def dest!: in_set_takeD)
  have found: "get_test_run d (tr_test_run_id run) = Some run"
    unfolding get_test_run_def by (rule first_row_key [OF assms(3) stored])
  let ?results = "list_test_results (en_collate en) d (tr_test_run_id run)"
  let ?risk = "filter (\<lambda>r. ts_case_type r = lit ''risk'') ?results"
  have fields: "ca_run c = run" "ca_environment c = e" by (simp_all add: c release_candidate_of_def Let_def)
  have eligible: "ca_eligible c \<longleftrightarrow> tr_gate_passed run \<and> ?risk \<noteq> [] \<and> \<not> list_ex (\<lambda>r. ts_result r \<noteq> lit ''PASS'') ?risk
      \<and> get_release_for_test_run_environment d s e (tr_test_run_id run) = None"
    by (auto simp: c release_candidate_of_def Let_def candidate_lookup list_all_iff list_ex_iff)
  show ?thesis
    unfolding fields eligible create_release_def validate_release_inputs_def Let_def
    using found service e by (auto simp: raise_simps split: option.splits)
qed

section \<open>A release is published\<close>

definition publish_db :: db where
  "publish_db = (release_run length sample_db sample_events)\<lparr>db_services := [sample_service],
     db_test_datasets := [\<lparr>td_test_dataset_version = [6], td_service_id = [2], td_source_filename = [],
       td_content_sha256 = [], td_created_by = [9], td_created_at = 0\<rparr>]\<rparr>"

definition published_version :: str where
  "published_version = sample_version 1"

definition publish_env :: "nat \<Rightarrow> admin_env" where
  "publish_env k = live_admin\<lparr>en_uuid := (\<lambda>_. [k]), en_uuid_hex := (\<lambda>_. [7])\<rparr>"

definition publisher :: "nat \<Rightarrow> admin_context" where
  "publisher k = \<lparr>cx_actor_id = [k], cx_roles = {}, cx_service_scope = {[2]}, cx_all_service_scopes = False,
     cx_service_roles = [([2], {lit ''service_owner''})]\<rparr>"

definition publish_requests :: "unit publish_event list" where
  "publish_requests =
     [\<lparr>pe_env = publish_env 10, pe_context = publisher 4, pe_action = Request_Publish [2]
        \<lparr>gq_resource_type = lit ''release'', gq_resource_id = published_version, gq_action = lit ''activate'',
         gq_target_version = None, gq_reason = [65]\<rparr>\<rparr>,
      \<lparr>pe_env = publish_env 20, pe_context = publisher 5,
        pe_action = Approve_Publish [2] (lit ''gar_'' @ [7]) None\<rparr>]"

lemma publish_tables: "db_services publish_db = [sample_service]" "db_governed_requests publish_db = []" "db_view_tokens publish_db = []"
  "db_audit_logs publish_db = []" "db_releases publish_db = [sample_release 1 [10] None False,
     sample_release 2 [11] (Some (sample_version 1)) True]" "db_test_runs publish_db = [sample_run [10], sample_run [11]]"
  unfolding publish_db_def sample_history by (simp_all add: sample_db_def empty_db_def)

lemma publish_db_inv: "releases_inv publish_db"
proof -
  have "releases_inv (release_run length sample_db sample_events)"
    by (rule release_run_inv [OF releases_inv_empty]) (simp_all add: sample_db_def empty_db_def)
  then show ?thesis using releases_inv_frame [of publish_db "release_run length sample_db sample_events"] by (simp add: publish_db_def)
qed

definition publish_request :: governed_action_request where
  "publish_request = pending_request (lit ''gar_'' @ [7]) [2] (lit ''release'') (published_version) (lit ''activate'') [4] 0 [65]"

definition approved_publish :: governed_action_request where
  "approved_publish = publish_request\<lparr>ga_status := lit ''approved'', ga_decided_by := Some [5], ga_decided_at := Some 0,
     ga_decision_reason := None\<rparr>"

lemma publish_request_fields [simp]: "ga_request_id publish_request = lit ''gar_'' @ [7]" "ga_service_id publish_request = [2]"
  "ga_resource_type publish_request = lit ''release''" "ga_resource_id publish_request = published_version"
  "ga_action publish_request = lit ''activate''" "ga_status publish_request = lit ''pending''" "ga_requested_by publish_request = [4]"
  "ga_request_id approved_publish = lit ''gar_'' @ [7]" "ga_service_id approved_publish = [2]"
  "ga_resource_type approved_publish = lit ''release''" "ga_resource_id approved_publish = published_version"
  "ga_action approved_publish = lit ''activate''" "ga_status approved_publish = lit ''approved''"
  by (simp_all add: publish_request_def approved_publish_def pending_request_def)

lemma publisher_access: "require_publish_request_access (publisher k) [2] = Inr ()" "require_publish_decision_access (publisher k) [2] = Inr ()"
  "require_publish_activation_access (publisher k) [2] = Inr ()" "cx_actor_id (publisher k) = [k]"
  by (simp_all add: require_publish_request_access_def require_publish_decision_access_def require_publish_activation_access_def
      require_release_management_access_def service_guard_def has_any_service_role_def has_service_role_def roles_for_def publisher_def
      has_role_def service_release_write_roles_def)

lemma publish_env: "en_clock (publish_env k) 0 = 0" "en_uuid_hex (publish_env k) 0 = [7]" "en_uuid (publish_env k) 0 = [k]"
  by (simp_all add: publish_env_def live_admin_def)

lemma publish_asked:
  "\<exists>a u. create_publish_request (publish_env 10) [2] \<lparr>gq_resource_type = lit ''release'', gq_resource_id = published_version,
      gq_action = lit ''activate'', gq_target_version = None, gq_reason = [65]\<rparr> (publisher 4) publish_db
    = Inr (publish_db\<lparr>db_governed_requests := [publish_request], db_audit_logs := [a]\<rparr>, u) \<and> al_audit_id a = [10]"
proof -
  have service: "ensure_service_exists publish_db [2] = Inr sample_service"
    by (simp add: ensure_service_exists_def get_service_def publish_tables first_row_def sample_service_def)
  have release: "get_release publish_db [2] (published_version) = Some (sample_release 1 [10] None False)"
    by (simp add: get_release_def publish_tables first_row_def sample_release_def published_version_def)
  have created: "create_governed_action_request publish_db publish_request
      = Inr (publish_db\<lparr>db_governed_requests := [publish_request]\<rparr>, publish_request)"
  proof -
    have "require_nonblank_string (published_version) f = Inr (published_version)" for f
      by (simp add: require_nonblank_string_def blank_def strip_def lstrip_def rstrip_def is_space_def published_version_def sample_version_def
          release_prefix_def lit_def)
    then show ?thesis
      by (simp add: create_governed_action_request_def publish_tables insert_row_def require_allowed_value_def
          governed_resource_types_def governed_actions_def governed_request_statuses_def lit_def publish_request_def pending_request_def)
  qed
  have "\<exists>a. al_audit_id a = [10] \<and> publish_audit (publish_env 10) ''publish.requested'' (publisher 4) [2]
       (lit ''gar_'' @ [7]) (Some [65]) None (Some (publish_request_state (publish_env 10) publish_request)) 0
       (publish_db\<lparr>db_governed_requests := [publish_request]\<rparr>)
     = Inr (publish_db\<lparr>db_governed_requests := [publish_request], db_audit_logs := [a]\<rparr>)"
    using audit_written [of "publish_env 10" 0 "publish_db\<lparr>db_governed_requests := [publish_request]\<rparr>"]
    by (simp add: publish_tables publish_audit_def publish_env)
  then show ?thesis
    by (auto simp: create_publish_request_def Let_def publisher_access service release publish_env
        publish_request_def [symmetric] created unhandled_def)
qed

lemma publish_agreed:
  assumes "db_governed_requests d = [publish_request]" and "db_audit_logs d = [a]" and "al_audit_id a = [10]"
  shows "\<exists>a' u. approve_publish_request (publish_env 20) [2] (lit ''gar_'' @ [7]) None (publisher 5) d
    = Inr (d\<lparr>db_governed_requests := [approved_publish], db_audit_logs := [a, a']\<rparr>, u) \<and> al_audit_id a' = [20]"
proof -
  have found: "publish_request_or_404 d [2] (lit ''gar_'' @ [7]) = Inr publish_request"
    by (simp add: publish_or_404 get_governed_action_request_def first_row_def assms(1))
  have approved: "approve_governed_action_request d publish_request [5] 0 None
      = Inr (d\<lparr>db_governed_requests := [approved_publish]\<rparr>, approved_publish)"
    by (simp add: approve_governed_action_request_def require_pending_governed_request_def Let_def put_request_def put_row_def
        update_where_def assms(1) approved_publish_def)
  have "\<exists>a'. al_audit_id a' = [20] \<and> publish_audit (publish_env 20) ''publish.approved'' (publisher 5) [2]
       (lit ''gar_'' @ [7]) None (Some (publish_request_state (publish_env 20) publish_request))
       (Some (publish_request_state (publish_env 20) approved_publish)) 0 (d\<lparr>db_governed_requests := [approved_publish]\<rparr>)
     = Inr (d\<lparr>db_governed_requests := [approved_publish], db_audit_logs := [a, a']\<rparr>)"
    using audit_written [of "publish_env 20" 0 "d\<lparr>db_governed_requests := [approved_publish]\<rparr>"] assms
    by (simp add: publish_audit_def publish_env)
  then show ?thesis
    by (auto simp: approve_publish_request_def Let_def publisher_access found publish_env approved)
qed

lemma publish_activated:
  "\<exists>d2 r. activate_publish_request (publish_env 30) [2] (lit ''gar_'' @ [7]) (publisher 4) (publish_run publish_db publish_requests)
    = Inr (d2, r) \<and> rel_release_version r = published_version"
proof -
  obtain a u where 1: "create_publish_request (publish_env 10) [2] \<lparr>gq_resource_type = lit ''release'',
      gq_resource_id = published_version, gq_action = lit ''activate'', gq_target_version = None, gq_reason = [65]\<rparr> (publisher 4) publish_db
    = Inr (publish_db\<lparr>db_governed_requests := [publish_request], db_audit_logs := [a]\<rparr>, u)" "al_audit_id a = [10]"
    using publish_asked by blast
  define d1 where "d1 = publish_db\<lparr>db_governed_requests := [publish_request], db_audit_logs := [a]\<rparr>"
  obtain a' u' where 2: "approve_publish_request (publish_env 20) [2] (lit ''gar_'' @ [7]) None (publisher 5) d1
    = Inr (d1\<lparr>db_governed_requests := [approved_publish], db_audit_logs := [a, a']\<rparr>, u')" "al_audit_id a' = [20]"
    using publish_agreed [of d1 a] 1(2) by (auto simp: d1_def)
  define d2 where "d2 = d1\<lparr>db_governed_requests := [approved_publish], db_audit_logs := [a, a']\<rparr>"
  have run: "publish_run publish_db publish_requests = d2"
    by (simp add: publish_run_def publish_requests_def publish_step_def committed_def 1(1) d1_def [symmetric] 2(1) d2_def)
  have found: "publish_request_or_404 d2 [2] (lit ''gar_'' @ [7]) = Inr approved_publish"
    by (simp add: publish_or_404 get_governed_action_request_def first_row_def d2_def)
  have release: "get_release d2 [2] (published_version) = Some (sample_release 1 [10] None False)"
    by (simp add: get_release_def publish_tables first_row_def sample_release_def d2_def d1_def published_version_def)
  have "distinct (map rel_release_version (db_releases d2))" by (simp add: d2_def d1_def publish_tables sample_release_def)
  from activate_release_Inr [OF this] release obtain d3 b r where act: "activate_release d2 [2] (published_version) = Inr (d3, b, r)"
    and d3: "d3 = d2\<lparr>db_releases := map (switch_to (sample_release 1 [10] None False)) (db_releases d2)\<rparr>"
    and r: "r = (sample_release 1 [10] None False)\<lparr>rel_active := True\<rparr>" by blast
  have "en_uuid (publish_env 30) 0 \<notin> al_audit_id ` set (db_audit_logs (put_request (approved_publish\<lparr>ga_status := lit ''activated''\<rparr>) d3))"
    by (simp add: d3 d2_def put_request_def 1(2) 2(2) publish_env)
  from audit_written [OF this] have "\<exists>d4. audit_entry (publish_env 30) 0 ''release.activated'' (cx_actor_id (publisher 4)) (Some [2]) None
      ''release'' (rel_release_version r) (safe_phase2_audit_reason (Some (ga_reason approved_publish))) (en_source_ip (publish_env 30))
      (Some b) (Some (release_after_state r)) (en_clock (publish_env 30) 0)
      (put_request (approved_publish\<lparr>ga_status := lit ''activated''\<rparr>) d3) = Inr d4" by blast
  then show ?thesis
    by (auto simp: run activate_publish_request_def Let_def publisher_access(3) found act) (simp add: r sample_release_def published_version_def)
qed

theorem published_release_approved_witness:
  "\<exists>d2 r q b. activate_publish_request (publish_env 30) [2] (lit ''gar_'' @ [7]) (publisher 4)
      (publish_run publish_db publish_requests) = Inr (d2, r)
    \<and> q \<in> set (db_governed_requests (publish_run publish_db publish_requests)) \<and> ga_resource_id q = rel_release_version r
    \<and> ga_decided_by q = Some b \<and> b \<noteq> ga_requested_by q \<and> get_active_release d2 [2] (rel_environment r) = Some r"
proof -
  obtain d2 r where act: "activate_publish_request (publish_env 30) [2] (lit ''gar_'' @ [7]) (publisher 4)
      (publish_run publish_db publish_requests) = Inr (d2, r)" using publish_activated by blast
  show ?thesis
    using published_release_approved [OF publish_db_inv publish_tables(2,3) refl act] act by blast
qed

text \<open>The first test run of the history is released in \<open>dev\<close> already.\<close>

theorem candidates_agree_witness:
  "\<exists>cs c. list_release_candidates live_admin [2] (Some (lit ''dev'')) 50 (publisher 4) publish_db = Inr cs \<and> c \<in> set cs
    \<and> \<not> ca_eligible c \<and> (\<forall>d' r. create_release (en_collate live_admin) publish_db [2] (ca_environment c) [3] [4] [5]
        (tr_test_run_id (ca_run c)) None [9] 0 \<noteq> Inr (d', r))"
proof -
  let ?collate = "en_collate live_admin"
  let ?f = "release_candidate_of ?collate publish_db (lit ''dev'')
    (dict_of (map (\<lambda>r. (rel_test_run_id r, r)) (list_releases ?collate publish_db [2] (Some (lit ''dev'')))))"
  let ?rows = "list_test_runs ?collate publish_db [2] None None 50"
  have service: "ensure_service_exists publish_db [2] = Inr sample_service"
    by (simp add: ensure_service_exists_def get_service_def publish_tables first_row_def sample_service_def)
  have access: "require_release_review_access (publisher 4) [2] = Inr ()"
    by (simp add: require_release_review_access_def service_guard_def has_any_service_role_def roles_for_def publisher_def)
  have "or_default (Some (lit ''dev'')) (lit ''dev'') = lit ''dev''" by (simp add: or_default_def lit_def)
  then have env: "runtime_setup_environment (Some (lit ''dev'')) = Inr (lit ''dev'')"
    by (simp add: runtime_setup_environment_def supported_runtime_environments_def Let_def)
  have listed: "list_release_candidates live_admin [2] (Some (lit ''dev'')) 50 (publisher 4) publish_db = Inr (map ?f ?rows)"
    by (simp add: list_release_candidates_def access service env Let_def)
  have rows: "\<exists>t. (sample_run [10], t) \<in> set ?rows"
    by (simp add: list_test_runs_def optional_filter_def publish_tables List.map_filter_def order_by_def sample_run_def first_row_def)
      (simp add: publish_db_def)
  then obtain t where t: "(sample_run [10], t) \<in> set ?rows" by blast
  have "get_release_for_test_run_environment publish_db [2] (lit ''dev'') (tr_test_run_id (sample_run [10])) \<noteq> None"
    by (simp add: get_release_for_test_run_environment_def first_row_None publish_tables sample_release_def sample_run_def)
  then have no: "\<not> ca_eligible (?f (sample_run [10], t))"
    using candidate_lookup [of ?collate publish_db "[2]" "lit ''dev''" "tr_test_run_id (sample_run [10])"]
    by (simp add: release_candidate_of_def Let_def)
  have "?f (sample_run [10], t) \<in> set (map ?f ?rows)" using t by simp
  moreover have "distinct (map tr_test_run_id (db_test_runs publish_db))" by (simp add: publish_tables sample_run_def)
  ultimately show ?thesis using candidates_agree [OF listed] listed no by blast
qed

end
