(* ===== verification/Spec2Isabelle.thy ===== *)
theory Spec2Isabelle
  imports Access_Safety Release_Spec Rewrap_Safety Publish_Safety
begin

text \<open>
  The intent routing service: a verification development of the Python package \<open>src/intent_routing\<close> and of the
  commands under \<open>scripts\<close> that work on its database. File names below are relative to \<open>src/intent_routing\<close>
  unless they start with \<open>scripts/\<close> or \<open>docs/\<close>.

  The program. A client (a Dify workflow) sends a query with an API key to the runtime endpoint. The endpoint finds the
  active release of the service and environment of the key, which fixes a policy version, a catalog version (intents
  and example sentences with their embeddings), a vector index and a test run. The engine applies the risk policy,
  searches the examples by vector similarity, scores the intents, and composes a decision: a route key, a question back,
  a risk or off-topic answer, or a fallback. A request is logged with its masked query; the raw query may be kept
  encrypted. Administrators sign in with a session, edit the catalog, create versions, run test cases from CSV files,
  release what passed its gate, issue keys, and let a second person approve a publication or the view of a raw query.

  The way a definition corresponds to the code. One theory per module or per group of handlers, in the order of the
  calls. A function that may raise has a value of type \<open>('e, 'a) outcome\<close>, \<open>Inl\<close> the exception; its early returns
  and guards are in the order of the code. The database is the record \<open>db\<close> of tables, one list of rows per table;
  an operation returns the new database, and a handler that raises leaves none, because its transaction is rolled back.
  Texts are lists of code points (\<open>str\<close>), \<open>int\<close> is unbounded as in Python, a \<open>float\<close> is a rational rounded to
  binary64 after every operation, an ordered \<open>dict\<close> is a list of pairs, times are microseconds in UTC.

  Theories.
    \<^item> Vocabulary: \<open>Prelude\<close> (outcomes and their rules, dictionaries, the stable sort, the locales of machines with
      an invariant), \<open>Py_Text\<close>, \<open>Py_Lower\<close>, \<open>Py_Codec\<close>, \<open>Json\<close>, \<open>Json_Text\<close>, \<open>Float64\<close>, \<open>Clock\<close>: what the
      source uses of the standard library, from its documentation and its Unicode data.
    \<^item> Routing: \<open>Domain_Schemas\<close> (\<open>domain\<close>), \<open>Policy\<close> (\<open>policy\<close>), \<open>Scoring\<close> and \<open>Composer\<close>
      (\<open>routing/scoring.py\<close>), \<open>Engine\<close> (\<open>routing/engine.py\<close>, \<open>routing/release_context.py\<close>), \<open>Pii\<close>
      (\<open>security/pii.py\<close>).
    \<^item> Testing: \<open>Gate\<close> (\<open>testing/gate.py\<close>, \<open>ops/quality_gate.py\<close>), \<open>Csv_Reader\<close>, \<open>Csv_Cases\<close>,
      \<open>Test_Run\<close> (\<open>testing/csv_runner.py\<close>, \<open>testing/risk_pack.py\<close>), \<open>Diagnostics\<close> (\<open>diagnostics\<close>).
    \<^item> Storage: \<open>Models\<close> (\<open>db/models.py\<close>), \<open>Repository\<close>, \<open>Store\<close>, \<open>Log_Store\<close>, \<open>Access_Store\<close>,
      \<open>Governance\<close> (\<open>db/repositories.py\<close>).
    \<^item> Versions: \<open>Releases\<close> (\<open>versions/releases.py\<close>) with its abstract specification \<open>Release_Spec\<close>,
      \<open>Catalogs\<close> (\<open>versions/catalogs.py\<close>).
    \<^item> Security: \<open>Encryption\<close> (\<open>security/encryption.py\<close>, \<open>security/keyring.py\<close>), \<open>Api_Keys\<close>
      (\<open>security/api_keys.py\<close>, \<open>security/api_key_secrets.py\<close>), \<open>Rewrap\<close> and \<open>Rewrap_Safety\<close>
      (\<open>security/rewrap.py\<close>, \<open>scripts/rewrap_raw_text.py\<close>), \<open>Admin_Auth\<close> and \<open>Admin_Login\<close>
      (\<open>security/admin_auth.py\<close> and its neighbours, \<open>api/admin_auth.py\<close>, \<open>api/admin_dependencies.py\<close>).
    \<^item> The runtime endpoint: \<open>Runtime\<close> (\<open>api/runtime.py\<close>, \<open>logging\<close>, the exception handlers of \<open>main.py\<close>),
      \<open>Runtime_Safety\<close>, and \<open>Live_Service\<close> with \<open>Live_Keys\<close>, the concrete service of the witnesses.
    \<^item> The administration endpoints (\<open>api/admin.py\<close>): \<open>Access_Admin\<close>, \<open>Access_Handlers\<close>, \<open>Access_Control\<close>,
      \<open>Access_Safety\<close> (organization, administrators, rights); \<open>Key_Handlers\<close>, \<open>Key_Safety\<close> (services and keys);
      \<open>Catalog_Handlers\<close>, \<open>Catalog_Safety\<close>, \<open>Example_Handlers\<close>, \<open>Example_Safety\<close> (the catalog);
      \<open>Raw_Query_Handlers\<close>, \<open>Raw_Query_Safety\<close> (views of raw queries, and \<open>ops/retention.py\<close>);
      \<open>Release_Handlers\<close>, \<open>Publish_Safety\<close> (policies, test runs, releases, publish requests).

  What the lemmas show. For each table, the operations keep its keys unique and what the code relies on; these
  invariants are proved operation by operation, joined for a step function over all requests of a component, and lifted
  to every sequence of requests by the locales \<open>machine\<close> and \<open>absorbing_machine\<close> (the latter for facts that stay: a
  revoked key, a decided request, an activated publication, a consumed token), which are interpreted on the step
  functions of the releases, the governed actions, the access administration, the keys and the publications. The
  contract of the risk policy towards the engine is the locale \<open>risk_evaluator\<close>, the one of a case format towards the
  CSV parser \<open>case_format\<close>, the one of a masking pattern \<open>masking\<close> with its extension \<open>masking_tail\<close>. The releases
  refine a board that keeps at most one active version per service and environment. Round trips cover CSV files,
  snapshots, envelopes and issued keys; equivalences relate guards, candidates and validators to their specification;
  the gate in floating point is shown equal to the exact integer test.

  Fuel. Only \<open>json_loads\<close> takes fuel, which bounds the depth of its calls. Twice the length of the text plus two is
  always enough, and more changes nothing (\<open>json_loads_fuel\<close>, \<open>json_loads_any_fuel\<close>). The limit of Python's
  recursion depth is another argument: of the runtime endpoint it is a parameter (\<open>rt_json_depth\<close>), and a body beyond
  it takes the path of a \<open>RecursionError\<close>; configured values are taken to be within it. All other loops are structural
  or have a measure.

  Parameters and assumptions.
    \<^item> The embedding provider, the distance of the vector extension, AES-GCM, PBKDF2, SHA-256, random identifiers,
      secrets and nonces, clocks, environment variables and the source address are arguments. Of AES-GCM the theorems
      assume its documented behaviour (\<open>aead_ok\<close>), which the cipher of \<open>Live_Service\<close> has.
    \<^item> The order of text columns is the database's collation, the argument \<open>collate\<close>.
    \<^item> A transaction runs alone: the code takes advisory locks or row locks where it reads before it writes. Foreign
      keys are not checked by the model; where a proof needs one it is a hypothesis. Whether a text can be
      stored (no NUL, no surrogate) is checked for the runtime logs, whose texts come from callers of the runtime
      endpoint; the texts that administrators enter are taken to be storable.
    \<^item> Bodies of requests arrive as pydantic delivers them; a constraint of a field that a handler relies on is a guard of
      the handler or a hypothesis. Validation of stored JSON by pydantic is an argument. Times are in UTC.
    \<^item> NaN and infinite floats are outside the model.

  Not modelled, with the reason.
    \<^item> Handlers that only list or export logs, metrics, audit entries and permission summaries: reads without a decision
      of their own, apart from their guards, which are modelled in \<open>Admin_Auth\<close>.
    \<^item> \<open>embedding\<close>: wrappers of a neural model that is not in the repository. \<open>db/session.py\<close>, \<open>health.py\<close> and the
      wiring of \<open>main.py\<close>: connections and framework. \<open>alembic\<close>: statements that the database executes.
    \<^item> The remaining modules of \<open>ops\<close> and commands of \<open>scripts\<close>: HTTP clients, files and reports around the functions
      modelled here. The console under \<open>frontend\<close> is no Python.
\<close>

end
